(* ===== verification/Prelude.thy ===== *)
theory Prelude
  imports "HOL-Library.Word" "HOL-Library.AList" "HOL-Library.List_Lexorder" "HOL-Library.Char_ord"
    "HOL-Library.Product_Lexorder" "HOL-Library.Code_Target_Numeral"
begin

text \<open>
  What the components share: the parts of Go and of its standard library that the source
  uses everywhere.

  \<^item> A Go \<open>string\<close> or \<open>[]byte\<close> is an Isabelle \<open>string\<close>: a list of \<open>char\<close>, one per byte.
    Where the source ranges over runes, \<open>rune_chunks\<close> cuts the bytes the way
    \<open>utf8.DecodeRune\<close> does (a malformed byte is U+FFFD of width one).
  \<^item> A Go \<open>map[K]V\<close> is an association list (\<open>gomap\<close>) read with \<open>mget\<close> and written with
    \<open>mput\<close> and \<open>mdel\<close>; the components keep its keys distinct.
  \<^item> A \<open>time.Time\<close> is its distance to the Unix epoch in nanoseconds, an \<open>int\<close>; the zero
    \<open>Time\<close> is year one. A \<open>time.Duration\<close> is a number of nanoseconds.
  \<^item> An error return is the \<open>Inl\<close> of a sum; every component has its error datatype.
\<close>

named_theorems go_defs \<open>definitions of the Go primitives that proofs unfold\<close>

section \<open>Bytes and runes\<close>

abbreviation byte :: "char \<Rightarrow> nat" where
  "byte c \<equiv> of_char c"

definition in_range :: "nat \<Rightarrow> nat \<Rightarrow> char \<Rightarrow> bool" where
  "in_range lo hi c \<longleftrightarrow> lo \<le> byte c \<and> byte c \<le> hi"

abbreviation rune_error :: nat where
  "rune_error \<equiv> 65533"

text \<open>\<open>utf8.DecodeRune\<close>: the first rune of the bytes and its width.\<close>

fun decode_rune :: "string \<Rightarrow> nat \<times> nat" where
  "decode_rune [] = (rune_error, 0)"
| "decode_rune (c # cs) =
    (let b = byte c in
     if b < 128 then (b, 1)
     else if b < 194 then (rune_error, 1)
     else if b < 224 then
       (case cs of
          c1 # _ \<Rightarrow>
            if in_range 128 191 c1 then ((b - 192) * 64 + (byte c1 - 128), 2)
            else (rune_error, 1)
        | _ \<Rightarrow> (rune_error, 1))
     else if b < 240 then
       (case cs of
          c1 # c2 # _ \<Rightarrow>
            if in_range (if b = 224 then 160 else 128) (if b = 237 then 159 else 191) c1
              \<and> in_range 128 191 c2
            then ((b - 224) * 4096 + (byte c1 - 128) * 64 + (byte c2 - 128), 3)
            else (rune_error, 1)
        | _ \<Rightarrow> (rune_error, 1))
     else if b < 245 then
       (case cs of
          c1 # c2 # c3 # _ \<Rightarrow>
            if in_range (if b = 240 then 144 else 128) (if b = 244 then 143 else 191) c1
              \<and> in_range 128 191 c2 \<and> in_range 128 191 c3
            then ((b - 240) * 262144 + (byte c1 - 128) * 4096 + (byte c2 - 128) * 64
                  + (byte c3 - 128), 4)
            else (rune_error, 1)
        | _ \<Rightarrow> (rune_error, 1))
     else (rune_error, 1))"

text \<open>The runes of a string in order, each with the bytes it was decoded from.\<close>

fun rune_chunks :: "string \<Rightarrow> (nat \<times> string) list" where
  "rune_chunks [] = []"
| "rune_chunks (c # cs) =
    (let (r, n) = decode_rune (c # cs)
     in (r, take n (c # cs)) # rune_chunks (drop (n - 1) cs))"

declare rune_chunks.simps(2) [simp del]

abbreviation runes :: "string \<Rightarrow> nat list" where
  "runes s \<equiv> map fst (rune_chunks s)"

definition valid_chunk :: "nat \<times> string \<Rightarrow> bool" where
  "valid_chunk ch \<longleftrightarrow> \<not> (fst ch = rune_error \<and> length (snd ch) = 1)"

text \<open>\<open>utf8.ValidString\<close>.\<close>

definition utf8_valid :: "string \<Rightarrow> bool" where
  "utf8_valid s \<longleftrightarrow> list_all valid_chunk (rune_chunks s)"

text \<open>\<open>unicode.IsControl\<close> (the category Cc) and \<open>unicode.IsSpace\<close>.\<close>

definition is_control :: "nat \<Rightarrow> bool" where
  "is_control r \<longleftrightarrow> r < 32 \<or> (127 \<le> r \<and> r \<le> 159)"

definition is_space :: "nat \<Rightarrow> bool" where
  "is_space r \<longleftrightarrow> (9 \<le> r \<and> r \<le> 13) \<or> r = 32 \<or> r = 133 \<or> r = 160 \<or> r = 5760
     \<or> (8192 \<le> r \<and> r \<le> 8202) \<or> r = 8232 \<or> r = 8233 \<or> r = 8239 \<or> r = 8287 \<or> r = 12288"

definition has_control :: "string \<Rightarrow> bool" where
  "has_control s \<longleftrightarrow> list_ex is_control (runes s)"

text \<open>\<open>strings.TrimSpace\<close> (and \<open>bytes.TrimSpace\<close>), which trims Unicode space.\<close>

definition trim_space :: "string \<Rightarrow> string" where
  "trim_space s =
    concat (map snd
      (rev (dropWhile (\<lambda>ch. is_space (fst ch))
        (rev (dropWhile (\<lambda>ch. is_space (fst ch)) (rune_chunks s))))))"

text \<open>
  \<open>strings.ToLower\<close> and \<open>strings.ToUpper\<close> on the runes the program can tell apart: the
  ASCII letters, and the two runes whose lower case is an ASCII letter (U+0130 and U+212A).
  Go also maps the letters of other scripts to letters of other scripts; the program only
  compares the results with ASCII words, which no such letter can complete.
\<close>

definition lower_byte :: "char \<Rightarrow> char" where
  "lower_byte c = (if in_range 65 90 c then char_of (byte c + 32) else c)"

definition lower_chunk :: "nat \<times> string \<Rightarrow> string" where
  "lower_chunk ch =
    (if fst ch = 304 then ''i'' else if fst ch = 8490 then ''k'' else map lower_byte (snd ch))"

definition to_lower :: "string \<Rightarrow> string" where
  "to_lower s = concat (map lower_chunk (rune_chunks s))"

text \<open>\<open>strings.HasPrefix\<close>, \<open>strings.HasSuffix\<close>, \<open>strings.Contains\<close>, \<open>strings.Split\<close> at a byte.\<close>

fun has_prefix :: "string \<Rightarrow> string \<Rightarrow> bool" where
  "has_prefix s [] = True"
| "has_prefix [] (p # ps) = False"
| "has_prefix (c # cs) (p # ps) = (c = p \<and> has_prefix cs ps)"

definition has_suffix :: "string \<Rightarrow> string \<Rightarrow> bool" where
  "has_suffix s p = has_prefix (rev s) (rev p)"

fun str_contains :: "string \<Rightarrow> string \<Rightarrow> bool" where
  "str_contains [] p = (p = [])"
| "str_contains (c # cs) p = (has_prefix (c # cs) p \<or> str_contains cs p)"

fun split_at :: "char \<Rightarrow> string \<Rightarrow> string list" where
  "split_at d [] = [[]]"
| "split_at d (c # cs) =
    (if c = d then [] # split_at d cs
     else case split_at d cs of [] \<Rightarrow> [[c]] | w # ws \<Rightarrow> (c # w) # ws)"

text \<open>The rune class \<open>[A-Za-z0-9._:-]\<close> that most identifiers of the program must stay in.\<close>

definition label_rune :: "nat \<Rightarrow> bool" where
  "label_rune r \<longleftrightarrow> (97 \<le> r \<and> r \<le> 122) \<or> (65 \<le> r \<and> r \<le> 90) \<or> (48 \<le> r \<and> r \<le> 57)
     \<or> r = 46 \<or> r = 95 \<or> r = 58 \<or> r = 45"

definition lower_hex :: "char \<Rightarrow> bool" where
  "lower_hex c \<longleftrightarrow> in_range 48 57 c \<or> in_range 97 102 c"

definition any_hex :: "char \<Rightarrow> bool" where
  "any_hex c \<longleftrightarrow> in_range 48 57 c \<or> in_range 97 102 c \<or> in_range 65 70 c"

text \<open>The regular expressions \<open>^sha256:[0-9a-f]{64}$\<close> and \<open>^[0-9a-fA-F]{64}$\<close>.\<close>

definition sha256_pattern :: "string \<Rightarrow> bool" where
  "sha256_pattern s \<longleftrightarrow> length s = 71 \<and> take 7 s = ''sha256:'' \<and> list_all lower_hex (drop 7 s)"

definition hex64_pattern :: "string \<Rightarrow> bool" where
  "hex64_pattern s \<longleftrightarrow> length s = 64 \<and> list_all any_hex s"

definition hex_digit :: "nat \<Rightarrow> char" where
  "hex_digit n = (if n < 10 then char_of (48 + n) else char_of (87 + n))"

text \<open>\<open>hex.EncodeToString\<close>.\<close>

definition hex_encode :: "string \<Rightarrow> string" where
  "hex_encode s = concat (map (\<lambda>c. [hex_digit (byte c div 16), hex_digit (byte c mod 16)]) s)"

section \<open>Go maps\<close>

type_synonym ('k, 'v) gomap = "('k \<times> 'v) list"

definition mget :: "('k, 'v) gomap \<Rightarrow> 'k \<Rightarrow> 'v option" where
  "mget m k = map_of m k"

definition mput :: "'k \<Rightarrow> 'v \<Rightarrow> ('k, 'v) gomap \<Rightarrow> ('k, 'v) gomap" where
  "mput k v m = AList.update k v m"

definition mdel :: "'k \<Rightarrow> ('k, 'v) gomap \<Rightarrow> ('k, 'v) gomap" where
  "mdel k m = AList.delete k m"

text \<open>A \<open>for k, v := range m\<close> loop that stores \<open>f k v\<close> back under every key.\<close>

definition mupdate_all :: "('k \<Rightarrow> 'v \<Rightarrow> 'v) \<Rightarrow> ('k, 'v) gomap \<Rightarrow> ('k, 'v) gomap" where
  "mupdate_all f m = map (\<lambda>(k, v). (k, f k v)) m"

text \<open>A \<open>for k, v := range m\<close> loop that deletes the entries where \<open>p\<close> fails.\<close>

definition mretain :: "('k \<Rightarrow> 'v \<Rightarrow> bool) \<Rightarrow> ('k, 'v) gomap \<Rightarrow> ('k, 'v) gomap" where
  "mretain p m = filter (\<lambda>(k, v). p k v) m"

definition mkeys :: "('k, 'v) gomap \<Rightarrow> 'k set" where
  "mkeys m = fst ` set m"

definition map_wf :: "('k, 'v) gomap \<Rightarrow> bool" where
  "map_wf m \<longleftrightarrow> distinct (map fst m)"

lemma mget_Nil [simp]: "mget [] k = None"
  by (simp add: mget_def)

lemma mget_mput [simp]: "mget (mput k v m) k' = (if k' = k then Some v else mget m k')"
  by (simp add: mget_def mput_def update_conv)

lemma mget_mdel [simp]: "mget (mdel k m) k' = (if k' = k then None else mget m k')"
  by (simp add: mget_def mdel_def delete_conv)

lemma mget_mupdate_all [simp]: "mget (mupdate_all f m) k = map_option (f k) (mget m k)"
  by (induction m) (auto simp: mget_def mupdate_all_def)

lemma mget_mretain:
  "map_wf m \<Longrightarrow> mget (mretain p m) k = (case mget m k of None \<Rightarrow> None | Some v \<Rightarrow> if p k v then Some v else None)"
proof (induction m)
  case Nil
  then show ?case by (simp add: mretain_def)
next
  case (Cons e m)
  have "\<not> p k v \<Longrightarrow> fst e = k \<Longrightarrow> mget (mretain p m) k = None" for v
    using Cons.prems
    by (auto simp: mget_def mretain_def map_wf_def map_of_eq_None_iff)
  with Cons show ?case
    by (auto simp: mget_def mretain_def map_wf_def split: prod.splits)
qed

lemma mget_Some_in: "mget m k = Some v \<Longrightarrow> (k, v) \<in> set m"
  by (simp add: mget_def map_of_SomeD)

lemma mget_iff_in: "map_wf m \<Longrightarrow> mget m k = Some v \<longleftrightarrow> (k, v) \<in> set m"
  by (simp add: mget_def map_wf_def)

lemma map_wf_Nil [simp]: "map_wf []"
  by (simp add: map_wf_def)

lemma map_wf_mput [simp]: "map_wf m \<Longrightarrow> map_wf (mput k v m)"
  by (simp add: map_wf_def mput_def distinct_update)

lemma map_wf_mdel [simp]: "map_wf m \<Longrightarrow> map_wf (mdel k m)"
  by (simp add: map_wf_def mdel_def distinct_delete)

lemma map_wf_mupdate_all [simp]: "map_wf (mupdate_all f m) = map_wf m"
proof -
  have "map fst (mupdate_all f m) = map fst m"
    by (simp add: mupdate_all_def case_prod_unfold)
  then show ?thesis by (simp add: map_wf_def)
qed

lemma map_wf_mretain [simp]: "map_wf m \<Longrightarrow> map_wf (mretain p m)"
  by (simp add: map_wf_def mretain_def distinct_map_filter)

section \<open>Time\<close>

type_synonym time = int
type_synonym duration = int

abbreviation second :: duration where
  "second \<equiv> 1000000000"

abbreviation millisecond :: duration where
  "millisecond \<equiv> 1000000"

definition zero_time :: time where
  "zero_time = - 62135596800000000000"

definition max_int64 :: int where
  "max_int64 = 9223372036854775807"

definition min_int64 :: int where
  "min_int64 = - 9223372036854775808"

text \<open>Conversion to \<open>int64\<close>, which keeps the low 64 bits.\<close>

definition wrap64 :: "int \<Rightarrow> int" where
  "wrap64 n = (n + 9223372036854775808) mod 18446744073709551616 - 9223372036854775808"

text \<open>
  \<open>time.Unix(sec, 0)\<close> adds the seconds from year one to the epoch in \<open>int64\<close> arithmetic, so
  a second count near the top of the range wraps to a time before year one.
\<close>

definition time_unix :: "int \<Rightarrow> time" where
  "time_unix s = (wrap64 (s + 62135596800) - 62135596800) * second"

text \<open>\<open>t.Unix()\<close>, \<open>t.Truncate(time.Second)\<close>, and \<open>t.Sub(u)\<close>, which saturates.\<close>

definition unix_of :: "time \<Rightarrow> int" where
  "unix_of t = t div second"

definition time_truncate_second :: "time \<Rightarrow> time" where
  "time_truncate_second t = unix_of t * second"

definition time_sub :: "time \<Rightarrow> time \<Rightarrow> duration" where
  "time_sub t u =
    (if t - u > max_int64 then max_int64 else if t - u < min_int64 then min_int64 else t - u)"

text \<open>\<open>d.Truncate(time.Second)\<close> rounds towards zero; \<open>d.Milliseconds()\<close> divides towards zero.\<close>

definition quot :: "int \<Rightarrow> int \<Rightarrow> int" where
  "quot a b = sgn a * (\<bar>a\<bar> div b)"

definition dur_truncate_second :: "duration \<Rightarrow> duration" where
  "dur_truncate_second d = quot d second * second"

definition dur_milliseconds :: "duration \<Rightarrow> int" where
  "dur_milliseconds d = quot d millisecond"

lemma wrap64_id [simp]: "min_int64 \<le> n \<Longrightarrow> n \<le> max_int64 \<Longrightarrow> wrap64 n = n"
  by (simp add: wrap64_def min_int64_def max_int64_def)

lemma time_unix_small: "- 62135596800 \<le> s \<Longrightarrow> s \<le> 9223371974719179007 \<Longrightarrow> time_unix s = s * second"
  by (simp add: time_unix_def min_int64_def max_int64_def)

lemma unix_of_unix [simp]: "unix_of (s * second) = s"
  by (simp add: unix_of_def)

section \<open>Lists\<close>

text \<open>The \<open>contains\<close> helper that several packages declare.\<close>

fun contains :: "'a list \<Rightarrow> 'a \<Rightarrow> bool" where
  "contains [] t = False"
| "contains (x # xs) t = (x = t \<or> contains xs t)"

lemma contains_iff [simp]: "contains xs t \<longleftrightarrow> t \<in> set xs"
  by (induction xs) auto

section \<open>Facts about bytes and runes\<close>

lemma has_prefix_iff: "has_prefix s p \<longleftrightarrow> (\<exists>t. s = p @ t)"
  by (induction s p rule: has_prefix.induct) auto

lemma decode_rune_width: "s \<noteq> [] \<Longrightarrow> 1 \<le> snd (decode_rune s) \<and> snd (decode_rune s) \<le> length s"
  by (cases s) (auto simp: Let_def split: list.splits)

lemma concat_chunks [simp]: "concat (map snd (rune_chunks s)) = s"
proof (induction s rule: rune_chunks.induct)
  case 1
  show ?case by simp
next
  case (2 c cs)
  obtain r n where d: "decode_rune (c # cs) = (r, n)" by fastforce
  have n: "1 \<le> n" using decode_rune_width [of "c # cs"] d by simp
  have "take n (c # cs) = c # take (n - 1) cs" using n by (cases n) auto
  with 2 [OF d [symmetric]] d show ?case by (simp add: rune_chunks.simps(2))
qed

definition ascii :: "string \<Rightarrow> bool" where
  "ascii s \<longleftrightarrow> list_all (\<lambda>c. byte c < 128) s"

lemma chunks_ascii_Cons [simp]:
  "byte c < 128 \<Longrightarrow> rune_chunks (c # cs) = (byte c, [c]) # rune_chunks cs"
  by (simp add: rune_chunks.simps(2))

lemma chunks_ascii: "ascii s \<Longrightarrow> rune_chunks s = map (\<lambda>c. (byte c, [c])) s"
  by (induction s) (auto simp: ascii_def)

lemma utf8_valid_ascii: "ascii s \<Longrightarrow> utf8_valid s"
  by (fastforce simp: utf8_valid_def chunks_ascii list_all_iff valid_chunk_def ascii_def)

lemma length_hex_encode [simp]: "length (hex_encode s) = 2 * length s"
  by (induction s) (auto simp: hex_encode_def)

lemma lower_hex_digit: "n < 16 \<Longrightarrow> lower_hex (hex_digit n)"
  by (auto simp: hex_digit_def lower_hex_def in_range_def)

lemma lower_hex_encode [simp]: "list_all lower_hex (hex_encode s)"
proof (induction s)
  case Nil
  show ?case by (simp add: hex_encode_def)
next
  case (Cons c s)
  have "byte c < 256" by simp
  then have "byte c div 16 < 16" by linarith
  then show ?case using Cons by (simp add: hex_encode_def lower_hex_digit)
qed

lemma sha256_pattern_hex: "length h = 32 \<Longrightarrow> sha256_pattern (''sha256:'' @ hex_encode h)"
  by (simp add: sha256_pattern_def)

lemma sha256_pattern_nonempty [simp]: "\<not> sha256_pattern []"
  by (simp add: sha256_pattern_def)

end
