(* ===== verification/Json.thy ===== *)
theory Json
  imports Prelude
begin

text \<open>
  The deterministic JSON of \<open>internal/canonicalaction/action.go\<close>: the checks made on the raw
  bytes, the reader over the tokens of \<open>encoding/json\<close>, the exact normalisation of numbers
  and the canonical writer.

  \<open>read_value strict\<close> is the reader. With \<open>strict\<close> it is \<open>readJSONValue\<close>: it bounds the
  nesting, rejects a repeated object key and normalises every number. Without it is the
  grammar of \<open>encoding/json\<close> alone, which keeps the text of a number and every member in
  order: \<open>json.Unmarshal\<close> into a struct starts from it.
\<close>

datatype json_error =
    InvalidJSON
  | DuplicateObjectKey string
  | ArgumentsTooLarge
  | OutOfFuel \<comment> \<open>never returned by \<open>parseJSON\<close>: see \<open>parseJSON_fuel\<close>\<close>

datatype json =
    JNull
  | JBool bool
  | JNum string
  | JStr string
  | JArr "json list"
  | JObj "(string \<times> json) list"

definition MaxArgumentsBytes :: nat where
  "MaxArgumentsBytes = 1048576"

definition maxJSONDepth :: nat where
  "maxJSONDepth = 64"

abbreviation quote_char :: char where "quote_char \<equiv> CHR 0x22"
abbreviation backslash :: char where "backslash \<equiv> CHR 0x5C"

section \<open>String encoding\<close>

definition is_digit :: "char \<Rightarrow> bool" where
  "is_digit c \<longleftrightarrow> in_range 48 57 c"

definition hex_val :: "char \<Rightarrow> nat option" where
  "hex_val c =
    (if in_range 48 57 c then Some (byte c - 48)
     else if in_range 97 102 c then Some (byte c - 87)
     else if in_range 65 70 c then Some (byte c - 55)
     else None)"

definition hex4 :: "char \<Rightarrow> char \<Rightarrow> char \<Rightarrow> char \<Rightarrow> nat option" where
  "hex4 a b c d =
    (case (hex_val a, hex_val b, hex_val c, hex_val d) of
       (Some w, Some x, Some y, Some z) \<Rightarrow> Some (w * 4096 + x * 256 + y * 16 + z)
     | _ \<Rightarrow> None)"

text \<open>\<open>readUTF16Escape\<close>, on the bytes from the \<open>u\<close> on: the code unit and the bytes after it.\<close>

fun readUTF16Escape :: "string \<Rightarrow> (nat \<times> string) option" where
  "readUTF16Escape (u # a # b # c # d # rest) = map_option (\<lambda>v. (v, rest)) (hex4 a b c d)"
| "readUTF16Escape _ = None"

lemma readUTF16Escape_shorter: "readUTF16Escape s = Some (v, r) \<Longrightarrow> length r < length s"
  by (cases s rule: readUTF16Escape.cases) auto

text \<open>
  \<open>validateJSONStringEncoding\<close>. The flag says whether the loop is inside a string; every
  failure is the error \<open>InvalidJSON\<close>.
\<close>

function check_strings :: "bool \<Rightarrow> string \<Rightarrow> bool" where
  "check_strings inside [] = True"
| "check_strings False (c # cs) = (if c = quote_char then check_strings True cs else check_strings False cs)"
| "check_strings True (c # cs) =
    (if c = quote_char then check_strings False cs
     else if c \<noteq> backslash then check_strings True (drop (snd (decode_rune (c # cs)) - 1) cs)
     else case cs of
       [] \<Rightarrow> False
     | e # es \<Rightarrow>
         if e \<noteq> CHR ''u'' then check_strings True es
         else case readUTF16Escape cs of
           None \<Rightarrow> False
         | Some (cp, next) \<Rightarrow>
             if 0xD800 \<le> cp \<and> cp \<le> 0xDBFF then
               case next of
                 b # u # x # more \<Rightarrow>
                   if b \<noteq> backslash \<or> u \<noteq> CHR ''u'' then False
                   else (case readUTF16Escape (u # x # more) of
                       None \<Rightarrow> False
                     | Some (low, lowNext) \<Rightarrow>
                         if low < 0xDC00 \<or> low > 0xDFFF then False else check_strings True lowNext)
               | _ \<Rightarrow> False
             else if 0xDC00 \<le> cp \<and> cp \<le> 0xDFFF then False
             else check_strings True next)"
  by pat_completeness auto
termination
  by (relation "measure (\<lambda>(_, s). length s)") (auto dest!: readUTF16Escape_shorter)

definition validateJSONStringEncoding :: "string \<Rightarrow> bool" where
  "validateJSONStringEncoding input \<longleftrightarrow> utf8_valid input \<and> check_strings False input"

section \<open>Numbers\<close>

text \<open>The decimal value of a digit string, and the decimal text of a number.\<close>

definition dec_val :: "string \<Rightarrow> nat" where
  "dec_val ds = foldl (\<lambda>n c. n * 10 + (byte c - 48)) 0 ds"

fun show_nat :: "nat \<Rightarrow> string" where
  "show_nat n = (if n < 10 then [char_of (48 + n)] else show_nat (n div 10) @ [char_of (48 + n mod 10)])"

declare show_nat.simps [simp del]

definition show_int :: "int \<Rightarrow> string" where
  "show_int i = (if i < 0 then CHR ''-'' # show_nat (nat (- i)) else show_nat (nat i))"

text \<open>\<open>strconv.ParseInt(s, 10, 64)\<close>.\<close>

definition parse_int64 :: "string \<Rightarrow> int option" where
  "parse_int64 s =
    (let neg = (case s of c # _ \<Rightarrow> c = CHR ''-'' | [] \<Rightarrow> False);
         ds = (case s of c # cs \<Rightarrow> if c = CHR ''-'' \<or> c = CHR ''+'' then cs else s | [] \<Rightarrow> []);
         v = (if neg then - int (dec_val ds) else int (dec_val ds))
     in if ds = [] \<or> \<not> list_all is_digit ds \<or> v < min_int64 \<or> v > max_int64 then None else Some v)"

text \<open>The regular expression \<open>^-?(0|[1-9][0-9]*)(\.[0-9]+)?([eE][+-]?[0-9]+)?$\<close>.\<close>

definition lex_digits :: "string \<Rightarrow> (string \<times> string) option" where
  "lex_digits s =
    (if takeWhile is_digit s = [] then None else Some (takeWhile is_digit s, dropWhile is_digit s))"

definition lex_minus :: "string \<Rightarrow> string \<times> string" where
  "lex_minus s = (case s of c # cs \<Rightarrow> if c = CHR ''-'' then ([c], cs) else ([], s) | [] \<Rightarrow> ([], []))"

definition lex_int :: "string \<Rightarrow> (string \<times> string) option" where
  "lex_int s = (case s of [] \<Rightarrow> None | c # cs \<Rightarrow> if c = CHR ''0'' then Some ([c], cs) else lex_digits s)"

definition lex_frac :: "string \<Rightarrow> (string \<times> string) option" where
  "lex_frac s =
    (case s of
       [] \<Rightarrow> Some ([], [])
     | c # cs \<Rightarrow>
         if c = CHR ''.'' then map_option (\<lambda>(d, r). (c # d, r)) (lex_digits cs) else Some ([], s))"

definition lex_exp :: "string \<Rightarrow> (string \<times> string) option" where
  "lex_exp s =
    (case s of
       [] \<Rightarrow> Some ([], [])
     | c # cs \<Rightarrow>
         if c = CHR ''e'' \<or> c = CHR ''E'' then
           (case cs of
              [] \<Rightarrow> None
            | g # gs \<Rightarrow>
                if g = CHR ''+'' \<or> g = CHR ''-''
                then map_option (\<lambda>(d, r). (c # g # d, r)) (lex_digits gs)
                else map_option (\<lambda>(d, r). (c # d, r)) (lex_digits cs))
         else Some ([], s))"

definition lex_number :: "string \<Rightarrow> (string \<times> string) option" where
  "lex_number s =
    (let (m, s1) = lex_minus s in
     case lex_int s1 of None \<Rightarrow> None | Some (i, s2) \<Rightarrow>
     (case lex_frac s2 of None \<Rightarrow> None | Some (f, s3) \<Rightarrow>
     (case lex_exp s3 of None \<Rightarrow> None | Some (e, s4) \<Rightarrow> Some (m @ i @ f @ e, s4))))"

definition json_number_pattern :: "string \<Rightarrow> bool" where
  "json_number_pattern s \<longleftrightarrow> (\<exists>t. lex_number s = Some (t, []))"

lemma json_number_pattern_code [code]:
  "json_number_pattern s = (case lex_number s of Some (t, r) \<Rightarrow> r = [] | None \<Rightarrow> False)"
  by (auto simp: json_number_pattern_def split: option.splits)

text \<open>
  The loop that drops the trailing zeros of a digit string (all but its last digit) and
  counts them into the exponent.
\<close>

fun drop_zeros :: "string \<Rightarrow> int \<Rightarrow> string \<times> int" where
  "drop_zeros ds e =
    (if 1 < length ds \<and> last ds = CHR ''0'' then drop_zeros (butlast ds) (e + 1) else (ds, e))"

declare drop_zeros.simps [simp del]

definition exponent_ok :: "int \<Rightarrow> bool" where
  "exponent_ok e \<longleftrightarrow> - 1000000 \<le> e \<and> e \<le> 1000000"

text \<open>The text before and after the first character of a class (\<open>strings.IndexAny\<close>).\<close>

definition split_first :: "(char \<Rightarrow> bool) \<Rightarrow> string \<Rightarrow> (string \<times> string) option" where
  "split_first p s =
    (case dropWhile (\<lambda>c. \<not> p c) s of [] \<Rightarrow> None | _ # r \<Rightarrow> Some (takeWhile (\<lambda>c. \<not> p c) s, r))"

text \<open>The three parts of \<open>normalizeJSONNumber\<close>: exponent, decimal point, significant digits.\<close>

definition exponent_part :: "string \<Rightarrow> (int \<times> string) option" where
  "exponent_part text =
    (case split_first (\<lambda>c. c = CHR ''e'' \<or> c = CHR ''E'') text of
       None \<Rightarrow> Some (0, text)
     | Some (before, after) \<Rightarrow> map_option (\<lambda>e. (e, before)) (parse_int64 after))"

definition fraction_part :: "string \<Rightarrow> string \<times> string" where
  "fraction_part mantissa =
    (case split_first (\<lambda>c. c = CHR ''.'') mantissa of None \<Rightarrow> (mantissa, []) | Some (w, f) \<Rightarrow> (w, f))"

definition significant_part :: "bool \<Rightarrow> string \<Rightarrow> int \<Rightarrow> json_error + string" where
  "significant_part negative ds e0 =
    (let stripped = dropWhile (\<lambda>c. c = CHR ''0'') ds
     in if stripped = [] then Inr ''0''
        else
          let (digits, e) = drop_zeros stripped e0
          in if \<not> exponent_ok e then Inl InvalidJSON
             else
               let signed = (if negative then CHR ''-'' # digits else digits)
               in Inr (if e = 0 then signed else signed @ ''e'' @ show_int e))"

definition normalizeJSONNumber :: "string \<Rightarrow> json_error + string" where
  "normalizeJSONNumber input =
    (if \<not> json_number_pattern input then Inl InvalidJSON
     else
       let negative = has_prefix input ''-'';
           unsigned = (if negative then tl input else input)
       in case exponent_part unsigned of
            None \<Rightarrow> Inl InvalidJSON
          | Some (exponent, mantissa) \<Rightarrow>
              if \<not> exponent_ok exponent then Inl InvalidJSON
              else
                let (whole, frac) = fraction_part mantissa
                in if length frac > 1000000 \<or> \<not> exponent_ok (exponent - int (length frac))
                   then Inl InvalidJSON
                   else significant_part negative (whole @ frac) (exponent - int (length frac)))"

section \<open>The reader\<close>

definition json_ws :: "char \<Rightarrow> bool" where
  "json_ws c \<longleftrightarrow> c = CHR '' '' \<or> c = CHR 0x09 \<or> c = CHR 0x0A \<or> c = CHR 0x0D"

definition skip_ws :: "string \<Rightarrow> string" where
  "skip_ws s = dropWhile json_ws s"

text \<open>\<open>utf8.AppendRune\<close>.\<close>

definition encode_rune :: "nat \<Rightarrow> string" where
  "encode_rune r =
    (if r < 128 then [char_of r]
     else if r < 2048 then [char_of (192 + r div 64), char_of (128 + r mod 64)]
     else if 0x10FFFF < r \<or> (0xD800 \<le> r \<and> r \<le> 0xDFFF) then [CHR 0xEF, CHR 0xBF, CHR 0xBD]
     else if r < 65536 then
       [char_of (224 + r div 4096), char_of (128 + r div 64 mod 64), char_of (128 + r mod 64)]
     else
       [char_of (240 + r div 262144), char_of (128 + r div 4096 mod 64),
        char_of (128 + r div 64 mod 64), char_of (128 + r mod 64)])"

definition simple_escape :: "char \<Rightarrow> char option" where
  "simple_escape e =
    (if e = quote_char \<or> e = backslash \<or> e = CHR ''/'' then Some e
     else if e = CHR ''b'' then Some (CHR 0x08)
     else if e = CHR ''f'' then Some (CHR 0x0C)
     else if e = CHR ''n'' then Some (CHR 0x0A)
     else if e = CHR ''r'' then Some (CHR 0x0D)
     else if e = CHR ''t'' then Some (CHR 0x09)
     else None)"

text \<open>
  A string literal from after its opening quote, as \<open>encoding/json\<close> scans and unquotes it: the
  decoded bytes and what follows the closing quote. A lone surrogate escape or a malformed
  byte becomes U+FFFD.
\<close>

function lex_string :: "string \<Rightarrow> (string \<times> string) option" where
  "lex_string [] = None"
| "lex_string (c # cs) =
    (if c = quote_char then Some ([], cs)
     else if byte c < 32 then None
     else if c \<noteq> backslash then
       (let (r, n) = decode_rune (c # cs);
            bs = (if r = rune_error \<and> n = 1 then encode_rune rune_error else take n (c # cs))
        in map_option (\<lambda>(t, rest). (bs @ t, rest)) (lex_string (drop (n - 1) cs)))
     else case cs of
       [] \<Rightarrow> None
     | e # es \<Rightarrow>
         if e \<noteq> CHR ''u'' then
           (case simple_escape e of
              None \<Rightarrow> None
            | Some b \<Rightarrow> map_option (\<lambda>(t, rest). (b # t, rest)) (lex_string es))
         else case readUTF16Escape cs of
           None \<Rightarrow> None
         | Some (cp, next) \<Rightarrow>
             if 0xD800 \<le> cp \<and> cp \<le> 0xDBFF then
               (case (case next of
                        b # u # more \<Rightarrow>
                          if b = backslash \<and> u = CHR ''u'' then readUTF16Escape (u # more) else None
                      | _ \<Rightarrow> None) of
                  Some (low, lowNext) \<Rightarrow>
                    if 0xDC00 \<le> low \<and> low \<le> 0xDFFF \<and> length lowNext < length next then
                      map_option (\<lambda>(t, rest).
                          (encode_rune (65536 + (cp - 0xD800) * 1024 + (low - 0xDC00)) @ t, rest))
                        (lex_string lowNext)
                    else map_option (\<lambda>(t, rest). (encode_rune rune_error @ t, rest)) (lex_string next)
                | None \<Rightarrow>
                    map_option (\<lambda>(t, rest). (encode_rune rune_error @ t, rest)) (lex_string next))
             else map_option (\<lambda>(t, rest). (encode_rune cp @ t, rest)) (lex_string next))"
  by pat_completeness auto
termination
  by (relation "measure length") (auto dest!: readUTF16Escape_shorter)

declare lex_string.simps(2) [simp del]

definition number_text :: "bool \<Rightarrow> string \<Rightarrow> json_error + string" where
  "number_text strict t = (if strict then normalizeJSONNumber t else Inr t)"

definition lex_literal :: "string \<Rightarrow> (json \<times> string) option" where
  "lex_literal s =
    (if has_prefix s ''true'' then Some (JBool True, drop 4 s)
     else if has_prefix s ''false'' then Some (JBool False, drop 5 s)
     else if has_prefix s ''null'' then Some (JNull, drop 4 s)
     else None)"

text \<open>
  The reader. \<open>decoder.Token\<close> skips white space and the comma or colon that the grammar wants
  at its place; \<open>decoder.More\<close> looks at the next character. The members read so far are an
  association list in the order of the text.

  \<open>next_member\<close> is \<open>decoder.More\<close> and the key token after it: \<open>None\<close> when the object closes
  here, with the text after the brace.
\<close>

definition next_member :: "bool \<Rightarrow> string \<Rightarrow> json_error + (string option \<times> string)" where
  "next_member first s =
    (case skip_ws s of
       [] \<Rightarrow> Inl InvalidJSON
     | c # cs \<Rightarrow>
         if c = CHR ''}'' then Inr (None, cs)
         else if \<not> first \<and> c \<noteq> CHR '','' then Inl InvalidJSON
         else (case (if first then c # cs else skip_ws cs) of
           [] \<Rightarrow> Inl InvalidJSON
         | q # qs \<Rightarrow>
             if q \<noteq> quote_char then Inl InvalidJSON
             else (case lex_string qs of
               None \<Rightarrow> Inl InvalidJSON
             | Some (key, r) \<Rightarrow> Inr (Some key, r))))"

definition skip_colon :: "string \<Rightarrow> string option" where
  "skip_colon s = (case skip_ws s of [] \<Rightarrow> None | k # ks \<Rightarrow> if k = CHR '':'' then Some ks else None)"

text \<open>The same for an array: whether an element follows, and the text it starts in.\<close>

definition next_element :: "bool \<Rightarrow> string \<Rightarrow> json_error + (bool \<times> string)" where
  "next_element first s =
    (case skip_ws s of
       [] \<Rightarrow> Inl InvalidJSON
     | c # cs \<Rightarrow>
         if c = CHR '']'' then Inr (False, cs)
         else if first then Inr (True, c # cs)
         else if c = CHR '','' then Inr (True, cs)
         else Inl InvalidJSON)"

text \<open>A token that is a value by itself: a string, a number or a literal.\<close>

definition read_scalar :: "bool \<Rightarrow> string \<Rightarrow> json_error + (json \<times> string)" where
  "read_scalar strict s =
    (case s of
       [] \<Rightarrow> Inl InvalidJSON
     | c # cs \<Rightarrow>
         if c = quote_char then
           (case lex_string cs of None \<Rightarrow> Inl InvalidJSON | Some (t, r) \<Rightarrow> Inr (JStr t, r))
         else if c = CHR ''-'' \<or> is_digit c then
           (case lex_number s of
              None \<Rightarrow> Inl InvalidJSON
            | Some (t, r) \<Rightarrow>
                (case number_text strict t of Inl e \<Rightarrow> Inl e | Inr n \<Rightarrow> Inr (JNum n, r)))
         else (case lex_literal s of None \<Rightarrow> Inl InvalidJSON | Some (v, r) \<Rightarrow> Inr (v, r)))"

fun read_value :: "bool \<Rightarrow> nat \<Rightarrow> nat \<Rightarrow> string \<Rightarrow> json_error + (json \<times> string)"
and read_members :: "bool \<Rightarrow> nat \<Rightarrow> nat \<Rightarrow> bool \<Rightarrow> (string \<times> json) list \<Rightarrow> string
      \<Rightarrow> json_error + ((string \<times> json) list \<times> string)"
and read_elements :: "bool \<Rightarrow> nat \<Rightarrow> nat \<Rightarrow> bool \<Rightarrow> json list \<Rightarrow> string
      \<Rightarrow> json_error + (json list \<times> string)"
where
  "read_value strict 0 depth s = Inl OutOfFuel"
| "read_value strict (Suc fuel) depth s =
    (if strict \<and> depth > maxJSONDepth then Inl InvalidJSON
     else if has_prefix (skip_ws s) ''{'' then
       (case read_members strict fuel depth True [] (tl (skip_ws s)) of
          Inl e \<Rightarrow> Inl e | Inr (ms, r) \<Rightarrow> Inr (JObj ms, r))
     else if has_prefix (skip_ws s) ''['' then
       (case read_elements strict fuel depth True [] (tl (skip_ws s)) of
          Inl e \<Rightarrow> Inl e | Inr (xs, r) \<Rightarrow> Inr (JArr xs, r))
     else read_scalar strict (skip_ws s))"
| "read_members strict 0 depth first acc s = Inl OutOfFuel"
| "read_members strict (Suc fuel) depth first acc s =
    (case next_member first s of
       Inl e \<Rightarrow> Inl e
     | Inr (None, r) \<Rightarrow> Inr (acc, r)
     | Inr (Some key, r) \<Rightarrow>
         if strict \<and> mget acc key \<noteq> None then Inl (DuplicateObjectKey key)
         else (case skip_colon r of
           None \<Rightarrow> Inl InvalidJSON
         | Some ks \<Rightarrow>
             (case read_value strict fuel (depth + 1) ks of
                Inl e \<Rightarrow> Inl e
              | Inr (v, r2) \<Rightarrow> read_members strict fuel depth False (acc @ [(key, v)]) r2)))"
| "read_elements strict 0 depth first acc s = Inl OutOfFuel"
| "read_elements strict (Suc fuel) depth first acc s =
    (case next_element first s of
       Inl e \<Rightarrow> Inl e
     | Inr (more, r) \<Rightarrow>
         if \<not> more then Inr (acc, r)
         else (case read_value strict fuel (depth + 1) r of
            Inl e \<Rightarrow> Inl e
          | Inr (v, r2) \<Rightarrow> read_elements strict fuel depth False (acc @ [v]) r2))"

definition reader_fuel :: "string \<Rightarrow> nat" where
  "reader_fuel s = 2 * length s + 2"

text \<open>A whole document: one value, then nothing but white space.\<close>

definition read_document :: "bool \<Rightarrow> string \<Rightarrow> json_error + json" where
  "read_document strict s =
    (case read_value strict (reader_fuel s) 0 s of
       Inl e \<Rightarrow> Inl e
     | Inr (v, r) \<Rightarrow> if skip_ws r = [] then Inr v else Inl InvalidJSON)"

definition parseJSON :: "string \<Rightarrow> json_error + json" where
  "parseJSON input =
    (if input = [] then Inl InvalidJSON
     else if length input > MaxArgumentsBytes then Inl ArgumentsTooLarge
     else if \<not> validateJSONStringEncoding input then Inl InvalidJSON
     else read_document True input)"

section \<open>The writer\<close>

text \<open>\<open>json.Marshal\<close> of a string, HTML escapes included.\<close>

definition escape_chunk :: "nat \<times> string \<Rightarrow> string" where
  "escape_chunk ch =
    (let r = fst ch in
     if r < 128 then
       (if r = 34 \<or> r = 92 then [backslash, char_of r]
        else if r = 8 then [backslash, CHR ''b'']
        else if r = 12 then [backslash, CHR ''f'']
        else if r = 10 then [backslash, CHR ''n'']
        else if r = 13 then [backslash, CHR ''r'']
        else if r = 9 then [backslash, CHR ''t'']
        else if r < 32 \<or> r = 60 \<or> r = 62 \<or> r = 38 then
          [backslash, CHR ''u'', CHR ''0'', CHR ''0'', hex_digit (r div 16), hex_digit (r mod 16)]
        else [char_of r])
     else if \<not> valid_chunk ch then backslash # ''ufffd''
     else if r = 8232 then backslash # ''u2028''
     else if r = 8233 then backslash # ''u2029''
     else snd ch)"

definition marshal_string :: "string \<Rightarrow> string" where
  "marshal_string s = quote_char # concat (map escape_chunk (rune_chunks s)) @ [quote_char]"

fun join :: "string \<Rightarrow> string list \<Rightarrow> string" where
  "join sep [] = []"
| "join sep [w] = w"
| "join sep (w # ws) = w @ sep @ join sep ws"

text \<open>\<open>writeCanonicalJSON\<close>: the keys of an object are written in the order of their bytes.\<close>

fun write_canonical :: "json \<Rightarrow> string" where
  "write_canonical JNull = ''null''"
| "write_canonical (JBool b) = (if b then ''true'' else ''false'')"
| "write_canonical (JStr s) = marshal_string s"
| "write_canonical (JNum n) = n"
| "write_canonical (JArr xs) = ''['' @ join '','' (map write_canonical xs) @ '']''"
| "write_canonical (JObj ms) =
    ''{'' @ join '','' (map (\<lambda>(k, w). marshal_string k @ '':'' @ w)
                     (sort_key fst (map (\<lambda>(k, v). (k, write_canonical v)) ms))) @ ''}''"

text \<open>
  \<open>json.Marshal\<close> of a struct, given as the object of its members: they are written in the
  order of the fields.
\<close>

fun marshal_json :: "json \<Rightarrow> string" where
  "marshal_json JNull = ''null''"
| "marshal_json (JBool b) = (if b then ''true'' else ''false'')"
| "marshal_json (JStr s) = marshal_string s"
| "marshal_json (JNum n) = n"
| "marshal_json (JArr xs) = ''['' @ join '','' (map marshal_json xs) @ '']''"
| "marshal_json (JObj ms) =
    ''{'' @ join '','' (map (\<lambda>(k, v). marshal_string k @ '':'' @ marshal_json v) ms) @ ''}''"

definition CanonicalizeJSON :: "string \<Rightarrow> json_error + string" where
  "CanonicalizeJSON input =
    (case parseJSON (trim_space input) of Inl e \<Rightarrow> Inl e | Inr v \<Rightarrow> Inr (write_canonical v))"

end
