(* ===== verification/Crypto.thy ===== *)
theory Crypto
  imports Prelude
begin

text \<open>
  The cryptographic primitives of Go's \<open>crypto/sha256\<close> and \<open>crypto/ed25519\<close> are a parameter
  of the model: a record of functions that every definition takes as its argument \<open>cr\<close>. The
  theorems state what they rely on (\<open>hash_ok\<close>, \<open>signature_ok\<close>): a digest has 32 bytes, a
  signature made with a 64-byte private key verifies under its public key. Nothing is
  assumed about collisions or forgery: where a theorem needs two digests to differ it says
  \<open>or the hash function has a collision\<close>.
\<close>

record crypto =
  cr_sha256 :: "string \<Rightarrow> string"
  cr_sign :: "string \<Rightarrow> string \<Rightarrow> string"
  cr_verify :: "string \<Rightarrow> string \<Rightarrow> string \<Rightarrow> bool"
  cr_public :: "string \<Rightarrow> string"

definition PrivateKeySize :: nat where "PrivateKeySize = 64"
definition PublicKeySize :: nat where "PublicKeySize = 32"
definition SignatureSize :: nat where "SignatureSize = 64"

definition hash_ok :: "crypto \<Rightarrow> bool" where
  "hash_ok cr \<longleftrightarrow> (\<forall>m. length (cr_sha256 cr m) = 32)"

definition signature_ok :: "crypto \<Rightarrow> bool" where
  "signature_ok cr \<longleftrightarrow>
    (\<forall>k m. length k = PrivateKeySize \<longrightarrow>
       length (cr_public cr k) = PublicKeySize \<and> length (cr_sign cr k m) = SignatureSize
       \<and> cr_verify cr (cr_public cr k) m (cr_sign cr k m))"

definition collision :: "crypto \<Rightarrow> bool" where
  "collision cr \<longleftrightarrow> (\<exists>x y. x \<noteq> y \<and> cr_sha256 cr x = cr_sha256 cr y)"

text \<open>\<open>"sha256:" + hex.EncodeToString(sum[:])\<close>.\<close>

definition sha256_text :: "crypto \<Rightarrow> string \<Rightarrow> string" where
  "sha256_text cr m = ''sha256:'' @ hex_encode (cr_sha256 cr m)"

lemma sha256_text_pattern: "hash_ok cr \<Longrightarrow> sha256_pattern (sha256_text cr m)"
  unfolding sha256_text_def hash_ok_def by (blast intro: sha256_pattern_hex)

lemma hex_digit_inj: "m < 16 \<Longrightarrow> n < 16 \<Longrightarrow> hex_digit m = hex_digit n \<Longrightarrow> m = n"
proof -
  assume mn: "m < 16" "n < 16" and eq: "hex_digit m = hex_digit n"
  have val: "k < 16 \<Longrightarrow> of_char (hex_digit k) = (if k < 10 then 48 + k else 87 + k)" for k :: nat
    by (simp add: hex_digit_def)
  from eq have "(of_char (hex_digit m) :: nat) = of_char (hex_digit n)" by simp
  then show "m = n" using mn by (simp add: val split: if_splits)
qed

lemma hex_encode_Cons:
  "hex_encode (c # s) = hex_digit (byte c div 16) # hex_digit (byte c mod 16) # hex_encode s"
  by (simp add: hex_encode_def)

lemma hex_encode_inj: "hex_encode s = hex_encode t \<Longrightarrow> s = t"
proof (induction s arbitrary: t)
  case Nil
  then show ?case by (cases t) (simp_all add: hex_encode_def)
next
  case (Cons c s)
  from Cons.prems obtain d t' where t: "t = d # t'"
    by (cases t) (simp_all add: hex_encode_def)
  from Cons.prems have eqs: "hex_digit (byte c div 16) = hex_digit (byte d div 16)"
    "hex_digit (byte c mod 16) = hex_digit (byte d mod 16)" "hex_encode s = hex_encode t'"
    by (simp_all add: t hex_encode_Cons)
  have lt: "byte x div 16 < 16" "byte x mod 16 < 16" for x :: char
    using nat_of_char_less_256 [of x] by linarith simp
  from eqs(1,2) lt have "byte c div 16 = byte d div 16" "byte c mod 16 = byte d mod 16"
    by (metis hex_digit_inj)+
  then have "byte c = byte d" by (metis div_mult_mod_eq)
  then have "c = d" by simp
  then show ?case using Cons.IH [OF eqs(3)] t by simp
qed

lemma sha256_text_inj: "sha256_text cr x = sha256_text cr y \<Longrightarrow> x = y \<or> collision cr"
  by (auto simp: sha256_text_def collision_def dest: hex_encode_inj)

text \<open>
  A concrete instance for the witnesses: a hash that pads or cuts the message, and a
  signature that repeats the public half of the key.
\<close>

definition sample_crypto :: crypto where
  "sample_crypto =
    \<lparr>cr_sha256 = (\<lambda>m. take 32 (m @ replicate 32 (CHR ''0''))),
     cr_sign = (\<lambda>k m. take 32 k @ take 32 (m @ replicate 32 (CHR ''0''))),
     cr_verify = (\<lambda>p m s. s = p @ take 32 (m @ replicate 32 (CHR ''0''))),
     cr_public = take 32\<rparr>"

lemma sample_hash_ok [simp]: "hash_ok sample_crypto"
  by (auto simp: hash_ok_def sample_crypto_def min_def)

lemma sample_signature_ok [simp]: "signature_ok sample_crypto"
  by (auto simp: signature_ok_def sample_crypto_def min_def
      PrivateKeySize_def PublicKeySize_def SignatureSize_def)

end
