(* ===== verification/Canonical_Action.thy ===== *)
theory Canonical_Action
  imports Json Crypto
begin

text \<open>
  \<open>internal/canonicalaction/action.go\<close>: the action that a permit binds, its validation, its
  canonical JSON and its digest.
\<close>

datatype action_error =
    ErrInvalidAction string
  | ActionJSON json_error

record action =
  ac_PrincipalID :: string
  ac_AgentID :: string
  ac_WorkloadID :: string
  ac_DelegatedAuthorityFingerprint :: string
  ac_Tool :: string
  ac_Capability :: string
  ac_Resource :: string
  ac_Operation :: string
  ac_ProfileID :: string
  ac_Audience :: string
  ac_ExecutionBinding :: string
  ac_Arguments :: string

text \<open>The test that \<open>Validate\<close>, \<open>validateOptionalMetadata\<close> and \<open>validateMetadata\<close> share.\<close>

definition clean_text :: "nat \<Rightarrow> string \<Rightarrow> bool" where
  "clean_text limit v \<longleftrightarrow> utf8_valid v \<and> length v \<le> limit \<and> \<not> has_control v"

fun check_required :: "(string \<times> string \<times> nat) list \<Rightarrow> action_error option" where
  "check_required [] = None"
| "check_required ((name, value, limit) # rest) =
    (if value = [] then Some (ErrInvalidAction (name @ '' is required''))
     else if \<not> clean_text limit value then Some (ErrInvalidAction (name @ '' is invalid or too long''))
     else check_required rest)"

definition validateOptionalMetadata :: "string \<Rightarrow> string \<Rightarrow> nat \<Rightarrow> action_error option" where
  "validateOptionalMetadata name value limit =
    (if value = [] then None
     else if \<not> clean_text limit value then Some (ErrInvalidAction (name @ '' is invalid or too long''))
     else None)"

definition action_required :: "action \<Rightarrow> (string \<times> string \<times> nat) list" where
  "action_required a =
    [(''principal_id'', ac_PrincipalID a, 512),
     (''agent_id'', ac_AgentID a, 512),
     (''workload_id'', ac_WorkloadID a, 512),
     (''tool'', ac_Tool a, 512),
     (''capability'', ac_Capability a, 512),
     (''resource'', ac_Resource a, 2048),
     (''operation'', ac_Operation a, 512)]"

definition action_Validate :: "action \<Rightarrow> action_error option" where
  "action_Validate a =
    (case check_required (action_required a) of
       Some e \<Rightarrow> Some e
     | None \<Rightarrow>
         if ac_DelegatedAuthorityFingerprint a \<noteq> [] \<and> \<not> sha256_pattern (ac_DelegatedAuthorityFingerprint a)
         then Some (ErrInvalidAction ''delegated_authority_fingerprint must be an Aegis-bound SHA-256 digest'')
         else if ac_ExecutionBinding a \<noteq> [] \<and> \<not> sha256_pattern (ac_ExecutionBinding a)
         then Some (ErrInvalidAction ''execution_binding must be a SHA-256 digest'')
         else if (ac_ProfileID a = []) \<noteq> (ac_Audience a = [])
         then Some (ErrInvalidAction ''profile_id and audience must be present together'')
         else (case validateOptionalMetadata ''profile_id'' (ac_ProfileID a) 256 of
                 Some e \<Rightarrow> Some e
               | None \<Rightarrow> validateOptionalMetadata ''audience'' (ac_Audience a) 1024))"

definition BindDelegatedAuthorityFingerprint :: "crypto \<Rightarrow> string \<Rightarrow> action_error + string" where
  "BindDelegatedAuthorityFingerprint cr input =
    (if input = [] then Inr []
     else if \<not> hex64_pattern input
     then Inl (ErrInvalidAction ''delegated authority input must be a 64-character hex digest'')
     else Inr (sha256_text cr (to_lower input)))"

text \<open>The object that \<open>CanonicalJSON\<close> writes; the writer sorts its keys.\<close>

definition action_object :: "action \<Rightarrow> json \<Rightarrow> json" where
  "action_object a arguments =
    JObj ([(''agent_id'', JStr (ac_AgentID a)),
           (''arguments'', arguments),
           (''capability'', JStr (ac_Capability a)),
           (''delegated_authority_fingerprint'', JStr (ac_DelegatedAuthorityFingerprint a)),
           (''operation'', JStr (ac_Operation a)),
           (''profile_id'', JStr (ac_ProfileID a)),
           (''principal_id'', JStr (ac_PrincipalID a)),
           (''resource'', JStr (ac_Resource a)),
           (''tool'', JStr (ac_Tool a)),
           (''audience'', JStr (ac_Audience a)),
           (''workload_id'', JStr (ac_WorkloadID a))]
          @ (if ac_ExecutionBinding a \<noteq> [] then [(''execution_binding'', JStr (ac_ExecutionBinding a))] else []))"

definition action_CanonicalJSON :: "action \<Rightarrow> action_error + string" where
  "action_CanonicalJSON a =
    (case action_Validate a of
       Some e \<Rightarrow> Inl e
     | None \<Rightarrow>
         let trimmed = trim_space (ac_Arguments a);
             arguments = (if trimmed = [] then ''{}'' else trimmed)
         in case parseJSON arguments of
              Inl e \<Rightarrow> Inl (ActionJSON e)
            | Inr v \<Rightarrow> Inr (write_canonical (action_object a v)))"

definition action_Digest :: "crypto \<Rightarrow> action \<Rightarrow> action_error + string" where
  "action_Digest cr a =
    (case action_CanonicalJSON a of Inl e \<Rightarrow> Inl e | Inr canonical \<Rightarrow> Inr (sha256_text cr canonical))"

end
