(* ===== verification/Utf8.thy ===== *)
theory Utf8
  imports Json
begin

text \<open>
  Facts about UTF-8 that the JSON round trips rest on: \<open>decode_rune\<close> looks no further than the
  bytes it takes, it undoes \<open>encode_rune\<close>, and valid strings are closed under concatenation.
\<close>

section \<open>Decoding is local\<close>

lemma decode_rune_local:
  assumes "s \<noteq> []" "decode_rune s = (r, n)" "\<not> (r = rune_error \<and> n = 1)"
  shows "decode_rune (take n s @ t) = (r, n)"
proof -
  obtain c cs where s: "s = c # cs" using assms(1) by (cases s) auto
  then show ?thesis using assms(2,3)
    by (auto simp: Let_def split: if_splits list.splits)
qed

lemma decode_rune_take:
  "s \<noteq> [] \<Longrightarrow> decode_rune s = (r, n) \<Longrightarrow> length (take n s) = n"
  using decode_rune_width [of s] by (auto simp: min_def)

text \<open>A valid chunk, decoded from its own bytes.\<close>

definition good_chunk :: "nat \<times> string \<Rightarrow> bool" where
  "good_chunk ch \<longleftrightarrow> snd ch \<noteq> [] \<and> valid_chunk ch \<and> decode_rune (snd ch) = (fst ch, length (snd ch))"

lemma rune_chunks_good: "list_all valid_chunk (rune_chunks s) \<Longrightarrow> list_all good_chunk (rune_chunks s)"
proof (induction s rule: rune_chunks.induct)
  case 1
  show ?case by simp
next
  case (2 c cs)
  obtain r n where d: "decode_rune (c # cs) = (r, n)" by fastforce
  have w: "1 \<le> n" "length (take n (c # cs)) = n"
    using decode_rune_width [of "c # cs"] decode_rune_take [OF _ d] d by auto
  from 2(2) d have v: "valid_chunk (r, take n (c # cs))"
    and rest: "list_all valid_chunk (rune_chunks (drop (n - 1) cs))"
    by (auto simp: rune_chunks.simps(2))
  have "\<not> (r = rune_error \<and> n = 1)" using v w by (simp add: valid_chunk_def)
  then have "decode_rune (take n (c # cs)) = (r, n)"
    using decode_rune_local [OF _ d, of "[]"] by (simp del: take_Cons')
  then have "good_chunk (r, take n (c # cs))"
    using v w by (auto simp: good_chunk_def simp del: take_Cons')
  then show ?case using 2(1) [OF d [symmetric] refl] rest d by (simp add: rune_chunks.simps(2))
qed

lemma good_chunk_decode:
  "good_chunk (r, bs) \<Longrightarrow> decode_rune (bs @ t) = (r, length bs)"
  using decode_rune_local [of bs r "length bs" t] by (auto simp: good_chunk_def valid_chunk_def)

lemma rune_chunks_append_good:
  "good_chunk (r, bs) \<Longrightarrow> rune_chunks (bs @ t) = (r, bs) # rune_chunks t"
proof -
  assume g: "good_chunk (r, bs)"
  then obtain c cs where bs: "bs = c # cs" by (cases bs) (auto simp: good_chunk_def)
  show ?thesis using good_chunk_decode [OF g, of t]
    by (simp add: bs rune_chunks.simps(2) del: decode_rune.simps)
qed

lemma rune_chunks_concat:
  "list_all good_chunk chs \<Longrightarrow> rune_chunks (concat (map snd chs) @ t) = chs @ rune_chunks t"
  by (induction chs) (auto simp: rune_chunks_append_good)

lemma rune_chunks_append:
  assumes "utf8_valid s"
  shows "rune_chunks (s @ t) = rune_chunks s @ rune_chunks t"
  using rune_chunks_concat [OF rune_chunks_good, of s t] assms by (simp add: utf8_valid_def)

lemma utf8_valid_Nil [simp]: "utf8_valid []"
  by (simp add: utf8_valid_def)

lemma utf8_valid_append [simp]: "utf8_valid s \<Longrightarrow> utf8_valid (s @ t) = utf8_valid t"
  by (auto simp: rune_chunks_append utf8_valid_def)

lemma utf8_valid_Cons_ascii [simp]: "byte c < 128 \<Longrightarrow> utf8_valid (c # t) = utf8_valid t"
  by (auto simp: utf8_valid_def valid_chunk_def)

lemma utf8_valid_chunk: "good_chunk (r, bs) \<Longrightarrow> utf8_valid bs"
  using rune_chunks_append_good [of r bs "[]"] by (simp add: utf8_valid_def good_chunk_def)

lemma utf8_valid_concat: "(\<And>w. w \<in> set ws \<Longrightarrow> utf8_valid w) \<Longrightarrow> utf8_valid (concat ws)"
  by (induction ws) auto

section \<open>Encoding\<close>

lemma byte_char_of: "n < 256 \<Longrightarrow> byte (char_of n) = n"
  by simp

text \<open>A scalar value: a code point that is no surrogate.\<close>

definition scalar_value :: "nat \<Rightarrow> bool" where
  "scalar_value r \<longleftrightarrow> r \<le> 0x10FFFF \<and> \<not> (0xD800 \<le> r \<and> r \<le> 0xDFFF)"

text \<open>The six-bit pieces of a code point.\<close>

lemma pieces3: "(r::nat) = r div 4096 * 4096 + r div 64 mod 64 * 64 + r mod 64"
proof -
  have "r div 4096 = r div 64 div 64" by (simp flip: div_mult2_eq)
  then show ?thesis using div_mult_mod_eq [of r 64] div_mult_mod_eq [of "r div 64" 64] by linarith
qed

lemma pieces4: "(r::nat) = r div 262144 * 262144 + r div 4096 mod 64 * 4096 + r div 64 mod 64 * 64 + r mod 64"
proof -
  have "r div 262144 = r div 4096 div 64" by (simp flip: div_mult2_eq)
  then show ?thesis using pieces3 [of r] div_mult_mod_eq [of "r div 4096" 64] by linarith
qed

lemma decode_two:
  assumes "128 \<le> r" "r < 2048"
  shows "decode_rune (char_of (192 + r div 64) # char_of (128 + r mod 64) # t) = (r, 2)"
proof -
  have "2 \<le> r div 64" "r div 64 < 32" using assms by auto
  then show ?thesis by (simp add: Let_def in_range_def)
qed

lemma decode_three_pieces:
  assumes "a < 16" "b < 64" "c < 64" "a = 0 \<longrightarrow> 32 \<le> b" "a = 13 \<longrightarrow> b < 32"
  shows "decode_rune (char_of (224 + a) # char_of (128 + b) # char_of (128 + c) # t)
    = (a * 4096 + b * 64 + c, 3)"
proof -
  have "byte (char_of (224 + a)) = 224 + a" "byte (char_of (128 + b)) = 128 + b"
    "byte (char_of (128 + c)) = 128 + c" using assms by simp_all
  then show ?thesis using assms unfolding decode_rune.simps Let_def list.case in_range_def
    by (auto simp del: byte_char_of of_char_of)
qed

lemma decode_three:
  assumes "2048 \<le> r" "r < 65536" "\<not> (0xD800 \<le> r \<and> r \<le> 0xDFFF)"
  shows "decode_rune (char_of (224 + r div 4096) # char_of (128 + r div 64 mod 64)
    # char_of (128 + r mod 64) # t) = (r, 3)"
proof -
  have lt: "r div 4096 < 16" "r div 64 mod 64 < 64" "r mod 64 < 64"
    using assms(2) by (simp_all add: less_mult_imp_div_less)
  have "r div 4096 = 0 \<longrightarrow> 32 \<le> r div 64 mod 64" "r div 4096 = 13 \<longrightarrow> r div 64 mod 64 < 32"
    using pieces3 [of r] lt assms by linarith+
  then show ?thesis using decode_three_pieces [OF lt] pieces3 [of r] by simp
qed

lemma decode_four_pieces:
  assumes "a < 5" "b < 64" "c < 64" "d < 64" "a = 0 \<longrightarrow> 16 \<le> b" "a = 4 \<longrightarrow> b < 16"
  shows "decode_rune (char_of (240 + a) # char_of (128 + b) # char_of (128 + c) # char_of (128 + d) # t)
    = (a * 262144 + b * 4096 + c * 64 + d, 4)"
proof -
  have "byte (char_of (240 + a)) = 240 + a" "byte (char_of (128 + b)) = 128 + b"
    "byte (char_of (128 + c)) = 128 + c" "byte (char_of (128 + d)) = 128 + d" using assms by simp_all
  then show ?thesis using assms unfolding decode_rune.simps Let_def list.case in_range_def
    by (auto simp del: byte_char_of of_char_of)
qed

lemma decode_four:
  assumes "65536 \<le> r" "r \<le> 0x10FFFF"
  shows "decode_rune (char_of (240 + r div 262144) # char_of (128 + r div 4096 mod 64)
    # char_of (128 + r div 64 mod 64) # char_of (128 + r mod 64) # t) = (r, 4)"
proof -
  have lt: "r div 262144 < 5" "r div 4096 mod 64 < 64" "r div 64 mod 64 < 64" "r mod 64 < 64"
    using assms(2) by (simp_all add: less_mult_imp_div_less)
  have "r div 262144 = 0 \<longrightarrow> 16 \<le> r div 4096 mod 64" "r div 262144 = 4 \<longrightarrow> r div 4096 mod 64 < 16"
    using pieces4 [of r] lt assms by linarith+
  then show ?thesis using decode_four_pieces [OF lt] pieces4 [of r] by simp
qed

lemma encode_rune_good:
  assumes "scalar_value r"
  shows "good_chunk (r, encode_rune r)"
proof -
  consider "r < 128" | "128 \<le> r" "r < 2048" | "2048 \<le> r" "r < 65536" | "65536 \<le> r"
    by linarith
  then show ?thesis
  proof cases
    case 1
    then show ?thesis by (simp add: encode_rune_def good_chunk_def valid_chunk_def)
  next
    case 2
    then show ?thesis using decode_two [of r "[]"]
      by (simp add: encode_rune_def good_chunk_def valid_chunk_def del: decode_rune.simps)
  next
    case 3
    then show ?thesis using decode_three [of r "[]"] assms
      by (auto simp: encode_rune_def good_chunk_def valid_chunk_def scalar_value_def
          simp del: decode_rune.simps)
  next
    case 4
    then show ?thesis using decode_four [of r "[]"] assms
      by (auto simp: encode_rune_def good_chunk_def valid_chunk_def scalar_value_def
          simp del: decode_rune.simps)
  qed
qed

lemma encode_rune_bad: "\<not> scalar_value r \<Longrightarrow> encode_rune r = encode_rune rune_error"
proof -
  have "char_of (239::nat) = CHR 0xEF" "char_of (191::nat) = CHR 0xBF" "char_of (189::nat) = CHR 0xBD"
    by code_simp+
  then show "\<not> scalar_value r \<Longrightarrow> encode_rune r = encode_rune rune_error"
    by (auto simp: encode_rune_def scalar_value_def)
qed

lemma utf8_valid_encode [simp]: "utf8_valid (encode_rune r)"
proof (cases "scalar_value r")
  case True
  then show ?thesis using utf8_valid_chunk [OF encode_rune_good] by blast
next
  case False
  have "scalar_value rune_error" by (simp add: scalar_value_def)
  then show ?thesis using utf8_valid_chunk [OF encode_rune_good] encode_rune_bad [OF False] by metis
qed

text \<open>The two line separators, which the JSON writer escapes.\<close>

lemma good_chunk_separator:
  assumes "good_chunk (r, bs)" "r = 8232 \<or> r = 8233"
  shows "bs = encode_rune r"
proof -
  obtain c cs where bs: "bs = c # cs" using assms by (cases bs) (auto simp: good_chunk_def)
  have d: "decode_rune (c # cs) = (r, length (c # cs))" using assms(1) by (simp add: good_chunk_def bs)
  obtain c1 c2 where cs: "cs = [c1, c2]" and rv: "r = (byte c - 224) * 4096 + (byte c1 - 128) * 64 + (byte c2 - 128)"
    and ranges: "224 \<le> byte c" "byte c < 240" "128 \<le> byte c1" "byte c1 \<le> 191" "128 \<le> byte c2" "byte c2 \<le> 191"
    using d assms(2)
    by (auto simp: Let_def in_range_def split: if_splits list.splits)
  have le: "r = 226 * 4096 - 224 * 4096 + (r - 8192)" "r - 8192 < 64" using assms(2) by auto
  have "byte c = 226" using rv ranges assms(2) by linarith
  moreover from this have "byte c1 = 128" using rv ranges assms(2) by linarith
  moreover from calculation have "byte c2 = r - 8064" using rv ranges assms(2) by linarith
  ultimately have "byte c = 226" "byte c1 = 128" "byte c2 = r - 8064" by simp_all
  then have "c = char_of (226::nat)" "c1 = char_of (128::nat)" "c2 = char_of (r - 8064)"
    by (metis char_of_char)+
  then show ?thesis using assms(2) by (auto simp: bs cs encode_rune_def)
qed

end
