(* ===== verification/Json_Reader.thy ===== *)
theory Json_Reader
  imports Utf8
begin

text \<open>
  Facts about the reader of \<open>Json\<close> alone: every lexer consumes what it returns, the strings it
  decodes are valid UTF-8, and \<open>reader_fuel\<close> is enough, so that \<open>parseJSON\<close> always answers.
\<close>

section \<open>Fuel\<close>

lemma skip_ws_length: "length (skip_ws s) \<le> length s"
  by (simp add: skip_ws_def length_dropWhile_le)

definition low_escape :: "string \<Rightarrow> (nat \<times> string) option" where
  "low_escape nx =
    (case nx of
       b # u # more \<Rightarrow> if b = backslash \<and> u = CHR ''u'' then readUTF16Escape (u # more) else None
     | _ \<Rightarrow> None)"

lemma lex_string_escape:
  assumes "lex_string (backslash # cs) = Some (t, r)" "cs = CHR ''u'' # es" "readUTF16Escape cs = Some (cp, nx)"
  shows "\<exists>s' t' q. length s' \<le> length nx \<and> lex_string s' = Some (t', r) \<and> t = encode_rune q @ t'"
proof -
  have eq: "lex_string (backslash # cs) =
      (if 0xD800 \<le> cp \<and> cp \<le> 0xDBFF then
         (case low_escape nx of
            Some (low, lowNext) \<Rightarrow>
              if 0xDC00 \<le> low \<and> low \<le> 0xDFFF \<and> length lowNext < length nx then
                map_option (\<lambda>(t, rest).
                    (encode_rune (65536 + (cp - 0xD800) * 1024 + (low - 0xDC00)) @ t, rest))
                  (lex_string lowNext)
              else map_option (\<lambda>(t, rest). (encode_rune rune_error @ t, rest)) (lex_string nx)
          | None \<Rightarrow> map_option (\<lambda>(t, rest). (encode_rune rune_error @ t, rest)) (lex_string nx))
       else map_option (\<lambda>(t, rest). (encode_rune cp @ t, rest)) (lex_string nx))"
    unfolding low_escape_def lex_string.simps(2) [of backslash cs] using assms(2,3) by simp
  consider (low) cp' lowNext where "length lowNext < length nx"
      "Some (t, r) = map_option (\<lambda>(t, rest). (encode_rune cp' @ t, rest)) (lex_string lowNext)"
    | (whole) q where "Some (t, r) = map_option (\<lambda>(t, rest). (encode_rune q @ t, rest)) (lex_string nx)"
    using assms(1) unfolding eq
    by (cases "low_escape nx") (auto split: if_splits prod.splits)
  moreover have "Some (t, r) = map_option (\<lambda>(t, rest). (encode_rune q @ t, rest)) x \<Longrightarrow>
      \<exists>t'. x = Some (t', r) \<and> t = encode_rune q @ t'" for q x
    by (cases x) auto
  ultimately show ?thesis by (metis less_imp_le order_refl)
qed

text \<open>One step of \<open>lex_string\<close>: it ends here, or it takes some bytes for a valid piece of text.\<close>

lemma lex_string_step:
  assumes "lex_string (c # cs) = Some (t, r)"
  shows "(c = quote_char \<and> t = [] \<and> r = cs)
    \<or> (\<exists>s' t' bs. length s' < length (c # cs) \<and> lex_string s' = Some (t', r) \<and> t = bs @ t' \<and> utf8_valid bs)"
  (is "_ \<or> ?step")
proof -
  have step: "length s' < length (c # cs) \<Longrightarrow> lex_string s' = Some (t', r) \<Longrightarrow> t = bs @ t' \<Longrightarrow> utf8_valid bs \<Longrightarrow> ?step"
    for s' t' bs by blast
  show ?thesis
proof (cases "c = quote_char \<or> byte c < 32")
  case True
  with assms show ?thesis by (auto simp: lex_string.simps(2) split: if_splits)
next
  case nq: False
  show ?thesis
  proof (cases "c = backslash")
    case nb: False
    obtain rn n where d: "decode_rune (c # cs) = (rn, n)" by fastforce
    define bs where "bs = (if rn = rune_error \<and> n = 1 then encode_rune rune_error else take n (c # cs))"
    obtain t' where t': "lex_string (drop (n - 1) cs) = Some (t', r)" "t = bs @ t'"
      using assms nq nb d by (auto simp: lex_string.simps(2) Let_def bs_def)
    have "utf8_valid bs"
    proof (cases "rn = rune_error \<and> n = 1")
      case False
      have "decode_rune (take n (c # cs)) = (rn, n)"
        using decode_rune_local [OF _ d False, of "[]"] by simp
      then have "good_chunk (rn, take n (c # cs))"
        using False decode_rune_take [OF _ d] decode_rune_width [of "c # cs"] d
        by (auto simp: good_chunk_def valid_chunk_def)
      then show ?thesis using utf8_valid_chunk by (simp add: bs_def False)
    qed (simp add: bs_def)
    with t' show ?thesis using step [of "drop (n - 1) cs" t' bs] by simp
  next
    case b: True
    then obtain e es where cs: "cs = e # es"
      using assms nq by (cases cs) (auto simp: lex_string.simps(2))
    show ?thesis
    proof (cases "e = CHR ''u''")
      case False
      then obtain bb t' where "simple_escape e = Some bb" "lex_string es = Some (t', r)" "t = bb # t'"
        using assms nq b cs by (auto simp: lex_string.simps(2) split: option.splits)
      moreover from this(1) have "utf8_valid [bb]"
        by (auto simp: simple_escape_def split: if_splits)
      ultimately show ?thesis using step [of es t' "[bb]"] by (simp add: cs)
    next
      case True
      then obtain cp nx where u: "readUTF16Escape cs = Some (cp, nx)"
        using assms nq b cs by (auto simp: lex_string.simps(2) split: option.splits)
      have "length nx < length cs" using readUTF16Escape_shorter [OF u] .
      moreover have "\<exists>s' t' q. length s' \<le> length nx \<and> lex_string s' = Some (t', r) \<and> t = encode_rune q @ t'"
        using lex_string_escape [of cs t r es cp nx] assms cs True u b by simp
      ultimately show ?thesis using step utf8_valid_encode by (metis le_less_trans length_Cons less_Suc_eq)
    qed
  qed
qed
qed

lemma lex_string_facts:
  "lex_string s = Some (t, r) \<Longrightarrow> length r < length s \<and> utf8_valid t"
proof (induction s arbitrary: t r rule: length_induct)
  case (1 s)
  then obtain c cs where s: "s = c # cs" by (cases s) auto
  from lex_string_step [of c cs t r] 1(2) consider
      "t = []" "r = cs"
    | s' t' bs where "length s' < length s" "lex_string s' = Some (t', r)" "t = bs @ t'" "utf8_valid bs"
    by (auto simp: s)
  then show ?case
  proof cases
    case 2
    then have "length r < length s' \<and> utf8_valid t'" using 1(1) by blast
    then show ?thesis using 2 by simp
  qed (simp add: s)
qed

lemma lex_digits_parts: "lex_digits s = Some (t, r) \<Longrightarrow> s = t @ r \<and> t \<noteq> []"
  by (auto simp: lex_digits_def split: if_splits)

lemma lex_int_parts: "lex_int s = Some (t, r) \<Longrightarrow> s = t @ r \<and> t \<noteq> []"
  by (auto simp: lex_int_def dest: lex_digits_parts split: list.splits if_splits)

lemma lex_frac_parts: "lex_frac s = Some (t, r) \<Longrightarrow> s = t @ r"
  by (auto simp: lex_frac_def dest: lex_digits_parts split: list.splits if_splits)

lemma lex_exp_parts: "lex_exp s = Some (t, r) \<Longrightarrow> s = t @ r"
  by (auto simp: lex_exp_def dest: lex_digits_parts split: list.splits if_splits)

lemma lex_minus_parts: "lex_minus s = (t, r) \<Longrightarrow> s = t @ r"
  by (auto simp: lex_minus_def split: list.splits if_splits)

lemma lex_number_parts: "lex_number s = Some (t, r) \<Longrightarrow> s = t @ r \<and> t \<noteq> []"
  by (auto simp: lex_number_def split: prod.splits option.splits
      dest!: lex_minus_parts lex_int_parts lex_frac_parts lex_exp_parts)

lemma read_scalar_shorter:
  assumes "read_scalar strict s = Inr (v, r)"
  shows "length r < length s"
proof -
  obtain c cs where s: "s = c # cs" using assms by (cases s) (auto simp: read_scalar_def)
  have "\<And>t r'. lex_number s = Some (t, r') \<Longrightarrow> length r' < length s"
    by (auto dest: lex_number_parts)
  then show ?thesis using assms
    by (auto simp: read_scalar_def s lex_literal_def has_prefix_iff dest: lex_string_facts
        split: if_splits option.splits sum.splits)
qed

lemma next_member_shorter:
  "next_member first s = Inr (k, r) \<Longrightarrow> length r < length s"
  using skip_ws_length [of s]
  by (auto simp: next_member_def split: list.splits if_splits option.splits dest!: lex_string_facts)
     (metis Suc_le_lessD le_less_trans length_Cons less_SucI less_or_eq_imp_le not_less_eq skip_ws_length)+

lemma skip_colon_shorter: "skip_colon s = Some r \<Longrightarrow> length r < length s"
  using skip_ws_length [of s] by (auto simp: skip_colon_def split: list.splits if_splits)

lemma next_element_length:
  assumes "next_element first s = Inr (b, r)"
  shows "length r \<le> length s \<and> (\<not> (first \<and> b) \<longrightarrow> length r < length s)"
proof -
  obtain c cs where c: "skip_ws s = c # cs"
    using assms by (cases "skip_ws s") (auto simp: next_element_def)
  then have "length (c # cs) \<le> length s" using skip_ws_length [of s] by simp
  then show ?thesis using assms c by (auto simp: next_element_def skip_ws_length split: if_splits)
qed

lemma starts_obj: "has_prefix (skip_ws s) ''{'' \<Longrightarrow> length (tl (skip_ws s)) < length s"
  using skip_ws_length [of s] by (cases "skip_ws s") auto

lemma starts_arr: "has_prefix (skip_ws s) ''['' \<Longrightarrow> length (tl (skip_ws s)) < length s"
  using skip_ws_length [of s] by (cases "skip_ws s") auto

lemma reader_shorter:
  "read_value strict f d s = Inr (v, r) \<Longrightarrow> length r < length s"
  "read_members strict f d first acc s = Inr (ms, r) \<Longrightarrow> length r < length s"
  "read_elements strict f d first xs s = Inr (ys, r) \<Longrightarrow> length r < length s"
proof (induction strict f d s and strict f d first acc s and strict f d first xs s
    arbitrary: v r and ms r and ys r rule: read_value_read_members_read_elements.induct)
  case (2 strict fuel depth s)
  show ?case
  proof (cases "has_prefix (skip_ws s) ''{'' \<or> has_prefix (skip_ws s) ''[''")
    case True
    with 2 show ?thesis using starts_obj [of s] starts_arr [of s]
      by (fastforce split: if_splits sum.splits)
  next
    case False
    with 2(3) have "read_scalar strict (skip_ws s) = Inr (v, r)" by (auto split: if_splits)
    then show ?thesis using read_scalar_shorter skip_ws_length [of s] by (meson less_le_trans)
  qed
next
  case (4 strict fuel depth first acc s)
  obtain key r1 where k: "next_member first s = Inr (key, r1)"
    using 4(3) by (auto split: sum.splits)
  have l1: "length r1 < length s" using next_member_shorter [OF k] .
  show ?case
  proof (cases key)
    case None
    then show ?thesis using 4(3) k l1 by simp
  next
    case (Some kk)
    then obtain ks v r2 where ks: "skip_colon r1 = Some ks" "read_value strict fuel (depth + 1) ks = Inr (v, r2)"
      "read_members strict fuel depth False (acc @ [(kk, v)]) r2 = Inr (ms, r)"
      "\<not> (strict \<and> mget acc kk \<noteq> None)"
      using 4(3) k by (auto split: sum.splits option.splits if_splits)
    have "length ks < length r1" using skip_colon_shorter [OF ks(1)] .
    moreover have "length r2 < length ks" using 4(1) [OF k refl Some ks(4,1)] ks(2) by blast
    moreover have "length r < length r2" using 4(2) [OF k refl Some ks(4,1,2) refl] ks(3) by blast
    ultimately show ?thesis using l1 by simp
  qed
next
  case (6 strict fuel depth first xs s)
  obtain b r1 where k: "next_element first s = Inr (b, r1)"
    using 6(3) by (auto split: sum.splits)
  have l1: "length r1 \<le> length s \<and> (\<not> b \<longrightarrow> length r1 < length s)" using next_element_length [OF k] by auto
  show ?case
  proof (cases b)
    case False
    then show ?thesis using 6(3) k l1 by simp
  next
    case True
    then obtain v r2 where v: "read_value strict fuel (depth + 1) r1 = Inr (v, r2)"
      "read_elements strict fuel depth False (xs @ [v]) r2 = Inr (ys, r)"
      using 6(3) k by (auto split: sum.splits)
    have "length r2 < length r1" using 6(1) [OF k refl] True v(1) by blast
    moreover have "length r < length r2" using 6(2) [OF k refl _ v(1) refl] True v(2) by blast
    ultimately show ?thesis using l1 by simp
  qed
qed auto

lemma lexers_error:
  "next_member first s = Inl e \<Longrightarrow> e = InvalidJSON" "next_element first s = Inl e \<Longrightarrow> e = InvalidJSON"
  by (auto simp: next_member_def next_element_def split: list.splits option.splits if_splits)

lemma significant_part_error: "significant_part n ds e = Inl err \<Longrightarrow> err = InvalidJSON"
  by (auto simp: significant_part_def Let_def split: if_splits prod.splits)

lemma normalize_error: "normalizeJSONNumber t = Inl e \<Longrightarrow> e = InvalidJSON"
  by (auto simp: normalizeJSONNumber_def Let_def significant_part_error
      split: if_splits prod.splits option.splits)

lemma read_scalar_error: "read_scalar strict s = Inl e \<Longrightarrow> e = InvalidJSON"
  by (auto simp: read_scalar_def number_text_def normalize_error
      split: if_splits list.splits option.splits sum.splits prod.splits)

text \<open>Twice the length of the text is fuel enough for the reader.\<close>

lemma reader_fuel_enough:
  "2 * length s + 2 \<le> f \<Longrightarrow> read_value strict f d s \<noteq> Inl OutOfFuel"
  "2 * length s + 1 \<le> f \<Longrightarrow> read_members strict f d first acc s \<noteq> Inl OutOfFuel"
  "2 * length s + 3 \<le> f \<Longrightarrow> read_elements strict f d first xs s \<noteq> Inl OutOfFuel"
proof (induction strict f d s and strict f d first acc s and strict f d first xs s
    rule: read_value_read_members_read_elements.induct)
  case (2 strict fuel depth s)
  have "read_members strict fuel depth True [] (tl (skip_ws s)) \<noteq> Inl OutOfFuel"
    if "\<not> (strict \<and> maxJSONDepth < depth)" "has_prefix (skip_ws s) ''{''"
    using 2(1) [OF that] starts_obj [OF that(2)] 2(3) by simp
  moreover have "read_elements strict fuel depth True [] (tl (skip_ws s)) \<noteq> Inl OutOfFuel"
    if "\<not> (strict \<and> maxJSONDepth < depth)" "\<not> has_prefix (skip_ws s) ''{''" "has_prefix (skip_ws s) ''[''"
    using 2(2) [OF that] starts_arr [OF that(3)] 2(3) by simp
  ultimately show ?case
    using read_scalar_error [of strict "skip_ws s"]
    by (cases "has_prefix (skip_ws s) ''{''"; cases "has_prefix (skip_ws s) ''[''") (auto split: sum.splits)
next
  case (4 strict fuel depth first acc s)
  show ?case
  proof (cases "next_member first s")
    case (Inl e)
    then show ?thesis using lexers_error(1) [of first s] by auto
  next
    case (Inr p)
    then obtain key r1 where k: "next_member first s = Inr (key, r1)" by (cases p) auto
    have l1: "length r1 < length s" using next_member_shorter [OF k] .
    have value_ok: "read_value strict fuel (depth + 1) ks \<noteq> Inl OutOfFuel"
      if "key = Some kk" "\<not> (strict \<and> mget acc kk \<noteq> None)" "skip_colon r1 = Some ks" for kk ks
      using 4(1) [OF k refl that] skip_colon_shorter [OF that(3)] l1 4(3) by simp
    have "read_members strict fuel depth False (acc @ [(kk, v)]) r2 \<noteq> Inl OutOfFuel"
      if "key = Some kk" "\<not> (strict \<and> mget acc kk \<noteq> None)" "skip_colon r1 = Some ks"
        "read_value strict fuel (depth + 1) ks = Inr (v, r2)" for kk ks v r2
      using 4(2) [OF k refl that refl] skip_colon_shorter [OF that(3)] reader_shorter(1) [OF that(4)] l1 4(3)
      by simp
    then show ?thesis using k value_ok by (simp split: sum.split option.split) blast
  qed
next
  case (6 strict fuel depth first xs s)
  show ?case
  proof (cases "next_element first s")
    case (Inl e)
    then show ?thesis using lexers_error(2) [of first s] by auto
  next
    case (Inr p)
    then obtain b r1 where k: "next_element first s = Inr (b, r1)" by (cases p) auto
    have l1: "length r1 \<le> length s" using next_element_length [OF k] by auto
    have value_ok: "read_value strict fuel (depth + 1) r1 \<noteq> Inl OutOfFuel" if b
      using 6(1) [OF k refl] l1 6(3) that by simp
    have "read_elements strict fuel depth False (xs @ [v]) r2 \<noteq> Inl OutOfFuel"
      if b "read_value strict fuel (depth + 1) r1 = Inr (v, r2)" for v r2
      using 6(2) [OF k refl _ that(2) refl] reader_shorter(1) [OF that(2)] l1 6(3) that(1) by simp
    then show ?thesis using k value_ok by (simp split: sum.split) blast
  qed
qed auto

text \<open>More fuel does not change an answer.\<close>

lemma reader_fuel_mono:
  "read_value strict f d s \<noteq> Inl OutOfFuel \<Longrightarrow> f \<le> g \<Longrightarrow> read_value strict g d s = read_value strict f d s"
  "read_members strict f d first acc s \<noteq> Inl OutOfFuel \<Longrightarrow> f \<le> g \<Longrightarrow>
     read_members strict g d first acc s = read_members strict f d first acc s"
  "read_elements strict f d first xs s \<noteq> Inl OutOfFuel \<Longrightarrow> f \<le> g \<Longrightarrow>
     read_elements strict g d first xs s = read_elements strict f d first xs s"
proof (induction strict f d s and strict f d first acc s and strict f d first xs s
    arbitrary: g and g and g rule: read_value_read_members_read_elements.induct)
  case (2 strict fuel depth s)
  obtain h where g: "g = Suc h" "fuel \<le> h" using 2(4) by (cases g) auto
  have "read_members strict h depth True [] (tl (skip_ws s)) = read_members strict fuel depth True [] (tl (skip_ws s))"
    if "\<not> (strict \<and> maxJSONDepth < depth)" "has_prefix (skip_ws s) ''{''"
    using 2(1) [OF that _ g(2)] 2(3) that by (cases "read_members strict fuel depth True [] (tl (skip_ws s))") auto
  moreover have "read_elements strict h depth True [] (tl (skip_ws s)) = read_elements strict fuel depth True [] (tl (skip_ws s))"
    if "\<not> (strict \<and> maxJSONDepth < depth)" "\<not> has_prefix (skip_ws s) ''{''" "has_prefix (skip_ws s) ''[''"
    using 2(2) [OF that _ g(2)] 2(3) that by (cases "read_elements strict fuel depth True [] (tl (skip_ws s))") auto
  ultimately show ?case by (auto simp: g(1))
next
  case (4 strict fuel depth first acc s)
  obtain h where g: "g = Suc h" "fuel \<le> h" using 4(4) by (cases g) auto
  show ?case
  proof (cases "next_member first s")
    case (Inl e)
    then show ?thesis by (simp add: g(1))
  next
    case (Inr p)
    then obtain key r1 where k: "next_member first s = Inr (key, r1)" by (cases p) auto
    show ?thesis
    proof (cases "\<exists>kk ks. key = Some kk \<and> \<not> (strict \<and> mget acc kk \<noteq> None) \<and> skip_colon r1 = Some ks")
      case False
      then show ?thesis using k by (auto simp: g(1) split: option.splits)
    next
      case True
      then obtain kk ks where kk: "key = Some kk" "\<not> (strict \<and> mget acc kk \<noteq> None)" "skip_colon r1 = Some ks"
        by blast
      have v: "read_value strict h (depth + 1) ks = read_value strict fuel (depth + 1) ks"
        using 4(1) [OF k refl kk _ g(2)] 4(3) k kk by (cases "read_value strict fuel (depth + 1) ks") auto
      show ?thesis
      proof (cases "read_value strict fuel (depth + 1) ks")
        case (Inl e)
        then show ?thesis using k kk v by (auto simp: g(1))
      next
        case (Inr vr)
        obtain w r2 where vr: "vr = (w, r2)" by (cases vr) auto
        have "read_members strict h depth False (acc @ [(kk, w)]) r2
            = read_members strict fuel depth False (acc @ [(kk, w)]) r2"
          using 4(2) [OF k refl kk Inr vr [symmetric] _ g(2)] 4(3) k kk Inr vr by auto
        then show ?thesis using k kk v Inr vr by (auto simp: g(1))
      qed
    qed
  qed
next
  case (6 strict fuel depth first xs s)
  obtain h where g: "g = Suc h" "fuel \<le> h" using 6(4) by (cases g) auto
  show ?case
  proof (cases "\<exists>r1. next_element first s = Inr (True, r1)")
    case False
    then show ?thesis by (auto simp: g(1) split: sum.splits)
  next
    case True
    then obtain r1 where k: "next_element first s = Inr (True, r1)" by blast
    have v: "read_value strict h (depth + 1) r1 = read_value strict fuel (depth + 1) r1"
      using 6(1) [OF k refl _ _ g(2)] 6(3) k by (cases "read_value strict fuel (depth + 1) r1") auto
    show ?thesis
    proof (cases "read_value strict fuel (depth + 1) r1")
      case (Inl e)
      then show ?thesis using k v by (auto simp: g(1))
    next
      case (Inr vr)
      obtain w r2 where vr: "vr = (w, r2)" by (cases vr) auto
      have "read_elements strict h depth False (xs @ [w]) r2 = read_elements strict fuel depth False (xs @ [w]) r2"
        using 6(2) [OF k refl _ Inr vr [symmetric] _ g(2)] 6(3) k Inr vr by simp
      then show ?thesis using k v Inr vr by (auto simp: g(1))
    qed
  qed
qed auto

lemma read_document_fuel: "read_document strict s \<noteq> Inl OutOfFuel"
  using reader_fuel_enough(1) [of s "reader_fuel s" strict 0]
  by (auto simp: read_document_def reader_fuel_def split: sum.splits)

lemma parseJSON_fuel: "parseJSON s \<noteq> Inl OutOfFuel"
  using read_document_fuel by (simp add: parseJSON_def)

text \<open>What some fuel reads, the fuel of \<open>read_document\<close> reads.\<close>

lemma read_value_any_fuel:
  assumes "read_value strict f d s = Inr (v, r)"
  shows "read_value strict (reader_fuel s) d s = Inr (v, r)"
proof (cases "f \<le> reader_fuel s")
  case True
  then show ?thesis using reader_fuel_mono(1) [of strict f d s] assms by simp
next
  case False
  then show ?thesis
    using reader_fuel_mono(1) [of strict "reader_fuel s" d s f] reader_fuel_enough(1) [of s "reader_fuel s" strict d] assms
    by (simp add: reader_fuel_def)
qed

end
