(* ===== verification/Json_Round_Trip.thy ===== *)
theory Json_Round_Trip
  imports Json_Reader "HOL-Library.Multiset"
begin

text \<open>
  The writer of \<open>Json\<close> against the reader: what \<open>json.Marshal\<close> writes is read back as the same
  value, the canonical text is a value written with its members sorted, and two values have
  one canonical text exactly when they are equal up to the order of object members.
\<close>

section \<open>Strings\<close>

lemma good_chunk_ascii: "good_chunk (r, bs) \<Longrightarrow> r < 128 \<Longrightarrow> bs = [char_of r]"
proof -
  assume g: "good_chunk (r, bs)" "r < 128"
  then obtain c cs where bs: "bs = c # cs" by (cases bs) (auto simp: good_chunk_def)
  with g have d: "decode_rune (c # cs) = (r, Suc (length cs))" by (simp add: good_chunk_def)
  have "byte c < 128"
  proof (rule ccontr)
    assume "\<not> byte c < 128"
    with d g(2) show False
      by (auto simp: Let_def in_range_def split: if_splits list.splits)
  qed
  with d show ?thesis by (auto simp: bs)
qed

lemma good_chunk_high:
  assumes "good_chunk (r, bs)" "\<not> r < 128"
  obtains c cs where "bs = c # cs" "128 \<le> byte c"
proof -
  obtain c cs where bs: "bs = c # cs" using assms by (cases bs) (auto simp: good_chunk_def)
  have "decode_rune (c # cs) = (r, Suc (length cs))" using assms(1) bs by (simp add: good_chunk_def)
  then have "128 \<le> byte c" using assms(2) by (auto simp: Let_def split: if_splits)
  with bs that show thesis by blast
qed

lemma hex_val_digit [simp]: "n < 16 \<Longrightarrow> hex_val (hex_digit n) = Some n"
  by (auto simp: hex_val_def hex_digit_def in_range_def)

lemma lex_plain:
  assumes "good_chunk (r, c # cs)" "c \<noteq> quote_char" "c \<noteq> backslash" "\<not> byte c < 32"
  shows "lex_string (c # cs @ rest) = map_option (\<lambda>(t, q). (c # cs @ t, q)) (lex_string rest)"
proof -
  have d: "decode_rune (c # cs @ rest) = (r, Suc (length cs))"
    using good_chunk_decode [OF assms(1), of rest] by simp
  have "\<not> (r = rune_error \<and> Suc (length cs) = 1)" using assms(1) by (auto simp: good_chunk_def valid_chunk_def)
  then show ?thesis using assms d by (auto simp: lex_string.simps(2) Let_def simp del: decode_rune.simps)
qed

lemma lex_u_escape:
  assumes "hex4 a b c d = Some r" "\<not> (0xD800 \<le> r \<and> r \<le> 0xDBFF)"
  shows "lex_string (backslash # CHR ''u'' # a # b # c # d # rest)
    = map_option (\<lambda>(t, q). (encode_rune r @ t, q)) (lex_string rest)"
  using assms by (auto simp: lex_string.simps(2))

lemma lex_simple_escape:
  "simple_escape e = Some b \<Longrightarrow>
     lex_string (backslash # e # rest) = map_option (\<lambda>(t, q). (b # t, q)) (lex_string rest)"
  by (auto simp: lex_string.simps(2) simple_escape_def split: if_splits)

lemma char_codes:
  "char_of (34::nat) = quote_char" "char_of (92::nat) = backslash" "char_of (8::nat) = CHR 0x08"
  "char_of (12::nat) = CHR 0x0C" "char_of (10::nat) = CHR 0x0A" "char_of (13::nat) = CHR 0x0D"
  "char_of (9::nat) = CHR 0x09"
  by code_simp+

lemma escape_letters:
  "r \<in> {34, 92, 8, 12, 10, 13, 9} \<Longrightarrow>
     \<exists>e. escape_chunk (r, [char_of r]) = [backslash, e] \<and> simple_escape e = Some (char_of r)"
  by (elim insertE) (simp_all add: escape_chunk_def Let_def simple_escape_def char_codes)

lemma escape_others:
  assumes "r \<notin> {34, 92, 8, 12, 10, 13, 9}" "r < 128"
  shows "escape_chunk (r, [char_of r])
      = [backslash, CHR ''u'', CHR ''0'', CHR ''0'', hex_digit (r div 16), hex_digit (r mod 16)]
    \<or> escape_chunk (r, [char_of r]) = [char_of r] \<and> \<not> r < 32 \<and> r \<noteq> 34 \<and> r \<noteq> 92"
  using assms by (simp add: escape_chunk_def Let_def)

lemma lex_escape_ascii:
  assumes "r < 128"
  shows "lex_string (escape_chunk (r, [char_of r]) @ rest)
    = map_option (\<lambda>(t, q). (char_of r # t, q)) (lex_string rest)"
proof -
  consider (simple) e where "escape_chunk (r, [char_of r]) = [backslash, e]" "simple_escape e = Some (char_of r)"
    | (hex) "escape_chunk (r, [char_of r])
        = [backslash, CHR ''u'', CHR ''0'', CHR ''0'', hex_digit (r div 16), hex_digit (r mod 16)]"
    | (plain) "escape_chunk (r, [char_of r]) = [char_of r]" "\<not> r < 32" "r \<noteq> 34" "r \<noteq> 92"
    using escape_letters [of r] escape_others [of r] assms by blast
  then show ?thesis
  proof cases
    case simple
    then show ?thesis by (simp add: lex_simple_escape)
  next
    case hex
    have "hex_val (CHR ''0'') = Some 0" by (simp add: hex_val_def in_range_def)
    then have "hex4 (CHR ''0'') (CHR ''0'') (hex_digit (r div 16)) (hex_digit (r mod 16)) = Some r"
      using assms by (simp add: hex4_def)
    then show ?thesis using lex_u_escape [of _ _ _ _ r rest] assms hex by (simp add: encode_rune_def)
  next
    case plain
    have "good_chunk (r, [char_of r])" using assms by (simp add: good_chunk_def valid_chunk_def)
    moreover have "(of_char (char_of r) :: nat) = r" using assms by simp
    then have "char_of r \<noteq> quote_char" "char_of r \<noteq> backslash" "\<not> byte (char_of r) < 32"
      using plain by (auto simp flip: char_codes)
    ultimately show ?thesis using lex_plain [of r "char_of r" "[]" rest] plain(1) by simp
  qed
qed

lemma lex_escape:
  assumes "good_chunk (r, bs)"
  shows "lex_string (escape_chunk (r, bs) @ rest) = map_option (\<lambda>(t, q). (bs @ t, q)) (lex_string rest)"
proof (cases "r < 128")
  case True
  then show ?thesis using lex_escape_ascii [OF True, of rest] good_chunk_ascii [OF assms True] by simp
next
  case False
  then obtain c cs where bs: "bs = c # cs" and c: "128 \<le> byte c" using good_chunk_high [OF assms] by blast
  have v: "valid_chunk (r, bs)" using assms by (simp add: good_chunk_def)
  have hex: "hex4 (CHR ''2'') (CHR ''0'') (CHR ''2'') (CHR ''8'') = Some 8232"
    "hex4 (CHR ''2'') (CHR ''0'') (CHR ''2'') (CHR ''9'') = Some 8233"
    by (simp_all add: hex4_def hex_val_def in_range_def)
  show ?thesis
  proof (cases "r = 8232 \<or> r = 8233")
    case True
    then show ?thesis
      using good_chunk_separator [OF assms True] lex_u_escape [OF hex(1), of rest] lex_u_escape [OF hex(2), of rest] False v
      by (auto simp: escape_chunk_def Let_def)
  next
    case neither: False
    have "c \<noteq> quote_char" "c \<noteq> backslash" using c by auto
    then show ?thesis using neither False v lex_plain [OF assms [unfolded bs], of rest] c
      by (auto simp: escape_chunk_def Let_def bs)
  qed
qed

lemma lex_chunks:
  "list_all good_chunk chs \<Longrightarrow>
     lex_string (concat (map escape_chunk chs) @ quote_char # rest) = Some (concat (map snd chs), rest)"
proof (induction chs)
  case Nil
  show ?case by (simp add: lex_string.simps(2))
next
  case (Cons ch chs)
  obtain r bs where "ch = (r, bs)" by (cases ch)
  with Cons show ?case by (simp add: lex_escape)
qed

lemma lex_marshal_string:
  "utf8_valid s \<Longrightarrow> lex_string (tl (marshal_string s) @ rest) = Some (s, rest)"
  using lex_chunks [OF rune_chunks_good, of s rest]
  by (simp add: marshal_string_def utf8_valid_def)

lemma marshal_string_split: "marshal_string s = quote_char # tl (marshal_string s)"
  by (simp add: marshal_string_def)

section \<open>Numbers\<close>

text \<open>What can follow a value inside a document.\<close>

definition delimiter :: "string \<Rightarrow> bool" where
  "delimiter rest \<longleftrightarrow> rest = [] \<or> hd rest = CHR '','' \<or> hd rest = CHR '']'' \<or> hd rest = CHR ''}''"

lemma delimiter_simps [simp]:
  "delimiter []" "delimiter (CHR '','' # r)" "delimiter (CHR '']'' # r)" "delimiter (CHR ''}'' # r)"
  by (simp_all add: delimiter_def)

lemma delimiter_not_digit: "delimiter rest \<Longrightarrow> takeWhile is_digit rest = [] \<and> dropWhile is_digit rest = rest"
  by (cases rest) (auto simp: delimiter_def is_digit_def in_range_def)

lemma lex_digits_append:
  assumes "lex_digits s = Some (t, r)" "r = [] \<longrightarrow> delimiter rest"
  shows "lex_digits (s @ rest) = Some (t, r @ rest)"
proof -
  have t: "t = takeWhile is_digit s" "r = dropWhile is_digit s" "t \<noteq> []"
    using assms(1) by (auto simp: lex_digits_def split: if_splits)
  show ?thesis
  proof (cases "r = []")
    case True
    then have "\<forall>c \<in> set s. is_digit c" using t by (simp add: dropWhile_eq_Nil_conv)
    then have "takeWhile is_digit (s @ rest) = s \<and> dropWhile is_digit (s @ rest) = rest" "t = s"
      using delimiter_not_digit assms(2) True t by (simp_all add: takeWhile_eq_all_conv [THEN iffD2])
    then show ?thesis using t(3) True by (simp add: lex_digits_def)
  next
    case False
    then obtain c where "c \<in> set s" "\<not> is_digit c" using t by (auto simp: dropWhile_eq_Nil_conv)
    then show ?thesis using t by (simp add: lex_digits_def)
  qed
qed

lemma lex_int_append:
  "lex_int s = Some (t, r) \<Longrightarrow> (r = [] \<longrightarrow> delimiter rest) \<Longrightarrow> lex_int (s @ rest) = Some (t, r @ rest)"
  by (cases s) (auto simp: lex_int_def split: if_splits dest: lex_digits_append [of "_ # _"])

lemma lex_frac_append:
  "lex_frac s = Some (t, r) \<Longrightarrow> (r = [] \<longrightarrow> delimiter rest) \<Longrightarrow> lex_frac (s @ rest) = Some (t, r @ rest)"
proof (cases s)
  case Nil
  then show "lex_frac s = Some (t, r) \<Longrightarrow> (r = [] \<longrightarrow> delimiter rest) \<Longrightarrow> ?thesis"
    by (auto simp: lex_frac_def delimiter_def split: list.splits)
next
  case (Cons c cs)
  then show "lex_frac s = Some (t, r) \<Longrightarrow> (r = [] \<longrightarrow> delimiter rest) \<Longrightarrow> ?thesis"
    by (auto simp: lex_frac_def split: if_splits dest: lex_digits_append)
qed

lemma lex_exp_append:
  "lex_exp s = Some (t, r) \<Longrightarrow> (r = [] \<longrightarrow> delimiter rest) \<Longrightarrow> lex_exp (s @ rest) = Some (t, r @ rest)"
proof (cases s)
  case Nil
  then show "lex_exp s = Some (t, r) \<Longrightarrow> (r = [] \<longrightarrow> delimiter rest) \<Longrightarrow> ?thesis"
    by (auto simp: lex_exp_def delimiter_def split: list.splits)
next
  case (Cons c cs)
  then show "lex_exp s = Some (t, r) \<Longrightarrow> (r = [] \<longrightarrow> delimiter rest) \<Longrightarrow> ?thesis"
    by (auto simp: lex_exp_def split: if_splits list.splits dest: lex_digits_append lex_digits_append [of "_ # _"])
qed

lemma lex_number_append:
  assumes "lex_number s = Some (t, [])" "delimiter rest"
  shows "lex_number (s @ rest) = Some (t, rest)"
proof -
  obtain m s1 where m: "lex_minus s = (m, s1)" by fastforce
  obtain i s2 f s3 e where
    parts: "lex_int s1 = Some (i, s2)" "lex_frac s2 = Some (f, s3)" "lex_exp s3 = Some (e, [])" "t = m @ i @ f @ e"
    using assms(1) m by (auto simp: lex_number_def split: option.splits prod.splits)
  have "s1 \<noteq> []" using parts(1) by (auto simp: lex_int_def)
  then have "s \<noteq> []" using m by (auto simp: lex_minus_def)
  then have m': "lex_minus (s @ rest) = (m, s1 @ rest)"
    using m by (auto simp: lex_minus_def split: list.splits if_splits)
  show ?thesis
    using lex_int_append [OF parts(1), of rest] lex_frac_append [OF parts(2), of rest]
      lex_exp_append [OF parts(3), of rest] assms(2) parts(4)
    by (simp add: lex_number_def m')
qed

lemma lex_number_whole: "json_number_pattern n \<Longrightarrow> lex_number n = Some (n, [])"
  by (auto simp: json_number_pattern_def dest: lex_number_parts)

lemma normalize_pattern: "normalizeJSONNumber n = Inr m \<Longrightarrow> json_number_pattern n"
  by (auto simp: normalizeJSONNumber_def split: if_splits)

lemma lex_number_first:
  assumes "lex_number (c # cs) = Some p"
  shows "c = CHR ''-'' \<or> is_digit c"
  using assms
  by (auto simp: lex_number_def lex_minus_def lex_int_def lex_digits_def is_digit_def in_range_def
      split: if_splits option.splits prod.splits)

section \<open>Values\<close>

text \<open>
  A value that the reader can produce at a nesting depth: its strings are UTF-8, its numbers
  are number tokens; in strict mode they are normalised, keys are distinct and the nesting
  is bounded.
\<close>

fun json_ok :: "bool \<Rightarrow> nat \<Rightarrow> json \<Rightarrow> bool" where
  "json_ok strict d JNull \<longleftrightarrow> (strict \<longrightarrow> d \<le> maxJSONDepth)"
| "json_ok strict d (JBool b) \<longleftrightarrow> (strict \<longrightarrow> d \<le> maxJSONDepth)"
| "json_ok strict d (JStr s) \<longleftrightarrow> (strict \<longrightarrow> d \<le> maxJSONDepth) \<and> utf8_valid s"
| "json_ok strict d (JNum n) \<longleftrightarrow>
     (strict \<longrightarrow> d \<le> maxJSONDepth \<and> normalizeJSONNumber n = Inr n) \<and> json_number_pattern n"
| "json_ok strict d (JArr xs) \<longleftrightarrow> (strict \<longrightarrow> d \<le> maxJSONDepth) \<and> list_all (json_ok strict (d + 1)) xs"
| "json_ok strict d (JObj ms) \<longleftrightarrow>
     (strict \<longrightarrow> d \<le> maxJSONDepth \<and> distinct (map fst ms))
     \<and> list_all (\<lambda>(k, v). utf8_valid k \<and> json_ok strict (d + 1) v) ms"

lemma marshal_first:
  "json_ok strict d v \<Longrightarrow> \<exists>c cs. marshal_json v = c # cs \<and> \<not> json_ws c \<and> c \<noteq> CHR '']''"
proof (cases v)
  case (JNum n)
  assume "json_ok strict d v"
  then have n: "lex_number n = Some (n, [])" using JNum lex_number_whole by simp
  then obtain c cs where "n = c # cs" using lex_number_parts by (cases n) auto
  then show ?thesis using n lex_number_first [of c cs] JNum
    by (auto simp: json_ws_def is_digit_def in_range_def)
qed (auto simp: json_ws_def marshal_string_def)

lemma skip_ws_marshal:
  assumes "json_ok strict d v"
  shows "skip_ws (marshal_json v @ rest) = marshal_json v @ rest"
proof -
  obtain c cs where "marshal_json v = c # cs" "\<not> json_ws c"
    using marshal_first [OF assms] by blast
  then show ?thesis by (simp add: skip_ws_def)
qed

lemma read_scalar_marshal:
  assumes "json_ok strict d v" "delimiter rest"
    and "\<And>xs. v \<noteq> JArr xs" "\<And>ms. v \<noteq> JObj ms"
  shows "read_scalar strict (marshal_json v @ rest) = Inr (v, rest)"
proof (cases v)
  case (JNum n)
  then have n: "lex_number n = Some (n, [])" using assms lex_number_whole by simp
  then obtain c cs where c: "n = c # cs" using lex_number_parts by (cases n) auto
  then have f: "c = CHR ''-'' \<or> is_digit c" using n lex_number_first by simp
  then have "c \<noteq> quote_char" by (auto simp: is_digit_def in_range_def)
  moreover have "number_text strict n = Inr n" using assms JNum by (auto simp: number_text_def)
  ultimately show ?thesis using lex_number_append [OF n assms(2)] f
    by (simp add: read_scalar_def JNum c)
next
  case (JStr t)
  then show ?thesis using lex_marshal_string [of t rest] assms marshal_string_split [of t]
    by (simp add: read_scalar_def marshal_string_def)
next
  case (JBool b)
  then show ?thesis by (simp add: read_scalar_def lex_literal_def is_digit_def in_range_def)
next
  case JNull
  then show ?thesis by (simp add: read_scalar_def lex_literal_def is_digit_def in_range_def)
qed (use assms in auto)

text \<open>The structure around the members of an object and the elements of an array.\<close>

lemma skip_ws_plain: "\<not> json_ws c \<Longrightarrow> skip_ws (c # s) = c # s"
  by (simp add: skip_ws_def)

lemma next_member_marshal:
  assumes "utf8_valid k"
  shows "next_member True (marshal_string k @ rest) = Inr (Some k, rest)"
    and "next_member False (CHR '','' # marshal_string k @ rest) = Inr (Some k, rest)"
  using lex_marshal_string [OF assms, of rest]
  by (simp_all add: next_member_def marshal_string_def skip_ws_plain json_ws_def)

lemma next_member_close: "next_member first (CHR ''}'' # rest) = Inr (None, rest)"
  by (simp add: next_member_def skip_ws_plain json_ws_def)

lemma skip_colon_colon: "skip_colon (CHR '':'' # rest) = Some rest"
  by (simp add: skip_colon_def skip_ws_plain json_ws_def)

lemma next_element_close: "next_element first (CHR '']'' # rest) = Inr (False, rest)"
  by (simp add: next_element_def skip_ws_plain json_ws_def)

lemma next_element_comma: "next_element False (CHR '','' # rest) = Inr (True, rest)"
  by (simp add: next_element_def skip_ws_plain json_ws_def)

lemma next_element_first:
  "json_ok strict d v \<Longrightarrow> next_element True (marshal_json v @ rest) = Inr (True, marshal_json v @ rest)"
  using marshal_first [of strict d v] by (auto simp: next_element_def skip_ws_plain)

lemma join_concat: "join sep (w # ws) = w @ concat (map (\<lambda>x. sep @ x) ws)"
proof (induction ws arbitrary: w)
  case (Cons a ws)
  then show ?case by simp
qed simp

text \<open>That some fuel reads a written value back, whatever follows it.\<close>

definition reads :: "bool \<Rightarrow> nat \<Rightarrow> json \<Rightarrow> bool" where
  "reads strict d v \<longleftrightarrow>
    (\<forall>rest. delimiter rest \<longrightarrow> (\<exists>f. read_value strict f d (marshal_json v @ rest) = Inr (v, rest)))"

definition member_text :: "string \<times> json \<Rightarrow> string" where
  "member_text = (\<lambda>(k, v). marshal_string k @ CHR '':'' # marshal_json v)"

lemma read_members_step:
  assumes "next_member first s = Inr (Some k, CHR '':'' # marshal_json v @ rest)"
    and "reads strict (d + 1) v" "delimiter rest" "strict \<longrightarrow> mget acc k = None"
    and "read_members strict f d False (acc @ [(k, v)]) rest = Inr (ms, r)"
  shows "\<exists>g. read_members strict g d first acc s = Inr (ms, r)"
proof -
  obtain h where h: "read_value strict h (d + 1) (marshal_json v @ rest) = Inr (v, rest)"
    using assms(2,3) by (auto simp: reads_def)
  define m where "m = max f h"
  have "read_value strict m (d + 1) (marshal_json v @ rest) = Inr (v, rest)"
    using reader_fuel_mono(1) [of strict h "d + 1" _ m] h by (simp add: m_def)
  moreover have "read_members strict m d False (acc @ [(k, v)]) rest = Inr (ms, r)"
    using reader_fuel_mono(2) [of strict f d False _ _ m] assms(5) by (simp add: m_def)
  ultimately have "read_members strict (Suc m) d first acc s = Inr (ms, r)"
    using assms(1,4) by (auto simp: skip_colon_colon)
  then show ?thesis by blast
qed

lemma read_members_tail:
  assumes "list_all (\<lambda>(k, v). utf8_valid k \<and> reads strict (d + 1) v) ms"
    and "strict \<longrightarrow> distinct (map fst (acc @ ms))"
  shows "\<exists>f. read_members strict f d False acc
      (concat (map (\<lambda>m. CHR '','' # member_text m) ms) @ CHR ''}'' # rest) = Inr (acc @ ms, rest)"
  using assms
proof (induction ms arbitrary: acc)
  case Nil
  have "read_members strict (Suc 0) d False acc (CHR ''}'' # rest) = Inr (acc, rest)"
    by (simp add: next_member_close)
  then show ?case by (auto simp del: read_members.simps)
next
  case (Cons m ms)
  obtain k v where m: "m = (k, v)" by (cases m)
  define tail where "tail = concat (map (\<lambda>m. CHR '','' # member_text m) ms) @ CHR ''}'' # rest"
  have "delimiter tail" by (cases ms) (simp_all add: tail_def)
  moreover obtain f where "read_members strict f d False (acc @ [(k, v)]) tail = Inr (acc @ m # ms, rest)"
    using Cons.IH [of "acc @ [(k, v)]"] Cons.prems m by (auto simp: tail_def)
  moreover have "strict \<longrightarrow> mget acc k = None"
    using Cons.prems(2) m by (force simp: mget_def map_of_eq_None_iff)
  moreover have "next_member False (CHR '','' # member_text m @ tail)
      = Inr (Some k, CHR '':'' # marshal_json v @ tail)"
    using next_member_marshal(2) [of k "CHR '':'' # marshal_json v @ tail"] Cons.prems m
    by (simp add: member_text_def)
  ultimately show ?case using read_members_step [of False] Cons.prems m
    by (fastforce simp: tail_def)
qed

lemma read_members_marshal:
  assumes "list_all (\<lambda>(k, v). utf8_valid k \<and> reads strict (d + 1) v) ms"
    and "strict \<longrightarrow> distinct (map fst ms)"
  shows "\<exists>f. read_members strict f d True [] (join '','' (map member_text ms) @ CHR ''}'' # rest) = Inr (ms, rest)"
proof (cases ms)
  case Nil
  have "read_members strict (Suc 0) d True [] (CHR ''}'' # rest) = Inr ([], rest)"
    by (simp add: next_member_close)
  then show ?thesis using Nil by (auto simp del: read_members.simps)
next
  case (Cons m ms')
  obtain k v where m: "m = (k, v)" by (cases m)
  define tail where "tail = concat (map (\<lambda>m. CHR '','' # member_text m) ms') @ CHR ''}'' # rest"
  have "delimiter tail" by (cases ms') (simp_all add: tail_def)
  moreover obtain f where "read_members strict f d False [(k, v)] tail = Inr (m # ms', rest)"
    using read_members_tail [of strict d ms' "[(k, v)]" rest] assms m Cons by (auto simp: tail_def)
  moreover have "next_member True (member_text m @ tail) = Inr (Some k, CHR '':'' # marshal_json v @ tail)"
    using next_member_marshal(1) [of k "CHR '':'' # marshal_json v @ tail"] assms m Cons
    by (simp add: member_text_def)
  ultimately have "\<exists>g. read_members strict g d True [] (member_text m @ tail) = Inr (ms, rest)"
    using read_members_step [of True "member_text m @ tail" k v tail strict d "[]"] assms m Cons by fastforce
  then show ?thesis by (simp add: Cons join_concat tail_def o_def del: join.simps)
qed

lemma read_elements_step:
  assumes "next_element first s = Inr (True, marshal_json v @ rest)"
    and "reads strict (d + 1) v" "delimiter rest"
    and "read_elements strict f d False (acc @ [v]) rest = Inr (xs, r)"
  shows "\<exists>g. read_elements strict g d first acc s = Inr (xs, r)"
proof -
  obtain h where h: "read_value strict h (d + 1) (marshal_json v @ rest) = Inr (v, rest)"
    using assms(2,3) by (auto simp: reads_def)
  define m where "m = max f h"
  have "read_value strict m (d + 1) (marshal_json v @ rest) = Inr (v, rest)"
    using reader_fuel_mono(1) [of strict h "d + 1" _ m] h by (simp add: m_def)
  moreover have "read_elements strict m d False (acc @ [v]) rest = Inr (xs, r)"
    using reader_fuel_mono(3) [of strict f d False _ _ m] assms(4) by (simp add: m_def)
  ultimately have "read_elements strict (Suc m) d first acc s = Inr (xs, r)"
    using assms(1) by simp
  then show ?thesis by blast
qed

lemma read_elements_tail:
  assumes "list_all (reads strict (d + 1)) xs"
  shows "\<exists>f. read_elements strict f d False acc
      (concat (map (\<lambda>v. CHR '','' # marshal_json v) xs) @ CHR '']'' # rest) = Inr (acc @ xs, rest)"
  using assms
proof (induction xs arbitrary: acc)
  case Nil
  have "read_elements strict (Suc 0) d False acc (CHR '']'' # rest) = Inr (acc, rest)"
    by (simp add: next_element_close)
  then show ?case by (auto simp del: read_elements.simps)
next
  case (Cons v xs)
  define tail where "tail = concat (map (\<lambda>v. CHR '','' # marshal_json v) xs) @ CHR '']'' # rest"
  have "delimiter tail" by (cases xs) (simp_all add: tail_def)
  moreover obtain f where "read_elements strict f d False (acc @ [v]) tail = Inr (acc @ v # xs, rest)"
    using Cons.IH [of "acc @ [v]"] Cons.prems by (auto simp: tail_def)
  moreover have "next_element False (CHR '','' # marshal_json v @ tail) = Inr (True, marshal_json v @ tail)"
    by (rule next_element_comma)
  ultimately show ?case using read_elements_step [of False] Cons.prems by (fastforce simp: tail_def)
qed

lemma read_elements_marshal:
  assumes "list_all (\<lambda>v. json_ok strict (d + 1) v \<and> reads strict (d + 1) v) xs"
  shows "\<exists>f. read_elements strict f d True [] (join '','' (map marshal_json xs) @ CHR '']'' # rest) = Inr (xs, rest)"
proof (cases xs)
  case Nil
  have "read_elements strict (Suc 0) d True [] (CHR '']'' # rest) = Inr ([], rest)"
    by (simp add: next_element_close)
  then show ?thesis using Nil by (auto simp del: read_elements.simps)
next
  case (Cons v xs')
  define tail where "tail = concat (map (\<lambda>v. CHR '','' # marshal_json v) xs') @ CHR '']'' # rest"
  have "delimiter tail" by (cases xs') (simp_all add: tail_def)
  moreover have "list_all (reads strict (d + 1)) xs'" using assms by (simp add: Cons list_all_iff)
  then obtain f where "read_elements strict f d False [v] tail = Inr (v # xs', rest)"
    using read_elements_tail [of strict d xs' "[v]" rest] by (auto simp: tail_def)
  moreover have "next_element True (marshal_json v @ tail) = Inr (True, marshal_json v @ tail)"
    using next_element_first assms Cons by fastforce
  ultimately have "\<exists>g. read_elements strict g d True [] (marshal_json v @ tail) = Inr (xs, rest)"
    using read_elements_step [of True "marshal_json v @ tail" v tail strict d f "[]"] assms Cons by fastforce
  then show ?thesis by (simp add: Cons join_concat tail_def o_def del: join.simps)
qed

lemma scalar_first:
  assumes "json_ok strict d v" "\<And>xs. v \<noteq> JArr xs" "\<And>ms. v \<noteq> JObj ms"
  shows "\<not> has_prefix (marshal_json v @ rest) ''{'' \<and> \<not> has_prefix (marshal_json v @ rest) ''[''"
proof (cases v)
  case (JNum n)
  then have n: "lex_number n = Some (n, [])" using assms lex_number_whole by simp
  then obtain c cs where c: "n = c # cs" using lex_number_parts by (cases n) auto
  then show ?thesis using n lex_number_first [of c cs] JNum by (auto simp: is_digit_def in_range_def)
qed (use assms in \<open>auto simp: marshal_string_def\<close>)

lemma reads_scalar:
  assumes "json_ok strict d v" "\<And>xs. v \<noteq> JArr xs" "\<And>ms. v \<noteq> JObj ms"
  shows "reads strict d v"
proof -
  have "\<not> (strict \<and> maxJSONDepth < d)" using assms by (cases v) auto
  then have "read_value strict (Suc 0) d (marshal_json v @ rest) = Inr (v, rest)" if "delimiter rest" for rest
    using scalar_first [OF assms] read_scalar_marshal [OF assms(1) that assms(2,3)]
    by (simp add: skip_ws_marshal [OF assms(1)])
  then show ?thesis by (auto simp: reads_def simp del: read_value.simps)
qed

text \<open>A written value is read back, strictly or not.\<close>

lemma json_ok_reads: "json_ok strict d v \<Longrightarrow> reads strict d v"
proof (induction strict d v rule: json_ok.induct)
  case (5 strict d xs)
  then have "list_all (\<lambda>v. json_ok strict (d + 1) v \<and> reads strict (d + 1) v) xs"
    by (auto simp: list_all_iff)
  show ?case unfolding reads_def
  proof (intro allI impI)
    fix rest assume "delimiter rest"
    obtain f where "read_elements strict f d True [] (join '','' (map marshal_json xs) @ CHR '']'' # rest) = Inr (xs, rest)"
      using read_elements_marshal [OF \<open>list_all _ xs\<close>] by blast
    then have "read_value strict (Suc f) d (marshal_json (JArr xs) @ rest) = Inr (JArr xs, rest)"
      using 5(2) by (auto simp: skip_ws_plain json_ws_def)
    then show "\<exists>f. read_value strict f d (marshal_json (JArr xs) @ rest) = Inr (JArr xs, rest)" by blast
  qed
next
  case (6 strict d ms)
  then have ms: "list_all (\<lambda>(k, v). utf8_valid k \<and> reads strict (d + 1) v) ms"
    "strict \<longrightarrow> distinct (map fst ms)"
    by (fastforce simp: list_all_iff)+
  show ?case unfolding reads_def
  proof (intro allI impI)
    fix rest assume "delimiter rest"
    obtain f where "read_members strict f d True [] (join '','' (map member_text ms) @ CHR ''}'' # rest) = Inr (ms, rest)"
      using read_members_marshal [OF ms] by blast
    then have "read_value strict (Suc f) d (marshal_json (JObj ms) @ rest) = Inr (JObj ms, rest)"
      using 6(2) by (auto simp: skip_ws_plain json_ws_def member_text_def)
    then show "\<exists>f. read_value strict f d (marshal_json (JObj ms) @ rest) = Inr (JObj ms, rest)" by blast
  qed
qed (auto intro: reads_scalar)

lemma read_document_marshal:
  "json_ok strict 0 v \<Longrightarrow> read_document strict (marshal_json v) = Inr v"
proof -
  assume "json_ok strict 0 v"
  then obtain f where "read_value strict f 0 (marshal_json v @ []) = Inr (v, [])"
    using json_ok_reads [of strict 0 v] unfolding reads_def by (meson delimiter_simps(1))
  then have "read_value strict (reader_fuel (marshal_json v)) 0 (marshal_json v) = Inr (v, [])"
    using read_value_any_fuel by simp
  then show ?thesis by (simp add: read_document_def skip_ws_def)
qed

lemma marshal_json_inj:
  "json_ok strict 0 v \<Longrightarrow> json_ok strict 0 w \<Longrightarrow> marshal_json v = marshal_json w \<Longrightarrow> v = w"
  using read_document_marshal by (metis sum.inject(2))

section \<open>Canonical text\<close>

text \<open>The canonical text is a value written with the members of every object sorted by key.\<close>

fun sort_json :: "json \<Rightarrow> json" where
  "sort_json (JArr xs) = JArr (map sort_json xs)"
| "sort_json (JObj ms) = JObj (sort_key fst (map (\<lambda>(k, v). (k, sort_json v)) ms))"
| "sort_json v = v"

abbreviation on_values :: "('v \<Rightarrow> 'w) \<Rightarrow> ('k \<times> 'v) list \<Rightarrow> ('k \<times> 'w) list" where
  "on_values h \<equiv> map (\<lambda>(k, v). (k, h v))"

lemma insort_on_values: "insort_key fst (k, h v) (on_values h ys) = on_values h (insort_key fst (k, v) ys)"
  by (induction ys) auto

lemma sort_on_values: "sort_key fst (on_values h ms) = on_values h (sort_key fst ms)"
  by (induction ms) (auto simp: insort_on_values)

lemma distinct_sort_keys: "distinct (map fst ms) \<Longrightarrow> distinct (map fst (sort_key fst (on_values h ms)))"
proof -
  assume "distinct (map fst ms)"
  moreover have "map fst (on_values h ms) = map fst ms" by auto
  ultimately have "distinct (map fst (on_values h ms))" by (simp only:)
  then show ?thesis by (simp only: distinct_map distinct_sort set_sort)
qed

lemma write_canonical_sorted: "write_canonical v = marshal_json (sort_json v)"
proof (induction v rule: write_canonical.induct)
  case (6 ms)
  then have "on_values write_canonical ms = on_values marshal_json (on_values sort_json ms)" by auto
  then have "sort_key fst (on_values write_canonical ms)
      = on_values marshal_json (sort_key fst (on_values sort_json ms))"
    by (simp only: sort_on_values)
  then show ?case by (simp add: case_prod_unfold o_def)
qed (simp_all cong: map_cong)

lemma json_ok_sorted: "json_ok strict d v \<Longrightarrow> json_ok strict d (sort_json v)"
proof (induction strict d v rule: json_ok.induct)
  case (5 strict d xs)
  then show ?case by (auto simp: list_all_iff)
next
  case (6 strict d ms)
  then show ?case using distinct_sort_keys [of ms sort_json] by (fastforce simp: list_all_iff)
qed auto

text \<open>Canonical texts are equal exactly when the values are, up to the order of members.\<close>

lemma write_canonical_eq_iff:
  assumes "json_ok strict 0 v" "json_ok strict 0 w"
  shows "write_canonical v = write_canonical w \<longleftrightarrow> sort_json v = sort_json w"
  using marshal_json_inj [OF json_ok_sorted [OF assms(1)] json_ok_sorted [OF assms(2)]]
  by (auto simp: write_canonical_sorted)

text \<open>Two objects with the same members in any order are sorted alike.\<close>

lemma sort_json_reorder:
  assumes "mset ms = mset ns" "distinct (map fst ms)"
  shows "sort_json (JObj ms) = sort_json (JObj ns)"
proof -
  have perm: "mset (on_values sort_json ms) = mset (sort_key fst (on_values sort_json ns))"
    by (simp only: mset_sort mset_map assms(1))
  have "map fst (on_values sort_json ms) = map fst ms" by auto
  then have "inj_on fst (set (on_values sort_json ms))" using assms(2) by (metis distinct_map)
  moreover have "sorted (map fst (sort_key fst (on_values sort_json ns)))" by (rule sorted_sort_key)
  ultimately have "sort_key fst (on_values sort_json ms) = sort_key fst (on_values sort_json ns)"
    by (rule sort_key_inj_key_eq [OF perm])
  then show ?thesis by simp
qed

end
