(* ===== verification/Json_Numbers.thy ===== *)
theory Json_Numbers
  imports Json_Round_Trip Complex_Main
begin

text \<open>
  The normalisation of numbers is exact and canonical: it keeps the rational value, it is
  idempotent, and two numbers have one normal form exactly when their values are equal.
\<close>

section \<open>Decimal text\<close>

lemma dec_val_snoc: "dec_val (ds @ [c]) = dec_val ds * 10 + (byte c - 48)"
  by (simp add: dec_val_def)

lemma dec_val_Nil [simp]: "dec_val [] = 0"
  by (simp add: dec_val_def)

lemma dec_val_append: "dec_val (xs @ ys) = dec_val xs * 10 ^ length ys + dec_val ys"
proof (induction ys rule: rev_induct)
  case (snoc c ys)
  have "dec_val (xs @ ys @ [c]) = dec_val (xs @ ys) * 10 + (byte c - 48)"
    using dec_val_snoc [of "xs @ ys" c] by simp
  then show ?case using snoc by (simp add: dec_val_snoc algebra_simps)
qed simp

lemma dec_val_Cons: "dec_val (c # cs) = (byte c - 48) * 10 ^ length cs + dec_val cs"
  using dec_val_append [of "[c]" cs] by (simp add: dec_val_def)

lemma byte_digit [simp]: "(n::nat) < 10 \<Longrightarrow> byte (char_of (48 + n)) = 48 + n"
  by simp

lemma is_digit_char [simp]: "(n::nat) < 10 \<Longrightarrow> is_digit (char_of (48 + n))"
  by (simp add: is_digit_def in_range_def)

lemma show_nat_facts: "dec_val (show_nat n) = n \<and> list_all is_digit (show_nat n) \<and> show_nat n \<noteq> []"
proof (induction n rule: show_nat.induct)
  case (1 n)
  show ?case
  proof (cases "n < 10")
    case True
    then show ?thesis by (simp add: show_nat.simps [of n] dec_val_Cons del: of_char_of)
  next
    case False
    have "n mod 10 < 10" by simp
    then show ?thesis using 1 False
      by (simp add: show_nat.simps [of n] dec_val_snoc del: of_char_of)
  qed
qed

lemma digit_not_sign: "is_digit c \<Longrightarrow> c \<noteq> CHR ''-'' \<and> c \<noteq> CHR ''+'' \<and> c \<noteq> CHR ''.'' \<and> c \<noteq> CHR ''e'' \<and> c \<noteq> CHR ''E''"
  by (auto simp: is_digit_def in_range_def)

lemma parse_show_int: "min_int64 \<le> i \<Longrightarrow> i \<le> max_int64 \<Longrightarrow> parse_int64 (show_int i) = Some i"
proof (cases "i < 0")
  case True
  assume "min_int64 \<le> i" "i \<le> max_int64"
  then show ?thesis using True show_nat_facts [of "nat (- i)"]
    by (auto simp: parse_int64_def show_int_def Let_def)
next
  case False
  assume b: "min_int64 \<le> i" "i \<le> max_int64"
  obtain c cs where s: "show_nat (nat i) = c # cs" using show_nat_facts [of "nat i"] by (cases "show_nat (nat i)") auto
  have "is_digit c" using show_nat_facts [of "nat i"] s by simp
  then show ?thesis using False b show_nat_facts [of "nat i"] digit_not_sign [of c]
    by (auto simp: parse_int64_def show_int_def Let_def s)
qed

lemma dec_val_bound: "list_all is_digit ds \<Longrightarrow> dec_val ds < 10 ^ length ds"
proof (induction ds rule: rev_induct)
  case (snoc c ds)
  have "byte c - 48 < 10" using snoc.prems by (auto simp: is_digit_def in_range_def)
  then show ?case using snoc by (simp add: dec_val_snoc)
qed simp

text \<open>A digit string of a given length is determined by its value.\<close>

lemma dec_val_inj:
  "list_all is_digit xs \<Longrightarrow> list_all is_digit ys \<Longrightarrow> length xs = length ys \<Longrightarrow> dec_val xs = dec_val ys \<Longrightarrow> xs = ys"
proof (induction xs arbitrary: ys rule: rev_induct)
  case (snoc c xs)
  obtain d ys' where ys: "ys = ys' @ [d]" using snoc.prems(3) by (cases ys rule: rev_exhaust) auto
  have c: "48 \<le> byte c" "byte c - 48 < 10" and d: "48 \<le> byte d" "byte d - 48 < 10"
    using snoc.prems(1,2) ys by (auto simp: is_digit_def in_range_def)
  have "dec_val xs * 10 + (byte c - 48) = dec_val ys' * 10 + (byte d - 48)"
    using snoc.prems(4) by (simp add: ys dec_val_snoc)
  with c d have "dec_val xs = dec_val ys'" by linarith
  with \<open>dec_val xs * 10 + (byte c - 48) = _\<close> have "byte c - 48 = byte d - 48" by simp
  with c d have "byte c = byte d" by linarith
  then have "c = d" by simp
  then show ?case using snoc ys \<open>dec_val xs = dec_val ys'\<close> by auto
qed simp

lemma dec_val_lead:
  "list_all is_digit (c # cs) \<Longrightarrow> c \<noteq> CHR ''0'' \<Longrightarrow> 10 ^ length cs \<le> dec_val (c # cs)"
proof -
  assume a: "list_all is_digit (c # cs)" "c \<noteq> CHR ''0''"
  have "byte c \<noteq> byte (CHR ''0'')" using a(2) by (metis char_of_char)
  then have "1 \<le> byte c - 48" using a(1) by (auto simp: is_digit_def in_range_def)
  then show ?thesis by (simp add: dec_val_Cons trans_le_add1)
qed

text \<open>Without a leading zero the value alone determines the digits.\<close>

lemma dec_val_inj_lead:
  assumes "list_all is_digit xs" "list_all is_digit ys" "xs \<noteq> []" "ys \<noteq> []"
    "hd xs \<noteq> CHR ''0''" "hd ys \<noteq> CHR ''0''" "dec_val xs = dec_val ys"
  shows "xs = ys"
proof -
  have le: "length us \<le> length vs" if h: "list_all is_digit us" "list_all is_digit vs" "us \<noteq> []"
    "hd us \<noteq> CHR ''0''" "dec_val us = dec_val vs" for us vs
  proof -
    obtain c cs where us: "us = c # cs" using h(3) by (cases us) auto
    have "(10::nat) ^ length cs < 10 ^ length vs"
      using dec_val_lead [of c cs] dec_val_bound [OF h(2)] h us by (metis list.sel(1) le_less_trans)
    then show ?thesis by (simp add: us)
  qed
  have "length xs = length ys" using le [of xs ys] le [of ys xs] assms by simp
  then show ?thesis using dec_val_inj assms by blast
qed

section \<open>The value of a number\<close>

text \<open>
  The rational number that a number token denotes, read off its parts: sign, integer digits,
  fraction digits, exponent.
\<close>

definition exponent_value :: "string \<Rightarrow> int" where
  "exponent_value e =
    (case e of
       [] \<Rightarrow> 0
     | _ # g \<Rightarrow>
         if has_prefix g ''-'' then - int (dec_val (tl g))
         else if has_prefix g ''+'' then int (dec_val (tl g))
         else int (dec_val g))"

definition decimal_value :: "bool \<Rightarrow> string \<Rightarrow> int \<Rightarrow> real" where
  "decimal_value negative ds e = (if negative then - 1 else 1) * real (dec_val ds) * 10 powi e"

definition number_value :: "string \<Rightarrow> real" where
  "number_value n =
    (let (m, s1) = lex_minus n;
         (i, s2) = the (lex_int s1);
         (f, s3) = the (lex_frac s2);
         (e, s4) = the (lex_exp s3)
     in decimal_value (m \<noteq> []) (i @ tl f) (exponent_value e - int (length (tl f))))"

text \<open>The parts of a number token, as the grammar has them.\<close>

definition number_parts :: "string \<Rightarrow> string \<Rightarrow> string \<Rightarrow> string \<Rightarrow> string \<Rightarrow> bool" where
  "number_parts n m i f e \<longleftrightarrow>
    n = m @ i @ f @ e \<and> (m = [] \<or> m = ''-'') \<and> i \<noteq> [] \<and> list_all is_digit i
    \<and> (f = [] \<or> (\<exists>d. f = CHR ''.'' # d \<and> d \<noteq> [] \<and> list_all is_digit d))
    \<and> (e = [] \<or> (\<exists>c g d. e = c # g @ d \<and> (c = CHR ''e'' \<or> c = CHR ''E'')
          \<and> (g = [] \<or> g = ''+'' \<or> g = ''-'') \<and> d \<noteq> [] \<and> list_all is_digit d))"

lemma lex_digits_shape: "lex_digits s = Some (t, r) \<Longrightarrow> t \<noteq> [] \<and> list_all is_digit t"
  by (auto simp: lex_digits_def list_all_iff dest: set_takeWhileD split: if_splits)

lemma lex_int_shape: "lex_int s = Some (t, r) \<Longrightarrow> t \<noteq> [] \<and> list_all is_digit t"
  by (auto simp: lex_int_def is_digit_def in_range_def split: list.splits if_splits dest: lex_digits_shape)

lemma lex_frac_shape:
  "lex_frac s = Some (t, r) \<Longrightarrow> t = [] \<or> (\<exists>d. t = CHR ''.'' # d \<and> d \<noteq> [] \<and> list_all is_digit d)"
  by (auto simp: lex_frac_def split: list.splits if_splits dest: lex_digits_shape)

lemma lex_exp_shape:
  assumes "lex_exp s = Some (t, r)"
  shows "t = [] \<or> (\<exists>c g d. t = c # g @ d \<and> (c = CHR ''e'' \<or> c = CHR ''E'')
          \<and> (g = [] \<or> g = ''+'' \<or> g = ''-'') \<and> d \<noteq> [] \<and> list_all is_digit d)"
proof (cases s)
  case Nil
  then show ?thesis using assms by (simp add: lex_exp_def)
next
  case (Cons c cs)
  show ?thesis
  proof (cases "c = CHR ''e'' \<or> c = CHR ''E''")
    case False
    then show ?thesis using assms Cons by (simp add: lex_exp_def)
  next
    case True
    then obtain g gs where g: "cs = g # gs" using assms Cons by (cases cs) (auto simp: lex_exp_def)
    show ?thesis
    proof (cases "g = CHR ''+'' \<or> g = CHR ''-''")
      case sign: True
      then obtain d where "lex_digits gs = Some (d, r)" "t = c # [g] @ d"
        using assms Cons True g by (auto simp: lex_exp_def)
      then show ?thesis using lex_digits_shape [of gs d r] True sign
        by (intro disjI2 exI [of _ c] exI [of _ "[g]"] exI [of _ d]) simp
    next
      case False
      then obtain d where "lex_digits cs = Some (d, r)" "t = c # [] @ d"
        using assms Cons True g by (auto simp: lex_exp_def)
      then show ?thesis using lex_digits_shape [of cs d r] True
        by (intro disjI2 exI [of _ c] exI [of _ "[]"] exI [of _ d]) simp
    qed
  qed
qed

lemma number_parts_ex:
  assumes "json_number_pattern n"
  obtains m i f e where "number_parts n m i f e"
    and "number_value n = decimal_value (m \<noteq> []) (i @ tl f) (exponent_value e - int (length (tl f)))"
proof -
  have n: "lex_number n = Some (n, [])" using lex_number_whole assms .
  obtain m s1 where m: "lex_minus n = (m, s1)" by fastforce
  obtain i s2 f s3 e where
    parts: "lex_int s1 = Some (i, s2)" "lex_frac s2 = Some (f, s3)" "lex_exp s3 = Some (e, [])" "n = m @ i @ f @ e"
    using n m by (auto simp: lex_number_def split: option.splits prod.splits)
  have "m = [] \<or> m = ''-''" using m by (auto simp: lex_minus_def split: list.splits if_splits)
  then have "number_parts n m i f e"
    using parts lex_int_shape [OF parts(1)] lex_frac_shape [OF parts(2)] lex_exp_shape [OF parts(3)]
    by (simp add: number_parts_def)
  moreover have "number_value n = decimal_value (m \<noteq> []) (i @ tl f) (exponent_value e - int (length (tl f)))"
    using m parts by (simp add: number_value_def)
  ultimately show thesis using that by blast
qed

section \<open>What the normalisation computes\<close>

lemma split_first_none: "list_all (\<lambda>c. \<not> p c) s \<Longrightarrow> split_first p s = None"
  by (simp add: split_first_def dropWhile_eq_Nil_conv [THEN iffD2] list_all_iff)

lemma split_first_some:
  "list_all (\<lambda>c. \<not> p c) s \<Longrightarrow> p c \<Longrightarrow> split_first p (s @ c # t) = Some (s, t)"
  by (simp add: split_first_def list_all_iff)

lemma digits_no_exp: "list_all is_digit d \<Longrightarrow> list_all (\<lambda>c. \<not> (c = CHR ''e'' \<or> c = CHR ''E'')) d"
  by (auto simp: list_all_iff dest: digit_not_sign)

lemma digits_no_dot: "list_all is_digit d \<Longrightarrow> list_all (\<lambda>c. \<not> c = CHR ''.'') d"
  by (auto simp: list_all_iff dest: digit_not_sign)

lemma parse_int64_value:
  assumes "parse_int64 (g @ d) = Some v" "g = [] \<or> g = ''+'' \<or> g = ''-''" "d \<noteq> []" "list_all is_digit d"
  shows "v = exponent_value (c # g @ d)"
proof -
  obtain x xs where d: "d = x # xs" using assms(3) by (cases d) auto
  then show ?thesis using assms digit_not_sign [of x]
    by (auto simp: parse_int64_def exponent_value_def Let_def split: if_splits)
qed

lemma exponent_part_parts:
  assumes "number_parts n m i f e" "exponent_part (i @ f @ e) = Some (x, y)"
  shows "x = exponent_value e \<and> y = i @ f"
proof -
  have clean: "list_all (\<lambda>c. \<not> (c = CHR ''e'' \<or> c = CHR ''E'')) (i @ f)"
    using assms(1) digits_no_exp by (auto simp: number_parts_def)
  show ?thesis
  proof (cases e)
    case Nil
    then have "exponent_part (i @ f @ e) = Some (0, i @ f)"
      using split_first_none [OF clean] by (simp add: exponent_part_def)
    then show ?thesis using assms(2) Nil by (simp add: exponent_value_def)
  next
    case (Cons c cs)
    then obtain g d where g: "e = c # g @ d" "c = CHR ''e'' \<or> c = CHR ''E''" "g = [] \<or> g = ''+'' \<or> g = ''-''"
      "d \<noteq> []" "list_all is_digit d"
      using assms(1) by (auto simp: number_parts_def)
    have "exponent_part (i @ f @ e) = map_option (\<lambda>v. (v, i @ f)) (parse_int64 (g @ d))"
      using split_first_some [OF clean, of c "g @ d"] g(1,2) by (simp add: exponent_part_def)
    then show ?thesis using assms(2) parse_int64_value [OF _ g(3,4,5), of x c] g(1) by auto
  qed
qed

lemma fraction_part_parts:
  assumes "number_parts n m i f e"
  shows "fraction_part (i @ f) = (i, tl f)"
proof -
  have i: "list_all (\<lambda>c. \<not> c = CHR ''.'') i" using assms digits_no_dot by (simp add: number_parts_def)
  show ?thesis
    using assms split_first_none [OF i] split_first_some [OF i, of "CHR ''.''"]
    by (auto simp: number_parts_def fraction_part_def)
qed

text \<open>An accepted number is the significant part of its digits.\<close>

lemma normalize_parts:
  assumes "normalizeJSONNumber n = Inr out"
  obtains negative ds e where "list_all is_digit ds" "ds \<noteq> []" "exponent_ok e"
    "number_value n = decimal_value negative ds e" "significant_part negative ds e = Inr out"
proof -
  obtain m i f e where parts: "number_parts n m i f e"
    and value_eq: "number_value n = decimal_value (m \<noteq> []) (i @ tl f) (exponent_value e - int (length (tl f)))"
    using number_parts_ex [OF normalize_pattern [OF assms]] by blast
  have n: "n = m @ i @ f @ e" and m: "m = [] \<or> m = ''-''" and i: "i \<noteq> []" "list_all is_digit i"
    using parts by (auto simp: number_parts_def)
  obtain c cs where c: "i = c # cs" using i by (cases i) auto
  have neg: "has_prefix n ''-'' = (m \<noteq> [])" "(if m \<noteq> [] then tl n else n) = i @ f @ e"
    using m i(2) digit_not_sign [of c] by (auto simp: n c)
  obtain x y where xy: "exponent_part (i @ f @ e) = Some (x, y)"
    using assms by (auto simp: normalizeJSONNumber_def Let_def neg split: if_splits option.splits)
  have xy': "x = exponent_value e" "y = i @ f" using exponent_part_parts [OF parts xy] by auto
  have out: "significant_part (m \<noteq> []) (i @ tl f) (exponent_value e - int (length (tl f))) = Inr out"
    and ok: "exponent_ok (exponent_value e - int (length (tl f)))"
    using assms xy fraction_part_parts [OF parts] xy'
    by (auto simp: normalizeJSONNumber_def Let_def neg split: if_splits)
  have "list_all is_digit (i @ tl f)" using parts by (auto simp: number_parts_def)
  with i(1) ok value_eq out show thesis using that [of "i @ tl f"] by simp
qed

text \<open>The digits that the normal form keeps, and the normal form written out.\<close>

definition significant :: "string \<Rightarrow> bool" where
  "significant ds \<longleftrightarrow> ds \<noteq> [] \<and> list_all is_digit ds \<and> hd ds \<noteq> CHR ''0'' \<and> last ds \<noteq> CHR ''0''"

definition render_number :: "bool \<Rightarrow> string \<Rightarrow> int \<Rightarrow> string" where
  "render_number negative ds e =
    (if negative then ''-'' else []) @ ds @ (if e = 0 then [] else ''e'' @ show_int e)"

lemma drop_zeros_facts:
  "ds \<noteq> [] \<Longrightarrow> drop_zeros ds e = (ds', e') \<Longrightarrow>
     \<exists>k. ds = ds' @ replicate k (CHR ''0'') \<and> e' = e + int k \<and> ds' \<noteq> []
       \<and> (length ds' = 1 \<or> last ds' \<noteq> CHR ''0'')"
proof (induction ds e rule: drop_zeros.induct)
  case (1 ds e)
  show ?case
  proof (cases "1 < length ds \<and> last ds = CHR ''0''")
    case True
    then have bl: "butlast ds \<noteq> []" "ds = butlast ds @ ''0''"
      using append_butlast_last_id [of ds] 1(2) by (auto simp flip: length_greater_0_conv)
    obtain k where k: "butlast ds = ds' @ replicate k (CHR ''0'')" "e' = e + 1 + int k" "ds' \<noteq> []"
      "length ds' = 1 \<or> last ds' \<noteq> CHR ''0''"
      using 1(1) [OF True bl(1)] 1(3) True by (auto simp: drop_zeros.simps [of ds])
    have "ds = ds' @ replicate (Suc k) (CHR ''0'')"
      using bl(2) k(1) by (metis append_assoc replicate_append_same replicate_Suc)
    then show ?thesis using k by (intro exI [of _ "Suc k"]) simp
  next
    case False
    then have "ds' = ds" "e' = e" using 1(3) by (auto simp: drop_zeros.simps [of ds] split: if_splits)
    moreover have "length ds = 1 \<or> last ds \<noteq> CHR ''0''" using False 1(2) by (cases ds) auto
    ultimately show ?thesis using 1(2) by (intro exI [of _ 0]) simp
  qed
qed

lemma dec_val_zeros: "dec_val (ds @ replicate k (CHR ''0'')) = dec_val ds * 10 ^ k"
proof (induction k)
  case (Suc k)
  have "dec_val (ds @ replicate (Suc k) (CHR ''0'')) = dec_val ((ds @ replicate k (CHR ''0'')) @ ''0'')"
    by (metis append_assoc replicate_append_same replicate_Suc)
  then show ?case using Suc by (simp only: dec_val_snoc) simp
qed simp

lemma dec_val_strip: "dec_val (dropWhile (\<lambda>c. c = CHR ''0'') ds) = dec_val ds"
  by (induction ds) (auto simp: dec_val_Cons)

lemma decimal_value_zeros:
  "decimal_value neg (ds @ replicate k (CHR ''0'')) e = decimal_value neg ds (e + int k)"
  by (simp add: decimal_value_def dec_val_zeros power_int_add)

lemma significant_part_cases:
  assumes "significant_part neg ds e = Inr out" "list_all is_digit ds"
  shows "(out = ''0'' \<and> decimal_value neg ds e = 0)
    \<or> (\<exists>ds' e'. significant ds' \<and> exponent_ok e' \<and> out = render_number neg ds' e'
         \<and> decimal_value neg ds e = decimal_value neg ds' e')"
proof -
  define st where "st = dropWhile (\<lambda>c. c = CHR ''0'') ds"
  have digits: "list_all is_digit st" using assms(2) by (auto simp: st_def list_all_iff dest: set_dropWhileD)
  have same: "decimal_value neg ds e = decimal_value neg st e"
    by (simp add: decimal_value_def st_def dec_val_strip)
  show ?thesis
  proof (cases "st = []")
    case True
    then have "decimal_value neg ds e = 0" using same by (simp add: decimal_value_def)
    then show ?thesis using assms(1) True by (simp add: significant_part_def st_def [symmetric])
  next
    case False
    obtain ds' e' where d: "drop_zeros st e = (ds', e')" by fastforce
    obtain k where k: "st = ds' @ replicate k (CHR ''0'')" "e' = e + int k" "ds' \<noteq> []"
      "length ds' = 1 \<or> last ds' \<noteq> CHR ''0''"
      using drop_zeros_facts [OF False d] by blast
    have "hd st \<noteq> CHR ''0''" using hd_dropWhile [of "\<lambda>c. c = CHR ''0''" ds] False by (simp add: st_def)
    then have hd: "hd ds' \<noteq> CHR ''0''" using k(1,3) by simp
    moreover have "last ds' \<noteq> CHR ''0''" using k(3,4) hd by (cases ds') auto
    ultimately have "significant ds'" using k digits by (simp add: significant_def)
    moreover have "exponent_ok e'" "out = render_number neg ds' e'"
      using assms(1) False d by (auto simp: significant_part_def st_def [symmetric] render_number_def Let_def split: if_splits)
    moreover have "decimal_value neg ds e = decimal_value neg ds' e'"
      using same decimal_value_zeros [of neg ds' k e] k by simp
    ultimately show ?thesis by blast
  qed
qed

section \<open>Normal forms\<close>

lemma exponent_ok_int64: "exponent_ok e \<Longrightarrow> min_int64 \<le> e \<and> e \<le> max_int64"
  by (simp add: exponent_ok_def min_int64_def max_int64_def)

lemma lex_digits_all: "list_all is_digit d \<Longrightarrow> d \<noteq> [] \<Longrightarrow> lex_digits d = Some (d, [])"
  by (simp add: lex_digits_def takeWhile_eq_all_conv [THEN iffD2] list_all_iff)

lemma lex_exp_show: "lex_exp (CHR ''e'' # show_int e) = Some (CHR ''e'' # show_int e, [])"
proof (cases "e < 0")
  case True
  then show ?thesis using lex_digits_all [of "show_nat (nat (- e))"] show_nat_facts [of "nat (- e)"]
    by (simp add: lex_exp_def show_int_def)
next
  case False
  obtain c cs where s: "show_nat (nat e) = c # cs" using show_nat_facts [of "nat e"] by (cases "show_nat (nat e)") auto
  then have "is_digit c" using show_nat_facts [of "nat e"] by simp
  then show ?thesis using lex_digits_all [of "show_nat (nat e)"] show_nat_facts [of "nat e"] False digit_not_sign [of c]
    by (simp add: lex_exp_def show_int_def s)
qed

lemma exponent_value_show: "exponent_value (CHR ''e'' # show_int e) = e"
proof (cases "e < 0")
  case True
  then show ?thesis using show_nat_facts [of "nat (- e)"] by (simp add: exponent_value_def show_int_def)
next
  case False
  obtain c cs where s: "show_nat (nat e) = c # cs" using show_nat_facts [of "nat e"] by (cases "show_nat (nat e)") auto
  then have "is_digit c" using show_nat_facts [of "nat e"] by simp
  then show ?thesis using show_nat_facts [of "nat e"] False digit_not_sign [of c]
    by (auto simp: exponent_value_def show_int_def s)
qed

lemma render_lexed:
  fixes e :: int
  assumes "significant ds"
  defines "tail \<equiv> (if e = 0 then [] else ''e'' @ show_int e)"
  shows "lex_minus (render_number neg ds e) = ((if neg then ''-'' else []), ds @ tail)"
    and "lex_int (ds @ tail) = Some (ds, tail)"
    and "lex_frac tail = Some ([], tail)" and "lex_exp tail = Some (tail, [])"
proof -
  obtain c cs where ds: "ds = c # cs" using assms by (cases ds) (auto simp: significant_def)
  have c: "is_digit c" "c \<noteq> CHR ''0''" "list_all is_digit ds" using assms by (auto simp: significant_def ds)
  show "lex_minus (render_number neg ds e) = ((if neg then ''-'' else []), ds @ tail)"
    using digit_not_sign [OF c(1)] by (simp add: lex_minus_def render_number_def ds tail_def)
  have "takeWhile is_digit (ds @ tail) = ds \<and> dropWhile is_digit (ds @ tail) = tail"
    using c(3) by (auto simp: tail_def is_digit_def in_range_def list_all_iff)
  then show "lex_int (ds @ tail) = Some (ds, tail)"
    using c by (simp add: lex_int_def lex_digits_def ds)
  show "lex_frac tail = Some ([], tail)" by (simp add: lex_frac_def tail_def)
  show "lex_exp tail = Some (tail, [])" using lex_exp_show [of e] by (auto simp: tail_def lex_exp_def)
qed

lemma render_pattern: "significant ds \<Longrightarrow> json_number_pattern (render_number neg ds e)"
  using render_lexed [where ds = ds and e = e] by (auto simp: json_number_pattern_def lex_number_def)

lemma render_value: "significant ds \<Longrightarrow> number_value (render_number neg ds e) = decimal_value neg ds e"
  using render_lexed [where ds = ds and e = e] exponent_value_show [of e]
  by (simp add: number_value_def exponent_value_def)

lemma drop_zeros_significant: "significant ds \<Longrightarrow> drop_zeros ds e = (ds, e)"
  by (simp add: drop_zeros.simps significant_def)

lemma render_normal:
  assumes "significant ds" "exponent_ok e"
  shows "normalizeJSONNumber (render_number neg ds e) = Inr (render_number neg ds e)"
proof -
  obtain c cs where ds: "ds = c # cs" using assms by (cases ds) (auto simp: significant_def)
  have c: "is_digit c" "c \<noteq> CHR ''0''" "list_all is_digit ds" using assms by (auto simp: significant_def ds)
  define tail where "tail = (if e = 0 then [] else ''e'' @ show_int e)"
  have neg: "has_prefix (render_number neg ds e) ''-'' = neg"
    "(if neg then tl (render_number neg ds e) else render_number neg ds e) = ds @ tail"
    using digit_not_sign [OF c(1)] by (simp_all add: render_number_def ds tail_def)
  have "exponent_part (ds @ tail) = Some (e, ds)"
    using split_first_none [OF digits_no_exp [OF c(3)]] split_first_some [OF digits_no_exp [OF c(3)], of "CHR ''e''" "show_int e"]
      parse_show_int [of e] exponent_ok_int64 [OF assms(2)]
    by (simp add: exponent_part_def tail_def)
  moreover have "fraction_part ds = (ds, [])"
    using split_first_none [OF digits_no_dot [OF c(3)]] by (simp add: fraction_part_def)
  moreover have "dropWhile (\<lambda>c. c = CHR ''0'') ds = ds" using c(2) by (simp add: ds)
  then have "significant_part neg ds e = Inr (render_number neg ds e)"
    using drop_zeros_significant [OF assms(1), of e] assms(2) ds
    by (auto simp: significant_part_def render_number_def Let_def)
  ultimately show ?thesis
    using assms(2) render_pattern [OF assms(1)] neg by (simp add: normalizeJSONNumber_def Let_def)
qed

lemma zero_normal: "normalizeJSONNumber ''0'' = Inr ''0''" "json_number_pattern ''0''" "number_value ''0'' = 0"
proof -
  show "normalizeJSONNumber ''0'' = Inr ''0''" by code_simp
  show "json_number_pattern ''0''" by code_simp
  show "number_value ''0'' = 0"
    by (simp add: number_value_def lex_minus_def lex_int_def lex_frac_def decimal_value_def lex_exp_def dec_val_def)
qed

text \<open>A normal form: zero, or significant digits with an exponent in range.\<close>

lemma normalize_cases:
  assumes "normalizeJSONNumber n = Inr out"
  shows "(out = ''0'' \<and> number_value n = 0)
    \<or> (\<exists>neg ds e. significant ds \<and> exponent_ok e \<and> out = render_number neg ds e
         \<and> number_value n = decimal_value neg ds e)"
proof -
  obtain neg ds e where "list_all is_digit ds" "number_value n = decimal_value neg ds e" "significant_part neg ds e = Inr out"
    using normalize_parts [OF assms] by blast
  then show ?thesis using significant_part_cases [of neg ds e out] by auto
qed

text \<open>The normalisation keeps the value and is idempotent.\<close>

lemma normalize_value: "normalizeJSONNumber n = Inr out \<Longrightarrow> number_value out = number_value n"
  using normalize_cases [of n out] render_value zero_normal by metis

lemma normalize_idempotent: "normalizeJSONNumber n = Inr out \<Longrightarrow> normalizeJSONNumber out = Inr out"
  using normalize_cases [of n out] render_normal zero_normal by metis

text \<open>Normal forms with the same value are the same.\<close>

lemma significant_dec_val:
  assumes "significant ds"
  shows "\<not> 10 dvd dec_val ds" "0 < dec_val ds"
proof -
  obtain xs c where ds: "ds = xs @ [c]" using assms by (cases ds rule: rev_exhaust) (auto simp: significant_def)
  have c: "48 \<le> byte c" "byte c \<le> 57" "c \<noteq> CHR ''0''"
    using assms by (auto simp: significant_def ds is_digit_def in_range_def)
  have "byte c \<noteq> byte (CHR ''0'')" using c(3) by (metis char_of_char)
  then have range: "1 \<le> byte c - 48" "byte c - 48 \<le> 9" using c by auto
  show "\<not> 10 dvd dec_val ds"
  proof
    assume "10 dvd dec_val ds"
    then have "10 dvd (byte c - 48)" by (simp add: ds dec_val_snoc dvd_add_right_iff)
    then show False using range dvd_imp_le by fastforce
  qed
  then show "0 < dec_val ds" by (metis dvd_0_right gr0I)
qed

lemma scaled_eq:
  fixes m n :: nat
  assumes "real m * 10 powi e = real n * 10 powi e'" "e \<le> e'" "\<not> 10 dvd m"
  shows "e = e' \<and> m = n"
proof -
  obtain k where k: "e' = e + int k" using assms(2) zle_iff_zadd by blast
  have "real m * 10 powi e = (real n * 10 ^ k) * 10 powi e" using assms(1) by (simp add: k power_int_add)
  then have "real m = real (n * 10 ^ k)" by simp
  then have m: "m = n * 10 ^ k" using of_nat_eq_iff by blast
  have "k = 0"
  proof (rule ccontr)
    assume "k \<noteq> 0"
    then have "10 dvd m" unfolding m by (cases k) simp_all
    then show False using assms(3) by simp
  qed
  then show ?thesis using m k by simp
qed

lemma decimal_value_unique:
  assumes "significant ds" "significant ds'" "decimal_value neg ds e = decimal_value neg' ds' e'"
  shows "neg = neg' \<and> ds = ds' \<and> e = e'"
proof -
  have pos: "0 < real (dec_val ds) * 10 powi e" "0 < real (dec_val ds') * 10 powi e'"
    using significant_dec_val [OF assms(1)] significant_dec_val [OF assms(2)] by simp_all
  then have neg: "neg = neg'" "real (dec_val ds) * 10 powi e = real (dec_val ds') * 10 powi e'"
    using assms(3) by (auto simp: decimal_value_def mult.assoc split: if_splits)
  then have "e = e' \<and> dec_val ds = dec_val ds'"
    using scaled_eq [of "dec_val ds" e "dec_val ds'" e'] scaled_eq [of "dec_val ds'" e' "dec_val ds" e]
      significant_dec_val [OF assms(1)] significant_dec_val [OF assms(2)]
    by (metis linear)
  then show ?thesis using neg dec_val_inj_lead assms(1,2) by (auto simp: significant_def)
qed

lemma decimal_value_nonzero: "significant ds \<Longrightarrow> decimal_value neg ds e \<noteq> 0"
  using significant_dec_val [of ds] by (simp add: decimal_value_def)

lemma normalize_same:
  assumes "normalizeJSONNumber m = Inr out" "normalizeJSONNumber n = Inr out'"
  shows "out = out' \<longleftrightarrow> number_value m = number_value n"
proof
  assume "out = out'"
  then show "number_value m = number_value n" using normalize_value assms by metis
next
  assume eq: "number_value m = number_value n"
  show "out = out'"
  proof (cases "number_value m = 0")
    case True
    then have "out = ''0''" "out' = ''0''"
      using normalize_cases [OF assms(1)] normalize_cases [OF assms(2)] eq decimal_value_nonzero by auto
    then show ?thesis by simp
  next
    case False
    obtain neg ds e where o1: "significant ds" "out = render_number neg ds e" "number_value m = decimal_value neg ds e"
      using normalize_cases [OF assms(1)] False by auto
    obtain neg' ds' e' where o2: "significant ds'" "out' = render_number neg' ds' e'" "number_value n = decimal_value neg' ds' e'"
      using normalize_cases [OF assms(2)] False eq by auto
    show ?thesis using decimal_value_unique [OF o1(1) o2(1), of neg e neg' e'] o1 o2 eq by simp
  qed
qed

section \<open>What the strict reader accepts\<close>

lemma read_scalar_ok:
  assumes "read_scalar True s = Inr (v, r)" "d \<le> maxJSONDepth"
  shows "json_ok True d v"
proof -
  have "normalizeJSONNumber n = Inr out \<Longrightarrow> normalizeJSONNumber out = Inr out \<and> json_number_pattern out" for n out
    using normalize_idempotent normalize_pattern by blast
  then show ?thesis using assms
    by (auto simp: read_scalar_def number_text_def lex_literal_def dest: lex_string_facts
        split: list.splits if_splits option.splits sum.splits)
qed

lemma next_member_key: "next_member first s = Inr (Some k, r) \<Longrightarrow> utf8_valid k"
  by (auto simp: next_member_def dest: lex_string_facts split: list.splits if_splits option.splits)

lemma reader_ok:
  "read_value strict f d s = Inr (v, r) \<Longrightarrow> strict \<Longrightarrow> json_ok True d v"
  "read_members strict f d first acc s = Inr (ms, r) \<Longrightarrow> strict \<Longrightarrow>
     distinct (map fst acc) \<Longrightarrow> list_all (\<lambda>(k, v). utf8_valid k \<and> json_ok True (d + 1) v) acc \<Longrightarrow>
     distinct (map fst ms) \<and> list_all (\<lambda>(k, v). utf8_valid k \<and> json_ok True (d + 1) v) ms"
  "read_elements strict f d first xs s = Inr (ys, r) \<Longrightarrow> strict \<Longrightarrow>
     list_all (json_ok True (d + 1)) xs \<Longrightarrow> list_all (json_ok True (d + 1)) ys"
proof (induction strict f d s and strict f d first acc s and strict f d first xs s
    arbitrary: v r and ms r and ys r rule: read_value_read_members_read_elements.induct)
  case (2 strict fuel depth s)
  have depth: "depth \<le> maxJSONDepth" using 2(3,4) by (auto split: if_splits)
  consider (obj) ms where "has_prefix (skip_ws s) ''{''" "v = JObj ms"
      "read_members strict fuel depth True [] (tl (skip_ws s)) = Inr (ms, r)"
    | (arr) xs where "\<not> has_prefix (skip_ws s) ''{''" "has_prefix (skip_ws s) ''[''" "v = JArr xs"
      "read_elements strict fuel depth True [] (tl (skip_ws s)) = Inr (xs, r)"
    | (scalar) "read_scalar strict (skip_ws s) = Inr (v, r)"
    using 2(3) by (auto split: if_splits sum.splits)
  then show ?case
  proof cases
    case obj
    then show ?thesis using 2(1) [OF _ obj(1,3)] depth 2(4) by simp
  next
    case arr
    then show ?thesis using 2(2) [OF _ arr(1,2,4)] depth 2(4) by simp
  next
    case scalar
    then show ?thesis using read_scalar_ok depth 2(4) by simp
  qed
next
  case (4 strict fuel depth first acc s)
  obtain key r1 where k: "next_member first s = Inr (key, r1)"
    using 4(3) by (auto split: sum.splits)
  show ?case
  proof (cases key)
    case None
    then show ?thesis using 4(3,5,6) k by simp
  next
    case (Some kk)
    then obtain ks v r2 where ks: "skip_colon r1 = Some ks" "read_value strict fuel (depth + 1) ks = Inr (v, r2)"
      "read_members strict fuel depth False (acc @ [(kk, v)]) r2 = Inr (ms, r)"
      "\<not> (strict \<and> mget acc kk \<noteq> None)"
      using 4(3) k by (auto split: sum.splits option.splits if_splits)
    have "json_ok True (depth + 1) v" using 4(1) [OF k refl Some ks(4,1) ks(2) 4(4)] .
    moreover have "utf8_valid kk" using next_member_key k Some by blast
    moreover have "kk \<notin> set (map fst acc)" using ks(4) 4(4) by (auto simp: mget_def map_of_eq_None_iff)
    ultimately show ?thesis using 4(2) [OF k refl Some ks(4,1,2) refl ks(3) 4(4)] 4(5,6) by simp
  qed
next
  case (6 strict fuel depth first xs s)
  obtain b r1 where k: "next_element first s = Inr (b, r1)"
    using 6(3) by (auto split: sum.splits)
  show ?case
  proof (cases b)
    case False
    then show ?thesis using 6(3,5) k by simp
  next
    case True
    then obtain v r2 where v: "read_value strict fuel (depth + 1) r1 = Inr (v, r2)"
      "read_elements strict fuel depth False (xs @ [v]) r2 = Inr (ys, r)"
      using 6(3) k by (auto split: sum.splits)
    have "json_ok True (depth + 1) v" using 6(1) [OF k refl _ v(1) 6(4)] True by simp
    then show ?thesis using 6(2) [OF k refl _ v(1) refl v(2) 6(4)] True 6(5) by simp
  qed
qed auto

lemma read_document_ok: "read_document True s = Inr v \<Longrightarrow> json_ok True 0 v"
  by (auto simp: read_document_def dest: reader_ok(1) split: sum.splits if_splits)

lemma parseJSON_ok: "parseJSON s = Inr v \<Longrightarrow> json_ok True 0 v"
  by (auto simp: parseJSON_def dest: read_document_ok split: if_splits)

end
