(* ===== verification/Json_Canonical.thy ===== *)
theory Json_Canonical
  imports Json_Numbers
begin

text \<open>
  \<open>CanonicalizeJSON\<close> end to end: every check made on the raw bytes holds of a text that the
  writer made, so a marshalled value is accepted, its canonical form is its own canonical
  form, and equal canonical forms mean equal values.
\<close>

section \<open>The encoding checks on written text\<close>

definition number_char :: "char \<Rightarrow> bool" where
  "number_char c \<longleftrightarrow> is_digit c \<or> c = CHR ''-'' \<or> c = CHR ''+'' \<or> c = CHR ''.'' \<or> c = CHR ''e'' \<or> c = CHR ''E''"

lemma number_char_simps [simp]:
  "number_char (CHR ''-'')" "number_char (CHR ''+'')" "number_char (CHR ''.'')"
  "number_char (CHR ''e'')" "number_char (CHR ''E'')" "is_digit c \<Longrightarrow> number_char c"
  by (simp_all add: number_char_def)

lemma digits_number_chars [simp]: "list_all is_digit d \<Longrightarrow> list_all number_char d"
  by (simp add: list_all_iff)

lemma number_parts_chars:
  assumes n: "number_parts n m i f e"
  shows "list_all number_char m" "list_all number_char i" "list_all number_char f" "list_all number_char e"
proof -
  have "m = [] \<or> m = ''-''" using n unfolding number_parts_def by (elim conjE) assumption
  then show "list_all number_char m" by auto
  have "list_all is_digit i" using n unfolding number_parts_def by (elim conjE) assumption
  then show "list_all number_char i" by simp
  have "f = [] \<or> (\<exists>d. f = CHR ''.'' # d \<and> d \<noteq> [] \<and> list_all is_digit d)"
    using n unfolding number_parts_def by (elim conjE) assumption
  then show "list_all number_char f" by auto
  have "e = [] \<or> (\<exists>c g d. e = c # g @ d \<and> (c = CHR ''e'' \<or> c = CHR ''E'')
      \<and> (g = [] \<or> g = ''+'' \<or> g = ''-'') \<and> d \<noteq> [] \<and> list_all is_digit d)"
    using n unfolding number_parts_def by (elim conjE) assumption
  then show "list_all number_char e" by (elim disjE exE conjE) simp_all
qed

lemma number_parts_join: "number_parts n m i f e \<Longrightarrow> n = m @ i @ f @ e \<and> i \<noteq> []"
  unfolding number_parts_def by (elim conjE) (intro conjI)

lemma number_chars:
  assumes "json_number_pattern n"
  shows "n \<noteq> [] \<and> list_all number_char n"
proof -
  obtain m i f e where n: "number_parts n m i f e" by (rule number_parts_ex [OF assms])
  show ?thesis using number_parts_chars [OF n] number_parts_join [OF n] by simp
qed

lemma number_char_plain: "number_char c \<Longrightarrow> byte c < 128 \<and> c \<noteq> quote_char \<and> \<not> is_space (byte c)"
  by (auto simp: number_char_def is_digit_def in_range_def is_space_def)

lemma escape_utf8: "good_chunk (r, bs) \<Longrightarrow> utf8_valid (escape_chunk (r, bs))"
proof (cases "r < 128")
  case True
  assume "good_chunk (r, bs)"
  then have "bs = [char_of r]" using good_chunk_ascii True by blast
  moreover have "byte (hex_digit n) < 128" if "n < 16" for n using that by (simp add: hex_digit_def)
  ultimately show ?thesis using True by (simp add: escape_chunk_def Let_def)
next
  case False
  assume g: "good_chunk (r, bs)"
  then show ?thesis using False utf8_valid_chunk [OF g]
    by (auto simp: escape_chunk_def Let_def good_chunk_def)
qed

lemma utf8_valid_marshal_string: "utf8_valid s \<Longrightarrow> utf8_valid (tl (marshal_string s))"
proof -
  assume "utf8_valid s"
  then have "list_all good_chunk (rune_chunks s)" by (simp add: rune_chunks_good utf8_valid_def)
  then have "\<And>w. w \<in> set (map escape_chunk (rune_chunks s)) \<Longrightarrow> utf8_valid w"
    using escape_utf8 by (fastforce simp: list_all_iff)
  then have "utf8_valid (concat (map escape_chunk (rune_chunks s)))" by (rule utf8_valid_concat)
  then show ?thesis by (simp add: marshal_string_def)
qed

lemma utf8_valid_join:
  "utf8_valid sep \<Longrightarrow> (\<And>w. w \<in> set ws \<Longrightarrow> utf8_valid w) \<Longrightarrow> utf8_valid (join sep ws)"
  by (induction sep ws rule: join.induct) auto

lemma ascii_valid: "(\<And>c. c \<in> set s \<Longrightarrow> byte c < 128) \<Longrightarrow> utf8_valid s"
  by (rule utf8_valid_ascii) (simp add: ascii_def list_all_iff)

lemma utf8_valid_number: "json_number_pattern n \<Longrightarrow> utf8_valid n"
  using number_chars number_char_plain by (intro ascii_valid) (auto simp: list_all_iff)

lemma utf8_valid_string_text: "utf8_valid s \<Longrightarrow> utf8_valid (marshal_string s)"
proof -
  assume "utf8_valid s"
  moreover have "byte quote_char < 128" by simp
  ultimately show ?thesis using utf8_valid_marshal_string marshal_string_split by (metis utf8_valid_Cons_ascii)
qed

lemma utf8_valid_marshal: "json_ok strict d v \<Longrightarrow> utf8_valid (marshal_json v)"
proof (induction strict d v rule: json_ok.induct)
  case (5 strict d xs)
  then have "utf8_valid (join '','' (map marshal_json xs))"
    by (intro utf8_valid_join) (auto simp: list_all_iff)
  then show ?case by simp
next
  case (6 strict d ms)
  then have "utf8_valid (join '','' (map (\<lambda>(k, v). marshal_string k @ '':'' @ marshal_json v) ms))"
    by (intro utf8_valid_join) (fastforce simp: list_all_iff utf8_valid_string_text)+
  then show ?case by simp
qed (auto simp: utf8_valid_number utf8_valid_string_text)

text \<open>Text that leaves \<open>validateJSONStringEncoding\<close> outside a string, as it found it.\<close>

definition transparent :: "string \<Rightarrow> bool" where
  "transparent w \<longleftrightarrow> (\<forall>rest. check_strings False (w @ rest) = check_strings False rest)"

lemma transparent_append [intro]: "transparent v \<Longrightarrow> transparent w \<Longrightarrow> transparent (v @ w)"
  by (simp add: transparent_def)

lemma transparent_Cons [intro]: "c \<noteq> quote_char \<Longrightarrow> transparent w \<Longrightarrow> transparent (c # w)"
  by (simp add: transparent_def)

lemma transparent_Nil [simp]: "transparent []"
  by (simp add: transparent_def)

lemma transparent_join:
  "transparent sep \<Longrightarrow> (\<And>w. w \<in> set ws \<Longrightarrow> transparent w) \<Longrightarrow> transparent (join sep ws)"
  by (induction sep ws rule: join.induct) auto

lemma transparent_plain: "(\<And>c. c \<in> set w \<Longrightarrow> c \<noteq> quote_char) \<Longrightarrow> transparent w"
  by (induction w) auto

lemma check_plain:
  assumes "good_chunk (r, c # cs)" "c \<noteq> quote_char" "c \<noteq> backslash"
  shows "check_strings True (c # cs @ rest) = check_strings True rest"
  using good_chunk_decode [OF assms(1), of rest] assms by simp

lemma check_u_escape:
  "hex4 a b c d = Some r \<Longrightarrow> \<not> (0xD800 \<le> r \<and> r \<le> 0xDFFF) \<Longrightarrow>
     check_strings True (backslash # CHR ''u'' # a # b # c # d # rest) = check_strings True rest"
  by auto

lemma check_escape_ascii:
  assumes "r < 128"
  shows "check_strings True (escape_chunk (r, [char_of r]) @ rest) = check_strings True rest"
proof -
  consider (simple) e where "escape_chunk (r, [char_of r]) = [backslash, e]" "simple_escape e = Some (char_of r)"
    | (hex) "escape_chunk (r, [char_of r])
        = [backslash, CHR ''u'', CHR ''0'', CHR ''0'', hex_digit (r div 16), hex_digit (r mod 16)]"
    | (plain) "escape_chunk (r, [char_of r]) = [char_of r]" "\<not> r < 32" "r \<noteq> 34" "r \<noteq> 92"
    using escape_letters [of r] escape_others [of r] assms by blast
  then show ?thesis
  proof cases
    case simple
    then have "e \<noteq> CHR ''u''" by (auto simp: simple_escape_def)
    then show ?thesis using simple by simp
  next
    case hex
    have "hex_val (CHR ''0'') = Some 0" by (simp add: hex_val_def in_range_def)
    then have "hex4 (CHR ''0'') (CHR ''0'') (hex_digit (r div 16)) (hex_digit (r mod 16)) = Some r"
      using assms by (simp add: hex4_def)
    then show ?thesis using check_u_escape [of _ _ _ _ r rest] assms hex by simp
  next
    case plain
    have "good_chunk (r, [char_of r])" using assms by (simp add: good_chunk_def valid_chunk_def)
    moreover have "(of_char (char_of r) :: nat) = r" using assms by simp
    then have "char_of r \<noteq> quote_char" "char_of r \<noteq> backslash"
      using plain by (auto simp flip: char_codes)
    ultimately show ?thesis using check_plain [of r "char_of r" "[]" rest] plain(1) by simp
  qed
qed

lemma check_escape:
  assumes "good_chunk (r, bs)"
  shows "check_strings True (escape_chunk (r, bs) @ rest) = check_strings True rest"
proof (cases "r < 128")
  case True
  then show ?thesis using check_escape_ascii [OF True, of rest] good_chunk_ascii [OF assms True] by simp
next
  case False
  then obtain c cs where bs: "bs = c # cs" and c: "128 \<le> byte c" using good_chunk_high [OF assms] by blast
  have v: "valid_chunk (r, bs)" using assms by (simp add: good_chunk_def)
  have hex: "hex4 (CHR ''2'') (CHR ''0'') (CHR ''2'') (CHR ''8'') = Some 8232"
    "hex4 (CHR ''2'') (CHR ''0'') (CHR ''2'') (CHR ''9'') = Some 8233"
    by (simp_all add: hex4_def hex_val_def in_range_def)
  show ?thesis
  proof (cases "r = 8232 \<or> r = 8233")
    case True
    then show ?thesis
      using check_u_escape [OF hex(1), of rest] check_u_escape [OF hex(2), of rest] False v
      by (auto simp: escape_chunk_def Let_def)
  next
    case neither: False
    have "c \<noteq> quote_char" "c \<noteq> backslash" using c by auto
    then show ?thesis using neither False v check_plain [OF assms [unfolded bs], of rest]
      by (auto simp: escape_chunk_def Let_def bs)
  qed
qed

lemma check_chunks:
  "list_all good_chunk chs \<Longrightarrow>
     check_strings True (concat (map escape_chunk chs) @ quote_char # rest) = check_strings False rest"
proof (induction chs)
  case (Cons ch chs)
  then show ?case by (cases ch) (simp add: check_escape)
qed simp

lemma transparent_marshal_string: "utf8_valid s \<Longrightarrow> transparent (marshal_string s)"
  using check_chunks [OF rune_chunks_good, of s]
  by (simp add: utf8_valid_def transparent_def marshal_string_def)

lemma transparent_literals: "transparent ''null''" "transparent ''true''" "transparent ''false''"
  by (simp_all add: transparent_def)

lemma transparent_marshal: "json_ok strict d v \<Longrightarrow> transparent (marshal_json v)"
proof (induction strict d v rule: json_ok.induct)
  case (4 strict d n)
  then show ?case using number_chars [of n] number_char_plain
    by (auto intro!: transparent_plain simp: list_all_iff)
next
  case (5 strict d xs)
  then have "transparent (join '','' (map marshal_json xs))"
    by (intro transparent_join) (auto simp: list_all_iff)
  then show ?case by (simp add: transparent_def)
next
  case (6 strict d ms)
  then have "transparent (join '','' (map (\<lambda>(k, v). marshal_string k @ '':'' @ marshal_json v) ms))"
    by (intro transparent_join) (fastforce simp: list_all_iff transparent_marshal_string)+
  then show ?case by (simp add: transparent_def)
qed (simp_all add: transparent_marshal_string transparent_literals)

lemma encoding_marshal: "json_ok strict d v \<Longrightarrow> validateJSONStringEncoding (marshal_json v)"
  using transparent_marshal [of strict d v] utf8_valid_marshal [of strict d v]
  by (simp add: validateJSONStringEncoding_def transparent_def) (metis append_Nil2 check_strings.simps(1))

section \<open>Space around written text\<close>

definition tight :: "string \<Rightarrow> bool" where
  "tight s \<longleftrightarrow> (\<exists>c cs. s = c # cs \<and> byte c < 128 \<and> \<not> is_space (byte c))
    \<and> (\<exists>w c. s = w @ [c] \<and> utf8_valid w \<and> byte c < 128 \<and> \<not> is_space (byte c))"

lemma trim_tight: "tight s \<Longrightarrow> trim_space s = s"
proof -
  assume "tight s"
  then obtain c cs w d where s: "s = c # cs" "byte c < 128" "\<not> is_space (byte c)"
    "s = w @ [d]" "utf8_valid w" "byte d < 128" "\<not> is_space (byte d)"
    unfolding tight_def by blast
  have "rune_chunks s = (byte c, [c]) # rune_chunks cs" using s by simp
  then have head: "dropWhile (\<lambda>ch. is_space (fst ch)) (rune_chunks s) = rune_chunks s" using s(3) by simp
  have "rune_chunks s = rune_chunks w @ [(byte d, [d])]"
    using rune_chunks_append [OF s(5), of "[d]"] s(4,6) by simp
  then have tail: "dropWhile (\<lambda>ch. is_space (fst ch)) (rev (rune_chunks s)) = rev (rune_chunks s)"
    using s(7) by simp
  show ?thesis unfolding trim_space_def head tail by simp
qed

lemma tight_wrap:
  "byte c < 128 \<Longrightarrow> \<not> is_space (byte c) \<Longrightarrow> byte d < 128 \<Longrightarrow> \<not> is_space (byte d) \<Longrightarrow> utf8_valid w \<Longrightarrow>
     tight (c # w @ [d])"
  by (auto simp: tight_def intro!: exI [of _ "c # w"])

lemma tight_number:
  assumes "json_number_pattern n"
  shows "tight n"
proof -
  have n: "n \<noteq> []" "list_all number_char n" using number_chars [OF assms] by auto
  obtain c cs where c: "n = c # cs" using n(1) by (cases n) auto
  obtain w d where d: "n = w @ [d]" using n(1) by (cases n rule: rev_exhaust) auto
  have "utf8_valid w" using n(2) number_char_plain by (intro ascii_valid) (auto simp: d list_all_iff)
  moreover have "number_char c" using n(2) c by simp
  moreover have "number_char d" using n(2) d by simp
  ultimately show ?thesis using c d number_char_plain unfolding tight_def by blast
qed

lemma tight_marshal:
  assumes "json_ok strict d v"
  shows "tight (marshal_json v)"
proof (cases v)
  case (JNum n)
  then show ?thesis using assms tight_number by simp
next
  case (JStr s)
  have "utf8_valid (concat (map escape_chunk (rune_chunks s)))"
  proof (rule utf8_valid_concat)
    fix w assume "w \<in> set (map escape_chunk (rune_chunks s))"
    moreover have "list_all good_chunk (rune_chunks s)"
      using assms JStr by (auto simp: rune_chunks_good utf8_valid_def)
    ultimately show "utf8_valid w" using escape_utf8 by (fastforce simp: list_all_iff)
  qed
  then show ?thesis using tight_wrap [of quote_char quote_char]
    by (simp add: JStr marshal_string_def is_space_def)
next
  case (JArr xs)
  have "utf8_valid (join '','' (map marshal_json xs))"
    using assms JArr utf8_valid_marshal by (intro utf8_valid_join) (auto simp: list_all_iff)
  then show ?thesis using tight_wrap [of "CHR ''[''" "CHR '']''"] by (simp add: JArr is_space_def)
next
  case (JObj ms)
  have "utf8_valid (join '','' (map (\<lambda>(k, v). marshal_string k @ '':'' @ marshal_json v) ms))"
    using assms JObj utf8_valid_marshal
    by (intro utf8_valid_join) (fastforce simp: list_all_iff utf8_valid_string_text)+
  then show ?thesis using tight_wrap [of "CHR ''{''" "CHR ''}''"] by (simp add: JObj is_space_def)
next
  case (JBool b)
  have "tight ''true''" "tight ''false''"
    using tight_wrap [of "CHR ''t''" "CHR ''e''" "''ru''"] tight_wrap [of "CHR ''f''" "CHR ''e''" "''als''"]
    by (simp_all add: is_space_def)
  then show ?thesis by (simp add: JBool)
next
  case JNull
  then show ?thesis using tight_wrap [of "CHR ''n''" "CHR ''l''" "''ul''"] by (simp add: is_space_def)
qed

section \<open>Canonicalisation\<close>

lemma parseJSON_marshal:
  assumes "json_ok True 0 v" "length (marshal_json v) \<le> MaxArgumentsBytes"
  shows "parseJSON (marshal_json v) = Inr v"
  using assms marshal_first [OF assms(1)] encoding_marshal [OF assms(1)] read_document_marshal [OF assms(1)]
  by (auto simp: parseJSON_def)

lemma Canonicalize_marshal:
  assumes "json_ok True 0 v" "length (marshal_json v) \<le> MaxArgumentsBytes"
  shows "CanonicalizeJSON (marshal_json v) = Inr (write_canonical v)"
  using parseJSON_marshal [OF assms] trim_tight [OF tight_marshal [OF assms(1)]]
  by (simp add: CanonicalizeJSON_def)

lemma Canonicalize_value:
  assumes "CanonicalizeJSON s = Inr t"
  obtains v where "parseJSON (trim_space s) = Inr v" "json_ok True 0 v" "t = marshal_json (sort_json v)"
  using assms parseJSON_ok write_canonical_sorted by (auto simp: CanonicalizeJSON_def split: sum.splits)

lemma sort_json_idem: "sort_json (sort_json v) = sort_json v"
proof (induction v rule: sort_json.induct)
  case (2 ms)
  have eq: "on_values sort_json (sort_key fst (on_values sort_json ms)) = sort_key fst (on_values sort_json ms)"
  proof -
    have "on_values sort_json (on_values sort_json ms) = on_values sort_json ms" using 2 by auto
    then show ?thesis by (simp only: sort_on_values [symmetric])
  qed
  have "sort_key fst (sort_key fst (on_values sort_json ms)) = sort_key fst (on_values sort_json ms)"
    by (rule sort_key_id_if_sorted) simp
  then show ?case using eq by simp
qed auto

text \<open>
  Every canonical text is the canonical form of itself, as long as it stays within the size
  bound: the writer can lengthen a text (an escaped \<open><\<close> takes six bytes).
\<close>

lemma Canonicalize_idempotent:
  assumes "CanonicalizeJSON s = Inr t" "length t \<le> MaxArgumentsBytes"
  shows "CanonicalizeJSON t = Inr t"
proof -
  obtain v where v: "json_ok True 0 v" "t = marshal_json (sort_json v)" by (rule Canonicalize_value [OF assms(1)])
  have "json_ok True 0 (sort_json v)" using json_ok_sorted [OF v(1)] .
  then have "CanonicalizeJSON t = Inr (write_canonical (sort_json v))"
    using Canonicalize_marshal assms(2) v(2) by simp
  then show ?thesis by (simp add: write_canonical_sorted sort_json_idem v(2))
qed

text \<open>Two accepted documents have one canonical form exactly when they denote the same value.\<close>

lemma Canonicalize_eq_iff:
  assumes "CanonicalizeJSON s = Inr t" "CanonicalizeJSON s' = Inr t'"
    "parseJSON (trim_space s) = Inr v" "parseJSON (trim_space s') = Inr v'"
  shows "t = t' \<longleftrightarrow> sort_json v = sort_json v'"
  using assms write_canonical_eq_iff [OF parseJSON_ok [OF assms(3)] parseJSON_ok [OF assms(4)]]
  by (auto simp: CanonicalizeJSON_def)

end
