(* ===== verification/Action_Facts.thy ===== *)
theory Action_Facts
  imports Canonical_Action Json_Canonical
begin

text \<open>
  What the digest of an action determines. The canonical JSON of a valid action is injective
  up to the order of object members in the arguments, so equal digests mean the same action
  or a collision of the hash function.
\<close>

lemma check_required_None:
  "check_required fs = None \<Longrightarrow> list_all (\<lambda>(n, v, l). v \<noteq> [] \<and> clean_text l v) fs"
  by (induction fs rule: check_required.induct) (auto split: if_splits)

lemma optional_None:
  "validateOptionalMetadata n v l = None \<longleftrightarrow> v = [] \<or> clean_text l v"
  by (auto simp: validateOptionalMetadata_def)

lemma clean_text_utf8: "clean_text l v \<Longrightarrow> utf8_valid v"
  by (simp add: clean_text_def)

lemma sha256_pattern_ascii: "sha256_pattern s \<Longrightarrow> ascii s"
proof -
  assume s: "sha256_pattern s"
  have "s = take 7 s @ drop 7 s" by simp
  then have eq: "s = ''sha256:'' @ drop 7 s" using s by (metis sha256_pattern_def)
  have "ascii (drop 7 s)" using s by (auto simp: sha256_pattern_def ascii_def list_all_iff lower_hex_def in_range_def)
  then have "ascii (''sha256:'' @ drop 7 s)" by (simp add: ascii_def)
  then show ?thesis using eq by simp
qed

lemma sha256_pattern_utf8: "sha256_pattern s \<Longrightarrow> utf8_valid s"
  by (simp add: sha256_pattern_ascii utf8_valid_ascii)

lemma action_Validate_required:
  "action_Validate a = None \<Longrightarrow> list_all (\<lambda>(n, v, l). v \<noteq> [] \<and> clean_text l v) (action_required a)"
  using check_required_None [of "action_required a"]
  by (simp add: action_Validate_def split: option.splits)

lemma action_Validate_optional:
  assumes "action_Validate a = None"
  shows "ac_DelegatedAuthorityFingerprint a = [] \<or> sha256_pattern (ac_DelegatedAuthorityFingerprint a)"
    "ac_ExecutionBinding a = [] \<or> sha256_pattern (ac_ExecutionBinding a)"
    "ac_ProfileID a = [] \<or> clean_text 256 (ac_ProfileID a)"
    "ac_Audience a = [] \<or> clean_text 1024 (ac_Audience a)"
    "(ac_ProfileID a = []) = (ac_Audience a = [])"
  using assms by (simp_all add: action_Validate_def optional_None split: option.splits if_splits)

lemma action_Validate_strings:
  assumes "action_Validate a = None"
  shows "utf8_valid (ac_PrincipalID a)" "utf8_valid (ac_AgentID a)" "utf8_valid (ac_WorkloadID a)"
    "utf8_valid (ac_Tool a)" "utf8_valid (ac_Capability a)" "utf8_valid (ac_Resource a)" "utf8_valid (ac_Operation a)"
    "utf8_valid (ac_DelegatedAuthorityFingerprint a)" "utf8_valid (ac_ExecutionBinding a)"
    "utf8_valid (ac_ProfileID a)" "utf8_valid (ac_Audience a)"
proof -
  have req: "list_all (\<lambda>(n, v, l). v \<noteq> [] \<and> clean_text l v) (action_required a)"
    by (rule action_Validate_required [OF assms])
  show "utf8_valid (ac_PrincipalID a)" "utf8_valid (ac_AgentID a)" "utf8_valid (ac_WorkloadID a)"
    "utf8_valid (ac_Tool a)" "utf8_valid (ac_Capability a)" "utf8_valid (ac_Resource a)" "utf8_valid (ac_Operation a)"
    using req by (simp_all add: action_required_def clean_text_def)
  have "utf8_valid s" if "s = [] \<or> sha256_pattern s" for s using that sha256_pattern_utf8 by auto
  then show "utf8_valid (ac_DelegatedAuthorityFingerprint a)" "utf8_valid (ac_ExecutionBinding a)"
    using action_Validate_optional(1,2) [OF assms] by blast+
  have "utf8_valid s" if "s = [] \<or> clean_text l s" for s l using that by (auto simp: clean_text_def)
  then show "utf8_valid (ac_ProfileID a)" "utf8_valid (ac_Audience a)"
    using action_Validate_optional(3,4) [OF assms] by blast+
qed

lemma json_ok_lenient: "json_ok True d v \<Longrightarrow> json_ok False d' v"
proof (induction True d v arbitrary: d' rule: json_ok.induct)
  case (5 d xs)
  then show ?case by (simp add: list_all_iff)
next
  case (6 d ms)
  then show ?case by (fastforce simp: list_all_iff)
qed auto

lemma action_object_ok:
  assumes "action_Validate a = None" "json_ok True 0 v"
  shows "json_ok False 0 (action_object a v)"
  using action_Validate_strings [OF assms(1)] json_ok_lenient [OF assms(2), of 1]
  by (simp add: action_object_def)

text \<open>Objects that are sorted alike have the same value under every key.\<close>

lemma sort_json_members:
  assumes "sort_json (JObj ms) = sort_json (JObj ns)" "distinct (map fst ms)" "distinct (map fst ns)"
  shows "map_option sort_json (map_of ms k) = map_option sort_json (map_of ns k)"
proof -
  have "mset (sort_key fst (on_values sort_json ms)) = mset (sort_key fst (on_values sort_json ns))"
    using assms(1) by simp
  then have eq: "set (on_values sort_json ms) = set (on_values sort_json ns)"
    by (metis mset_sort set_mset_mset)
  have keys: "map fst (on_values sort_json xs) = map fst xs" for xs :: "(string \<times> json) list" by auto
  have "map_of (on_values sort_json ms) = map_of (on_values sort_json ns)"
    by (rule map_of_inject_set [THEN iffD2]) (simp_all only: keys assms eq)
  then have "map_option sort_json \<circ> map_of ms = map_option sort_json \<circ> map_of ns"
    by (simp only: map_of_map)
  then show ?thesis by (metis comp_apply)
qed

lemma sort_json_str [simp]: "sort_json v = JStr s \<longleftrightarrow> v = JStr s"
  by (cases v) auto

definition same_binding :: "action \<Rightarrow> action \<Rightarrow> bool" where
  "same_binding a b \<longleftrightarrow> b = a \<lparr>ac_Arguments := ac_Arguments b\<rparr>"

definition arguments_value :: "action \<Rightarrow> json_error + json" where
  "arguments_value a =
    parseJSON (if trim_space (ac_Arguments a) = [] then ''{}'' else trim_space (ac_Arguments a))"

lemma action_object_inj:
  assumes "sort_json (action_object a v) = sort_json (action_object b w)"
  shows "same_binding a b \<and> sort_json v = sort_json w"
proof -
  have member: "map_option sort_json (map_of ms k) = map_option sort_json (map_of ns k)"
    if "action_object a v = JObj ms" "action_object b w = JObj ns" for ms ns k
    by (rule sort_json_members) (use assms that in \<open>auto simp: action_object_def\<close>)
  note m = member [unfolded action_object_def, OF refl refl]
  show ?thesis
    using m [of "''agent_id''"] m [of "''arguments''"] m [of "''capability''"]
      m [of "''delegated_authority_fingerprint''"] m [of "''operation''"] m [of "''profile_id''"]
      m [of "''principal_id''"] m [of "''resource''"] m [of "''tool''"] m [of "''audience''"]
      m [of "''workload_id''"] m [of "''execution_binding''"]
    by (auto simp: same_binding_def split: if_splits)
qed

lemma action_Digest_parts:
  assumes "action_Digest cr a = Inr d"
  obtains v where "arguments_value a = Inr v" "action_Validate a = None" "json_ok True 0 v"
    "d = sha256_text cr (marshal_json (sort_json (action_object a v)))"
  using assms parseJSON_ok
  by (auto simp: action_Digest_def action_CanonicalJSON_def arguments_value_def Let_def write_canonical_sorted
      split: sum.splits option.splits)

text \<open>Equal digests mean the same bound fields and the same arguments.\<close>

lemma action_Digest_binds:
  assumes "action_Digest cr a = Inr d" "action_Digest cr b = Inr d"
  shows "collision cr \<or> (same_binding a b \<and>
    (\<exists>v w. arguments_value a = Inr v \<and> arguments_value b = Inr w \<and> sort_json v = sort_json w))"
proof -
  obtain v where v: "arguments_value a = Inr v" "action_Validate a = None" "json_ok True 0 v"
    "d = sha256_text cr (marshal_json (sort_json (action_object a v)))" by (rule action_Digest_parts [OF assms(1)])
  obtain w where w: "arguments_value b = Inr w" "action_Validate b = None" "json_ok True 0 w"
    "d = sha256_text cr (marshal_json (sort_json (action_object b w)))" by (rule action_Digest_parts [OF assms(2)])
  show ?thesis
  proof (cases "collision cr")
    case False
    then have "marshal_json (sort_json (action_object a v)) = marshal_json (sort_json (action_object b w))"
      using v(4) w(4) sha256_text_inj by metis
    then have "sort_json (action_object a v) = sort_json (action_object b w)"
      using marshal_json_inj [OF json_ok_sorted [OF action_object_ok [OF v(2,3)]] json_ok_sorted [OF action_object_ok [OF w(2,3)]]]
      by blast
    then show ?thesis using action_object_inj v(1) w(1) by blast
  qed simp
qed

text \<open>And conversely: the order of members and the writing of numbers do not change the digest.\<close>

lemma action_Digest_value:
  assumes "action_Digest cr a = Inr d" "same_binding a b" "arguments_value a = Inr v" "arguments_value b = Inr w"
    "sort_json v = sort_json w"
  shows "action_Digest cr b = Inr d"
proof -
  obtain args where b: "b = a\<lparr>ac_Arguments := args\<rparr>" using assms(2) by (auto simp: same_binding_def)
  have "action_Validate b = action_Validate a" "action_object b = action_object a"
    by (simp_all add: b action_Validate_def action_required_def action_object_def fun_eq_iff cong: option.case_cong)
  moreover have "write_canonical (action_object a v) = write_canonical (action_object a w)"
    using assms(5) by (simp add: write_canonical_sorted action_object_def)
  ultimately show ?thesis using assms(1,3,4)
    by (simp add: action_Digest_def action_CanonicalJSON_def arguments_value_def Let_def
      split: option.splits)
qed

end
