(* ===== verification/Canonical_Properties.thy ===== *)
theory Canonical_Properties
  imports Action_Facts
begin

text \<open>
  The properties of canonical JSON and of the action digest
  (\<open>internal/canonicalaction/action.go\<close>), each with a concrete instance.
\<close>

text \<open>C32: reading a document always ends with a value or a named error, for every input: the
  recursion of \<open>parseJSON\<close> is bounded by the length of the text.\<close>

theorem parseJSON_terminates: "parseJSON s \<noteq> Inl OutOfFuel"
  by (rule parseJSON_fuel)

text \<open>C23: two accepted documents have the same canonical form exactly when they denote the same
  value, up to the order of the members of objects.\<close>

theorem canonical_forms_equal_iff:
  assumes "CanonicalizeJSON s = Inr t" "CanonicalizeJSON s' = Inr t'"
    and "parseJSON (trim_space s) = Inr v" "parseJSON (trim_space s') = Inr v'"
  shows "t = t' \<longleftrightarrow> sort_json v = sort_json v'"
  by (rule Canonicalize_eq_iff [OF assms])

theorem canonical_forms_equal_iff_witness:
  "CanonicalizeJSON ''{\"b\":1.0,\"a\":2}'' = CanonicalizeJSON '' {\"a\":20e-1, \"b\":1}''"
proof -
  have "CanonicalizeJSON ''{\"b\":1.0,\"a\":2}'' = Inr ''{\"a\":2,\"b\":1}''"
    "CanonicalizeJSON '' {\"a\":20e-1, \"b\":1}'' = Inr ''{\"a\":2,\"b\":1}''"
    "parseJSON (trim_space ''{\"b\":1.0,\"a\":2}'') = Inr (JObj [(''b'', JNum ''1''), (''a'', JNum ''2'')])"
    "parseJSON (trim_space '' {\"a\":20e-1, \"b\":1}'') = Inr (JObj [(''a'', JNum ''2''), (''b'', JNum ''1'')])"
    by code_simp+
  from canonical_forms_equal_iff [OF this] this(1,2) show ?thesis by simp
qed

text \<open>A canonical text within the size bound is its own canonical form.\<close>

theorem canonical_form_idempotent:
  assumes "CanonicalizeJSON s = Inr t" "length t \<le> MaxArgumentsBytes"
  shows "CanonicalizeJSON t = Inr t"
  by (rule Canonicalize_idempotent [OF assms])

theorem canonical_form_idempotent_witness:
  "CanonicalizeJSON ''[1e0,\"x\"]'' = Inr ''[1,\"x\"]'' \<and> CanonicalizeJSON ''[1,\"x\"]'' = Inr ''[1,\"x\"]''"
proof -
  have "CanonicalizeJSON ''[1e0,\"x\"]'' = Inr ''[1,\"x\"]''" by code_simp
  then show ?thesis using canonical_form_idempotent [of "''[1e0,\"x\"]''" "''[1,\"x\"]''"]
    by (simp add: MaxArgumentsBytes_def)
qed

text \<open>Two number tokens get one normal form exactly when they denote the same rational number,
  and the normal form denotes that number.\<close>

theorem number_normal_form:
  assumes "normalizeJSONNumber m = Inr out" "normalizeJSONNumber n = Inr out'"
  shows "number_value out = number_value m \<and> (out = out' \<longleftrightarrow> number_value m = number_value n)"
  using normalize_value [OF assms(1)] normalize_same [OF assms] by simp

theorem number_normal_form_witness:
  "number_value ''12.50'' = number_value ''125e-1'' \<and> number_value ''125e-1'' \<noteq> number_value ''-0.0''"
proof -
  have n: "normalizeJSONNumber ''12.50'' = Inr ''125e-1''" "normalizeJSONNumber ''125e-1'' = Inr ''125e-1''"
    "normalizeJSONNumber ''-0.0'' = Inr ''0''" by code_simp+
  have "''125e-1'' \<noteq> ''0''" by simp
  then show ?thesis using number_normal_form [OF n(1) n(2)] number_normal_form [OF n(2) n(3)] by blast
qed

text \<open>C22: equal digests of two actions mean equal bound fields and the same argument value, unless the
  hash function collides.\<close>

theorem action_digest_binds:
  assumes "action_Digest cr a = Inr d" "action_Digest cr b = Inr d"
  shows "collision cr \<or> (same_binding a b \<and>
    (\<exists>v w. arguments_value a = Inr v \<and> arguments_value b = Inr w \<and> sort_json v = sort_json w))"
  by (rule action_Digest_binds [OF assms])

definition sample_transfer :: "string \<Rightarrow> action" where
  "sample_transfer arguments =
    \<lparr>ac_PrincipalID = ''p'', ac_AgentID = ''a'', ac_WorkloadID = ''w'',
     ac_DelegatedAuthorityFingerprint = [], ac_Tool = ''t'', ac_Capability = ''c'',
     ac_Resource = ''r'', ac_Operation = ''o'', ac_ProfileID = [], ac_Audience = [],
     ac_ExecutionBinding = [], ac_Arguments = arguments\<rparr>"

text \<open>A hash without collisions, for the witness: the message itself.\<close>

definition plain_crypto :: crypto where
  "plain_crypto = sample_crypto\<lparr>cr_sha256 := \<lambda>m. m\<rparr>"

theorem action_digest_binds_witness:
  "same_binding (sample_transfer ''{\"x\":1,\"y\":2}'') (sample_transfer ''{\"y\":2.0,\"x\":1}'')
    \<and> arguments_value (sample_transfer ''{\"x\":1,\"y\":2}'') \<noteq> arguments_value (sample_transfer ''{\"y\":2.0,\"x\":1}'')"
proof -
  define d where "d = (case action_Digest plain_crypto (sample_transfer ''{\"x\":1,\"y\":2}'') of Inr d \<Rightarrow> d | Inl _ \<Rightarrow> [])"
  have "action_Digest plain_crypto (sample_transfer ''{\"x\":1,\"y\":2}'') = Inr d"
    "action_Digest plain_crypto (sample_transfer ''{\"y\":2.0,\"x\":1}'') = Inr d" unfolding d_def by code_simp+
  moreover have "\<not> collision plain_crypto" by (simp add: collision_def plain_crypto_def)
  moreover have "arguments_value (sample_transfer ''{\"x\":1,\"y\":2}'') \<noteq> arguments_value (sample_transfer ''{\"y\":2.0,\"x\":1}'')"
    by code_simp
  ultimately show ?thesis using action_digest_binds by blast
qed

text \<open>Conversely, rewriting the arguments of an action to another text of the same value (members
  reordered, numbers written differently, spaces) leaves its digest as it is.\<close>

theorem action_digest_of_value:
  assumes "action_Digest cr a = Inr d" "same_binding a b"
    and "arguments_value a = Inr v" "arguments_value b = Inr w" "sort_json v = sort_json w"
  shows "action_Digest cr b = Inr d"
  by (rule action_Digest_value [OF assms])

theorem action_digest_of_value_witness:
  "action_Digest sample_crypto (sample_transfer ''{\"y\":2.0,\"x\":1}'')
    = action_Digest sample_crypto (sample_transfer ''{\"x\":1,\"y\":2}'')"
proof -
  define d where "d = (case action_Digest sample_crypto (sample_transfer ''{\"x\":1,\"y\":2}'') of Inr d \<Rightarrow> d | Inl _ \<Rightarrow> [])"
  have d: "action_Digest sample_crypto (sample_transfer ''{\"x\":1,\"y\":2}'') = Inr d" unfolding d_def by code_simp
  have "same_binding (sample_transfer ''{\"x\":1,\"y\":2}'') (sample_transfer ''{\"y\":2.0,\"x\":1}'')"
    by (simp add: same_binding_def sample_transfer_def)
  moreover have "arguments_value (sample_transfer ''{\"x\":1,\"y\":2}'') = Inr (JObj [(''x'', JNum ''1''), (''y'', JNum ''2'')])"
    "arguments_value (sample_transfer ''{\"y\":2.0,\"x\":1}'') = Inr (JObj [(''y'', JNum ''2''), (''x'', JNum ''1'')])"
    "sort_json (JObj [(''x'', JNum ''1''), (''y'', JNum ''2'')]) = sort_json (JObj [(''y'', JNum ''2''), (''x'', JNum ''1'')])"
    by code_simp+
  ultimately show ?thesis using action_digest_of_value [OF d] d by simp
qed

end
