(* ===== verification/Key_Provider.thy ===== *)
theory Key_Provider
  imports Crypto
begin

text \<open>
  \<open>internal/keyprovider/keyprovider.go\<close>: key identifiers, the signing key and the single-key
  provider. The Go interface \<open>Provider\<close> is the locale \<open>key_provider\<close>; \<open>Static\<close> is its
  interpretation. A nil \<open>*Static\<close> is \<open>None\<close>.
\<close>

datatype key_error = KeyInvalid | KeyInvalidID | KeyUnknownID

record signing_key =
  sk_KeyID :: string
  sk_PrivateKey :: string

definition ValidateKeyID :: "string \<Rightarrow> key_error option" where
  "ValidateKeyID keyID =
    (if keyID = [] \<or> length keyID > 128 \<or> has_control keyID then Some KeyInvalidID
     else if list_all label_rune (runes keyID) then None
     else Some KeyInvalidID)"

definition SigningKey_PublicKey :: "crypto \<Rightarrow> signing_key \<Rightarrow> string option" where
  "SigningKey_PublicKey cr key =
    (if length (sk_PrivateKey key) \<noteq> PrivateKeySize then None else Some (cr_public cr (sk_PrivateKey key)))"

definition NewStatic :: "string \<Rightarrow> string \<Rightarrow> key_error + signing_key" where
  "NewStatic keyID privateKey =
    (case ValidateKeyID keyID of
       Some e \<Rightarrow> Inl e
     | None \<Rightarrow>
         if length privateKey \<noteq> PrivateKeySize then Inl KeyInvalid
         else Inr \<lparr>sk_KeyID = keyID, sk_PrivateKey = privateKey\<rparr>)"

text \<open>\<open>NewEphemeral\<close>; \<open>ed25519.GenerateKey\<close> draws the private key, which is an argument here.\<close>

definition NewEphemeral :: "crypto \<Rightarrow> string \<Rightarrow> key_error + signing_key" where
  "NewEphemeral cr generated =
    NewStatic (''dev-ed25519-'' @ hex_encode (take 8 (cr_sha256 cr (cr_public cr generated)))) generated"

definition Static_CurrentSigningKey :: "signing_key option \<Rightarrow> key_error + signing_key" where
  "Static_CurrentSigningKey provider =
    (case provider of
       None \<Rightarrow> Inl KeyInvalid
     | Some key \<Rightarrow> if length (sk_PrivateKey key) \<noteq> PrivateKeySize then Inl KeyInvalid else Inr key)"

definition Static_VerificationKey :: "crypto \<Rightarrow> signing_key option \<Rightarrow> string \<Rightarrow> key_error + string" where
  "Static_VerificationKey cr provider keyID =
    (case provider of
       None \<Rightarrow> Inl KeyInvalid
     | Some key \<Rightarrow>
         if length (sk_PrivateKey key) \<noteq> PrivateKeySize then Inl KeyInvalid
         else if keyID \<noteq> sk_KeyID key then Inl KeyUnknownID
         else (case SigningKey_PublicKey cr key of None \<Rightarrow> Inl KeyInvalid | Some pk \<Rightarrow> Inr pk))"

section \<open>The interface\<close>

text \<open>
  What \<open>Provider\<close> promises: the current key is well-formed and the verification key under its
  identifier is its own public half. A provider that does not know an identifier says so
  and never answers with another key, which is \<open>resolves\<close> read from right to left.
\<close>

locale key_provider =
  fixes cr :: crypto
    and current :: "'p \<Rightarrow> key_error + signing_key"
    and verification :: "'p \<Rightarrow> string \<Rightarrow> key_error + string"
  assumes current_size: "current p = Inr k \<Longrightarrow> length (sk_PrivateKey k) = PrivateKeySize"
    and resolves: "current p = Inr k \<Longrightarrow> verification p (sk_KeyID k) = Inr (cr_public cr (sk_PrivateKey k))"
begin

lemma verifies_current:
  assumes "signature_ok cr" "current p = Inr k"
  shows "\<exists>pk. verification p (sk_KeyID k) = Inr pk \<and> length pk = PublicKeySize
    \<and> cr_verify cr pk m (cr_sign cr (sk_PrivateKey k) m)"
  using assms resolves [OF assms(2)] current_size [OF assms(2)]
  by (auto simp: signature_ok_def)

end

interpretation static_keys: key_provider cr Static_CurrentSigningKey "Static_VerificationKey cr" for cr
  by unfold_locales
    (auto simp: Static_CurrentSigningKey_def Static_VerificationKey_def SigningKey_PublicKey_def
      split: option.splits if_splits)

section \<open>Facts\<close>

text \<open>On an accepted identifier the rune test is a byte test: it is ASCII.\<close>

lemma label_rune_ascii: "label_rune r \<Longrightarrow> r < 128"
  by (auto simp: label_rune_def)

lemma ValidateKeyID_nonempty: "ValidateKeyID k = None \<Longrightarrow> k \<noteq> [] \<and> length k \<le> 128"
  by (auto simp: ValidateKeyID_def split: if_splits)

lemma NewStatic_ok:
  "NewStatic keyID priv = Inr k \<Longrightarrow>
     Static_CurrentSigningKey (Some k) = Inr k \<and> sk_KeyID k = keyID \<and> ValidateKeyID keyID = None"
  by (auto simp: NewStatic_def Static_CurrentSigningKey_def split: option.splits if_splits)

end
