(* ===== verification/Permit_Claims.thy ===== *)
theory Permit_Claims
  imports Canonical_Action Key_Provider
begin

text \<open>
  \<open>internal/permit/claims.go\<close>: the signed contents of an execution permit and their
  validation, and the authority key of \<open>internal/permit/authority.go\<close>.
\<close>

datatype permit_error =
    ErrInvalidClaims string
  | ErrInvalidKey
  | ErrMalformedToken
  | ErrInvalidSignature
  | ErrUnsupportedToken
  | ErrPermitExists
  | ErrPermitNotFound
  | ErrPermitNotActive
  | ErrAuthorityChanged
  | ErrAuthorityTimestamp
  | ErrEpochExhausted
  | ErrSigningKey key_error

text \<open>\<open>Class\<close> is a Go string type, so a value outside its two constants can occur.\<close>

datatype permit_class = ClassExecution | ClassSimulation | OtherClass string

fun class_text :: "permit_class \<Rightarrow> string" where
  "class_text ClassExecution = ''execution''"
| "class_text ClassSimulation = ''simulation''"
| "class_text (OtherClass s) = s"

definition class_of :: "string \<Rightarrow> permit_class" where
  "class_of s =
    (if s = ''execution'' then ClassExecution else if s = ''simulation'' then ClassSimulation
     else OtherClass s)"

definition Class_Valid :: "permit_class \<Rightarrow> bool" where
  "Class_Valid c \<longleftrightarrow> c = ClassExecution \<or> c = ClassSimulation"

record obligations =
  ob_IsolationRequired :: bool
  ob_NetworkEgressDenied :: bool
  ob_ReadOnly :: bool
  ob_HumanApprovalRequired :: bool
  ob_EnhancedAuditRequired :: bool

definition no_obligations :: obligations where
  "no_obligations =
    \<lparr>ob_IsolationRequired = False, ob_NetworkEgressDenied = False, ob_ReadOnly = False,
     ob_HumanApprovalRequired = False, ob_EnhancedAuditRequired = False\<rparr>"

type_synonym uint64 = "64 word"

record claims =
  cl_PermitID :: string
  cl_SigningKeyID :: string
  cl_PermitClass :: permit_class
  cl_RequestID :: string
  cl_PrincipalID :: string
  cl_AgentID :: string
  cl_WorkloadID :: string
  cl_ExecutorKeyID :: string
  cl_ExecutorKeyThumbprint :: string
  cl_DelegatedAuthorityFingerprint :: string
  cl_Tool :: string
  cl_Capability :: string
  cl_Resource :: string
  cl_Operation :: string
  cl_ProfileID :: string
  cl_Audience :: string
  cl_ActionDigest :: string
  cl_ExecutionBinding :: string
  cl_AuthorityEpoch :: uint64
  cl_PolicyVersion :: string
  cl_Obligations :: obligations
  cl_Issuer :: string
  cl_IssuedAt :: int
  cl_ExpiresAt :: int
  cl_SingleUse :: bool

definition IssuedTime :: "claims \<Rightarrow> time" where
  "IssuedTime c = time_unix (cl_IssuedAt c)"

definition ExpiresTime :: "claims \<Rightarrow> time" where
  "ExpiresTime c = time_unix (cl_ExpiresAt c)"

definition validateMetadata :: "string \<Rightarrow> string \<Rightarrow> nat \<Rightarrow> bool \<Rightarrow> permit_error option" where
  "validateMetadata name value limit required =
    (if required \<and> value = [] then Some (ErrInvalidClaims (name @ '' is required''))
     else if value = [] then None
     else if \<not> utf8_valid value \<or> length value > limit
     then Some (ErrInvalidClaims (name @ '' is invalid or too long''))
     else if has_control value then Some (ErrInvalidClaims (name @ '' contains control characters''))
     else None)"

fun first_error :: "'e option list \<Rightarrow> 'e option" where
  "first_error [] = None"
| "first_error (None # es) = first_error es"
| "first_error (Some e # es) = Some e"

definition claims_fields :: "claims \<Rightarrow> (string \<times> string \<times> nat) list" where
  "claims_fields c =
    [(''jti'', cl_PermitID c, 160),
     (''signing_key_id'', cl_SigningKeyID c, 128),
     (''request_id'', cl_RequestID c, 160),
     (''principal'', cl_PrincipalID c, 512),
     (''agent'', cl_AgentID c, 512),
     (''workload'', cl_WorkloadID c, 512),
     (''tool'', cl_Tool c, 512),
     (''capability'', cl_Capability c, 512),
     (''resource'', cl_Resource c, 2048),
     (''operation'', cl_Operation c, 512),
     (''policy_version'', cl_PolicyVersion c, 512),
     (''iss'', cl_Issuer c, 512)]"

text \<open>A check \<open>if bad { return error }\<close>.\<close>

abbreviation reject_if :: "bool \<Rightarrow> string \<Rightarrow> permit_error option" where
  "reject_if bad message \<equiv> (if bad then Some (ErrInvalidClaims message) else None)"

text \<open>The executor-key part of \<open>Validate\<close>, by class.\<close>

definition executor_check :: "claims \<Rightarrow> permit_error option" where
  "executor_check c =
    (case cl_PermitClass c of
       ClassExecution \<Rightarrow>
         first_error
           [reject_if (ValidateKeyID (cl_ExecutorKeyID c) \<noteq> None)
              ''executor_key_id is required for execution permits'',
            reject_if (\<not> sha256_pattern (cl_ExecutorKeyThumbprint c))
              ''executor_key_thumbprint is required for execution permits and must be a lowercase algorithm-qualified SHA-256 digest'']
     | ClassSimulation \<Rightarrow>
         reject_if (cl_ExecutorKeyID c \<noteq> [] \<or> cl_ExecutorKeyThumbprint c \<noteq> [])
           ''executor key binding is forbidden for simulation permits''
     | OtherClass s \<Rightarrow> None)"

definition Claims_Validate :: "claims \<Rightarrow> permit_error option" where
  "Claims_Validate c =
    first_error
     ([reject_if ((cl_ExecutionBinding c \<noteq> []) \<noteq> (cl_AuthorityEpoch c \<noteq> 0))
         ''v2 execution_binding and authority_epoch are required together'',
       reject_if (cl_ExecutionBinding c \<noteq> []
           \<and> (\<not> sha256_pattern (cl_ExecutionBinding c) \<or> cl_PermitClass c \<noteq> ClassExecution))
         ''execution_binding requires an execution Permit and SHA-256 digest'',
       reject_if (\<not> Class_Valid (cl_PermitClass c)) ''permit_class must be execution or simulation'',
       reject_if ((cl_ProfileID c = []) \<noteq> (cl_Audience c = []))
         ''profile_id and audience must be present together'',
       validateMetadata ''profile_id'' (cl_ProfileID c) 256 False,
       validateMetadata ''audience'' (cl_Audience c) 1024 False]
      @ map (\<lambda>(name, value, limit). validateMetadata name value limit True) (claims_fields c)
      @ [reject_if (ValidateKeyID (cl_SigningKeyID c) \<noteq> None) ''signing_key_id'',
         validateMetadata ''delegated_authority_fingerprint'' (cl_DelegatedAuthorityFingerprint c) 512 False,
         reject_if (cl_DelegatedAuthorityFingerprint c \<noteq> []
             \<and> \<not> sha256_pattern (cl_DelegatedAuthorityFingerprint c))
           ''delegated_authority_fingerprint must be an Aegis-bound, algorithm-qualified SHA-256 digest'',
         executor_check c,
         reject_if (\<not> sha256_pattern (cl_ActionDigest c))
           ''action_digest must be a lowercase algorithm-qualified SHA-256 digest'',
         reject_if (cl_IssuedAt c \<le> 0 \<or> cl_ExpiresAt c \<le> cl_IssuedAt c) ''exp must be later than iat'',
         reject_if (\<not> cl_SingleUse c) ''single_use must be true''])"

record authority_key =
  ak_PrincipalID :: string
  ak_AgentID :: string
  ak_WorkloadID :: string

definition Claims_AuthorityKey :: "claims \<Rightarrow> authority_key" where
  "Claims_AuthorityKey c =
    \<lparr>ak_PrincipalID = cl_PrincipalID c, ak_AgentID = cl_AgentID c, ak_WorkloadID = cl_WorkloadID c\<rparr>"

section \<open>What validation establishes\<close>

lemma first_error_None [simp]: "first_error es = None \<longleftrightarrow> (\<forall>e \<in> set es. e = None)"
  by (induction es rule: first_error.induct) auto

lemma first_error_append [simp]:
  "first_error (es @ fs) = (case first_error es of None \<Rightarrow> first_error fs | Some e \<Rightarrow> Some e)"
  by (induction es rule: first_error.induct) auto

lemma first_error_in: "first_error es = Some e \<Longrightarrow> Some e \<in> set es"
  by (induction es rule: first_error.induct) auto

lemma validateMetadata_None:
  "validateMetadata n v l r = None \<longleftrightarrow> (v = [] \<and> \<not> r) \<or> (v \<noteq> [] \<and> clean_text l v)"
  by (auto simp: validateMetadata_def clean_text_def)

lemma reject_if_None: "reject_if b m = None \<longleftrightarrow> \<not> b"
  by simp

lemma Claims_Validate_class: "Claims_Validate c = None \<Longrightarrow> Class_Valid (cl_PermitClass c)"
  by (simp add: Claims_Validate_def split: if_splits)

lemma Claims_Validate_binding:
  "Claims_Validate c = None \<Longrightarrow>
     (cl_ExecutionBinding c \<noteq> [] \<longleftrightarrow> cl_AuthorityEpoch c \<noteq> 0)
     \<and> (cl_ExecutionBinding c \<noteq> [] \<longrightarrow>
          sha256_pattern (cl_ExecutionBinding c) \<and> cl_PermitClass c = ClassExecution)"
  by (auto simp: Claims_Validate_def split: if_splits)

lemma Claims_Validate_executor:
  "Claims_Validate c = None \<Longrightarrow> executor_check c = None"
  by (simp add: Claims_Validate_def split: if_splits)

lemma Claims_Validate_window:
  "Claims_Validate c = None \<Longrightarrow> 0 < cl_IssuedAt c \<and> cl_IssuedAt c < cl_ExpiresAt c"
  by (simp add: Claims_Validate_def split: if_splits)

lemma Claims_Validate_single_use: "Claims_Validate c = None \<Longrightarrow> cl_SingleUse c"
  by (simp add: Claims_Validate_def split: if_splits)

lemma Claims_Validate_digest: "Claims_Validate c = None \<Longrightarrow> sha256_pattern (cl_ActionDigest c)"
  by (simp add: Claims_Validate_def split: if_splits)

lemma Claims_Validate_fields:
  "Claims_Validate c = None \<Longrightarrow> (n, v, l) \<in> set (claims_fields c) \<Longrightarrow> v \<noteq> [] \<and> clean_text l v"
  by (fastforce simp: Claims_Validate_def validateMetadata_None)

lemma Claims_Validate_key: "Claims_Validate c = None \<Longrightarrow> ValidateKeyID (cl_SigningKeyID c) = None"
  by (simp add: Claims_Validate_def split: if_splits)

lemma Claims_Validate_execution_keys:
  assumes "Claims_Validate c = None" "cl_PermitClass c = ClassExecution"
  shows "ValidateKeyID (cl_ExecutorKeyID c) = None \<and> sha256_pattern (cl_ExecutorKeyThumbprint c)"
  using Claims_Validate_executor [OF assms(1)] assms(2)
  by (simp add: executor_check_def split: if_splits)

lemma Claims_Validate_simulation_keys:
  assumes "Claims_Validate c = None" "cl_PermitClass c = ClassSimulation"
  shows "cl_ExecutorKeyID c = [] \<and> cl_ExecutorKeyThumbprint c = [] \<and> cl_ExecutionBinding c = []"
  using Claims_Validate_executor [OF assms(1)] Claims_Validate_binding [OF assms(1)] assms(2)
  by (auto simp: executor_check_def split: if_splits)

lemmas claims_valid =
  Claims_Validate_class Claims_Validate_binding Claims_Validate_window Claims_Validate_single_use
  Claims_Validate_digest Claims_Validate_key

end
