(* ===== verification/Base64.thy ===== *)
theory Base64
  imports Prelude
begin

text \<open>
  \<open>base64.RawURLEncoding\<close> of Go's \<open>encoding/base64\<close>, which the permit and proof tokens are
  written in: no padding; the decoder skips carriage returns and newlines and, unless it is
  \<open>Strict()\<close>, ignores the unused low bits of the last character.
\<close>

definition b64_char :: "nat \<Rightarrow> char" where
  "b64_char n =
    (if n < 26 then char_of (65 + n)
     else if n < 52 then char_of (71 + n)
     else if n < 62 then char_of (n - 4)
     else if n = 62 then CHR ''-''
     else CHR ''_'')"

definition b64_val :: "char \<Rightarrow> nat option" where
  "b64_val c =
    (if in_range 65 90 c then Some (byte c - 65)
     else if in_range 97 122 c then Some (byte c - 71)
     else if in_range 48 57 c then Some (byte c + 4)
     else if c = CHR ''-'' then Some 62
     else if c = CHR ''_'' then Some 63
     else None)"

fun b64_encode :: "string \<Rightarrow> string" where
  "b64_encode [] = []"
| "b64_encode [a] = [b64_char (byte a div 4), b64_char (byte a mod 4 * 16)]"
| "b64_encode [a, b] =
    [b64_char (byte a div 4), b64_char (byte a mod 4 * 16 + byte b div 16), b64_char (byte b mod 16 * 4)]"
| "b64_encode (a # b # c # rest) =
    b64_char (byte a div 4) # b64_char (byte a mod 4 * 16 + byte b div 16)
      # b64_char (byte b mod 16 * 4 + byte c div 64) # b64_char (byte c mod 64) # b64_encode rest"

fun b64_quanta :: "bool \<Rightarrow> nat list \<Rightarrow> string option" where
  "b64_quanta strict [] = Some []"
| "b64_quanta strict [w] = None"
| "b64_quanta strict [w, x] =
    (if strict \<and> x mod 16 \<noteq> 0 then None else Some [char_of (w * 4 + x div 16)])"
| "b64_quanta strict [w, x, y] =
    (if strict \<and> y mod 4 \<noteq> 0 then None
     else Some [char_of (w * 4 + x div 16), char_of (x mod 16 * 16 + y div 4)])"
| "b64_quanta strict (w # x # y # z # rest) =
    map_option (\<lambda>t. char_of (w * 4 + x div 16) # char_of (x mod 16 * 16 + y div 4)
                    # char_of (y mod 4 * 64 + z) # t)
      (b64_quanta strict rest)"

fun b64_vals :: "string \<Rightarrow> nat list option" where
  "b64_vals [] = Some []"
| "b64_vals (c # cs) =
    (if c = CHR 0x0A \<or> c = CHR 0x0D then b64_vals cs
     else case b64_val c of None \<Rightarrow> None | Some v \<Rightarrow> map_option (\<lambda>vs. v # vs) (b64_vals cs))"

definition b64_decode :: "bool \<Rightarrow> string \<Rightarrow> string option" where
  "b64_decode strict s = (case b64_vals s of None \<Rightarrow> None | Some vs \<Rightarrow> b64_quanta strict vs)"

section \<open>Round trip\<close>

lemma b64_val_char [simp]: "n < 64 \<Longrightarrow> b64_val (b64_char n) = Some n"
  by (auto simp: b64_char_def b64_val_def in_range_def)

lemma b64_char_not_newline: "n < 64 \<Longrightarrow> b64_char n \<noteq> CHR 0x0A \<and> b64_char n \<noteq> CHR 0x0D"
proof -
  assume "n < 64"
  then have "b64_val (b64_char n) = Some n" by simp
  then show ?thesis by (auto simp: b64_val_def in_range_def split: if_splits)
qed

lemma b64_char_not_dot [simp]: "n < 64 \<Longrightarrow> (CHR ''.'' = b64_char n) = False"
proof -
  assume "n < 64"
  then have "b64_val (b64_char n) = Some n" by simp
  moreover have "b64_val (CHR ''.'') = None" by (simp add: b64_val_def in_range_def)
  ultimately show ?thesis by auto
qed

lemma b64_vals_char [simp]:
  "n < 64 \<Longrightarrow> b64_vals (b64_char n # cs) = map_option (\<lambda>vs. n # vs) (b64_vals cs)"
  using b64_char_not_newline [of n] by simp

declare b64_vals.simps(2) [simp del]

text \<open>Six-bit pieces of bytes, and the bytes put together again.\<close>

lemma byte_split:
  fixes c :: char
  shows "byte c div 4 < 64" "byte c div 16 < 16" "byte c div 64 < 4"
  using nat_of_char_less_256 [of c] by linarith+

lemma byte_pieces [simp]:
  fixes a b c :: char
  shows "byte a div 4 < 64" "byte a mod 4 * 16 < 64" "byte b mod 16 * 4 < 64"
    "byte a mod 4 * 16 + byte b div 16 < 64" "byte b mod 16 * 4 + byte c div 64 < 64"
  using byte_split [of a] byte_split [of b] byte_split [of c] by linarith+

lemma byte_joins [simp]:
  fixes b :: char
  shows "byte b div 16 div 16 = 0" "byte b div 16 mod 16 = byte b div 16"
    "byte b div 64 div 4 = 0" "byte b div 64 mod 4 = byte b div 64"
  using byte_split [of b] by simp_all

lemma b64_decode_encode [simp]: "b64_decode strict (b64_encode s) = Some s"
proof -
  have "\<exists>vs. b64_vals (b64_encode s) = Some vs \<and> b64_quanta strict vs = Some s"
  proof (induction s rule: b64_encode.induct)
    case (4 a b c rest)
    then show ?case by (auto simp: add.assoc)
  qed (auto simp: add.assoc)
  then show ?thesis by (auto simp: b64_decode_def)
qed

lemma b64_encode_no_dot: "CHR ''.'' \<notin> set (b64_encode s)"
  by (induction s rule: b64_encode.induct) simp_all

lemma b64_encode_empty [simp]: "b64_encode s = [] \<longleftrightarrow> s = []"
  by (cases s rule: b64_encode.cases) auto

end
