(* ===== verification/Json_Struct.thy ===== *)
theory Json_Struct
  imports Json_Canonical
begin

text \<open>
  \<open>encoding/json\<close> on Go structs. A struct type is the list of its JSON names, each with the
  assignment that the decoder makes to its field. The decoder goes through the members of
  the object in order: it looks a name up exactly and then by case folding, so two members
  can reach one field and the last one wins; \<open>null\<close> leaves a field as it is.
\<close>

type_synonym 'r field = "string \<times> ('r \<Rightarrow> json \<Rightarrow> 'r option)"

text \<open>\<open>foldName\<close>: upper-case ASCII; U+017F folds to \<open>S\<close> and U+212A to \<open>K\<close>.\<close>

definition upper_byte :: "char \<Rightarrow> char" where
  "upper_byte c = (if in_range 97 122 c then char_of (byte c - 32) else c)"

definition fold_name :: "string \<Rightarrow> string" where
  "fold_name s =
    concat (map (\<lambda>(r, bs). if r = 0x17F then ''S'' else if r = 0x212A then ''K'' else map upper_byte bs)
      (rune_chunks s))"

definition find_field :: "'r field list \<Rightarrow> string \<Rightarrow> ('r \<Rightarrow> json \<Rightarrow> 'r option) option" where
  "find_field fs k =
    (case map_of fs k of
       Some assign \<Rightarrow> Some assign
     | None \<Rightarrow> map_option snd (find (\<lambda>f. fold_name (fst f) = fold_name k) fs))"

text \<open>The flag is \<open>DisallowUnknownFields\<close>.\<close>

fun decode_members :: "bool \<Rightarrow> 'r field list \<Rightarrow> 'r \<Rightarrow> (string \<times> json) list \<Rightarrow> 'r option" where
  "decode_members disallow fs r [] = Some r"
| "decode_members disallow fs r ((k, v) # ms) =
    (case find_field fs k of
       None \<Rightarrow> if disallow then None else decode_members disallow fs r ms
     | Some assign \<Rightarrow>
         (case assign r v of None \<Rightarrow> None | Some r' \<Rightarrow> decode_members disallow fs r' ms))"

definition decode_struct :: "bool \<Rightarrow> 'r field list \<Rightarrow> 'r \<Rightarrow> json \<Rightarrow> 'r option" where
  "decode_struct disallow fs r v =
    (case v of JObj ms \<Rightarrow> decode_members disallow fs r ms | JNull \<Rightarrow> Some r | _ \<Rightarrow> None)"

text \<open>
  The assignments to a field of a Go type, given how to update the record.
\<close>

definition set_string :: "(string \<Rightarrow> 'r \<Rightarrow> 'r) \<Rightarrow> 'r \<Rightarrow> json \<Rightarrow> 'r option" where
  "set_string upd r v = (case v of JStr s \<Rightarrow> Some (upd s r) | JNull \<Rightarrow> Some r | _ \<Rightarrow> None)"

definition set_bool :: "(bool \<Rightarrow> 'r \<Rightarrow> 'r) \<Rightarrow> 'r \<Rightarrow> json \<Rightarrow> 'r option" where
  "set_bool upd r v = (case v of JBool b \<Rightarrow> Some (upd b r) | JNull \<Rightarrow> Some r | _ \<Rightarrow> None)"

definition set_int64 :: "(int \<Rightarrow> 'r \<Rightarrow> 'r) \<Rightarrow> 'r \<Rightarrow> json \<Rightarrow> 'r option" where
  "set_int64 upd r v =
    (case v of JNum n \<Rightarrow> map_option (\<lambda>i. upd i r) (parse_int64 n) | JNull \<Rightarrow> Some r | _ \<Rightarrow> None)"

text \<open>\<open>strconv.ParseUint(s, 10, 64)\<close>, which takes no sign.\<close>

definition parse_uint64 :: "string \<Rightarrow> nat option" where
  "parse_uint64 s =
    (if s = [] \<or> \<not> list_all is_digit s \<or> dec_val s \<ge> 18446744073709551616 then None else Some (dec_val s))"

definition set_uint64 :: "(64 word \<Rightarrow> 'r \<Rightarrow> 'r) \<Rightarrow> 'r \<Rightarrow> json \<Rightarrow> 'r option" where
  "set_uint64 upd r v =
    (case v of JNum n \<Rightarrow> map_option (\<lambda>i. upd (of_nat i) r) (parse_uint64 n) | JNull \<Rightarrow> Some r | _ \<Rightarrow> None)"

text \<open>A nested struct is decoded into the value that the field has.\<close>

definition set_struct :: "bool \<Rightarrow> 's field list \<Rightarrow> ('r \<Rightarrow> 's) \<Rightarrow> ('s \<Rightarrow> 'r \<Rightarrow> 'r) \<Rightarrow> 'r \<Rightarrow> json \<Rightarrow> 'r option" where
  "set_struct disallow fs get upd r v = map_option (\<lambda>s. upd s r) (decode_struct disallow fs (get r) v)"

text \<open>
  \<open>strictJSON\<close> (declared in both token packages): one value, unknown fields refused, nothing
  but white space after it.
\<close>

definition strictJSON :: "'r field list \<Rightarrow> 'r \<Rightarrow> string \<Rightarrow> 'r option" where
  "strictJSON fs r input =
    (case read_document False input of Inl e \<Rightarrow> None | Inr v \<Rightarrow> decode_struct True fs r v)"

text \<open>\<open>omitempty\<close> on a string, a bool and a uint64 field of a written struct.\<close>

definition opt_string :: "string \<Rightarrow> string \<Rightarrow> (string \<times> json) list" where
  "opt_string k s = (if s = [] then [] else [(k, JStr s)])"

definition opt_bool :: "string \<Rightarrow> bool \<Rightarrow> (string \<times> json) list" where
  "opt_bool k b = (if b then [(k, JBool b)] else [])"

definition opt_uint64 :: "string \<Rightarrow> 64 word \<Rightarrow> (string \<times> json) list" where
  "opt_uint64 k w = (if w = 0 then [] else [(k, JNum (show_nat (unat w)))])"

section \<open>Decoding what was written\<close>

lemma decode_members_append:
  "decode_members dis fs r (ms @ ns) =
    (case decode_members dis fs r ms of None \<Rightarrow> None | Some r' \<Rightarrow> decode_members dis fs r' ns)"
  by (induction dis fs r ms rule: decode_members.induct) (auto split: option.splits)

lemma find_field_exact: "map_of fs k = Some assign \<Longrightarrow> find_field fs k = Some assign"
  by (simp add: find_field_def)

lemma decode_opt_string:
  assumes "map_of fs k = Some (set_string upd)" "upd [] r = r"
  shows "decode_members dis fs r (opt_string k s) = Some (upd s r)"
  using assms by (simp add: opt_string_def find_field_exact set_string_def)

lemma decode_opt_bool:
  assumes "map_of fs k = Some (set_bool upd)" "upd False r = r"
  shows "decode_members dis fs r (opt_bool k b) = Some (upd b r)"
  using assms by (cases b) (simp_all add: opt_bool_def find_field_exact set_bool_def)

lemma decode_string:
  "map_of fs k = Some (set_string upd) \<Longrightarrow> decode_members dis fs r [(k, JStr s)] = Some (upd s r)"
  by (simp add: find_field_exact set_string_def)

section \<open>The strict reader on leniently readable text\<close>

text \<open>
  The two readers agree but for the numbers, which the strict one normalises: what the
  lenient one reads, the strict one reads too, if the nesting is within bounds, no object
  repeats a key and every number can be normalised.
\<close>

fun norm_json :: "json \<Rightarrow> json" where
  "norm_json (JNum n) = JNum (case normalizeJSONNumber n of Inr m \<Rightarrow> m | Inl e \<Rightarrow> n)"
| "norm_json (JArr xs) = JArr (map norm_json xs)"
| "norm_json (JObj ms) = JObj (map (\<lambda>(k, v). (k, norm_json v)) ms)"
| "norm_json v = v"

fun strict_ok :: "nat \<Rightarrow> json \<Rightarrow> bool" where
  "strict_ok d (JNum n) \<longleftrightarrow> d \<le> maxJSONDepth \<and> (\<exists>m. normalizeJSONNumber n = Inr m)"
| "strict_ok d (JArr xs) \<longleftrightarrow> d \<le> maxJSONDepth \<and> list_all (strict_ok (d + 1)) xs"
| "strict_ok d (JObj ms) \<longleftrightarrow> d \<le> maxJSONDepth \<and> distinct (map fst ms) \<and> list_all (\<lambda>(k, v). strict_ok (d + 1) v) ms"
| "strict_ok d v \<longleftrightarrow> d \<le> maxJSONDepth"

lemma read_scalar_strict:
  "read_scalar False s = Inr (v, r) \<Longrightarrow> strict_ok d v \<Longrightarrow> read_scalar True s = Inr (norm_json v, r)"
  by (auto simp: read_scalar_def number_text_def lex_literal_def
      split: list.splits if_splits option.splits prod.splits)

lemma mget_on_values: "mget (on_values h ms) k = map_option h (mget ms k)"
  by (simp add: mget_def map_of_map)

lemma members_extend:
  "read_value strict f d s = Inr (v, r) \<Longrightarrow> True"
  "read_members strict f d first acc s = Inr (ms, r) \<Longrightarrow> \<exists>ns. ms = acc @ ns"
  "read_elements strict f d first xs s = Inr (ys, r) \<Longrightarrow> \<exists>zs. ys = xs @ zs"
proof (induction strict f d s and strict f d first acc s and strict f d first xs s
    arbitrary: v r and ms r and ys r rule: read_value_read_members_read_elements.induct)
  case (4 strict fuel depth first acc s)
  obtain key r1 where k: "next_member first s = Inr (key, r1)"
    using 4(3) by (auto split: sum.splits)
  show ?case
  proof (cases key)
    case None
    then show ?thesis using 4(3) k by simp
  next
    case (Some kk)
    then obtain ks v r2 where ks: "skip_colon r1 = Some ks" "read_value strict fuel (depth + 1) ks = Inr (v, r2)"
      "read_members strict fuel depth False (acc @ [(kk, v)]) r2 = Inr (ms, r)"
      "\<not> (strict \<and> mget acc kk \<noteq> None)"
      using 4(3) k by (auto split: sum.splits option.splits if_splits)
    then show ?thesis using 4(2) [OF k refl Some ks(4,1,2) refl ks(3)] by auto
  qed
next
  case (6 strict fuel depth first xs s)
  obtain b r1 where k: "next_element first s = Inr (b, r1)"
    using 6(3) by (auto split: sum.splits)
  show ?case
  proof (cases b)
    case False
    then show ?thesis using 6(3) k by simp
  next
    case True
    then obtain v r2 where v: "read_value strict fuel (depth + 1) r1 = Inr (v, r2)"
      "read_elements strict fuel depth False (xs @ [v]) r2 = Inr (ys, r)"
      using 6(3) k by (auto split: sum.splits)
    then show ?thesis using 6(2) [OF k refl _ v(1) refl v(2)] True by auto
  qed
qed auto

lemma reader_strict:
  "read_value strict f d s = Inr (v, r) \<Longrightarrow> \<not> strict \<Longrightarrow> strict_ok d v \<Longrightarrow>
     read_value True f d s = Inr (norm_json v, r)"
  "read_members strict f d first acc s = Inr (ms, r) \<Longrightarrow> \<not> strict \<Longrightarrow> distinct (map fst ms) \<Longrightarrow>
     list_all (\<lambda>(k, v). strict_ok (d + 1) v) ms \<Longrightarrow>
     read_members True f d first (on_values norm_json acc) s = Inr (on_values norm_json ms, r)"
  "read_elements strict f d first xs s = Inr (ys, r) \<Longrightarrow> \<not> strict \<Longrightarrow> list_all (strict_ok (d + 1)) ys \<Longrightarrow>
     read_elements True f d first (map norm_json xs) s = Inr (map norm_json ys, r)"
proof (induction strict f d s and strict f d first acc s and strict f d first xs s
    arbitrary: v r and ms r and ys r rule: read_value_read_members_read_elements.induct)
  case (2 strict fuel depth s)
  have depth: "depth \<le> maxJSONDepth" using 2(5) by (cases v) auto
  have ns: "\<not> (strict \<and> maxJSONDepth < depth)" using 2(4) by simp
  consider (obj) ms where "has_prefix (skip_ws s) ''{''" "v = JObj ms"
      "read_members strict fuel depth True [] (tl (skip_ws s)) = Inr (ms, r)"
    | (arr) xs where "\<not> has_prefix (skip_ws s) ''{''" "has_prefix (skip_ws s) ''[''" "v = JArr xs"
      "read_elements strict fuel depth True [] (tl (skip_ws s)) = Inr (xs, r)"
    | (scalar) "\<not> has_prefix (skip_ws s) ''{''" "\<not> has_prefix (skip_ws s) ''[''"
      "read_scalar strict (skip_ws s) = Inr (v, r)"
    using 2(3) by (auto split: if_splits sum.splits)
  then show ?case
  proof cases
    case obj
    then show ?thesis using 2(1) [OF ns obj(1,3) 2(4)] depth 2(5) by simp
  next
    case arr
    then show ?thesis using 2(2) [OF ns arr(1,2,4) 2(4)] depth 2(5) by simp
  next
    case scalar
    then show ?thesis using read_scalar_strict [of "skip_ws s" v r depth] depth 2(4,5) by simp
  qed
next
  case (4 strict fuel depth first acc s)
  obtain key r1 where k: "next_member first s = Inr (key, r1)"
    using 4(3) by (auto split: sum.splits)
  show ?case
  proof (cases key)
    case None
    then show ?thesis using 4(3) k by simp
  next
    case (Some kk)
    then obtain ks v r2 where ks: "skip_colon r1 = Some ks" "read_value strict fuel (depth + 1) ks = Inr (v, r2)"
      "read_members strict fuel depth False (acc @ [(kk, v)]) r2 = Inr (ms, r)"
      using 4(3,4) k by (auto split: sum.splits option.splits if_splits)
    have ns: "\<not> (strict \<and> mget acc kk \<noteq> None)" using 4(4) by simp
    obtain ns' where ms: "ms = (acc @ [(kk, v)]) @ ns'" using members_extend(2) [OF ks(3)] by blast
    have "mget acc kk = None" using 4(5) ms by (auto simp: mget_def map_of_eq_None_iff)
    then have fresh: "mget (on_values norm_json acc) kk = None" by (simp add: mget_on_values)
    have "read_value True fuel (depth + 1) ks = Inr (norm_json v, r2)"
      using 4(1) [OF k refl Some ns ks(1,2) 4(4)] 4(6) ms by simp
    moreover have "read_members True fuel depth False (on_values norm_json (acc @ [(kk, v)])) r2 = Inr (on_values norm_json ms, r)"
      using 4(2) [OF k refl Some ns ks(1,2) refl ks(3) 4(4,5,6)] .
    ultimately show ?thesis using k Some ks(1) fresh by simp
  qed
next
  case (6 strict fuel depth first xs s)
  obtain b r1 where k: "next_element first s = Inr (b, r1)"
    using 6(3) by (auto split: sum.splits)
  show ?case
  proof (cases b)
    case False
    then show ?thesis using 6(3) k by simp
  next
    case True
    then obtain v r2 where v: "read_value strict fuel (depth + 1) r1 = Inr (v, r2)"
      "read_elements strict fuel depth False (xs @ [v]) r2 = Inr (ys, r)"
      using 6(3) k by (auto split: sum.splits)
    obtain zs where ys: "ys = (xs @ [v]) @ zs" using members_extend(3) [OF v(2)] by blast
    have "read_value True fuel (depth + 1) r1 = Inr (norm_json v, r2)"
      using 6(1) [OF k refl _ v(1) 6(4)] True 6(5) ys by simp
    moreover have "read_elements True fuel depth False (map norm_json (xs @ [v])) r2 = Inr (map norm_json ys, r)"
      using 6(2) [OF k refl _ v(1) refl v(2) 6(4,5)] True by simp
    ultimately show ?thesis using k True by simp
  qed
qed auto

lemma read_document_strict:
  "read_document False s = Inr v \<Longrightarrow> strict_ok 0 v \<Longrightarrow> read_document True s = Inr (norm_json v)"
  by (auto simp: read_document_def dest: reader_strict(1) split: sum.splits if_splits)

text \<open>What \<open>json.Marshal\<close> writes passes both checks of the token packages.\<close>

lemma marshal_accepted:
  assumes "json_ok False 0 v" "strict_ok 0 v" "length (marshal_json v) \<le> MaxArgumentsBytes"
  shows "\<exists>t. CanonicalizeJSON (marshal_json v) = Inr t" "read_document False (marshal_json v) = Inr v"
proof -
  show lenient: "read_document False (marshal_json v) = Inr v" by (rule read_document_marshal [OF assms(1)])
  then have "read_document True (marshal_json v) = Inr (norm_json v)" using read_document_strict assms(2) by blast
  moreover have "marshal_json v \<noteq> []" using marshal_first [OF assms(1)] by auto
  ultimately show "\<exists>t. CanonicalizeJSON (marshal_json v) = Inr t"
    using trim_tight [OF tight_marshal [OF assms(1)]] encoding_marshal [OF assms(1)] assms(3)
    by (simp add: CanonicalizeJSON_def parseJSON_def)
qed

end
