(* ===== verification/Permit_Token.thy ===== *)
theory Permit_Token
  imports Permit_Claims Base64 Json_Struct
begin

text \<open>
  \<open>internal/permit/token.go\<close>: the compact token \<open>header.payload.signature\<close> of an execution
  permit. \<open>SignToken\<close> writes it, \<open>VerifyToken\<close> authenticates it before it looks at the
  claims, \<open>TokenKeyID\<close> reads the key selector only.
\<close>

definition tokenType :: string where "tokenType = ''AEGIS-PERMIT''"
definition maxCompactBytes :: nat where "maxCompactBytes = 65536"

record token_header =
  th_Algorithm :: string
  th_Type :: string
  th_Version :: int
  th_KeyID :: string

definition compactHeader :: token_header where
  "compactHeader = \<lparr>th_Algorithm = ''EdDSA'', th_Type = tokenType, th_Version = 1, th_KeyID = []\<rparr>"

definition empty_header :: token_header where
  "empty_header = \<lparr>th_Algorithm = [], th_Type = [], th_Version = 0, th_KeyID = []\<rparr>"

definition header_fields :: "token_header field list" where
  "header_fields =
    [(''alg'', set_string (\<lambda>s. th_Algorithm_update (\<lambda>_. s))),
     (''typ'', set_string (\<lambda>s. th_Type_update (\<lambda>_. s))),
     (''v'', set_int64 (\<lambda>i. th_Version_update (\<lambda>_. i))),
     (''kid'', set_string (\<lambda>s. th_KeyID_update (\<lambda>_. s)))]"

definition header_json :: "token_header \<Rightarrow> json" where
  "header_json h =
    JObj [(''alg'', JStr (th_Algorithm h)), (''typ'', JStr (th_Type h)), (''v'', JNum (show_int (th_Version h))),
          (''kid'', JStr (th_KeyID h))]"

definition obligations_fields :: "obligations field list" where
  "obligations_fields =
    [(''isolation_required'', set_bool (\<lambda>b. ob_IsolationRequired_update (\<lambda>_. b))),
     (''network_egress_denied'', set_bool (\<lambda>b. ob_NetworkEgressDenied_update (\<lambda>_. b))),
     (''read_only'', set_bool (\<lambda>b. ob_ReadOnly_update (\<lambda>_. b))),
     (''human_approval_required'', set_bool (\<lambda>b. ob_HumanApprovalRequired_update (\<lambda>_. b))),
     (''enhanced_audit_required'', set_bool (\<lambda>b. ob_EnhancedAuditRequired_update (\<lambda>_. b)))]"

definition obligations_json :: "obligations \<Rightarrow> json" where
  "obligations_json ob =
    JObj (opt_bool ''isolation_required'' (ob_IsolationRequired ob)
          @ opt_bool ''network_egress_denied'' (ob_NetworkEgressDenied ob)
          @ opt_bool ''read_only'' (ob_ReadOnly ob)
          @ opt_bool ''human_approval_required'' (ob_HumanApprovalRequired ob)
          @ opt_bool ''enhanced_audit_required'' (ob_EnhancedAuditRequired ob))"

definition empty_claims :: claims where
  "empty_claims =
    \<lparr>cl_PermitID = [], cl_SigningKeyID = [], cl_PermitClass = OtherClass [], cl_RequestID = [],
     cl_PrincipalID = [], cl_AgentID = [], cl_WorkloadID = [], cl_ExecutorKeyID = [],
     cl_ExecutorKeyThumbprint = [], cl_DelegatedAuthorityFingerprint = [], cl_Tool = [],
     cl_Capability = [], cl_Resource = [], cl_Operation = [], cl_ProfileID = [], cl_Audience = [],
     cl_ActionDigest = [], cl_ExecutionBinding = [], cl_AuthorityEpoch = 0, cl_PolicyVersion = [],
     cl_Obligations = no_obligations, cl_Issuer = [], cl_IssuedAt = 0, cl_ExpiresAt = 0, cl_SingleUse = False\<rparr>"

definition claims_decoder :: "claims field list" where
  "claims_decoder =
    [(''jti'', set_string (\<lambda>s. cl_PermitID_update (\<lambda>_. s))),
     (''signing_key_id'', set_string (\<lambda>s. cl_SigningKeyID_update (\<lambda>_. s))),
     (''permit_class'', set_string (\<lambda>s. cl_PermitClass_update (\<lambda>_. class_of s))),
     (''request_id'', set_string (\<lambda>s. cl_RequestID_update (\<lambda>_. s))),
     (''principal'', set_string (\<lambda>s. cl_PrincipalID_update (\<lambda>_. s))),
     (''agent'', set_string (\<lambda>s. cl_AgentID_update (\<lambda>_. s))),
     (''workload'', set_string (\<lambda>s. cl_WorkloadID_update (\<lambda>_. s))),
     (''executor_key_id'', set_string (\<lambda>s. cl_ExecutorKeyID_update (\<lambda>_. s))),
     (''executor_key_thumbprint'', set_string (\<lambda>s. cl_ExecutorKeyThumbprint_update (\<lambda>_. s))),
     (''delegated_authority_fingerprint'', set_string (\<lambda>s. cl_DelegatedAuthorityFingerprint_update (\<lambda>_. s))),
     (''tool'', set_string (\<lambda>s. cl_Tool_update (\<lambda>_. s))),
     (''capability'', set_string (\<lambda>s. cl_Capability_update (\<lambda>_. s))),
     (''resource'', set_string (\<lambda>s. cl_Resource_update (\<lambda>_. s))),
     (''operation'', set_string (\<lambda>s. cl_Operation_update (\<lambda>_. s))),
     (''profile_id'', set_string (\<lambda>s. cl_ProfileID_update (\<lambda>_. s))),
     (''audience'', set_string (\<lambda>s. cl_Audience_update (\<lambda>_. s))),
     (''action_digest'', set_string (\<lambda>s. cl_ActionDigest_update (\<lambda>_. s))),
     (''execution_binding'', set_string (\<lambda>s. cl_ExecutionBinding_update (\<lambda>_. s))),
     (''authority_epoch'', set_uint64 (\<lambda>i. cl_AuthorityEpoch_update (\<lambda>_. i))),
     (''policy_version'', set_string (\<lambda>s. cl_PolicyVersion_update (\<lambda>_. s))),
     (''obligations'', set_struct True obligations_fields cl_Obligations (\<lambda>ob. cl_Obligations_update (\<lambda>_. ob))),
     (''iss'', set_string (\<lambda>s. cl_Issuer_update (\<lambda>_. s))),
     (''iat'', set_int64 (\<lambda>i. cl_IssuedAt_update (\<lambda>_. i))),
     (''exp'', set_int64 (\<lambda>i. cl_ExpiresAt_update (\<lambda>_. i))),
     (''single_use'', set_bool (\<lambda>b. cl_SingleUse_update (\<lambda>_. b)))]"

text \<open>\<open>json.Marshal(claims)\<close>; \<open>omitempty\<close> has no effect on the obligations, a struct.\<close>

definition claims_members :: "claims \<Rightarrow> (string \<times> json) list" where
  "claims_members c =
    [(''jti'', JStr (cl_PermitID c)), (''signing_key_id'', JStr (cl_SigningKeyID c)),
     (''permit_class'', JStr (class_text (cl_PermitClass c))), (''request_id'', JStr (cl_RequestID c)),
     (''principal'', JStr (cl_PrincipalID c)), (''agent'', JStr (cl_AgentID c)),
     (''workload'', JStr (cl_WorkloadID c))]
    @ opt_string ''executor_key_id'' (cl_ExecutorKeyID c)
    @ opt_string ''executor_key_thumbprint'' (cl_ExecutorKeyThumbprint c)
    @ opt_string ''delegated_authority_fingerprint'' (cl_DelegatedAuthorityFingerprint c)
    @ [(''tool'', JStr (cl_Tool c)), (''capability'', JStr (cl_Capability c)),
       (''resource'', JStr (cl_Resource c)), (''operation'', JStr (cl_Operation c))]
    @ opt_string ''profile_id'' (cl_ProfileID c)
    @ opt_string ''audience'' (cl_Audience c)
    @ [(''action_digest'', JStr (cl_ActionDigest c))]
    @ opt_string ''execution_binding'' (cl_ExecutionBinding c)
    @ opt_uint64 ''authority_epoch'' (cl_AuthorityEpoch c)
    @ [(''policy_version'', JStr (cl_PolicyVersion c)), (''obligations'', obligations_json (cl_Obligations c)),
       (''iss'', JStr (cl_Issuer c)), (''iat'', JNum (show_int (cl_IssuedAt c))),
       (''exp'', JNum (show_int (cl_ExpiresAt c))), (''single_use'', JBool (cl_SingleUse c))]"

definition claims_json :: "claims \<Rightarrow> json" where
  "claims_json c = JObj (claims_members c)"

definition SignToken :: "crypto \<Rightarrow> string \<Rightarrow> string \<Rightarrow> claims \<Rightarrow> permit_error + string" where
  "SignToken cr privateKey keyID c =
    (if length privateKey \<noteq> PrivateKeySize then Inl ErrInvalidKey
     else case Claims_Validate c of
       Some e \<Rightarrow> Inl e
     | None \<Rightarrow>
         if ValidateKeyID keyID \<noteq> None \<or> cl_SigningKeyID c \<noteq> keyID
         then Inl (ErrInvalidClaims ''token kid must match signing_key_id'')
         else
           let header = compactHeader\<lparr>th_Version := (if cl_ExecutionBinding c \<noteq> [] then 2 else 1), th_KeyID := keyID\<rparr>;
               signingInput = b64_encode (marshal_json (header_json header)) @ ''.'' @ b64_encode (marshal_json (claims_json c))
           in Inr (signingInput @ ''.'' @ b64_encode (cr_sign cr privateKey signingInput)))"

definition tokenParts :: "string \<Rightarrow> permit_error + (string \<times> string \<times> string)" where
  "tokenParts token =
    (if token = [] \<or> length token > maxCompactBytes then Inl ErrMalformedToken
     else case split_at (CHR ''.'') token of
       [h, p, s] \<Rightarrow> if h = [] \<or> p = [] \<or> s = [] then Inl ErrMalformedToken else Inr (h, p, s)
     | _ \<Rightarrow> Inl ErrMalformedToken)"

text \<open>The duplicate-key and syntax check that \<open>CanonicalizeJSON\<close> is used for here.\<close>

definition canonical_ok :: "string \<Rightarrow> bool" where
  "canonical_ok s = (case CanonicalizeJSON s of Inl e \<Rightarrow> False | Inr t \<Rightarrow> True)"

definition header_supported :: "token_header \<Rightarrow> bool" where
  "header_supported h \<longleftrightarrow>
    th_Algorithm h = th_Algorithm compactHeader \<and> th_Type h = th_Type compactHeader
    \<and> (th_Version h = 1 \<or> th_Version h = 2) \<and> ValidateKeyID (th_KeyID h) = None"

definition VerifyToken :: "crypto \<Rightarrow> string \<Rightarrow> string \<Rightarrow> permit_error + claims" where
  "VerifyToken cr publicKey token =
    (if length publicKey \<noteq> PublicKeySize then Inl ErrInvalidKey
     else case tokenParts token of
       Inl e \<Rightarrow> Inl e
     | Inr (p0, p1, p2) \<Rightarrow>
         (case b64_decode False p2 of
            None \<Rightarrow> Inl ErrInvalidSignature
          | Some signature \<Rightarrow>
              if length signature \<noteq> SignatureSize then Inl ErrInvalidSignature
              else if b64_encode signature \<noteq> p2 then Inl ErrInvalidSignature
              else if \<not> cr_verify cr publicKey (p0 @ ''.'' @ p1) signature then Inl ErrInvalidSignature
              else (case (b64_decode False p0, b64_decode False p1) of
                  (None, _) \<Rightarrow> Inl ErrMalformedToken
                | (Some _, None) \<Rightarrow> Inl ErrMalformedToken
                | (Some headerJSON, Some payloadJSON) \<Rightarrow>
                    if \<not> canonical_ok headerJSON \<or> \<not> canonical_ok payloadJSON then Inl ErrMalformedToken
                    else (case strictJSON header_fields empty_header headerJSON of
                        None \<Rightarrow> Inl ErrMalformedToken
                      | Some header \<Rightarrow>
                          if \<not> header_supported header then Inl ErrUnsupportedToken
                          else (case strictJSON claims_decoder empty_claims payloadJSON of
                              None \<Rightarrow> Inl ErrMalformedToken
                            | Some c \<Rightarrow>
                                (case Claims_Validate c of
                                   Some e \<Rightarrow> Inl e
                                 | None \<Rightarrow>
                                     if (th_Version header = 2) \<noteq> (cl_ExecutionBinding c \<noteq> [])
                                     then Inl ErrUnsupportedToken
                                     else if cl_SigningKeyID c \<noteq> th_KeyID header
                                     then Inl (ErrInvalidClaims ''token kid does not match signed claims'')
                                     else Inr c))))))"

definition TokenKeyID :: "string \<Rightarrow> permit_error + string" where
  "TokenKeyID token =
    (case tokenParts token of
       Inl e \<Rightarrow> Inl e
     | Inr (p0, p1, p2) \<Rightarrow>
         (case b64_decode False p0 of
            None \<Rightarrow> Inl ErrMalformedToken
          | Some headerJSON \<Rightarrow>
              if \<not> canonical_ok headerJSON then Inl ErrMalformedToken
              else (case strictJSON header_fields empty_header headerJSON of
                  None \<Rightarrow> Inl ErrMalformedToken
                | Some header \<Rightarrow>
                    if \<not> header_supported header then Inl ErrUnsupportedToken else Inr (th_KeyID header))))"

section \<open>The three parts\<close>

lemma split_at_nonempty [simp]: "split_at d s \<noteq> []"
  by (induction d s rule: split_at.induct) (auto split: list.splits)

lemma split_at_none: "d \<notin> set s \<Longrightarrow> split_at d s = [s]"
  by (induction s) auto

lemma split_at_append: "d \<notin> set w \<Longrightarrow> split_at d (w @ d # s) = w # split_at d s"
  by (induction w) auto

lemma split_at_parts:
  "split_at d s = ws \<Longrightarrow> s = join [d] ws \<and> (\<forall>w \<in> set ws. d \<notin> set w)"
proof (induction d s arbitrary: ws rule: split_at.induct)
  case (2 d c cs)
  show ?case
  proof (cases "c = d")
    case True
    have "cs = join [d] (split_at d cs) \<and> (\<forall>w \<in> set (split_at d cs). d \<notin> set w)" using 2(1) [OF True refl] .
    moreover obtain w ws' where "split_at d cs = w # ws'" by (cases "split_at d cs") auto
    ultimately show ?thesis using 2(3) True by auto
  next
    case False
    obtain w ws' where w: "split_at d cs = w # ws'" by (cases "split_at d cs") auto
    have "cs = join [d] (w # ws') \<and> (\<forall>v \<in> set (w # ws'). d \<notin> set v)" using 2(2) [OF False w] .
    then show ?thesis using 2(3) False w by (cases ws') auto
  qed
qed auto

lemma tokenParts_parts:
  "tokenParts token = Inr (h, p, s) \<Longrightarrow>
     token = h @ ''.'' @ p @ ''.'' @ s \<and> CHR ''.'' \<notin> set h \<and> CHR ''.'' \<notin> set p \<and> CHR ''.'' \<notin> set s
       \<and> h \<noteq> [] \<and> p \<noteq> [] \<and> s \<noteq> []"
  using split_at_parts [of "CHR ''.''" token "[h, p, s]"]
  by (auto simp: tokenParts_def split: list.splits if_splits)

lemma tokenParts_join:
  assumes "CHR ''.'' \<notin> set h" "CHR ''.'' \<notin> set p" "CHR ''.'' \<notin> set s" "h \<noteq> []" "p \<noteq> []" "s \<noteq> []"
    "length h + length p + length s + 2 \<le> maxCompactBytes"
  shows "tokenParts (h @ ''.'' @ p @ ''.'' @ s) = Inr (h, p, s)"
  using assms by (simp add: tokenParts_def split_at_append split_at_none)

section \<open>What verification establishes\<close>

lemma VerifyToken_signed:
  assumes "VerifyToken cr publicKey token = Inr c"
  obtains p0 p1 signature header payload where "token = p0 @ ''.'' @ p1 @ ''.'' @ b64_encode signature"
    "cr_verify cr publicKey (p0 @ ''.'' @ p1) signature" "length signature = SignatureSize"
    "Claims_Validate c = None" "b64_decode False p1 = Some payload"
    "strictJSON claims_decoder empty_claims payload = Some c"
    "b64_decode False p0 = Some header" "TokenKeyID token = Inr (cl_SigningKeyID c)"
proof -
  obtain p0 p1 p2 where parts: "tokenParts token = Inr (p0, p1, p2)"
    using assms by (auto simp: VerifyToken_def split: if_splits sum.splits)
  obtain signature where sg: "b64_decode False p2 = Some signature" "length signature = SignatureSize"
    "b64_encode signature = p2" "cr_verify cr publicKey (p0 @ ''.'' @ p1) signature"
    using assms parts by (auto simp: VerifyToken_def split: if_splits option.splits)
  obtain header payload where hp: "b64_decode False p0 = Some header" "b64_decode False p1 = Some payload"
    using assms parts sg by (auto simp: VerifyToken_def split: if_splits option.splits)
  obtain h where h: "canonical_ok header" "strictJSON header_fields empty_header header = Some h" "header_supported h"
    "strictJSON claims_decoder empty_claims payload = Some c" "Claims_Validate c = None" "cl_SigningKeyID c = th_KeyID h"
    using assms parts sg hp by (auto simp: VerifyToken_def split: if_splits option.splits)
  have "TokenKeyID token = Inr (cl_SigningKeyID c)" using parts hp h by (simp add: TokenKeyID_def)
  moreover have "token = p0 @ ''.'' @ p1 @ ''.'' @ b64_encode signature" using tokenParts_parts [OF parts] sg(3) by simp
  ultimately show thesis using that sg(2,4) h(5) hp h(4) by blast
qed

end
