(* ===== verification/Permit_Token_Facts.thy ===== *)
theory Permit_Token_Facts
  imports Permit_Token
begin

text \<open>
  The round trip of permit tokens: every token that \<open>SignToken\<close> makes, \<open>VerifyToken\<close> accepts
  under the matching key and answers with the claims that were signed. It needs no bound on
  the token: the limits of \<open>Validate\<close> keep it within \<open>maxCompactBytes\<close>.
\<close>

section \<open>Integers as JSON numbers\<close>

lemma show_nat_lead: "0 < n \<Longrightarrow> hd (show_nat n) \<noteq> CHR ''0''"
proof (induction n rule: show_nat.induct)
  case (1 n)
  show ?case
  proof (cases "n < 10")
    case True
    have "byte (char_of (48 + n)) \<noteq> byte (CHR ''0'')" using True 1(2) by simp
    then have "char_of (48 + n) \<noteq> CHR ''0''" by metis
    then show ?thesis using True by (simp add: show_nat.simps [of n])
  next
    case False
    then show ?thesis using 1 show_nat_facts [of "n div 10"] by (simp add: show_nat.simps [of n])
  qed
qed

lemma show_nat_0: "show_nat 0 = ''0''"
  by code_simp

lemma show_nat_length: "0 < n \<Longrightarrow> n < 10 ^ k \<Longrightarrow> length (show_nat n) \<le> k"
proof -
  assume n: "0 < n" "n < 10 ^ k"
  obtain c cs where c: "show_nat n = c # cs" using show_nat_facts [of n] by (cases "show_nat n") auto
  have "c \<noteq> CHR ''0''" "list_all is_digit (c # cs)" "dec_val (c # cs) = n"
    using show_nat_lead [OF n(1)] show_nat_facts [of n] c by simp_all
  then have "(10::nat) ^ length cs \<le> n" using dec_val_lead [of c cs] by simp
  then have "(10::nat) ^ length cs < 10 ^ k" using n(2) by (rule le_less_trans)
  then have "length cs < k" by (rule power_less_imp_less_exp [rotated]) simp
  then show ?thesis by (simp add: c)
qed

lemma show_nat_length20: "n < 18446744073709551616 \<Longrightarrow> length (show_nat n) \<le> 20"
  using show_nat_length [of n 20] by (cases "n = 0") (simp_all add: show_nat_0)

text \<open>The integer part of a signed number and what follows it.\<close>

definition signed_text :: "bool \<Rightarrow> nat \<Rightarrow> string" where
  "signed_text neg n = (if neg then ''-'' else []) @ show_nat n"

lemma show_int_signed: "show_int i = signed_text (i < 0) (nat \<bar>i\<bar>)"
  by (simp add: show_int_def signed_text_def)

lemma show_nat_lexed: "lex_int (show_nat n) = Some (show_nat n, [])"
proof (cases "n = 0")
  case True
  then show ?thesis by (simp add: show_nat_0 lex_int_def)
next
  case False
  obtain c cs where c: "show_nat n = c # cs" using show_nat_facts [of n] by (cases "show_nat n") auto
  then show ?thesis using show_nat_lead [of n] False show_nat_facts [of n] lex_digits_all [of "show_nat n"]
    by (simp add: lex_int_def)
qed

lemma signed_text_pattern: "json_number_pattern (signed_text neg n)"
proof -
  obtain c cs where c: "show_nat n = c # cs" using show_nat_facts [of n] by (cases "show_nat n") auto
  then have "is_digit c" using show_nat_facts [of n] by simp
  then have "lex_minus (signed_text neg n) = ((if neg then ''-'' else []), show_nat n)"
    using digit_not_sign [of c] by (simp add: signed_text_def lex_minus_def c)
  then show ?thesis using show_nat_lexed [of n]
    by (simp add: json_number_pattern_def lex_number_def lex_frac_def lex_exp_def)
qed

lemma signed_text_normal:
  assumes "n < 18446744073709551616"
  shows "\<exists>m. normalizeJSONNumber (signed_text neg n) = Inr m"
proof -
  define ds where "ds = show_nat n"
  have digits: "list_all is_digit ds" "ds \<noteq> []" using show_nat_facts [of n] by (simp_all add: ds_def)
  obtain c cs where c: "ds = c # cs" using digits by (cases ds) auto
  have neg: "has_prefix (signed_text neg n) ''-'' = neg"
    "(if neg then tl (signed_text neg n) else signed_text neg n) = ds"
    using digit_not_sign [of c] digits c by (simp_all add: signed_text_def ds_def [symmetric])
  have parts: "exponent_part ds = Some (0, ds)" "fraction_part ds = (ds, [])"
    using split_first_none [OF digits_no_exp [OF digits(1)]] split_first_none [OF digits_no_dot [OF digits(1)]]
    by (simp_all add: exponent_part_def fraction_part_def)
  define st where "st = dropWhile (\<lambda>c. c = CHR ''0'') ds"
  have "length st \<le> 20" using show_nat_length20 [OF assms] length_dropWhile_le [of _ ds] ds_def st_def
    by (metis le_trans)
  obtain ds' e' where d: "drop_zeros st 0 = (ds', e')" by fastforce
  have "exponent_ok e'" if ne: "st \<noteq> []"
  proof -
    obtain k where "st = ds' @ replicate k (CHR ''0'')" "e' = 0 + int k" using drop_zeros_facts [OF ne d] by blast
    then show ?thesis using \<open>length st \<le> 20\<close> by (simp add: exponent_ok_def)
  qed
  then have "\<exists>m. significant_part neg ds 0 = Inr m"
    using d by (simp add: significant_part_def st_def [symmetric] Let_def)
  then show ?thesis using parts neg signed_text_pattern [of neg n]
    by (simp add: normalizeJSONNumber_def Let_def exponent_ok_def)
qed

definition int64 :: "int \<Rightarrow> bool" where
  "int64 i \<longleftrightarrow> min_int64 \<le> i \<and> i \<le> max_int64"

lemma show_int_pattern: "json_number_pattern (show_int i)"
  by (simp add: show_int_signed signed_text_pattern)

lemma show_int_normal: "int64 i \<Longrightarrow> \<exists>m. normalizeJSONNumber (show_int i) = Inr m"
  unfolding show_int_signed by (rule signed_text_normal) (auto simp: int64_def min_int64_def max_int64_def)

lemma show_nat_pattern: "json_number_pattern (show_nat n)"
  using signed_text_pattern [of False n] by (simp add: signed_text_def)

lemma show_nat_normal: "n < 18446744073709551616 \<Longrightarrow> \<exists>m. normalizeJSONNumber (show_nat n) = Inr m"
  using signed_text_normal [of n False] by (simp add: signed_text_def)

lemma show_int_length: "int64 i \<Longrightarrow> length (show_int i) \<le> 21"
proof -
  assume "int64 i"
  then have "length (show_nat (nat \<bar>i\<bar>)) \<le> 20"
    by (intro show_nat_length20) (auto simp: int64_def min_int64_def max_int64_def)
  then show ?thesis unfolding show_int_signed signed_text_def by auto
qed

section \<open>Decoding the claims\<close>

lemma class_of_text: "Class_Valid k \<Longrightarrow> class_of (class_text k) = k"
  by (auto simp: Class_Valid_def class_of_def)

lemma decode_obligations: "decode_struct True obligations_fields no_obligations (obligations_json ob) = Some ob"
  by (cases ob)
    (simp add: decode_struct_def obligations_json_def decode_members_append obligations_fields_def
      decode_opt_bool [where upd = "\<lambda>b. ob_IsolationRequired_update (\<lambda>_. b)"]
      decode_opt_bool [where upd = "\<lambda>b. ob_NetworkEgressDenied_update (\<lambda>_. b)"]
      decode_opt_bool [where upd = "\<lambda>b. ob_ReadOnly_update (\<lambda>_. b)"]
      decode_opt_bool [where upd = "\<lambda>b. ob_HumanApprovalRequired_update (\<lambda>_. b)"]
      decode_opt_bool [where upd = "\<lambda>b. ob_EnhancedAuditRequired_update (\<lambda>_. b)"] no_obligations_def)

lemma parse_uint64_show: "n < 18446744073709551616 \<Longrightarrow> parse_uint64 (show_nat n) = Some n"
  using show_nat_facts [of n] by (simp add: parse_uint64_def)

lemma decode_epoch:
  assumes "map_of fs k = Some (set_uint64 upd)" "upd 0 r = r"
  shows "decode_members dis fs r (opt_uint64 k w) = Some (upd w r)"
proof -
  have "unat w < 18446744073709551616" using unsigned_less [of w] by simp
  then show ?thesis using assms by (simp add: opt_uint64_def find_field_exact set_uint64_def parse_uint64_show)
qed

lemma decode_int64:
  "map_of fs k = Some (set_int64 upd) \<Longrightarrow> int64 i \<Longrightarrow>
     decode_members dis fs r [(k, JNum (show_int i))] = Some (upd i r)"
  by (simp add: find_field_exact set_int64_def parse_show_int int64_def)

lemma claims_names:
  "map_of claims_decoder ''jti'' = Some (set_string (\<lambda>s. cl_PermitID_update (\<lambda>_. s)))"
  "map_of claims_decoder ''signing_key_id'' = Some (set_string (\<lambda>s. cl_SigningKeyID_update (\<lambda>_. s)))"
  "map_of claims_decoder ''permit_class'' = Some (set_string (\<lambda>s. cl_PermitClass_update (\<lambda>_. class_of s)))"
  "map_of claims_decoder ''request_id'' = Some (set_string (\<lambda>s. cl_RequestID_update (\<lambda>_. s)))"
  "map_of claims_decoder ''principal'' = Some (set_string (\<lambda>s. cl_PrincipalID_update (\<lambda>_. s)))"
  "map_of claims_decoder ''agent'' = Some (set_string (\<lambda>s. cl_AgentID_update (\<lambda>_. s)))"
  "map_of claims_decoder ''workload'' = Some (set_string (\<lambda>s. cl_WorkloadID_update (\<lambda>_. s)))"
  "map_of claims_decoder ''executor_key_id'' = Some (set_string (\<lambda>s. cl_ExecutorKeyID_update (\<lambda>_. s)))"
  "map_of claims_decoder ''executor_key_thumbprint'' = Some (set_string (\<lambda>s. cl_ExecutorKeyThumbprint_update (\<lambda>_. s)))"
  "map_of claims_decoder ''delegated_authority_fingerprint'' = Some (set_string (\<lambda>s. cl_DelegatedAuthorityFingerprint_update (\<lambda>_. s)))"
  "map_of claims_decoder ''tool'' = Some (set_string (\<lambda>s. cl_Tool_update (\<lambda>_. s)))"
  "map_of claims_decoder ''capability'' = Some (set_string (\<lambda>s. cl_Capability_update (\<lambda>_. s)))"
  "map_of claims_decoder ''resource'' = Some (set_string (\<lambda>s. cl_Resource_update (\<lambda>_. s)))"
  "map_of claims_decoder ''operation'' = Some (set_string (\<lambda>s. cl_Operation_update (\<lambda>_. s)))"
  "map_of claims_decoder ''profile_id'' = Some (set_string (\<lambda>s. cl_ProfileID_update (\<lambda>_. s)))"
  "map_of claims_decoder ''audience'' = Some (set_string (\<lambda>s. cl_Audience_update (\<lambda>_. s)))"
  "map_of claims_decoder ''action_digest'' = Some (set_string (\<lambda>s. cl_ActionDigest_update (\<lambda>_. s)))"
  "map_of claims_decoder ''execution_binding'' = Some (set_string (\<lambda>s. cl_ExecutionBinding_update (\<lambda>_. s)))"
  "map_of claims_decoder ''authority_epoch'' = Some (set_uint64 (\<lambda>i. cl_AuthorityEpoch_update (\<lambda>_. i)))"
  "map_of claims_decoder ''policy_version'' = Some (set_string (\<lambda>s. cl_PolicyVersion_update (\<lambda>_. s)))"
  "map_of claims_decoder ''obligations'' = Some (set_struct True obligations_fields cl_Obligations (\<lambda>ob. cl_Obligations_update (\<lambda>_. ob)))"
  "map_of claims_decoder ''iss'' = Some (set_string (\<lambda>s. cl_Issuer_update (\<lambda>_. s)))"
  "map_of claims_decoder ''iat'' = Some (set_int64 (\<lambda>i. cl_IssuedAt_update (\<lambda>_. i)))"
  "map_of claims_decoder ''exp'' = Some (set_int64 (\<lambda>i. cl_ExpiresAt_update (\<lambda>_. i)))"
  "map_of claims_decoder ''single_use'' = Some (set_bool (\<lambda>b. cl_SingleUse_update (\<lambda>_. b)))"
  by (simp_all add: claims_decoder_def)

text \<open>One member at a time, for the members that are always written and for the optional ones.\<close>

lemma decode_string_Cons:
  "map_of fs k = Some (set_string upd) \<Longrightarrow>
     decode_members dis fs r ((k, JStr s) # ms) = decode_members dis fs (upd s r) ms"
  by (simp add: find_field_exact set_string_def)

lemma decode_opt_string_append:
  "map_of fs k = Some (set_string upd) \<Longrightarrow> upd [] r = r \<Longrightarrow>
     decode_members dis fs r (opt_string k s @ ms) = decode_members dis fs (upd s r) ms"
  by (simp add: decode_members_append decode_opt_string)

lemma decode_int64_Cons:
  "map_of fs k = Some (set_int64 upd) \<Longrightarrow> int64 i \<Longrightarrow>
     decode_members dis fs r ((k, JNum (show_int i)) # ms) = decode_members dis fs (upd i r) ms"
  by (simp add: find_field_exact set_int64_def parse_show_int int64_def)

lemma decode_bool_Cons:
  "map_of fs k = Some (set_bool upd) \<Longrightarrow>
     decode_members dis fs r ((k, JBool b) # ms) = decode_members dis fs (upd b r) ms"
  by (simp add: find_field_exact set_bool_def)

lemma decode_epoch_append:
  "map_of fs k = Some (set_uint64 upd) \<Longrightarrow> upd 0 r = r \<Longrightarrow>
     decode_members dis fs r (opt_uint64 k w @ ms)
       = decode_members dis fs (upd w r) ms"
  by (simp only: decode_members_append decode_epoch option.case)

lemma decode_obligations_Cons:
  assumes "map_of fs k = Some (set_struct True obligations_fields get upd)" "get r = no_obligations"
  shows "decode_members dis fs r ((k, obligations_json ob) # ms) = decode_members dis fs (upd ob r) ms"
  using assms by (simp add: find_field_exact set_struct_def decode_obligations)

lemma decode_claims:
  assumes "Claims_Validate c = None" "int64 (cl_IssuedAt c)" "int64 (cl_ExpiresAt c)"
  shows "decode_struct True claims_decoder empty_claims (claims_json c) = Some c"
proof -
  have cls: "class_of (class_text (cl_PermitClass c)) = cl_PermitClass c"
    by (rule class_of_text [OF Claims_Validate_class [OF assms(1)]])
  have "decode_members True claims_decoder empty_claims (claims_members c) = Some c"
    using cls assms(2,3)
    by (cases c) (simp add: claims_members_def empty_claims_def del: decode_members.simps(2)
      add: decode_string_Cons [OF claims_names(1)] decode_string_Cons [OF claims_names(2)]
      decode_string_Cons [OF claims_names(3)] decode_string_Cons [OF claims_names(4)]
      decode_string_Cons [OF claims_names(5)] decode_string_Cons [OF claims_names(6)]
      decode_string_Cons [OF claims_names(7)] decode_string_Cons [OF claims_names(11)]
      decode_string_Cons [OF claims_names(12)] decode_string_Cons [OF claims_names(13)]
      decode_string_Cons [OF claims_names(14)] decode_string_Cons [OF claims_names(17)]
      decode_string_Cons [OF claims_names(20)] decode_string_Cons [OF claims_names(22)]
      decode_opt_string_append [OF claims_names(8)] decode_opt_string_append [OF claims_names(9)]
      decode_opt_string_append [OF claims_names(10)] decode_opt_string_append [OF claims_names(15)]
      decode_opt_string_append [OF claims_names(16)] decode_opt_string_append [OF claims_names(18)]
      decode_epoch_append [OF claims_names(19)] decode_obligations_Cons [OF claims_names(21)]
      decode_int64_Cons [OF claims_names(23)] decode_int64_Cons [OF claims_names(24)] decode_bool_Cons [OF claims_names(25)])
  then show ?thesis by (simp add: decode_struct_def claims_json_def)
qed

section \<open>The texts of valid claims\<close>

lemma label_runes_bytes: "list_all label_rune (runes s) \<Longrightarrow> list_all (\<lambda>c. label_rune (byte c)) s"
proof (induction s)
  case (Cons c cs)
  show ?case
  proof (cases "byte c < 128")
    case True
    then show ?thesis using Cons by simp
  next
    case False
    obtain r n where d: "decode_rune (c # cs) = (r, n)" by fastforce
    have "128 \<le> r" using d False by (auto simp: Let_def in_range_def split: if_splits list.splits)
    moreover have "label_rune r" using Cons.prems d by (simp add: rune_chunks.simps(2))
    ultimately show ?thesis using label_rune_ascii [of r] by simp
  qed
qed simp

lemma ValidateKeyID_bytes: "ValidateKeyID k = None \<Longrightarrow> list_all (\<lambda>c. label_rune (byte c)) k"
  by (auto simp: ValidateKeyID_def label_runes_bytes split: if_splits)

text \<open>Text that is written without an escape.\<close>

definition plain_text :: "string \<Rightarrow> bool" where
  "plain_text s \<longleftrightarrow> list_all (\<lambda>c. label_rune (byte c)) s"

lemma plain_text_utf8: "plain_text s \<Longrightarrow> utf8_valid s"
  by (rule utf8_valid_ascii) (auto simp: plain_text_def ascii_def list_all_iff dest: label_rune_ascii)

lemma escape_label: "label_rune (byte c) \<Longrightarrow> escape_chunk (byte c, [c]) = [c]"
  by (auto simp: label_rune_def escape_chunk_def Let_def)

lemma plain_text_length: "plain_text s \<Longrightarrow> length (marshal_string s) = length s + 2"
proof -
  assume "plain_text s"
  then have "length (concat (map escape_chunk (rune_chunks s))) = length s"
    by (induction s) (auto simp: plain_text_def escape_label label_rune_ascii)
  then show ?thesis by (simp add: marshal_string_def)
qed

lemma key_plain: "ValidateKeyID k = None \<Longrightarrow> plain_text k \<and> length k \<le> 128"
  using ValidateKeyID_bytes ValidateKeyID_nonempty by (auto simp: plain_text_def)

lemma sha256_plain: "sha256_pattern s \<Longrightarrow> plain_text s \<and> length s = 71"
proof -
  assume s: "sha256_pattern s"
  have eq: "s = take 7 s @ drop 7 s" by simp
  have "plain_text (drop 7 s)"
    using s by (auto simp: sha256_pattern_def plain_text_def list_all_iff lower_hex_def in_range_def label_rune_def)
  moreover have "plain_text (take 7 s)" using s by (simp add: sha256_pattern_def plain_text_def label_rune_def)
  ultimately have "plain_text (take 7 s @ drop 7 s)" unfolding plain_text_def list_all_append by blast
  then show ?thesis using s eq by (simp add: sha256_pattern_def)
qed

lemma escape_chunk_length: "snd ch \<noteq> [] \<Longrightarrow> length (escape_chunk ch) \<le> 6 * length (snd ch)"
  by (cases "snd ch") (auto simp: escape_chunk_def Let_def)

lemma rune_chunks_nonempty: "ch \<in> set (rune_chunks s) \<Longrightarrow> snd ch \<noteq> []"
proof (induction s rule: rune_chunks.induct)
  case (2 c cs)
  obtain r n where d: "decode_rune (c # cs) = (r, n)" by fastforce
  have "1 \<le> n" using decode_rune_width [of "c # cs"] d by simp
  then show ?case using 2 d by (auto simp: rune_chunks.simps(2))
qed simp

lemma escape_length:
  "(\<And>ch. ch \<in> set chs \<Longrightarrow> snd ch \<noteq> []) \<Longrightarrow>
     length (concat (map escape_chunk chs)) \<le> 6 * length (concat (map snd chs))"
proof (induction chs)
  case (Cons ch chs)
  then show ?case using escape_chunk_length [of ch] by fastforce
qed simp

lemma marshal_string_length: "length (marshal_string s) \<le> 6 * length s + 2"
proof -
  have "length (concat (map escape_chunk (rune_chunks s))) \<le> 6 * length s"
    using escape_length [of "rune_chunks s"] rune_chunks_nonempty by auto
  then show ?thesis by (simp add: marshal_string_def)
qed

text \<open>A text of at most \<open>n\<close> bytes, plain or not, and its cost when written.\<close>

definition text_cost :: "nat \<Rightarrow> string \<Rightarrow> bool" where
  "text_cost n s \<longleftrightarrow> utf8_valid s \<and> length (marshal_string s) \<le> n + 2"

lemma clean_text_cost: "clean_text l s \<Longrightarrow> text_cost (6 * l) s"
  using marshal_string_length [of s] by (auto simp: text_cost_def clean_text_def)

lemma plain_cost: "plain_text s \<Longrightarrow> length s \<le> n \<Longrightarrow> text_cost n s"
  by (simp add: text_cost_def plain_text_length plain_text_utf8)

lemma empty_cost [simp]: "text_cost n []"
  by (simp add: text_cost_def marshal_string_def)

lemma Claims_Validate_list:
  "Claims_Validate c = None \<Longrightarrow> list_all (\<lambda>(n, v, l). v \<noteq> [] \<and> clean_text l v) (claims_fields c)"
  using Claims_Validate_fields by (auto simp: list_all_iff)

lemma Claims_Validate_optional:
  assumes "Claims_Validate c = None"
  shows "cl_ProfileID c = [] \<or> clean_text 256 (cl_ProfileID c)" "cl_Audience c = [] \<or> clean_text 1024 (cl_Audience c)"
    "cl_DelegatedAuthorityFingerprint c = [] \<or> sha256_pattern (cl_DelegatedAuthorityFingerprint c)"
    "(cl_ProfileID c = []) = (cl_Audience c = [])"
  using assms by (auto simp: Claims_Validate_def validateMetadata_None split: if_splits)

lemma claims_costs:
  assumes "Claims_Validate c = None"
  shows "text_cost 960 (cl_PermitID c)" "text_cost 128 (cl_SigningKeyID c)" "text_cost 960 (cl_RequestID c)"
    "text_cost 3072 (cl_PrincipalID c)" "text_cost 3072 (cl_AgentID c)" "text_cost 3072 (cl_WorkloadID c)"
    "text_cost 3072 (cl_Tool c)" "text_cost 3072 (cl_Capability c)" "text_cost 12288 (cl_Resource c)"
    "text_cost 3072 (cl_Operation c)" "text_cost 3072 (cl_PolicyVersion c)" "text_cost 3072 (cl_Issuer c)"
    "text_cost 1536 (cl_ProfileID c)" "text_cost 6144 (cl_Audience c)"
    "text_cost 71 (cl_DelegatedAuthorityFingerprint c)" "text_cost 71 (cl_ExecutionBinding c)"
    "text_cost 71 (cl_ActionDigest c)" "text_cost 128 (cl_ExecutorKeyID c)"
    "text_cost 71 (cl_ExecutorKeyThumbprint c)" "text_cost 10 (class_text (cl_PermitClass c))"
proof -
  have fields: "list_all (\<lambda>(n, v, l). text_cost (6 * l) v) (claims_fields c)"
    using Claims_Validate_list [OF assms] by (auto simp: list_all_iff clean_text_cost)
  then show "text_cost 960 (cl_PermitID c)" "text_cost 960 (cl_RequestID c)"
    "text_cost 3072 (cl_PrincipalID c)" "text_cost 3072 (cl_AgentID c)" "text_cost 3072 (cl_WorkloadID c)"
    "text_cost 3072 (cl_Tool c)" "text_cost 3072 (cl_Capability c)" "text_cost 12288 (cl_Resource c)"
    "text_cost 3072 (cl_Operation c)" "text_cost 3072 (cl_PolicyVersion c)" "text_cost 3072 (cl_Issuer c)"
    by (simp_all add: claims_fields_def)
  have key: "ValidateKeyID k = None \<Longrightarrow> text_cost 128 k" for k using key_plain plain_cost by blast
  have sha: "s = [] \<or> sha256_pattern s \<Longrightarrow> text_cost 71 s" for s using sha256_plain plain_cost by fastforce
  show "text_cost 128 (cl_SigningKeyID c)" using key Claims_Validate_key [OF assms] .
  have "text_cost 1536 s" if "s = [] \<or> clean_text 256 s" for s using that clean_text_cost [of 256 s] by auto
  then show "text_cost 1536 (cl_ProfileID c)" using Claims_Validate_optional(1) [OF assms] by blast
  have "text_cost 6144 s" if "s = [] \<or> clean_text 1024 s" for s using that clean_text_cost [of 1024 s] by auto
  then show "text_cost 6144 (cl_Audience c)" using Claims_Validate_optional(2) [OF assms] by blast
  show "text_cost 71 (cl_DelegatedAuthorityFingerprint c)" using sha Claims_Validate_optional(3) [OF assms] .
  show "text_cost 71 (cl_ExecutionBinding c)" "text_cost 71 (cl_ActionDigest c)"
    using sha Claims_Validate_binding [OF assms] Claims_Validate_digest [OF assms] by blast+
  have cls: "cl_PermitClass c = ClassExecution \<or> cl_PermitClass c = ClassSimulation"
    using Claims_Validate_class [OF assms] by (simp add: Class_Valid_def)
  then have ex: "ValidateKeyID (cl_ExecutorKeyID c) = None \<or> cl_ExecutorKeyID c = []"
    "sha256_pattern (cl_ExecutorKeyThumbprint c) \<or> cl_ExecutorKeyThumbprint c = []"
    using Claims_Validate_execution_keys [OF assms] Claims_Validate_simulation_keys [OF assms] by blast+
  show "text_cost 128 (cl_ExecutorKeyID c)" using key ex(1) by auto
  show "text_cost 71 (cl_ExecutorKeyThumbprint c)" using sha ex(2) by blast
  have "plain_text ''execution''" "plain_text ''simulation''" by (simp_all add: plain_text_def label_rune_def)
  then show "text_cost 10 (class_text (cl_PermitClass c))" using cls plain_cost by auto
qed

section \<open>The payload\<close>

text \<open>
  A bound on what a list of members takes when written, and that its strings are UTF-8 and
  its numbers can be normalised: the properties of the payload that go through member by
  member.
\<close>

definition member_cost :: "string \<times> json \<Rightarrow> nat" where
  "member_cost m = length (member_text m) + 1"

definition members_good :: "nat \<Rightarrow> (string \<times> json) list \<Rightarrow> bool" where
  "members_good n ms \<longleftrightarrow>
    sum_list (map member_cost ms) \<le> n
    \<and> list_all (\<lambda>(k, v). utf8_valid k \<and> json_ok False 1 v \<and> strict_ok 1 v) ms"

lemma members_good_Nil [simp]: "members_good n []"
  by (simp add: members_good_def)

lemma members_good_append:
  "members_good m ms \<Longrightarrow> members_good n ns \<Longrightarrow> members_good (m + n) (ms @ ns)"
  by (auto simp: members_good_def)

lemma members_good_Cons:
  "members_good m [x] \<Longrightarrow> members_good n ns \<Longrightarrow> members_good (m + n) (x # ns)"
  using members_good_append [of m "[x]" n ns] by simp

lemma good_string:
  "text_cost n s \<Longrightarrow> plain_text k \<Longrightarrow> members_good (length k + n + 6) [(k, JStr s)]"
  by (auto simp: members_good_def member_cost_def member_text_def text_cost_def plain_text_length plain_text_utf8
      maxJSONDepth_def)

lemma good_opt_string:
  "text_cost n s \<Longrightarrow> plain_text k \<Longrightarrow> members_good (length k + n + 6) (opt_string k s)"
  using good_string [of n s k] by (simp add: opt_string_def)

lemma good_int:
  "int64 i \<Longrightarrow> plain_text k \<Longrightarrow> members_good (length k + 25) [(k, JNum (show_int i))]"
  using show_int_length [of i] show_int_normal [of i] show_int_pattern [of i]
  by (auto simp: members_good_def member_cost_def member_text_def plain_text_length plain_text_utf8 maxJSONDepth_def)

lemma good_uint:
  assumes "plain_text k"
  shows "members_good (length k + 24) (opt_uint64 k w)"
proof -
  have "unat w < 18446744073709551616" using unsigned_less [of w] by simp
  then show ?thesis
    using assms show_nat_length20 [of "unat w"] show_nat_normal [of "unat w"] show_nat_pattern [of "unat w"]
    by (auto simp: opt_uint64_def members_good_def member_cost_def member_text_def plain_text_length
        plain_text_utf8 maxJSONDepth_def)
qed

lemma good_bool: "plain_text k \<Longrightarrow> members_good (length k + 9) [(k, JBool b)]"
  by (auto simp: members_good_def member_cost_def member_text_def plain_text_length plain_text_utf8 maxJSONDepth_def)

lemma good_obligations: "members_good 200 [(''obligations'', obligations_json ob)]"
  by (cases ob)
    (simp add: obligations_json_def opt_bool_def members_good_def member_cost_def member_text_def
      plain_text_length plain_text_utf8 plain_text_def label_rune_def maxJSONDepth_def)

text \<open>The keys are plain text.\<close>

lemma claims_keys_plain:
  "list_all (\<lambda>f. plain_text (fst f)) claims_decoder"
  by (simp add: claims_decoder_def plain_text_def label_rune_def)

lemma claims_key_plain: "map_of claims_decoder k = Some x \<Longrightarrow> plain_text k"
  using claims_keys_plain map_of_SomeD [of claims_decoder k x] by (force simp: list_all_iff)

lemma claims_members_good:
  assumes "Claims_Validate c = None" "int64 (cl_IssuedAt c)" "int64 (cl_ExpiresAt c)"
  shows "members_good 47674 (claims_members c)"
proof -
  note key = claims_names [THEN claims_key_plain]
  note strings =
    good_string [OF claims_costs(1) [OF assms(1)] key(1)]
    good_string [OF claims_costs(2) [OF assms(1)] key(2)]
    good_string [OF claims_costs(20) [OF assms(1)] key(3)]
    good_string [OF claims_costs(3) [OF assms(1)] key(4)]
    good_string [OF claims_costs(4) [OF assms(1)] key(5)]
    good_string [OF claims_costs(5) [OF assms(1)] key(6)]
    good_string [OF claims_costs(6) [OF assms(1)] key(7)]
    good_opt_string [OF claims_costs(18) [OF assms(1)] key(8)]
    good_opt_string [OF claims_costs(19) [OF assms(1)] key(9)]
    good_opt_string [OF claims_costs(15) [OF assms(1)] key(10)]
    good_string [OF claims_costs(7) [OF assms(1)] key(11)]
    good_string [OF claims_costs(8) [OF assms(1)] key(12)]
    good_string [OF claims_costs(9) [OF assms(1)] key(13)]
    good_string [OF claims_costs(10) [OF assms(1)] key(14)]
    good_opt_string [OF claims_costs(13) [OF assms(1)] key(15)]
    good_opt_string [OF claims_costs(14) [OF assms(1)] key(16)]
    good_string [OF claims_costs(17) [OF assms(1)] key(17)]
    good_opt_string [OF claims_costs(16) [OF assms(1)] key(18)]
    good_string [OF claims_costs(11) [OF assms(1)] key(20)]
    good_string [OF claims_costs(12) [OF assms(1)] key(22)]
  note others = good_uint [OF key(19), of "cl_AuthorityEpoch c"] good_int [OF assms(2) key(23)] good_int [OF assms(3) key(24)]
    good_bool [OF key(25), of "cl_SingleUse c"] good_obligations [of "cl_Obligations c"]
  note all = strings others
  note costs = all [unfolded members_good_def, THEN conjunct1] and oks = all [unfolded members_good_def, THEN conjunct2]
  have "sum_list (map member_cost (claims_members c)) \<le> 47674"
    using costs by (simp add: claims_members_def)
  moreover have "list_all (\<lambda>(k, v). utf8_valid k \<and> json_ok False 1 v \<and> strict_ok 1 v) (claims_members c)"
    using oks unfolding claims_members_def list_all_append list.pred_inject by blast
  ultimately show ?thesis by (simp add: members_good_def)
qed

lemma length_join: "length (join '','' ws) \<le> sum_list (map (\<lambda>w. length w + 1) ws)"
proof (induction "'',''" ws rule: join.induct)
  case (3 w v ws)
  then show ?case by simp
qed simp_all

lemma member_text_join:
  "marshal_json (JObj ms) = ''{'' @ join '','' (map member_text ms) @ ''}''"
  by (simp add: member_text_def)

lemma members_good_length: "members_good n ms \<Longrightarrow> length (marshal_json (JObj ms)) \<le> n + 2"
  using length_join [of "map member_text ms"]
  by (simp add: members_good_def member_cost_def [abs_def] member_text_join o_def del: marshal_json.simps)

lemma members_good_ok:
  "members_good n ms \<Longrightarrow> json_ok False 0 (JObj ms)"
  "members_good n ms \<Longrightarrow> distinct (map fst ms) \<Longrightarrow> strict_ok 0 (JObj ms)"
  by (auto simp: members_good_def list_all_iff)

definition keys_within :: "string list \<Rightarrow> (string \<times> json) list \<Rightarrow> bool" where
  "keys_within ks ms \<longleftrightarrow> set (map fst ms) \<subseteq> set ks \<and> (distinct ks \<longrightarrow> distinct (map fst ms))"

lemma keys_within_append: "keys_within ks ms \<Longrightarrow> keys_within ls ns \<Longrightarrow> keys_within (ks @ ls) (ms @ ns)"
  by (auto simp: keys_within_def)

lemma keys_within_Cons: "keys_within ls ns \<Longrightarrow> keys_within (k # ls) ((k, v) # ns)"
  by (auto simp: keys_within_def)

lemma keys_within_opt: "keys_within ls ns \<Longrightarrow> keys_within (k # ls) (opt_string k s @ ns)"
  "keys_within ls ns \<Longrightarrow> keys_within (k # ls) (opt_uint64 k w @ ns)"
  by (auto simp: keys_within_def opt_string_def opt_uint64_def)

lemma keys_within_Nil: "keys_within [] []"
  by (simp add: keys_within_def)

lemma claims_members_keys: "keys_within (map fst claims_decoder) (claims_members c)"
  unfolding claims_members_def claims_decoder_def list.map fst_conv append_Cons append_Nil
  by (intro keys_within_Cons keys_within_opt keys_within_Nil)

lemma claims_members_distinct: "distinct (map fst (claims_members c))"
proof -
  have "distinct (map fst claims_decoder)" by (simp add: claims_decoder_def)
  then show ?thesis using claims_members_keys [of c] by (simp add: keys_within_def)
qed

text \<open>The payload of a signed token passes every check of \<open>VerifyToken\<close>.\<close>

lemma payload_accepted:
  assumes "Claims_Validate c = None" "int64 (cl_IssuedAt c)" "int64 (cl_ExpiresAt c)"
  defines "payload \<equiv> marshal_json (claims_json c)"
  shows "canonical_ok payload" "strictJSON claims_decoder empty_claims payload = Some c"
    "length payload \<le> 47676" "payload \<noteq> []"
proof -
  have good: "members_good 47674 (claims_members c)" by (rule claims_members_good [OF assms(1-3)])
  show len: "length payload \<le> 47676"
    using members_good_length [OF good] by (simp add: payload_def claims_json_def)
  then have "length (marshal_json (claims_json c)) \<le> MaxArgumentsBytes" by (simp add: payload_def MaxArgumentsBytes_def)
  note acc = marshal_accepted [OF members_good_ok(1) [OF good] members_good_ok(2) [OF good claims_members_distinct],
      folded claims_json_def, OF this]
  show "canonical_ok payload" using acc(1) by (auto simp: canonical_ok_def payload_def)
  show "strictJSON claims_decoder empty_claims payload = Some c"
    using acc(2) decode_claims [OF assms(1-3)] by (simp add: strictJSON_def payload_def)
  show "payload \<noteq> []" by (simp add: payload_def claims_json_def)
qed

section \<open>The header\<close>

lemma header_accepted:
  assumes "ValidateKeyID keyID = None" "v = 1 \<or> v = 2"
  defines "h \<equiv> compactHeader\<lparr>th_Version := v, th_KeyID := keyID\<rparr>"
  defines "text \<equiv> marshal_json (header_json h)"
  shows "canonical_ok text" "strictJSON header_fields empty_header text = Some h" "header_supported h"
    "length text \<le> 250" "text \<noteq> []"
proof -
  have plain: "plain_text ''alg''" "plain_text ''typ''" "plain_text ''v''" "plain_text ''kid''"
    "plain_text ''EdDSA''" "plain_text tokenType"
    by (simp_all add: plain_text_def label_rune_def tokenType_def)
  have v: "int64 v" using assms(2) by (auto simp: int64_def min_int64_def max_int64_def)
  have kid: "text_cost 128 keyID" using key_plain [OF assms(1)] plain_cost by blast
  define ms where "ms = [(''alg'', JStr ''EdDSA''), (''typ'', JStr tokenType), (''v'', JNum (show_int v)), (''kid'', JStr keyID)]"
  have hj: "header_json h = JObj ms" by (simp add: header_json_def h_def compactHeader_def ms_def)
  note goods = good_string [OF plain_cost [OF plain(5), of 5] plain(1)]
    good_string [OF plain_cost [OF plain(6), of 12] plain(2)] good_int [OF v plain(3)] good_string [OF kid plain(4)]
  have "members_good 248 ms"
    using goods unfolding ms_def members_good_def by (simp add: tokenType_def)
  note good = this
  have "length text \<le> 250" using members_good_length [OF good] by (simp add: text_def hj)
  then show "length text \<le> 250" .
  then have "length (marshal_json (JObj ms)) \<le> MaxArgumentsBytes"
    by (simp add: text_def hj MaxArgumentsBytes_def del: marshal_json.simps)
  moreover have "distinct (map fst ms)" by (simp add: ms_def)
  ultimately have acc: "\<exists>t. CanonicalizeJSON text = Inr t" "read_document False text = Inr (JObj ms)"
    using marshal_accepted [OF members_good_ok(1) [OF good] members_good_ok(2) [OF good]]
    by (simp_all add: text_def hj del: marshal_json.simps)
  show "canonical_ok text" using acc(1) by (auto simp: canonical_ok_def)
  show "strictJSON header_fields empty_header text = Some h"
    using acc(2) v
    by (simp add: strictJSON_def decode_struct_def ms_def find_field_def header_fields_def set_string_def
        set_int64_def parse_show_int int64_def empty_header_def h_def compactHeader_def)
  show "header_supported h" using assms by (auto simp: header_supported_def h_def compactHeader_def)
  show "text \<noteq> []" by (simp add: text_def hj)
qed

section \<open>Round trip\<close>

lemma b64_encode_length: "length (b64_encode s) \<le> (4 * length s + 2) div 3"
  by (induction s rule: b64_encode.induct) auto

lemma SignToken_VerifyToken:
  assumes "SignToken cr privateKey keyID c = Inr token" "signature_ok cr" "int64 (cl_IssuedAt c)" "int64 (cl_ExpiresAt c)"
  shows "VerifyToken cr (cr_public cr privateKey) token = Inr c \<and> TokenKeyID token = Inr keyID"
proof -
  have key: "length privateKey = PrivateKeySize" "ValidateKeyID keyID = None" "cl_SigningKeyID c = keyID"
    and valid: "Claims_Validate c = None"
    using assms(1) by (auto simp: SignToken_def split: if_splits option.splits)
  define v :: int where "v = (if cl_ExecutionBinding c \<noteq> [] then 2 else 1)"
  define h where "h = compactHeader\<lparr>th_Version := v, th_KeyID := keyID\<rparr>"
  define p0 p1 where "p0 = b64_encode (marshal_json (header_json h))" and "p1 = b64_encode (marshal_json (claims_json c))"
  define sg where "sg = cr_sign cr privateKey (p0 @ ''.'' @ p1)"
  have token: "token = p0 @ ''.'' @ p1 @ ''.'' @ b64_encode sg"
    using assms(1) key valid by (simp add: SignToken_def Let_def p0_def p1_def sg_def h_def v_def)
  have v: "v = 1 \<or> v = 2" by (simp add: v_def)
  note hd = header_accepted [OF key(2) v, folded h_def]
  note pl = payload_accepted [OF valid assms(3,4)]
  have sig: "length sg = SignatureSize" "cr_verify cr (cr_public cr privateKey) (p0 @ ''.'' @ p1) sg"
    "length (cr_public cr privateKey) = PublicKeySize"
    using assms(2) key(1) by (simp_all add: signature_ok_def sg_def)
  have "length p0 \<le> 334" "length p1 \<le> 63568" "length (b64_encode sg) \<le> 86"
    using b64_encode_length [of "marshal_json (header_json h)"] hd(4) b64_encode_length [of "marshal_json (claims_json c)"]
      pl(3) b64_encode_length [of sg] sig(1)
    by (simp_all add: p0_def p1_def SignatureSize_def)
  then have "length p0 + length p1 + length (b64_encode sg) + 2 \<le> maxCompactBytes"
    by (simp add: maxCompactBytes_def)
  moreover have "sg \<noteq> []" using sig(1) by (auto simp: SignatureSize_def)
  ultimately have parts: "tokenParts token = Inr (p0, p1, b64_encode sg)"
    unfolding token using tokenParts_join [of p0 p1 "b64_encode sg"] b64_encode_no_dot hd(5) pl(4)
    by (simp add: p0_def p1_def)
  have dec: "b64_decode False p0 = Some (marshal_json (header_json h))" "b64_decode False p1 = Some (marshal_json (claims_json c))"
    by (simp_all add: p0_def p1_def)
  have ver: "(th_Version h = 2) = (cl_ExecutionBinding c \<noteq> [])" "th_KeyID h = keyID"
    by (simp_all add: h_def v_def)
  show ?thesis
    using parts sig dec hd pl valid key ver by (simp add: VerifyToken_def TokenKeyID_def)
qed

end
