(* ===== verification/Permit_Store.thy ===== *)
theory Permit_Store
  imports Permit_Claims
begin

text \<open>
  \<open>internal/permit/store.go\<close> and \<open>internal/permit/authority.go\<close>: the in-memory permit store,
  its lifecycle \<open>ISSUED\<close> to \<open>CONSUMED\<close>, \<open>EXPIRED\<close> or \<open>REVOKED\<close>, and the authority epochs.
  Every method holds the store's mutex throughout, so one method is one step.

  What the clients of the Go interface \<open>Store\<close> rely on is the locale \<open>single_use\<close>: its laws are
  what the lifecycle promises, its lemmas what follows for every sequence of calls.
  \<open>MemoryStore\<close> is an interpretation of it, the verifier on top of a store another one.
\<close>

text \<open>\<open>State\<close> is a Go string type; \<open>StateEmpty\<close> is the state of the zero \<open>Record\<close>.\<close>

datatype permit_state = StateIssued | StateConsumed | StateExpired | StateRevoked | StateEmpty

record permit_record =
  pr_Claims :: claims
  pr_State :: permit_state
  pr_ConsumedAt :: "time option"
  pr_ExpiredAt :: "time option"
  pr_RevokedAt :: "time option"

datatype consume_outcome = ConsumeSucceeded | ConsumeExpired | ConsumeReplayed | ConsumeRevoked | ConsumeUnknown

record authority_state =
  as_Epoch :: uint64
  as_Enabled :: bool

record memory_store =
  st_records :: "(string, permit_record) gomap"
  st_authorities :: "(authority_key, authority_state) gomap"

definition NewMemoryStore :: memory_store where
  "NewMemoryStore = \<lparr>st_records = [], st_authorities = []\<rparr>"

definition issued_record :: "claims \<Rightarrow> permit_record" where
  "issued_record c =
    \<lparr>pr_Claims = c, pr_State = StateIssued, pr_ConsumedAt = None, pr_ExpiredAt = None, pr_RevokedAt = None\<rparr>"

section \<open>Authority\<close>

definition authorityLocked :: "memory_store \<Rightarrow> authority_key \<Rightarrow> authority_state" where
  "authorityLocked s key =
    (case mget (st_authorities s) key of Some state \<Rightarrow> state | None \<Rightarrow> \<lparr>as_Epoch = 1, as_Enabled = True\<rparr>)"

definition MemoryStore_Authority :: "memory_store \<Rightarrow> authority_key \<Rightarrow> authority_state" where
  "MemoryStore_Authority s key = authorityLocked s key"

definition zero_authority :: authority_state where
  "zero_authority = \<lparr>as_Epoch = 0, as_Enabled = False\<rparr>"

definition max_epoch :: uint64 where
  "max_epoch = 18446744073709551615"

text \<open>
  \<open>SetAuthorityEnabled\<close>. The three names are checked in the order of a Go map, which is
  random: when several are bad the code returns any of their errors, the model the first.
\<close>

definition authority_key_check :: "authority_key \<Rightarrow> permit_error option" where
  "authority_key_check key =
    first_error
      [validateMetadata ''principal'' (ak_PrincipalID key) 512 True,
       validateMetadata ''agent'' (ak_AgentID key) 512 True,
       validateMetadata ''workload'' (ak_WorkloadID key) 512 True]"

text \<open>The loop that revokes the permits still issued under the authority.\<close>

definition revoke_under :: "authority_key \<Rightarrow> time \<Rightarrow> permit_record \<Rightarrow> permit_record" where
  "revoke_under key at record =
    (if pr_State record = StateIssued \<and> cl_PermitClass (pr_Claims record) = ClassExecution
        \<and> Claims_AuthorityKey (pr_Claims record) = key
     then record\<lparr>pr_State := StateRevoked, pr_RevokedAt := Some at\<rparr>
     else record)"

definition SetAuthorityEnabled ::
  "memory_store \<Rightarrow> authority_key \<Rightarrow> bool \<Rightarrow> time \<Rightarrow> authority_state \<times> permit_error option \<times> memory_store" where
  "SetAuthorityEnabled s key enabled at =
    (case authority_key_check key of
       Some e \<Rightarrow> (zero_authority, Some e, s)
     | None \<Rightarrow>
         if at = zero_time then (zero_authority, Some ErrAuthorityTimestamp, s)
         else
           let state = authorityLocked s key
           in if as_Epoch state = max_epoch then (state, Some ErrEpochExhausted, s)
              else
                let state' = \<lparr>as_Epoch = as_Epoch state + 1, as_Enabled = enabled\<rparr>
                in (state', None,
                    s\<lparr>st_authorities := mput key state' (st_authorities s),
                      st_records := mupdate_all (\<lambda>_. revoke_under key at) (st_records s)\<rparr>))"

section \<open>Records\<close>

definition expireIfNeeded :: "permit_record \<Rightarrow> time \<Rightarrow> permit_record" where
  "expireIfNeeded record now =
    (if pr_State record \<noteq> StateIssued \<or> now = zero_time then record
     else
       let expiresAt = ExpiresTime (pr_Claims record)
       in if \<not> now < expiresAt then record\<lparr>pr_State := StateExpired, pr_ExpiredAt := Some expiresAt\<rparr>
          else record)"

text \<open>Whether the authority that a permit was issued under still holds, for \<open>Register\<close> and \<open>Consume\<close>.\<close>

definition authority_changed :: "memory_store \<Rightarrow> claims \<Rightarrow> bool" where
  "authority_changed s c \<longleftrightarrow>
    cl_ExecutionBinding c \<noteq> []
    \<and> (let authority = authorityLocked s (Claims_AuthorityKey c)
       in \<not> as_Enabled authority \<or> cl_AuthorityEpoch c \<noteq> as_Epoch authority)"

definition put_record :: "string \<Rightarrow> permit_record \<Rightarrow> memory_store \<Rightarrow> memory_store" where
  "put_record permitID record s = s\<lparr>st_records := mput permitID record (st_records s)\<rparr>"

definition MemoryStore_Register :: "memory_store \<Rightarrow> claims \<Rightarrow> permit_error option \<times> memory_store" where
  "MemoryStore_Register s c =
    (case Claims_Validate c of
       Some e \<Rightarrow> (Some e, s)
     | None \<Rightarrow>
         if mget (st_records s) (cl_PermitID c) \<noteq> None then (Some ErrPermitExists, s)
         else if authority_changed s c then (Some ErrAuthorityChanged, s)
         else (None, put_record (cl_PermitID c) (issued_record c) s))"

definition MemoryStore_Get :: "memory_store \<Rightarrow> string \<Rightarrow> time \<Rightarrow> permit_record option \<times> memory_store" where
  "MemoryStore_Get s permitID now =
    (case mget (st_records s) permitID of
       None \<Rightarrow> (None, s)
     | Some record \<Rightarrow>
         let record' = expireIfNeeded record now in (Some record', put_record permitID record' s))"

text \<open>
  \<open>List\<close>: newest first, then by identifier. The order is total, because the identifiers are the
  keys of the map, so \<open>sort.Slice\<close> leaves nothing open.
\<close>

definition MemoryStore_List :: "memory_store \<Rightarrow> time \<Rightarrow> permit_record list \<times> memory_store" where
  "MemoryStore_List s now =
    (let records = mupdate_all (\<lambda>_ record. expireIfNeeded record now) (st_records s)
     in (sort_key (\<lambda>r. (- cl_IssuedAt (pr_Claims r), cl_PermitID (pr_Claims r))) (map snd records),
         s\<lparr>st_records := records\<rparr>))"

text \<open>\<open>Consume\<close>; the record is absent from the result of an unknown permit.\<close>

definition MemoryStore_Consume ::
  "memory_store \<Rightarrow> string \<Rightarrow> time \<Rightarrow> (consume_outcome \<times> permit_record option) \<times> memory_store" where
  "MemoryStore_Consume s permitID now =
    (case mget (st_records s) permitID of
       None \<Rightarrow> ((ConsumeUnknown, None), s)
     | Some found \<Rightarrow>
         let record = expireIfNeeded found now
         in case pr_State record of
              StateIssued \<Rightarrow>
                if authority_changed s (pr_Claims record) then
                  let revoked = record\<lparr>pr_State := StateRevoked, pr_RevokedAt := Some now\<rparr>
                  in ((ConsumeRevoked, Some revoked), put_record permitID revoked s)
                else
                  let consumed = record\<lparr>pr_State := StateConsumed, pr_ConsumedAt := Some now\<rparr>
                  in ((ConsumeSucceeded, Some consumed), put_record permitID consumed s)
            | StateConsumed \<Rightarrow> ((ConsumeReplayed, Some record), s)
            | StateExpired \<Rightarrow> ((ConsumeExpired, Some record), put_record permitID record s)
            | StateRevoked \<Rightarrow> ((ConsumeRevoked, Some record), s)
            | StateEmpty \<Rightarrow> ((ConsumeUnknown, Some record), s))"

definition MemoryStore_Revoke ::
  "memory_store \<Rightarrow> string \<Rightarrow> time \<Rightarrow> permit_record option \<times> permit_error option \<times> memory_store" where
  "MemoryStore_Revoke s permitID at =
    (case mget (st_records s) permitID of
       None \<Rightarrow> (None, Some ErrPermitNotFound, s)
     | Some found \<Rightarrow>
         let record = expireIfNeeded found at
         in if pr_State record \<noteq> StateIssued
            then (Some record, Some ErrPermitNotActive, put_record permitID record s)
            else
              let revoked = record\<lparr>pr_State := StateRevoked, pr_RevokedAt := Some at\<rparr>
              in (Some revoked, None, put_record permitID revoked s))"

section \<open>The interface\<close>

text \<open>The calls of \<open>Store\<close> that a client can make, and what they answer.\<close>

datatype store_op =
    OpRegister claims
  | OpGet string time
  | OpList time
  | OpConsume string time
  | OpRevoke string time
  | OpSetAuthority authority_key bool time

datatype store_reply =
    RepRegister "permit_error option"
  | RepGet "permit_record option"
  | RepList "permit_record list"
  | RepConsume consume_outcome "permit_record option"
  | RepRevoke "permit_record option" "permit_error option"
  | RepAuthority authority_state "permit_error option"

fun store_step :: "store_op \<Rightarrow> memory_store \<Rightarrow> store_reply \<times> memory_store" where
  "store_step (OpRegister c) s = (let (e, s') = MemoryStore_Register s c in (RepRegister e, s'))"
| "store_step (OpGet i t) s = (let (r, s') = MemoryStore_Get s i t in (RepGet r, s'))"
| "store_step (OpList t) s = (let (rs, s') = MemoryStore_List s t in (RepList rs, s'))"
| "store_step (OpConsume i t) s = (let ((out, r), s') = MemoryStore_Consume s i t in (RepConsume out r, s'))"
| "store_step (OpRevoke i t) s = (let (r, e, s') = MemoryStore_Revoke s i t in (RepRevoke r e, s'))"
| "store_step (OpSetAuthority k b t) s = (let (a, e, s') = SetAuthorityEnabled s k b t in (RepAuthority a e, s'))"

text \<open>A sequence of calls, by any clients in any interleaving.\<close>

fun run_ops :: "('op \<Rightarrow> 's \<Rightarrow> 'reply \<times> 's) \<Rightarrow> 'op list \<Rightarrow> 's \<Rightarrow> 'reply list \<times> 's" where
  "run_ops step [] s = ([], s)"
| "run_ops step (x # xs) s =
    (let (r, s') = step x s; (rs, s'') = run_ops step xs s' in (r # rs, s''))"

text \<open>The answer that a permit was consumed by this call.\<close>

fun consumed_now :: "string \<Rightarrow> store_op \<times> store_reply \<Rightarrow> bool" where
  "consumed_now i (OpConsume j t, RepConsume out r) \<longleftrightarrow> j = i \<and> out = ConsumeSucceeded"
| "consumed_now i _ \<longleftrightarrow> False"

text \<open>How many of the calls of a sequence were answered in a certain way.\<close>

definition count_replies :: "('op \<times> 'reply \<Rightarrow> bool) \<Rightarrow> 'op list \<Rightarrow> 'reply list \<Rightarrow> nat" where
  "count_replies p ops replies = length (filter p (zip ops replies))"

text \<open>
  The contract of single use, for anything that steps over permit records: a record never
  goes away, its claims never change, once it has left the state issued it stays as it is,
  and an answer that grants the use of a permit takes it from issued to consumed.
\<close>

locale single_use =
  fixes step :: "'op \<Rightarrow> 's \<Rightarrow> 'reply \<times> 's"
    and record_of :: "'s \<Rightarrow> string \<Rightarrow> permit_record option"
    and grants :: "string \<Rightarrow> 'op \<times> 'reply \<Rightarrow> bool"
  assumes keeps: "step x s = (reply, s') \<Longrightarrow> record_of s i = Some r \<Longrightarrow>
      \<exists>r'. record_of s' i = Some r' \<and> pr_Claims r' = pr_Claims r \<and> (pr_State r \<noteq> StateIssued \<longrightarrow> r' = r)"
    and consumes: "step x s = (reply, s') \<Longrightarrow> grants i (x, reply) \<Longrightarrow>
      (\<exists>r. record_of s i = Some r \<and> pr_State r = StateIssued)
      \<and> (\<exists>r'. record_of s' i = Some r' \<and> pr_State r' = StateConsumed)"
begin

lemma keeps_run:
  "run_ops step xs s = (rs, s') \<Longrightarrow> record_of s i = Some r \<Longrightarrow>
     \<exists>r'. record_of s' i = Some r' \<and> pr_Claims r' = pr_Claims r \<and> (pr_State r \<noteq> StateIssued \<longrightarrow> r' = r)"
proof (induction xs arbitrary: s rs r)
  case (Cons x xs)
  obtain reply s1 where x: "step x s = (reply, s1)" by fastforce
  obtain rs1 where xs: "run_ops step xs s1 = (rs1, s')" using Cons.prems(1) x by (auto simp: Let_def split: prod.splits)
  obtain r1 where r1: "record_of s1 i = Some r1" "pr_Claims r1 = pr_Claims r" "pr_State r \<noteq> StateIssued \<longrightarrow> r1 = r"
    using keeps [OF x Cons.prems(2)] by blast
  then show ?case using Cons.IH [OF xs r1(1)] by auto
qed auto

lemma no_grant:
  assumes "run_ops step xs s = (rs, s')" "record_of s i = Some r" "pr_State r \<noteq> StateIssued"
  shows "count_replies (grants i) xs rs = 0"
  using assms
proof (induction xs arbitrary: s rs)
  case (Cons x xs)
  obtain reply s1 where x: "step x s = (reply, s1)" by fastforce
  obtain rs1 where xs: "run_ops step xs s1 = (rs1, s')" "rs = reply # rs1"
    using Cons.prems(1) x by (auto simp: Let_def split: prod.splits)
  have "record_of s1 i = Some r" using keeps [OF x Cons.prems(2)] Cons.prems(3) by auto
  then have "count_replies (grants i) xs rs1 = 0" using Cons.IH [OF xs(1)] Cons.prems(3) by blast
  moreover have "\<not> grants i (x, reply)" using consumes [OF x, of i] Cons.prems(2,3) by auto
  ultimately show ?case by (simp add: count_replies_def xs(2))
qed (simp add: count_replies_def)

text \<open>In any sequence of calls the use of a permit is granted at most once.\<close>

lemma granted_once:
  "run_ops step xs s = (rs, s') \<Longrightarrow> count_replies (grants i) xs rs \<le> 1"
proof (induction xs arbitrary: s rs)
  case (Cons x xs)
  obtain reply s1 where x: "step x s = (reply, s1)" by fastforce
  obtain rs1 where xs: "run_ops step xs s1 = (rs1, s')" "rs = reply # rs1"
    using Cons.prems(1) x by (auto simp: Let_def split: prod.splits)
  show ?case
  proof (cases "grants i (x, reply)")
    case True
    then obtain r' where "record_of s1 i = Some r'" "pr_State r' = StateConsumed" using consumes [OF x] by blast
    then have "count_replies (grants i) xs rs1 = 0" using no_grant [OF xs(1)] by simp
    then show ?thesis using True by (simp add: count_replies_def xs(2))
  next
    case False
    then show ?thesis using Cons.IH [OF xs(1)] by (simp add: count_replies_def xs(2))
  qed
qed (simp add: count_replies_def)

text \<open>Once consumed, expired or revoked, a record stays as it is.\<close>

lemma terminal:
  assumes "run_ops step xs s = (rs, s')" "record_of s i = Some r" "pr_State r \<noteq> StateIssued"
  shows "record_of s' i = Some r"
  using keeps_run [OF assms(1,2)] assms(3) by auto

end

section \<open>The in-memory store provides it\<close>

abbreviation record_at :: "memory_store \<Rightarrow> string \<Rightarrow> permit_record option" where
  "record_at s i \<equiv> mget (st_records s) i"

lemma record_at_put [simp]: "record_at (put_record i r s) j = (if j = i then Some r else record_at s j)"
  by (simp add: put_record_def)

lemma expireIfNeeded_facts:
  "pr_Claims (expireIfNeeded r t) = pr_Claims r"
  "pr_State r \<noteq> StateIssued \<Longrightarrow> expireIfNeeded r t = r"
  "pr_State (expireIfNeeded r t) = StateIssued \<Longrightarrow> expireIfNeeded r t = r"
  "pr_State (expireIfNeeded r t) \<noteq> StateIssued \<Longrightarrow> pr_State r = StateIssued \<Longrightarrow> pr_State (expireIfNeeded r t) = StateExpired"
  by (auto simp: expireIfNeeded_def Let_def split: if_splits)

lemma revoke_under_facts:
  "pr_Claims (revoke_under k t r) = pr_Claims r"
  "pr_State r \<noteq> StateIssued \<Longrightarrow> revoke_under k t r = r"
  by (auto simp: revoke_under_def)

text \<open>
  Every call changes the records one by one, and every record along \<open>moves\<close>: an issued one
  may leave its state, any other stays; the claims never change.
\<close>

definition moves :: "permit_record \<Rightarrow> permit_record \<Rightarrow> bool" where
  "moves r r' \<longleftrightarrow> pr_Claims r' = pr_Claims r \<and> (pr_State r \<noteq> StateIssued \<longrightarrow> r' = r)"

lemma moves_refl [simp]: "moves r r"
  by (simp add: moves_def)

lemma moves_expire [simp]: "moves r (expireIfNeeded r t)"
  by (simp add: moves_def expireIfNeeded_facts(1,2))

lemma moves_revoke [simp]: "moves r (revoke_under k t r)"
  by (simp add: moves_def revoke_under_facts)

lemma moves_leave:
  "pr_State (expireIfNeeded r t) = StateIssued \<Longrightarrow> pr_Claims r' = pr_Claims r \<Longrightarrow> moves r r'"
  using expireIfNeeded_facts(2,3) [of r t] by (auto simp: moves_def)

definition leaves :: "string \<Rightarrow> permit_record \<Rightarrow> memory_store \<Rightarrow> memory_store \<Rightarrow> bool" where
  "leaves j e s s' \<longleftrightarrow> (\<exists>r'. pr_Claims r' = pr_Claims e \<and> s' = put_record j r' s)"

lemma leavesI: "pr_Claims r' = pr_Claims e \<Longrightarrow> leaves j e s (put_record j r' s)"
  by (auto simp: leaves_def)

lemma step_moves:
  assumes "store_step x s = (reply, s')" "record_at s i = Some r"
  shows "\<exists>r'. record_at s' i = Some r' \<and> moves r r'"
proof (cases x)
  case (OpRegister c)
  then show ?thesis using assms
    by (auto simp: MemoryStore_Register_def Let_def split: option.splits if_splits)
next
  case (OpGet j t)
  then show ?thesis using assms by (auto simp: MemoryStore_Get_def Let_def split: option.splits)
next
  case (OpList t)
  then show ?thesis using assms by (auto simp: MemoryStore_List_def Let_def)
next
  case (OpConsume j t)
  show ?thesis
  proof (cases "record_at s j")
    case None
    then show ?thesis using assms OpConsume by (auto simp: MemoryStore_Consume_def)
  next
    case (Some found)
    define e where "e = expireIfNeeded found t"
    have "s' = s \<or> s' = put_record j e s \<or> (pr_State e = StateIssued \<and> leaves j e s s')"
      using assms(1) OpConsume Some
      by (cases "pr_State e") (auto simp: MemoryStore_Consume_def Let_def e_def [symmetric] intro: leavesI split: if_splits)
    then show ?thesis using assms(2) Some moves_leave [of found t] by (auto simp: e_def leaves_def expireIfNeeded_facts(1))
  qed
next
  case (OpRevoke j t)
  show ?thesis
  proof (cases "record_at s j")
    case None
    then show ?thesis using assms OpRevoke by (auto simp: MemoryStore_Revoke_def)
  next
    case (Some found)
    define e where "e = expireIfNeeded found t"
    have "s' = put_record j e s \<or> (pr_State e = StateIssued \<and> leaves j e s s')"
      using assms(1) OpRevoke Some
      by (auto simp: MemoryStore_Revoke_def Let_def e_def [symmetric] intro: leavesI split: if_splits)
    then show ?thesis using assms(2) Some moves_leave [of found t] by (auto simp: e_def leaves_def expireIfNeeded_facts(1))
  qed
next
  case (OpSetAuthority k b t)
  then show ?thesis using assms
    by (auto simp: SetAuthorityEnabled_def Let_def split: option.splits if_splits)
qed

text \<open>When \<open>Consume\<close> succeeds, and what it does then.\<close>

lemma Consume_succeeds:
  assumes "MemoryStore_Consume s i t = ((ConsumeSucceeded, res), s')"
  obtains r where "record_at s i = Some r" "pr_State r = StateIssued"
    "t = zero_time \<or> t < ExpiresTime (pr_Claims r)" "\<not> authority_changed s (pr_Claims r)"
    "res = Some (r\<lparr>pr_State := StateConsumed, pr_ConsumedAt := Some t\<rparr>)"
    "s' = put_record i (r\<lparr>pr_State := StateConsumed, pr_ConsumedAt := Some t\<rparr>) s"
proof -
  obtain r where r: "record_at s i = Some r" using assms by (auto simp: MemoryStore_Consume_def split: option.splits)
  have st: "pr_State (expireIfNeeded r t) = StateIssued"
    using assms r by (auto simp: MemoryStore_Consume_def Let_def split: permit_state.splits)
  then have same: "expireIfNeeded r t = r" by (rule expireIfNeeded_facts(3))
  have "t = zero_time \<or> t < ExpiresTime (pr_Claims r)" using st
    by (auto simp: expireIfNeeded_def Let_def split: if_splits)
  then show thesis
    using that [OF r] assms r st same by (auto simp: MemoryStore_Consume_def Let_def split: if_splits)
qed

lemma Consume_when:
  assumes "record_at s i = Some r" "pr_State r = StateIssued" "t = zero_time \<or> t < ExpiresTime (pr_Claims r)"
    "\<not> authority_changed s (pr_Claims r)"
  shows "MemoryStore_Consume s i t =
    ((ConsumeSucceeded, Some (r\<lparr>pr_State := StateConsumed, pr_ConsumedAt := Some t\<rparr>)),
     put_record i (r\<lparr>pr_State := StateConsumed, pr_ConsumedAt := Some t\<rparr>) s)"
proof -
  have "expireIfNeeded r t = r" using assms by (auto simp: expireIfNeeded_def)
  then show ?thesis using assms by (simp add: MemoryStore_Consume_def Let_def)
qed

interpretation memory: single_use store_step record_at consumed_now
proof
  fix x s reply s' i r
  assume "store_step x s = (reply, s')" "record_at s i = Some r"
  then show "\<exists>r'. record_at s' i = Some r' \<and> pr_Claims r' = pr_Claims r \<and> (pr_State r \<noteq> StateIssued \<longrightarrow> r' = r)"
    using step_moves [of x s reply s' i r] by (simp add: moves_def)
next
  fix x s reply s' i
  assume step: "store_step x s = (reply, s')" and "consumed_now i (x, reply)"
  then obtain t res where "x = OpConsume i t" "reply = RepConsume ConsumeSucceeded res"
    by (cases "(i, x, reply)" rule: consumed_now.cases) auto
  then have "MemoryStore_Consume s i t = ((ConsumeSucceeded, res), s')"
    using step by (auto simp: Let_def split: prod.splits)
  then show "(\<exists>r. record_at s i = Some r \<and> pr_State r = StateIssued)
      \<and> (\<exists>r'. record_at s' i = Some r' \<and> pr_State r' = StateConsumed)"
    by (rule Consume_succeeds) simp
qed

section \<open>The invariant of the store\<close>

text \<open>
  A record is kept under its own permit identifier, its claims are valid, each of its
  timestamps is set in exactly the state it belongs to, and, while it is issued under an
  authority, that authority is enabled and still at the epoch the permit was bound to.
\<close>

definition record_ok :: "permit_record \<Rightarrow> bool" where
  "record_ok r \<longleftrightarrow>
    Claims_Validate (pr_Claims r) = None \<and> pr_State r \<noteq> StateEmpty
    \<and> (pr_ConsumedAt r \<noteq> None \<longleftrightarrow> pr_State r = StateConsumed)
    \<and> (pr_ExpiredAt r \<noteq> None \<longleftrightarrow> pr_State r = StateExpired)
    \<and> (pr_RevokedAt r \<noteq> None \<longleftrightarrow> pr_State r = StateRevoked)"

definition store_ok :: "memory_store \<Rightarrow> bool" where
  "store_ok s \<longleftrightarrow>
    map_wf (st_records s) \<and> map_wf (st_authorities s)
    \<and> (\<forall>i r. record_at s i = Some r \<longrightarrow>
         record_ok r \<and> cl_PermitID (pr_Claims r) = i
         \<and> (pr_State r = StateIssued \<longrightarrow> \<not> authority_changed s (pr_Claims r)))"

lemma authority_changed_put [simp]: "authority_changed (put_record i r s) c = authority_changed s c"
  by (simp add: authority_changed_def put_record_def authorityLocked_def)

lemma authority_changed_records [simp]: "authority_changed (s\<lparr>st_records := m\<rparr>) c = authority_changed s c"
  by (simp add: authority_changed_def authorityLocked_def)

lemma record_ok_expire: "record_ok r \<Longrightarrow> record_ok (expireIfNeeded r t)"
  by (auto simp: record_ok_def expireIfNeeded_def Let_def)

lemma store_ok_new: "store_ok NewMemoryStore"
  by (simp add: store_ok_def NewMemoryStore_def)

lemma store_ok_put:
  assumes "store_ok s" "record_ok r" "cl_PermitID (pr_Claims r) = i"
    "pr_State r = StateIssued \<longrightarrow> \<not> authority_changed s (pr_Claims r)"
  shows "store_ok (put_record i r s)"
proof -
  have "map_wf (st_records (put_record i r s))" "map_wf (st_authorities (put_record i r s))"
    using assms(1) by (simp_all add: store_ok_def put_record_def)
  then show ?thesis using assms by (auto simp: store_ok_def)
qed

lemma store_ok_record:
  "store_ok s \<Longrightarrow> record_at s i = Some r \<Longrightarrow>
     record_ok r \<and> cl_PermitID (pr_Claims r) = i \<and> (pr_State r = StateIssued \<longrightarrow> \<not> authority_changed s (pr_Claims r))"
  by (simp add: store_ok_def)

lemma store_ok_expire:
  assumes "store_ok s" "record_at s i = Some r"
  shows "store_ok (put_record i (expireIfNeeded r t) s)"
proof -
  note r = store_ok_record [OF assms]
  have "pr_State (expireIfNeeded r t) = StateIssued \<longrightarrow> \<not> authority_changed s (pr_Claims (expireIfNeeded r t))"
    using r expireIfNeeded_facts(3) [of r t] by auto
  then show ?thesis using r record_ok_expire assms(1) by (intro store_ok_put) (simp_all add: expireIfNeeded_facts(1))
qed

lemma binding_execution: "Claims_Validate c = None \<Longrightarrow> cl_ExecutionBinding c \<noteq> [] \<Longrightarrow> cl_PermitClass c = ClassExecution"
  using Claims_Validate_binding by blast

lemma store_ok_revoke_all:
  assumes "store_ok s" "state = a"
  shows "store_ok (s\<lparr>st_authorities := mput key a (st_authorities s),
                    st_records := mupdate_all (\<lambda>_. revoke_under key t) (st_records s)\<rparr>)" (is "store_ok ?s")
proof -
  have "record_ok r' \<and> cl_PermitID (pr_Claims r') = i \<and> (pr_State r' = StateIssued \<longrightarrow> \<not> authority_changed ?s (pr_Claims r'))"
    if at: "record_at ?s i = Some r'" for i r'
  proof -
    obtain r where r: "record_at s i = Some r" "r' = revoke_under key t r" using at by auto
    note ok = store_ok_record [OF assms(1) r(1)]
    have "record_ok r'" "cl_PermitID (pr_Claims r') = i"
      using ok by (auto simp: r(2) revoke_under_def record_ok_def)
    moreover have "\<not> authority_changed ?s (pr_Claims r')" if issued: "pr_State r' = StateIssued"
    proof -
      have r': "r' = r" "pr_State r = StateIssued" "cl_PermitClass (pr_Claims r) = ClassExecution \<longrightarrow> Claims_AuthorityKey (pr_Claims r) \<noteq> key"
        using issued by (auto simp: r(2) revoke_under_def split: if_splits)
      show ?thesis
      proof (cases "cl_ExecutionBinding (pr_Claims r) = []")
        case True
        then show ?thesis by (simp add: r'(1) authority_changed_def)
      next
        case False
        then have "Claims_AuthorityKey (pr_Claims r) \<noteq> key"
          using r'(3) binding_execution ok by (auto simp: record_ok_def)
        then have "authorityLocked ?s (Claims_AuthorityKey (pr_Claims r)) = authorityLocked s (Claims_AuthorityKey (pr_Claims r))"
          by (simp add: authorityLocked_def)
        then show ?thesis using ok r'(1,2) by (simp add: authority_changed_def)
      qed
    qed
    ultimately show ?thesis by blast
  qed
  moreover have "map_wf (st_records ?s)" "map_wf (st_authorities ?s)" using assms(1) by (simp_all add: store_ok_def)
  ultimately show ?thesis unfolding store_ok_def by blast
qed

lemma store_ok_register:
  assumes "store_ok s" "MemoryStore_Register s c = (e, s')"
  shows "store_ok s'"
proof (cases e)
  case None
  then have "s' = put_record (cl_PermitID c) (issued_record c) s" "Claims_Validate c = None" "\<not> authority_changed s c"
    using assms(2) by (auto simp: MemoryStore_Register_def split: option.splits if_splits)
  then show ?thesis using store_ok_put [OF assms(1)] by (simp add: issued_record_def record_ok_def)
next
  case (Some err)
  then show ?thesis using assms by (auto simp: MemoryStore_Register_def split: option.splits if_splits)
qed

lemma store_ok_close:
  assumes "store_ok s" "record_at s i = Some r" "pr_State (expireIfNeeded r t) = StateIssued"
  shows "store_ok (put_record i (r\<lparr>pr_State := StateConsumed, pr_ConsumedAt := Some u\<rparr>) s)"
    "store_ok (put_record i (r\<lparr>pr_State := StateRevoked, pr_RevokedAt := Some u\<rparr>) s)"
proof -
  have "pr_State r = StateIssued" using expireIfNeeded_facts(3) [OF assms(3)] assms(3) by simp
  then show "store_ok (put_record i (r\<lparr>pr_State := StateConsumed, pr_ConsumedAt := Some u\<rparr>) s)"
    "store_ok (put_record i (r\<lparr>pr_State := StateRevoked, pr_RevokedAt := Some u\<rparr>) s)"
    using store_ok_record [OF assms(1,2)] by (auto intro!: store_ok_put assms(1) simp: record_ok_def)
qed

lemma store_ok_consume:
  assumes "store_ok s" "MemoryStore_Consume s i t = (res, s')"
  shows "store_ok s'"
proof (cases "record_at s i")
  case None
  then show ?thesis using assms by (simp add: MemoryStore_Consume_def)
next
  case (Some r)
  show ?thesis
  proof (cases "pr_State (expireIfNeeded r t)")
    case StateIssued
    then show ?thesis
      using assms Some store_ok_close [OF assms(1) Some StateIssued] expireIfNeeded_facts(3) [OF StateIssued]
      by (auto simp: MemoryStore_Consume_def Let_def split: if_splits)
  qed (use assms Some store_ok_expire [OF assms(1) Some] in \<open>auto simp: MemoryStore_Consume_def Let_def\<close>)
qed

lemma store_ok_revoke:
  assumes "store_ok s" "MemoryStore_Revoke s i t = (res, e, s')"
  shows "store_ok s'"
proof (cases "record_at s i")
  case None
  then show ?thesis using assms by (simp add: MemoryStore_Revoke_def)
next
  case (Some r)
  show ?thesis
  proof (cases "pr_State (expireIfNeeded r t) = StateIssued")
    case True
    then show ?thesis using assms Some store_ok_close(2) [OF assms(1) Some True] expireIfNeeded_facts(3) [OF True]
      by (auto simp: MemoryStore_Revoke_def Let_def)
  next
    case False
    then show ?thesis using assms Some store_ok_expire [OF assms(1) Some] by (auto simp: MemoryStore_Revoke_def Let_def)
  qed
qed

lemma store_ok_list:
  assumes "store_ok s"
  shows "store_ok (s\<lparr>st_records := mupdate_all (\<lambda>_ r. expireIfNeeded r t) (st_records s)\<rparr>)" (is "store_ok ?s")
proof -
  have "record_ok r' \<and> cl_PermitID (pr_Claims r') = i \<and> (pr_State r' = StateIssued \<longrightarrow> \<not> authority_changed ?s (pr_Claims r'))"
    if at: "record_at ?s i = Some r'" for i r'
  proof -
    obtain r where r: "record_at s i = Some r" "r' = expireIfNeeded r t" using at by auto
    note ok = store_ok_record [OF assms r(1)]
    have "pr_State r' = StateIssued \<longrightarrow> r' = r" using r(2) expireIfNeeded_facts(3) by blast
    then show ?thesis using ok record_ok_expire [of r t] r(2) by (auto simp: expireIfNeeded_facts(1))
  qed
  moreover have "map_wf (st_records ?s)" "map_wf (st_authorities ?s)" using assms by (simp_all add: store_ok_def)
  ultimately show ?thesis unfolding store_ok_def by blast
qed

lemma step_store_ok: "store_ok s \<Longrightarrow> store_step x s = (reply, s') \<Longrightarrow> store_ok s'"
proof (cases x)
  case (OpGet i t)
  assume "store_ok s" "store_step x s = (reply, s')"
  then show ?thesis using OpGet store_ok_expire
    by (auto simp: MemoryStore_Get_def Let_def split: option.splits)
next
  case (OpList t)
  assume "store_ok s" "store_step x s = (reply, s')"
  then show ?thesis using OpList store_ok_list by (auto simp: MemoryStore_List_def Let_def)
next
  case (OpSetAuthority k b t)
  assume "store_ok s" "store_step x s = (reply, s')"
  then show ?thesis using OpSetAuthority store_ok_revoke_all
    by (auto simp: SetAuthorityEnabled_def Let_def split: option.splits if_splits)
qed (auto simp: Let_def split: prod.splits dest: store_ok_register store_ok_consume store_ok_revoke)

lemma run_store_ok: "store_ok s \<Longrightarrow> run_ops store_step xs s = (rs, s') \<Longrightarrow> store_ok s'"
proof (induction xs arbitrary: s rs)
  case (Cons x xs)
  then show ?case using step_store_ok by (fastforce simp: Let_def split: prod.splits)
qed simp

section \<open>Authority epochs\<close>

text \<open>The epoch of an authority only grows, and it never wraps.\<close>

lemma authorityLocked_put [simp]: "authorityLocked (put_record i r s) k = authorityLocked s k"
  by (simp add: put_record_def authorityLocked_def)

lemma authorityLocked_records [simp]: "authorityLocked (s\<lparr>st_records := m\<rparr>) k = authorityLocked s k"
  by (simp add: authorityLocked_def)

lemma epoch_succ: "w \<noteq> max_epoch \<Longrightarrow> unat (w + 1) = unat w + 1"
proof -
  assume "w \<noteq> max_epoch"
  moreover have "(- 1 :: uint64) = max_epoch" by (simp add: max_epoch_def)
  ultimately have "1 + w \<noteq> 0" by (metis add.commute eq_neg_iff_add_eq_0)
  then show ?thesis by (simp add: unatSuc add.commute)
qed

lemma SetAuthority_ok:
  assumes "SetAuthorityEnabled s k b t = (a, None, s')"
  shows "as_Epoch (authorityLocked s k) \<noteq> max_epoch" "a = \<lparr>as_Epoch = as_Epoch (authorityLocked s k) + 1, as_Enabled = b\<rparr>"
    "s' = s\<lparr>st_authorities := mput k a (st_authorities s),
            st_records := mupdate_all (\<lambda>_. revoke_under k t) (st_records s)\<rparr>"
    "authorityLocked s' k = a" "j \<noteq> k \<Longrightarrow> authorityLocked s' j = authorityLocked s j"
  using assms
  by (auto simp: SetAuthorityEnabled_def authorityLocked_def Let_def split: option.splits if_splits)

lemma SetAuthority_error: "SetAuthorityEnabled s k b t = (a, Some e, s') \<Longrightarrow> s' = s"
  by (auto simp: SetAuthorityEnabled_def Let_def split: option.splits if_splits)

lemma other_steps_authority:
  assumes "store_step x s = (reply, s')" "\<And>k b t. x \<noteq> OpSetAuthority k b t"
  shows "st_authorities s' = st_authorities s"
proof (cases x)
  case (OpConsume i t)
  then show ?thesis using assms
    by (cases "record_at s i"; cases "pr_State (expireIfNeeded (the (record_at s i)) t)")
      (auto simp: MemoryStore_Consume_def Let_def put_record_def split: if_splits)
qed (use assms in \<open>auto simp: MemoryStore_Register_def MemoryStore_Get_def MemoryStore_List_def MemoryStore_Revoke_def
    Let_def put_record_def split: option.splits if_splits\<close>)

lemma step_epoch:
  assumes "store_step x s = (reply, s')"
  shows "authorityLocked s' k = authorityLocked s k \<or>
    unat (as_Epoch (authorityLocked s k)) < unat (as_Epoch (authorityLocked s' k))"
proof (cases x)
  case (OpSetAuthority j b t)
  obtain a e where r: "SetAuthorityEnabled s j b t = (a, e, s')" using assms OpSetAuthority by (auto simp: Let_def split: prod.splits)
  show ?thesis
  proof (cases e)
    case None
    then show ?thesis using SetAuthority_ok [OF r [unfolded None]] epoch_succ by (cases "k = j") auto
  next
    case (Some err)
    then have "s' = s" using SetAuthority_error r by blast
    then show ?thesis by simp
  qed
qed (use assms other_steps_authority [OF assms] in \<open>simp_all add: authorityLocked_def\<close>)

lemma run_epoch:
  "run_ops store_step xs s = (rs, s') \<Longrightarrow>
     authorityLocked s' k = authorityLocked s k \<or>
     unat (as_Epoch (authorityLocked s k)) < unat (as_Epoch (authorityLocked s' k))"
proof (induction xs arbitrary: s rs)
  case (Cons x xs)
  obtain reply s1 where x: "store_step x s = (reply, s1)" by fastforce
  obtain rs1 where xs: "run_ops store_step xs s1 = (rs1, s')" using Cons.prems x by (auto simp: Let_def split: prod.splits)
  show ?case using step_epoch [OF x, of k] Cons.IH [OF xs] by auto
qed simp

section \<open>Refinement of the lifecycle\<close>

text \<open>What a permit goes through, seen from outside the store.\<close>

datatype lifecycle = Absent | Active claims | Closed claims permit_state

inductive lifecycle_step :: "lifecycle \<Rightarrow> lifecycle \<Rightarrow> bool" where
  stay: "lifecycle_step l l"
| issue: "Claims_Validate c = None \<Longrightarrow> lifecycle_step Absent (Active c)"
| close: "k = StateConsumed \<or> k = StateExpired \<or> k = StateRevoked \<Longrightarrow> lifecycle_step (Active c) (Closed c k)"

inductive_cases lifecycle_from_closed: "lifecycle_step (Closed c k) l"
inductive_cases lifecycle_from_active: "lifecycle_step (Active c) l"

definition lifecycle_of :: "memory_store \<Rightarrow> string \<Rightarrow> lifecycle" where
  "lifecycle_of s i =
    (case record_at s i of
       None \<Rightarrow> Absent
     | Some r \<Rightarrow> if pr_State r = StateIssued then Active (pr_Claims r) else Closed (pr_Claims r) (pr_State r))"

lemma new_records:
  assumes "store_step x s = (reply, s')" "record_at s i = None" "record_at s' i = Some r"
  shows "r = issued_record (pr_Claims r) \<and> Claims_Validate (pr_Claims r) = None \<and> x = OpRegister (pr_Claims r)"
proof (cases x)
  case (OpRegister c)
  then show ?thesis using assms
    by (auto simp: MemoryStore_Register_def issued_record_def split: option.splits if_splits)
next
  case (OpConsume j t)
  then show ?thesis using assms
    by (cases "record_at s j"; cases "pr_State (expireIfNeeded (the (record_at s j)) t)")
      (auto simp: MemoryStore_Consume_def Let_def split: if_splits)
qed (use assms in \<open>auto simp: MemoryStore_Get_def MemoryStore_List_def MemoryStore_Revoke_def
    SetAuthorityEnabled_def Let_def split: option.splits if_splits\<close>)

lemma step_lifecycle:
  assumes "store_ok s" "store_step x s = (reply, s')"
  shows "lifecycle_step (lifecycle_of s i) (lifecycle_of s' i)"
proof (cases "record_at s i")
  case None
  show ?thesis
  proof (cases "record_at s' i")
    case (Some r)
    note r = new_records [OF assms(2) None Some]
    have "pr_State r = StateIssued" using r by (metis issued_record_def permit_record.select_convs(2))
    then show ?thesis using None Some r by (simp add: lifecycle_of_def issue)
  qed (simp add: lifecycle_of_def None stay)
next
  case (Some r)
  obtain r' where r': "record_at s' i = Some r'" "moves r r'" using step_moves [OF assms(2) Some] by blast
  have "store_ok s'" using step_store_ok assms by blast
  then have "pr_State r' \<noteq> StateEmpty" using store_ok_record r'(1) by (auto simp: record_ok_def)
  then have "pr_State r' \<in> {StateIssued, StateConsumed, StateExpired, StateRevoked}" by (cases "pr_State r'") auto
  then show ?thesis using Some r' by (auto simp: lifecycle_of_def moves_def intro: stay close)
qed

text \<open>After the revocation of an authority its execution permits are closed.\<close>

lemma SetAuthority_closes:
  assumes "SetAuthorityEnabled s k b t = (a, None, s')" "record_at s' i = Some r"
    "cl_PermitClass (pr_Claims r) = ClassExecution" "Claims_AuthorityKey (pr_Claims r) = k"
  shows "pr_State r \<noteq> StateIssued"
proof -
  obtain r0 where "r = revoke_under k t r0"
    using assms(2) SetAuthority_ok(3) [OF assms(1)] by auto
  then show ?thesis using assms(3,4) by (simp add: revoke_under_def split: if_splits)
qed

text \<open>\<open>List\<close> answers every record, brought up to date, newest first.\<close>

lemma List_records:
  assumes "MemoryStore_List s t = (rs, s')"
  shows "sorted (map (\<lambda>r. (- cl_IssuedAt (pr_Claims r), cl_PermitID (pr_Claims r))) rs)"
    "set rs = snd ` set (st_records s')" "length rs = length (st_records s)"
    "record_at s' i = map_option (\<lambda>r. expireIfNeeded r t) (record_at s i)"
proof -
  define m where "m = mupdate_all (\<lambda>_ r. expireIfNeeded r t) (st_records s)"
  have m: "rs = sort_key (\<lambda>r. (- cl_IssuedAt (pr_Claims r), cl_PermitID (pr_Claims r))) (map snd m)"
    "s' = s\<lparr>st_records := m\<rparr>"
    using assms by (simp_all add: MemoryStore_List_def Let_def m_def)
  show "sorted (map (\<lambda>r. (- cl_IssuedAt (pr_Claims r), cl_PermitID (pr_Claims r))) rs)" by (simp add: m(1))
  show "set rs = snd ` set (st_records s')" by (simp add: m)
  show "length rs = length (st_records s)" by (simp add: m(1)) (simp add: m_def mupdate_all_def)
  show "record_at s' i = map_option (\<lambda>r. expireIfNeeded r t) (record_at s i)" by (simp add: m(2)) (simp add: m_def)
qed

end
