(* ===== verification/Permit_Issuer.thy ===== *)
theory Permit_Issuer
  imports Permit_Token_Facts Permit_Store
begin

text \<open>
  \<open>internal/permit/issuer.go\<close>: the issuer signs the claims of a request with the provider's
  current key and registers them, in that order, so a credential is never returned for a
  permit the store does not hold.

  The clock reading and the 18 random bytes of a new identifier are arguments.
\<close>

definition DefaultTTL :: duration where "DefaultTTL = 30 * second"
definition MaxTTL :: duration where "MaxTTL = 900 * second"

record issue_request =
  ir_PermitID :: string
  ir_PermitClass :: permit_class
  ir_RequestID :: string
  ir_PrincipalID :: string
  ir_AgentID :: string
  ir_WorkloadID :: string
  ir_ExecutorKeyID :: string
  ir_ExecutorKeyThumbprint :: string
  ir_DelegatedAuthorityFingerprint :: string
  ir_Tool :: string
  ir_Capability :: string
  ir_Resource :: string
  ir_Operation :: string
  ir_ProfileID :: string
  ir_Audience :: string
  ir_ActionDigest :: string
  ir_ExecutionBinding :: string
  ir_AuthorityEpoch :: uint64
  ir_PolicyVersion :: string
  ir_Obligations :: obligations
  ir_TTL :: duration

record issued_permit =
  ip_PermitID :: string
  ip_Claims :: claims
  ip_token :: string

text \<open>\<open>Token\<close>, \<open>String\<close> and \<open>GoString\<close> of an issued permit; the latter two keep the token out.\<close>

definition IssuedPermit_Token :: "issued_permit \<Rightarrow> string" where
  "IssuedPermit_Token p = ip_token p"

record issuer =
  is_name :: string
  is_keyProvider :: "signing_key option"

definition NewIssuer :: "string \<Rightarrow> signing_key option \<Rightarrow> bool \<Rightarrow> permit_error + issuer" where
  "NewIssuer name provider has_store =
    (if name = [] then Inl (ErrInvalidClaims ''issuer is required'')
     else if provider = None then Inl ErrInvalidKey
     else case Static_CurrentSigningKey provider of
       Inl e \<Rightarrow> Inl ErrInvalidKey
     | Inr key \<Rightarrow>
         if \<not> has_store then Inl (ErrInvalidClaims ''permit store is required'')
         else Inr \<lparr>is_name = name, is_keyProvider = provider\<rparr>)"

definition newPermitID :: "string \<Rightarrow> string" where
  "newPermitID random = ''p_'' @ b64_encode random"

definition effective_ttl :: "issue_request \<Rightarrow> duration" where
  "effective_ttl request = (if ir_TTL request = 0 then DefaultTTL else ir_TTL request)"

definition ttl_ok :: "duration \<Rightarrow> bool" where
  "ttl_ok ttl \<longleftrightarrow> \<not> (ttl < second \<or> ttl > MaxTTL \<or> ttl mod second \<noteq> 0)"

definition issue_claims :: "issuer \<Rightarrow> signing_key \<Rightarrow> issue_request \<Rightarrow> string \<Rightarrow> time \<Rightarrow> claims" where
  "issue_claims i signingKey request permitID now =
    \<lparr>cl_PermitID = permitID, cl_SigningKeyID = sk_KeyID signingKey,
     cl_PermitClass = ir_PermitClass request, cl_RequestID = ir_RequestID request,
     cl_PrincipalID = ir_PrincipalID request, cl_AgentID = ir_AgentID request,
     cl_WorkloadID = ir_WorkloadID request, cl_ExecutorKeyID = ir_ExecutorKeyID request,
     cl_ExecutorKeyThumbprint = ir_ExecutorKeyThumbprint request,
     cl_DelegatedAuthorityFingerprint = ir_DelegatedAuthorityFingerprint request,
     cl_Tool = ir_Tool request, cl_Capability = ir_Capability request,
     cl_Resource = ir_Resource request, cl_Operation = ir_Operation request,
     cl_ProfileID = ir_ProfileID request, cl_Audience = ir_Audience request,
     cl_ActionDigest = ir_ActionDigest request, cl_ExecutionBinding = ir_ExecutionBinding request,
     cl_AuthorityEpoch = ir_AuthorityEpoch request, cl_PolicyVersion = ir_PolicyVersion request,
     cl_Obligations = ir_Obligations request, cl_Issuer = is_name i,
     cl_IssuedAt = unix_of now, cl_ExpiresAt = unix_of (now + effective_ttl request), cl_SingleUse = True\<rparr>"

definition Issuer_Issue ::
  "crypto \<Rightarrow> issuer \<Rightarrow> issue_request \<Rightarrow> string \<Rightarrow> time \<Rightarrow> memory_store
    \<Rightarrow> (permit_error + issued_permit) \<times> memory_store" where
  "Issuer_Issue cr i request random clock s =
    (case Static_CurrentSigningKey (is_keyProvider i) of
       Inl e \<Rightarrow> (Inl (ErrSigningKey e), s)
     | Inr signingKey \<Rightarrow>
         if \<not> ttl_ok (effective_ttl request)
         then (Inl (ErrInvalidClaims ''TTL must be whole seconds between 1s and 15m0s''), s)
         else
           let permitID = (if ir_PermitID request = [] then newPermitID random else ir_PermitID request);
               now = time_truncate_second clock;
               c = issue_claims i signingKey request permitID now
           in case Claims_Validate c of
                Some e \<Rightarrow> (Inl e, s)
              | None \<Rightarrow>
                  (case SignToken cr (sk_PrivateKey signingKey) (sk_KeyID signingKey) c of
                     Inl e \<Rightarrow> (Inl e, s)
                   | Inr token \<Rightarrow>
                       (case MemoryStore_Register s c of
                          (Some e, s') \<Rightarrow> (Inl e, s')
                        | (None, s') \<Rightarrow>
                            (Inr \<lparr>ip_PermitID = permitID, ip_Claims = c, ip_token = token\<rparr>, s'))))"

definition Issuer_PublicKey :: "crypto \<Rightarrow> issuer \<Rightarrow> string option" where
  "Issuer_PublicKey cr i =
    (case Static_CurrentSigningKey (is_keyProvider i) of
       Inl e \<Rightarrow> None
     | Inr key \<Rightarrow> SigningKey_PublicKey cr key)"

definition Issuer_KeyID :: "issuer \<Rightarrow> string" where
  "Issuer_KeyID i = (case Static_CurrentSigningKey (is_keyProvider i) of Inl e \<Rightarrow> [] | Inr key \<Rightarrow> sk_KeyID key)"

section \<open>What issuing establishes\<close>

lemma Issue_parts:
  assumes "Issuer_Issue cr i request random clock s = (Inr p, s')"
  obtains key where "Static_CurrentSigningKey (is_keyProvider i) = Inr key" "ttl_ok (effective_ttl request)"
    "ip_PermitID p = (if ir_PermitID request = [] then newPermitID random else ir_PermitID request)"
    "ip_Claims p = issue_claims i key request (ip_PermitID p) (time_truncate_second clock)"
    "SignToken cr (sk_PrivateKey key) (sk_KeyID key) (ip_Claims p) = Inr (ip_token p)"
    "MemoryStore_Register s (ip_Claims p) = (None, s')"
proof -
  obtain key where key: "Static_CurrentSigningKey (is_keyProvider i) = Inr key"
    using assms by (auto simp: Issuer_Issue_def split: sum.splits)
  show thesis
    by (rule that [OF key])
      (use assms key in \<open>auto simp: Issuer_Issue_def Let_def split: if_splits option.splits sum.splits prod.splits\<close>)
qed

lemma Issue_error_keeps:
  assumes "Issuer_Issue cr i request random clock s = (Inl e, s')"
  shows "s' = s"
proof -
  have reg: "MemoryStore_Register s c = (Some err, s'') \<Longrightarrow> s'' = s" for c err s''
    by (auto simp: MemoryStore_Register_def split: option.splits if_splits)
  show ?thesis using assms
    by (auto simp: Issuer_Issue_def Let_def dest: reg split: if_splits option.splits sum.splits prod.splits)
qed

lemma Register_ok:
  "MemoryStore_Register s c = (None, s') \<Longrightarrow>
     Claims_Validate c = None \<and> record_at s (cl_PermitID c) = None \<and> \<not> authority_changed s c
     \<and> s' = put_record (cl_PermitID c) (issued_record c) s"
  by (auto simp: MemoryStore_Register_def split: option.splits if_splits)

text \<open>A permit lives from one second to fifteen minutes, in whole seconds from its issue.\<close>

lemma issue_window:
  assumes "ttl_ok ttl"
  shows "unix_of (time_truncate_second clock + ttl) = unix_of clock + ttl div second"
    "1 \<le> ttl div second" "ttl div second \<le> 900" "ttl = ttl div second * second"
  using assms by (auto simp: unix_of_def time_truncate_second_def ttl_ok_def MaxTTL_def)

end
