(* ===== verification/Execution_Proof.thy ===== *)
theory Execution_Proof
  imports Permit_Token_Facts
begin

text \<open>
  \<open>internal/executionproof\<close>: the proof of possession that a workload presents with its permit
  (\<open>proof.go\<close>), the registry of workload keys and the store of used nonces (\<open>registry.go\<close>).
\<close>

datatype proof_error =
    PrMalformedToken
  | PrInvalidSignature
  | PrInvalidClaims string
  | PrKey key_error
  | PrKeyTaken string
  | PrNilRegistry

definition ProofTokenType :: string where "ProofTokenType = ''AEGIS-EXECUTION-PROOF''"
definition MaxTokenBytes :: nat where "MaxTokenBytes = 16384"
definition MaxNonceBytes :: nat where "MaxNonceBytes = 256"

record proof_header =
  ph_Algorithm :: string
  ph_Type :: string
  ph_KeyID :: string
  ph_Version :: int

record proof_claims =
  pc_PermitID :: string
  pc_ActionDigest :: string
  pc_HTTPMethod :: string
  pc_HTTPPath :: string
  pc_IssuedAt :: int
  pc_Nonce :: string

definition isSHA256Thumbprint :: "string \<Rightarrow> bool" where
  "isSHA256Thumbprint value \<longleftrightarrow>
    length value = 71 \<and> has_prefix value ''sha256:''
    \<and> list_all (\<lambda>r. (48 \<le> r \<and> r \<le> 57) \<or> (97 \<le> r \<and> r \<le> 102)) (runes (drop 7 value))"

text \<open>The characters \<open>[A-Za-z0-9._~-]\<close> of a nonce.\<close>

definition nonce_rune :: "nat \<Rightarrow> bool" where
  "nonce_rune r \<longleftrightarrow> (97 \<le> r \<and> r \<le> 122) \<or> (65 \<le> r \<and> r \<le> 90) \<or> (48 \<le> r \<and> r \<le> 57)
    \<or> r = 46 \<or> r = 95 \<or> r = 126 \<or> r = 45"

definition ProofClaims_Validate :: "proof_claims \<Rightarrow> proof_error option" where
  "ProofClaims_Validate c =
    (if pc_PermitID c = [] \<or> length (pc_PermitID c) > 160 then Some (PrInvalidClaims ''permit_id'')
     else if \<not> isSHA256Thumbprint (pc_ActionDigest c) then Some (PrInvalidClaims ''action_digest'')
     else if pc_HTTPMethod c \<noteq> ''POST'' \<or> pc_HTTPPath c \<noteq> ''/mcp'' then Some (PrInvalidClaims ''HTTP boundary'')
     else if pc_IssuedAt c \<le> 0 \<or> pc_Nonce c = [] \<or> length (pc_Nonce c) > MaxNonceBytes
     then Some (PrInvalidClaims ''issued_at or nonce'')
     else if \<not> list_all nonce_rune (runes (pc_Nonce c)) then Some (PrInvalidClaims ''nonce'')
     else None)"

section \<open>Tokens\<close>

definition proof_header_json :: "proof_header \<Rightarrow> json" where
  "proof_header_json h =
    JObj [(''alg'', JStr (ph_Algorithm h)), (''typ'', JStr (ph_Type h)), (''kid'', JStr (ph_KeyID h)),
          (''v'', JNum (show_int (ph_Version h)))]"

definition proof_claims_json :: "proof_claims \<Rightarrow> json" where
  "proof_claims_json c =
    JObj [(''permit_id'', JStr (pc_PermitID c)), (''action_digest'', JStr (pc_ActionDigest c)),
          (''http_method'', JStr (pc_HTTPMethod c)), (''http_path'', JStr (pc_HTTPPath c)),
          (''issued_at'', JNum (show_int (pc_IssuedAt c))), (''nonce'', JStr (pc_Nonce c))]"

definition empty_proof_header :: proof_header where
  "empty_proof_header = \<lparr>ph_Algorithm = [], ph_Type = [], ph_KeyID = [], ph_Version = 0\<rparr>"

definition empty_proof_claims :: proof_claims where
  "empty_proof_claims =
    \<lparr>pc_PermitID = [], pc_ActionDigest = [], pc_HTTPMethod = [], pc_HTTPPath = [], pc_IssuedAt = 0, pc_Nonce = []\<rparr>"

definition proof_header_fields :: "proof_header field list" where
  "proof_header_fields =
    [(''alg'', set_string (\<lambda>s. ph_Algorithm_update (\<lambda>_. s))),
     (''typ'', set_string (\<lambda>s. ph_Type_update (\<lambda>_. s))),
     (''kid'', set_string (\<lambda>s. ph_KeyID_update (\<lambda>_. s))),
     (''v'', set_int64 (\<lambda>i. ph_Version_update (\<lambda>_. i)))]"

definition proof_claims_fields :: "proof_claims field list" where
  "proof_claims_fields =
    [(''permit_id'', set_string (\<lambda>s. pc_PermitID_update (\<lambda>_. s))),
     (''action_digest'', set_string (\<lambda>s. pc_ActionDigest_update (\<lambda>_. s))),
     (''http_method'', set_string (\<lambda>s. pc_HTTPMethod_update (\<lambda>_. s))),
     (''http_path'', set_string (\<lambda>s. pc_HTTPPath_update (\<lambda>_. s))),
     (''issued_at'', set_int64 (\<lambda>i. pc_IssuedAt_update (\<lambda>_. i))),
     (''nonce'', set_string (\<lambda>s. pc_Nonce_update (\<lambda>_. s)))]"

definition Proof_Sign :: "crypto \<Rightarrow> string \<Rightarrow> string \<Rightarrow> proof_claims \<Rightarrow> proof_error + string" where
  "Proof_Sign cr privateKey keyID c =
    (if length privateKey \<noteq> PrivateKeySize then Inl (PrKey KeyInvalid)
     else case ValidateKeyID keyID of
       Some e \<Rightarrow> Inl (PrKey e)
     | None \<Rightarrow>
         (case ProofClaims_Validate c of
            Some e \<Rightarrow> Inl e
          | None \<Rightarrow>
              let h = \<lparr>ph_Algorithm = ''EdDSA'', ph_Type = ProofTokenType, ph_KeyID = keyID, ph_Version = 1\<rparr>;
                  signingInput = b64_encode (marshal_json (proof_header_json h)) @ ''.''
                    @ b64_encode (marshal_json (proof_claims_json c))
              in Inr (signingInput @ ''.'' @ b64_encode (cr_sign cr privateKey signingInput))))"

definition splitToken :: "string \<Rightarrow> proof_error + (proof_header \<times> string \<times> string)" where
  "splitToken token =
    (if token = [] \<or> length token > MaxTokenBytes \<or> trim_space token \<noteq> token then Inl PrMalformedToken
     else case split_at (CHR ''.'') token of
       [p0, p1, p2] \<Rightarrow>
         if p0 = [] \<or> p1 = [] \<or> p2 = [] then Inl PrMalformedToken
         else (case (b64_decode True p0, b64_decode True p1, b64_decode True p2) of
             (Some headerBytes, Some payload, Some signature) \<Rightarrow>
               if length signature \<noteq> SignatureSize then Inl PrMalformedToken
               else if \<not> canonical_ok headerBytes then Inl PrMalformedToken
               else (case strictJSON proof_header_fields empty_proof_header headerBytes of
                   None \<Rightarrow> Inl PrMalformedToken
                 | Some parsed \<Rightarrow> Inr (parsed, payload, signature))
           | _ \<Rightarrow> Inl PrMalformedToken)
     | _ \<Rightarrow> Inl PrMalformedToken)"

definition validateHeader :: "proof_header \<Rightarrow> proof_error option" where
  "validateHeader h =
    (if ph_Algorithm h \<noteq> ''EdDSA'' \<or> ph_Type h \<noteq> ProofTokenType \<or> ph_Version h \<noteq> 1
        \<or> ValidateKeyID (ph_KeyID h) \<noteq> None
     then Some PrMalformedToken else None)"

definition Proof_TokenKeyID :: "string \<Rightarrow> proof_error + string" where
  "Proof_TokenKeyID token =
    (case splitToken token of
       Inl e \<Rightarrow> Inl e
     | Inr (parsed, payload, signature) \<Rightarrow>
         (case validateHeader parsed of Some e \<Rightarrow> Inl e | None \<Rightarrow> Inr (ph_KeyID parsed)))"

text \<open>\<open>parts[0] + "." + parts[1]\<close>, the text that was signed.\<close>

definition signing_input :: "string \<Rightarrow> string" where
  "signing_input token = (let parts = split_at (CHR ''.'') token in parts ! 0 @ ''.'' @ parts ! 1)"

definition Proof_Verify :: "crypto \<Rightarrow> string \<Rightarrow> string \<Rightarrow> proof_error + proof_claims" where
  "Proof_Verify cr publicKey token =
    (if length publicKey \<noteq> PublicKeySize then Inl (PrKey KeyInvalid)
     else case splitToken token of
       Inl e \<Rightarrow> Inl e
     | Inr (parsedHeader, payload, signature) \<Rightarrow>
         (case validateHeader parsedHeader of
            Some e \<Rightarrow> Inl e
          | None \<Rightarrow>
              if \<not> cr_verify cr publicKey (signing_input token) signature then Inl PrInvalidSignature
              else if \<not> canonical_ok payload then Inl PrMalformedToken
              else (case strictJSON proof_claims_fields empty_proof_claims payload of
                  None \<Rightarrow> Inl PrMalformedToken
                | Some c \<Rightarrow> (case ProofClaims_Validate c of Some e \<Rightarrow> Inl e | None \<Rightarrow> Inr c))))"

definition Thumbprint :: "crypto \<Rightarrow> string \<Rightarrow> proof_error + string" where
  "Thumbprint cr publicKey =
    (if length publicKey \<noteq> PublicKeySize then Inl (PrKey KeyInvalid) else Inr (sha256_text cr publicKey))"

section \<open>Registry\<close>

type_synonym key_registry = "(string, string) gomap"

definition NewRegistry :: key_registry where
  "NewRegistry = []"

definition Registry_Register :: "key_registry option \<Rightarrow> string \<Rightarrow> string \<Rightarrow> proof_error option \<times> key_registry option" where
  "Registry_Register registry keyID publicKey =
    (case registry of
       None \<Rightarrow> (Some PrNilRegistry, None)
     | Some keys \<Rightarrow>
         (case ValidateKeyID keyID of
            Some e \<Rightarrow> (Some (PrKey e), registry)
          | None \<Rightarrow>
              if length publicKey \<noteq> PublicKeySize then (Some (PrKey KeyInvalid), registry)
              else if mget keys keyID \<noteq> None \<and> mget keys keyID \<noteq> Some publicKey
              then (Some (PrKeyTaken keyID), registry)
              else (None, Some (mput keyID publicKey keys))))"

definition Registry_VerificationKey :: "key_registry option \<Rightarrow> string \<Rightarrow> proof_error + string" where
  "Registry_VerificationKey registry keyID =
    (case registry of
       None \<Rightarrow> Inl (PrKey KeyUnknownID)
     | Some keys \<Rightarrow> (case mget keys keyID of None \<Rightarrow> Inl (PrKey KeyUnknownID) | Some key \<Rightarrow> Inr key))"

section \<open>Nonces\<close>

type_synonym nonce_store = "(string, int) gomap"

definition NewNonceStore :: nonce_store where
  "NewNonceStore = []"

definition nonce_key :: "string \<Rightarrow> string \<Rightarrow> string" where
  "nonce_key keyID nonce = keyID @ CHR 0x00 # nonce"

text \<open>\<open>Use\<close>: expired entries go first, then the pair of key and nonce must be new.\<close>

definition NonceStore_Use :: "nonce_store option \<Rightarrow> string \<Rightarrow> string \<Rightarrow> int \<Rightarrow> int \<Rightarrow> bool \<times> nonce_store option" where
  "NonceStore_Use store keyID nonce nowUnix expiresUnix =
    (case store of
       None \<Rightarrow> (False, None)
     | Some expires \<Rightarrow>
         if keyID = [] \<or> nonce = [] \<or> expiresUnix \<le> nowUnix then (False, store)
         else
           let live = mretain (\<lambda>_ e. \<not> e \<le> nowUnix) expires;
               key = nonce_key keyID nonce
           in if mget live key \<noteq> None then (False, Some live)
              else (True, Some (mput key expiresUnix live)))"

section \<open>Facts about proofs\<close>

lemma take_runes_ascii: "list_all (\<lambda>r. r < 128) (runes s) \<Longrightarrow> list_all (\<lambda>c. byte c < 128) s"
proof (induction s)
  case (Cons c cs)
  show ?case
  proof (cases "byte c < 128")
    case True
    then show ?thesis using Cons by simp
  next
    case False
    obtain r n where d: "decode_rune (c # cs) = (r, n)" by fastforce
    have "128 \<le> r" using d False by (auto simp: Let_def in_range_def split: if_splits list.splits)
    moreover have "r < 128" using Cons.prems d by (simp add: rune_chunks.simps(2))
    ultimately show ?thesis by simp
  qed
qed simp

lemma runes_ascii: "list_all (\<lambda>c. byte c < 128) s \<Longrightarrow> runes s = map byte s"
  using chunks_ascii [of s] by (simp add: ascii_def)

lemma list_all_weaken: "(\<And>x. p x \<Longrightarrow> q x) \<Longrightarrow> list_all p xs \<Longrightarrow> list_all q xs"
  by (simp add: list_all_iff)

text \<open>The hand-written thumbprint test is the regular expression of the permits.\<close>

lemma isSHA256Thumbprint_pattern: "isSHA256Thumbprint s \<longleftrightarrow> sha256_pattern s"
proof -
  let ?hex = "\<lambda>r::nat. (48 \<le> r \<and> r \<le> 57) \<or> (97 \<le> r \<and> r \<le> 102)"
  have runes: "list_all ?hex (runes t) \<longleftrightarrow> list_all lower_hex t" for t
  proof
    assume h: "list_all ?hex (runes t)"
    then have "list_all (\<lambda>r. r < 128) (runes t)" by (rule list_all_weaken [rotated]) auto
    then have "runes t = map byte t" by (rule runes_ascii [OF take_runes_ascii])
    then show "list_all lower_hex t" using h by (simp add: list_all_iff lower_hex_def in_range_def)
  next
    assume h: "list_all lower_hex t"
    then have "list_all (\<lambda>c. byte c < 128) t" by (rule list_all_weaken [rotated]) (auto simp: lower_hex_def in_range_def)
    then have "runes t = map byte t" by (rule runes_ascii)
    then show "list_all ?hex (runes t)" using h by (simp add: list_all_iff lower_hex_def in_range_def)
  qed
  have prefix: "length s = 71 \<Longrightarrow> has_prefix s ''sha256:'' \<longleftrightarrow> take 7 s = ''sha256:''"
  proof
    assume "has_prefix s ''sha256:''"
    then show "take 7 s = ''sha256:''" by (auto simp: has_prefix_iff)
  next
    assume "length s = 71" "take 7 s = ''sha256:''"
    then have "s = ''sha256:'' @ drop 7 s" by (metis append_take_drop_id)
    then show "has_prefix s ''sha256:''" unfolding has_prefix_iff by blast
  qed
  show ?thesis using prefix by (auto simp: isSHA256Thumbprint_def sha256_pattern_def runes)
qed

text \<open>A registered key never changes: its identifier resolves to it from then on.\<close>

lemma Registry_Register_keeps:
  assumes "Registry_Register registry k pk = (e, registry')" "Registry_VerificationKey registry k' = Inr pk'"
  shows "Registry_VerificationKey registry' k' = Inr pk'"
  using assms by (auto simp: Registry_Register_def Registry_VerificationKey_def split: option.splits if_splits)

lemma Registry_Register_resolves:
  "Registry_Register registry k pk = (None, registry') \<Longrightarrow> Registry_VerificationKey registry' k = Inr pk"
  by (auto simp: Registry_Register_def Registry_VerificationKey_def split: option.splits if_splits)

text \<open>A nonce is used at most once while its entry is live.\<close>

definition live_nonce :: "nonce_store option \<Rightarrow> string \<Rightarrow> string \<Rightarrow> int \<Rightarrow> bool" where
  "live_nonce store keyID nonce e \<longleftrightarrow>
    (\<exists>m. store = Some m \<and> map_wf m \<and> mget m (nonce_key keyID nonce) = Some e)"

definition nonces_wf :: "nonce_store option \<Rightarrow> bool" where
  "nonces_wf store \<longleftrightarrow> (case store of None \<Rightarrow> True | Some m \<Rightarrow> map_wf m)"

lemma Use_wf: "nonces_wf store \<Longrightarrow> NonceStore_Use store k n now e = (ok, store') \<Longrightarrow> nonces_wf store'"
  by (auto simp: NonceStore_Use_def nonces_wf_def Let_def split: option.splits if_splits)

lemma Use_accepts:
  "nonces_wf store \<Longrightarrow> NonceStore_Use store k n now e = (True, store') \<Longrightarrow> live_nonce store' k n e \<and> now < e"
  by (auto simp: NonceStore_Use_def nonces_wf_def live_nonce_def Let_def split: option.splits if_splits)

lemma Use_keeps:
  "live_nonce store k n e \<Longrightarrow> now < e \<Longrightarrow> NonceStore_Use store k' n' now e' = (ok, store') \<Longrightarrow> live_nonce store' k n e"
  by (auto simp: NonceStore_Use_def live_nonce_def Let_def mget_mretain split: option.splits if_splits)

lemma Use_rejects:
  "live_nonce store k n e \<Longrightarrow> now < e \<Longrightarrow> fst (NonceStore_Use store k n now e') = False"
  by (auto simp: NonceStore_Use_def live_nonce_def Let_def mget_mretain split: option.splits if_splits)

text \<open>Key identifiers have no zero byte, so two pairs never share an entry.\<close>

lemma nonce_key_inj:
  assumes "ValidateKeyID k = None" "ValidateKeyID k' = None" "nonce_key k n = nonce_key k' n'"
  shows "k = k' \<and> n = n'"
proof -
  have "CHR 0x00 \<notin> set v" if "ValidateKeyID v = None" for v
    using ValidateKeyID_bytes [OF that] by (auto simp: list_all_iff label_rune_def)
  then have "CHR 0x00 \<notin> set k" "CHR 0x00 \<notin> set k'" using assms(1,2) by blast+
  then have "takeWhile (\<lambda>c. c \<noteq> CHR 0x00) (nonce_key k n) = k" "takeWhile (\<lambda>c. c \<noteq> CHR 0x00) (nonce_key k' n') = k'"
    unfolding nonce_key_def by (subst takeWhile_append2; force)+
  then have "k = k'" using assms(3) by simp
  then show ?thesis using assms(3) by (simp add: nonce_key_def)
qed

section \<open>Round trip\<close>

lemma b64_char_plain: "n < 64 \<Longrightarrow> byte (b64_char n) < 128 \<and> \<not> is_space (byte (b64_char n))"
  by (auto simp: b64_char_def is_space_def)

lemma b64_encode_plain: "c \<in> set (b64_encode s) \<Longrightarrow> byte c < 128 \<and> \<not> is_space (byte c)"
  by (induction s rule: b64_encode.induct) (auto simp: b64_char_plain)

lemma trim_plain:
  assumes "\<And>c. c \<in> set s \<Longrightarrow> byte c < 128 \<and> \<not> is_space (byte c)"
  shows "trim_space s = s"
proof (cases "s = []")
  case True
  then show ?thesis by (simp add: trim_space_def)
next
  case False
  obtain c cs where c: "s = c # cs" using False by (cases s) auto
  obtain w d where d: "s = w @ [d]" using False by (cases s rule: rev_exhaust) auto
  have "utf8_valid w" using assms by (intro ascii_valid) (simp add: d)
  moreover have "c \<in> set s" "d \<in> set s" using c d by (metis list.set_intros(1)) (simp add: d)
  then have "byte c < 128 \<and> \<not> is_space (byte c)" "byte d < 128 \<and> \<not> is_space (byte d)"
    using assms by blast+
  ultimately have "tight s" unfolding tight_def using c d by blast
  then show ?thesis by (rule trim_tight)
qed

lemma members_accepted:
  assumes "members_good n ms" "distinct (map fst ms)" "n \<le> 1000000"
  shows "canonical_ok (marshal_json (JObj ms))" "read_document False (marshal_json (JObj ms)) = Inr (JObj ms)"
    "length (marshal_json (JObj ms)) \<le> n + 2"
proof -
  show len: "length (marshal_json (JObj ms)) \<le> n + 2" by (rule members_good_length [OF assms(1)])
  then have "length (marshal_json (JObj ms)) \<le> MaxArgumentsBytes" using assms(3) by (simp add: MaxArgumentsBytes_def)
  note acc = marshal_accepted [OF members_good_ok(1) [OF assms(1)] members_good_ok(2) [OF assms(1,2)] this]
  show "canonical_ok (marshal_json (JObj ms))" using acc(1) by (auto simp: canonical_ok_def)
  show "read_document False (marshal_json (JObj ms)) = Inr (JObj ms)" using acc(2) .
qed

lemma members_good_add: "members_good m ms \<Longrightarrow> members_good n ns \<Longrightarrow> m + n \<le> k \<Longrightarrow> members_good k (ms @ ns)"
  using members_good_append [of m ms n ns] by (auto simp: members_good_def)

lemma nonce_rune_ascii: "nonce_rune r \<Longrightarrow> r < 128"
  by (auto simp: nonce_rune_def)

lemma ProofClaims_Validate_facts:
  assumes "ProofClaims_Validate c = None"
  shows "length (pc_PermitID c) \<le> 160" "pc_PermitID c \<noteq> []" "sha256_pattern (pc_ActionDigest c)"
    "pc_HTTPMethod c = ''POST''" "pc_HTTPPath c = ''/mcp''" "0 < pc_IssuedAt c" "pc_Nonce c \<noteq> []"
    "length (pc_Nonce c) \<le> 256" "list_all nonce_rune (runes (pc_Nonce c))"
  using assms
  by (auto simp: ProofClaims_Validate_def isSHA256Thumbprint_pattern MaxNonceBytes_def split: if_splits)

lemma proof_payload_accepted:
  assumes "ProofClaims_Validate c = None" "utf8_valid (pc_PermitID c)" "int64 (pc_IssuedAt c)"
  shows "canonical_ok (marshal_json (proof_claims_json c))"
    "strictJSON proof_claims_fields empty_proof_claims (marshal_json (proof_claims_json c)) = Some c"
    "length (marshal_json (proof_claims_json c)) \<le> 3000"
proof -
  note v = ProofClaims_Validate_facts [OF assms(1)]
  have keys: "plain_text ''permit_id''" "plain_text ''action_digest''" "plain_text ''http_method''"
    "plain_text ''http_path''" "plain_text ''issued_at''" "plain_text ''nonce''"
    by (simp_all add: plain_text_def label_rune_def)
  have "list_all (\<lambda>c. byte c < 128) (pc_Nonce c)"
    by (rule take_runes_ascii, rule list_all_weaken [OF nonce_rune_ascii v(9)])
  then have nonce_utf8: "utf8_valid (pc_Nonce c)" using utf8_valid_ascii by (simp add: ascii_def)
  have digest: "text_cost 71 (pc_ActionDigest c)" using sha256_plain [OF v(3)] plain_cost by simp
  have "text_cost 960 (pc_PermitID c)" "text_cost 1536 (pc_Nonce c)"
    using marshal_string_length [of "pc_PermitID c"] marshal_string_length [of "pc_Nonce c"] v(1,8) assms(2) nonce_utf8
    by (auto simp: text_cost_def)
  note cost = this digest
  have http: "text_cost 24 (pc_HTTPMethod c)" "text_cost 24 (pc_HTTPPath c)"
    using marshal_string_length [of "pc_HTTPMethod c"] marshal_string_length [of "pc_HTTPPath c"] v(4,5)
    by (auto simp: text_cost_def)
  note all = good_string [OF cost(1) keys(1)] good_string [OF cost(3) keys(2)] good_string [OF http(1) keys(3)]
    good_string [OF http(2) keys(4)] good_int [OF assms(3) keys(5)] good_string [OF cost(2) keys(6)]
  define ms where "ms = [(''permit_id'', JStr (pc_PermitID c)), (''action_digest'', JStr (pc_ActionDigest c)),
          (''http_method'', JStr (pc_HTTPMethod c)), (''http_path'', JStr (pc_HTTPPath c)),
          (''issued_at'', JNum (show_int (pc_IssuedAt c))), (''nonce'', JStr (pc_Nonce c))]"
  have "members_good 2900 ms"
    using all unfolding ms_def members_good_def by simp
  moreover have "distinct (map fst ms)" by (simp add: ms_def)
  ultimately have acc: "canonical_ok (marshal_json (JObj ms))" "read_document False (marshal_json (JObj ms)) = Inr (JObj ms)"
    "length (marshal_json (JObj ms)) \<le> 2902"
    using members_accepted [of 2900 ms] by simp_all
  have pj: "proof_claims_json c = JObj ms" by (simp add: proof_claims_json_def ms_def)
  show "canonical_ok (marshal_json (proof_claims_json c))" using acc(1) pj by simp
  show "length (marshal_json (proof_claims_json c)) \<le> 3000" unfolding pj using acc(3) by (rule order.trans) simp
  show "strictJSON proof_claims_fields empty_proof_claims (marshal_json (proof_claims_json c)) = Some c"
    unfolding pj using acc(2) assms(3)
    by (simp add: strictJSON_def decode_struct_def ms_def find_field_def proof_claims_fields_def set_string_def
        set_int64_def parse_show_int int64_def empty_proof_claims_def)
qed

lemma proof_header_accepted:
  assumes "ValidateKeyID keyID = None"
  defines "h \<equiv> \<lparr>ph_Algorithm = ''EdDSA'', ph_Type = ProofTokenType, ph_KeyID = keyID, ph_Version = 1\<rparr>"
  shows "canonical_ok (marshal_json (proof_header_json h))"
    "strictJSON proof_header_fields empty_proof_header (marshal_json (proof_header_json h)) = Some h"
    "length (marshal_json (proof_header_json h)) \<le> 300" "validateHeader h = None"
proof -
  have keys: "plain_text ''alg''" "plain_text ''typ''" "plain_text ''kid''" "plain_text ''v''"
    "plain_text ''EdDSA''" "plain_text ProofTokenType"
    by (simp_all add: plain_text_def label_rune_def ProofTokenType_def)
  have one: "int64 1" by (simp add: int64_def min_int64_def max_int64_def)
  have kid: "text_cost 128 keyID" using key_plain [OF assms(1)] plain_cost by blast
  note all = good_string [OF plain_cost [OF keys(5), of 5] keys(1)]
    good_string [OF plain_cost [OF keys(6), of 21] keys(2)] good_string [OF kid keys(3)] good_int [OF one keys(4)]
  define ms where "ms = [(''alg'', JStr ''EdDSA''), (''typ'', JStr ProofTokenType), (''kid'', JStr keyID), (''v'', JNum (show_int 1))]"
  have "members_good 290 ms"
    using all unfolding ms_def members_good_def by (simp add: ProofTokenType_def)
  moreover have "distinct (map fst ms)" by (simp add: ms_def)
  ultimately have acc: "canonical_ok (marshal_json (JObj ms))" "read_document False (marshal_json (JObj ms)) = Inr (JObj ms)"
    "length (marshal_json (JObj ms)) \<le> 292"
    using members_accepted [of 290 ms] by simp_all
  have hj: "proof_header_json h = JObj ms" by (simp add: proof_header_json_def ms_def h_def)
  show "canonical_ok (marshal_json (proof_header_json h))" using acc(1) hj by simp
  show "length (marshal_json (proof_header_json h)) \<le> 300" unfolding hj using acc(3) by (rule order.trans) simp
  show "strictJSON proof_header_fields empty_proof_header (marshal_json (proof_header_json h)) = Some h"
    unfolding hj using acc(2) one
    by (simp add: strictJSON_def decode_struct_def ms_def find_field_def proof_header_fields_def set_string_def
        set_int64_def parse_show_int int64_def empty_proof_header_def h_def)
  show "validateHeader h = None" using assms by (simp add: validateHeader_def h_def)
qed

lemma Proof_Sign_Verify:
  assumes "Proof_Sign cr privateKey keyID c = Inr token" "signature_ok cr" "utf8_valid (pc_PermitID c)" "int64 (pc_IssuedAt c)"
  shows "Proof_Verify cr (cr_public cr privateKey) token = Inr c \<and> Proof_TokenKeyID token = Inr keyID"
proof -
  have key: "length privateKey = PrivateKeySize" "ValidateKeyID keyID = None" and valid: "ProofClaims_Validate c = None"
    using assms(1) by (auto simp: Proof_Sign_def split: if_splits option.splits)
  define h where "h = \<lparr>ph_Algorithm = ''EdDSA'', ph_Type = ProofTokenType, ph_KeyID = keyID, ph_Version = 1\<rparr>"
  define p0 p1 where "p0 = b64_encode (marshal_json (proof_header_json h))" and "p1 = b64_encode (marshal_json (proof_claims_json c))"
  define sg where "sg = cr_sign cr privateKey (p0 @ ''.'' @ p1)"
  have token: "token = p0 @ ''.'' @ p1 @ ''.'' @ b64_encode sg"
    using assms(1) key valid by (simp add: Proof_Sign_def Let_def p0_def p1_def sg_def h_def)
  note hd = proof_header_accepted [OF key(2), folded h_def]
  note pl = proof_payload_accepted [OF valid assms(3,4)]
  have sig: "length sg = SignatureSize" "cr_verify cr (cr_public cr privateKey) (p0 @ ''.'' @ p1) sg"
    "length (cr_public cr privateKey) = PublicKeySize"
    using assms(2) key(1) by (simp_all add: signature_ok_def sg_def)
  have "length p0 \<le> 400" "length p1 \<le> 4000" "length (b64_encode sg) \<le> 86"
    using b64_encode_length [of "marshal_json (proof_header_json h)"] hd(3) b64_encode_length [of "marshal_json (proof_claims_json c)"]
      pl(3) b64_encode_length [of sg] sig(1)
    by (simp_all add: p0_def p1_def SignatureSize_def)
  then have len: "length token \<le> MaxTokenBytes" by (simp add: token MaxTokenBytes_def)
  have ne: "sg \<noteq> []" "marshal_json (proof_header_json h) \<noteq> []" "marshal_json (proof_claims_json c) \<noteq> []"
    using sig(1) by (auto simp: SignatureSize_def proof_header_json_def proof_claims_json_def)
  have plain: "byte x < 128 \<and> \<not> is_space (byte x)" if "x \<in> set token" for x
    using that b64_encode_plain by (auto simp: token p0_def p1_def is_space_def)
  have split: "split_at (CHR ''.'') token = [p0, p1, b64_encode sg]"
    unfolding token using b64_encode_no_dot by (simp add: p0_def p1_def split_at_append split_at_none)
  have "token \<noteq> []" by (simp add: token)
  then have parsed: "splitToken token = Inr (h, marshal_json (proof_claims_json c), sg)"
    using len trim_plain [OF plain] split ne hd sig(1) by (simp add: splitToken_def p0_def p1_def)
  have "signing_input token = p0 @ ''.'' @ p1" by (simp add: signing_input_def split)
  then show ?thesis using parsed hd pl sig valid key by (simp add: Proof_Verify_def Proof_TokenKeyID_def h_def)
qed

text \<open>What a verified proof establishes.\<close>

lemma Proof_Verify_facts:
  assumes "Proof_Verify cr publicKey token = Inr c"
  shows "ProofClaims_Validate c = None" "length publicKey = PublicKeySize"
    "\<exists>signature. cr_verify cr publicKey (signing_input token) signature"
  using assms by (auto simp: Proof_Verify_def split: if_splits sum.splits option.splits prod.splits)

end
