(* ===== verification/Execution_Constraints.thy ===== *)
theory Execution_Constraints
  imports Permit_Claims Canonical_Action
begin

text \<open>
  \<open>internal/executionconstraints/evaluator.go\<close>: every signed obligation is unsupported by this
  build, so only a permit without obligations is eligible.
\<close>

datatype constraint_status = Satisfied | Unsupported | UnknownStatus

record constraint_check =
  ck_Requirement :: string
  ck_Status :: constraint_status
  ck_Scope :: string
  ck_Reason :: string
  ck_CheckedAt :: time

record evaluation =
  ev_Allowed :: bool
  ev_Checks :: "constraint_check list"

definition add_check :: "time \<Rightarrow> bool \<Rightarrow> string \<Rightarrow> string \<Rightarrow> string \<Rightarrow> constraint_check list" where
  "add_check at required name scope reason =
    (if required
     then [\<lparr>ck_Requirement = name, ck_Status = Unsupported, ck_Scope = scope, ck_Reason = reason, ck_CheckedAt = at\<rparr>]
     else [])"

definition readOnlyReason :: "action \<Rightarrow> string" where
  "readOnlyReason a =
    (if ac_Operation a = ''write'' \<or> ac_Operation a = ''append'' \<or> ac_Operation a = ''delete''
        \<or> ac_Operation a = ''transfer''
     then ''action_mutates_target_resource'' else ''resource_enforcer_not_connected'')"

definition Evaluate_constraints :: "obligations \<Rightarrow> action \<Rightarrow> time \<Rightarrow> evaluation" where
  "Evaluate_constraints required a at =
    (let allowed = (required = no_obligations);
         checks =
           add_check at (ob_IsolationRequired required) ''isolation_required'' ''upstream_runtime''
             ''runtime_controller_not_connected''
           @ add_check at (ob_NetworkEgressDenied required) ''network_egress_denied'' ''upstream_runtime''
             ''network_enforcer_not_connected''
           @ add_check at (ob_ReadOnly required) ''read_only'' ''target_resource'' (readOnlyReason a)
           @ add_check at (ob_HumanApprovalRequired required) ''human_approval_required'' ''canonical_action''
             ''approval_completion_not_implemented''
           @ add_check at (ob_EnhancedAuditRequired required) ''enhanced_audit_required'' ''dispatch_intent''
             ''durable_dispatch_journal_not_implemented''
     in if \<not> allowed \<and> checks = []
        then \<lparr>ev_Allowed = allowed,
              ev_Checks = [\<lparr>ck_Requirement = ''unrecognized_obligation'', ck_Status = UnknownStatus,
                            ck_Scope = ''unknown'', ck_Reason = ''obligation_evaluator_not_available'',
                            ck_CheckedAt = at\<rparr>]\<rparr>
        else \<lparr>ev_Allowed = allowed, ev_Checks = checks\<rparr>)"

lemma add_check_simps [simp]:
  "add_check at False n sc re = []" "add_check at r n sc re = [] \<longleftrightarrow> \<not> r"
  "length (add_check at r n sc re) = (if r then 1 else 0)"
  by (auto simp: add_check_def)

text \<open>Eligible exactly without obligations; then there is nothing to report.\<close>

lemma Evaluate_allowed: "ev_Allowed (Evaluate_constraints ob a at) \<longleftrightarrow> ob = no_obligations"
  by (simp add: Evaluate_constraints_def Let_def)

lemma no_obligations_iff:
  "ob = no_obligations \<longleftrightarrow>
    \<not> ob_IsolationRequired ob \<and> \<not> ob_NetworkEgressDenied ob \<and> \<not> ob_ReadOnly ob
    \<and> \<not> ob_HumanApprovalRequired ob \<and> \<not> ob_EnhancedAuditRequired ob"
  by (cases ob) (auto simp: no_obligations_def)

text \<open>The fallback for an unmapped obligation is unreachable: the five checks cover the record.\<close>

lemma Evaluate_checks_cover:
  "\<not> ev_Allowed (Evaluate_constraints ob a at) \<longleftrightarrow> ev_Checks (Evaluate_constraints ob a at) \<noteq> []"
  by (auto simp: Evaluate_constraints_def Let_def no_obligations_iff)

lemma Evaluate_checks_unsupported:
  "ck \<in> set (ev_Checks (Evaluate_constraints ob a at)) \<Longrightarrow> ck_Status ck = Unsupported \<and> ck_CheckedAt ck = at"
  by (auto simp: Evaluate_constraints_def Let_def no_obligations_iff add_check_def split: if_splits)

end
