(* ===== verification/Verifier.thy ===== *)
theory Verifier
  imports Permit_Issuer Execution_Proof Execution_Constraints Action_Facts
begin

text \<open>
  \<open>internal/verifier/verifier.go\<close>: the reference monitor in front of every execution. The
  configuration is a record; the state that a call changes is the permit store and the
  nonces. Each reading of the clock is an argument, in the order of the code.
\<close>

datatype outcome =
    OutcomeVerified | OutcomeExpired | OutcomeInvalidSignature | OutcomeActionMismatch
  | OutcomeWrongPrincipal | OutcomeWrongAgent | OutcomeWrongWorkload | OutcomeWrongDelegation
  | OutcomeWrongTool | OutcomeWrongCapability | OutcomeWrongResource | OutcomeWrongOperation
  | OutcomeWrongProfile | OutcomeWrongAudience | OutcomeWrongExecutionBinding | OutcomeReplayed
  | OutcomeRevoked | OutcomeInvalidIssuer | OutcomeUnknownPermit | OutcomeInvalidPermit
  | OutcomeInvalidAction | OutcomeNotYetValid | OutcomeWrongPermitClass | OutcomeWrongExecutor
  | OutcomeValidNotConsumed | OutcomeUnsatisfiedObligation

definition DefaultExecutionProofMaxAge :: duration where "DefaultExecutionProofMaxAge = 30 * second"
definition DefaultExecutionProofSkew :: duration where "DefaultExecutionProofSkew = 5 * second"

record verify_result =
  vr_Outcome :: outcome
  vr_Verified :: bool
  vr_PermitID :: string
  vr_RequestID :: string
  vr_State :: permit_state
  vr_Claims :: "claims option"
  vr_VerifiedAt :: time
  vr_ConstraintChecks :: "constraint_check list"

definition Result_Allowed :: "verify_result \<Rightarrow> bool" where
  "Result_Allowed r \<longleftrightarrow> vr_Outcome r = OutcomeVerified \<and> vr_Verified r"

record verifier =
  vf_keyProvider :: "signing_key option"
  vf_expectedIssuer :: string
  vf_workloadKeys :: "key_registry option"
  vf_proofMaxAge :: duration
  vf_proofClockSkew :: duration

record guard_state =
  gs_store :: memory_store
  gs_nonces :: "nonce_store option"

datatype verifier_error = ErrInvalidConfiguration string

definition NewVerifier :: "signing_key option \<Rightarrow> string \<Rightarrow> memory_store option \<Rightarrow> verifier_error + (verifier \<times> guard_state)" where
  "NewVerifier provider expectedIssuer store =
    (if provider = None then Inl (ErrInvalidConfiguration ''key provider is required'')
     else if expectedIssuer = [] then Inl (ErrInvalidConfiguration ''expected issuer is required'')
     else case store of
       None \<Rightarrow> Inl (ErrInvalidConfiguration ''permit store is required'')
     | Some s \<Rightarrow>
         Inr (\<lparr>vf_keyProvider = provider, vf_expectedIssuer = expectedIssuer, vf_workloadKeys = Some NewRegistry,
               vf_proofMaxAge = DefaultExecutionProofMaxAge, vf_proofClockSkew = DefaultExecutionProofSkew\<rparr>,
              \<lparr>gs_store = s, gs_nonces = Some NewNonceStore\<rparr>))"

definition RegisterWorkloadPublicKey :: "verifier \<Rightarrow> string \<Rightarrow> string \<Rightarrow> proof_error option \<times> verifier" where
  "RegisterWorkloadPublicKey v keyID publicKey =
    (let (e, registry) = Registry_Register (vf_workloadKeys v) keyID publicKey
     in (e, v\<lparr>vf_workloadKeys := registry\<rparr>))"

section \<open>The permit\<close>

definition initial_result :: "time \<Rightarrow> verify_result" where
  "initial_result now =
    \<lparr>vr_Outcome = OutcomeInvalidSignature, vr_Verified = False, vr_PermitID = [], vr_RequestID = [],
     vr_State = StateEmpty, vr_Claims = None, vr_VerifiedAt = now, vr_ConstraintChecks = []\<rparr>"

definition token_error_outcome :: "permit_error \<Rightarrow> outcome" where
  "token_error_outcome e =
    (case e of
       ErrInvalidClaims m \<Rightarrow> OutcomeInvalidPermit
     | ErrMalformedToken \<Rightarrow> OutcomeInvalidPermit
     | ErrUnsupportedToken \<Rightarrow> OutcomeInvalidPermit
     | _ \<Rightarrow> OutcomeInvalidSignature)"

text \<open>The part of \<open>inspectPermit\<close> after the store was read.\<close>

definition record_outcome :: "permit_record \<Rightarrow> claims \<Rightarrow> time \<Rightarrow> outcome" where
  "record_outcome record c now =
    (if pr_Claims record \<noteq> c then OutcomeInvalidPermit
     else if now < IssuedTime c then OutcomeNotYetValid
     else case pr_State record of
       StateExpired \<Rightarrow> OutcomeExpired
     | StateConsumed \<Rightarrow> OutcomeReplayed
     | StateRevoked \<Rightarrow> OutcomeRevoked
     | StateIssued \<Rightarrow> OutcomeVerified
     | StateEmpty \<Rightarrow> OutcomeInvalidPermit)"

definition inspectPermit ::
  "crypto \<Rightarrow> verifier \<Rightarrow> memory_store \<Rightarrow> string \<Rightarrow> permit_class \<Rightarrow> time \<Rightarrow> verify_result \<times> memory_store" where
  "inspectPermit cr v s permitToken expectedClass now =
    (let result = initial_result now in
     case TokenKeyID permitToken of
       Inl e \<Rightarrow> (result, s)
     | Inr keyID \<Rightarrow>
         (case Static_VerificationKey cr (vf_keyProvider v) keyID of
            Inl e \<Rightarrow> (result, s)
          | Inr publicKey \<Rightarrow>
              (case VerifyToken cr publicKey permitToken of
                 Inl e \<Rightarrow> (result\<lparr>vr_Outcome := token_error_outcome e\<rparr>, s)
               | Inr c \<Rightarrow>
                   let result1 = result\<lparr>vr_PermitID := cl_PermitID c, vr_RequestID := cl_RequestID c,
                                         vr_Claims := Some c\<rparr>
                   in if cl_PermitClass c \<noteq> expectedClass then (result1\<lparr>vr_Outcome := OutcomeWrongPermitClass\<rparr>, s)
                      else if cl_Issuer c \<noteq> vf_expectedIssuer v then (result1\<lparr>vr_Outcome := OutcomeInvalidIssuer\<rparr>, s)
                      else (case MemoryStore_Get s (cl_PermitID c) now of
                          (None, s') \<Rightarrow> (result1\<lparr>vr_Outcome := OutcomeUnknownPermit\<rparr>, s')
                        | (Some record, s') \<Rightarrow>
                            (result1\<lparr>vr_State := pr_State record, vr_Outcome := record_outcome record c now\<rparr>, s')))))"

section \<open>The action\<close>

definition actionBindingOutcome :: "crypto \<Rightarrow> action \<Rightarrow> claims \<Rightarrow> outcome" where
  "actionBindingOutcome cr a c =
    (if action_Validate a \<noteq> None then OutcomeInvalidAction
     else if ac_PrincipalID a \<noteq> cl_PrincipalID c then OutcomeWrongPrincipal
     else if ac_AgentID a \<noteq> cl_AgentID c then OutcomeWrongAgent
     else if ac_WorkloadID a \<noteq> cl_WorkloadID c then OutcomeWrongWorkload
     else if ac_DelegatedAuthorityFingerprint a \<noteq> cl_DelegatedAuthorityFingerprint c then OutcomeWrongDelegation
     else if ac_Tool a \<noteq> cl_Tool c then OutcomeWrongTool
     else if ac_Capability a \<noteq> cl_Capability c then OutcomeWrongCapability
     else if ac_Resource a \<noteq> cl_Resource c then OutcomeWrongResource
     else if ac_Operation a \<noteq> cl_Operation c then OutcomeWrongOperation
     else if ac_ProfileID a \<noteq> cl_ProfileID c then OutcomeWrongProfile
     else if ac_Audience a \<noteq> cl_Audience c then OutcomeWrongAudience
     else if ac_ExecutionBinding a \<noteq> cl_ExecutionBinding c then OutcomeWrongExecutionBinding
     else case action_Digest cr a of
       Inl e \<Rightarrow> OutcomeInvalidAction
     | Inr digest \<Rightarrow> if digest \<noteq> cl_ActionDigest c then OutcomeActionMismatch else OutcomeVerified)"

section \<open>The proof and the consumption\<close>

text \<open>
  \<open>verifyExecutionProof\<close>. A chain of returns, each with the result so far and an outcome;
  \<open>fails\<close> is one of them.
\<close>

abbreviation fails :: "verify_result \<Rightarrow> outcome \<Rightarrow> guard_state \<Rightarrow> verify_result \<times> guard_state" where
  "fails result out g \<equiv> (result\<lparr>vr_Outcome := out\<rparr>, g)"

definition proof_stale :: "verifier \<Rightarrow> proof_claims \<Rightarrow> time \<Rightarrow> bool" where
  "proof_stale v pc now \<longleftrightarrow>
    time_unix (pc_IssuedAt pc) > now + vf_proofClockSkew v
    \<or> time_sub now (time_unix (pc_IssuedAt pc)) > vf_proofMaxAge v"

definition proof_expiry :: "verifier \<Rightarrow> proof_claims \<Rightarrow> int" where
  "proof_expiry v pc = unix_of (time_unix (pc_IssuedAt pc) + (vf_proofMaxAge v + vf_proofClockSkew v))"

text \<open>The checks of a proof against the permit, up to its freshness.\<close>

definition check_proof ::
  "crypto \<Rightarrow> verifier \<Rightarrow> claims \<Rightarrow> string \<Rightarrow> string \<Rightarrow> string \<Rightarrow> time \<Rightarrow> (string \<times> proof_claims) option" where
  "check_proof cr v c proofToken httpMethod httpPath now =
    (case Proof_TokenKeyID proofToken of
       Inl e \<Rightarrow> None
     | Inr keyID \<Rightarrow>
         (case Registry_VerificationKey (vf_workloadKeys v) keyID of
            Inl e \<Rightarrow> None
          | Inr publicKey \<Rightarrow>
              (case Proof_Verify cr publicKey proofToken of
                 Inl e \<Rightarrow> None
               | Inr pc \<Rightarrow>
                   (case Thumbprint cr publicKey of
                      Inl e \<Rightarrow> None
                    | Inr thumbprint \<Rightarrow>
                        if keyID \<noteq> cl_ExecutorKeyID c \<or> thumbprint \<noteq> cl_ExecutorKeyThumbprint c then None
                        else if pc_PermitID pc \<noteq> cl_PermitID c \<or> pc_ActionDigest pc \<noteq> cl_ActionDigest c
                          \<or> pc_HTTPMethod pc \<noteq> httpMethod \<or> pc_HTTPPath pc \<noteq> httpPath then None
                        else if proof_stale v pc now then None
                        else Some (keyID, pc)))))"

text \<open>
  A verification reads and writes what it shares with others at four places: the store when the
  permit is inspected, the registered keys when the proof is checked, the nonces, and the store
  again when the permit is consumed. Between two of them it holds no lock, so each part is a
  definition of its own: \<open>proofChecked\<close> is \<open>verifyExecutionProof\<close> up to the freshness of the
  proof and ends with a result to return, or with the key and the claims of the proof.
\<close>

definition proofChecked ::
  "crypto \<Rightarrow> verifier \<Rightarrow> verify_result \<Rightarrow> string \<Rightarrow> string \<Rightarrow> string \<Rightarrow> verify_result + (string \<times> proof_claims)" where
  "proofChecked cr v result proofToken httpMethod httpPath =
    (case vr_Claims result of
       None \<Rightarrow> Inl (result\<lparr>vr_Outcome := OutcomeInvalidPermit\<rparr>)
     | Some c \<Rightarrow>
         if cl_ExecutorKeyThumbprint c = [] then Inl (result\<lparr>vr_Outcome := OutcomeInvalidPermit\<rparr>)
         else case check_proof cr v c proofToken httpMethod httpPath (vr_VerifiedAt result) of
           None \<Rightarrow> Inl (result\<lparr>vr_Outcome := OutcomeWrongExecutor\<rparr>)
         | Some checked \<Rightarrow> Inr checked)"

text \<open>The rest of it: the action, the obligations and the nonce.\<close>

definition proofAdmitted ::
  "crypto \<Rightarrow> verifier \<Rightarrow> guard_state \<Rightarrow> verify_result \<Rightarrow> string \<Rightarrow> proof_claims \<Rightarrow> action \<Rightarrow> verify_result \<times> guard_state" where
  "proofAdmitted cr v g result keyID pc a =
    (let c = the (vr_Claims result)
     in if actionBindingOutcome cr a c \<noteq> OutcomeVerified then fails result (actionBindingOutcome cr a c) g
        else
          let constraints = Evaluate_constraints (cl_Obligations c) a (vr_VerifiedAt result);
              result1 = result\<lparr>vr_ConstraintChecks := ev_Checks constraints\<rparr>
          in if \<not> ev_Allowed constraints then fails result1 OutcomeUnsatisfiedObligation g
             else
               let (fresh, nonces) = NonceStore_Use (gs_nonces g) keyID (pc_Nonce pc)
                                       (unix_of (vr_VerifiedAt result)) (proof_expiry v pc);
                   g' = g\<lparr>gs_nonces := nonces\<rparr>
               in if \<not> fresh then fails result1 OutcomeWrongExecutor g'
                  else (result1\<lparr>vr_Verified := True\<rparr>, g'))"

definition verifyExecutionProof ::
  "crypto \<Rightarrow> verifier \<Rightarrow> guard_state \<Rightarrow> string \<Rightarrow> string \<Rightarrow> action \<Rightarrow> string \<Rightarrow> string \<Rightarrow> time
    \<Rightarrow> verify_result \<times> guard_state" where
  "verifyExecutionProof cr v g permitToken proofToken a httpMethod httpPath now =
    (let (result, s') = inspectPermit cr v (gs_store g) permitToken ClassExecution now;
         g' = g\<lparr>gs_store := s'\<rparr>
     in if vr_Outcome result \<noteq> OutcomeVerified then (result, g')
        else case proofChecked cr v result proofToken httpMethod httpPath of
          Inl failed \<Rightarrow> (failed, g')
        | Inr (keyID, pc) \<Rightarrow> proofAdmitted cr v g' result keyID pc a)"

definition consume_outcome_result :: "consume_outcome \<Rightarrow> outcome" where
  "consume_outcome_result out =
    (case out of
       ConsumeSucceeded \<Rightarrow> OutcomeVerified
     | ConsumeExpired \<Rightarrow> OutcomeExpired
     | ConsumeReplayed \<Rightarrow> OutcomeReplayed
     | ConsumeRevoked \<Rightarrow> OutcomeRevoked
     | ConsumeUnknown \<Rightarrow> OutcomeUnknownPermit)"

text \<open>\<open>consumeInspected\<close>; \<open>later\<close> is the second reading of the clock.\<close>

definition consumeInspected :: "memory_store \<Rightarrow> verify_result \<Rightarrow> time \<Rightarrow> verify_result \<times> memory_store" where
  "consumeInspected s result later =
    (let now = vr_VerifiedAt result;
         c = the (vr_Claims result);
         consumeTime = (if later < now then now else later);
         ((out, record), s') = MemoryStore_Consume s (cl_PermitID c) consumeTime
     in (result\<lparr>vr_VerifiedAt := consumeTime,
                vr_State := (case record of None \<Rightarrow> StateEmpty | Some r \<Rightarrow> pr_State r),
                vr_Outcome := consume_outcome_result out,
                vr_Verified := (out = ConsumeSucceeded)\<rparr>, s'))"

definition VerifyExecutionAndConsume ::
  "crypto \<Rightarrow> verifier \<Rightarrow> guard_state \<Rightarrow> string \<Rightarrow> string \<Rightarrow> action \<Rightarrow> string \<Rightarrow> string \<Rightarrow> time \<Rightarrow> time
    \<Rightarrow> verify_result \<times> guard_state" where
  "VerifyExecutionAndConsume cr v g permitToken proofToken a httpMethod httpPath now later =
    (let (result, g') = verifyExecutionProof cr v g permitToken proofToken a httpMethod httpPath now
     in if vr_Outcome result \<noteq> OutcomeVerified then (result, g')
        else let (final, s') = consumeInspected (gs_store g') result later in (final, g'\<lparr>gs_store := s'\<rparr>))"

definition CheckExecution ::
  "crypto \<Rightarrow> verifier \<Rightarrow> memory_store \<Rightarrow> string \<Rightarrow> action \<Rightarrow> time \<Rightarrow> verify_result \<times> memory_store" where
  "CheckExecution cr v s permitToken a now =
    (let (result, s') = inspectPermit cr v s permitToken ClassExecution now
     in if vr_Outcome result \<noteq> OutcomeVerified then (result, s')
        else
          let out = actionBindingOutcome cr a (the (vr_Claims result))
          in if out \<noteq> OutcomeVerified then (result\<lparr>vr_Outcome := out\<rparr>, s')
             else (result\<lparr>vr_Outcome := OutcomeValidNotConsumed, vr_Verified := False\<rparr>, s'))"

definition VerifySimulationAndConsume ::
  "crypto \<Rightarrow> verifier \<Rightarrow> memory_store \<Rightarrow> string \<Rightarrow> action \<Rightarrow> time \<Rightarrow> time \<Rightarrow> verify_result \<times> memory_store" where
  "VerifySimulationAndConsume cr v s permitToken a now later =
    (let (result, s') = inspectPermit cr v s permitToken ClassSimulation now
     in if vr_Outcome result \<noteq> OutcomeVerified then (result, s')
        else
          let out = actionBindingOutcome cr a (the (vr_Claims result))
          in if out \<noteq> OutcomeVerified then (result\<lparr>vr_Outcome := out\<rparr>, s')
             else consumeInspected s' result later)"

end
