(* ===== verification/Verifier_Facts.thy ===== *)
theory Verifier_Facts
  imports Verifier
begin

text \<open>
  What the verifier's answers mean: an allowed execution had every check behind it and
  consumed its permit; any other answer consumed nothing; and whatever the verifier does
  to the store is a sequence of calls of its interface.
\<close>

section \<open>Inspection\<close>

definition token_trusted :: "crypto \<Rightarrow> verifier \<Rightarrow> string \<Rightarrow> claims \<Rightarrow> bool" where
  "token_trusted cr v token c \<longleftrightarrow>
    (\<exists>pk. Static_VerificationKey cr (vf_keyProvider v) (cl_SigningKeyID c) = Inr pk \<and> VerifyToken cr pk token = Inr c)"

lemma inspect_verified:
  assumes "inspectPermit cr v s token cls now = (result, s')" "vr_Outcome result = OutcomeVerified"
  obtains c r where "token_trusted cr v token c" "vr_Claims result = Some c" "cl_PermitClass c = cls"
    "cl_Issuer c = vf_expectedIssuer v" "record_at s (cl_PermitID c) = Some r" "pr_Claims r = c" "pr_State r = StateIssued"
    "expireIfNeeded r now = r" "IssuedTime c \<le> now" "s' = put_record (cl_PermitID c) r s" "vr_VerifiedAt result = now"
    "vr_PermitID result = cl_PermitID c"
proof -
  obtain keyID where kid: "TokenKeyID token = Inr keyID"
    using assms by (auto simp: inspectPermit_def initial_result_def Let_def split: sum.splits)
  obtain pk where pk: "Static_VerificationKey cr (vf_keyProvider v) keyID = Inr pk"
    using assms kid by (auto simp: inspectPermit_def initial_result_def Let_def split: sum.splits)
  obtain c where c: "VerifyToken cr pk token = Inr c"
    using assms kid pk
    by (auto simp: inspectPermit_def initial_result_def token_error_outcome_def Let_def split: sum.splits permit_error.splits)
  have "TokenKeyID token = Inr (cl_SigningKeyID c)" by (rule VerifyToken_signed [OF c])
  with kid have trusted: "token_trusted cr v token c" using pk c by (auto simp: token_trusted_def)
  have cls: "cl_PermitClass c = cls" "cl_Issuer c = vf_expectedIssuer v"
    using assms kid pk c by (auto simp: inspectPermit_def Let_def split: if_splits)
  obtain r0 where r0: "record_at s (cl_PermitID c) = Some r0"
    using assms kid pk c cls by (auto simp: inspectPermit_def MemoryStore_Get_def Let_def split: option.splits)
  define r where "r = expireIfNeeded r0 now"
  have res: "record_outcome r c now = OutcomeVerified" "s' = put_record (cl_PermitID c) r s"
    "vr_Claims result = Some c" "vr_VerifiedAt result = now" "vr_PermitID result = cl_PermitID c"
    using assms kid pk c cls r0 by (auto simp: inspectPermit_def MemoryStore_Get_def Let_def r_def initial_result_def)
  have "pr_Claims r = c" "IssuedTime c \<le> now" "pr_State r = StateIssued"
    using res(1) by (auto simp: record_outcome_def split: if_splits permit_state.splits)
  moreover have "r = r0" using calculation(3) expireIfNeeded_facts(3) by (simp add: r_def)
  ultimately show thesis using that [OF trusted res(3) cls] r0 res r_def by simp
qed

text \<open>Inspection reads the store through \<open>Get\<close> at most.\<close>

lemma inspect_store:
  assumes "inspectPermit cr v s token cls now = (result, s')"
  shows "s' = s \<or> (\<exists>i. s' = snd (MemoryStore_Get s i now))"
  using assms
  by (auto simp: inspectPermit_def Let_def split: sum.splits if_splits option.splits prod.splits) (metis snd_conv)+

lemma put_same: "record_at s i = Some r \<Longrightarrow> record_at (put_record i r s) j = record_at s j"
  by simp

section \<open>Binding\<close>

lemma binding_verified:
  assumes "actionBindingOutcome cr a c = OutcomeVerified"
  shows "action_Validate a = None" "action_Digest cr a = Inr (cl_ActionDigest c)"
    "ac_PrincipalID a = cl_PrincipalID c" "ac_AgentID a = cl_AgentID c" "ac_WorkloadID a = cl_WorkloadID c"
    "ac_DelegatedAuthorityFingerprint a = cl_DelegatedAuthorityFingerprint c" "ac_Tool a = cl_Tool c"
    "ac_Capability a = cl_Capability c" "ac_Resource a = cl_Resource c" "ac_Operation a = cl_Operation c"
    "ac_ProfileID a = cl_ProfileID c" "ac_Audience a = cl_Audience c" "ac_ExecutionBinding a = cl_ExecutionBinding c"
  using assms by (auto simp: actionBindingOutcome_def split: if_splits sum.splits)

text \<open>Two actions that pass against the same claims are the same action.\<close>

lemma binding_same_action:
  assumes "actionBindingOutcome cr a c = OutcomeVerified" "actionBindingOutcome cr b c = OutcomeVerified"
  shows "collision cr \<or> (same_binding a b \<and>
    (\<exists>v w. arguments_value a = Inr v \<and> arguments_value b = Inr w \<and> sort_json v = sort_json w))"
  using action_Digest_binds [OF binding_verified(2) [OF assms(1)] binding_verified(2) [OF assms(2)]] .

section \<open>Proof\<close>

lemma check_proof_some:
  assumes "check_proof cr v c proofToken m p now = Some (keyID, pc)"
  obtains pk where "Proof_TokenKeyID proofToken = Inr keyID" "Registry_VerificationKey (vf_workloadKeys v) keyID = Inr pk"
    "Proof_Verify cr pk proofToken = Inr pc" "keyID = cl_ExecutorKeyID c" "sha256_text cr pk = cl_ExecutorKeyThumbprint c"
    "pc_PermitID pc = cl_PermitID c" "pc_ActionDigest pc = cl_ActionDigest c" "pc_HTTPMethod pc = m" "pc_HTTPPath pc = p"
    "\<not> proof_stale v pc now"
  using assms
  by (auto simp: check_proof_def Thumbprint_def split: sum.splits if_splits)

section \<open>Execution\<close>

text \<open>The parts of \<open>verifyExecutionProof\<close> in one piece.\<close>

lemma verifyExecutionProof_parts:
  "verifyExecutionProof cr v g permitToken proofToken a httpMethod httpPath now =
    (let (result, s') = inspectPermit cr v (gs_store g) permitToken ClassExecution now;
         g' = g\<lparr>gs_store := s'\<rparr>
     in if vr_Outcome result \<noteq> OutcomeVerified then (result, g')
        else case vr_Claims result of
          None \<Rightarrow> fails result OutcomeInvalidPermit g'
        | Some c \<Rightarrow>
            if cl_ExecutorKeyThumbprint c = [] then fails result OutcomeInvalidPermit g'
            else case check_proof cr v c proofToken httpMethod httpPath (vr_VerifiedAt result) of
              None \<Rightarrow> fails result OutcomeWrongExecutor g'
            | Some (keyID, pc) \<Rightarrow> proofAdmitted cr v g' result keyID pc a)"
  by (simp add: verifyExecutionProof_def proofChecked_def Let_def case_prod_unfold split: option.split)

lemmas verifyExecutionProof_unfold = verifyExecutionProof_parts [unfolded proofAdmitted_def]

lemma proof_verified:
  assumes "verifyExecutionProof cr v g token proofToken a m p now = (result, g')" "vr_Outcome result = OutcomeVerified"
  obtains c r keyID pc inspected where
    "inspectPermit cr v (gs_store g) token ClassExecution now = (inspected, gs_store g')"
    "vr_Outcome inspected = OutcomeVerified" "vr_Claims inspected = Some c" "vr_Claims result = Some c"
    "vr_VerifiedAt result = now" "check_proof cr v c proofToken m p now = Some (keyID, pc)"
    "actionBindingOutcome cr a c = OutcomeVerified" "cl_Obligations c = no_obligations"
    "NonceStore_Use (gs_nonces g) keyID (pc_Nonce pc) (unix_of now) (proof_expiry v pc) = (True, gs_nonces g')"
proof -
  obtain inspected s1 where i: "inspectPermit cr v (gs_store g) token ClassExecution now = (inspected, s1)" by fastforce
  have ok: "vr_Outcome inspected = OutcomeVerified"
    using assms i by (auto simp: verifyExecutionProof_unfold Let_def split: if_splits)
  obtain c where c: "vr_Claims inspected = Some c" "vr_VerifiedAt inspected = now" by (rule inspect_verified [OF i ok])
  have th: "cl_ExecutorKeyThumbprint c \<noteq> []"
    using assms i ok c by (auto simp: verifyExecutionProof_unfold Let_def split: if_splits)
  obtain keyID pc where pc: "check_proof cr v c proofToken m p now = Some (keyID, pc)"
    using assms i ok c th by (cases "check_proof cr v c proofToken m p now") (auto simp: verifyExecutionProof_unfold Let_def)
  have b: "actionBindingOutcome cr a c = OutcomeVerified"
    using assms i ok c th pc by (auto simp: verifyExecutionProof_unfold Let_def split: if_splits)
  have ob: "cl_Obligations c = no_obligations"
    using assms i ok c th pc b
    by (auto simp: verifyExecutionProof_unfold Let_def Evaluate_allowed split: if_splits)
  obtain fresh nonces where u: "NonceStore_Use (gs_nonces g) keyID (pc_Nonce pc) (unix_of now) (proof_expiry v pc) = (fresh, nonces)"
    by fastforce
  have "fresh" "gs_nonces g' = nonces" "gs_store g' = s1" "vr_Claims result = Some c" "vr_VerifiedAt result = now"
    using assms i ok c th pc b ob u
    by (auto simp: verifyExecutionProof_unfold Let_def Evaluate_allowed split: if_splits)
  then show thesis using that [of inspected c keyID pc] i ok c pc b ob u by simp
qed

lemma consume_inspected:
  assumes "consumeInspected s result later = (final, s')" "vr_Claims result = Some c"
  shows "s' = snd (MemoryStore_Consume s (cl_PermitID c) (max (vr_VerifiedAt result) later))"
    "Result_Allowed final \<longleftrightarrow>
      fst (fst (MemoryStore_Consume s (cl_PermitID c) (max (vr_VerifiedAt result) later))) = ConsumeSucceeded"
    "vr_Claims final = Some c" "vr_VerifiedAt final = max (vr_VerifiedAt result) later"
proof -
  define t where "t = max (vr_VerifiedAt result) later"
  have t: "(if later < vr_VerifiedAt result then vr_VerifiedAt result else later) = t" by (simp add: t_def)
  obtain out rec s1 where c: "MemoryStore_Consume s (cl_PermitID c) t = ((out, rec), s1)" by (metis prod.exhaust)
  have "final = result\<lparr>vr_VerifiedAt := t, vr_State := (case rec of None \<Rightarrow> StateEmpty | Some r \<Rightarrow> pr_State r),
                vr_Outcome := consume_outcome_result out, vr_Verified := (out = ConsumeSucceeded)\<rparr>" "s' = s1"
    using assms c by (auto simp: consumeInspected_def t Let_def)
  then show "s' = snd (MemoryStore_Consume s (cl_PermitID c) (max (vr_VerifiedAt result) later))"
    "Result_Allowed final \<longleftrightarrow>
      fst (fst (MemoryStore_Consume s (cl_PermitID c) (max (vr_VerifiedAt result) later))) = ConsumeSucceeded"
    "vr_Claims final = Some c" "vr_VerifiedAt final = max (vr_VerifiedAt result) later"
    using c assms(2) by (auto simp: t_def [symmetric] Result_Allowed_def consume_outcome_result_def split: consume_outcome.splits)
qed

text \<open>An unfinished verification never says verified with the flag set.\<close>

lemma inspect_not_allowed:
  "inspectPermit cr v s token cls now = (result, s') \<Longrightarrow> \<not> vr_Verified result"
  by (auto simp: inspectPermit_def Let_def initial_result_def split: sum.splits if_splits option.splits prod.splits)

section \<open>The verifier as a client of the store\<close>

lemma Get_step: "store_step (OpGet i t) s = (RepGet (fst (MemoryStore_Get s i t)), snd (MemoryStore_Get s i t))"
  by (simp add: Let_def case_prod_unfold)

lemma Consume_step:
  "snd (store_step (OpConsume i t) s) = snd (MemoryStore_Consume s i t)"
  by (simp add: Let_def case_prod_unfold)

text \<open>
  A store reached by calls of its interface, and nothing else; what is registered on the way satisfies \<open>Q\<close>.
\<close>

definition registers :: "(claims \<Rightarrow> bool) \<Rightarrow> store_op \<Rightarrow> bool" where
  "registers Q x \<longleftrightarrow> (case x of OpRegister c \<Rightarrow> Q c | _ \<Rightarrow> True)"

definition by_calls :: "(claims \<Rightarrow> bool) \<Rightarrow> memory_store \<Rightarrow> memory_store \<Rightarrow> bool" where
  "by_calls Q s s' \<longleftrightarrow> (\<exists>ops. list_all (registers Q) ops \<and> snd (run_ops store_step ops s) = s')"

lemma run_ops_append:
  "run_ops step (xs @ ys) s =
    (let (rs, s1) = run_ops step xs s; (rs', s2) = run_ops step ys s1 in (rs @ rs', s2))"
  by (induction xs arbitrary: s) (simp_all add: Let_def case_prod_unfold)

lemma by_calls_refl [simp]: "by_calls Q s s"
  unfolding by_calls_def by (rule exI [of _ "[]"]) simp

lemma by_calls_trans: "by_calls Q s s1 \<Longrightarrow> by_calls Q s1 s2 \<Longrightarrow> by_calls Q s s2"
proof -
  assume "by_calls Q s s1" "by_calls Q s1 s2"
  then obtain xs ys where ops: "list_all (registers Q) (xs @ ys)"
    and "snd (run_ops store_step xs s) = s1" "snd (run_ops store_step ys s1) = s2"
    by (auto simp: by_calls_def)
  then have "snd (run_ops store_step (xs @ ys) s) = s2" by (simp add: run_ops_append Let_def case_prod_unfold)
  with ops show ?thesis unfolding by_calls_def by blast
qed

lemma by_calls_step: "registers Q x \<Longrightarrow> by_calls Q s (snd (store_step x s))"
  unfolding by_calls_def by (rule exI [of _ "[x]"]) (simp add: Let_def case_prod_unfold)

lemma by_calls_get: "by_calls Q s (snd (MemoryStore_Get s i t))"
  using by_calls_step [of Q "OpGet i t" s] by (simp add: registers_def Get_step del: store_step.simps)

lemma by_calls_consume: "by_calls Q s (snd (MemoryStore_Consume s i t))"
  using by_calls_step [of Q "OpConsume i t" s] by (simp add: registers_def Consume_step del: store_step.simps)

lemma by_calls_moves:
  "by_calls Q s s' \<Longrightarrow> record_at s i = Some r \<Longrightarrow> \<exists>r'. record_at s' i = Some r' \<and> moves r r'"
  using memory.keeps_run [of _ s _ s' i r] unfolding by_calls_def moves_def by (metis prod.collapse)

text \<open>Where a record comes from.\<close>

lemma step_origin:
  assumes "store_step x s = (reply, s')" "record_at s' i = Some r" "registers Q x"
  shows "(\<exists>r0. record_at s i = Some r0 \<and> pr_Claims r0 = pr_Claims r) \<or> Q (pr_Claims r)"
proof (cases "record_at s i")
  case None
  from new_records [OF assms(1) None assms(2)] assms(3) show ?thesis by (auto simp: registers_def)
next
  case (Some r0)
  then show ?thesis using step_moves [OF assms(1) Some] assms(2) by (auto simp: moves_def)
qed

lemma by_calls_origin:
  assumes "by_calls Q s s'" "record_at s' i = Some r"
  shows "(\<exists>r0. record_at s i = Some r0 \<and> pr_Claims r0 = pr_Claims r) \<or> Q (pr_Claims r)"
proof -
  obtain ops where "list_all (registers Q) ops" "snd (run_ops store_step ops s) = s'"
    using assms(1) by (auto simp: by_calls_def)
  then show ?thesis
  proof (induction ops arbitrary: s)
    case Nil
    then show ?case using assms(2) by auto
  next
    case (Cons x xs)
    obtain reply s1 where x: "store_step x s = (reply, s1)" by (rule prod.exhaust)
    have q: "registers Q x" using Cons.prems(1) by simp
    have "(\<exists>r0. record_at s1 i = Some r0 \<and> pr_Claims r0 = pr_Claims r) \<or> Q (pr_Claims r)"
      using Cons.IH [of s1] Cons.prems x by (simp add: Let_def case_prod_unfold)
    then show ?case using step_origin [OF x _ q] by metis
  qed
qed

lemma by_calls_ok: "by_calls Q s s' \<Longrightarrow> store_ok s \<Longrightarrow> store_ok s'"
  using run_store_ok unfolding by_calls_def by (metis prod.collapse)

lemma inspect_calls: "inspectPermit cr v s token cls now = (result, s') \<Longrightarrow> by_calls Q s s'"
  using inspect_store [of cr v s token cls now result s'] by_calls_get by auto

lemma check_calls: "CheckExecution cr v s token a now = (result, s') \<Longrightarrow> by_calls Q s s'"
  by (auto simp: CheckExecution_def Let_def dest: inspect_calls split: prod.splits if_splits)

lemma proof_calls:
  "verifyExecutionProof cr v g token proofToken a m p now = (result, g') \<Longrightarrow> by_calls Q (gs_store g) (gs_store g')"
  by (auto simp: verifyExecutionProof_unfold Let_def dest: inspect_calls split: prod.splits if_splits option.splits)

lemma consumeInspected_calls: "by_calls Q s (snd (consumeInspected s result later))"
proof -
  obtain out rec s' where c: "MemoryStore_Consume s (cl_PermitID (the (vr_Claims result)))
      (if later < vr_VerifiedAt result then vr_VerifiedAt result else later) = ((out, rec), s')"
    by (metis prod.exhaust)
  then have "snd (consumeInspected s result later) = s'" by (simp add: consumeInspected_def Let_def)
  then show ?thesis using by_calls_consume c by (metis snd_conv)
qed

lemma execute_calls:
  "VerifyExecutionAndConsume cr v g token proofToken a m p now later = (result, g') \<Longrightarrow>
     by_calls Q (gs_store g) (gs_store g')"
proof -
  assume e: "VerifyExecutionAndConsume cr v g token proofToken a m p now later = (result, g')"
  obtain res1 g1 where r: "verifyExecutionProof cr v g token proofToken a m p now = (res1, g1)" by fastforce
  have "gs_store g' = gs_store g1 \<or> gs_store g' = snd (consumeInspected (gs_store g1) res1 later)"
    using e r by (auto simp: VerifyExecutionAndConsume_def Let_def split: if_splits prod.splits)
  then show ?thesis using proof_calls [OF r] consumeInspected_calls by_calls_trans by metis
qed

lemma simulate_calls:
  "VerifySimulationAndConsume cr v s token a now later = (result, s') \<Longrightarrow> by_calls Q s s'"
proof -
  assume e: "VerifySimulationAndConsume cr v s token a now later = (result, s')"
  obtain res1 s1 where r: "inspectPermit cr v s token ClassSimulation now = (res1, s1)" by fastforce
  have "s' = s1 \<or> s' = snd (consumeInspected s1 res1 later)"
    using e r by (auto simp: VerifySimulationAndConsume_def Let_def split: if_splits prod.splits)
  then show ?thesis using inspect_calls [OF r] consumeInspected_calls by_calls_trans by metis
qed

section \<open>What an allowed answer means\<close>

text \<open>The evidence behind the consumption of a permit by the verifier.\<close>

definition permit_evidence :: "crypto \<Rightarrow> verifier \<Rightarrow> memory_store \<Rightarrow> string \<Rightarrow> permit_class \<Rightarrow> claims \<Rightarrow> time \<Rightarrow> bool" where
  "permit_evidence cr v s token cls c t \<longleftrightarrow>
    token_trusted cr v token c \<and> cl_PermitClass c = cls \<and> cl_Issuer c = vf_expectedIssuer v
    \<and> (\<exists>r. record_at s (cl_PermitID c) = Some r \<and> pr_Claims r = c \<and> pr_State r = StateIssued)
    \<and> IssuedTime c \<le> t \<and> (t = zero_time \<or> t < ExpiresTime c) \<and> \<not> authority_changed s c"

lemma consume_evidence:
  assumes "inspectPermit cr v s token cls now = (inspected, s1)" "vr_Outcome inspected = OutcomeVerified"
    "vr_Claims inspected = Some c"
    "MemoryStore_Consume s1 (cl_PermitID c) t = ((ConsumeSucceeded, rec), s')" "now \<le> t"
  shows "permit_evidence cr v s token cls c t"
    "record_at s' (cl_PermitID c) = Some (issued_record c\<lparr>pr_State := StateConsumed, pr_ConsumedAt := Some t\<rparr>) \<or>
     \<not> store_ok s"
    "\<exists>r'. record_at s' (cl_PermitID c) = Some r' \<and> pr_State r' = StateConsumed"
proof -
  obtain r where i: "token_trusted cr v token c" "cl_PermitClass c = cls" "cl_Issuer c = vf_expectedIssuer v"
    "record_at s (cl_PermitID c) = Some r" "pr_Claims r = c" "pr_State r = StateIssued" "IssuedTime c \<le> now"
    "s1 = put_record (cl_PermitID c) r s"
    using inspect_verified [OF assms(1,2)] assms(3) by (metis option.inject)
  obtain r1 where c: "record_at s1 (cl_PermitID c) = Some r1" "t = zero_time \<or> t < ExpiresTime (pr_Claims r1)"
    "\<not> authority_changed s1 (pr_Claims r1)"
    "s' = put_record (cl_PermitID c) (r1\<lparr>pr_State := StateConsumed, pr_ConsumedAt := Some t\<rparr>) s1"
    by (rule Consume_succeeds [OF assms(4)])
  have "r1 = r" using c(1) i(8) by simp
  then show "permit_evidence cr v s token cls c t"
    using i c(2,3) assms(5) by (auto simp: permit_evidence_def)
  show "\<exists>r'. record_at s' (cl_PermitID c) = Some r' \<and> pr_State r' = StateConsumed" by (simp add: c(4))
  have "r = issued_record c" if "store_ok s"
    using store_ok_record [OF that i(4)] i(5,6) by (cases r) (auto simp: record_ok_def issued_record_def)
  then show "record_at s' (cl_PermitID c) = Some (issued_record c\<lparr>pr_State := StateConsumed, pr_ConsumedAt := Some t\<rparr>) \<or>
     \<not> store_ok s"
    using c(4) \<open>r1 = r\<close> by auto
qed

lemma execute_allowed:
  assumes "VerifyExecutionAndConsume cr v g token proofToken a m p now later = (result, g')" "Result_Allowed result"
  obtains c keyID pc where "vr_Claims result = Some c"
    "permit_evidence cr v (gs_store g) token ClassExecution c (max now later)"
    "actionBindingOutcome cr a c = OutcomeVerified" "cl_Obligations c = no_obligations"
    "check_proof cr v c proofToken m p now = Some (keyID, pc)"
    "NonceStore_Use (gs_nonces g) keyID (pc_Nonce pc) (unix_of now) (proof_expiry v pc) = (True, gs_nonces g')"
    "IssuedTime c \<le> now" "now = zero_time \<or> now < ExpiresTime c"
    "\<exists>r'. record_at (gs_store g') (cl_PermitID c) = Some r' \<and> pr_State r' = StateConsumed"
proof -
  obtain res1 g1 where r: "verifyExecutionProof cr v g token proofToken a m p now = (res1, g1)" by fastforce
  have ok: "vr_Outcome res1 = OutcomeVerified"
    using assms r by (auto simp: VerifyExecutionAndConsume_def Result_Allowed_def split: if_splits)
  obtain c keyID pc inspected where i: "inspectPermit cr v (gs_store g) token ClassExecution now = (inspected, gs_store g1)"
    "vr_Outcome inspected = OutcomeVerified" "vr_Claims inspected = Some c" "vr_Claims res1 = Some c"
    "vr_VerifiedAt res1 = now" "check_proof cr v c proofToken m p now = Some (keyID, pc)"
    "actionBindingOutcome cr a c = OutcomeVerified" "cl_Obligations c = no_obligations"
    "NonceStore_Use (gs_nonces g) keyID (pc_Nonce pc) (unix_of now) (proof_expiry v pc) = (True, gs_nonces g1)"
    by (rule proof_verified [OF r ok])
  obtain s' where f: "consumeInspected (gs_store g1) res1 later = (result, s')" "g' = g1\<lparr>gs_store := s'\<rparr>"
    using assms(1) r ok by (auto simp: VerifyExecutionAndConsume_def Let_def split: prod.splits)
  note ci = consume_inspected [OF f(1) i(4)]
  obtain rec where con: "MemoryStore_Consume (gs_store g1) (cl_PermitID c) (max now later) = ((ConsumeSucceeded, rec), s')"
    using ci(1,2) assms(2) i(5) by (metis prod.collapse)
  note ev = consume_evidence [OF i(1,2,3) con max.cobounded1]
  obtain r where "pr_Claims r = c" "pr_State r = StateIssued" "expireIfNeeded r now = r" "IssuedTime c \<le> now"
    using inspect_verified [OF i(1,2)] i(3) by (metis option.inject)
  moreover have "now = zero_time \<or> now < ExpiresTime c" if "expireIfNeeded r now = r" "pr_State r = StateIssued" "pr_Claims r = c"
    using that by (cases r) (auto simp: expireIfNeeded_def Let_def split: if_splits)
  ultimately show thesis using that [OF ci(3) ev(1) i(7,8,6)] i(9) ev(3) f(2) by simp
qed

lemma simulate_allowed:
  assumes "VerifySimulationAndConsume cr v s token a now later = (result, s')" "Result_Allowed result"
  obtains c where "vr_Claims result = Some c" "permit_evidence cr v s token ClassSimulation c (max now later)"
    "actionBindingOutcome cr a c = OutcomeVerified"
    "\<exists>r'. record_at s' (cl_PermitID c) = Some r' \<and> pr_State r' = StateConsumed"
proof -
  obtain res1 s1 where r: "inspectPermit cr v s token ClassSimulation now = (res1, s1)" by fastforce
  have ok: "vr_Outcome res1 = OutcomeVerified"
    using assms r by (auto simp: VerifySimulationAndConsume_def Result_Allowed_def split: if_splits)
  obtain c where c: "vr_Claims res1 = Some c" "vr_VerifiedAt res1 = now" by (rule inspect_verified [OF r ok])
  have b: "actionBindingOutcome cr a c = OutcomeVerified" and f: "consumeInspected s1 res1 later = (result, s')"
    using assms r ok c by (auto simp: VerifySimulationAndConsume_def Result_Allowed_def Let_def split: if_splits)
  note ci = consume_inspected [OF f c(1)]
  obtain rec where con: "MemoryStore_Consume s1 (cl_PermitID c) (max now later) = ((ConsumeSucceeded, rec), s')"
    using ci(1,2) assms(2) c(2) by (metis prod.collapse)
  note ev = consume_evidence [OF r ok c(1) con max.cobounded1]
  show thesis using that [OF ci(3) ev(1) b ev(3)] .
qed

section \<open>What any other answer leaves behind\<close>

text \<open>No record became consumed on the way.\<close>

definition none_consumed :: "memory_store \<Rightarrow> memory_store \<Rightarrow> bool" where
  "none_consumed s s' \<longleftrightarrow>
    (\<forall>i r'. record_at s' i = Some r' \<longrightarrow> pr_State r' = StateConsumed \<longrightarrow> record_at s i = Some r')"

lemma none_consumed_refl [simp]: "none_consumed s s"
  by (simp add: none_consumed_def)

lemma none_consumed_trans: "none_consumed s s1 \<Longrightarrow> none_consumed s1 s2 \<Longrightarrow> none_consumed s s2"
  by (simp add: none_consumed_def)

lemma expire_not_consumed: "pr_State (expireIfNeeded r t) = StateConsumed \<Longrightarrow> expireIfNeeded r t = r"
  by (auto simp: expireIfNeeded_def Let_def split: if_splits)

lemma none_consumed_put:
  "record_at s i = Some r \<Longrightarrow> pr_State r' = StateConsumed \<longrightarrow> r' = r \<Longrightarrow> none_consumed s (put_record i r' s)"
  by (auto simp: none_consumed_def)

lemma none_consumed_get: "none_consumed s (snd (MemoryStore_Get s i t))"
  by (auto simp: MemoryStore_Get_def Let_def intro!: none_consumed_put dest: expire_not_consumed split: option.split)

lemma none_consumed_failed:
  assumes "fst (fst (MemoryStore_Consume s i t)) \<noteq> ConsumeSucceeded"
  shows "none_consumed s (snd (MemoryStore_Consume s i t))"
proof (cases "record_at s i")
  case None
  then show ?thesis by (simp add: MemoryStore_Consume_def)
next
  case (Some r)
  then show ?thesis using assms
    by (cases "pr_State (expireIfNeeded r t)")
      (auto simp: MemoryStore_Consume_def Let_def intro!: none_consumed_put split: if_splits)
qed

lemma inspect_none_consumed: "inspectPermit cr v s token cls now = (result, s') \<Longrightarrow> none_consumed s s'"
  using inspect_store [of cr v s token cls now result s'] none_consumed_get by auto

lemma proof_none_consumed:
  "verifyExecutionProof cr v g token proofToken a m p now = (result, g') \<Longrightarrow> none_consumed (gs_store g) (gs_store g')"
  by (auto simp: verifyExecutionProof_unfold Let_def dest: inspect_none_consumed split: prod.splits if_splits option.splits)

lemma consumeInspected_none:
  assumes "consumeInspected s result later = (final, s')" "vr_Claims result = Some c" "\<not> Result_Allowed final"
  shows "none_consumed s s'"
  using consume_inspected [OF assms(1,2)] assms(3) none_consumed_failed by simp

lemma execute_refused:
  assumes "VerifyExecutionAndConsume cr v g token proofToken a m p now later = (result, g')" "\<not> Result_Allowed result"
  shows "none_consumed (gs_store g) (gs_store g')"
proof -
  obtain res1 g1 where r: "verifyExecutionProof cr v g token proofToken a m p now = (res1, g1)" by fastforce
  show ?thesis
  proof (cases "vr_Outcome res1 = OutcomeVerified")
    case False
    then show ?thesis using assms(1) r proof_none_consumed [OF r] by (simp add: VerifyExecutionAndConsume_def)
  next
    case True
    obtain c where c: "vr_Claims res1 = Some c" by (rule proof_verified [OF r True])
    obtain s' where f: "consumeInspected (gs_store g1) res1 later = (result, s')" "g' = g1\<lparr>gs_store := s'\<rparr>"
      using assms(1) r True by (auto simp: VerifyExecutionAndConsume_def Let_def split: prod.splits)
    show ?thesis
      using none_consumed_trans [OF proof_none_consumed [OF r] consumeInspected_none [OF f(1) c assms(2)]] f(2) by simp
  qed
qed

text \<open>A permit with obligations is refused before its nonce or itself is touched.\<close>

lemma proof_after_inspection:
  assumes "inspectPermit cr v (gs_store g) token ClassExecution now = (inspected, s1)"
    "vr_Outcome inspected = OutcomeVerified" "vr_Claims inspected = Some c"
  shows "vr_Claims (fst (verifyExecutionProof cr v g token proofToken a m p now)) = Some c"
    "cl_Obligations c \<noteq> no_obligations \<Longrightarrow> gs_nonces (snd (verifyExecutionProof cr v g token proofToken a m p now)) = gs_nonces g"
  using assms
  by (simp_all add: verifyExecutionProof_unfold Let_def Evaluate_allowed case_prod_unfold split: option.split)

lemma obligations_refused:
  assumes "verifyExecutionProof cr v g token proofToken a m p now = (result, g')" "vr_Claims result = Some c"
    "cl_Obligations c \<noteq> no_obligations"
  shows "vr_Outcome result \<noteq> OutcomeVerified" "gs_nonces g' = gs_nonces g"
proof -
  show "vr_Outcome result \<noteq> OutcomeVerified"
  proof
    assume "vr_Outcome result = OutcomeVerified"
    from proof_verified [OF assms(1) this] obtain c' where "vr_Claims result = Some c'" "cl_Obligations c' = no_obligations" .
    then show False using assms(2,3) by simp
  qed
  obtain inspected s1 where i: "inspectPermit cr v (gs_store g) token ClassExecution now = (inspected, s1)" by fastforce
  show "gs_nonces g' = gs_nonces g"
  proof (cases "vr_Outcome inspected = OutcomeVerified")
    case False
    then show ?thesis using assms(1) i by (auto simp: verifyExecutionProof_unfold)
  next
    case True
    obtain c' where c': "vr_Claims inspected = Some c'" by (rule inspect_verified [OF i True])
    note pa = proof_after_inspection [OF i True c', of proofToken a m p]
    have "c' = c" using pa(1) assms(1,2) by simp
    then show ?thesis using pa(2) assms(1,3) by simp
  qed
qed

text \<open>\<open>CheckExecution\<close> is never an authorisation, and takes nothing.\<close>

lemma check_never_allowed:
  assumes "CheckExecution cr v s token a now = (result, s')"
  shows "\<not> Result_Allowed result" "none_consumed s s'"
proof -
  obtain res1 s1 where r: "inspectPermit cr v s token ClassExecution now = (res1, s1)" by fastforce
  show "\<not> Result_Allowed result"
    using assms r inspect_not_allowed [OF r]
    by (auto simp: CheckExecution_def Result_Allowed_def Let_def split: if_splits)
  show "none_consumed s s'"
    using assms r inspect_none_consumed [OF r] by (auto simp: CheckExecution_def Let_def split: if_splits)
qed

end
