(* ===== verification/Admission.thy ===== *)
theory Admission
  imports Verifier_Facts
begin

text \<open>
  The other direction of \<open>Verifier_Facts\<close>: when every condition of the reference monitor holds,
  it does allow. An honest issuer, an honest executor and an honest clock are never refused.
\<close>

lemma inspect_accepts:
  assumes "VerifyToken cr pk token = Inr c" "Static_VerificationKey cr (vf_keyProvider v) (cl_SigningKeyID c) = Inr pk"
    "cl_PermitClass c = cls" "cl_Issuer c = vf_expectedIssuer v"
    "record_at s (cl_PermitID c) = Some r" "pr_Claims r = c" "pr_State r = StateIssued"
    "expireIfNeeded r now = r" "IssuedTime c \<le> now"
  shows "inspectPermit cr v s token cls now =
    ((initial_result now)\<lparr>vr_PermitID := cl_PermitID c, vr_RequestID := cl_RequestID c, vr_Claims := Some c,
       vr_State := StateIssued, vr_Outcome := OutcomeVerified\<rparr>, put_record (cl_PermitID c) r s)"
proof -
  have "TokenKeyID token = Inr (cl_SigningKeyID c)" by (rule VerifyToken_signed [OF assms(1)])
  moreover have "record_outcome r c now = OutcomeVerified" using assms by (simp add: record_outcome_def)
  ultimately show ?thesis using assms by (simp add: inspectPermit_def Let_def MemoryStore_Get_def)
qed

lemma check_proof_accepts:
  assumes "Proof_Sign cr executor keyID pc = Inr proofToken" "signature_ok cr"
    "utf8_valid (pc_PermitID pc)" "int64 (pc_IssuedAt pc)"
    "Registry_VerificationKey (vf_workloadKeys v) keyID = Inr (cr_public cr executor)"
    "keyID = cl_ExecutorKeyID c" "sha256_text cr (cr_public cr executor) = cl_ExecutorKeyThumbprint c"
    "pc_PermitID pc = cl_PermitID c" "pc_ActionDigest pc = cl_ActionDigest c" "\<not> proof_stale v pc now"
  shows "check_proof cr v c proofToken (pc_HTTPMethod pc) (pc_HTTPPath pc) now = Some (keyID, pc)"
proof -
  have verify: "Proof_Verify cr (cr_public cr executor) proofToken = Inr pc" "Proof_TokenKeyID proofToken = Inr keyID"
    using Proof_Sign_Verify [OF assms(1-4)] by blast+
  have "Thumbprint cr (cr_public cr executor) = Inr (sha256_text cr (cr_public cr executor))"
    using Proof_Verify_facts(2) [OF verify(1)] by (simp add: Thumbprint_def)
  then show ?thesis using verify assms by (simp add: check_proof_def)
qed

lemma token_trusted_valid:
  assumes "token_trusted cr v token c"
  shows "Claims_Validate c = None"
proof -
  obtain pk where pk: "VerifyToken cr pk token = Inr c" using assms by (auto simp: token_trusted_def)
  show ?thesis by (rule VerifyToken_signed [OF pk])
qed

text \<open>A token means one set of claims, because its header names the key it is checked under.\<close>

lemma token_trusted_unique:
  assumes "token_trusted cr v token c" "token_trusted cr v token c'"
  shows "c = c'"
proof -
  obtain pk where pk: "Static_VerificationKey cr (vf_keyProvider v) (cl_SigningKeyID c) = Inr pk" "VerifyToken cr pk token = Inr c"
    using assms(1) by (auto simp: token_trusted_def)
  obtain pk' where pk': "Static_VerificationKey cr (vf_keyProvider v) (cl_SigningKeyID c') = Inr pk'" "VerifyToken cr pk' token = Inr c'"
    using assms(2) by (auto simp: token_trusted_def)
  have "TokenKeyID token = Inr (cl_SigningKeyID c)" by (rule VerifyToken_signed [OF pk(2)])
  moreover have "TokenKeyID token = Inr (cl_SigningKeyID c')" by (rule VerifyToken_signed [OF pk'(2)])
  ultimately show ?thesis using pk pk' by simp
qed

text \<open>The conditions of an admissible execution.\<close>

definition admissible ::
  "crypto \<Rightarrow> verifier \<Rightarrow> guard_state \<Rightarrow> string \<Rightarrow> string \<Rightarrow> action \<Rightarrow> string \<Rightarrow> string \<Rightarrow> time \<Rightarrow> time \<Rightarrow> claims \<Rightarrow> bool" where
  "admissible cr v g token proofToken a m p now later c \<longleftrightarrow>
    token_trusted cr v token c \<and> cl_PermitClass c = ClassExecution \<and> cl_Issuer c = vf_expectedIssuer v
    \<and> (\<exists>r. record_at (gs_store g) (cl_PermitID c) = Some r \<and> pr_Claims r = c \<and> pr_State r = StateIssued)
    \<and> IssuedTime c \<le> now
    \<and> (now = zero_time \<or> now < ExpiresTime c) \<and> (max now later = zero_time \<or> max now later < ExpiresTime c)
    \<and> \<not> authority_changed (gs_store g) c
    \<and> actionBindingOutcome cr a c = OutcomeVerified \<and> cl_Obligations c = no_obligations
    \<and> (\<exists>keyID pc. check_proof cr v c proofToken m p now = Some (keyID, pc)
        \<and> fst (NonceStore_Use (gs_nonces g) keyID (pc_Nonce pc) (unix_of now) (proof_expiry v pc)))"

lemma expire_at: "pr_State r = StateIssued \<Longrightarrow> now = zero_time \<or> now < ExpiresTime (pr_Claims r) \<Longrightarrow> expireIfNeeded r now = r"
  by (auto simp: expireIfNeeded_def)

lemma admissible_executes:
  assumes "admissible cr v g token proofToken a m p now later c"
  shows "Result_Allowed (fst (VerifyExecutionAndConsume cr v g token proofToken a m p now later))"
    and "vr_Claims (fst (VerifyExecutionAndConsume cr v g token proofToken a m p now later)) = Some c"
proof -
  obtain pk where pk: "Static_VerificationKey cr (vf_keyProvider v) (cl_SigningKeyID c) = Inr pk"
    "VerifyToken cr pk token = Inr c" using assms by (auto simp: admissible_def token_trusted_def)
  obtain r where r: "record_at (gs_store g) (cl_PermitID c) = Some r" "pr_Claims r = c" "pr_State r = StateIssued"
    using assms by (auto simp: admissible_def)
  obtain keyID pc where pc: "check_proof cr v c proofToken m p now = Some (keyID, pc)"
    "fst (NonceStore_Use (gs_nonces g) keyID (pc_Nonce pc) (unix_of now) (proof_expiry v pc))"
    using assms by (auto simp: admissible_def)
  obtain nonces where nonces:
    "NonceStore_Use (gs_nonces g) keyID (pc_Nonce pc) (unix_of now) (proof_expiry v pc) = (True, nonces)"
    using pc(2) by (metis (full_types) prod.collapse)
  have cl: "cl_PermitClass c = ClassExecution" "cl_Issuer c = vf_expectedIssuer v" "IssuedTime c \<le> now"
    "actionBindingOutcome cr a c = OutcomeVerified" "cl_Obligations c = no_obligations"
    "now = zero_time \<or> now < ExpiresTime c" "max now later = zero_time \<or> max now later < ExpiresTime c"
    "\<not> authority_changed (gs_store g) c"
    using assms by (simp_all add: admissible_def)
  define result where "result = (initial_result now)\<lparr>vr_PermitID := cl_PermitID c, vr_RequestID := cl_RequestID c,
    vr_Claims := Some c, vr_State := StateIssued, vr_Outcome := OutcomeVerified\<rparr>"
  define s1 where "s1 = put_record (cl_PermitID c) r (gs_store g)"
  have i: "inspectPermit cr v (gs_store g) token ClassExecution now = (result, s1)"
    unfolding result_def s1_def
    by (rule inspect_accepts [OF pk(2,1) cl(1,2) r expire_at [OF r(3)] cl(3)]) (simp add: r(2) cl(6))
  have "token_trusted cr v token c" using assms by (simp add: admissible_def)
  then have th: "cl_ExecutorKeyThumbprint c \<noteq> []"
    using Claims_Validate_execution_keys [OF token_trusted_valid cl(1)] by (auto simp: sha256_pattern_def)
  have res: "vr_Outcome result = OutcomeVerified" "vr_Claims result = Some c" "vr_VerifiedAt result = now"
    by (simp_all add: result_def initial_result_def)
  define result1 where "result1 = result\<lparr>vr_ConstraintChecks := [], vr_Verified := True\<rparr>"
  have checks: "ev_Allowed (Evaluate_constraints (cl_Obligations c) a now)"
    "ev_Checks (Evaluate_constraints (cl_Obligations c) a now) = []"
    using Evaluate_allowed Evaluate_checks_cover cl(5) by blast+
  have v: "verifyExecutionProof cr v g token proofToken a m p now =
      (result1, g\<lparr>gs_store := s1, gs_nonces := nonces\<rparr>)"
    using i res th pc(1) cl(4) checks nonces by (simp add: verifyExecutionProof_unfold result1_def Let_def)
  have "record_at s1 (cl_PermitID c) = Some r" "authority_changed s1 c = authority_changed (gs_store g) c"
    by (simp_all add: s1_def)
  then have con: "fst (MemoryStore_Consume s1 (cl_PermitID c) (max now later)) =
      (ConsumeSucceeded, Some (r\<lparr>pr_State := StateConsumed, pr_ConsumedAt := Some (max now later)\<rparr>))"
    using Consume_when [of s1 "cl_PermitID c" r "max now later"] r cl by simp
  have res1: "vr_Outcome result1 = OutcomeVerified" "vr_Claims result1 = Some c" "vr_VerifiedAt result1 = now"
    using res by (simp_all add: result1_def)
  have f: "Result_Allowed (fst (consumeInspected s1 result1 later))" "vr_Claims (fst (consumeInspected s1 result1 later)) = Some c"
    using consume_inspected [OF prod.collapse [symmetric] res1(2), of s1 later] res1(3) con by simp_all
  then show "Result_Allowed (fst (VerifyExecutionAndConsume cr v g token proofToken a m p now later))"
    "vr_Claims (fst (VerifyExecutionAndConsume cr v g token proofToken a m p now later)) = Some c"
    using v res1 by (simp_all add: VerifyExecutionAndConsume_def Let_def case_prod_unfold)
qed

text \<open>Nothing else is allowed.\<close>

lemma allowed_admissible:
  assumes "Result_Allowed (fst (VerifyExecutionAndConsume cr v g token proofToken a m p now later))"
  shows "\<exists>c. admissible cr v g token proofToken a m p now later c"
proof -
  obtain result g' where e: "VerifyExecutionAndConsume cr v g token proofToken a m p now later = (result, g')" by (rule prod.exhaust)
  then have al: "Result_Allowed result" using assms by simp
  obtain c keyID pc where f: "vr_Claims result = Some c"
    "permit_evidence cr v (gs_store g) token ClassExecution c (max now later)"
    "actionBindingOutcome cr a c = OutcomeVerified" "cl_Obligations c = no_obligations"
    "check_proof cr v c proofToken m p now = Some (keyID, pc)"
    "NonceStore_Use (gs_nonces g) keyID (pc_Nonce pc) (unix_of now) (proof_expiry v pc) = (True, gs_nonces g')" "IssuedTime c \<le> now"
    "now = zero_time \<or> now < ExpiresTime c"
    by (rule execute_allowed [OF e al])
  then have "admissible cr v g token proofToken a m p now later c"
    by (simp add: admissible_def permit_evidence_def)
  then show ?thesis by blast
qed

end
