(* ===== verification/Samples.thy ===== *)
theory Samples
  imports Admission
begin

text \<open>
  A concrete deployment for the witnesses: one signing key, one executor key, one action, the
  permit issued for it and the proof of the executor, over the concrete functions of
  \<open>sample_crypto\<close>.
\<close>

definition sample_provider :: signing_key where
  "sample_provider = \<lparr>sk_KeyID = ''k1'', sk_PrivateKey = replicate 64 (CHR ''s'')\<rparr>"

definition sample_executor :: string where "sample_executor = replicate 64 (CHR ''e'')"

definition sample_action :: action where
  "sample_action =
    \<lparr>ac_PrincipalID = ''alice'', ac_AgentID = ''agent'', ac_WorkloadID = ''w'',
     ac_DelegatedAuthorityFingerprint = [], ac_Tool = ''pay'', ac_Capability = ''pay.send'',
     ac_Resource = ''acct'', ac_Operation = ''send'', ac_ProfileID = [], ac_Audience = [],
     ac_ExecutionBinding = [], ac_Arguments = ''{}''\<rparr>"

definition sample_digest :: string where
  "sample_digest = ''sha256:7b226167656e745f6964223a226167656e74222c22617267756d656e7473223a''"

definition sample_request :: issue_request where
  "sample_request =
    \<lparr>ir_PermitID = ''p_1'', ir_PermitClass = ClassExecution, ir_RequestID = ''r1'',
     ir_PrincipalID = ''alice'', ir_AgentID = ''agent'', ir_WorkloadID = ''w'',
     ir_ExecutorKeyID = ''x1'', ir_ExecutorKeyThumbprint = sha256_text sample_crypto (replicate 32 (CHR ''e'')),
     ir_DelegatedAuthorityFingerprint = [], ir_Tool = ''pay'', ir_Capability = ''pay.send'',
     ir_Resource = ''acct'', ir_Operation = ''send'', ir_ProfileID = [], ir_Audience = [],
     ir_ActionDigest = sample_digest, ir_ExecutionBinding = [], ir_AuthorityEpoch = 0,
     ir_PolicyVersion = ''v1'', ir_Obligations = no_obligations, ir_TTL = 0\<rparr>"

definition sample_issuer :: issuer where
  "sample_issuer = \<lparr>is_name = ''aegis'', is_keyProvider = Some sample_provider\<rparr>"

definition sample_now :: time where "sample_now = 1000 * second"

definition sample_claims :: claims where
  "sample_claims = issue_claims sample_issuer sample_provider sample_request ''p_1'' sample_now"

definition sample_token :: string where
  "sample_token =
    (case SignToken sample_crypto (sk_PrivateKey sample_provider) (sk_KeyID sample_provider) sample_claims of
       Inl _ \<Rightarrow> [] | Inr t \<Rightarrow> t)"

definition sample_store :: memory_store where
  "sample_store = put_record ''p_1'' (issued_record sample_claims) NewMemoryStore"

definition sample_proof_claims :: proof_claims where
  "sample_proof_claims =
    \<lparr>pc_PermitID = ''p_1'', pc_ActionDigest = sample_digest, pc_HTTPMethod = ''POST'', pc_HTTPPath = ''/mcp'',
     pc_IssuedAt = 1000, pc_Nonce = ''n1''\<rparr>"

definition sample_proof :: string where
  "sample_proof =
    (case Proof_Sign sample_crypto sample_executor ''x1'' sample_proof_claims of Inl _ \<Rightarrow> [] | Inr t \<Rightarrow> t)"

definition sample_verifier :: verifier where
  "sample_verifier =
    \<lparr>vf_keyProvider = Some sample_provider, vf_expectedIssuer = ''aegis'',
     vf_workloadKeys = Some [(''x1'', replicate 32 (CHR ''e''))],
     vf_proofMaxAge = DefaultExecutionProofMaxAge, vf_proofClockSkew = DefaultExecutionProofSkew\<rparr>"

definition sample_guard :: guard_state where
  "sample_guard = \<lparr>gs_store = sample_store, gs_nonces = Some NewNonceStore\<rparr>"

section \<open>What happens there\<close>

lemma sample_action_digest: "action_Digest sample_crypto sample_action = Inr sample_digest"
  by code_simp

lemma sample_claims_valid: "Claims_Validate sample_claims = None"
  by code_simp

lemma sample_signs:
  "SignToken sample_crypto (sk_PrivateKey sample_provider) ''k1'' sample_claims = Inr sample_token"
proof -
  have "ValidateKeyID ''k1'' = None" by code_simp
  then show ?thesis
    using sample_claims_valid unfolding sample_token_def
    by (simp add: SignToken_def sample_provider_def PrivateKeySize_def Let_def sample_claims_def issue_claims_def)
qed

lemma sample_issues:
  "Issuer_Issue sample_crypto sample_issuer sample_request [] sample_now NewMemoryStore
    = (Inr \<lparr>ip_PermitID = ''p_1'', ip_Claims = sample_claims, ip_token = sample_token\<rparr>, sample_store)"
proof -
  have "Static_CurrentSigningKey (is_keyProvider sample_issuer) = Inr sample_provider" by code_simp
  moreover have "ttl_ok (effective_ttl sample_request)" by code_simp
  moreover have "ir_PermitID sample_request = ''p_1''" by code_simp
  moreover have "time_truncate_second sample_now = sample_now" by code_simp
  moreover have "sk_KeyID sample_provider = ''k1''" by (simp add: sample_provider_def)
  moreover have "MemoryStore_Register NewMemoryStore sample_claims = (None, sample_store)"
  proof -
    have "cl_PermitID sample_claims = ''p_1''" "\<not> authority_changed NewMemoryStore sample_claims" by code_simp+
    then show ?thesis using sample_claims_valid
      by (simp add: MemoryStore_Register_def sample_store_def NewMemoryStore_def mget_def)
  qed
  ultimately show ?thesis using sample_claims_valid sample_signs
    by (simp add: Issuer_Issue_def Let_def sample_claims_def)
qed

lemma sample_token_verifies:
  "VerifyToken sample_crypto (replicate 32 (CHR ''s'')) sample_token = Inr sample_claims"
proof -
  have "int64 (cl_IssuedAt sample_claims)" "int64 (cl_ExpiresAt sample_claims)" by code_simp+
  moreover have "cr_public sample_crypto (sk_PrivateKey sample_provider) = replicate 32 (CHR ''s'')" by code_simp
  ultimately show ?thesis using SignToken_VerifyToken [OF sample_signs sample_signature_ok] by simp
qed

lemma sample_trusted: "token_trusted sample_crypto sample_verifier sample_token sample_claims"
proof -
  have "Static_VerificationKey sample_crypto (vf_keyProvider sample_verifier) (cl_SigningKeyID sample_claims) =
    Inr (replicate 32 (CHR ''s''))" by code_simp
  then show ?thesis using sample_token_verifies by (auto simp: token_trusted_def)
qed

lemma sample_proof_signs: "Proof_Sign sample_crypto sample_executor ''x1'' sample_proof_claims = Inr sample_proof"
proof -
  have "ValidateKeyID ''x1'' = None" "ProofClaims_Validate sample_proof_claims = None"
    "length sample_executor = PrivateKeySize" by code_simp+
  then show ?thesis unfolding sample_proof_def by (simp add: Proof_Sign_def Let_def)
qed

lemma sample_proof_checks:
  "check_proof sample_crypto sample_verifier sample_claims sample_proof ''POST'' ''/mcp'' sample_now =
     Some (''x1'', sample_proof_claims)"
proof -
  have "utf8_valid (pc_PermitID sample_proof_claims)" "int64 (pc_IssuedAt sample_proof_claims)"
    "Registry_VerificationKey (vf_workloadKeys sample_verifier) ''x1'' = Inr (cr_public sample_crypto sample_executor)"
    "''x1'' = cl_ExecutorKeyID sample_claims"
    "sha256_text sample_crypto (cr_public sample_crypto sample_executor) = cl_ExecutorKeyThumbprint sample_claims"
    "pc_PermitID sample_proof_claims = cl_PermitID sample_claims"
    "pc_ActionDigest sample_proof_claims = cl_ActionDigest sample_claims"
    "\<not> proof_stale sample_verifier sample_proof_claims sample_now" by code_simp+
  from check_proof_accepts [OF sample_proof_signs sample_signature_ok this]
  show ?thesis by (simp add: sample_proof_claims_def)
qed

lemma sample_binding: "actionBindingOutcome sample_crypto sample_action sample_claims = OutcomeVerified"
proof -
  have "action_Validate sample_action = None" by code_simp
  then show ?thesis using sample_action_digest
    by (simp add: actionBindingOutcome_def sample_claims_def issue_claims_def sample_request_def sample_action_def)
qed

lemma sample_admissible:
  "admissible sample_crypto sample_verifier sample_guard sample_token sample_proof sample_action ''POST'' ''/mcp''
     sample_now sample_now sample_claims"
proof -
  have "record_at (gs_store sample_guard) (cl_PermitID sample_claims) = Some (issued_record sample_claims)"
  proof -
    have "cl_PermitID sample_claims = ''p_1''" by code_simp
    then show ?thesis by (simp add: sample_guard_def sample_store_def)
  qed
  then have "\<exists>r. record_at (gs_store sample_guard) (cl_PermitID sample_claims) = Some r
      \<and> pr_Claims r = sample_claims \<and> pr_State r = StateIssued" by (simp add: issued_record_def)
  moreover have "cl_PermitClass sample_claims = ClassExecution" "cl_Issuer sample_claims = vf_expectedIssuer sample_verifier"
    "IssuedTime sample_claims \<le> sample_now" "sample_now < ExpiresTime sample_claims"
    "cl_Obligations sample_claims = no_obligations"
    "fst (NonceStore_Use (gs_nonces sample_guard) ''x1'' (pc_Nonce sample_proof_claims) (unix_of sample_now)
       (proof_expiry sample_verifier sample_proof_claims))" by code_simp+
  moreover have "\<not> authority_changed (gs_store sample_guard) sample_claims"
  proof -
    have "cl_ExecutionBinding sample_claims = []" by code_simp
    then show ?thesis by (simp add: authority_changed_def)
  qed
  ultimately show ?thesis
    using sample_trusted sample_proof_checks sample_binding by (simp add: admissible_def)
qed

definition sample_execution :: "verify_result \<times> guard_state" where
  "sample_execution = VerifyExecutionAndConsume sample_crypto sample_verifier sample_guard sample_token sample_proof
     sample_action ''POST'' ''/mcp'' sample_now sample_now"

lemma sample_allowed: "Result_Allowed (fst sample_execution)" "vr_Claims (fst sample_execution) = Some sample_claims"
  using admissible_executes [OF sample_admissible] by (simp_all add: sample_execution_def)

end
