(* ===== verification/Permit_Properties.thy ===== *)
theory Permit_Properties
  imports Samples
begin

text \<open>
  The properties of permits: claims, tokens, the issuer and the store
  (\<open>internal/permit\<close>), with concrete instances.
\<close>

section \<open>Claims and tokens\<close>

text \<open>The forms of text that claims are made of, spelled out apart from the checks of the code.\<close>

definition digest_text :: "string \<Rightarrow> bool" where
  "digest_text s \<longleftrightarrow> (\<exists>h. s = ''sha256:'' @ h \<and> length h = 64 \<and> list_all (\<lambda>c. c \<in> set ''0123456789abcdef'') h)"

definition key_label :: "string \<Rightarrow> bool" where
  "key_label s \<longleftrightarrow> s \<noteq> [] \<and> length s \<le> 128
    \<and> list_all (\<lambda>r. r \<in> {97..122} \<or> r \<in> {65..90} \<or> r \<in> {48..57} \<or> r \<in> {46, 95, 58, 45}) (runes s)"

definition required_text :: "nat \<Rightarrow> string \<Rightarrow> bool" where
  "required_text limit s \<longleftrightarrow> s \<noteq> [] \<and> utf8_valid s \<and> length s \<le> limit \<and> \<not> has_control s"

definition optional_text :: "nat \<Rightarrow> string \<Rightarrow> bool" where
  "optional_text limit s \<longleftrightarrow> s = [] \<or> required_text limit s"

lemma lower_hex_digits: "lower_hex c \<longleftrightarrow> c \<in> set ''0123456789abcdef''"
proof -
  have "\<forall>c :: char. lower_hex c = (c \<in> set ''0123456789abcdef'')" by code_simp
  then show ?thesis by blast
qed

lemma digest_text_pattern: "sha256_pattern s \<longleftrightarrow> digest_text s"
proof
  assume s: "sha256_pattern s"
  then have "s = ''sha256:'' @ drop 7 s" using append_take_drop_id [of 7 s] by (simp add: sha256_pattern_def)
  with s show "digest_text s"
    unfolding digest_text_def by (intro exI [of _ "drop 7 s"]) (simp add: sha256_pattern_def lower_hex_digits [abs_def])
next
  assume "digest_text s"
  then show "sha256_pattern s" by (auto simp: digest_text_def sha256_pattern_def lower_hex_digits [abs_def])
qed

lemma key_label_valid: "ValidateKeyID s = None \<longleftrightarrow> key_label s"
proof -
  have "label_rune r \<longleftrightarrow> r \<in> {97..122} \<or> r \<in> {65..90} \<or> r \<in> {48..57} \<or> r \<in> {46, 95, 58, 45}" for r
    by (auto simp: label_rune_def)
  moreover have "\<not> has_control s" if "list_all label_rune (runes s)"
    using that by (fastforce simp: has_control_def list_all_iff list_ex_iff label_rune_def is_control_def)
  ultimately show ?thesis by (auto simp: ValidateKeyID_def key_label_def list_all_iff)
qed

lemma metadata_required: "validateMetadata n v l True = None \<longleftrightarrow> required_text l v"
  by (auto simp: validateMetadata_def required_text_def)

lemma metadata_optional: "validateMetadata n v l False = None \<longleftrightarrow> optional_text l v"
  by (auto simp: validateMetadata_def optional_text_def required_text_def)

text \<open>C31: exactly the complete and consistent claims are valid. Every required text is there, clean and within its own limit;
  the profile and its audience come together; the signing key is named by a key label; a delegated authority is a
  digest; the permit is of one of two classes, and an execution permit names the key of its executor by label and
  digest while a simulation permit names none; the execution binding is a digest of an execution permit and comes
  exactly with a non-zero authority epoch; the action is a digest; the lifetime is positive and the use single.\<close>

theorem valid_claims_complete:
  "Claims_Validate c = None \<longleftrightarrow>
     required_text 160 (cl_PermitID c) \<and> required_text 128 (cl_SigningKeyID c) \<and> key_label (cl_SigningKeyID c)
     \<and> required_text 160 (cl_RequestID c) \<and> required_text 512 (cl_PrincipalID c) \<and> required_text 512 (cl_AgentID c)
     \<and> required_text 512 (cl_WorkloadID c) \<and> required_text 512 (cl_Tool c) \<and> required_text 512 (cl_Capability c)
     \<and> required_text 2048 (cl_Resource c) \<and> required_text 512 (cl_Operation c) \<and> required_text 512 (cl_PolicyVersion c)
     \<and> required_text 512 (cl_Issuer c)
     \<and> (cl_ProfileID c = [] \<longleftrightarrow> cl_Audience c = []) \<and> optional_text 256 (cl_ProfileID c) \<and> optional_text 1024 (cl_Audience c)
     \<and> optional_text 512 (cl_DelegatedAuthorityFingerprint c)
     \<and> (cl_DelegatedAuthorityFingerprint c = [] \<or> digest_text (cl_DelegatedAuthorityFingerprint c))
     \<and> (cl_PermitClass c = ClassExecution \<and> key_label (cl_ExecutorKeyID c) \<and> digest_text (cl_ExecutorKeyThumbprint c)
        \<or> cl_PermitClass c = ClassSimulation \<and> cl_ExecutorKeyID c = [] \<and> cl_ExecutorKeyThumbprint c = [])
     \<and> (cl_ExecutionBinding c = [] \<and> cl_AuthorityEpoch c = 0
        \<or> digest_text (cl_ExecutionBinding c) \<and> cl_AuthorityEpoch c \<noteq> 0 \<and> cl_PermitClass c = ClassExecution)
     \<and> digest_text (cl_ActionDigest c) \<and> 0 < cl_IssuedAt c \<and> cl_IssuedAt c < cl_ExpiresAt c \<and> cl_SingleUse c"
proof -
  have fields: "(\<forall>e \<in> set (map (\<lambda>(name, value, limit). validateMetadata name value limit True) (claims_fields c)). e = None)
      \<longleftrightarrow> (\<forall>(n, v, l) \<in> set (claims_fields c). required_text l v)"
    by (auto simp: metadata_required)
  have executor: "executor_check c = None \<and> Class_Valid (cl_PermitClass c) \<longleftrightarrow>
      cl_PermitClass c = ClassExecution \<and> key_label (cl_ExecutorKeyID c) \<and> digest_text (cl_ExecutorKeyThumbprint c)
      \<or> cl_PermitClass c = ClassSimulation \<and> cl_ExecutorKeyID c = [] \<and> cl_ExecutorKeyThumbprint c = []"
    by (cases "cl_PermitClass c") (auto simp: executor_check_def Class_Valid_def key_label_valid digest_text_pattern)
  have digest: "\<not> digest_text []" by (simp add: digest_text_def)
  have "Claims_Validate c = None \<longleftrightarrow>
      (executor_check c = None \<and> Class_Valid (cl_PermitClass c))
      \<and> (cl_ExecutionBinding c \<noteq> [] \<longleftrightarrow> cl_AuthorityEpoch c \<noteq> 0)
      \<and> (cl_ExecutionBinding c = [] \<or> digest_text (cl_ExecutionBinding c) \<and> cl_PermitClass c = ClassExecution)
      \<and> (cl_ProfileID c = [] \<longleftrightarrow> cl_Audience c = []) \<and> optional_text 256 (cl_ProfileID c) \<and> optional_text 1024 (cl_Audience c)
      \<and> (\<forall>(n, v, l) \<in> set (claims_fields c). required_text l v)
      \<and> key_label (cl_SigningKeyID c) \<and> optional_text 512 (cl_DelegatedAuthorityFingerprint c)
      \<and> (cl_DelegatedAuthorityFingerprint c = [] \<or> digest_text (cl_DelegatedAuthorityFingerprint c))
      \<and> digest_text (cl_ActionDigest c) \<and> 0 < cl_IssuedAt c \<and> cl_IssuedAt c < cl_ExpiresAt c \<and> cl_SingleUse c"
    unfolding Claims_Validate_def first_error_None set_append ball_Un fields
    by (auto simp: metadata_optional key_label_valid digest_text_pattern)
  then show ?thesis unfolding executor using digest by (auto simp: claims_fields_def)
qed

theorem valid_claims_complete_witness:
  "cl_SingleUse sample_claims \<and> digest_text (cl_ActionDigest sample_claims) \<and> required_text 512 (cl_WorkloadID sample_claims)"
  using valid_claims_complete [of sample_claims] sample_claims_valid by blast

text \<open>C28: a token that \<open>SignToken\<close> produces is accepted by \<open>VerifyToken\<close> under the public half of the key,
  with exactly the signed claims, and names the signing key; whatever the claims contain.\<close>

theorem signed_token_verifies:
  assumes "SignToken cr privateKey keyID c = Inr token" "signature_ok cr"
    and "int64 (cl_IssuedAt c)" "int64 (cl_ExpiresAt c)"
  shows "VerifyToken cr (cr_public cr privateKey) token = Inr c \<and> TokenKeyID token = Inr keyID"
  by (rule SignToken_VerifyToken [OF assms])

theorem signed_token_verifies_witness:
  "VerifyToken sample_crypto (cr_public sample_crypto (sk_PrivateKey sample_provider)) sample_token = Inr sample_claims
    \<and> TokenKeyID sample_token = Inr ''k1''"
proof -
  have "int64 (cl_IssuedAt sample_claims)" "int64 (cl_ExpiresAt sample_claims)" by code_simp+
  then show ?thesis by (rule signed_token_verifies [OF sample_signs sample_signature_ok])
qed

text \<open>An accepted token is three non-empty dot-free parts; the signature over the first two verifies
  under the given key, the payload decodes to valid claims, and the key named in the header is the one
  named in the claims.\<close>

theorem accepted_token_signed:
  assumes "VerifyToken cr publicKey token = Inr c"
  shows "\<exists>header payload signature.
    token = header @ ''.'' @ payload @ ''.'' @ b64_encode signature \<and> length signature = SignatureSize
    \<and> cr_verify cr publicKey (header @ ''.'' @ payload) signature
    \<and> (\<exists>text. b64_decode False payload = Some text \<and> strictJSON claims_decoder empty_claims text = Some c)
    \<and> Claims_Validate c = None \<and> TokenKeyID token = Inr (cl_SigningKeyID c)"
proof -
  obtain p0 p1 signature payload where "token = p0 @ ''.'' @ p1 @ ''.'' @ b64_encode signature"
    "cr_verify cr publicKey (p0 @ ''.'' @ p1) signature" "length signature = SignatureSize"
    "Claims_Validate c = None" "b64_decode False p1 = Some payload"
    "strictJSON claims_decoder empty_claims payload = Some c" "TokenKeyID token = Inr (cl_SigningKeyID c)"
    by (rule VerifyToken_signed [OF assms])
  then show ?thesis by blast
qed

theorem accepted_token_signed_witness:
  "TokenKeyID sample_token = Inr (cl_SigningKeyID sample_claims)"
  using accepted_token_signed [OF sample_token_verifies] by blast

section \<open>The issuer\<close>

text \<open>C27: a permit that \<open>Issue\<close> returns is registered as issued under its own identifier, which was free;
  its claims are the request's, its lifetime is the whole number of seconds asked for, between one and nine
  hundred from the truncated reading of the clock, and its token verifies to those claims under the
  issuer's key.\<close>

theorem issued_permit_usable:
  assumes "Issuer_Issue cr i request random clock s = (Inr p, s')" "signature_ok cr"
    and "int64 (unix_of clock)" "int64 (unix_of clock + 900)"
  shows "\<exists>key. Static_CurrentSigningKey (is_keyProvider i) = Inr key
    \<and> ip_Claims p = issue_claims i key request (ip_PermitID p) (time_truncate_second clock)
    \<and> VerifyToken cr (cr_public cr (sk_PrivateKey key)) (IssuedPermit_Token p) = Inr (ip_Claims p)
    \<and> cl_IssuedAt (ip_Claims p) = unix_of clock
    \<and> cl_IssuedAt (ip_Claims p) + 1 \<le> cl_ExpiresAt (ip_Claims p) \<and> cl_ExpiresAt (ip_Claims p) \<le> cl_IssuedAt (ip_Claims p) + 900
    \<and> record_at s (ip_PermitID p) = None \<and> record_at s' (ip_PermitID p) = Some (issued_record (ip_Claims p))"
proof -
  obtain key where k: "Static_CurrentSigningKey (is_keyProvider i) = Inr key" "ttl_ok (effective_ttl request)"
    "ip_Claims p = issue_claims i key request (ip_PermitID p) (time_truncate_second clock)"
    "SignToken cr (sk_PrivateKey key) (sk_KeyID key) (ip_Claims p) = Inr (ip_token p)"
    "MemoryStore_Register s (ip_Claims p) = (None, s')" by (rule Issue_parts [OF assms(1)])
  have w: "cl_IssuedAt (ip_Claims p) = unix_of clock" "cl_PermitID (ip_Claims p) = ip_PermitID p"
    "cl_ExpiresAt (ip_Claims p) = unix_of clock + effective_ttl request div second"
    using k(3) issue_window(1) [OF k(2)] by (simp_all add: issue_claims_def unix_of_def time_truncate_second_def)
  then have "int64 (cl_IssuedAt (ip_Claims p))" "int64 (cl_ExpiresAt (ip_Claims p))"
    using assms(3,4) issue_window(2,3) [OF k(2)] by (simp_all add: int64_def)
  then have "VerifyToken cr (cr_public cr (sk_PrivateKey key)) (ip_token p) = Inr (ip_Claims p)"
    using SignToken_VerifyToken [OF k(4) assms(2)] by blast
  then show ?thesis
    using k w Register_ok [OF k(5)] issue_window(2,3) [OF k(2)] by (auto simp: IssuedPermit_Token_def)
qed

theorem issued_permit_usable_witness:
  "record_at sample_store ''p_1'' = Some (issued_record sample_claims) \<and> cl_IssuedAt sample_claims = 1000"
proof -
  have "int64 (unix_of sample_now)" "int64 (unix_of sample_now + 900)" "unix_of sample_now = 1000" by code_simp+
  from issued_permit_usable [OF sample_issues sample_signature_ok this(1,2)] this(3) show ?thesis by auto
qed

text \<open>A request that is refused, for whatever reason, leaves the store as it was.\<close>

theorem refused_issue_keeps_store:
  assumes "Issuer_Issue cr i request random clock s = (Inl e, s')"
  shows "s' = s"
  by (rule Issue_error_keeps [OF assms])

theorem refused_issue_keeps_store_witness:
  "\<exists>e. Issuer_Issue sample_crypto sample_issuer (sample_request\<lparr>ir_TTL := 1\<rparr>) [] sample_now sample_store = (Inl e, sample_store)"
proof -
  have "Static_CurrentSigningKey (is_keyProvider sample_issuer) = Inr sample_provider"
    "\<not> ttl_ok (effective_ttl (sample_request\<lparr>ir_TTL := 1\<rparr>))" by code_simp+
  then obtain e s' where "Issuer_Issue sample_crypto sample_issuer (sample_request\<lparr>ir_TTL := 1\<rparr>) [] sample_now sample_store
    = (Inl e, s')" by (simp add: Issuer_Issue_def)
  with refused_issue_keeps_store [OF this] show ?thesis by blast
qed

section \<open>The store\<close>

text \<open>In every sequence of calls of the store, by any clients in any interleaving, a permit is consumed
  at most once.\<close>

theorem store_consumes_once:
  "count_replies (consumed_now i) xs (fst (run_ops store_step xs s)) \<le> 1"
  by (rule memory.granted_once [OF prod.collapse [symmetric]])

text \<open>C25: from the empty store, every sequence of calls reaches a store in which each record lies under its
  own identifier with valid claims and the timestamps of its state, and every permit still issued under an
  authority is bound to the enabled, current epoch of that authority.\<close>

theorem store_invariant: "store_ok (snd (run_ops store_step xs NewMemoryStore))"
  by (rule run_store_ok [OF store_ok_new prod.collapse [symmetric]])

text \<open>C26: each call of the store is a step of the lifecycle absent, active, closed (consumed, expired or
  revoked) of every permit; nothing leaves closed.\<close>

theorem store_refines_lifecycle:
  assumes "store_ok s"
  shows "lifecycle_step (lifecycle_of s i) (lifecycle_of (snd (store_step x s)) i)"
  by (rule step_lifecycle [OF assms prod.collapse [symmetric]])

theorem store_refines_lifecycle_witness:
  "lifecycle_step (lifecycle_of NewMemoryStore ''p_1'')
     (lifecycle_of (snd (store_step (OpRegister sample_claims) NewMemoryStore)) ''p_1'')"
  by (rule store_refines_lifecycle [OF store_ok_new])

text \<open>\<open>Consume\<close> succeeds exactly on a recorded permit that is issued, has not expired at the given time
  and whose authority is unchanged.\<close>

theorem consume_succeeds_iff:
  "fst (fst (MemoryStore_Consume s i t)) = ConsumeSucceeded \<longleftrightarrow>
    (\<exists>r. record_at s i = Some r \<and> pr_State r = StateIssued
       \<and> (t = zero_time \<or> t < ExpiresTime (pr_Claims r)) \<and> \<not> authority_changed s (pr_Claims r))"
  (is "?l \<longleftrightarrow> ?r")
proof
  assume ?l
  then obtain res s' where c: "MemoryStore_Consume s i t = ((ConsumeSucceeded, res), s')" by (metis prod.collapse)
  obtain r where "record_at s i = Some r" "pr_State r = StateIssued"
    "t = zero_time \<or> t < ExpiresTime (pr_Claims r)" "\<not> authority_changed s (pr_Claims r)"
    by (rule Consume_succeeds [OF c])
  then show ?r by blast
next
  assume ?r
  then obtain r where r: "record_at s i = Some r" "pr_State r = StateIssued"
    "t = zero_time \<or> t < ExpiresTime (pr_Claims r)" "\<not> authority_changed s (pr_Claims r)" by blast
  show ?l by (simp add: Consume_when [OF r])
qed

lemma stale_epoch:
  assumes "SetAuthorityEnabled s k b t = (a, None, s1)" "run_ops store_step xs s1 = (rs, s2)"
    "cl_ExecutionBinding c \<noteq> []" "Claims_AuthorityKey c = k" "cl_AuthorityEpoch c = as_Epoch (authorityLocked s k)"
  shows "authority_changed s2 c"
proof -
  have "unat (as_Epoch (authorityLocked s k)) < unat (as_Epoch (authorityLocked s1 k))"
    using SetAuthority_ok(1,2,4) [OF assms(1)] epoch_succ by simp
  moreover have "unat (as_Epoch (authorityLocked s1 k)) \<le> unat (as_Epoch (authorityLocked s2 k))"
    using run_epoch [OF assms(2), of k] by (auto intro: less_imp_le_nat)
  ultimately have "as_Epoch (authorityLocked s k) \<noteq> as_Epoch (authorityLocked s2 k)" by auto
  then show ?thesis using assms(3-5) by (simp add: authority_changed_def Let_def)
qed

text \<open>C24: once an authority was switched, on or off, permits bound to its old epoch are dead for good: after
  any further calls, including switching it back on, no such permit is registered or consumed.\<close>

theorem authority_change_final:
  assumes "SetAuthorityEnabled s k b t = (a, None, s1)" "run_ops store_step xs s1 = (rs, s2)"
    and "cl_ExecutionBinding c \<noteq> []" "Claims_AuthorityKey c = k" "cl_AuthorityEpoch c = as_Epoch (authorityLocked s k)"
  shows "fst (MemoryStore_Register s2 c) \<noteq> None \<and>
    (\<forall>i u r s3. MemoryStore_Consume s2 i u = ((ConsumeSucceeded, Some r), s3) \<longrightarrow> pr_Claims r \<noteq> c)"
proof (intro conjI allI impI)
  note stale = stale_epoch [OF assms]
  show "fst (MemoryStore_Register s2 c) \<noteq> None" using stale by (simp add: MemoryStore_Register_def split: option.split)
  fix i u r s3
  assume c: "MemoryStore_Consume s2 i u = ((ConsumeSucceeded, Some r), s3)"
  obtain r0 where "\<not> authority_changed s2 (pr_Claims r0)" "Some r = Some (r0\<lparr>pr_State := StateConsumed, pr_ConsumedAt := Some u\<rparr>)"
    by (rule Consume_succeeds [OF c])
  then show "pr_Claims r \<noteq> c" using stale by auto
qed

definition bound_claims :: claims where
  "bound_claims = sample_claims\<lparr>cl_ExecutionBinding := sample_digest, cl_AuthorityEpoch := 1\<rparr>"

theorem authority_change_final_witness:
  "fst (MemoryStore_Register
     (snd (run_ops store_step [OpSetAuthority (Claims_AuthorityKey bound_claims) True 7]
       (snd (snd (SetAuthorityEnabled NewMemoryStore (Claims_AuthorityKey bound_claims) False 5)))))
     bound_claims) \<noteq> None"
proof -
  have "SetAuthorityEnabled NewMemoryStore (Claims_AuthorityKey bound_claims) False 5
      = (\<lparr>as_Epoch = 2, as_Enabled = False\<rparr>, None, snd (snd (SetAuthorityEnabled NewMemoryStore (Claims_AuthorityKey bound_claims) False 5)))"
    by code_simp
  moreover have "cl_ExecutionBinding bound_claims \<noteq> []" by code_simp
  moreover have "cl_AuthorityEpoch bound_claims = as_Epoch (authorityLocked NewMemoryStore (Claims_AuthorityKey bound_claims))"
    by code_simp
  ultimately show ?thesis using authority_change_final [OF _ prod.collapse [symmetric] _ refl] by blast
qed

text \<open>The epoch of an authority never goes back and never wraps: over any sequence of calls it stays or
  grows as an unsigned 64-bit number, and switching at the last epoch is refused with the store unchanged.\<close>

theorem authority_epoch_grows:
  "(authorityLocked (snd (run_ops store_step xs s)) k = authorityLocked s k
      \<or> unat (as_Epoch (authorityLocked s k)) < unat (as_Epoch (authorityLocked (snd (run_ops store_step xs s)) k)))
   \<and> (as_Epoch (authorityLocked s k) = max_epoch \<longrightarrow> snd (snd (SetAuthorityEnabled s k b t)) = s)"
proof (intro conjI impI)
  show "authorityLocked (snd (run_ops store_step xs s)) k = authorityLocked s k
      \<or> unat (as_Epoch (authorityLocked s k)) < unat (as_Epoch (authorityLocked (snd (run_ops store_step xs s)) k))"
    by (rule run_epoch [OF prod.collapse [symmetric]])
  assume max: "as_Epoch (authorityLocked s k) = max_epoch"
  obtain a e s' where r: "SetAuthorityEnabled s k b t = (a, e, s')" by (metis prod.exhaust)
  then have "e \<noteq> None" using SetAuthority_ok(1) [of s k b t a s'] max by auto
  then show "snd (snd (SetAuthorityEnabled s k b t)) = s" using r SetAuthority_error by auto
qed

theorem authority_epoch_grows_witness:
  "snd (snd (SetAuthorityEnabled
      (NewMemoryStore\<lparr>st_authorities := [(Claims_AuthorityKey sample_claims, \<lparr>as_Epoch = max_epoch, as_Enabled = True\<rparr>)]\<rparr>)
      (Claims_AuthorityKey sample_claims) False 5))
    = NewMemoryStore\<lparr>st_authorities := [(Claims_AuthorityKey sample_claims, \<lparr>as_Epoch = max_epoch, as_Enabled = True\<rparr>)]\<rparr>"
  using authority_epoch_grows
    [of "[]" "NewMemoryStore\<lparr>st_authorities := [(Claims_AuthorityKey sample_claims, \<lparr>as_Epoch = max_epoch, as_Enabled = True\<rparr>)]\<rparr>"
      "Claims_AuthorityKey sample_claims" False 5]
  by (simp add: authorityLocked_def mget_def)

text \<open>\<open>List\<close> answers every record exactly once, expired ones marked as of the given time, the newest
  first and permits of the same second by identifier.\<close>

theorem list_sorted_complete:
  "sorted (map (\<lambda>r. (- cl_IssuedAt (pr_Claims r), cl_PermitID (pr_Claims r))) (fst (MemoryStore_List s t)))
   \<and> length (fst (MemoryStore_List s t)) = length (st_records s)
   \<and> set (fst (MemoryStore_List s t)) = (\<lambda>(_, r). expireIfNeeded r t) ` set (st_records s)"
proof -
  note l = List_records [OF prod.collapse [symmetric], of s t]
  have "set (fst (MemoryStore_List s t)) = (\<lambda>(_, r). expireIfNeeded r t) ` set (st_records s)"
    by (force simp: MemoryStore_List_def mupdate_all_def Let_def)
  then show ?thesis using l(1,3) by blast
qed

end
