(* ===== verification/Proof_Properties.thy ===== *)
theory Proof_Properties
  imports Samples
begin

text \<open>
  The properties of proofs of possession (\<open>internal/executionproof\<close>) and of the constraint
  evaluator (\<open>internal/executionconstraints\<close>), with concrete instances.
\<close>

text \<open>C29: a proof token that \<open>Sign\<close> produces verifies under the public half of the key to exactly the signed
  claims, and names the key.\<close>

theorem signed_proof_verifies:
  assumes "Proof_Sign cr privateKey keyID c = Inr token" "signature_ok cr"
    and "utf8_valid (pc_PermitID c)" "int64 (pc_IssuedAt c)"
  shows "Proof_Verify cr (cr_public cr privateKey) token = Inr c \<and> Proof_TokenKeyID token = Inr keyID"
  by (rule Proof_Sign_Verify [OF assms])

theorem signed_proof_verifies_witness:
  "Proof_Verify sample_crypto (cr_public sample_crypto sample_executor) sample_proof = Inr sample_proof_claims"
proof -
  have "utf8_valid (pc_PermitID sample_proof_claims)" "int64 (pc_IssuedAt sample_proof_claims)" by code_simp+
  then show ?thesis using signed_proof_verifies [OF sample_proof_signs sample_signature_ok] by blast
qed

text \<open>A registered executor key is immutable: whatever is registered afterwards, and in whatever order, the
  identifier resolves to the same key.\<close>

theorem executor_keys_immutable:
  assumes "Registry_VerificationKey registry k = Inr pk"
  shows "Registry_VerificationKey (fold (\<lambda>(k', pk') r. snd (Registry_Register r k' pk')) regs registry) k = Inr pk"
  using assms
proof (induction regs arbitrary: registry)
  case (Cons reg regs)
  have "Registry_VerificationKey (snd (Registry_Register registry (fst reg) (snd reg))) k = Inr pk"
    by (rule Registry_Register_keeps [OF prod.collapse [symmetric] Cons.prems])
  then show ?case using Cons.IH by (simp add: case_prod_unfold)
qed simp

theorem executor_keys_immutable_witness:
  "Registry_VerificationKey
     (fold (\<lambda>(k', pk') r. snd (Registry_Register r k' pk')) [(''x1'', replicate 32 (CHR ''z''))]
        (Some [(''x1'', replicate 32 (CHR ''e''))])) ''x1'' = Inr (replicate 32 (CHR ''e''))"
  by (rule executor_keys_immutable) code_simp

text \<open>Any uses of the nonce store at times before \<open>e\<close> keep a nonce that lives until \<open>e\<close>.\<close>

abbreviation use_nonce :: "string \<times> string \<times> int \<times> int \<Rightarrow> nonce_store option \<Rightarrow> bool \<times> nonce_store option" where
  "use_nonce x store \<equiv> NonceStore_Use store (fst x) (fst (snd x)) (fst (snd (snd x))) (snd (snd (snd x)))"

lemma uses_keep:
  "live_nonce store k n e \<Longrightarrow> \<forall>(k', n', now, e') \<in> set xs. now < e \<Longrightarrow>
     live_nonce (snd (run_ops use_nonce xs store)) k n e"
proof (induction xs arbitrary: store)
  case (Cons x xs)
  have "fst (snd (snd x)) < e" using Cons.prems(2) by (auto simp: case_prod_unfold)
  then have "live_nonce (snd (use_nonce x store)) k n e" by (rule Use_keeps [OF Cons.prems(1) _ prod.collapse [symmetric]])
  then show ?case using Cons by (simp add: Let_def case_prod_unfold)
qed simp

text \<open>C30: a nonce that was accepted until some time is refused for the same key at every moment before that
  time, after any further uses of the store, whatever expiry the replay claims.\<close>

theorem nonce_not_replayed:
  assumes "nonces_wf store" "NonceStore_Use store k n now e = (True, store')"
    and "\<forall>(k', n', t, e') \<in> set xs. t < e" "later < e"
  shows "\<not> fst (NonceStore_Use (snd (run_ops use_nonce xs store')) k n later e')"
  using Use_rejects [OF uses_keep assms(4)] Use_accepts [OF assms(1,2)] assms(3) by blast

theorem nonce_not_replayed_witness:
  "\<not> fst (NonceStore_Use
      (snd (run_ops use_nonce [(''k'', ''m'', 11, 40), (''j'', ''n'', 12, 40)]
        (Some [(nonce_key ''k'' ''n'', 30)]))) ''k'' ''n'' 29 99)"
proof -
  have "nonces_wf (Some NewNonceStore)" by (simp add: nonces_wf_def map_wf_def NewNonceStore_def)
  moreover have "NonceStore_Use (Some NewNonceStore) ''k'' ''n'' 10 30 = (True, Some [(nonce_key ''k'' ''n'', 30)])"
    by code_simp
  ultimately show ?thesis by (rule nonce_not_replayed) simp_all
qed

text \<open>The evaluator of obligations answers eligible exactly when no obligation is set; otherwise it reports a
  check for every one that is set, none of them satisfied.\<close>

theorem constraints_fail_closed:
  "(ev_Allowed (Evaluate_constraints ob a t) \<longleftrightarrow> ob = no_obligations)
   \<and> length (ev_Checks (Evaluate_constraints ob a t)) =
       length (filter id [ob_IsolationRequired ob, ob_NetworkEgressDenied ob, ob_ReadOnly ob,
         ob_HumanApprovalRequired ob, ob_EnhancedAuditRequired ob])
   \<and> (\<forall>ck \<in> set (ev_Checks (Evaluate_constraints ob a t)). ck_Status ck \<noteq> Satisfied)"
proof -
  have "length (ev_Checks (Evaluate_constraints ob a t)) =
       length (filter id [ob_IsolationRequired ob, ob_NetworkEgressDenied ob, ob_ReadOnly ob,
         ob_HumanApprovalRequired ob, ob_EnhancedAuditRequired ob])"
    using no_obligations_iff [of ob] by (simp add: Evaluate_constraints_def Let_def)
  then show ?thesis using Evaluate_allowed Evaluate_checks_unsupported by fastforce
qed

theorem constraints_fail_closed_witness:
  "\<not> ev_Allowed (Evaluate_constraints (no_obligations\<lparr>ob_ReadOnly := True\<rparr>) sample_action 5)"
  using constraints_fail_closed [of "no_obligations\<lparr>ob_ReadOnly := True\<rparr>" sample_action 5]
  by (simp add: no_obligations_def)

end
