(* ===== verification/Verifier_Threads.thy ===== *)
theory Verifier_Threads
  imports Verifier_Facts
begin

text \<open>
  Concurrent calls of the verifier. Nothing in \<open>internal/verifier/verifier.go\<close> holds a lock over a
  whole verification: \<open>inspectPermit\<close> takes the lock of the store in \<open>Get\<close>,
  \<open>verifyExecutionProof\<close> that of the registered keys and then that of the nonces, and
  \<open>consumeInspected\<close> that of the store again, in \<open>Consume\<close>. Here each call is a thread with a
  program counter, a step of a thread is the code up to and including its next locked access, and
  between two steps of one thread anything else may happen: steps of any number of other
  verifications, calls of the store by the issuer, the operator or the router, and registrations
  of workload keys.
\<close>

section \<open>Threads\<close>

datatype verifier_call =
    CallExecute string string action string string
  | CallCheck string action
  | CallSimulate string action

datatype verifier_thread =
    Called verifier_call
  | Inspected string action string string verify_result
  | ProofHeld string proof_claims action verify_result
  | Consuming verify_result

fun call_token :: "verifier_call \<Rightarrow> string" where
  "call_token (CallExecute token proofToken a m p) = token"
| "call_token (CallCheck token a) = token"
| "call_token (CallSimulate token a) = token"

fun call_class :: "verifier_call \<Rightarrow> permit_class" where
  "call_class (CallSimulate token a) = ClassSimulation"
| "call_class _ = ClassExecution"

text \<open>What a call does with a permit that inspection found to be verified, before it touches anything shared again.\<close>

fun after_inspection :: "crypto \<Rightarrow> verifier_call \<Rightarrow> verify_result \<Rightarrow> verify_result + verifier_thread" where
  "after_inspection cr (CallExecute token proofToken a m p) result = Inr (Inspected proofToken a m p result)"
| "after_inspection cr (CallCheck token a) result =
    (let out = actionBindingOutcome cr a (the (vr_Claims result))
     in if out \<noteq> OutcomeVerified then Inl (result\<lparr>vr_Outcome := out\<rparr>)
        else Inl (result\<lparr>vr_Outcome := OutcomeValidNotConsumed, vr_Verified := False\<rparr>))"
| "after_inspection cr (CallSimulate token a) result =
    (let out = actionBindingOutcome cr a (the (vr_Claims result))
     in if out \<noteq> OutcomeVerified then Inl (result\<lparr>vr_Outcome := out\<rparr>) else Inr (Consuming result))"

text \<open>
  One step of a thread: \<open>Inl\<close> is the result the call returns, \<open>Inr\<close> where it stands now. \<open>t\<close> is what
  the clock answers if the step reads it.
\<close>

fun thread_step ::
  "crypto \<Rightarrow> verifier \<Rightarrow> time \<Rightarrow> verifier_thread \<Rightarrow> guard_state \<Rightarrow> (verify_result + verifier_thread) \<times> guard_state" where
  "thread_step cr v t (Called call) g =
    (let (result, s') = inspectPermit cr v (gs_store g) (call_token call) (call_class call) t
     in (if vr_Outcome result \<noteq> OutcomeVerified then Inl result else after_inspection cr call result,
         g\<lparr>gs_store := s'\<rparr>))"
| "thread_step cr v t (Inspected proofToken a m p result) g =
    (case proofChecked cr v result proofToken m p of
       Inl failed \<Rightarrow> (Inl failed, g)
     | Inr (keyID, pc) \<Rightarrow> (Inr (ProofHeld keyID pc a result), g))"
| "thread_step cr v t (ProofHeld keyID pc a result) g =
    (let (final, g') = proofAdmitted cr v g result keyID pc a
     in (if vr_Outcome final \<noteq> OutcomeVerified then Inl final else Inr (Consuming final), g'))"
| "thread_step cr v t (Consuming result) g =
    (let (final, s') = consumeInspected (gs_store g) result t in (Inl final, g\<lparr>gs_store := s'\<rparr>))"

section \<open>A thread that nobody interrupts\<close>

text \<open>A thread run alone, with what the clock answers at each step.\<close>

fun thread_alone ::
  "crypto \<Rightarrow> verifier \<Rightarrow> time list \<Rightarrow> verifier_thread \<Rightarrow> guard_state \<Rightarrow> (verify_result \<times> guard_state) option" where
  "thread_alone cr v [] th g = None"
| "thread_alone cr v (t # ts) th g =
    (case thread_step cr v t th g of
       (Inl result, g') \<Rightarrow> Some (result, g')
     | (Inr th', g') \<Rightarrow> thread_alone cr v ts th' g')"

text \<open>The steps of a call, put together, are the function the code has: all its branches, in four steps at most.\<close>

lemma proofChecked_failed: "proofChecked cr v result proofToken m p = Inl failed \<Longrightarrow> vr_Outcome failed \<noteq> OutcomeVerified"
  by (auto simp: proofChecked_def split: option.splits if_splits)

lemma execute_alone:
  "thread_alone cr v [now, t1, t2, later] (Called (CallExecute token proofToken a m p)) g =
     Some (VerifyExecutionAndConsume cr v g token proofToken a m p now later)"
  by (auto simp: VerifyExecutionAndConsume_def verifyExecutionProof_def Let_def dest: proofChecked_failed split: prod.split sum.split)

lemma simulate_alone:
  "thread_alone cr v [now, later] (Called (CallSimulate token a)) g =
     Some (let (r, s') = VerifySimulationAndConsume cr v (gs_store g) token a now later in (r, g\<lparr>gs_store := s'\<rparr>))"
  by (auto simp: VerifySimulationAndConsume_def Let_def split: prod.split)

lemma check_alone:
  "thread_alone cr v [now] (Called (CallCheck token a)) g =
     Some (let (r, s') = CheckExecution cr v (gs_store g) token a now in (r, g\<lparr>gs_store := s'\<rparr>))"
  by (auto simp: CheckExecution_def Let_def split: prod.split)

section \<open>Any number of threads\<close>

text \<open>The verifier with the keys registered so far, what its calls share, and the calls under way.\<close>

record guard_system =
  sy_verifier :: verifier
  sy_guard :: guard_state
  sy_threads :: "nat \<Rightarrow> verifier_thread option"

text \<open>
  Who moves next: a thread that calls one of the three functions, a thread under way, a caller of the
  store that is not the verifier, or an embedder that registers a key.
\<close>

datatype guard_event =
    ThreadCalls nat verifier_call
  | ThreadMoves nat time
  | StoreCalled store_op
  | KeyRegistered string string

datatype guard_reply =
    Returned verify_result
  | StoreReplied store_reply
  | Underway

fun guard_step :: "crypto \<Rightarrow> guard_event \<Rightarrow> guard_system \<Rightarrow> guard_reply \<times> guard_system" where
  "guard_step cr (ThreadCalls k call) y =
    (case sy_threads y k of
       Some th \<Rightarrow> (Underway, y)
     | None \<Rightarrow> (Underway, y\<lparr>sy_threads := (sy_threads y)(k \<mapsto> Called call)\<rparr>))"
| "guard_step cr (ThreadMoves k t) y =
    (case sy_threads y k of
       None \<Rightarrow> (Underway, y)
     | Some th \<Rightarrow>
         (case thread_step cr (sy_verifier y) t th (sy_guard y) of
            (Inl result, g') \<Rightarrow> (Returned result, y\<lparr>sy_guard := g', sy_threads := (sy_threads y)(k := None)\<rparr>)
          | (Inr th', g') \<Rightarrow> (Underway, y\<lparr>sy_guard := g', sy_threads := (sy_threads y)(k \<mapsto> th')\<rparr>)))"
| "guard_step cr (StoreCalled x) y =
    (let (reply, s') = store_step x (gs_store (sy_guard y))
     in (StoreReplied reply, y\<lparr>sy_guard := (sy_guard y)\<lparr>gs_store := s'\<rparr>\<rparr>))"
| "guard_step cr (KeyRegistered keyID publicKey) y =
    (Underway, y\<lparr>sy_verifier := snd (RegisterWorkloadPublicKey (sy_verifier y) keyID publicKey)\<rparr>)"

text \<open>The reply to an event that gives the use of permit \<open>i\<close> away.\<close>

fun granted_now :: "string \<Rightarrow> guard_event \<times> guard_reply \<Rightarrow> bool" where
  "granted_now i (x, Returned result) \<longleftrightarrow> Result_Allowed result \<and> map_option cl_PermitID (vr_Claims result) = Some i"
| "granted_now i (StoreCalled x, StoreReplied r) \<longleftrightarrow> consumed_now i (x, r)"
| "granted_now i _ \<longleftrightarrow> False"

section \<open>The laws of the store, step by step\<close>

lemma admitted_store: "proofAdmitted cr v g result keyID pc a = (final, g') \<Longrightarrow> gs_store g' = gs_store g"
  by (auto simp: proofAdmitted_def Let_def split: if_splits prod.splits)

lemma thread_calls:
  assumes "thread_step cr v t th g = (out, g')"
  shows "by_calls (\<lambda>c. True) (gs_store g) (gs_store g')"
proof (cases th)
  case (Called call)
  obtain result s' where i: "inspectPermit cr v (gs_store g) (call_token call) (call_class call) t = (result, s')"
    by (rule prod.exhaust)
  then show ?thesis using assms Called inspect_calls [OF i] by auto
next
  case (Inspected proofToken a m p result)
  then show ?thesis using assms by (auto split: sum.splits)
next
  case (ProofHeld keyID pc a result)
  then show ?thesis using assms admitted_store by (auto split: prod.splits)
next
  case (Consuming result)
  then show ?thesis using assms consumeInspected_calls [of _ "gs_store g" result t] by (auto split: prod.splits)
qed

lemma guard_calls:
  assumes "guard_step cr x y = (reply, y')"
  shows "by_calls (\<lambda>c. True) (gs_store (sy_guard y)) (gs_store (sy_guard y'))"
proof (cases x)
  case (ThreadMoves k t)
  then show ?thesis using assms thread_calls by (fastforce split: option.splits prod.splits sum.splits)
next
  case (StoreCalled op)
  then show ?thesis
    using assms by_calls_step [of "\<lambda>c. True" op "gs_store (sy_guard y)"]
    by (auto simp: registers_def split: prod.splits store_op.splits)
qed (use assms in \<open>auto split: option.splits\<close>)

lemma guard_keeps:
  "guard_step cr x y = (reply, y') \<Longrightarrow> record_at (gs_store (sy_guard y)) i = Some r \<Longrightarrow>
     \<exists>r'. record_at (gs_store (sy_guard y')) i = Some r' \<and> pr_Claims r' = pr_Claims r \<and> (pr_State r \<noteq> StateIssued \<longrightarrow> r' = r)"
  using by_calls_moves [OF guard_calls] unfolding moves_def .

text \<open>
  A thread returns an allowed result only from its last step, and that step found the record
  issued: what the inspection saw earlier plays no part.
\<close>

lemma after_inspection_not_allowed: "after_inspection cr call result = Inl final \<Longrightarrow> \<not> Result_Allowed final"
  by (cases "(cr, call, result)" rule: after_inspection.cases) (auto simp: Result_Allowed_def Let_def split: if_splits)

lemma thread_allowed:
  assumes "thread_step cr v t th g = (Inl final, g')" "Result_Allowed final"
  obtains result where "th = Consuming result" "consumeInspected (gs_store g) result t = (final, gs_store g')"
proof (cases th)
  case (Called call)
  then show thesis
    using assms after_inspection_not_allowed by (fastforce simp: Result_Allowed_def split: prod.splits if_splits)
next
  case (Inspected proofToken a m p result)
  then show thesis using assms proofChecked_failed by (fastforce simp: Result_Allowed_def split: sum.splits)
next
  case (ProofHeld keyID pc a result)
  then show thesis using assms by (auto simp: Result_Allowed_def split: prod.splits if_splits)
next
  case (Consuming result)
  then show thesis using assms that by (auto split: prod.splits)
qed

lemma consume_step_takes:
  assumes "consumeInspected s result t = (final, s')" "Result_Allowed final"
    and "map_option cl_PermitID (vr_Claims final) = Some i"
  shows "(\<exists>r. record_at s i = Some r \<and> pr_State r = StateIssued) \<and> (\<exists>r'. record_at s' i = Some r' \<and> pr_State r' = StateConsumed)"
proof -
  have "vr_Claims final = vr_Claims result" using assms(1) by (auto simp: consumeInspected_def Let_def split: prod.splits)
  then obtain c where c: "vr_Claims result = Some c" "cl_PermitID c = i" using assms(3) by auto
  obtain rec where "MemoryStore_Consume s i (max (vr_VerifiedAt result) t) = ((ConsumeSucceeded, rec), s')"
    using consume_inspected(1,2) [OF assms(1) c(1)] assms(2) c(2) by (metis prod.collapse)
  then show ?thesis by (rule Consume_succeeds) simp
qed

lemma guard_consumes:
  assumes "guard_step cr x y = (reply, y')" "granted_now i (x, reply)"
  shows "(\<exists>r. record_at (gs_store (sy_guard y)) i = Some r \<and> pr_State r = StateIssued)
      \<and> (\<exists>r'. record_at (gs_store (sy_guard y')) i = Some r' \<and> pr_State r' = StateConsumed)"
proof (cases x)
  case (ThreadMoves k t)
  obtain th final g' where e: "thread_step cr (sy_verifier y) t th (sy_guard y) = (Inl final, g')" "reply = Returned final"
    "sy_guard y' = g'"
    using assms ThreadMoves by (auto split: option.splits prod.splits sum.splits)
  then have al: "Result_Allowed final" "map_option cl_PermitID (vr_Claims final) = Some i" using assms(2) by simp_all
  obtain result where "consumeInspected (gs_store (sy_guard y)) result t = (final, gs_store g')"
    by (rule thread_allowed [OF e(1) al(1)])
  then show ?thesis using consume_step_takes al e(3) by simp
next
  case (StoreCalled op)
  obtain rep s1 where e: "store_step op (gs_store (sy_guard y)) = (rep, s1)" by (rule prod.exhaust)
  then have "gs_store (sy_guard y') = s1" "reply = StoreReplied rep" using assms(1) StoreCalled by auto
  then show ?thesis using assms(2) StoreCalled memory.consumes [OF e, of i] by simp
qed (use assms in \<open>auto split: option.splits\<close>)

interpretation guard: single_use "guard_step cr" "\<lambda>y i. record_at (gs_store (sy_guard y)) i" granted_now for cr
  by unfold_locales (rule guard_keeps, assumption+, rule guard_consumes)

end
