(* ===== verification/Verifier_Properties.thy ===== *)
theory Verifier_Properties
  imports Samples Verifier_Threads
begin

text \<open>
  The properties of the reference monitor (\<open>internal/verifier/verifier.go\<close>) with the proofs of
  possession, the nonces and the constraints it relies on, with concrete instances.
\<close>

section \<open>Executions\<close>

text \<open>C6: \<open>VerifyExecutionAndConsume\<close> allows an execution exactly when it is admissible: a trusted execution
  permit of the expected issuer, recorded as issued with the same claims and alive at both readings of the
  clock, its authority unchanged, the action bound to it field by field and by digest, no obligation, and a
  fresh, never used proof by the executor the permit names.\<close>

theorem execution_allowed_iff:
  "Result_Allowed (fst (VerifyExecutionAndConsume cr v g token proofToken a m p now later)) \<longleftrightarrow>
    (\<exists>c. admissible cr v g token proofToken a m p now later c)"
  by (rule iffI, erule allowed_admissible, erule exE, rule admissible_executes(1))

text \<open>C7: an allowed execution carries all of its evidence: the action equals the permit in every bound field
  and has its digest, the proof verifies under the registered key whose identifier and thumbprint the permit
  names and is about this permit, this action and this request, and the permit is consumed in the new state.\<close>

theorem execution_evidence:
  assumes "VerifyExecutionAndConsume cr v g token proofToken a m p now later = (result, g')" "Result_Allowed result"
  shows "\<exists>c pc pk. vr_Claims result = Some c \<and> token_trusted cr v token c \<and> cl_PermitClass c = ClassExecution
    \<and> ac_PrincipalID a = cl_PrincipalID c \<and> ac_AgentID a = cl_AgentID c \<and> ac_WorkloadID a = cl_WorkloadID c
    \<and> ac_Tool a = cl_Tool c \<and> ac_Capability a = cl_Capability c \<and> ac_Resource a = cl_Resource c
    \<and> ac_Operation a = cl_Operation c \<and> ac_Audience a = cl_Audience c
    \<and> ac_DelegatedAuthorityFingerprint a = cl_DelegatedAuthorityFingerprint c
    \<and> ac_ExecutionBinding a = cl_ExecutionBinding c \<and> action_Digest cr a = Inr (cl_ActionDigest c)
    \<and> Registry_VerificationKey (vf_workloadKeys v) (cl_ExecutorKeyID c) = Inr pk
    \<and> sha256_text cr pk = cl_ExecutorKeyThumbprint c \<and> Proof_Verify cr pk proofToken = Inr pc
    \<and> pc_PermitID pc = cl_PermitID c \<and> pc_ActionDigest pc = cl_ActionDigest c
    \<and> pc_HTTPMethod pc = m \<and> pc_HTTPPath pc = p \<and> \<not> proof_stale v pc now
    \<and> (\<exists>r. record_at (gs_store g') (cl_PermitID c) = Some r \<and> pr_State r = StateConsumed)"
proof -
  obtain c keyID pc where c: "vr_Claims result = Some c"
    "permit_evidence cr v (gs_store g) token ClassExecution c (max now later)"
    "actionBindingOutcome cr a c = OutcomeVerified" "cl_Obligations c = no_obligations"
    "check_proof cr v c proofToken m p now = Some (keyID, pc)"
    "NonceStore_Use (gs_nonces g) keyID (pc_Nonce pc) (unix_of now) (proof_expiry v pc) = (True, gs_nonces g')"
    "IssuedTime c \<le> now" "now = zero_time \<or> now < ExpiresTime c"
    "\<exists>r. record_at (gs_store g') (cl_PermitID c) = Some r \<and> pr_State r = StateConsumed"
    by (rule execute_allowed [OF assms])
  obtain pk where pk: "Proof_TokenKeyID proofToken = Inr keyID" "Registry_VerificationKey (vf_workloadKeys v) keyID = Inr pk"
    "Proof_Verify cr pk proofToken = Inr pc" "keyID = cl_ExecutorKeyID c" "sha256_text cr pk = cl_ExecutorKeyThumbprint c"
    "pc_PermitID pc = cl_PermitID c" "pc_ActionDigest pc = cl_ActionDigest c" "pc_HTTPMethod pc = m" "pc_HTTPPath pc = p"
    "\<not> proof_stale v pc now"
    by (rule check_proof_some [OF c(5)])
  show ?thesis
    by (intro exI [of _ c] exI [of _ pc] exI [of _ pk])
      (use c pk binding_verified [OF c(3)] in \<open>simp add: permit_evidence_def\<close>)
qed

theorem execution_evidence_witness:
  "\<exists>r. record_at (gs_store (snd sample_execution)) (cl_PermitID sample_claims) = Some r \<and> pr_State r = StateConsumed"
  using execution_evidence [OF prod.collapse [symmetric] sample_allowed(1) [unfolded sample_execution_def]]
    sample_allowed(2) unfolding sample_execution_def by auto

text \<open>C8: the use of one permit is granted at most once, over every interleaving of the steps of any number of executions,
  checks and simulations under way at the same time, with calls of the store by anyone else and registrations of keys between
  any two of them. A step of a verification ends with one access to the store, the registered keys or the nonces, which
  is what the code holds a lock for; the system may start with verifications at any point of their way. Run
  without interruption, the steps of an execution, a simulation or a check are exactly the functions of the verifier.\<close>

theorem execution_granted_once:
  "count_replies (granted_now i) events (fst (run_ops (guard_step cr) events y)) \<le> 1
   \<and> thread_alone cr v [now, t1, t2, later] (Called (CallExecute token proofToken a m p)) g
       = Some (VerifyExecutionAndConsume cr v g token proofToken a m p now later)
   \<and> thread_alone cr v [now, later] (Called (CallSimulate token a)) g
       = Some (let (r, s') = VerifySimulationAndConsume cr v (gs_store g) token a now later in (r, g\<lparr>gs_store := s'\<rparr>))
   \<and> thread_alone cr v [now] (Called (CallCheck token a)) g
       = Some (let (r, s') = CheckExecution cr v (gs_store g) token a now in (r, g\<lparr>gs_store := s'\<rparr>))"
  by (intro conjI execute_alone simulate_alone check_alone guard.granted_once [OF prod.collapse [symmetric]])

text \<open>An execution that is not allowed consumes no permit.\<close>

theorem refused_execution_consumes_nothing:
  assumes "VerifyExecutionAndConsume cr v g token proofToken a m p now later = (result, g')" "\<not> Result_Allowed result"
    and "record_at (gs_store g') i = Some r" "pr_State r = StateConsumed"
  shows "record_at (gs_store g) i = Some r"
  using execute_refused [OF assms(1,2)] assms(3,4) by (simp add: none_consumed_def)

definition sample_again :: "verify_result \<times> guard_state" where
  "sample_again = VerifyExecutionAndConsume sample_crypto sample_verifier (snd sample_execution) sample_token sample_proof
     sample_action ''POST'' ''/mcp'' sample_now sample_now"

lemma sample_consumed:
  obtains r where "record_at (gs_store (snd sample_execution)) (cl_PermitID sample_claims) = Some r" "pr_State r = StateConsumed"
proof -
  obtain result g' where e: "sample_execution = (result, g')" by (rule prod.exhaust)
  have al: "Result_Allowed result" using sample_allowed(1) unfolding e fst_conv .
  obtain c where "vr_Claims result = Some c"
    "\<exists>r'. record_at (gs_store g') (cl_PermitID c) = Some r' \<and> pr_State r' = StateConsumed"
    by (rule execute_allowed [OF e [unfolded sample_execution_def] al])
  moreover have "vr_Claims result = Some sample_claims" using sample_allowed(2) unfolding e fst_conv .
  ultimately show thesis using that unfolding e snd_conv by auto
qed

lemma sample_again_refused: "\<not> Result_Allowed (fst sample_again)"
proof
  assume al: "Result_Allowed (fst sample_again)"
  obtain r where r: "record_at (gs_store (snd sample_execution)) (cl_PermitID sample_claims) = Some r" "pr_State r = StateConsumed"
    by (rule sample_consumed)
  obtain c where c: "admissible sample_crypto sample_verifier (snd sample_execution) sample_token sample_proof sample_action
      ''POST'' ''/mcp'' sample_now sample_now c" using allowed_admissible al unfolding sample_again_def by blast
  then have "token_trusted sample_crypto sample_verifier sample_token c" by (simp add: admissible_def)
  then have "c = sample_claims" using sample_trusted token_trusted_unique by blast
  then show False using c r by (simp add: admissible_def)
qed

theorem refused_execution_consumes_nothing_witness:
  "\<exists>r. record_at (gs_store (snd sample_again)) (cl_PermitID sample_claims) = Some r \<and> pr_State r = StateConsumed
     \<and> record_at (gs_store (snd sample_execution)) (cl_PermitID sample_claims) = Some r"
proof -
  obtain r where r: "record_at (gs_store (snd sample_execution)) (cl_PermitID sample_claims) = Some r" "pr_State r = StateConsumed"
    by (rule sample_consumed)
  have "by_calls (\<lambda>c. True) (gs_store (snd sample_execution)) (gs_store (snd sample_again))"
    unfolding sample_again_def by (rule execute_calls [OF prod.collapse [symmetric]])
  then have "record_at (gs_store (snd sample_again)) (cl_PermitID sample_claims) = Some r"
    using by_calls_moves r by (fastforce simp: moves_def)
  then show ?thesis
    using r refused_execution_consumes_nothing
      [OF prod.collapse [symmetric] sample_again_refused [unfolded sample_again_def] _ r(2)]
    unfolding sample_again_def by blast
qed

text \<open>A permit with any obligation is refused before its nonce is spent: no enforcement of obligations is
  connected, so the answer is never verified and the set of used nonces stays as it is.\<close>

theorem obligations_block_execution:
  assumes "verifyExecutionProof cr v g token proofToken a m p now = (result, g')" "vr_Claims result = Some c"
    and "cl_Obligations c \<noteq> no_obligations"
  shows "vr_Outcome result \<noteq> OutcomeVerified \<and> gs_nonces g' = gs_nonces g"
  using obligations_refused [OF assms] by simp

definition guarded_claims :: claims where
  "guarded_claims = sample_claims\<lparr>cl_Obligations := no_obligations\<lparr>ob_ReadOnly := True\<rparr>\<rparr>"

definition guarded_token :: string where
  "guarded_token =
    (case SignToken sample_crypto (sk_PrivateKey sample_provider) ''k1'' guarded_claims of Inl _ \<Rightarrow> [] | Inr t \<Rightarrow> t)"

definition guarded_state :: guard_state where
  "guarded_state = sample_guard\<lparr>gs_store := put_record ''p_1'' (issued_record guarded_claims) NewMemoryStore\<rparr>"

lemma guarded_trusted: "VerifyToken sample_crypto (replicate 32 (CHR ''s'')) guarded_token = Inr guarded_claims"
proof -
  have "Claims_Validate guarded_claims = None" "ValidateKeyID ''k1'' = None" "cl_SigningKeyID guarded_claims = ''k1''"
    by code_simp+
  then have s: "SignToken sample_crypto (sk_PrivateKey sample_provider) ''k1'' guarded_claims = Inr guarded_token"
    unfolding guarded_token_def by (simp add: SignToken_def sample_provider_def PrivateKeySize_def Let_def)
  have "int64 (cl_IssuedAt guarded_claims)" "int64 (cl_ExpiresAt guarded_claims)"
    "cr_public sample_crypto (sk_PrivateKey sample_provider) = replicate 32 (CHR ''s'')" by code_simp+
  then show ?thesis using SignToken_VerifyToken [OF s sample_signature_ok] by simp
qed

theorem obligations_block_execution_witness:
  "vr_Outcome (fst (verifyExecutionProof sample_crypto sample_verifier guarded_state guarded_token sample_proof sample_action
      ''POST'' ''/mcp'' sample_now)) \<noteq> OutcomeVerified"
proof -
  have ev: "Static_VerificationKey sample_crypto (vf_keyProvider sample_verifier) (cl_SigningKeyID guarded_claims)
      = Inr (replicate 32 (CHR ''s''))"
    "cl_PermitClass guarded_claims = ClassExecution" "cl_Issuer guarded_claims = vf_expectedIssuer sample_verifier"
    "IssuedTime guarded_claims \<le> sample_now" "sample_now < ExpiresTime guarded_claims"
    "cl_PermitID guarded_claims = ''p_1''" "cl_Obligations guarded_claims \<noteq> no_obligations" by code_simp+
  have rec: "record_at (gs_store guarded_state) (cl_PermitID guarded_claims) = Some (issued_record guarded_claims)"
    "pr_Claims (issued_record guarded_claims) = guarded_claims" "pr_State (issued_record guarded_claims) = StateIssued"
    "expireIfNeeded (issued_record guarded_claims) sample_now = issued_record guarded_claims"
    using ev(5,6) expire_at by (simp_all add: guarded_state_def issued_record_def)
  note i = inspect_accepts [OF guarded_trusted ev(1-3) rec ev(4)]
  have "vr_Claims (fst (verifyExecutionProof sample_crypto sample_verifier guarded_state guarded_token sample_proof
      sample_action ''POST'' ''/mcp'' sample_now)) = Some guarded_claims"
    by (rule proof_after_inspection(1) [OF i]) (simp_all add: initial_result_def)
  then show ?thesis using obligations_block_execution [OF prod.collapse [symmetric] _ ev(7)] by blast
qed

text \<open>\<open>CheckExecution\<close> is advisory: its answer is never an authorisation and it consumes no permit.\<close>

theorem check_is_advisory:
  "\<not> Result_Allowed (fst (CheckExecution cr v s token a now)) \<and> none_consumed s (snd (CheckExecution cr v s token a now))"
  using check_never_allowed [OF prod.collapse [symmetric]] by blast

text \<open>A token that was ever allowed as an execution is never allowed as a simulation, in any state, for any
  action at any time: the classes do not mix.\<close>

theorem classes_do_not_mix:
  assumes "Result_Allowed (fst (VerifyExecutionAndConsume cr v g token proofToken a m p now later))"
  shows "\<not> Result_Allowed (fst (VerifySimulationAndConsume cr v s token b now' later'))"
proof
  assume sim: "Result_Allowed (fst (VerifySimulationAndConsume cr v s token b now' later'))"
  obtain c where c: "token_trusted cr v token c" "cl_PermitClass c = ClassExecution"
    using allowed_admissible [OF assms] by (auto simp: admissible_def)
  obtain result s' where e: "VerifySimulationAndConsume cr v s token b now' later' = (result, s')" by (rule prod.exhaust)
  have "Result_Allowed result" using sim e by simp
  then obtain c' where "permit_evidence cr v s token ClassSimulation c' (max now' later')" by (rule simulate_allowed [OF e])
  then have "token_trusted cr v token c'" "cl_PermitClass c' = ClassSimulation" by (simp_all add: permit_evidence_def)
  then show False using token_trusted_unique [OF c(1)] c(2) by auto
qed

theorem classes_do_not_mix_witness:
  "\<not> Result_Allowed (fst (VerifySimulationAndConsume sample_crypto sample_verifier sample_store sample_token sample_action
     sample_now sample_now))"
  by (rule classes_do_not_mix [OF sample_allowed(1) [unfolded sample_execution_def]])

text \<open>C21: one token authorises one action: if it is allowed for two actions, in whatever states, they agree in
  every bound field and in the value of their arguments, unless the hash function collides.\<close>

theorem one_token_one_action:
  assumes "Result_Allowed (fst (VerifyExecutionAndConsume cr v g token proofToken a m p now later))"
    and "Result_Allowed (fst (VerifyExecutionAndConsume cr v g' token proofToken' b m' p' now' later'))"
  shows "collision cr \<or> (same_binding a b \<and>
    (\<exists>x y. arguments_value a = Inr x \<and> arguments_value b = Inr y \<and> sort_json x = sort_json y))"
proof -
  obtain c where c: "token_trusted cr v token c" "actionBindingOutcome cr a c = OutcomeVerified"
    using allowed_admissible [OF assms(1)] by (auto simp: admissible_def)
  obtain c' where c': "token_trusted cr v token c'" "actionBindingOutcome cr b c' = OutcomeVerified"
    using allowed_admissible [OF assms(2)] by (auto simp: admissible_def)
  have "c' = c" by (rule token_trusted_unique [OF c'(1) c(1)])
  then show ?thesis using binding_same_action [OF c(2)] c'(2) by simp
qed

theorem one_token_one_action_witness:
  "collision sample_crypto \<or> (same_binding sample_action sample_action \<and>
    (\<exists>x y. arguments_value sample_action = Inr x \<and> arguments_value sample_action = Inr y \<and> sort_json x = sort_json y))"
  by (rule one_token_one_action
      [OF sample_allowed(1) [unfolded sample_execution_def] sample_allowed(1) [unfolded sample_execution_def]])

end
