(* ===== verification/Models.thy ===== *)
theory Models
  imports Prelude
begin

text \<open>
  \<open>internal/models/models.go\<close>: the request an agent makes, the policy it is judged by and the
  decision. A nil slice and an empty one are the same list here, except for
  \<open>AllowedSideEffects\<close>, which the code tests for nil. A message is kept as its format and the
  values formatted into it.
\<close>

datatype route = RouteNone | RouteAllow | RouteRestrict | RouteSandbox | RouteDeny | RouteEscalate | RouteOther string

fun route_text :: "route \<Rightarrow> string" where
  "route_text RouteNone = []"
| "route_text RouteAllow = ''allow''"
| "route_text RouteRestrict = ''restrict''"
| "route_text RouteSandbox = ''sandbox''"
| "route_text RouteDeny = ''deny''"
| "route_text RouteEscalate = ''escalate''"
| "route_text (RouteOther s) = s"

datatype auth_status = StatusAuthorized | StatusDenied | StatusRequiresApproval

datatype format_value =
    FormatString string | FormatStrings "string list" | FormatInt int | FormatTime time | FormatDuration duration

datatype message = Message string "format_value list"

abbreviation plain :: "string \<Rightarrow> message" where
  "plain s \<equiv> Message s []"

section \<open>The request\<close>

record principal_context =
  pn_PrincipalID :: string
  pn_PrincipalType :: string
  pn_Tenant :: string
  pn_Environment :: string
  pn_Metadata :: "(string, string) gomap"

record agent_identity =
  ai_AgentID :: string
  ai_WorkloadID :: string
  ai_Owner :: string
  ai_Environment :: string
  ai_Framework :: string
  ai_Version :: string

record delegated_authority =
  da_CredentialFingerprint :: string
  da_Issuer :: string
  da_Scopes :: "string list"
  da_Subject :: string
  da_ExpiresAt :: "time option"

record tool_context =
  tc_ToolID :: string
  tc_Name :: string
  tc_Provider :: string
  tc_SchemaSHA256 :: string
  tc_ExpectedSchemaSHA256 :: string

record destination =
  ds_Kind :: string
  ds_TrustBoundary :: string
  ds_External :: bool

record action_request =
  aq_Capability :: string
  aq_Operation :: string
  aq_TargetResource :: string
  aq_ProfileID :: string
  aq_Audience :: string
  aq_Arguments :: string
  aq_SideEffect :: string
  aq_Destination :: "destination option"
  aq_Bytes :: int

record input_source =
  in_EventID :: string
  in_Kind :: string
  in_Trust :: string
  in_URIClass :: string
  in_ContentSHA256 :: string
  in_RiskSignals :: "string list"

record data_access =
  dx_Operation :: string
  dx_PathClass :: string
  dx_Protected :: bool
  dx_Sensitivity :: string
  dx_Bytes :: int

record request =
  rq_RequestID :: string
  rq_SessionID :: string
  rq_ParentEventID :: string
  rq_Principal :: principal_context
  rq_Agent :: agent_identity
  rq_Authority :: delegated_authority
  rq_Tool :: tool_context
  rq_Action :: action_request
  rq_ClaimedIntent :: string
  rq_PlannedActions :: "string list"
  rq_InputSources :: "input_source list"
  rq_DataAccess :: "data_access option"
  rq_UserID :: string
  rq_AgentID :: string
  rq_TokenScopes :: "string list"
  rq_RequestedAction :: string
  rq_RequestedCapability :: string
  rq_TargetResource :: string
  rq_ToolIdentity :: "tool_context option"
  rq_Destination :: "destination option"

text \<open>The zero values of Go.\<close>

definition zero_principal :: principal_context where
  "zero_principal =
    \<lparr>pn_PrincipalID = [], pn_PrincipalType = [], pn_Tenant = [], pn_Environment = [], pn_Metadata = []\<rparr>"

definition zero_agent :: agent_identity where
  "zero_agent =
    \<lparr>ai_AgentID = [], ai_WorkloadID = [], ai_Owner = [], ai_Environment = [], ai_Framework = [], ai_Version = []\<rparr>"

definition zero_delegation :: delegated_authority where
  "zero_delegation =
    \<lparr>da_CredentialFingerprint = [], da_Issuer = [], da_Scopes = [], da_Subject = [], da_ExpiresAt = None\<rparr>"

definition zero_tool :: tool_context where
  "zero_tool =
    \<lparr>tc_ToolID = [], tc_Name = [], tc_Provider = [], tc_SchemaSHA256 = [], tc_ExpectedSchemaSHA256 = []\<rparr>"

definition zero_action_request :: action_request where
  "zero_action_request =
    \<lparr>aq_Capability = [], aq_Operation = [], aq_TargetResource = [], aq_ProfileID = [], aq_Audience = [],
     aq_Arguments = [], aq_SideEffect = [], aq_Destination = None, aq_Bytes = 0\<rparr>"

definition zero_request :: request where
  "zero_request =
    \<lparr>rq_RequestID = [], rq_SessionID = [], rq_ParentEventID = [], rq_Principal = zero_principal,
     rq_Agent = zero_agent, rq_Authority = zero_delegation, rq_Tool = zero_tool,
     rq_Action = zero_action_request, rq_ClaimedIntent = [], rq_PlannedActions = [], rq_InputSources = [],
     rq_DataAccess = None, rq_UserID = [], rq_AgentID = [], rq_TokenScopes = [], rq_RequestedAction = [],
     rq_RequestedCapability = [], rq_TargetResource = [], rq_ToolIdentity = None, rq_Destination = None\<rparr>"

section \<open>The effective context\<close>

definition UsesStructuredContext :: "request \<Rightarrow> bool" where
  "UsesStructuredContext r \<longleftrightarrow>
    pn_PrincipalID (rq_Principal r) \<noteq> [] \<or> ai_AgentID (rq_Agent r) \<noteq> []
    \<or> da_CredentialFingerprint (rq_Authority r) \<noteq> [] \<or> da_Scopes (rq_Authority r) \<noteq> []
    \<or> tc_Name (rq_Tool r) \<noteq> [] \<or> tc_ToolID (rq_Tool r) \<noteq> [] \<or> aq_Capability (rq_Action r) \<noteq> []
    \<or> aq_Operation (rq_Action r) \<noteq> [] \<or> aq_TargetResource (rq_Action r) \<noteq> []"

definition EffectivePrincipal :: "request \<Rightarrow> principal_context" where
  "EffectivePrincipal r =
    (if pn_PrincipalID (rq_Principal r) \<noteq> [] then rq_Principal r
     else zero_principal\<lparr>pn_PrincipalID := rq_UserID r, pn_PrincipalType := ''human''\<rparr>)"

definition EffectiveAgent :: "request \<Rightarrow> agent_identity" where
  "EffectiveAgent r =
    (if ai_AgentID (rq_Agent r) \<noteq> [] then rq_Agent r
     else zero_agent\<lparr>ai_AgentID := rq_AgentID r, ai_WorkloadID := rq_AgentID r\<rparr>)"

definition EffectiveAuthority :: "request \<Rightarrow> delegated_authority" where
  "EffectiveAuthority r =
    (if da_CredentialFingerprint (rq_Authority r) \<noteq> [] \<or> da_Scopes (rq_Authority r) \<noteq> []
        \<or> da_Issuer (rq_Authority r) \<noteq> [] \<or> da_Subject (rq_Authority r) \<noteq> []
        \<or> da_ExpiresAt (rq_Authority r) \<noteq> None
     then rq_Authority r
     else zero_delegation\<lparr>da_Scopes := rq_TokenScopes r, da_Subject := rq_UserID r\<rparr>)"

definition EffectiveTool :: "request \<Rightarrow> tool_context" where
  "EffectiveTool r =
    (if tc_Name (rq_Tool r) \<noteq> [] \<or> tc_ToolID (rq_Tool r) \<noteq> [] then rq_Tool r
     else case rq_ToolIdentity r of Some t \<Rightarrow> t | None \<Rightarrow> zero_tool)"

definition EffectiveAction :: "request \<Rightarrow> action_request" where
  "EffectiveAction r =
    (let a0 = rq_Action r;
         a1 = (if aq_Capability a0 = [] then a0\<lparr>aq_Capability := rq_RequestedCapability r\<rparr> else a0);
         a2 = (if aq_TargetResource a1 = [] then a1\<lparr>aq_TargetResource := rq_TargetResource r\<rparr> else a1);
         a3 = (case rq_DataAccess r of
                 Some d \<Rightarrow> if aq_Operation a2 = [] then a2\<lparr>aq_Operation := dx_Operation d\<rparr> else a2
               | None \<Rightarrow> a2);
         a4 = (if aq_Destination a3 = None then a3\<lparr>aq_Destination := rq_Destination r\<rparr> else a3)
     in case rq_DataAccess r of
          Some d \<Rightarrow> if aq_Bytes a4 = 0 then a4\<lparr>aq_Bytes := dx_Bytes d\<rparr> else a4
        | None \<Rightarrow> a4)"

section \<open>The policy\<close>

record constraints =
  co_NetworkEgress :: string
  co_SecretAccess :: string
  co_WriteAccess :: string
  co_AllowedSideEffects :: "string list option"
  co_MaxBytes :: int
  co_MaxDurationMS :: int
  co_ExecutorProfile :: string

record resource_grant =
  rg_AllowedOperations :: "string list"
  rg_RequiredScopes :: "string list"
  rg_Constraints :: constraints

record capability_grant =
  cg_AllowedTools :: "string list"
  cg_Resources :: "(string, resource_grant) gomap"
  cg_RequiredScopes :: "string list"
  cg_Constraints :: constraints
  cg_Route :: route

record agent_policy =
  ap_WorkloadIDs :: "string list"
  ap_Capabilities :: "(string, capability_grant) gomap"
  ap_AllowedCapabilities :: "string list"
  ap_DeniedResources :: "string list"

record resource_policy =
  rp_Sensitivity :: string
  rp_Scopes :: "string list"

record compatibility_policy =
  cp_AllowLegacyFlatRequests :: bool
  cp_AllowMissingTool :: bool
  cp_AllowMissingOperation :: bool

record permit_policy =
  pp_TTLSeconds :: int
  pp_Issuer :: string

record payment_config =
  py_ProfileID :: string
  py_MCPTool :: string
  py_Capability :: string
  py_Resource :: string
  py_Operation :: string
  py_Audience :: string
  py_UpstreamURL :: string
  py_AllowedCurrencies :: "string list"
  py_MaxAmountMinorByCurrency :: "(string, int) gomap"
  py_AllowedRecipients :: "string list"

record workspace_config =
  wk_ProfileID :: string
  wk_MCPTool :: string
  wk_Capability :: string
  wk_Resource :: string
  wk_Operation :: string
  wk_Audience :: string
  wk_UpstreamURL :: string
  wk_MaxPathBytes :: int
  wk_MaxContentBytes :: int

record semantic_config =
  sm_PaymentSendV1 :: payment_config
  sm_WorkspaceWriteV1 :: workspace_config

record session_controls =
  sc_PrivacyReadBudget :: int
  sc_CumulativeRiskLimit :: int
  sc_EgressCapabilities :: "string list"
  sc_SideEffectCapabilities :: "string list"
  sc_InjectionRiskSignals :: "string list"

record policy_config =
  cf_Version :: string
  cf_Agents :: "(string, agent_policy) gomap"
  cf_Resources :: "(string, resource_policy) gomap"
  cf_SensitiveActions :: "string list"
  cf_RestrictedActions :: "string list"
  cf_ProhibitedActions :: "string list"
  cf_SuspiciousActions :: "string list"
  cf_SessionControls :: session_controls
  cf_Compatibility :: compatibility_policy
  cf_Permits :: permit_policy
  cf_SemanticActions :: semantic_config

section \<open>The decision\<close>

record matched_grant =
  mg_AgentID :: string
  mg_WorkloadID :: string
  mg_Capability :: string
  mg_Tool :: string
  mg_Resource :: string
  mg_AllowedOperations :: "string list"
  mg_RequiredScopes :: "string list"
  mg_Constraints :: constraints

record policy_decision =
  pd_Authorized :: bool
  pd_Status :: auth_status
  pd_Route :: route
  pd_Reasons :: "message list"
  pd_Rules :: "string list"
  pd_Grant :: "matched_grant option"

record risk_assessment =
  ra_Score :: int
  ra_Level :: string
  ra_Signals :: "string list"
  ra_AdvisoryOnly :: bool

definition IsWriteOperation :: "string \<Rightarrow> bool" where
  "IsWriteOperation operation \<longleftrightarrow>
    to_lower operation \<in> {''write'', ''create'', ''update'', ''delete'', ''append'', ''execute'', ''invoke'', ''admin''}"

end
