(* ===== verification/Policy.thy ===== *)
theory Policy
  imports Models
begin

text \<open>
  \<open>internal/policy/engine.go\<close>: the one authority on permits. \<open>Evaluate\<close> is a chain of early
  returns; each denial names its rule. The reading of the clock is an argument.
\<close>

definition deny :: "string \<Rightarrow> message \<Rightarrow> policy_decision" where
  "deny rule reason =
    \<lparr>pd_Authorized = False, pd_Status = StatusDenied, pd_Route = RouteDeny, pd_Reasons = [reason],
     pd_Rules = [rule], pd_Grant = None\<rparr>"

definition zero_constraints :: constraints where
  "zero_constraints =
    \<lparr>co_NetworkEgress = [], co_SecretAccess = [], co_WriteAccess = [], co_AllowedSideEffects = None,
     co_MaxBytes = 0, co_MaxDurationMS = 0, co_ExecutorProfile = []\<rparr>"

definition legacyGrant :: "string \<Rightarrow> resource_policy \<Rightarrow> capability_grant" where
  "legacyGrant resourceID resource =
    \<lparr>cg_AllowedTools = [''legacy-unspecified''],
     cg_Resources =
       [(resourceID,
         \<lparr>rg_AllowedOperations = [''legacy-unspecified''], rg_RequiredScopes = rp_Scopes resource,
          rg_Constraints = zero_constraints\<rparr>)],
     cg_RequiredScopes = [],
     cg_Constraints =
       zero_constraints\<lparr>co_NetworkEgress := ''deny'', co_SecretAccess := ''deny'', co_WriteAccess := ''deny''\<rparr>,
     cg_Route = RouteNone\<rparr>"

text \<open>\<open>copyStrings\<close> of an empty slice is nil.\<close>

definition copyStrings :: "string list option \<Rightarrow> string list option" where
  "copyStrings items = (case items of Some (x # xs) \<Rightarrow> Some (x # xs) | _ \<Rightarrow> None)"

definition mergeConstraints :: "constraints \<Rightarrow> constraints \<Rightarrow> constraints" where
  "mergeConstraints base resource =
    \<lparr>co_NetworkEgress =
       (if co_NetworkEgress resource \<noteq> [] then co_NetworkEgress resource
        else if co_NetworkEgress base = [] then ''deny'' else co_NetworkEgress base),
     co_SecretAccess =
       (if co_SecretAccess resource \<noteq> [] then co_SecretAccess resource
        else if co_SecretAccess base = [] then ''deny'' else co_SecretAccess base),
     co_WriteAccess =
       (if co_WriteAccess resource \<noteq> [] then co_WriteAccess resource
        else if co_WriteAccess base = [] then ''deny'' else co_WriteAccess base),
     co_AllowedSideEffects =
       (if co_AllowedSideEffects resource \<noteq> None then copyStrings (co_AllowedSideEffects resource)
        else if co_AllowedSideEffects base = None then Some [] else co_AllowedSideEffects base),
     co_MaxBytes = (if co_MaxBytes resource > 0 then co_MaxBytes resource else co_MaxBytes base),
     co_MaxDurationMS = (if co_MaxDurationMS resource > 0 then co_MaxDurationMS resource else co_MaxDurationMS base),
     co_ExecutorProfile =
       (if co_ExecutorProfile resource \<noteq> [] then co_ExecutorProfile resource else co_ExecutorProfile base)\<rparr>"

definition side_effects :: "constraints \<Rightarrow> string list" where
  "side_effects c = (case co_AllowedSideEffects c of None \<Rightarrow> [] | Some xs \<Rightarrow> xs)"

definition requestsSecret :: "action_request \<Rightarrow> bool" where
  "requestsSecret a =
    (let value = to_lower (aq_SideEffect a @ '' '' @ aq_Capability a @ '' '' @ aq_TargetResource a)
     in str_contains value ''secret'' \<or> str_contains value ''credential'')"

definition missingScopes :: "string list \<Rightarrow> string list \<Rightarrow> string list" where
  "missingScopes actual required = filter (\<lambda>scope. \<not> contains actual scope) required"

text \<open>\<open>unique\<close>: the first occurrence of every non-empty item, in order.\<close>

fun unique_from :: "string list \<Rightarrow> string list \<Rightarrow> string list" where
  "unique_from seen [] = []"
| "unique_from seen (x # xs) =
    (if x \<noteq> [] \<and> \<not> contains seen x then x # unique_from (x # seen) xs else unique_from seen xs)"

definition unique :: "string list \<Rightarrow> string list" where
  "unique items = unique_from [] items"

fun firstNonEmpty :: "string list \<Rightarrow> string" where
  "firstNonEmpty [] = []"
| "firstNonEmpty (x # xs) = (if x \<noteq> [] then x else firstNonEmpty xs)"

section \<open>Evaluation\<close>

text \<open>
  The parts of \<open>Evaluate\<close>, in its order: the identity checks, the grant, the tool, the operation,
  the constraints, the decision of a matching grant.
\<close>

definition check_identity :: "policy_config \<Rightarrow> request \<Rightarrow> time \<Rightarrow> policy_decision + (agent_policy \<times> resource_policy)" where
  "check_identity cfg req now =
    (let principal = EffectivePrincipal req;
         agentIdentity = EffectiveAgent req;
         authority = EffectiveAuthority req;
         a = EffectiveAction req
     in if \<not> UsesStructuredContext req \<and> \<not> cp_AllowLegacyFlatRequests (cf_Compatibility cfg)
        then Inl (deny ''request.legacy_not_allowed''
          (plain ''the flat legacy request shape is disabled; structured security context is required''))
        else case mget (cf_Agents cfg) (ai_AgentID agentIdentity) of
          None \<Rightarrow> Inl (deny ''identity.unknown_agent''
            (Message ''agent %q has no authorization policy'' [FormatString (ai_AgentID agentIdentity)]))
        | Some agent \<Rightarrow>
            if ap_WorkloadIDs agent \<noteq> [] \<and> \<not> contains (ap_WorkloadIDs agent) (ai_WorkloadID agentIdentity)
            then Inl (deny ''identity.workload_not_granted''
              (Message ''workload %q is not registered for agent %q''
                [FormatString (ai_WorkloadID agentIdentity), FormatString (ai_AgentID agentIdentity)]))
            else if da_Subject authority \<noteq> [] \<and> pn_PrincipalID principal \<noteq> []
              \<and> da_Subject authority \<noteq> pn_PrincipalID principal
            then Inl (deny ''delegation.subject_mismatch''
              (plain ''delegated authority subject does not match the acting principal''))
            else if (case da_ExpiresAt authority of None \<Rightarrow> False | Some t \<Rightarrow> \<not> now < t)
            then Inl (deny ''delegation.expired'' (plain ''delegated authority has expired''))
            else case mget (cf_Resources cfg) (aq_TargetResource a) of
              None \<Rightarrow> Inl (deny ''resource.unknown''
                (Message ''resource %q is not classified'' [FormatString (aq_TargetResource a)]))
            | Some resource \<Rightarrow>
                if contains (cf_ProhibitedActions cfg) (aq_Capability a)
                then Inl (deny ''capability.prohibited'' (plain ''the requested capability is globally prohibited''))
                else if contains (ap_DeniedResources agent) (aq_TargetResource a)
                then Inl (deny ''resource.agent_denylist'' (plain ''the agent policy explicitly denies this resource''))
                else Inr (agent, resource))"

definition find_capability :: "agent_policy \<Rightarrow> resource_policy \<Rightarrow> action_request \<Rightarrow> capability_grant option" where
  "find_capability agent resource a =
    (case mget (ap_Capabilities agent) (aq_Capability a) of
       Some capability \<Rightarrow> Some capability
     | None \<Rightarrow>
         if contains (ap_AllowedCapabilities agent) (aq_Capability a)
         then Some (legacyGrant (aq_TargetResource a) resource) else None)"

definition find_grant :: "agent_policy \<Rightarrow> resource_policy \<Rightarrow> action_request \<Rightarrow> policy_decision + (capability_grant \<times> resource_grant)" where
  "find_grant agent resource a =
    (case find_capability agent resource a of
       None \<Rightarrow> Inl (deny ''capability.not_granted'' (plain ''the agent was not granted the requested capability''))
     | Some capability \<Rightarrow>
         (case mget (cg_Resources capability) (aq_TargetResource a) of
            None \<Rightarrow> Inl (deny ''resource.not_granted''
              (plain ''the capability is not granted against the requested resource''))
          | Some resourceGrant \<Rightarrow> Inr (capability, resourceGrant)))"

definition match_tool :: "policy_config \<Rightarrow> request \<Rightarrow> capability_grant \<Rightarrow> string" where
  "match_tool cfg req capability =
    (let tool = EffectiveTool req;
         matchedTool = firstNonEmpty [tc_Name tool, tc_ToolID tool]
     in if matchedTool = [] \<and> \<not> UsesStructuredContext req \<and> cp_AllowMissingTool (cf_Compatibility cfg)
        then (case cg_AllowedTools capability of [] \<Rightarrow> matchedTool | t # ts \<Rightarrow> t)
        else matchedTool)"

definition match_operation :: "policy_config \<Rightarrow> request \<Rightarrow> resource_grant \<Rightarrow> string" where
  "match_operation cfg req resourceGrant =
    (let operation = aq_Operation (EffectiveAction req)
     in if operation = [] \<and> \<not> UsesStructuredContext req \<and> cp_AllowMissingOperation (cf_Compatibility cfg)
        then (case rg_AllowedOperations resourceGrant of [] \<Rightarrow> operation | p # ps \<Rightarrow> p)
        else operation)"

definition check_constraints :: "action_request \<Rightarrow> string \<Rightarrow> constraints \<Rightarrow> policy_decision option" where
  "check_constraints a operation c =
    (if (case aq_Destination a of None \<Rightarrow> False | Some d \<Rightarrow> ds_External d) \<and> co_NetworkEgress c \<noteq> ''allow''
     then Some (deny ''constraint.network_egress_denied''
       (plain ''the authorization grant denies external network egress''))
     else if requestsSecret a \<and> co_SecretAccess c \<noteq> ''allow''
     then Some (deny ''constraint.secret_access_denied'' (plain ''the authorization grant denies secret access''))
     else if IsWriteOperation operation \<and> co_WriteAccess c \<noteq> ''allow''
     then Some (deny ''constraint.write_access_denied'' (plain ''the authorization grant is read-only''))
     else
       let sideEffect = trim_space (aq_SideEffect a)
       in if sideEffect \<noteq> [] \<and> sideEffect \<noteq> ''none'' \<and> sideEffect \<noteq> ''read_only''
            \<and> \<not> contains (side_effects c) sideEffect
          then Some (deny ''constraint.side_effect_not_granted''
            (Message ''side effect %q is not allowed'' [FormatString sideEffect]))
          else if co_MaxBytes c > 0 \<and> aq_Bytes a > co_MaxBytes c
          then Some (deny ''constraint.max_bytes_exceeded''
            (Message ''requested byte count %d exceeds grant limit %d''
              [FormatInt (aq_Bytes a), FormatInt (co_MaxBytes c)]))
          else None)"

definition required_scopes :: "resource_policy \<Rightarrow> capability_grant \<Rightarrow> resource_grant \<Rightarrow> string list" where
  "required_scopes resource capability resourceGrant =
    unique (rp_Scopes resource @ cg_RequiredScopes capability @ rg_RequiredScopes resourceGrant)"

definition grant_decision :: "route \<Rightarrow> matched_grant \<Rightarrow> policy_decision" where
  "grant_decision granted_route g =
    (let chosen = (if granted_route = RouteNone then RouteAllow else granted_route)
     in \<lparr>pd_Authorized = (chosen \<noteq> RouteDeny \<and> chosen \<noteq> RouteEscalate),
         pd_Status =
           (if chosen = RouteDeny then StatusDenied
            else if chosen = RouteEscalate then StatusRequiresApproval else StatusAuthorized),
         pd_Route = chosen,
         pd_Reasons = [plain ''principal, workload, delegated scopes, capability, tool, resource, operation, and constraints match''],
         pd_Rules = [''identity.agent_and_workload_match'', ''delegation.scopes_match'', ''authorization.explicit_grant''],
         pd_Grant = Some g\<rparr>)"

definition Policy_Evaluate :: "policy_config \<Rightarrow> request \<Rightarrow> time \<Rightarrow> policy_decision" where
  "Policy_Evaluate cfg req now =
    (case check_identity cfg req now of
       Inl d \<Rightarrow> d
     | Inr (agent, resource) \<Rightarrow>
         let a = EffectiveAction req; agentIdentity = EffectiveAgent req; authority = EffectiveAuthority req
         in case find_grant agent resource a of
              Inl d \<Rightarrow> d
            | Inr (capability, resourceGrant) \<Rightarrow>
                let matchedTool = match_tool cfg req capability;
                    operation = match_operation cfg req resourceGrant;
                    scopes = required_scopes resource capability resourceGrant;
                    missing = missingScopes (da_Scopes authority) scopes;
                    merged = mergeConstraints (cg_Constraints capability) (rg_Constraints resourceGrant)
                in if matchedTool = [] \<or> \<not> contains (cg_AllowedTools capability) matchedTool
                   then deny ''tool.not_granted''
                     (Message ''tool %q is not allowed for capability %q'' [FormatString matchedTool, FormatString (aq_Capability a)])
                   else if operation = [] \<or> \<not> contains (rg_AllowedOperations resourceGrant) operation
                   then deny ''resource.operation_not_granted''
                     (Message ''operation %q is not allowed on resource %q'' [FormatString operation, FormatString (aq_TargetResource a)])
                   else if missing \<noteq> []
                   then deny ''scope.mismatch''
                     (Message ''delegated authority is missing required scopes: %v'' [FormatStrings missing])
                   else (case check_constraints a operation merged of
                       Some d \<Rightarrow> d
                     | None \<Rightarrow>
                         grant_decision (cg_Route capability)
                           \<lparr>mg_AgentID = ai_AgentID agentIdentity, mg_WorkloadID = ai_WorkloadID agentIdentity,
                            mg_Capability = aq_Capability a, mg_Tool = matchedTool, mg_Resource = aq_TargetResource a,
                            mg_AllowedOperations = rg_AllowedOperations resourceGrant, mg_RequiredScopes = scopes,
                            mg_Constraints = merged\<rparr>))"

end
