(* ===== verification/Config_Load.thy ===== *)
theory Config_Load
  imports Policy
begin

text \<open>
  \<open>internal/config/config.go\<close>: what \<open>Load\<close> does with a parsed configuration: defaults are filled
  in and every grant is checked. Reading and parsing the file are outside. Go ranges over its
  maps in no fixed order, so which of several errors is reported is open; that there is one is not.
\<close>

datatype config_error = ConfigError message

definition check_resource_grant :: "policy_config \<Rightarrow> string \<Rightarrow> string \<Rightarrow> string \<times> resource_grant \<Rightarrow> config_error option" where
  "check_resource_grant cfg agentID capability entry =
    (let (resourceID, resourceGrant) = entry
     in if mget (cf_Resources cfg) resourceID = None
        then Some (ConfigError (Message ''agent %q capability %q references unknown resource %q''
          [FormatString agentID, FormatString capability, FormatString resourceID]))
        else if rg_AllowedOperations resourceGrant = []
        then Some (ConfigError (Message ''agent %q capability %q resource %q must define allowed_operations''
          [FormatString agentID, FormatString capability, FormatString resourceID]))
        else None)"

text \<open>The first error of a loop that stops at one.\<close>

fun first_of :: "('a \<Rightarrow> 'e option) \<Rightarrow> 'a list \<Rightarrow> 'e option" where
  "first_of f [] = None"
| "first_of f (x # xs) = (case f x of Some e \<Rightarrow> Some e | None \<Rightarrow> first_of f xs)"

definition check_capability_grant :: "policy_config \<Rightarrow> string \<Rightarrow> string \<times> capability_grant \<Rightarrow> config_error option" where
  "check_capability_grant cfg agentID entry =
    (let (capability, grant) = entry
     in if cg_AllowedTools grant = []
        then Some (ConfigError (Message ''agent %q capability %q must define allowed_tools''
          [FormatString agentID, FormatString capability]))
        else if cg_Resources grant = []
        then Some (ConfigError (Message ''agent %q capability %q must define resources''
          [FormatString agentID, FormatString capability]))
        else if cg_Route grant \<noteq> RouteNone \<and> cg_Route grant \<noteq> RouteAllow \<and> cg_Route grant \<noteq> RouteRestrict
          \<and> cg_Route grant \<noteq> RouteSandbox
        then Some (ConfigError (Message ''agent %q capability %q has invalid authorized route %q''
          [FormatString agentID, FormatString capability, FormatString (route_text (cg_Route grant))]))
        else first_of (check_resource_grant cfg agentID capability) (cg_Resources grant))"

definition check_agent :: "policy_config \<Rightarrow> string \<times> agent_policy \<Rightarrow> config_error option" where
  "check_agent cfg entry =
    (if trim_space (fst entry) = [] then Some (ConfigError (plain ''policy config contains an empty agent id''))
     else first_of (check_capability_grant cfg (fst entry)) (ap_Capabilities (snd entry)))"

definition config_defaults :: "policy_config \<Rightarrow> policy_config" where
  "config_defaults cfg =
    cfg\<lparr>cf_Permits :=
          \<lparr>pp_TTLSeconds = (if pp_TTLSeconds (cf_Permits cfg) \<le> 0 then 30 else pp_TTLSeconds (cf_Permits cfg)),
           pp_Issuer = (if trim_space (pp_Issuer (cf_Permits cfg)) = [] then ''aegis-router'' else pp_Issuer (cf_Permits cfg))\<rparr>,
        cf_Version := (if trim_space (cf_Version cfg) = [] then ''policy-v1'' else cf_Version cfg)\<rparr>"

definition Load_config :: "policy_config \<Rightarrow> config_error + policy_config" where
  "Load_config cfg =
    (if cf_Agents cfg = [] \<or> cf_Resources cfg = []
     then Inl (ConfigError (plain ''policy config must define agents and resources''))
     else
       let cfg' = config_defaults cfg
       in case first_of (check_agent cfg') (cf_Agents cfg') of
            Some e \<Rightarrow> Inl e
          | None \<Rightarrow> Inr cfg')"

lemma first_of_None [simp]: "first_of f xs = None \<longleftrightarrow> (\<forall>x \<in> set xs. f x = None)"
  by (induction xs) (auto split: option.split)

text \<open>What an accepted configuration guarantees of every grant.\<close>

lemma Load_grants:
  assumes "Load_config cfg = Inr cfg'" "mget (cf_Agents cfg') agentID = Some agent"
    "mget (ap_Capabilities agent) capability = Some grant"
  shows "cg_Route grant \<in> {RouteNone, RouteAllow, RouteRestrict, RouteSandbox}" "cg_AllowedTools grant \<noteq> []"
    "mget (cg_Resources grant) resourceID = Some rg \<Longrightarrow>
       mget (cf_Resources cfg') resourceID \<noteq> None \<and> rg_AllowedOperations rg \<noteq> []"
proof -
  have ok: "\<forall>entry \<in> set (cf_Agents cfg'). check_agent cfg' entry = None"
    using assms(1) by (auto simp: Load_config_def Let_def split: if_splits option.splits)
  then have "check_agent cfg' (agentID, agent) = None" using mget_Some_in [OF assms(2)] by blast
  then have "check_capability_grant cfg' agentID (capability, grant) = None"
    using mget_Some_in [OF assms(3)] by (auto simp: check_agent_def split: if_splits)
  then have g: "cg_AllowedTools grant \<noteq> []" "cg_Route grant \<in> {RouteNone, RouteAllow, RouteRestrict, RouteSandbox}"
    "\<forall>entry \<in> set (cg_Resources grant). check_resource_grant cfg' agentID capability entry = None"
    by (auto simp: check_capability_grant_def Let_def split: if_splits)
  show "cg_Route grant \<in> {RouteNone, RouteAllow, RouteRestrict, RouteSandbox}" "cg_AllowedTools grant \<noteq> []"
    using g(1,2) by auto
  show "mget (cf_Resources cfg') resourceID \<noteq> None \<and> rg_AllowedOperations rg \<noteq> []"
    if "mget (cg_Resources grant) resourceID = Some rg"
    using g(3) mget_Some_in [OF that] by (fastforce simp: check_resource_grant_def Let_def split: if_splits)
qed

end
