(* ===== verification/Risk.thy ===== *)
theory Risk
  imports Models Json
begin

text \<open>
  \<open>internal/risk/scorer.go\<close>: the advisory score of a request. Every rule adds points and a
  signal; the sum is cut at one hundred.
\<close>

definition sensitivity_points :: "string \<Rightarrow> int" where
  "sensitivity_points s =
    (if s = ''medium'' then 20 else if s = ''high'' then 35 else if s = ''critical'' then 50 else 0)"

text \<open>One rule: its points and its signal when it applies.\<close>

definition risk_rule :: "bool \<Rightarrow> int \<Rightarrow> string \<Rightarrow> (int \<times> string) list" where
  "risk_rule applies points signal = (if applies then [(points, signal)] else [])"

definition resource_risk :: "policy_config \<Rightarrow> string \<Rightarrow> string list \<Rightarrow> (int \<times> string) list" where
  "resource_risk cfg target scopes =
    (case mget (cf_Resources cfg) target of
       None \<Rightarrow> [(50, ''unclassified resource (+50)'')]
     | Some resource \<Rightarrow>
         let points = sensitivity_points (rp_Sensitivity resource)
         in risk_rule (points > 0) points
              (rp_Sensitivity resource @ '' resource sensitivity (+'' @ show_int points @ '')'')
            @ risk_rule (\<not> list_all (contains scopes) (rp_Scopes resource)) 35 ''delegated scope mismatch (+35)'')"

definition risk_rules :: "policy_config \<Rightarrow> request \<Rightarrow> (int \<times> string) list" where
  "risk_rules cfg req =
    (let a = EffectiveAction req; authority = EffectiveAuthority req
     in resource_risk cfg (aq_TargetResource a) (da_Scopes authority)
        @ risk_rule (contains (cf_SensitiveActions cfg) (aq_Capability a)) 20 ''sensitive capability (+20)''
        @ risk_rule (contains (cf_ProhibitedActions cfg) (aq_Capability a)) 60 ''prohibited capability (+60)''
        @ risk_rule (case aq_Destination a of None \<Rightarrow> False | Some d \<Rightarrow> ds_External d) 25
            ''external trust-boundary crossing (+25)''
        @ risk_rule (aq_SideEffect a \<noteq> [] \<and> aq_SideEffect a \<noteq> ''none'' \<and> aq_SideEffect a \<noteq> ''read_only'') 15
            ''side-effecting operation (+15)''
        @ risk_rule (case rq_DataAccess req of None \<Rightarrow> False | Some d \<Rightarrow> dx_Protected d) 10
            ''protected data class (+10)'')"

definition riskLevel :: "int \<Rightarrow> string" where
  "riskLevel score = (if score \<ge> 70 then ''high'' else if score \<ge> 35 then ''medium'' else ''low'')"

definition Assess :: "policy_config \<Rightarrow> request \<Rightarrow> risk_assessment" where
  "Assess cfg req =
    (let rules = risk_rules cfg req;
         total = sum_list (map fst rules);
         score = (if total > 100 then 100 else total);
         signals = map snd rules
     in \<lparr>ra_Score = score, ra_Level = riskLevel score,
         ra_Signals = (if signals = [] then [''no elevated risk signals''] else signals), ra_AdvisoryOnly = False\<rparr>)"

end
