(* ===== verification/Policy_Facts.thy ===== *)
theory Policy_Facts
  imports Config_Load Risk
begin

text \<open>What a decision of the policy means, and what an accepted configuration rules out.\<close>

text \<open>The grant that a request matches, declaratively.\<close>

definition policy_match ::
  "policy_config \<Rightarrow> request \<Rightarrow> time \<Rightarrow> agent_policy \<Rightarrow> resource_policy \<Rightarrow> capability_grant \<Rightarrow> resource_grant \<Rightarrow> bool" where
  "policy_match cfg req now agent resource capability rg \<longleftrightarrow>
    (UsesStructuredContext req \<or> cp_AllowLegacyFlatRequests (cf_Compatibility cfg))
    \<and> mget (cf_Agents cfg) (ai_AgentID (EffectiveAgent req)) = Some agent
    \<and> (ap_WorkloadIDs agent \<noteq> [] \<longrightarrow> ai_WorkloadID (EffectiveAgent req) \<in> set (ap_WorkloadIDs agent))
    \<and> (da_Subject (EffectiveAuthority req) \<noteq> [] \<and> pn_PrincipalID (EffectivePrincipal req) \<noteq> [] \<longrightarrow>
         da_Subject (EffectiveAuthority req) = pn_PrincipalID (EffectivePrincipal req))
    \<and> (\<forall>t. da_ExpiresAt (EffectiveAuthority req) = Some t \<longrightarrow> now < t)
    \<and> mget (cf_Resources cfg) (aq_TargetResource (EffectiveAction req)) = Some resource
    \<and> aq_Capability (EffectiveAction req) \<notin> set (cf_ProhibitedActions cfg)
    \<and> aq_TargetResource (EffectiveAction req) \<notin> set (ap_DeniedResources agent)
    \<and> find_capability agent resource (EffectiveAction req) = Some capability
    \<and> mget (cg_Resources capability) (aq_TargetResource (EffectiveAction req)) = Some rg
    \<and> match_tool cfg req capability \<noteq> [] \<and> match_tool cfg req capability \<in> set (cg_AllowedTools capability)
    \<and> match_operation cfg req rg \<noteq> [] \<and> match_operation cfg req rg \<in> set (rg_AllowedOperations rg)
    \<and> set (required_scopes resource capability rg) \<subseteq> set (da_Scopes (EffectiveAuthority req))
    \<and> check_constraints (EffectiveAction req) (match_operation cfg req rg)
         (mergeConstraints (cg_Constraints capability) (rg_Constraints rg)) = None"

lemma policy_match_parts:
  assumes "policy_match cfg req now agent resource capability rg"
  shows "mget (cf_Agents cfg) (ai_AgentID (EffectiveAgent req)) = Some agent"
    "find_capability agent resource (EffectiveAction req) = Some capability"
  using assms unfolding policy_match_def by blast+

definition match_grant :: "policy_config \<Rightarrow> request \<Rightarrow> resource_policy \<Rightarrow> capability_grant \<Rightarrow> resource_grant \<Rightarrow> matched_grant" where
  "match_grant cfg req resource capability rg =
    \<lparr>mg_AgentID = ai_AgentID (EffectiveAgent req), mg_WorkloadID = ai_WorkloadID (EffectiveAgent req),
     mg_Capability = aq_Capability (EffectiveAction req), mg_Tool = match_tool cfg req capability,
     mg_Resource = aq_TargetResource (EffectiveAction req), mg_AllowedOperations = rg_AllowedOperations rg,
     mg_RequiredScopes = required_scopes resource capability rg,
     mg_Constraints = mergeConstraints (cg_Constraints capability) (rg_Constraints rg)\<rparr>"

lemma deny_simps [simp]:
  "\<not> pd_Authorized (deny r m)" "pd_Status (deny r m) = StatusDenied" "pd_Grant (deny r m) = None"
  "pd_Route (deny r m) = RouteDeny"
  by (simp_all add: deny_def)

lemma missingScopes_empty: "missingScopes actual required = [] \<longleftrightarrow> set required \<subseteq> set actual"
  by (auto simp: missingScopes_def filter_empty_conv)

lemma check_identity_ok:
  "check_identity cfg req now = Inr (agent, resource) \<longleftrightarrow>
    (UsesStructuredContext req \<or> cp_AllowLegacyFlatRequests (cf_Compatibility cfg))
    \<and> mget (cf_Agents cfg) (ai_AgentID (EffectiveAgent req)) = Some agent
    \<and> (ap_WorkloadIDs agent \<noteq> [] \<longrightarrow> ai_WorkloadID (EffectiveAgent req) \<in> set (ap_WorkloadIDs agent))
    \<and> (da_Subject (EffectiveAuthority req) \<noteq> [] \<and> pn_PrincipalID (EffectivePrincipal req) \<noteq> [] \<longrightarrow>
         da_Subject (EffectiveAuthority req) = pn_PrincipalID (EffectivePrincipal req))
    \<and> (\<forall>t. da_ExpiresAt (EffectiveAuthority req) = Some t \<longrightarrow> now < t)
    \<and> mget (cf_Resources cfg) (aq_TargetResource (EffectiveAction req)) = Some resource
    \<and> aq_Capability (EffectiveAction req) \<notin> set (cf_ProhibitedActions cfg)
    \<and> aq_TargetResource (EffectiveAction req) \<notin> set (ap_DeniedResources agent)"
  by (auto simp: check_identity_def Let_def split: option.split)

lemma check_identity_denies: "check_identity cfg req now = Inl d \<Longrightarrow> \<exists>r m. d = deny r m"
  by (auto simp: check_identity_def Let_def split: option.splits if_splits)

lemma find_grant_ok:
  "find_grant agent resource a = Inr (capability, rg) \<longleftrightarrow>
     find_capability agent resource a = Some capability \<and> mget (cg_Resources capability) (aq_TargetResource a) = Some rg"
  by (auto simp: find_grant_def split: option.split)

lemma find_grant_denies: "find_grant agent resource a = Inl d \<Longrightarrow> \<exists>r m. d = deny r m"
  by (auto simp: find_grant_def split: option.splits)

lemma check_constraints_denies: "check_constraints a p c = Some d \<Longrightarrow> \<exists>r m. d = deny r m"
  by (auto simp: check_constraints_def Let_def split: if_splits)

text \<open>Every decision is a denial or the decision of the matching grant.\<close>

lemma Evaluate_matches:
  assumes "policy_match cfg req now agent resource capability rg"
  shows "Policy_Evaluate cfg req now = grant_decision (cg_Route capability) (match_grant cfg req resource capability rg)"
proof -
  have "check_identity cfg req now = Inr (agent, resource)"
    using assms unfolding check_identity_ok policy_match_def by (elim conjE) (intro conjI; assumption)
  moreover have "find_grant agent resource (EffectiveAction req) = Inr (capability, rg)"
    using assms unfolding find_grant_ok policy_match_def by (elim conjE) (intro conjI; assumption)
  ultimately show ?thesis
    using assms by (simp add: Policy_Evaluate_def Let_def policy_match_def match_grant_def missingScopes_empty)
qed

lemma Evaluate_otherwise:
  assumes "\<And>agent resource capability rg. \<not> policy_match cfg req now agent resource capability rg"
  shows "\<exists>r m. Policy_Evaluate cfg req now = deny r m"
proof (cases "check_identity cfg req now")
  case (Inl d)
  then show ?thesis using check_identity_denies by (fastforce simp: Policy_Evaluate_def)
next
  case (Inr ar)
  obtain agent resource where ar: "ar = (agent, resource)" by (rule prod.exhaust)
  show ?thesis
  proof (cases "find_grant agent resource (EffectiveAction req)")
    case (Inl d)
    then show ?thesis using find_grant_denies Inr ar by (fastforce simp: Policy_Evaluate_def Let_def)
  next
    case inr: (Inr cr)
    obtain capability rg where cr: "cr = (capability, rg)" by (rule prod.exhaust)
    have no: "\<not> (match_tool cfg req capability \<noteq> [] \<and> match_tool cfg req capability \<in> set (cg_AllowedTools capability)
      \<and> match_operation cfg req rg \<noteq> [] \<and> match_operation cfg req rg \<in> set (rg_AllowedOperations rg)
      \<and> set (required_scopes resource capability rg) \<subseteq> set (da_Scopes (EffectiveAuthority req))
      \<and> check_constraints (EffectiveAction req) (match_operation cfg req rg)
         (mergeConstraints (cg_Constraints capability) (rg_Constraints rg)) = None)"
      using assms [of agent resource capability rg] Inr [unfolded ar check_identity_ok] inr [unfolded cr find_grant_ok]
      unfolding policy_match_def by blast
    show ?thesis
    proof (cases "check_constraints (EffectiveAction req) (match_operation cfg req rg)
        (mergeConstraints (cg_Constraints capability) (rg_Constraints rg))")
      case None
      then show ?thesis using no Inr ar inr cr
        by (auto simp: Policy_Evaluate_def Let_def missingScopes_empty)
    next
      case (Some d)
      obtain r m where "d = deny r m" using check_constraints_denies [OF Some] by blast
      then show ?thesis using Some Inr ar inr cr
        by (auto simp: Policy_Evaluate_def Let_def missingScopes_empty)
    qed
  qed
qed

lemma Evaluate_grant:
  assumes "pd_Grant (Policy_Evaluate cfg req now) = Some g"
  obtains agent resource capability rg where "policy_match cfg req now agent resource capability rg"
    "g = match_grant cfg req resource capability rg"
    "Policy_Evaluate cfg req now = grant_decision (cg_Route capability) g"
proof -
  obtain agent resource capability rg where m: "policy_match cfg req now agent resource capability rg"
    using Evaluate_otherwise [of cfg req now] assms by force
  note e = Evaluate_matches [OF m]
  have "g = match_grant cfg req resource capability rg"
    using assms by (simp add: e grant_decision_def Let_def)
  then show thesis using that m e by simp
qed

lemma Evaluate_authorized:
  assumes "pd_Authorized (Policy_Evaluate cfg req now)"
  obtains agent resource capability rg where "policy_match cfg req now agent resource capability rg"
    "cg_Route capability \<notin> {RouteDeny, RouteEscalate}"
    "Policy_Evaluate cfg req now = grant_decision (cg_Route capability) (match_grant cfg req resource capability rg)"
proof -
  obtain agent resource capability rg where m: "policy_match cfg req now agent resource capability rg"
    using Evaluate_otherwise [of cfg req now] assms by force
  note e = Evaluate_matches [OF m]
  have "cg_Route capability \<notin> {RouteDeny, RouteEscalate}"
    using assms by (auto simp: e grant_decision_def Let_def split: if_splits)
  then show thesis using that m e by simp
qed

text \<open>The flag and the status of a decision agree.\<close>

lemma Evaluate_status:
  "pd_Authorized (Policy_Evaluate cfg req now) \<longleftrightarrow> pd_Status (Policy_Evaluate cfg req now) = StatusAuthorized"
proof (cases "\<exists>agent resource capability rg. policy_match cfg req now agent resource capability rg")
  case True
  then show ?thesis using Evaluate_matches by (fastforce simp: grant_decision_def Let_def)
next
  case False
  then show ?thesis using Evaluate_otherwise [of cfg req now] by auto
qed

lemma constraints_respected:
  assumes "check_constraints a p c = None"
  shows "aq_Destination a = Some d \<Longrightarrow> ds_External d \<Longrightarrow> co_NetworkEgress c = ''allow''"
    "requestsSecret a \<Longrightarrow> co_SecretAccess c = ''allow''"
    "IsWriteOperation p \<Longrightarrow> co_WriteAccess c = ''allow''"
    "trim_space (aq_SideEffect a) \<notin> {[], ''none'', ''read_only''} \<Longrightarrow> trim_space (aq_SideEffect a) \<in> set (side_effects c)"
    "0 < co_MaxBytes c \<Longrightarrow> aq_Bytes a \<le> co_MaxBytes c"
  using assms by (auto simp: check_constraints_def Let_def split: if_splits)

text \<open>What \<open>Load\<close> accepts never asks for approval.\<close>

lemma find_capability_loaded:
  assumes "Load_config cfg = Inr cfg'" "mget (cf_Agents cfg') i = Some agent" "find_capability agent resource a = Some capability"
  shows "cg_Route capability \<in> {RouteNone, RouteAllow, RouteRestrict, RouteSandbox}"
  using assms Load_grants(1) [OF assms(1,2)]
  by (auto simp: find_capability_def legacyGrant_def split: option.splits if_splits)

section \<open>The risk score\<close>

lemma risk_rule_points: "0 \<le> p \<Longrightarrow> \<forall>x \<in> set (risk_rule b p s). 0 \<le> fst x"
  by (simp add: risk_rule_def)

lemma risk_points: "\<forall>x \<in> set (risk_rules cfg req). 0 < fst x"
  by (auto simp: risk_rules_def resource_risk_def risk_rule_def Let_def split: option.splits if_splits)

lemma risk_total: "0 \<le> sum_list (map fst (risk_rules cfg req))"
  using risk_points [of cfg req] by (intro sum_list_nonneg) (auto simp: less_imp_le)

end
