(* ===== verification/Policy_Properties.thy ===== *)
theory Policy_Properties
  imports Policy_Facts
begin

text \<open>
  The properties of the policy engine, of the loaded configuration and of the risk score, with a
  concrete policy and request.
\<close>

definition open_constraints :: constraints where
  "open_constraints =
    \<lparr>co_NetworkEgress = ''allow'', co_SecretAccess = ''deny'', co_WriteAccess = ''allow'',
     co_AllowedSideEffects = Some [''financial_transaction''], co_MaxBytes = 4096, co_MaxDurationMS = 0,
     co_ExecutorProfile = []\<rparr>"

definition sample_grant :: capability_grant where
  "sample_grant =
    \<lparr>cg_AllowedTools = [''payment.send''],
     cg_Resources = [(''acct'', \<lparr>rg_AllowedOperations = [''create''], rg_RequiredScopes = [''pay''],
                                rg_Constraints = zero_constraints\<rparr>)],
     cg_RequiredScopes = [], cg_Constraints = open_constraints, cg_Route = RouteNone\<rparr>"

definition zero_payment :: payment_config where
  "zero_payment =
    \<lparr>py_ProfileID = [], py_MCPTool = [], py_Capability = [], py_Resource = [], py_Operation = [], py_Audience = [],
     py_UpstreamURL = [], py_AllowedCurrencies = [], py_MaxAmountMinorByCurrency = [], py_AllowedRecipients = []\<rparr>"

definition zero_workspace :: workspace_config where
  "zero_workspace =
    \<lparr>wk_ProfileID = [], wk_MCPTool = [], wk_Capability = [], wk_Resource = [], wk_Operation = [], wk_Audience = [],
     wk_UpstreamURL = [], wk_MaxPathBytes = 0, wk_MaxContentBytes = 0\<rparr>"

definition sample_policy :: policy_config where
  "sample_policy =
    \<lparr>cf_Version = ''v1'',
     cf_Agents = [(''agent'', \<lparr>ap_WorkloadIDs = [''w''], ap_Capabilities = [(''pay.send'', sample_grant)],
                              ap_AllowedCapabilities = [], ap_DeniedResources = []\<rparr>)],
     cf_Resources = [(''acct'', \<lparr>rp_Sensitivity = ''high'', rp_Scopes = []\<rparr>)],
     cf_SensitiveActions = [''pay.send''], cf_RestrictedActions = [], cf_ProhibitedActions = [],
     cf_SuspiciousActions = [],
     cf_SessionControls = \<lparr>sc_PrivacyReadBudget = 0, sc_CumulativeRiskLimit = 0, sc_EgressCapabilities = [],
       sc_SideEffectCapabilities = [], sc_InjectionRiskSignals = []\<rparr>,
     cf_Compatibility = \<lparr>cp_AllowLegacyFlatRequests = False, cp_AllowMissingTool = False, cp_AllowMissingOperation = False\<rparr>,
     cf_Permits = \<lparr>pp_TTLSeconds = 30, pp_Issuer = ''aegis''\<rparr>,
     cf_SemanticActions = \<lparr>sm_PaymentSendV1 = zero_payment, sm_WorkspaceWriteV1 = zero_workspace\<rparr>\<rparr>"

definition sample_pay_request :: request where
  "sample_pay_request = zero_request
    \<lparr>rq_RequestID := ''r1'',
     rq_Principal := zero_principal\<lparr>pn_PrincipalID := ''alice'', pn_PrincipalType := ''human''\<rparr>,
     rq_Agent := zero_agent\<lparr>ai_AgentID := ''agent'', ai_WorkloadID := ''w''\<rparr>,
     rq_Authority := zero_delegation\<lparr>da_CredentialFingerprint := replicate 64 (CHR ''a''), da_Scopes := [''pay''],
                                     da_Subject := ''alice''\<rparr>,
     rq_Tool := zero_tool\<lparr>tc_Name := ''payment.send''\<rparr>,
     rq_Action := zero_action_request\<lparr>aq_Capability := ''pay.send'', aq_Operation := ''create'',
                                      aq_TargetResource := ''acct''\<rparr>\<rparr>"

lemma sample_policy_authorizes: "pd_Authorized (Policy_Evaluate sample_policy sample_pay_request 0)"
  by code_simp

text \<open>C20: the policy authorises a request exactly when it matches an explicit grant in every respect (identity,
  workload, subject, live delegation, classified and permitted resource, capability, tool, operation, scopes,
  constraints) whose route is neither deny nor escalate; everything else is denied.\<close>

theorem policy_authorized_iff:
  "pd_Authorized (Policy_Evaluate cfg req now) \<longleftrightarrow>
    (\<exists>agent resource capability rg. policy_match cfg req now agent resource capability rg
       \<and> cg_Route capability \<notin> {RouteDeny, RouteEscalate})"
proof
  assume a: "pd_Authorized (Policy_Evaluate cfg req now)"
  obtain agent resource capability rg where "policy_match cfg req now agent resource capability rg"
    "cg_Route capability \<notin> {RouteDeny, RouteEscalate}" by (rule Evaluate_authorized [OF a])
  then show "\<exists>agent resource capability rg. policy_match cfg req now agent resource capability rg
       \<and> cg_Route capability \<notin> {RouteDeny, RouteEscalate}" by blast
next
  assume "\<exists>agent resource capability rg. policy_match cfg req now agent resource capability rg
       \<and> cg_Route capability \<notin> {RouteDeny, RouteEscalate}"
  then obtain agent resource capability rg where "policy_match cfg req now agent resource capability rg"
    "cg_Route capability \<notin> {RouteDeny, RouteEscalate}" by blast
  then show "pd_Authorized (Policy_Evaluate cfg req now)"
    by (simp add: Evaluate_matches grant_decision_def Let_def)
qed

text \<open>An authorised decision carries a grant for the requested capability, resource and operation whose
  scopes the delegation covers, and the request stays within its constraints: external egress, secret access,
  writes and side effects only where they are allowed, and no more bytes than the limit.\<close>

theorem policy_authorized_within_grant:
  assumes "pd_Authorized (Policy_Evaluate cfg req now)"
  shows "\<exists>g. pd_Grant (Policy_Evaluate cfg req now) = Some g
    \<and> mg_Capability g = aq_Capability (EffectiveAction req) \<and> mg_Resource g = aq_TargetResource (EffectiveAction req)
    \<and> mg_Capability g \<notin> set (cf_ProhibitedActions cfg)
    \<and> set (mg_RequiredScopes g) \<subseteq> set (da_Scopes (EffectiveAuthority req))
    \<and> (UsesStructuredContext req \<longrightarrow> aq_Operation (EffectiveAction req) \<in> set (mg_AllowedOperations g)
         \<and> mg_Tool g = firstNonEmpty [tc_Name (EffectiveTool req), tc_ToolID (EffectiveTool req)])
    \<and> (\<forall>t. da_ExpiresAt (EffectiveAuthority req) = Some t \<longrightarrow> now < t)
    \<and> (\<forall>d. aq_Destination (EffectiveAction req) = Some d \<and> ds_External d \<longrightarrow> co_NetworkEgress (mg_Constraints g) = ''allow'')
    \<and> (requestsSecret (EffectiveAction req) \<longrightarrow> co_SecretAccess (mg_Constraints g) = ''allow'')
    \<and> (UsesStructuredContext req \<and> IsWriteOperation (aq_Operation (EffectiveAction req)) \<longrightarrow>
         co_WriteAccess (mg_Constraints g) = ''allow'')
    \<and> (0 < co_MaxBytes (mg_Constraints g) \<longrightarrow> aq_Bytes (EffectiveAction req) \<le> co_MaxBytes (mg_Constraints g))"
proof -
  obtain agent resource capability rg where m: "policy_match cfg req now agent resource capability rg"
    "Policy_Evaluate cfg req now = grant_decision (cg_Route capability) (match_grant cfg req resource capability rg)"
    by (rule Evaluate_authorized [OF assms])
  have c: "check_constraints (EffectiveAction req) (match_operation cfg req rg)
    (mergeConstraints (cg_Constraints capability) (rg_Constraints rg)) = None"
    using m(1) unfolding policy_match_def by (elim conjE)
  have t: "UsesStructuredContext req \<Longrightarrow> match_operation cfg req rg = aq_Operation (EffectiveAction req)"
    "UsesStructuredContext req \<Longrightarrow> match_tool cfg req capability = firstNonEmpty [tc_Name (EffectiveTool req), tc_ToolID (EffectiveTool req)]"
    by (simp_all add: match_operation_def match_tool_def Let_def del: firstNonEmpty.simps)
  have grant: "pd_Grant (Policy_Evaluate cfg req now) = Some (match_grant cfg req resource capability rg)"
    by (simp add: m(2) grant_decision_def Let_def)
  note f = m(1) [unfolded policy_match_def]
  have op: "match_operation cfg req rg \<in> set (rg_AllowedOperations rg)" using f by (elim conjE)
  have t': "UsesStructuredContext req \<Longrightarrow> aq_Operation (EffectiveAction req) \<in> set (rg_AllowedOperations rg)"
    "UsesStructuredContext req \<Longrightarrow> IsWriteOperation (aq_Operation (EffectiveAction req)) \<Longrightarrow>
      co_WriteAccess (mergeConstraints (cg_Constraints capability) (rg_Constraints rg)) = ''allow''"
    using op constraints_respected(3) [OF c] by (simp_all add: t(1))
  show ?thesis
    by (rule exI [of _ "match_grant cfg req resource capability rg"])
      (use f grant constraints_respected(1,2,5) [OF c] t(2) t' in \<open>simp add: match_grant_def del: firstNonEmpty.simps\<close>)
qed

theorem policy_authorized_within_grant_witness:
  "\<exists>g. pd_Grant (Policy_Evaluate sample_policy sample_pay_request 0) = Some g \<and> mg_Capability g = ''pay.send''"
proof -
  have "aq_Capability (EffectiveAction sample_pay_request) = ''pay.send''" by code_simp
  then show ?thesis using policy_authorized_within_grant [OF sample_policy_authorizes] by fastforce
qed

text \<open>With a configuration that \<open>Load\<close> accepted, no request is ever sent for approval, and an authorised one is
  routed to allow, restrict or sandbox.\<close>

theorem loaded_policy_routes:
  assumes "Load_config cfg = Inr cfg'"
  shows "pd_Status (Policy_Evaluate cfg' req now) \<noteq> StatusRequiresApproval
    \<and> (pd_Authorized (Policy_Evaluate cfg' req now) \<longrightarrow>
         pd_Route (Policy_Evaluate cfg' req now) \<in> {RouteAllow, RouteRestrict, RouteSandbox})"
proof (cases "\<exists>agent resource capability rg. policy_match cfg' req now agent resource capability rg")
  case True
  then obtain agent resource capability rg where m: "policy_match cfg' req now agent resource capability rg" by blast
  have f: "mget (cf_Agents cfg') (ai_AgentID (EffectiveAgent req)) = Some agent"
    "find_capability agent resource (EffectiveAction req) = Some capability"
    using policy_match_parts [OF m] by blast+
  show ?thesis using find_capability_loaded [OF assms f]
    by (auto simp: Evaluate_matches [OF m] grant_decision_def Let_def)
next
  case False
  then obtain r x where "Policy_Evaluate cfg' req now = deny r x" using Evaluate_otherwise by blast
  then show ?thesis by simp
qed

theorem loaded_policy_routes_witness:
  "pd_Route (Policy_Evaluate (config_defaults sample_policy) sample_pay_request 0) \<in> {RouteAllow, RouteRestrict, RouteSandbox}"
proof -
  have "Load_config sample_policy = Inr (config_defaults sample_policy)"
    "pd_Authorized (Policy_Evaluate (config_defaults sample_policy) sample_pay_request 0)" by code_simp+
  then show ?thesis using loaded_policy_routes by blast
qed

text \<open>C33: the advisory score lies between zero and one hundred, is zero exactly when no rule applies, comes with at
  least one signal, and determines the level at the thresholds thirty-five and seventy.\<close>

theorem risk_score_bounded:
  "0 \<le> ra_Score (Assess cfg req) \<and> ra_Score (Assess cfg req) \<le> 100
   \<and> (ra_Score (Assess cfg req) = 0 \<longleftrightarrow> risk_rules cfg req = [])
   \<and> ra_Signals (Assess cfg req) \<noteq> []
   \<and> (ra_Level (Assess cfg req) = ''high'' \<longleftrightarrow> 70 \<le> ra_Score (Assess cfg req))
   \<and> (ra_Level (Assess cfg req) = ''low'' \<longleftrightarrow> ra_Score (Assess cfg req) < 35)"
proof -
  have "sum_list (map fst (risk_rules cfg req)) = 0 \<longleftrightarrow> risk_rules cfg req = []"
  proof (cases "risk_rules cfg req")
    case (Cons x xs)
    have p: "0 < fst x" "\<forall>y \<in> set xs. 0 < fst y" using risk_points [of cfg req] Cons by auto
    then have "0 \<le> sum_list (map fst xs)" by (intro sum_list_nonneg) (auto intro: less_imp_le)
    with p(1) show ?thesis by (simp add: Cons)
  qed simp
  then show ?thesis using risk_total [of cfg req] by (auto simp: Assess_def Let_def riskLevel_def)
qed

end
