(* ===== verification/Semantic_Action.thy ===== *)
theory Semantic_Action
  imports Canonical_Action Json_Struct Models
begin

text \<open>
  \<open>internal/semanticaction\<close>: the two compiled-in business profiles, \<open>payment.send/v1\<close> and
  \<open>workspace.write/v1\<close>, the dispatcher over them and the preparation of an execution.

  \<open>net/url\<close> and the Unicode case tables are a parameter: how a URL parses, and whether a text
  is its own upper case.
\<close>

record url =
  ur_Scheme :: string
  ur_Host :: string
  ur_HasUser :: bool
  ur_Fragment :: string
  ur_RawQuery :: string
  ur_ForceQuery :: bool
  ur_String :: string

record go_library =
  gl_parse_url :: "string \<Rightarrow> url option"
  gl_upper :: "string \<Rightarrow> bool"

datatype semantic_error =
    Rejection string string
  | SemanticFailure message
  | SemanticJSON json_error
  | SemanticAction action_error

text \<open>\<open>Code\<close>: the code of a rejection, a default for any other error.\<close>

fun rejection_code :: "semantic_error \<Rightarrow> string" where
  "rejection_code (Rejection code detail) = code"
| "rejection_code _ = ''SEMANTIC_ARGUMENTS_INVALID''"

record semantic_input =
  si_PrincipalID :: string
  si_AgentID :: string
  si_WorkloadID :: string
  si_DelegatedAuthorityFingerprint :: string
  si_Tool :: string
  si_Capability :: string
  si_Resource :: string
  si_Operation :: string
  si_ProfileID :: string
  si_Audience :: string
  si_Arguments :: string

record policy_facts =
  sf_SideEffect :: string
  sf_Bytes :: int

record resolved =
  sr_Action :: action
  sr_NormalizedArguments :: string
  sr_UpstreamURL :: string
  sr_PolicyFacts :: policy_facts

section \<open>Shared by the profiles\<close>

text \<open>
  \<open>executionBinding\<close>: the digest over the configuration and the route. A map is marshalled with
  its keys sorted.
\<close>

definition executionBinding :: "crypto \<Rightarrow> json \<Rightarrow> string \<Rightarrow> semantic_error + string" where
  "executionBinding cr config upstreamURL =
    (case CanonicalizeJSON (marshal_json (JObj
        [(''credential_mode'', JStr ''anonymous''), (''profile_config'', config),
         (''schema'', JStr ''aegis.prepared-execution/v2''), (''upstream_url'', JStr upstreamURL)])) of
       Inl e \<Rightarrow> Inl (SemanticJSON e)
     | Inr canonical \<Rightarrow> Inr (sha256_text cr canonical))"

definition absolute_url :: "url \<Rightarrow> bool" where
  "absolute_url u \<longleftrightarrow> ur_Scheme u \<noteq> [] \<and> ur_Host u \<noteq> [] \<and> (ur_Scheme u = ''http'' \<or> ur_Scheme u = ''https'')"

definition plain_url :: "url \<Rightarrow> bool" where
  "plain_url u \<longleftrightarrow> \<not> ur_HasUser u \<and> ur_Fragment u = [] \<and> ur_RawQuery u = [] \<and> \<not> ur_ForceQuery u"

text \<open>The two \<open>Decode\<close> calls on the arguments: one value into a struct, then nothing.\<close>

datatype 'r decoded = DecodeFailed | TrailingJSON | Decoded 'r

definition decode_arguments :: "'r field list \<Rightarrow> 'r \<Rightarrow> string \<Rightarrow> 'r decoded" where
  "decode_arguments fs r raw =
    (case read_value False (reader_fuel raw) 0 raw of
       Inl e \<Rightarrow> DecodeFailed
     | Inr (v, rest) \<Rightarrow>
         (case decode_struct True fs r v of
            None \<Rightarrow> DecodeFailed
          | Some w \<Rightarrow> if skip_ws rest = [] then Decoded w else TrailingJSON))"

text \<open>Assignment to a pointer field: \<open>null\<close> makes it nil.\<close>

definition set_pointer_string :: "(string option \<Rightarrow> 'r \<Rightarrow> 'r) \<Rightarrow> 'r \<Rightarrow> json \<Rightarrow> 'r option" where
  "set_pointer_string upd r v =
    (case v of JStr s \<Rightarrow> Some (upd (Some s) r) | JNull \<Rightarrow> Some (upd None r) | _ \<Rightarrow> None)"

definition set_pointer_int64 :: "(int option \<Rightarrow> 'r \<Rightarrow> 'r) \<Rightarrow> 'r \<Rightarrow> json \<Rightarrow> 'r option" where
  "set_pointer_int64 upd r v =
    (case v of JNum n \<Rightarrow> map_option (\<lambda>i. upd (Some i) r) (parse_int64 n) | JNull \<Rightarrow> Some (upd None r) | _ \<Rightarrow> None)"

text \<open>The action a profile builds from the input and its own configuration.\<close>

definition profile_action ::
  "semantic_input \<Rightarrow> string \<Rightarrow> string \<Rightarrow> string \<Rightarrow> string \<Rightarrow> string \<Rightarrow> string \<Rightarrow> string \<Rightarrow> action" where
  "profile_action i tool capability resource operation profileID audience arguments =
    \<lparr>ac_PrincipalID = si_PrincipalID i, ac_AgentID = si_AgentID i, ac_WorkloadID = si_WorkloadID i,
     ac_DelegatedAuthorityFingerprint = si_DelegatedAuthorityFingerprint i,
     ac_Tool = tool, ac_Capability = capability, ac_Resource = resource, ac_Operation = operation,
     ac_ProfileID = profileID, ac_Audience = audience, ac_ExecutionBinding = [], ac_Arguments = arguments\<rparr>"

section \<open>Payments\<close>

definition PaymentSendV1ID :: string where "PaymentSendV1ID = ''payment.send/v1''"

record payment_arguments =
  pa_AmountMinor :: int
  pa_Currency :: string
  pa_Recipient :: string

record payment_profile =
  pf_binding :: string
  pf_config :: payment_config
  pf_currencies :: "(string, int) gomap"
  pf_recipients :: "string list"
  pf_upstream :: url

definition payment_config_json :: "payment_config \<Rightarrow> json" where
  "payment_config_json c =
    JObj [(''profile_id'', JStr (py_ProfileID c)), (''mcp_tool'', JStr (py_MCPTool c)),
          (''capability'', JStr (py_Capability c)), (''resource'', JStr (py_Resource c)),
          (''operation'', JStr (py_Operation c)), (''audience'', JStr (py_Audience c)),
          (''upstream_url'', JStr (py_UpstreamURL c)),
          (''allowed_currencies'', JArr (map JStr (py_AllowedCurrencies c))),
          (''max_amount_minor_by_currency'',
             JObj (sort_key fst (map (\<lambda>(k, n). (k, JNum (show_int n))) (py_MaxAmountMinorByCurrency c)))),
          (''allowed_recipients'', JArr (map JStr (py_AllowedRecipients c)))]"

fun payment_currencies ::
  "go_library \<Rightarrow> payment_config \<Rightarrow> string list \<Rightarrow> (string, int) gomap \<Rightarrow> semantic_error + (string, int) gomap" where
  "payment_currencies lib c [] acc = Inr acc"
| "payment_currencies lib c (currency # rest) acc =
    (if currency = [] \<or> \<not> gl_upper lib currency
     then Inl (SemanticFailure (Message ''%s currencies must be non-empty uppercase identifiers'' [FormatString PaymentSendV1ID]))
     else case mget (py_MaxAmountMinorByCurrency c) currency of
       None \<Rightarrow> Inl (SemanticFailure (Message ''%s currency %s must have a positive minor-unit limit''
         [FormatString PaymentSendV1ID, FormatString currency]))
     | Some limit \<Rightarrow>
         if limit \<le> 0 then Inl (SemanticFailure (Message ''%s currency %s must have a positive minor-unit limit''
           [FormatString PaymentSendV1ID, FormatString currency]))
         else if mget acc currency \<noteq> None
         then Inl (SemanticFailure (Message ''%s contains duplicate currency %s''
           [FormatString PaymentSendV1ID, FormatString currency]))
         else payment_currencies lib c rest (mput currency limit acc))"

fun payment_recipients :: "string list \<Rightarrow> string list \<Rightarrow> semantic_error + string list" where
  "payment_recipients [] acc = Inr acc"
| "payment_recipients (recipient # rest) acc =
    (if trim_space recipient = [] \<or> recipient \<noteq> trim_space recipient
     then Inl (SemanticFailure (Message ''%s recipients must be non-empty exact identifiers'' [FormatString PaymentSendV1ID]))
     else if contains acc recipient
     then Inl (SemanticFailure (Message ''%s contains duplicate recipient %s''
       [FormatString PaymentSendV1ID, FormatString recipient]))
     else payment_recipients rest (acc @ [recipient]))"

definition NewPaymentSendV1 :: "go_library \<Rightarrow> crypto \<Rightarrow> payment_config \<Rightarrow> semantic_error + payment_profile" where
  "NewPaymentSendV1 lib cr config =
    (if py_ProfileID config \<noteq> PaymentSendV1ID \<or> py_MCPTool config \<noteq> ''payment.send''
        \<or> trim_space (py_Capability config) = [] \<or> trim_space (py_Resource config) = []
        \<or> trim_space (py_Operation config) = [] \<or> trim_space (py_Audience config) = []
     then Inl (SemanticFailure (Message ''invalid %s binding configuration'' [FormatString PaymentSendV1ID]))
     else case gl_parse_url lib (trim_space (py_UpstreamURL config)) of
       None \<Rightarrow> Inl (SemanticFailure (Message ''%s upstream_url must be an absolute HTTP(S) URL'' [FormatString PaymentSendV1ID]))
     | Some upstream \<Rightarrow>
         if \<not> absolute_url upstream
         then Inl (SemanticFailure (Message ''%s upstream_url must be an absolute HTTP(S) URL'' [FormatString PaymentSendV1ID]))
         else case payment_currencies lib config (py_AllowedCurrencies config) [] of
           Inl e \<Rightarrow> Inl e
         | Inr currencies \<Rightarrow>
             if currencies = [] \<or> length currencies \<noteq> length (py_MaxAmountMinorByCurrency config)
             then Inl (SemanticFailure (Message ''%s currency allowlist and per-currency limits must match exactly''
               [FormatString PaymentSendV1ID]))
             else case payment_recipients (py_AllowedRecipients config) [] of
               Inl e \<Rightarrow> Inl e
             | Inr recipients \<Rightarrow>
                 if recipients = []
                 then Inl (SemanticFailure (Message ''%s must allow at least one recipient'' [FormatString PaymentSendV1ID]))
                 else if \<not> plain_url upstream
                 then Inl (SemanticFailure (Message ''%s upstream cannot contain credentials, query, or fragment''
                   [FormatString PaymentSendV1ID]))
                 else case executionBinding cr (payment_config_json (config\<lparr>py_UpstreamURL := ur_String upstream\<rparr>))
                     (ur_String upstream) of
                   Inl e \<Rightarrow> Inl e
                 | Inr binding \<Rightarrow>
                     Inr \<lparr>pf_binding = binding, pf_config = config, pf_currencies = currencies,
                          pf_recipients = recipients, pf_upstream = upstream\<rparr>)"

record payment_wire =
  pw_AmountMinor :: "int option"
  pw_Currency :: "string option"
  pw_Recipient :: "string option"

definition empty_payment_wire :: payment_wire where
  "empty_payment_wire = \<lparr>pw_AmountMinor = None, pw_Currency = None, pw_Recipient = None\<rparr>"

definition payment_fields :: "payment_wire field list" where
  "payment_fields =
    [(''amount_minor'', set_pointer_int64 (\<lambda>x r. r\<lparr>pw_AmountMinor := x\<rparr>)),
     (''currency'', set_pointer_string (\<lambda>x r. r\<lparr>pw_Currency := x\<rparr>)),
     (''recipient'', set_pointer_string (\<lambda>x r. r\<lparr>pw_Recipient := x\<rparr>))]"

definition payment_parseArguments :: "payment_profile \<Rightarrow> string \<Rightarrow> semantic_error + payment_arguments" where
  "payment_parseArguments p raw =
    (case CanonicalizeJSON raw of
       Inl e \<Rightarrow> Inl (Rejection ''PAYMENT_ARGUMENTS_INVALID'' ''arguments must be unambiguous JSON'')
     | Inr canonical \<Rightarrow>
         (case decode_arguments payment_fields empty_payment_wire raw of
            DecodeFailed \<Rightarrow> Inl (Rejection ''PAYMENT_ARGUMENTS_INVALID''
              ''only amount_minor, currency, and recipient with exact JSON types are allowed'')
          | TrailingJSON \<Rightarrow> Inl (Rejection ''PAYMENT_ARGUMENTS_INVALID'' ''trailing JSON is not allowed'')
          | Decoded wire \<Rightarrow>
              (case (pw_AmountMinor wire, pw_Currency wire, pw_Recipient wire) of
                 (Some amount, Some currency, Some recipient) \<Rightarrow>
                   if currency = [] \<or> recipient = []
                   then Inl (Rejection ''PAYMENT_ARGUMENTS_INVALID'' ''amount_minor, currency, and recipient are required'')
                   else if amount \<le> 0
                   then Inl (Rejection ''PAYMENT_AMOUNT_INVALID'' ''amount_minor must be a positive integer'')
                   else (case mget (pf_currencies p) currency of
                       None \<Rightarrow> Inl (Rejection ''PAYMENT_CURRENCY_NOT_ALLOWED'' ''currency is not on the server allowlist'')
                     | Some limit \<Rightarrow>
                         if amount > limit
                         then Inl (Rejection ''PAYMENT_AMOUNT_EXCEEDS_LIMIT''
                           ''amount_minor exceeds the configured limit for this currency'')
                         else if \<not> contains (pf_recipients p) recipient
                         then Inl (Rejection ''PAYMENT_RECIPIENT_NOT_ALLOWED'' ''recipient is not on the server allowlist'')
                         else Inr \<lparr>pa_AmountMinor = amount, pa_Currency = currency, pa_Recipient = recipient\<rparr>)
               | _ \<Rightarrow> Inl (Rejection ''PAYMENT_ARGUMENTS_INVALID'' ''amount_minor, currency, and recipient are required''))))"

definition payment_arguments_json :: "payment_arguments \<Rightarrow> json" where
  "payment_arguments_json a =
    JObj [(''amount_minor'', JNum (show_int (pa_AmountMinor a))), (''currency'', JStr (pa_Currency a)),
          (''recipient'', JStr (pa_Recipient a))]"

text \<open>The checks of both \<open>Resolve\<close> methods before the arguments are read.\<close>

definition binding_conflict ::
  "string \<Rightarrow> string \<Rightarrow> string \<Rightarrow> string \<Rightarrow> string \<Rightarrow> string \<Rightarrow> semantic_input \<Rightarrow> semantic_error option" where
  "binding_conflict prefix capability resource operation profileID audience i =
    (if si_Capability i = [] \<or> si_Resource i = [] \<or> si_Operation i = [] \<or> si_Capability i \<noteq> capability
        \<or> si_Resource i \<noteq> resource \<or> si_Operation i \<noteq> operation
     then Some (Rejection (prefix @ ''_BINDING_CONFLICT'') ''capability, resource, and operation must exactly match the server mapping'')
     else if si_ProfileID i \<noteq> [] \<and> si_ProfileID i \<noteq> profileID
     then Some (Rejection (prefix @ ''_PROFILE_MISMATCH'') ''client profile assertion conflicts with the server mapping'')
     else if si_Audience i \<noteq> [] \<and> si_Audience i \<noteq> audience
     then Some (Rejection (prefix @ ''_AUDIENCE_MISMATCH'') ''client audience assertion conflicts with the server mapping'')
     else None)"

definition payment_Resolve :: "payment_profile \<Rightarrow> semantic_input \<Rightarrow> semantic_error + resolved" where
  "payment_Resolve p i =
    (let c = pf_config p
     in if si_Tool i \<noteq> py_MCPTool c
        then Inl (Rejection ''PAYMENT_TOOL_UNMAPPED'' ''MCP tool has no server-owned semantic mapping'')
        else case binding_conflict ''PAYMENT'' (py_Capability c) (py_Resource c) (py_Operation c) (py_ProfileID c)
            (py_Audience c) i of
          Some e \<Rightarrow> Inl e
        | None \<Rightarrow>
            (case payment_parseArguments p (si_Arguments i) of
               Inl e \<Rightarrow> Inl e
             | Inr arguments \<Rightarrow>
                 let normalized = marshal_json (payment_arguments_json arguments)
                 in Inr \<lparr>sr_Action = profile_action i (py_MCPTool c) (py_Capability c) (py_Resource c) (py_Operation c)
                           (py_ProfileID c) (py_Audience c) normalized,
                         sr_NormalizedArguments = normalized, sr_UpstreamURL = ur_String (pf_upstream p),
                         sr_PolicyFacts = \<lparr>sf_SideEffect = ''financial_transaction'', sf_Bytes = int (length normalized)\<rparr>\<rparr>))"

definition AllowedCurrencies :: "payment_profile \<Rightarrow> string list" where
  "AllowedCurrencies p = sort_key (\<lambda>x. x) (map fst (pf_currencies p))"

section \<open>Workspace writes\<close>

definition WorkspaceWriteV1ID :: string where "WorkspaceWriteV1ID = ''workspace.write/v1''"
definition DefaultWorkspaceMaxPathBytes :: int where "DefaultWorkspaceMaxPathBytes = 1024"
definition DefaultWorkspaceMaxContentBytes :: int where "DefaultWorkspaceMaxContentBytes = 4096"

record workspace_arguments =
  wa_Path :: string
  wa_Content :: string

record workspace_profile =
  wf_binding :: string
  wf_config :: workspace_config
  wf_maxPathBytes :: int
  wf_maxContentBytes :: int
  wf_upstream :: url

definition workspace_config_json :: "workspace_config \<Rightarrow> json" where
  "workspace_config_json c =
    JObj [(''profile_id'', JStr (wk_ProfileID c)), (''mcp_tool'', JStr (wk_MCPTool c)),
          (''capability'', JStr (wk_Capability c)), (''resource'', JStr (wk_Resource c)),
          (''operation'', JStr (wk_Operation c)), (''audience'', JStr (wk_Audience c)),
          (''upstream_url'', JStr (wk_UpstreamURL c)), (''max_path_bytes'', JNum (show_int (wk_MaxPathBytes c))),
          (''max_content_bytes'', JNum (show_int (wk_MaxContentBytes c)))]"

definition NewWorkspaceWriteV1 :: "go_library \<Rightarrow> crypto \<Rightarrow> workspace_config \<Rightarrow> semantic_error + workspace_profile" where
  "NewWorkspaceWriteV1 lib cr config =
    (if wk_ProfileID config \<noteq> WorkspaceWriteV1ID \<or> wk_MCPTool config \<noteq> ''workspace.write''
        \<or> trim_space (wk_Capability config) = [] \<or> trim_space (wk_Resource config) = []
        \<or> trim_space (wk_Operation config) = [] \<or> trim_space (wk_Audience config) = []
     then Inl (SemanticFailure (Message ''invalid %s binding configuration'' [FormatString WorkspaceWriteV1ID]))
     else case gl_parse_url lib (trim_space (wk_UpstreamURL config)) of
       None \<Rightarrow> Inl (SemanticFailure (Message ''%s upstream_url must be an absolute HTTP(S) URL'' [FormatString WorkspaceWriteV1ID]))
     | Some upstream \<Rightarrow>
         if \<not> absolute_url upstream
         then Inl (SemanticFailure (Message ''%s upstream_url must be an absolute HTTP(S) URL'' [FormatString WorkspaceWriteV1ID]))
         else
           let maxPathBytes = (if wk_MaxPathBytes config = 0 then DefaultWorkspaceMaxPathBytes else wk_MaxPathBytes config);
               maxContentBytes = (if wk_MaxContentBytes config = 0 then DefaultWorkspaceMaxContentBytes else wk_MaxContentBytes config)
           in if maxPathBytes < 1 \<or> maxPathBytes > int MaxArgumentsBytes
              then Inl (SemanticFailure (Message ''%s max_path_bytes is outside the supported range'' [FormatString WorkspaceWriteV1ID]))
              else if maxContentBytes < 1 \<or> maxContentBytes > int MaxArgumentsBytes
              then Inl (SemanticFailure (Message ''%s max_content_bytes is outside the supported range'' [FormatString WorkspaceWriteV1ID]))
              else if \<not> plain_url upstream
              then Inl (SemanticFailure (Message ''%s upstream cannot contain credentials, query, or fragment''
                [FormatString WorkspaceWriteV1ID]))
              else
                let config' = config\<lparr>wk_UpstreamURL := ur_String upstream, wk_MaxPathBytes := maxPathBytes,
                                     wk_MaxContentBytes := maxContentBytes\<rparr>
                in case executionBinding cr (workspace_config_json config') (ur_String upstream) of
                     Inl e \<Rightarrow> Inl e
                   | Inr binding \<Rightarrow>
                       Inr \<lparr>wf_binding = binding, wf_config = config', wf_maxPathBytes = maxPathBytes,
                            wf_maxContentBytes = maxContentBytes, wf_upstream = upstream\<rparr>)"

text \<open>\<open>windowsDrivePrefix\<close>: a letter and a colon at the start.\<close>

definition windows_drive :: "string \<Rightarrow> bool" where
  "windows_drive path =
    (case path of c # d # rest \<Rightarrow> (in_range 65 90 c \<or> in_range 97 122 c) \<and> d = CHR '':'' | _ \<Rightarrow> False)"

definition forbidden_segment :: "string \<Rightarrow> bool" where
  "forbidden_segment s \<longleftrightarrow> s = [] \<or> s = ''.'' \<or> s = ''..'' \<or> s = ''~''"

definition validateLogicalPath :: "workspace_profile \<Rightarrow> string \<Rightarrow> semantic_error option" where
  "validateLogicalPath p path =
    (if path = [] \<or> \<not> utf8_valid path \<or> int (length path) > wf_maxPathBytes p
        \<or> has_prefix path ''/'' \<or> has_suffix path ''/'' \<or> CHR 0x5C \<in> set path
        \<or> windows_drive path \<or> has_control path
     then Some (Rejection ''WORKSPACE_PATH_INVALID'' ''path is not a valid workspace-relative logical path'')
     else if list_ex forbidden_segment (split_at (CHR ''/'') path)
     then Some (Rejection ''WORKSPACE_PATH_INVALID'' ''path contains a forbidden logical segment'')
     else None)"

record workspace_wire =
  ww_Path :: "string option"
  ww_Content :: "string option"

definition empty_workspace_wire :: workspace_wire where
  "empty_workspace_wire = \<lparr>ww_Path = None, ww_Content = None\<rparr>"

definition workspace_fields :: "workspace_wire field list" where
  "workspace_fields =
    [(''path'', set_pointer_string (\<lambda>x r. r\<lparr>ww_Path := x\<rparr>)),
     (''content'', set_pointer_string (\<lambda>x r. r\<lparr>ww_Content := x\<rparr>))]"

definition workspace_parseArguments :: "workspace_profile \<Rightarrow> string \<Rightarrow> semantic_error + workspace_arguments" where
  "workspace_parseArguments p raw =
    (case CanonicalizeJSON raw of
       Inl e \<Rightarrow> Inl (Rejection ''WORKSPACE_ARGUMENTS_INVALID'' ''arguments must be unambiguous JSON'')
     | Inr canonical \<Rightarrow>
         (case decode_arguments workspace_fields empty_workspace_wire raw of
            DecodeFailed \<Rightarrow> Inl (Rejection ''WORKSPACE_ARGUMENTS_INVALID''
              ''only path and content with exact JSON string types are allowed'')
          | TrailingJSON \<Rightarrow> Inl (Rejection ''WORKSPACE_ARGUMENTS_INVALID'' ''trailing JSON is not allowed'')
          | Decoded wire \<Rightarrow>
              (case (ww_Path wire, ww_Content wire) of
                 (Some path, Some content) \<Rightarrow>
                   (case validateLogicalPath p path of
                      Some e \<Rightarrow> Inl e
                    | None \<Rightarrow>
                        if \<not> utf8_valid content \<or> int (length content) > wf_maxContentBytes p
                        then Inl (Rejection ''WORKSPACE_CONTENT_TOO_LARGE'' ''content exceeds the server-owned UTF-8 byte limit'')
                        else Inr \<lparr>wa_Path = path, wa_Content = content\<rparr>)
               | _ \<Rightarrow> Inl (Rejection ''WORKSPACE_ARGUMENTS_INVALID'' ''path and content are required''))))"

definition workspace_arguments_json :: "workspace_arguments \<Rightarrow> json" where
  "workspace_arguments_json a = JObj [(''path'', JStr (wa_Path a)), (''content'', JStr (wa_Content a))]"

definition workspace_Resolve :: "workspace_profile \<Rightarrow> semantic_input \<Rightarrow> semantic_error + resolved" where
  "workspace_Resolve p i =
    (let c = wf_config p
     in if si_Tool i \<noteq> wk_MCPTool c
        then Inl (Rejection ''WORKSPACE_TOOL_UNMAPPED'' ''MCP tool has no workspace.write/v1 mapping'')
        else case binding_conflict ''WORKSPACE'' (wk_Capability c) (wk_Resource c) (wk_Operation c) (wk_ProfileID c)
            (wk_Audience c) i of
          Some e \<Rightarrow> Inl e
        | None \<Rightarrow>
            (case workspace_parseArguments p (si_Arguments i) of
               Inl e \<Rightarrow> Inl e
             | Inr arguments \<Rightarrow>
                 let normalized = marshal_json (workspace_arguments_json arguments)
                 in Inr \<lparr>sr_Action = profile_action i (wk_MCPTool c) (wk_Capability c) (wk_Resource c) (wk_Operation c)
                           (wk_ProfileID c) (wk_Audience c) normalized,
                         sr_NormalizedArguments = normalized, sr_UpstreamURL = ur_String (wf_upstream p),
                         sr_PolicyFacts = \<lparr>sf_SideEffect = ''logical_workspace_write'',
                           sf_Bytes = int (length (wa_Content arguments))\<rparr>\<rparr>))"

section \<open>The dispatcher\<close>

text \<open>The compiled-in implementations of \<open>Profile\<close>, and its methods.\<close>

datatype profile = PaymentSendV1 payment_profile | WorkspaceWriteV1 workspace_profile

fun profile_Tool :: "profile \<Rightarrow> string" where
  "profile_Tool (PaymentSendV1 p) = py_MCPTool (pf_config p)"
| "profile_Tool (WorkspaceWriteV1 p) = wk_MCPTool (wf_config p)"

fun profile_ID :: "profile \<Rightarrow> string" where
  "profile_ID (PaymentSendV1 p) = py_ProfileID (pf_config p)"
| "profile_ID (WorkspaceWriteV1 p) = wk_ProfileID (wf_config p)"

fun profile_UpstreamURL :: "profile \<Rightarrow> string" where
  "profile_UpstreamURL (PaymentSendV1 p) = ur_String (pf_upstream p)"
| "profile_UpstreamURL (WorkspaceWriteV1 p) = ur_String (wf_upstream p)"

fun profile_BindingDigest :: "profile \<Rightarrow> string" where
  "profile_BindingDigest (PaymentSendV1 p) = pf_binding p"
| "profile_BindingDigest (WorkspaceWriteV1 p) = wf_binding p"

fun profile_Resolve :: "profile \<Rightarrow> semantic_input \<Rightarrow> semantic_error + resolved" where
  "profile_Resolve (PaymentSendV1 p) i = payment_Resolve p i"
| "profile_Resolve (WorkspaceWriteV1 p) i = workspace_Resolve p i"

record registry =
  rs_byTool :: "(string, profile) gomap"
  rs_byProfileID :: "(string, profile) gomap"

fun register_profiles :: "profile option list \<Rightarrow> registry \<Rightarrow> semantic_error + registry" where
  "register_profiles [] r = Inr r"
| "register_profiles (None # rest) r = Inl (SemanticFailure (plain ''semantic profile is required''))"
| "register_profiles (Some p # rest) r =
    (let profileID = trim_space (profile_ID p); tool = trim_space (profile_Tool p)
     in if profileID = [] \<or> tool = []
        then Inl (SemanticFailure (plain ''semantic profile id and tool are required''))
        else if mget (rs_byProfileID r) profileID \<noteq> None
        then Inl (SemanticFailure (Message ''duplicate semantic profile id %q'' [FormatString profileID]))
        else case mget (rs_byTool r) tool of
          Some existing \<Rightarrow> Inl (SemanticFailure (Message ''ambiguous semantic tool %q claimed by %q and %q''
            [FormatString tool, FormatString (profile_ID existing), FormatString profileID]))
        | None \<Rightarrow>
            register_profiles rest
              \<lparr>rs_byTool = mput tool p (rs_byTool r), rs_byProfileID = mput profileID p (rs_byProfileID r)\<rparr>)"

definition NewSemanticRegistry :: "profile option list \<Rightarrow> semantic_error + registry" where
  "NewSemanticRegistry profiles = register_profiles profiles \<lparr>rs_byTool = [], rs_byProfileID = []\<rparr>"

definition paymentConfigPresent :: "payment_config \<Rightarrow> bool" where
  "paymentConfigPresent c \<longleftrightarrow>
    py_ProfileID c \<noteq> [] \<or> py_MCPTool c \<noteq> [] \<or> py_Capability c \<noteq> [] \<or> py_Resource c \<noteq> [] \<or> py_Operation c \<noteq> []
    \<or> py_Audience c \<noteq> [] \<or> py_UpstreamURL c \<noteq> [] \<or> py_AllowedCurrencies c \<noteq> []
    \<or> py_MaxAmountMinorByCurrency c \<noteq> [] \<or> py_AllowedRecipients c \<noteq> []"

definition workspaceConfigPresent :: "workspace_config \<Rightarrow> bool" where
  "workspaceConfigPresent c \<longleftrightarrow>
    wk_ProfileID c \<noteq> [] \<or> wk_MCPTool c \<noteq> [] \<or> wk_Capability c \<noteq> [] \<or> wk_Resource c \<noteq> [] \<or> wk_Operation c \<noteq> []
    \<or> wk_Audience c \<noteq> [] \<or> wk_UpstreamURL c \<noteq> [] \<or> wk_MaxPathBytes c \<noteq> 0 \<or> wk_MaxContentBytes c \<noteq> 0"

definition NewRegistryFromConfig :: "go_library \<Rightarrow> crypto \<Rightarrow> semantic_config \<Rightarrow> semantic_error + registry" where
  "NewRegistryFromConfig lib cr config =
    (case (if paymentConfigPresent (sm_PaymentSendV1 config)
           then map_sum id (\<lambda>p. [Some (PaymentSendV1 p)]) (NewPaymentSendV1 lib cr (sm_PaymentSendV1 config)) else Inr []) of
       Inl e \<Rightarrow> Inl e
     | Inr payments \<Rightarrow>
         (case (if workspaceConfigPresent (sm_WorkspaceWriteV1 config)
                then map_sum id (\<lambda>p. [Some (WorkspaceWriteV1 p)]) (NewWorkspaceWriteV1 lib cr (sm_WorkspaceWriteV1 config))
                else Inr []) of
            Inl e \<Rightarrow> Inl e
          | Inr workspaces \<Rightarrow> NewSemanticRegistry (payments @ workspaces)))"

definition unmapped_code :: "string \<Rightarrow> string" where
  "unmapped_code tool =
    (if tool = ''payment.send'' then ''PAYMENT_TOOL_UNMAPPED''
     else if tool = ''workspace.write'' then ''WORKSPACE_TOOL_UNMAPPED'' else ''SEMANTIC_TOOL_UNMAPPED'')"

definition Registry_Resolve :: "registry option \<Rightarrow> semantic_input \<Rightarrow> semantic_error + resolved" where
  "Registry_Resolve r i =
    (case r of
       None \<Rightarrow> Inl (Rejection ''SEMANTIC_TOOL_UNMAPPED'' ''semantic registry is unavailable'')
     | Some reg \<Rightarrow>
         (case mget (rs_byTool reg) (si_Tool i) of
            None \<Rightarrow> Inl (Rejection (unmapped_code (si_Tool i)) ''MCP tool has no server-owned semantic mapping'')
          | Some p \<Rightarrow> profile_Resolve p i))"

definition OwnsUpstreamURL :: "registry option \<Rightarrow> string \<Rightarrow> bool" where
  "OwnsUpstreamURL r upstreamURL \<longleftrightarrow>
    (case r of None \<Rightarrow> False | Some reg \<Rightarrow> list_ex (\<lambda>(k, p). profile_UpstreamURL p = upstreamURL) (rs_byProfileID reg))"

definition Registry_Len :: "registry option \<Rightarrow> nat" where
  "Registry_Len r = (case r of None \<Rightarrow> 0 | Some reg \<Rightarrow> length (rs_byProfileID reg))"

section \<open>Preparation\<close>

record prepared =
  pe_action :: action
  pe_arguments :: string
  pe_upstreamURL :: string
  pe_policyFacts :: policy_facts

definition Prepare :: "registry option \<Rightarrow> semantic_input \<Rightarrow> semantic_error + prepared" where
  "Prepare r i =
    (case Registry_Resolve r i of
       Inl e \<Rightarrow> Inl e
     | Inr res \<Rightarrow>
         let p = the (mget (rs_byTool (the r)) (si_Tool i)); a = sr_Action res; facts = sr_PolicyFacts res
         in if sf_SideEffect facts = [] \<or> sf_Bytes facts < 0
            then Inl (SemanticFailure (plain ''semantic profile omitted execution policy facts''))
            else if ac_PrincipalID a \<noteq> si_PrincipalID i \<or> ac_AgentID a \<noteq> si_AgentID i
              \<or> ac_WorkloadID a \<noteq> si_WorkloadID i
              \<or> ac_DelegatedAuthorityFingerprint a \<noteq> si_DelegatedAuthorityFingerprint i
              \<or> ac_Capability a \<noteq> si_Capability i \<or> ac_Resource a \<noteq> si_Resource i \<or> ac_Operation a \<noteq> si_Operation i
            then Inl (SemanticFailure (plain ''semantic profile changed the authorized identity or action scope''))
            else if ac_Tool a \<noteq> profile_Tool p \<or> ac_ProfileID a \<noteq> profile_ID p
              \<or> sr_UpstreamURL res \<noteq> profile_UpstreamURL p \<or> profile_BindingDigest p = []
            then Inl (SemanticFailure (plain ''semantic profile returned inconsistent execution bindings''))
            else (case CanonicalizeJSON (sr_NormalizedArguments res) of
                Inl e \<Rightarrow> Inl (SemanticJSON e)
              | Inr arguments \<Rightarrow>
                  if CanonicalizeJSON (ac_Arguments a) \<noteq> Inr arguments
                  then Inl (SemanticFailure (plain ''semantic profile action differs from its dispatch arguments''))
                  else
                    let a' = a\<lparr>ac_Arguments := sr_NormalizedArguments res, ac_ExecutionBinding := profile_BindingDigest p\<rparr>
                    in case action_Validate a' of
                         Some e \<Rightarrow> Inl (SemanticAction e)
                       | None \<Rightarrow>
                           Inr \<lparr>pe_action = a', pe_arguments = sr_NormalizedArguments res,
                                pe_upstreamURL = sr_UpstreamURL res, pe_policyFacts = facts\<rparr>))"

end
