(* ===== verification/Audit_Records.thy ===== *)
theory Audit_Records
  imports Models Verifier
begin

text \<open>
  \<open>internal/models/models.go\<close>: what the router answers and records. The Go strings that only
  ever hold a permit class, state or outcome are those datatypes here (an empty outcome is
  \<open>None\<close>); \<open>ExecutionObligations\<close> has the fields of the signed obligations and is the same
  record. A nil slice and an empty one are the same list.
\<close>

section \<open>Runtime events\<close>

datatype runtime_source =
    SourceGatewayEnforced | SourceInstrumentedAdapter | SourceAgentSelfReported | SourceOSSensor
  | SourceNetworkSensor | SourceSimulatedDemo | SourceOther string

fun source_text :: "runtime_source \<Rightarrow> string" where
  "source_text SourceGatewayEnforced = ''gateway_enforced''"
| "source_text SourceInstrumentedAdapter = ''instrumented_adapter''"
| "source_text SourceAgentSelfReported = ''agent_self_reported''"
| "source_text SourceOSSensor = ''os_sensor''"
| "source_text SourceNetworkSensor = ''network_sensor''"
| "source_text SourceSimulatedDemo = ''simulated_demo''"
| "source_text (SourceOther s) = s"

datatype runtime_trust =
    TrustEnforced | TrustAdapterReported | TrustSelfReported | TrustIndependentSensor | TrustSimulated
  | TrustOther string

fun trust_text :: "runtime_trust \<Rightarrow> string" where
  "trust_text TrustEnforced = ''enforced''"
| "trust_text TrustAdapterReported = ''adapter_reported''"
| "trust_text TrustSelfReported = ''self_reported''"
| "trust_text TrustIndependentSensor = ''independent_sensor''"
| "trust_text TrustSimulated = ''simulated''"
| "trust_text (TrustOther s) = s"

record runtime_event =
  re_EventID :: string
  re_PermitID :: string
  re_RequestID :: string
  re_SessionID :: string
  re_AgentID :: string
  re_WorkloadID :: string
  re_Source :: runtime_source
  re_TrustLevel :: runtime_trust
  re_Capability :: string
  re_Tool :: string
  re_Operation :: string
  re_Resource :: string
  re_ResourceClass :: string
  re_DestinationClass :: string
  re_External :: bool
  re_SecretAccess :: bool
  re_SideEffect :: string
  re_Bytes :: int
  re_Timestamp :: time

record violation =
  av_Rule :: string
  av_Summary :: string
  av_Expected :: message
  av_Actual :: message

record runtime_evaluation =
  rv_EventID :: string
  rv_PermitID :: string
  rv_Accepted :: bool
  rv_WithinEnvelope :: bool
  rv_Terminated :: bool
  rv_Verdict :: string
  rv_Violations :: "violation list"

record runtime_coverage =
  rc_GatewayRequests :: string
  rc_ToolEvents :: string
  rc_Filesystem :: string
  rc_Network :: string
  rc_OSSyscalls :: string
  rc_IsolationBackend :: string

record runtime_observation =
  bs_Events :: "runtime_event list"
  bs_EventEvaluations :: "runtime_evaluation list"
  bs_AuthorizationViolations :: "violation list"
  bs_Coverage :: runtime_coverage
  bs_PlannedActions :: "string list"
  bs_ActualActions :: "string list"
  bs_UnexpectedActions :: "string list"
  bs_SuspiciousActions :: "string list"
  bs_DriftDetected :: bool

section \<open>Advisory signals\<close>

record security_finding =
  fi_ID :: string
  fi_Category :: string
  fi_Severity :: string
  fi_Rule :: string
  fi_Summary :: string
  fi_Evidence :: "string list"

record causal_context =
  ca_SessionID :: string
  ca_EventID :: string
  ca_ParentEventID :: string
  ca_Ancestors :: "string list"
  ca_CumulativeRisk :: int
  ca_PrivacyBudgetRemaining :: int

record advisory_signals =
  ad_RiskAssessment :: risk_assessment
  ad_DetectionFindings :: "security_finding list"
  ad_CausalContext :: causal_context

definition zero_causal_context :: causal_context where
  "zero_causal_context =
    \<lparr>ca_SessionID = [], ca_EventID = [], ca_ParentEventID = [], ca_Ancestors = [], ca_CumulativeRisk = 0,
     ca_PrivacyBudgetRemaining = 0\<rparr>"

section \<open>Decisions and permits\<close>

record dispatch_decision =
  dd_Route :: route
  dd_Reasons :: "message list"
  dd_Rules :: "string list"
  dd_ExecutorProfile :: string
  dd_IsolationBackend :: string
  dd_ExecutorInvoked :: bool
  dd_LegacyCompatibilityOnly :: bool

text \<open>The envelope: what was granted, beside the claims that were signed for it.\<close>

record authorization_envelope =
  en_AuthorityEpoch :: uint64
  en_ExecutionBinding :: string
  en_PermitID :: string
  en_SigningKeyID :: string
  en_PermitClass :: permit_class
  en_ProfileID :: string
  en_Audience :: string
  en_RequestID :: string
  en_SessionID :: string
  en_PrincipalID :: string
  en_AgentID :: string
  en_WorkloadID :: string
  en_ExecutorKeyID :: string
  en_ExecutorKeyThumbprint :: string
  en_DelegatedCredentialFingerprint :: string
  en_AllowedCapability :: string
  en_AllowedTool :: string
  en_AllowedResource :: string
  en_AllowedOperation :: string
  en_AllowedOperations :: "string list"
  en_ActionDigest :: string
  en_PolicyVersion :: string
  en_Issuer :: string
  en_SingleUse :: bool
  en_State :: permit_state
  en_Obligations :: obligations
  en_Constraints :: constraints
  en_IssuedAt :: time
  en_ExpiresAt :: time
  en_Route :: route

record permit_credential =
  pk_AuthorityEpoch :: uint64
  pk_ExecutionBinding :: string
  pk_PermitID :: string
  pk_SigningKeyID :: string
  pk_PermitClass :: permit_class
  pk_ProfileID :: string
  pk_Audience :: string
  pk_PermitToken :: string
  pk_IssuedAt :: time
  pk_ExpiresAt :: time
  pk_SingleUse :: bool

record permit_verification =
  pv_AuthorityEpoch :: uint64
  pv_ExecutionBinding :: string
  pv_PermitID :: string
  pv_RequestID :: string
  pv_PermitClass :: "permit_class option"
  pv_ProfileID :: string
  pv_Audience :: string
  pv_Outcome :: outcome
  pv_Verified :: bool
  pv_State :: permit_state
  pv_Obligations :: obligations
  pv_ConstraintChecks :: "constraint_check list"
  pv_VerifiedAt :: time
  pv_EvidenceSource :: string

record execution_receipt =
  rt_AuthorityEpoch :: uint64
  rt_ExecutionBinding :: string
  rt_RequestID :: string
  rt_DecisionID :: string
  rt_PermitID :: string
  rt_PermitClass :: "permit_class option"
  rt_ProfileID :: string
  rt_Audience :: string
  rt_PrincipalID :: string
  rt_AgentID :: string
  rt_WorkloadID :: string
  rt_Tool :: string
  rt_Capability :: string
  rt_Resource :: string
  rt_Operation :: string
  rt_ActionDigest :: string
  rt_PolicyVersion :: string
  rt_AuthorizationDecision :: auth_status
  rt_PermitState :: permit_state
  rt_VerificationOutcome :: "outcome option"
  rt_ConstraintChecks :: "constraint_check list"
  rt_UpstreamAttempted :: bool
  rt_ExecutionOutcome :: string
  rt_Timestamp :: time
  rt_EvidenceSource :: runtime_source

record execution_completion =
  ec_RequestID :: string
  ec_PermitID :: string
  ec_Status :: string
  ec_BoundaryOutcome :: string
  ec_UpstreamAttempted :: bool
  ec_CompletedAt :: time

record provenance =
  vn_Source :: string
  vn_ProviderID :: string
  vn_Assurance :: string
  vn_EstablishedAt :: time

section \<open>The audit record\<close>

record audit_record =
  ar_RequestID :: string
  ar_DecisionID :: string
  ar_AuthorizationStatus :: auth_status
  ar_CreatedAt :: time
  ar_CompletedAt :: "time option"
  ar_AuthorizationContext :: "provenance option"
  ar_Request :: request
  ar_PolicyDecision :: policy_decision
  ar_Obligations :: obligations
  ar_AuthorizationEnvelope :: "authorization_envelope option"
  ar_ExecutionReceipt :: "execution_receipt option"
  ar_RuntimeObservation :: runtime_observation
  ar_SecurityFindings :: "security_finding list"
  ar_AdvisorySignals :: advisory_signals
  ar_RiskAssessment :: risk_assessment
  ar_DispatchDecision :: "dispatch_decision"
  ar_SelectedExecutor :: string
  ar_CausalContext :: causal_context
  ar_FinalVerdict :: string
  ar_DurationMS :: int

record authorization_response =
  aa_Decision :: audit_record
  aa_Permit :: "permit_credential option"

end
