(* ===== verification/Intake.thy ===== *)
theory Intake
  imports Audit_Records
begin

text \<open>
  \<open>internal/intake\<close>: the trust boundary that establishes who acts. An implementation of
  \<open>TrustedAuthorizationIntake\<close> turns an HTTP request and a proposal into a sealed
  \<open>Authorization\<close>; the interface is the locale \<open>authorization_intake\<close>, interpreted on the four
  implementations. Addresses and prefixes are words; how a text parses into one (\<open>net/netip\<close>,
  \<open>net.SplitHostPort\<close>, \<open>net.ParseIP\<close>) is a parameter.
\<close>

datatype intake_error = ErrTrustedContextRequired message

abbreviation context_required :: intake_error where
  "context_required \<equiv> ErrTrustedContextRequired (plain [])"

record workload_binding =
  wb_KeyID :: string
  wb_PublicKeyThumbprint :: string

record authorization =
  az_request :: request
  az_provenance :: provenance
  az_workloadBinding :: workload_binding
  az_resolved :: bool

record identity_context =
  id_Principal :: principal_context
  id_Agent :: agent_identity
  id_DelegatedAuthority :: delegated_authority
  id_WorkloadBinding :: workload_binding

text \<open>What an intake reads of \<open>http.Request\<close>: the address of the peer and the headers.\<close>

record http_request =
  hq_RemoteAddr :: string
  hq_Header :: "(string, string list) gomap"

section \<open>Identifiers and bindings\<close>

text \<open>\<open>safeProviderID\<close> and \<open>safeIdentityLabel\<close> are the same test.\<close>

definition safeProviderID :: "string \<Rightarrow> bool" where
  "safeProviderID v \<longleftrightarrow> v \<noteq> [] \<and> length v \<le> 128 \<and> list_all label_rune (runes v)"

definition validateWorkloadBinding :: "workload_binding \<Rightarrow> intake_error option" where
  "validateWorkloadBinding b =
    (if \<not> safeProviderID (wb_KeyID b)
     then Some (ErrTrustedContextRequired (plain ''workload key id is missing or invalid''))
     else if \<not> isSHA256Thumbprint (wb_PublicKeyThumbprint b)
     then Some (ErrTrustedContextRequired
       (plain ''workload public key thumbprint must be sha256 followed by 64 lowercase hexadecimal characters''))
     else None)"

text \<open>\<open>resolved\<close>: the identity of the context replaces the one of the proposal.\<close>

definition resolved_authorization :: "request \<Rightarrow> identity_context \<Rightarrow> provenance \<Rightarrow> authorization" where
  "resolved_authorization proposal identity provenance =
    (let r = (if \<not> UsesStructuredContext proposal
              then proposal\<lparr>rq_Principal := zero_principal, rq_Agent := zero_agent, rq_Authority := zero_delegation,
                            rq_UserID := pn_PrincipalID (id_Principal identity),
                            rq_AgentID := ai_AgentID (id_Agent identity),
                            rq_TokenScopes := da_Scopes (id_DelegatedAuthority identity)\<rparr>
              else proposal\<lparr>rq_Principal := id_Principal identity, rq_Agent := id_Agent identity,
                            rq_Authority := id_DelegatedAuthority identity,
                            rq_UserID := [], rq_AgentID := [], rq_TokenScopes := []\<rparr>)
     in \<lparr>az_request = r, az_provenance = provenance, az_workloadBinding = id_WorkloadBinding identity, az_resolved = True\<rparr>)"

text \<open>\<open>now\<close> is the reading of the clock when no time was given.\<close>

definition NewTrustedAuthorization ::
  "request \<Rightarrow> identity_context \<Rightarrow> string \<Rightarrow> time \<Rightarrow> time \<Rightarrow> intake_error + authorization" where
  "NewTrustedAuthorization proposal identity providerID establishedAt now =
    (let providerID = trim_space providerID
     in if \<not> safeProviderID providerID then Inl (ErrTrustedContextRequired (plain ''provider id is missing or invalid''))
        else case validateWorkloadBinding (id_WorkloadBinding identity) of
          Some e \<Rightarrow> Inl e
        | None \<Rightarrow>
            Inr (resolved_authorization proposal identity
              \<lparr>vn_Source = ''trusted_integration'', vn_ProviderID = providerID, vn_Assurance = ''authenticated_context'',
               vn_EstablishedAt = (if establishedAt = zero_time then now else establishedAt)\<rparr>))"

section \<open>The implementations without headers\<close>

record static_intake =
  sn_identity :: identity_context
  sn_providerID :: string

definition NewStaticIntake :: "identity_context \<Rightarrow> string \<Rightarrow> intake_error + static_intake" where
  "NewStaticIntake identity providerID =
    (let providerID = trim_space providerID
     in if \<not> safeProviderID providerID then Inl (ErrTrustedContextRequired (plain ''provider id is missing or invalid''))
        else case validateWorkloadBinding (id_WorkloadBinding identity) of
          Some e \<Rightarrow> Inl e
        | None \<Rightarrow> Inr \<lparr>sn_identity = identity, sn_providerID = providerID\<rparr>)"

definition Static_Resolve ::
  "static_intake option \<Rightarrow> http_request option \<Rightarrow> request \<Rightarrow> time \<Rightarrow> intake_error + authorization" where
  "Static_Resolve p req proposal now =
    (case p of
       None \<Rightarrow> Inl context_required
     | Some s \<Rightarrow>
         if sn_providerID s = [] then Inl context_required
         else NewTrustedAuthorization proposal (sn_identity s) (sn_providerID s) now now)"

definition RejectAll_Resolve :: "unit \<Rightarrow> http_request option \<Rightarrow> request \<Rightarrow> time \<Rightarrow> intake_error + authorization" where
  "RejectAll_Resolve p req proposal now = Inl context_required"

section \<open>Addresses\<close>

datatype ip_address = IPv4 "32 word" | IPv6 "128 word"

text \<open>A prefix: its address and its bits, at most the width of the address.\<close>

datatype ip_prefix = Prefix4 "32 word" nat | Prefix6 "128 word" nat

text \<open>The texts of addresses: \<open>netip.ParseAddrPort\<close>, \<open>netip.ParsePrefix\<close> and \<open>Prefix.String\<close>, \<open>net.SplitHostPort\<close>, \<open>net.ParseIP\<close>.\<close>

record net_library =
  nl_parse_addr_port :: "string \<Rightarrow> ip_address option"
  nl_parse_prefix :: "string \<Rightarrow> ip_prefix option"
  nl_prefix_text :: "ip_prefix \<Rightarrow> string"
  nl_split_host :: "string \<Rightarrow> string option"
  nl_parse_ip :: "string \<Rightarrow> ip_address option"

fun prefix_masked :: "ip_prefix \<Rightarrow> ip_prefix" where
  "prefix_masked (Prefix4 a n) = Prefix4 (push_bit (32 - n) (drop_bit (32 - n) a)) n"
| "prefix_masked (Prefix6 a n) = Prefix6 (push_bit (128 - n) (drop_bit (128 - n) a)) n"

fun prefix_contains :: "ip_prefix \<Rightarrow> ip_address \<Rightarrow> bool" where
  "prefix_contains (Prefix4 p n) (IPv4 a) = (drop_bit (32 - n) a = drop_bit (32 - n) p)"
| "prefix_contains (Prefix6 p n) (IPv6 a) = (drop_bit (128 - n) a = drop_bit (128 - n) p)"
| "prefix_contains p a = False"

text \<open>\<open>Is4In6\<close> and \<open>Unmap\<close>: the IPv4 address inside an IPv4-mapped IPv6 address.\<close>

fun unmapped :: "ip_address \<Rightarrow> ip_address option" where
  "unmapped (IPv6 a) = (if drop_bit 32 a = 65535 then Some (IPv4 (ucast a)) else None)"
| "unmapped (IPv4 a) = None"

fun is_loopback_ip :: "ip_address \<Rightarrow> bool" where
  "is_loopback_ip (IPv4 a) = (drop_bit 24 a = 127)"
| "is_loopback_ip (IPv6 a) = (a = 1 \<or> (drop_bit 32 a = 65535 \<and> drop_bit 24 (ucast a :: 32 word) = 127))"

section \<open>Loopback development\<close>

text \<open>The text before the last occurrence of a byte, and \<open>strings.Trim\<close> with a set of bytes.\<close>

definition before_last :: "char \<Rightarrow> string \<Rightarrow> string" where
  "before_last c s = (if c \<in> set s then rev (drop 1 (dropWhile (\<lambda>x. x \<noteq> c) (rev s))) else s)"

definition trim_bytes :: "string \<Rightarrow> string \<Rightarrow> string" where
  "trim_bytes cutset s = rev (dropWhile (\<lambda>c. c \<in> set cutset) (rev (dropWhile (\<lambda>c. c \<in> set cutset) s)))"

definition isLoopback :: "net_library \<Rightarrow> string \<Rightarrow> bool" where
  "isLoopback nl remoteAddress =
    (let host = (case nl_split_host nl (trim_space remoteAddress) of None \<Rightarrow> trim_space remoteAddress | Some h \<Rightarrow> h);
         host = before_last (CHR ''%'') host
     in case nl_parse_ip nl (trim_bytes ''[]'' host) of None \<Rightarrow> False | Some ip \<Rightarrow> is_loopback_ip ip)"

record loopback_intake =
  lo_providerID :: string
  lo_workloadBinding :: workload_binding

definition NewLoopbackDevelopment :: "string \<Rightarrow> workload_binding list \<Rightarrow> intake_error + loopback_intake" where
  "NewLoopbackDevelopment providerID bindings =
    (let providerID = trim_space providerID
     in if \<not> safeProviderID providerID then Inl (ErrTrustedContextRequired (plain ''provider id is missing or invalid''))
        else case bindings of
          [binding] \<Rightarrow>
            (case validateWorkloadBinding binding of
               Some e \<Rightarrow> Inl e
             | None \<Rightarrow> Inr \<lparr>lo_providerID = providerID, lo_workloadBinding = binding\<rparr>)
        | _ \<Rightarrow> Inl (ErrTrustedContextRequired (plain ''exactly one development workload binding is required'')))"

definition Loopback_Resolve ::
  "net_library \<Rightarrow> loopback_intake option \<Rightarrow> http_request option \<Rightarrow> request \<Rightarrow> time \<Rightarrow> intake_error + authorization" where
  "Loopback_Resolve nl p req proposal now =
    (case (p, req) of
       (Some l, Some h) \<Rightarrow>
         if \<not> isLoopback nl (hq_RemoteAddr h)
         then Inl (ErrTrustedContextRequired (plain ''development intake accepts loopback peers only''))
         else Inr (resolved_authorization proposal
           \<lparr>id_Principal = EffectivePrincipal proposal, id_Agent = EffectiveAgent proposal,
            id_DelegatedAuthority = EffectiveAuthority proposal, id_WorkloadBinding = lo_workloadBinding l\<rparr>
           \<lparr>vn_Source = ''local_development'', vn_ProviderID = lo_providerID l, vn_Assurance = ''development_only'',
            vn_EstablishedAt = now\<rparr>)
     | _ \<Rightarrow> Inl (ErrTrustedContextRequired (plain ''development intake accepts loopback peers only'')))"

section \<open>The trusted proxy\<close>

definition maxIdentityHeaderBytes :: nat where "maxIdentityHeaderBytes = 128"
definition maxScopesHeaderBytes :: nat where "maxScopesHeaderBytes = 4096"
definition maxDelegatedScopes :: nat where "maxDelegatedScopes = 64"

record trusted_proxy =
  tp_trustedPeers :: "ip_prefix list"
  tp_providerID :: string

fun proxy_peers :: "net_library \<Rightarrow> string list \<Rightarrow> ip_prefix list \<Rightarrow> intake_error + ip_prefix list" where
  "proxy_peers nl [] acc = Inr acc"
| "proxy_peers nl (raw # rest) acc =
    (if raw = [] \<or> raw \<noteq> trim_space raw
     then Inl (ErrTrustedContextRequired (plain ''trusted proxy CIDR is empty or contains surrounding whitespace''))
     else case nl_parse_prefix nl raw of
       None \<Rightarrow> Inl (ErrTrustedContextRequired (Message ''invalid trusted proxy CIDR %q'' [FormatString raw]))
     | Some prefix \<Rightarrow>
         let masked = prefix_masked prefix; key = nl_prefix_text nl masked
         in if contains (map (nl_prefix_text nl) acc) key
            then Inl (ErrTrustedContextRequired (Message ''duplicate trusted proxy CIDR %q'' [FormatString key]))
            else proxy_peers nl rest (acc @ [masked]))"

definition NewTrustedProxy :: "net_library \<Rightarrow> string list \<Rightarrow> string \<Rightarrow> intake_error + trusted_proxy" where
  "NewTrustedProxy nl cidrs providerID =
    (if providerID \<noteq> trim_space providerID \<or> \<not> safeProviderID providerID
     then Inl (ErrTrustedContextRequired (plain ''trusted proxy provider id is missing or invalid''))
     else if cidrs = [] then Inl (ErrTrustedContextRequired (plain ''at least one trusted proxy CIDR is required''))
     else case proxy_peers nl cidrs [] of
       Inl e \<Rightarrow> Inl e
     | Inr peers \<Rightarrow> Inr \<lparr>tp_trustedPeers = peers, tp_providerID = providerID\<rparr>)"

definition proxy_trusts :: "trusted_proxy \<Rightarrow> ip_address \<Rightarrow> bool" where
  "proxy_trusts p peer =
    list_ex (\<lambda>prefix. prefix_contains prefix peer
        \<or> (case unmapped peer of None \<Rightarrow> False | Some a \<Rightarrow> prefix_contains prefix a)) (tp_trustedPeers p)"

text \<open>\<open>directPeerAddress\<close>; the zone of an address is dropped, the datatype has none.\<close>

definition directPeerAddress :: "net_library \<Rightarrow> string \<Rightarrow> ip_address option" where
  "directPeerAddress nl remoteAddress =
    (if remoteAddress = [] \<or> remoteAddress \<noteq> trim_space remoteAddress then None
     else nl_parse_addr_port nl remoteAddress)"

definition singleHeader :: "(string, string list) gomap \<Rightarrow> string \<Rightarrow> nat \<Rightarrow> intake_error + string" where
  "singleHeader header name maxBytes =
    (case mget header name of
       Some [v] \<Rightarrow>
         if v = [] \<or> length v > maxBytes
         then Inl (ErrTrustedContextRequired (Message ''%s is empty or oversized'' [FormatString name])) else Inr v
     | _ \<Rightarrow> Inl (ErrTrustedContextRequired (Message ''%s must occur exactly once'' [FormatString name])))"

definition strictIdentityHeader :: "(string, string list) gomap \<Rightarrow> string \<Rightarrow> intake_error + string" where
  "strictIdentityHeader header name =
    (case singleHeader header name maxIdentityHeaderBytes of
       Inl e \<Rightarrow> Inl e
     | Inr v \<Rightarrow>
         if v \<noteq> trim_space v \<or> \<not> safeProviderID v
         then Inl (ErrTrustedContextRequired
           (Message ''%s must be an exact metadata identifier without surrounding whitespace'' [FormatString name]))
         else Inr v)"

fun scope_list :: "string list \<Rightarrow> string list \<Rightarrow> intake_error + string list" where
  "scope_list [] acc = Inr acc"
| "scope_list (part # rest) acc =
    (let scope = trim_bytes [CHR 0x20, CHR 0x09] part
     in if \<not> safeProviderID scope
        then Inl (ErrTrustedContextRequired (plain ''X-Aegis-Delegated-Scopes contains an empty or invalid scope''))
        else if contains acc scope
        then Inl (ErrTrustedContextRequired (Message ''X-Aegis-Delegated-Scopes contains duplicate scope %q'' [FormatString scope]))
        else scope_list rest (acc @ [scope]))"

definition parseDelegatedScopes :: "string \<Rightarrow> intake_error + string list" where
  "parseDelegatedScopes v =
    (let parts = split_at (CHR '','') v
     in if length parts > maxDelegatedScopes
        then Inl (ErrTrustedContextRequired (plain ''X-Aegis-Delegated-Scopes contains no scopes or too many scopes''))
        else map_sum id (sort_key (\<lambda>s. s)) (scope_list parts []))"

text \<open>
  The reading of the headers, one after the other; the first error is the answer.
\<close>

definition proxy_identity :: "trusted_proxy \<Rightarrow> (string, string list) gomap \<Rightarrow> intake_error + identity_context" where
  "proxy_identity p header =
    (case strictIdentityHeader header ''X-Aegis-Authenticated-Principal'' of Inl e \<Rightarrow> Inl e | Inr principalID \<Rightarrow>
     (case strictIdentityHeader header ''X-Aegis-Agent-Id'' of Inl e \<Rightarrow> Inl e | Inr agentID \<Rightarrow>
     (case strictIdentityHeader header ''X-Aegis-Workload-Id'' of Inl e \<Rightarrow> Inl e | Inr workloadID \<Rightarrow>
     (case singleHeader header ''X-Aegis-Delegated-Scopes'' maxScopesHeaderBytes of Inl e \<Rightarrow> Inl e | Inr scopesValue \<Rightarrow>
     (case parseDelegatedScopes scopesValue of Inl e \<Rightarrow> Inl e | Inr scopes \<Rightarrow>
     (case singleHeader header ''X-Aegis-Delegation-Fingerprint'' 64 of Inl e \<Rightarrow> Inl e | Inr fingerprint \<Rightarrow>
      if \<not> hex64_pattern fingerprint
      then Inl (ErrTrustedContextRequired
        (plain ''X-Aegis-Delegation-Fingerprint must be a 64-character hexadecimal SHA-256 fingerprint''))
      else
     (case strictIdentityHeader header ''X-Aegis-Workload-Key-Id'' of Inl e \<Rightarrow> Inl e | Inr workloadKeyID \<Rightarrow>
     (case singleHeader header ''X-Aegis-Workload-Key-Thumbprint'' 71 of Inl e \<Rightarrow> Inl e | Inr thumbprint \<Rightarrow>
      let binding = \<lparr>wb_KeyID = workloadKeyID, wb_PublicKeyThumbprint = thumbprint\<rparr>
      in case validateWorkloadBinding binding of
           Some e \<Rightarrow> Inl e
         | None \<Rightarrow>
             Inr \<lparr>id_Principal = zero_principal\<lparr>pn_PrincipalID := principalID, pn_PrincipalType := ''human''\<rparr>,
                  id_Agent = zero_agent\<lparr>ai_AgentID := agentID, ai_WorkloadID := workloadID\<rparr>,
                  id_DelegatedAuthority =
                    zero_delegation\<lparr>da_CredentialFingerprint := fingerprint, da_Issuer := tp_providerID p,
                                    da_Scopes := scopes, da_Subject := principalID\<rparr>,
                  id_WorkloadBinding = binding\<rparr>))))))))"

definition Proxy_Resolve ::
  "net_library \<Rightarrow> trusted_proxy option \<Rightarrow> http_request option \<Rightarrow> request \<Rightarrow> time \<Rightarrow> intake_error + authorization" where
  "Proxy_Resolve nl p req proposal now =
    (case (p, req) of
       (Some t, Some h) \<Rightarrow>
         if tp_trustedPeers t = [] \<or> tp_providerID t = [] then Inl context_required
         else (case directPeerAddress nl (hq_RemoteAddr h) of
             None \<Rightarrow> Inl (ErrTrustedContextRequired (plain ''direct proxy peer cannot be established''))
           | Some peer \<Rightarrow>
               if \<not> proxy_trusts t peer
               then Inl (ErrTrustedContextRequired (plain ''direct peer is outside the configured trusted proxy CIDR''))
               else (case proxy_identity t (hq_Header h) of
                   Inl e \<Rightarrow> Inl e
                 | Inr identity \<Rightarrow> NewTrustedAuthorization proposal identity (tp_providerID t) now now))
     | _ \<Rightarrow> Inl context_required)"

section \<open>The contract of an intake\<close>

text \<open>
  What an intake may change of a proposal: the identity, never the action, the tool or the context.
\<close>

definition identity_free :: "request \<Rightarrow> request" where
  "identity_free r = r\<lparr>rq_Principal := zero_principal, rq_Agent := zero_agent, rq_Authority := zero_delegation,
     rq_UserID := [], rq_AgentID := [], rq_TokenScopes := []\<rparr>"

definition sealed :: "request \<Rightarrow> authorization \<Rightarrow> bool" where
  "sealed proposal a \<longleftrightarrow>
    az_resolved a \<and> validateWorkloadBinding (az_workloadBinding a) = None
    \<and> identity_free (az_request a) = identity_free proposal
    \<and> (UsesStructuredContext proposal \<longrightarrow>
         rq_UserID (az_request a) = [] \<and> rq_AgentID (az_request a) = [] \<and> rq_TokenScopes (az_request a) = [])"

lemma identity_free_fields:
  assumes "identity_free r = identity_free q"
  shows "EffectiveAction r = EffectiveAction q" "EffectiveTool r = EffectiveTool q"
    "rq_RequestID r = rq_RequestID q" "rq_SessionID r = rq_SessionID q" "rq_DataAccess r = rq_DataAccess q"
    "rq_InputSources r = rq_InputSources q"
proof -
  have f: "rq_Action r = rq_Action q" "rq_RequestedCapability r = rq_RequestedCapability q"
    "rq_TargetResource r = rq_TargetResource q" "rq_DataAccess r = rq_DataAccess q"
    "rq_Destination r = rq_Destination q" "rq_Tool r = rq_Tool q" "rq_ToolIdentity r = rq_ToolIdentity q"
    "rq_RequestID r = rq_RequestID q" "rq_SessionID r = rq_SessionID q" "rq_InputSources r = rq_InputSources q"
    using assms by (cases r; cases q; simp add: identity_free_def)+
  show "EffectiveAction r = EffectiveAction q" unfolding EffectiveAction_def f ..
  show "EffectiveTool r = EffectiveTool q" unfolding EffectiveTool_def f ..
  show "rq_RequestID r = rq_RequestID q" "rq_SessionID r = rq_SessionID q" "rq_DataAccess r = rq_DataAccess q"
    "rq_InputSources r = rq_InputSources q" by (rule f)+
qed

lemma sealed_resolved:
  "validateWorkloadBinding (id_WorkloadBinding identity) = None \<Longrightarrow> sealed proposal (resolved_authorization proposal identity v)"
  by (simp add: sealed_def resolved_authorization_def identity_free_def Let_def)

lemma resolved_ignores_identity:
  assumes "identity_free r = identity_free q" "UsesStructuredContext r = UsesStructuredContext q"
  shows "resolved_authorization r identity v = resolved_authorization q identity v"
  using assms(1) unfolding resolved_authorization_def assms(2)
  by (cases r; cases q) (simp add: identity_free_def Let_def)

lemma trusted_sealed:
  assumes "NewTrustedAuthorization proposal identity providerID establishedAt now = Inr a"
  shows "sealed proposal a"
  using assms by (auto simp: NewTrustedAuthorization_def Let_def intro: sealed_resolved split: if_splits option.splits)

lemma trusted_ignores_identity:
  assumes "identity_free r = identity_free q" "UsesStructuredContext r = UsesStructuredContext q"
  shows "NewTrustedAuthorization r identity providerID establishedAt now
    = NewTrustedAuthorization q identity providerID establishedAt now"
  unfolding NewTrustedAuthorization_def resolved_ignores_identity [OF assms] ..

text \<open>\<open>TrustedAuthorizationIntake\<close>, with what the router relies on.\<close>

locale authorization_intake =
  fixes provider_ok :: "'p \<Rightarrow> bool"
    and resolve :: "'p \<Rightarrow> http_request option \<Rightarrow> request \<Rightarrow> time \<Rightarrow> intake_error + authorization"
  assumes resolve_sealed: "provider_ok p \<Longrightarrow> resolve p h proposal now = Inr a \<Longrightarrow> sealed proposal a"
begin

lemma resolve_keeps_action:
  assumes "provider_ok p" "resolve p h proposal now = Inr a"
  shows "EffectiveAction (az_request a) = EffectiveAction proposal \<and> EffectiveTool (az_request a) = EffectiveTool proposal"
proof -
  have "identity_free (az_request a) = identity_free proposal"
    using resolve_sealed [OF assms] by (simp add: sealed_def)
  then show ?thesis using identity_free_fields by blast
qed

lemma resolve_binds_workload:
  assumes "provider_ok p" "resolve p h proposal now = Inr a"
  shows "safeProviderID (wb_KeyID (az_workloadBinding a)) \<and> isSHA256Thumbprint (wb_PublicKeyThumbprint (az_workloadBinding a))"
  using resolve_sealed [OF assms] by (auto simp: sealed_def validateWorkloadBinding_def split: if_splits)

end

text \<open>An intake whose identity does not come from the proposal at all.\<close>

locale authenticated_intake = authorization_intake +
  assumes identity_ignored:
    "identity_free r = identity_free q \<Longrightarrow> UsesStructuredContext r = UsesStructuredContext q \<Longrightarrow>
       resolve p h r now = resolve p h q now"
begin

lemma caller_identity_irrelevant:
  "resolve p h (r\<lparr>rq_UserID := u, rq_AgentID := i, rq_TokenScopes := t\<rparr>) now = resolve p h r now"
  by (rule identity_ignored) (simp_all add: identity_free_def UsesStructuredContext_def)

end

definition loopback_ok :: "loopback_intake option \<Rightarrow> bool" where
  "loopback_ok p \<longleftrightarrow> (\<forall>l. p = Some l \<longrightarrow> validateWorkloadBinding (lo_workloadBinding l) = None)"

interpretation static_intakes: authenticated_intake "\<lambda>p. True" Static_Resolve
  by unfold_locales
    (auto simp: Static_Resolve_def intro: trusted_sealed trusted_ignores_identity split: option.splits if_splits)

interpretation reject_all: authenticated_intake "\<lambda>p. True" RejectAll_Resolve
  by unfold_locales (simp_all add: RejectAll_Resolve_def)

interpretation proxies: authenticated_intake "\<lambda>p. True" "Proxy_Resolve nl" for nl
  by unfold_locales
    (auto simp: Proxy_Resolve_def intro: trusted_sealed trusted_ignores_identity
      split: option.splits if_splits sum.splits)

interpretation loopbacks: authorization_intake loopback_ok "Loopback_Resolve nl" for nl
  by unfold_locales
    (auto simp: Loopback_Resolve_def loopback_ok_def intro!: sealed_resolved split: option.splits if_splits)

lemma NewLoopback_ok: "NewLoopbackDevelopment providerID bindings = Inr l \<Longrightarrow> loopback_ok (Some l)"
  by (auto simp: NewLoopbackDevelopment_def loopback_ok_def Let_def split: if_splits list.splits option.splits)

end
