(* ===== verification/Detection.thy ===== *)
theory Detection
  imports Audit_Records
begin

text \<open>
  \<open>internal/detection/engine.go\<close>: the correlation of request metadata within a session. The state
  of the engine is a map of sessions; \<open>Evaluate\<close> holds the mutex throughout, so it is one step.
  Its findings are advisory. A finding and its contribution to the result are built by a function
  of their own here; \<open>Evaluate\<close> composes them in the order of the code.
\<close>

record event_summary =
  es_parentID :: string
  es_sensitiveRead :: bool
  es_poisonedInput :: bool

record session_state =
  ss_events :: "(string, event_summary) gomap"
  ss_order :: "string list"
  ss_cumulativeRisk :: int
  ss_protectedReads :: int

record detection_engine =
  de_controls :: session_controls
  de_sessions :: "(string, session_state) gomap"

record detection_result =
  dt_Findings :: "security_finding list"
  dt_Context :: causal_context
  dt_RecommendedRoute :: route
  dt_RiskDelta :: int

definition NewDetection :: "session_controls \<Rightarrow> detection_engine" where
  "NewDetection controls =
    \<lparr>de_controls =
       \<lparr>sc_PrivacyReadBudget = (if sc_PrivacyReadBudget controls < 1 then 3 else sc_PrivacyReadBudget controls),
        sc_CumulativeRiskLimit = (if sc_CumulativeRiskLimit controls < 1 then 80 else sc_CumulativeRiskLimit controls),
        sc_EgressCapabilities =
          (if sc_EgressCapabilities controls = []
           then [''external_request'', ''send_data'', ''upload_file'', ''exfiltrate_data'']
           else sc_EgressCapabilities controls),
        sc_SideEffectCapabilities =
          (if sc_SideEffectCapabilities controls = []
           then [''write_config'', ''run_limited_commands'', ''external_request'', ''invoke_admin_tool'']
           else sc_SideEffectCapabilities controls),
        sc_InjectionRiskSignals =
          (if sc_InjectionRiskSignals controls = []
           then [''instruction_like_content'', ''tool_directive'', ''policy_override'', ''credential_request'']
           else sc_InjectionRiskSignals controls)\<rparr>,
     de_sessions = []\<rparr>"

definition empty_session :: session_state where
  "empty_session = \<lparr>ss_events = [], ss_order = [], ss_cumulativeRisk = 0, ss_protectedReads = 0\<rparr>"

section \<open>Helpers\<close>

definition safeValue :: "string \<Rightarrow> string \<Rightarrow> string" where
  "safeValue v fallback = (if trim_space v = [] then fallback else v)"

definition clamp :: "int \<Rightarrow> int \<Rightarrow> int \<Rightarrow> int" where
  "clamp v low high = (if v < low then low else if v > high then high else v)"

text \<open>\<open>stronger\<close>: a route the table does not hold has rank zero.\<close>

fun route_rank :: "route \<Rightarrow> nat" where
  "route_rank RouteNone = 0"
| "route_rank RouteAllow = 1"
| "route_rank RouteRestrict = 2"
| "route_rank RouteSandbox = 3"
| "route_rank RouteEscalate = 4"
| "route_rank RouteDeny = 5"
| "route_rank (RouteOther s) = 0"

definition stronger :: "route \<Rightarrow> route \<Rightarrow> route" where
  "stronger current candidate = (if route_rank candidate > route_rank current then candidate else current)"

definition finding :: "string \<Rightarrow> string \<Rightarrow> string \<Rightarrow> string \<Rightarrow> string \<Rightarrow> string list \<Rightarrow> security_finding" where
  "finding eventID category severity rule summary evidence =
    \<lparr>fi_ID = eventID @ '':'' @ rule, fi_Category = category, fi_Severity = severity, fi_Rule = rule,
     fi_Summary = summary, fi_Evidence = evidence\<rparr>"

definition destinationClass :: "request \<Rightarrow> string" where
  "destinationClass req =
    (case aq_Destination (EffectiveAction req) of None \<Rightarrow> ''external'' | Some d \<Rightarrow> safeValue (ds_Kind d) ''external'')"

definition retrieved :: "input_source \<Rightarrow> bool" where
  "retrieved s \<longleftrightarrow> in_Kind s = ''retrieval'' \<and> (in_Trust s = ''untrusted'' \<or> in_Trust s = ''external'')"

definition inputEvidence :: "request \<Rightarrow> string list" where
  "inputEvidence req =
    [''capability='' @ aq_Capability (EffectiveAction req), ''content_recorded=false'']
    @ (if tc_Name (EffectiveTool req) \<noteq> [] then [''tool='' @ tc_Name (EffectiveTool req)] else [])
    @ (case find retrieved (rq_InputSources req) of
         None \<Rightarrow> []
       | Some s \<Rightarrow> [''input_kind='' @ in_Kind s, ''input_trust='' @ in_Trust s,
                    ''uri_class='' @ safeValue (in_URIClass s) ''external''])"

text \<open>\<open>recent\<close>: the last items, at most \<open>limit\<close>.\<close>

definition recent :: "string list \<Rightarrow> nat \<Rightarrow> string list" where
  "recent items limit = drop (length items - limit) items"

text \<open>
  \<open>causalAncestors\<close>: the chain of parents. At most sixteen rounds, so sixteen is enough fuel:
  every round adds an ancestor.
\<close>

fun ancestors_from :: "nat \<Rightarrow> session_state \<Rightarrow> string list \<Rightarrow> string \<Rightarrow> string list" where
  "ancestors_from 0 state ancestors parentID = ancestors"
| "ancestors_from (Suc n) state ancestors parentID =
    (if parentID \<noteq> [] \<and> \<not> contains ancestors parentID \<and> length ancestors < 16
     then case mget (ss_events state) parentID of
            None \<Rightarrow> ancestors @ [parentID]
          | Some prior \<Rightarrow> ancestors_from n state (ancestors @ [parentID]) (es_parentID prior)
     else ancestors)"

definition causalAncestors :: "session_state \<Rightarrow> string \<Rightarrow> string list" where
  "causalAncestors state parentID = ancestors_from 17 state [] parentID"

definition schemaMismatch :: "tool_context \<Rightarrow> bool" where
  "schemaMismatch t \<longleftrightarrow> tc_ExpectedSchemaSHA256 t \<noteq> [] \<and> tc_ExpectedSchemaSHA256 t \<noteq> tc_SchemaSHA256 t"

definition hasPoisonedInput :: "input_source list \<Rightarrow> string list \<Rightarrow> bool" where
  "hasPoisonedInput sources accepted =
    list_ex (\<lambda>s. retrieved s \<and> list_ex (contains accepted) (in_RiskSignals s)) sources"

definition isSensitiveRead :: "request \<Rightarrow> bool" where
  "isSensitiveRead req =
    (case rq_DataAccess req of
       None \<Rightarrow> False
     | Some d \<Rightarrow> dx_Protected d \<and> (to_lower (dx_Operation d) = ''open'' \<or> to_lower (dx_Operation d) = ''read''))"

definition protectedInputSource :: "input_source list \<Rightarrow> string option" where
  "protectedInputSource sources =
    map_option in_EventID
      (find (\<lambda>s. (in_Kind s = ''protected_read'' \<or> in_Kind s = ''protected_data'') \<and> in_Trust s \<noteq> ''untrusted'') sources)"

section \<open>Evaluation\<close>

text \<open>What a rule adds to the result.\<close>

definition add_finding :: "int \<Rightarrow> route \<Rightarrow> security_finding \<Rightarrow> detection_result \<Rightarrow> detection_result" where
  "add_finding points route f r =
    r\<lparr>dt_RiskDelta := dt_RiskDelta r + points, dt_RecommendedRoute := stronger (dt_RecommendedRoute r) route,
      dt_Findings := dt_Findings r @ [f]\<rparr>"

definition is_egress :: "session_controls \<Rightarrow> action_request \<Rightarrow> bool" where
  "is_egress c a \<longleftrightarrow>
    (case aq_Destination a of None \<Rightarrow> False | Some d \<Rightarrow> ds_External d) \<or> contains (sc_EgressCapabilities c) (aq_Capability a)"

definition is_side_effect :: "session_controls \<Rightarrow> action_request \<Rightarrow> bool" where
  "is_side_effect c a \<longleftrightarrow>
    is_egress c a \<or> contains (sc_SideEffectCapabilities c) (aq_Capability a)
    \<or> (aq_SideEffect a \<noteq> [] \<and> aq_SideEffect a \<noteq> ''none'' \<and> aq_SideEffect a \<noteq> ''read_only'')"

definition sensitive_read_rule :: "request \<Rightarrow> detection_result \<Rightarrow> detection_result" where
  "sensitive_read_rule req r =
    (case rq_DataAccess req of
       Some d \<Rightarrow>
         if isSensitiveRead req
         then add_finding 10 RouteNone
           (finding (rq_RequestID req) ''sensitive_read_request'' ''medium'' ''data.protected_read_requested''
             ''the attempted action declares a protected file read; no runtime execution is inferred from this request metadata''
             [''operation='' @ dx_Operation d, ''path_class='' @ safeValue (dx_PathClass d) ''protected'', ''content_recorded=false'']) r
         else r
     | None \<Rightarrow> r)"

definition poisoned_rule :: "session_controls \<Rightarrow> request \<Rightarrow> detection_result \<Rightarrow> detection_result" where
  "poisoned_rule c req r =
    (if hasPoisonedInput (rq_InputSources req) (sc_InjectionRiskSignals c)
     then
       let severe = is_side_effect c (EffectiveAction req)
       in add_finding (if severe then 60 else 35) (if severe then RouteDeny else RouteSandbox)
            (finding (rq_RequestID req) ''indirect_prompt_injection'' (if severe then ''critical'' else ''high'')
              ''input.indirect_prompt_injection''
              ''untrusted retrieved content contains instruction-like signals before a tool action'' (inputEvidence req)) r
     else r)"

definition schema_rule :: "request \<Rightarrow> detection_result \<Rightarrow> detection_result" where
  "schema_rule req r =
    (let tool = EffectiveTool req
     in if schemaMismatch tool
        then add_finding 50 RouteDeny
          (finding (rq_RequestID req) ''tool_schema_drift'' ''critical'' ''tool.schema_hash_mismatch''
            ''the invoked tool schema does not match the approved schema hash''
            [''tool='' @ tc_Name tool, ''provider='' @ safeValue (tc_Provider tool) ''unknown'', ''schema_hash_match=false'']) r
        else r)"

definition exfiltration_finding :: "request \<Rightarrow> string \<Rightarrow> string \<Rightarrow> security_finding" where
  "exfiltration_finding req source summary =
    finding (rq_RequestID req) ''cross_tool_exfiltration'' ''critical'' ''sequence.protected_read_context_then_egress'' summary
      [''source_event='' @ source, ''destination='' @ destinationClass req, ''content_recorded=false'']"

text \<open>The loops over the candidates: the first prior event of the session, other than the request itself, that satisfies the rule.\<close>

definition first_prior :: "session_state \<Rightarrow> string \<Rightarrow> (event_summary \<Rightarrow> bool) \<Rightarrow> string list \<Rightarrow> string option" where
  "first_prior state requestID p candidates =
    find (\<lambda>i. i \<noteq> requestID \<and> (case mget (ss_events state) i of None \<Rightarrow> False | Some e \<Rightarrow> p e)) candidates"

definition exfiltration_rule ::
  "session_controls \<Rightarrow> session_state \<Rightarrow> string list \<Rightarrow> request \<Rightarrow> detection_result \<Rightarrow> detection_result" where
  "exfiltration_rule c state candidates req r =
    (if \<not> is_egress c (EffectiveAction req) then r
     else case protectedInputSource (rq_InputSources req) of
       Some sourceEventID \<Rightarrow>
         add_finding 50 RouteDeny
           (exfiltration_finding req (safeValue sourceEventID (rq_ParentEventID req))
             ''a protected-read provenance claim is followed by an external-boundary action'') r
     | None \<Rightarrow>
         (case first_prior state (rq_RequestID req) es_sensitiveRead candidates of
            None \<Rightarrow> r
          | Some eventID \<Rightarrow>
              add_finding 50 RouteDeny
                (exfiltration_finding req eventID
                  ''a prior protected-read request is followed by an external-boundary action in the same causal session'') r))"

definition poisoned_chain_rule ::
  "session_controls \<Rightarrow> session_state \<Rightarrow> string list \<Rightarrow> request \<Rightarrow> detection_result \<Rightarrow> detection_result" where
  "poisoned_chain_rule c state candidates req r =
    (if \<not> is_side_effect c (EffectiveAction req) then r
     else case first_prior state (rq_RequestID req) es_poisonedInput candidates of
       None \<Rightarrow> r
     | Some eventID \<Rightarrow>
         add_finding 45 RouteDeny
           (finding (rq_RequestID req) ''poisoned_input_tool_chain'' ''critical'' ''sequence.poisoned_input_then_side_effect''
             ''a prior poisoned-input event causally precedes a side-effecting tool action''
             [''source_event='' @ eventID, ''capability='' @ aq_Capability (EffectiveAction req)]) r)"

definition budget_rule :: "session_controls \<Rightarrow> int \<Rightarrow> request \<Rightarrow> detection_result \<Rightarrow> detection_result" where
  "budget_rule c protectedReads req r =
    (if protectedReads > sc_PrivacyReadBudget c
     then add_finding 30 RouteEscalate
       (finding (rq_RequestID req) ''privacy_budget_exceeded'' ''high'' ''data.privacy_read_request_budget''
         ''the session exceeded its protected-read request budget''
         [''budget='' @ show_int (sc_PrivacyReadBudget c), ''observed_reads='' @ show_int protectedReads]) r
     else r)"

definition cumulative_rule :: "session_controls \<Rightarrow> int \<Rightarrow> request \<Rightarrow> detection_result \<Rightarrow> detection_result" where
  "cumulative_rule c risk req r =
    (if risk \<ge> sc_CumulativeRiskLimit c \<and> dt_RecommendedRoute r \<noteq> RouteDeny
     then add_finding 0 RouteEscalate
       (finding (rq_RequestID req) ''cumulative_risk_limit'' ''high'' ''session.cumulative_risk_limit''
         ''the session cumulative-risk limit was reached''
         [''risk='' @ show_int risk, ''limit='' @ show_int (sc_CumulativeRiskLimit c)]) r
     else r)"

text \<open>The session after the request: the event is remembered, the oldest one is dropped beyond 128.\<close>

definition remember_event :: "request \<Rightarrow> bool \<Rightarrow> bool \<Rightarrow> session_state \<Rightarrow> session_state" where
  "remember_event req sensitiveRead poisonedInput state =
    (let events = mput (rq_RequestID req)
           \<lparr>es_parentID = rq_ParentEventID req, es_sensitiveRead = sensitiveRead, es_poisonedInput = poisonedInput\<rparr>
           (ss_events state);
         order = ss_order state @ [rq_RequestID req]
     in if length order > 128
        then state\<lparr>ss_events := mdel (hd order) events, ss_order := tl order\<rparr>
        else state\<lparr>ss_events := events, ss_order := order\<rparr>)"

definition session_of :: "detection_engine \<Rightarrow> request \<Rightarrow> string \<times> session_state" where
  "session_of e req =
    (let sessionID = (if rq_SessionID req = [] then rq_RequestID req else rq_SessionID req)
     in (sessionID, case mget (de_sessions e) sessionID of None \<Rightarrow> empty_session | Some s \<Rightarrow> s))"

text \<open>\<open>baseRisk/4\<close> divides towards zero.\<close>

definition risk_contribution :: "int \<Rightarrow> int \<Rightarrow> int" where
  "risk_contribution baseRisk delta = (let n = quot baseRisk 4 + delta in if n < 1 then 1 else n)"

definition Detection_Evaluate :: "detection_engine \<Rightarrow> request \<Rightarrow> int \<Rightarrow> detection_result \<times> detection_engine" where
  "Detection_Evaluate e req baseRisk =
    (let c = de_controls e;
         (sessionID, state) = session_of e req;
         ancestors = causalAncestors state (rq_ParentEventID req);
         candidates = (if ancestors = [] then recent (ss_order state) 12 else ancestors);
         reads = ss_protectedReads state + (if isSensitiveRead req then 1 else 0);
         r0 = \<lparr>dt_Findings = [], dt_Context = zero_causal_context, dt_RecommendedRoute = RouteNone, dt_RiskDelta = 0\<rparr>;
         r1 = schema_rule req (poisoned_rule c req (sensitive_read_rule req r0));
         r2 = poisoned_chain_rule c state candidates req (exfiltration_rule c state candidates req r1);
         r3 = budget_rule c reads req r2;
         risk = clamp (ss_cumulativeRisk state + risk_contribution baseRisk (dt_RiskDelta r3)) 0 100;
         r4 = cumulative_rule c risk req r3;
         remaining = sc_PrivacyReadBudget c - reads;
         state' = remember_event req (isSensitiveRead req)
           (hasPoisonedInput (rq_InputSources req) (sc_InjectionRiskSignals c))
           (state\<lparr>ss_cumulativeRisk := risk, ss_protectedReads := reads\<rparr>);
         context = \<lparr>ca_SessionID = sessionID, ca_EventID = rq_RequestID req, ca_ParentEventID = rq_ParentEventID req,
                    ca_Ancestors = ancestors, ca_CumulativeRisk = risk,
                    ca_PrivacyBudgetRemaining = (if remaining < 0 then 0 else remaining)\<rparr>
     in (r4\<lparr>dt_Context := context\<rparr>, e\<lparr>de_sessions := mput sessionID state' (de_sessions e)\<rparr>))"

section \<open>The bounds of a session\<close>

text \<open>The chain of parents has at most sixteen events, all different, and its fuel is enough.\<close>

lemma ancestors_bounded:
  assumes "length ancestors \<le> 16" "distinct ancestors"
  shows "length (ancestors_from n state ancestors i) \<le> 16 \<and> distinct (ancestors_from n state ancestors i)"
  using assms
proof (induction n state ancestors i rule: ancestors_from.induct)
  case (2 n state ancestors i)
  show ?case
  proof (cases "i \<noteq> [] \<and> \<not> contains ancestors i \<and> length ancestors < 16")
    case True
    then have a: "length (ancestors @ [i]) \<le> 16 \<and> distinct (ancestors @ [i])" using 2(3) by (simp add: contains_iff)
    show ?thesis
    proof (cases "mget (ss_events state) i")
      case None
      then show ?thesis using True a by simp
    next
      case (Some prior)
      then show ?thesis using True 2(1) [OF True Some] a by simp
    qed
  next
    case False
    then show ?thesis using 2(2,3) by (simp only: ancestors_from.simps if_False simp_thms)
  qed
qed simp

lemma ancestors_stop:
  "\<not> (i \<noteq> [] \<and> \<not> contains ancestors i \<and> length ancestors < 16) \<Longrightarrow> ancestors_from n state ancestors i = ancestors"
  by (cases n) (simp_all only: ancestors_from.simps if_False)

lemma ancestors_fuel:
  assumes "16 < n + length ancestors" "16 < m + length ancestors"
  shows "ancestors_from n state ancestors i = ancestors_from m state ancestors i"
  using assms
proof (induction n arbitrary: m ancestors i)
  case 0
  then show ?case by (simp add: ancestors_stop)
next
  case (Suc n)
  show ?case
  proof (cases "i \<noteq> [] \<and> \<not> contains ancestors i \<and> length ancestors < 16")
    case True
    then obtain k where m: "m = Suc k" using Suc.prems by (cases m) auto
    show ?thesis using True Suc.IH [of "ancestors @ [i]" k] Suc.prems unfolding m
      by (cases "mget (ss_events state) i") simp_all
  next
    case False
    show ?thesis unfolding ancestors_stop [OF False] ..
  qed
qed

definition session_ok :: "session_state \<Rightarrow> bool" where
  "session_ok s \<longleftrightarrow>
    0 \<le> ss_cumulativeRisk s \<and> ss_cumulativeRisk s \<le> 100 \<and> 0 \<le> ss_protectedReads s \<and> length (ss_order s) \<le> 128
    \<and> (\<forall>i. mget (ss_events s) i \<noteq> None \<longrightarrow> i \<in> set (ss_order s))"

definition detection_ok :: "detection_engine \<Rightarrow> bool" where
  "detection_ok e \<longleftrightarrow> (\<forall>k s. mget (de_sessions e) k = Some s \<longrightarrow> session_ok s)"

lemma remember_event_ok:
  assumes "session_ok s" shows "session_ok (remember_event req sensitive poisoned s)"
proof (cases "length (ss_order s @ [rq_RequestID req]) > 128")
  case True
  then obtain x xs where o: "ss_order s = x # xs" by (cases "ss_order s") auto
  show ?thesis using assms True by (auto simp: session_ok_def remember_event_def Let_def o)
next
  case False
  then show ?thesis using assms by (auto simp: session_ok_def remember_event_def Let_def)
qed

lemma clamp_bounds: "0 \<le> clamp v 0 100 \<and> clamp v 0 100 \<le> 100"
  by (simp add: clamp_def)

lemma detection_step_ok:
  assumes "detection_ok e" shows "detection_ok (snd (Detection_Evaluate e req baseRisk))"
proof -
  obtain k s where k: "session_of e req = (k, s)" by (rule prod.exhaust)
  have "session_ok empty_session" by (simp add: session_ok_def empty_session_def)
  then have s: "session_ok s"
    using assms k by (auto simp: session_of_def Let_def detection_ok_def split: option.splits)
  have "\<exists>risk reads sensitive poisoned. 0 \<le> risk \<and> risk \<le> 100 \<and> 0 \<le> reads
    \<and> de_sessions (snd (Detection_Evaluate e req baseRisk)) =
        mput k (remember_event req sensitive poisoned (s\<lparr>ss_cumulativeRisk := risk, ss_protectedReads := reads\<rparr>)) (de_sessions e)"
    unfolding Detection_Evaluate_def Let_def k prod.case snd_conv detection_engine.simps
    by (intro exI conjI; (rule refl)?) (use s in \<open>simp_all add: clamp_bounds session_ok_def\<close>)
  then obtain risk reads sensitive poisoned where r: "0 \<le> risk" "risk \<le> 100" "0 \<le> reads"
    "de_sessions (snd (Detection_Evaluate e req baseRisk)) =
       mput k (remember_event req sensitive poisoned (s\<lparr>ss_cumulativeRisk := risk, ss_protectedReads := reads\<rparr>)) (de_sessions e)"
    by blast
  have "session_ok (s\<lparr>ss_cumulativeRisk := risk, ss_protectedReads := reads\<rparr>)"
    using s r(1-3) by (simp add: session_ok_def)
  then show ?thesis using assms by (auto simp: detection_ok_def r(4) intro: remember_event_ok)
qed

lemma detection_run_ok:
  "detection_ok e \<Longrightarrow> detection_ok (fold (\<lambda>(req, baseRisk) e. snd (Detection_Evaluate e req baseRisk)) requests e)"
  by (induction requests arbitrary: e) (auto simp: detection_step_ok)

end
