(* ===== verification/Observer.thy ===== *)
theory Observer
  imports Audit_Records
begin

text \<open>
  \<open>internal/observer/observer.go\<close>: the comparison of reported runtime metadata with the issued
  envelope. The two closures of \<open>Evaluate\<close>, \<open>reject\<close> and \<open>boundary\<close>, each append a violation and
  set the flags; the rules they are called from are the two lists of violations here.
\<close>

definition trustForSource :: "runtime_source \<Rightarrow> runtime_trust option" where
  "trustForSource s =
    (case s of
       SourceGatewayEnforced \<Rightarrow> Some TrustEnforced
     | SourceInstrumentedAdapter \<Rightarrow> Some TrustAdapterReported
     | SourceAgentSelfReported \<Rightarrow> Some TrustSelfReported
     | SourceOSSensor \<Rightarrow> Some TrustIndependentSensor
     | SourceNetworkSensor \<Rightarrow> Some TrustIndependentSensor
     | SourceSimulatedDemo \<Rightarrow> Some TrustSimulated
     | SourceOther x \<Rightarrow> None)"

definition event_destination :: "runtime_event \<Rightarrow> string" where
  "event_destination e = (if re_DestinationClass e = [] then ''external'' else re_DestinationClass e)"

text \<open>A rule: the violation it appends when its condition holds.\<close>

definition check_rule :: "bool \<Rightarrow> string \<Rightarrow> string \<Rightarrow> message \<Rightarrow> message \<Rightarrow> violation list" where
  "check_rule broken rule summary expected actual =
    (if broken then [\<lparr>av_Rule = rule, av_Summary = summary, av_Expected = expected, av_Actual = actual\<rparr>] else [])"

definition source_violations :: "runtime_event \<Rightarrow> violation list" where
  "source_violations e =
    (case trustForSource (re_Source e) of
       None \<Rightarrow> check_rule True ''runtime.source_unknown'' ''runtime event evidence source is not recognized''
         (plain ''known evidence source'') (plain (source_text (re_Source e)))
     | Some expectedTrust \<Rightarrow> check_rule (expectedTrust \<noteq> re_TrustLevel e) ''runtime.source_trust_mismatch''
         ''runtime evidence trust label does not match its source'' (plain (trust_text expectedTrust))
         (plain (trust_text (re_TrustLevel e))))"

definition binding_violations :: "authorization_envelope \<Rightarrow> runtime_event \<Rightarrow> time \<Rightarrow> violation list" where
  "binding_violations p e evaluatedAt =
    check_rule (re_EventID e = []) ''runtime.event_id_missing'' ''runtime event has no event identifier''
      (plain ''non-empty event_id'') (plain ''empty'')
    @ source_violations e
    @ check_rule (en_PermitID p = [] \<or> re_PermitID e \<noteq> en_PermitID p) ''runtime.permit_binding_mismatch''
        ''runtime event is bound to the wrong execution permit'' (plain (en_PermitID p)) (plain (re_PermitID e))
    @ check_rule (re_RequestID e \<noteq> en_RequestID p) ''runtime.request_binding_mismatch''
        ''runtime event is bound to the wrong request'' (plain (en_RequestID p)) (plain (re_RequestID e))
    @ check_rule (re_AgentID e \<noteq> en_AgentID p) ''runtime.agent_binding_mismatch''
        ''runtime event is bound to the wrong agent'' (plain (en_AgentID p)) (plain (re_AgentID e))
    @ check_rule (re_WorkloadID e \<noteq> [] \<and> re_WorkloadID e \<noteq> en_WorkloadID p) ''runtime.workload_binding_mismatch''
        ''runtime event is bound to the wrong workload'' (plain (en_WorkloadID p)) (plain (re_WorkloadID e))
    @ check_rule (\<not> evaluatedAt < en_ExpiresAt p \<or> (re_Timestamp e \<noteq> zero_time \<and> en_ExpiresAt p < re_Timestamp e))
        ''runtime.permit_expired'' ''runtime event was received outside the permit lifetime''
        (Message ''RFC3339Nano'' [FormatTime (en_ExpiresAt p)]) (Message ''RFC3339Nano'' [FormatTime evaluatedAt])"

definition side_effect_named :: "string \<Rightarrow> bool" where
  "side_effect_named s \<longleftrightarrow> s \<noteq> [] \<and> s \<noteq> ''none'' \<and> s \<noteq> ''read_only''"

definition allowed_side_effects :: "constraints \<Rightarrow> string list" where
  "allowed_side_effects c = (case co_AllowedSideEffects c of None \<Rightarrow> [] | Some xs \<Rightarrow> xs)"

text \<open>\<open>event.Timestamp.Sub(permit.IssuedAt).Milliseconds()\<close>.\<close>

definition event_elapsed :: "authorization_envelope \<Rightarrow> runtime_event \<Rightarrow> int" where
  "event_elapsed p e = dur_milliseconds (time_sub (re_Timestamp e) (en_IssuedAt p))"

definition boundary_violations :: "authorization_envelope \<Rightarrow> runtime_event \<Rightarrow> violation list" where
  "boundary_violations p e =
    (let c = en_Constraints p in
     check_rule (re_Capability e \<noteq> en_AllowedCapability p) ''envelope.capability_exceeded''
       ''runtime capability exceeds the authorization envelope'' (plain (en_AllowedCapability p)) (plain (re_Capability e))
     @ check_rule (re_Tool e \<noteq> en_AllowedTool p) ''envelope.tool_exceeded''
         ''runtime tool exceeds the authorization envelope'' (plain (en_AllowedTool p)) (plain (re_Tool e))
     @ check_rule (re_Resource e \<noteq> en_AllowedResource p) ''envelope.resource_exceeded''
         ''runtime resource exceeds the authorization envelope'' (plain (en_AllowedResource p)) (plain (re_Resource e))
     @ check_rule (\<not> contains (en_AllowedOperations p) (re_Operation e)) ''envelope.operation_exceeded''
         ''runtime operation exceeds the authorization envelope''
         (Message ''join'' [FormatStrings (en_AllowedOperations p)]) (plain (re_Operation e))
     @ check_rule (re_External e \<and> co_NetworkEgress c \<noteq> ''allow'') ''envelope.network_egress_denied''
         ''runtime action crossed an external trust boundary while egress was denied''
         (plain ''network_egress=deny'') (plain (event_destination e))
     @ check_rule (re_SecretAccess e \<and> co_SecretAccess c \<noteq> ''allow'') ''envelope.secret_access_denied''
         ''runtime action accessed a secret while secret access was denied''
         (plain ''secret_access=deny'') (plain ''secret_access=true'')
     @ check_rule (IsWriteOperation (re_Operation e) \<and> co_WriteAccess c \<noteq> ''allow'') ''envelope.write_access_denied''
         ''runtime write exceeded a read-only authorization envelope''
         (plain ''write_access=deny'') (plain (''operation='' @ re_Operation e))
     @ check_rule (side_effect_named (re_SideEffect e) \<and> \<not> contains (allowed_side_effects c) (re_SideEffect e))
         ''envelope.side_effect_denied'' ''runtime side effect was not granted by the authorization envelope''
         (Message ''join'' [FormatStrings (allowed_side_effects c)]) (plain (re_SideEffect e))
     @ check_rule (co_MaxBytes c > 0 \<and> re_Bytes e > co_MaxBytes c) ''envelope.max_bytes_exceeded''
         ''runtime byte count exceeded the authorization envelope''
         (Message ''<=%d'' [FormatInt (co_MaxBytes c)]) (Message ''%d'' [FormatInt (re_Bytes e)])
     @ check_rule (co_MaxDurationMS c > 0 \<and> re_Timestamp e \<noteq> zero_time \<and> event_elapsed p e > co_MaxDurationMS c)
         ''envelope.max_duration_exceeded'' ''runtime event exceeded the authorization duration limit''
         (Message ''<=%dms'' [FormatInt (co_MaxDurationMS c)]) (Message ''%dms'' [FormatInt (event_elapsed p e)]))"

definition Observer_Evaluate :: "authorization_envelope \<Rightarrow> runtime_event \<Rightarrow> time \<Rightarrow> runtime_evaluation" where
  "Observer_Evaluate p e evaluatedAt =
    (let rejections = binding_violations p e evaluatedAt; boundaries = boundary_violations p e;
         result = \<lparr>rv_EventID = re_EventID e, rv_PermitID = re_PermitID e, rv_Accepted = True, rv_WithinEnvelope = True,
                   rv_Terminated = False, rv_Verdict = ''PERMITTED_RUNTIME_EVENT'', rv_Violations = []\<rparr>
     in if rejections \<noteq> []
        then result\<lparr>rv_Accepted := False, rv_WithinEnvelope := False, rv_Terminated := True,
                    rv_Violations := rejections, rv_Verdict := ''RUNTIME_EVENT_REJECTED''\<rparr>
        else if boundaries \<noteq> []
        then result\<lparr>rv_WithinEnvelope := False, rv_Terminated := True, rv_Violations := boundaries,
                    rv_Verdict := ''AUTHORIZATION_BOUNDARY_VIOLATION''\<rparr>
        else result)"

section \<open>What an accepted event is\<close>

lemma check_rule_Nil [simp]: "check_rule broken rule summary expected actual = [] \<longleftrightarrow> \<not> broken"
  by (simp add: check_rule_def)

text \<open>The binding of an event and the bounds of an envelope, as predicates.\<close>

definition event_bound :: "authorization_envelope \<Rightarrow> runtime_event \<Rightarrow> time \<Rightarrow> bool" where
  "event_bound p e now \<longleftrightarrow>
    re_EventID e \<noteq> [] \<and> trustForSource (re_Source e) = Some (re_TrustLevel e)
    \<and> en_PermitID p \<noteq> [] \<and> re_PermitID e = en_PermitID p \<and> re_RequestID e = en_RequestID p
    \<and> re_AgentID e = en_AgentID p \<and> (re_WorkloadID e = [] \<or> re_WorkloadID e = en_WorkloadID p)
    \<and> now < en_ExpiresAt p \<and> (re_Timestamp e = zero_time \<or> re_Timestamp e \<le> en_ExpiresAt p)"

definition event_within :: "authorization_envelope \<Rightarrow> runtime_event \<Rightarrow> bool" where
  "event_within p e \<longleftrightarrow>
    re_Capability e = en_AllowedCapability p \<and> re_Tool e = en_AllowedTool p \<and> re_Resource e = en_AllowedResource p
    \<and> re_Operation e \<in> set (en_AllowedOperations p)
    \<and> (re_External e \<longrightarrow> co_NetworkEgress (en_Constraints p) = ''allow'')
    \<and> (re_SecretAccess e \<longrightarrow> co_SecretAccess (en_Constraints p) = ''allow'')
    \<and> (IsWriteOperation (re_Operation e) \<longrightarrow> co_WriteAccess (en_Constraints p) = ''allow'')
    \<and> (side_effect_named (re_SideEffect e) \<longrightarrow> re_SideEffect e \<in> set (allowed_side_effects (en_Constraints p)))
    \<and> (co_MaxBytes (en_Constraints p) > 0 \<longrightarrow> re_Bytes e \<le> co_MaxBytes (en_Constraints p))
    \<and> (co_MaxDurationMS (en_Constraints p) > 0 \<and> re_Timestamp e \<noteq> zero_time \<longrightarrow>
         event_elapsed p e \<le> co_MaxDurationMS (en_Constraints p))"

lemma binding_violations_Nil: "binding_violations p e now = [] \<longleftrightarrow> event_bound p e now"
  by (auto simp: binding_violations_def event_bound_def source_violations_def split: option.splits)

lemma boundary_violations_Nil: "boundary_violations p e = [] \<longleftrightarrow> event_within p e"
  by (auto simp: boundary_violations_def event_within_def Let_def)

lemmas observer_simps = Observer_Evaluate_def Let_def binding_violations_Nil boundary_violations_Nil

end
