(* ===== verification/Audit_Store.thy ===== *)
theory Audit_Store
  imports Audit_Records
begin

text \<open>
  \<open>internal/audit/store.go\<close>: the records in memory and the append-only file behind them. Records are
  values here, so the deep copies of \<open>cloneAuditRecord\<close> are the records themselves; its JSON round
  trip is the identity on records whose strings are UTF-8, which is what the request decoder and the
  label checks of the router let in.

  The file is the list of what was written to it, one entry per write. A write that goes through
  leaves a whole line; one that the system breaks off leaves the first \<open>n\<close> bytes of the line without
  its newline, so the next write continues in the same line; a line that is not from this program
  may be one that no record can be read from. How many bytes the JSON text of a record has, without the
  newline, is the argument \<open>len\<close>. What a write does is an argument of the operations: it succeeds,
  fails before anything is written, breaks off after \<open>n\<close> bytes, or fails after the line was written
  (the error of \<open>Close\<close>).

  Every method holds the lock from start to end.
\<close>

datatype write_outcome = WriteOk | WriteFailed | WriteTorn nat | CloseFailed

datatype audit_error =
    AuditIO | AuditRequestIDRequired | AuditNotFound string | AuditMutation message
  | AuditDirectory | AuditOpen | AuditParse | AuditScan

datatype audit_chunk = WholeLine audit_record | TornLine audit_record nat | ForeignLine

record audit_store =
  au_path :: string
  au_records :: "audit_record list"
  au_log :: "audit_chunk list"

definition persist :: "write_outcome \<Rightarrow> audit_record \<Rightarrow> audit_store \<Rightarrow> audit_error option \<times> audit_store" where
  "persist w r s =
    (if au_path s = [] then (None, s)
     else case w of
       WriteOk \<Rightarrow> (None, s\<lparr>au_log := au_log s @ [WholeLine r]\<rparr>)
     | WriteFailed \<Rightarrow> (Some AuditIO, s)
     | WriteTorn n \<Rightarrow> (Some AuditIO, if n = 0 then s else s\<lparr>au_log := au_log s @ [TornLine r n]\<rparr>)
     | CloseFailed \<Rightarrow> (Some AuditIO, s\<lparr>au_log := au_log s @ [WholeLine r]\<rparr>))"

text \<open>The last hundred records are kept.\<close>

definition keep_recent :: "audit_record list \<Rightarrow> audit_record list" where
  "keep_recent rs = drop (length rs - 100) rs"

definition Audit_Append :: "write_outcome \<Rightarrow> audit_record \<Rightarrow> audit_store \<Rightarrow> audit_error option \<times> audit_store" where
  "Audit_Append w r s =
    (case persist w r s of
       (Some e, s') \<Rightarrow> (Some e, s')
     | (None, s') \<Rightarrow> (None, s'\<lparr>au_records := keep_recent (au_records s' @ [r])\<rparr>))"

text \<open>
  The loop that looks for the latest record of a request, from the end; the records split at it.
\<close>

fun split_latest :: "string \<Rightarrow> audit_record list \<Rightarrow> (audit_record list \<times> audit_record \<times> audit_record list) option" where
  "split_latest i [] = None"
| "split_latest i (r # rs) =
    (case split_latest i rs of
       Some (us, x, vs) \<Rightarrow> Some (r # us, x, vs)
     | None \<Rightarrow> if ar_RequestID r = i then Some ([], r, rs) else None)"

definition Audit_Get :: "audit_store \<Rightarrow> string \<Rightarrow> audit_record option" where
  "Audit_Get s i = map_option (\<lambda>(us, x, vs). x) (split_latest i (au_records s))"

definition Audit_Update :: "write_outcome \<Rightarrow> audit_record \<Rightarrow> audit_store \<Rightarrow> audit_error option \<times> audit_store" where
  "Audit_Update w r s =
    (if ar_RequestID r = [] then (Some AuditRequestIDRequired, s)
     else case split_latest (ar_RequestID r) (au_records s) of
       None \<Rightarrow> (Some (AuditNotFound (ar_RequestID r)), s)
     | Some (us, x, vs) \<Rightarrow>
         (case persist w r s of
            (Some e, s') \<Rightarrow> (Some e, s')
          | (None, s') \<Rightarrow> (None, s'\<lparr>au_records := us @ r # vs\<rparr>)))"

text \<open>\<open>Mutate\<close>: the mutation answers an error or the changed record.\<close>

definition Audit_Mutate ::
  "write_outcome \<Rightarrow> string \<Rightarrow> (audit_record \<Rightarrow> message + audit_record) \<Rightarrow> audit_store
    \<Rightarrow> (audit_error + audit_record) \<times> audit_store" where
  "Audit_Mutate w i f s =
    (if i = [] then (Inl AuditRequestIDRequired, s)
     else case split_latest i (au_records s) of
       None \<Rightarrow> (Inl (AuditNotFound i), s)
     | Some (us, x, vs) \<Rightarrow>
         (case f x of
            Inl m \<Rightarrow> (Inl (AuditMutation m), s)
          | Inr r \<Rightarrow>
              (case persist w r s of
                 (Some e, s') \<Rightarrow> (Inl e, s')
               | (None, s') \<Rightarrow> (Inr r, s'\<lparr>au_records := us @ r # vs\<rparr>))))"

definition Audit_Recent :: "audit_store \<Rightarrow> int \<Rightarrow> audit_record list" where
  "Audit_Recent s limit =
    (if limit \<le> 0 \<or> limit > int (length (au_records s)) then rev (au_records s)
     else take (nat limit) (rev (au_records s)))"

text \<open>
  \<open>load\<close>. Every line of the file replaces the latest record of its request or is added. The lines come
  from a \<open>bufio.Scanner\<close> with its default buffer of 64 KiB, which answers \<open>ErrTooLong\<close> for a line
  of more than 65535 bytes, and each line must parse. A torn line parses only when all of its text is
  there and nothing follows it: otherwise the line is a proper prefix of a JSON object, or an object or a
  prefix of one followed by another text, which is never JSON (the error is that of the scanner when
  such a line is too long; no operation tells the two apart).
\<close>

definition max_line :: nat where "max_line = 65535"

definition load_line :: "audit_record list \<Rightarrow> audit_record \<Rightarrow> audit_record list" where
  "load_line rs r =
    (if ar_RequestID r = [] then rs @ [r]
     else case split_latest (ar_RequestID r) rs of
       Some (us, x, vs) \<Rightarrow> us @ r # vs
     | None \<Rightarrow> rs @ [r])"

fun load_file ::
  "(audit_record \<Rightarrow> nat) \<Rightarrow> audit_chunk list \<Rightarrow> audit_record list \<Rightarrow> audit_error + audit_record list" where
  "load_file len [] rs = Inr rs"
| "load_file len (WholeLine r # file) rs =
    (if len r > max_line then Inl AuditScan else load_file len file (load_line rs r))"
| "load_file len (TornLine r n # file) rs =
    (if min n (len r) > max_line then Inl AuditScan
     else if n < len r \<or> file \<noteq> [] then Inl AuditParse
     else Inr (load_line rs r))"
| "load_file len (ForeignLine # file) rs = Inl AuditParse"

text \<open>What is at the path when the store is opened.\<close>

datatype audit_file = AuditMissing | AuditNoDirectory | AuditUnreadable | AuditContent "audit_chunk list"

definition NewStore :: "(audit_record \<Rightarrow> nat) \<Rightarrow> string \<Rightarrow> audit_file \<Rightarrow> audit_error + audit_store" where
  "NewStore len path file =
    (if path = [] then Inr \<lparr>au_path = [], au_records = [], au_log = []\<rparr>
     else case file of
       AuditNoDirectory \<Rightarrow> Inl AuditDirectory
     | AuditUnreadable \<Rightarrow> Inl AuditOpen
     | AuditMissing \<Rightarrow> Inr \<lparr>au_path = path, au_records = [], au_log = []\<rparr>
     | AuditContent chunks \<Rightarrow>
         (case load_file len chunks [] of
            Inl e \<Rightarrow> Inl e
          | Inr rs \<Rightarrow> Inr \<lparr>au_path = path, au_records = rs, au_log = chunks\<rparr>))"

section \<open>The latest record of a request\<close>

definition latest :: "string \<Rightarrow> audit_record list \<Rightarrow> audit_record option" where
  "latest i rs = find (\<lambda>r. ar_RequestID r = i) (rev rs)"

lemma find_append: "find p (xs @ ys) = (case find p xs of None \<Rightarrow> find p ys | Some x \<Rightarrow> Some x)"
  by (induction xs) auto

lemma latest_Nil [simp]: "latest i [] = None"
  by (simp add: latest_def)

lemma latest_snoc [simp]: "latest i (rs @ [r]) = (if ar_RequestID r = i then Some r else latest i rs)"
  by (simp add: latest_def)

lemma latest_append: "latest i (rs @ ts) = (case latest i ts of None \<Rightarrow> latest i rs | Some r \<Rightarrow> Some r)"
  unfolding latest_def by (simp add: find_append)

lemma latest_Cons: "latest i (r # rs) =
    (case latest i rs of Some x \<Rightarrow> Some x | None \<Rightarrow> if ar_RequestID r = i then Some r else None)"
  unfolding latest_def by (simp add: find_append split: option.split)

lemma split_latest_None: "split_latest i rs = None \<longleftrightarrow> latest i rs = None"
  by (induction rs) (auto simp: latest_Cons split: option.splits if_splits)

lemma split_latest_Some:
  assumes "split_latest i rs = Some (us, x, vs)"
  shows "rs = us @ x # vs" "ar_RequestID x = i" "latest i vs = None" "latest i rs = Some x"
proof -
  have "rs = us @ x # vs \<and> ar_RequestID x = i \<and> latest i vs = None"
    using assms by (induction rs arbitrary: us) (auto simp: split_latest_None split: option.splits if_splits)
  then show "rs = us @ x # vs" "ar_RequestID x = i" "latest i vs = None" "latest i rs = Some x"
    by (auto simp: latest_append latest_Cons)
qed

lemma Audit_Get_latest [simp]: "Audit_Get s i = latest i (au_records s)"
proof (cases "split_latest i (au_records s)")
  case None
  then show ?thesis by (simp add: Audit_Get_def split_latest_None)
next
  case (Some t)
  obtain us x vs where t: "t = (us, x, vs)" by (rule prod_cases3)
  show ?thesis using split_latest_Some(4) [OF Some [unfolded t]] by (simp add: Audit_Get_def Some t)
qed

text \<open>Writing a record over the latest one of its request changes that request only.\<close>

lemma latest_replace:
  assumes "split_latest i rs = Some (us, x, vs)" "ar_RequestID r = i"
  shows "latest j (us @ r # vs) = (if j = i then Some r else latest j rs)"
  using split_latest_Some [OF assms(1)] assms(2) by (auto simp: latest_append latest_Cons split: option.splits)

lemma latest_load_line [simp]:
  assumes "ar_RequestID r \<noteq> []"
  shows "latest j (load_line rs r) = (if ar_RequestID r = j then Some r else latest j rs)"
proof (cases "split_latest (ar_RequestID r) rs")
  case None
  then show ?thesis using assms by (simp add: load_line_def)
next
  case (Some t)
  obtain us x vs where t: "t = (us, x, vs)" by (rule prod_cases3)
  show ?thesis using assms latest_replace [OF Some [unfolded t] refl] by (simp add: load_line_def Some t)
qed

text \<open>Loading a file answers, for every request, its last line.\<close>

lemma latest_load:
  assumes "i \<noteq> []"
  shows "latest i (fold (\<lambda>r rs. load_line rs r) ls acc) = (case latest i ls of None \<Rightarrow> latest i acc | Some r \<Rightarrow> Some r)"
proof (induction ls arbitrary: acc)
  case (Cons r ls)
  have "latest i (load_line acc r) = (if ar_RequestID r = i then Some r else latest i acc)"
  proof (cases "ar_RequestID r = []")
    case True
    then show ?thesis using assms by (simp add: load_line_def)
  qed simp
  with Cons show ?case by (simp add: latest_Cons split: option.split)
qed simp

section \<open>Every sequence of calls\<close>

datatype audit_op =
    OpAppend write_outcome audit_record
  | OpUpdate write_outcome audit_record
  | OpMutate write_outcome string "audit_record \<Rightarrow> message + audit_record"

fun audit_step :: "audit_op \<Rightarrow> audit_store \<Rightarrow> audit_store" where
  "audit_step (OpAppend w r) s = snd (Audit_Append w r s)"
| "audit_step (OpUpdate w r) s = snd (Audit_Update w r s)"
| "audit_step (OpMutate w i f) s = snd (Audit_Mutate w i f s)"

text \<open>
  A write that reports what it did: it answers an error only when no readable record was left in the
  file. The operations whose write is such, with mutations that keep the identifier.
\<close>

definition faithful_write :: "(audit_record \<Rightarrow> nat) \<Rightarrow> write_outcome \<Rightarrow> audit_record \<Rightarrow> bool" where
  "faithful_write len w r \<longleftrightarrow> (case w of WriteOk \<Rightarrow> True | WriteFailed \<Rightarrow> True | WriteTorn n \<Rightarrow> n < len r | CloseFailed \<Rightarrow> False)"

fun honest :: "(audit_record \<Rightarrow> nat) \<Rightarrow> audit_op \<Rightarrow> bool" where
  "honest len (OpAppend w r) \<longleftrightarrow> faithful_write len w r \<and> ar_RequestID r \<noteq> []"
| "honest len (OpUpdate w r) \<longleftrightarrow> faithful_write len w r"
| "honest len (OpMutate w i f) \<longleftrightarrow> (\<forall>x r. f x = Inr r \<longrightarrow> faithful_write len w r \<and> ar_RequestID r = ar_RequestID x)"

text \<open>A write that is not broken off, of a record that fits into a line.\<close>

definition whole_write :: "(audit_record \<Rightarrow> nat) \<Rightarrow> write_outcome \<Rightarrow> audit_record \<Rightarrow> bool" where
  "whole_write len w r \<longleftrightarrow> (case w of WriteTorn n \<Rightarrow> False | _ \<Rightarrow> True) \<and> len r \<le> max_line"

fun writes_lines :: "(audit_record \<Rightarrow> nat) \<Rightarrow> audit_op \<Rightarrow> bool" where
  "writes_lines len (OpAppend w r) \<longleftrightarrow> whole_write len w r"
| "writes_lines len (OpUpdate w r) \<longleftrightarrow> whole_write len w r"
| "writes_lines len (OpMutate w i f) \<longleftrightarrow> (\<forall>x r. f x = Inr r \<longrightarrow> whole_write len w r)"

lemma keep_recent_bounds: "length (keep_recent rs) \<le> 100" "\<exists>old. rs = old @ keep_recent rs"
  by (simp add: keep_recent_def) (metis append_take_drop_id keep_recent_def)

lemma latest_keep_recent: "latest i (keep_recent rs) = Some r \<Longrightarrow> latest i rs = Some r"
  by (metis keep_recent_bounds(2) latest_append option.simps(5))

section \<open>What a file holds\<close>

text \<open>The records that can be read from a file, and the entries that can be read wherever they stand.\<close>

fun chunk_records :: "(audit_record \<Rightarrow> nat) \<Rightarrow> audit_chunk \<Rightarrow> audit_record list" where
  "chunk_records len (WholeLine r) = [r]"
| "chunk_records len (TornLine r n) = (if n < len r then [] else [r])"
| "chunk_records len ForeignLine = []"

definition logged :: "(audit_record \<Rightarrow> nat) \<Rightarrow> audit_chunk list \<Rightarrow> audit_record list" where
  "logged len cs = concat (map (chunk_records len) cs)"

fun line_ok :: "(audit_record \<Rightarrow> nat) \<Rightarrow> audit_chunk \<Rightarrow> bool" where
  "line_ok len (WholeLine r) \<longleftrightarrow> len r \<le> max_line"
| "line_ok len _ \<longleftrightarrow> False"

text \<open>An entry that ends its line, or leaves a text in it that is no record.\<close>

fun settled :: "(audit_record \<Rightarrow> nat) \<Rightarrow> audit_chunk \<Rightarrow> bool" where
  "settled len (TornLine r n) \<longleftrightarrow> n < len r"
| "settled len _ \<longleftrightarrow> True"

lemma logged_simps [simp]:
  "logged len [] = []" "logged len (c # cs) = chunk_records len c @ logged len cs"
  "logged len (cs @ ds) = logged len cs @ logged len ds"
  by (simp_all add: logged_def)

lemma load_file_logged: "load_file len cs rs = Inr rs' \<Longrightarrow> rs' = fold (\<lambda>r rs. load_line rs r) (logged len cs) rs"
  by (induction len cs rs rule: load_file.induct) (auto split: if_splits)

lemma load_file_ok: "list_all (line_ok len) cs \<Longrightarrow> \<exists>rs'. load_file len cs rs = Inr rs'"
  by (induction len cs rs rule: load_file.induct) auto

lemma load_file_settled:
  "list_all (settled len) cs \<Longrightarrow> load_file len cs rs = Inr rs' \<Longrightarrow> list_all (line_ok len) cs"
  by (induction len cs rs rule: load_file.induct) (auto split: if_splits)

text \<open>An entry that no line can be read from blocks every load, whatever was written before or after it.\<close>

lemma load_file_blocked:
  "load_file len (cs @ c # ds) rs = Inr rs' \<Longrightarrow> settled len c \<Longrightarrow> line_ok len c"
proof (induction cs arbitrary: rs)
  case Nil
  then show ?case by (cases c) (auto split: if_splits)
next
  case (Cons d cs)
  then show ?case by (cases d) (auto split: if_splits)
qed

section \<open>Memory and file\<close>

text \<open>
  The link between memory and file: a record in memory is the last of its request in the file.
\<close>

definition log_link :: "(audit_record \<Rightarrow> nat) \<Rightarrow> audit_store \<Rightarrow> bool" where
  "log_link len s \<longleftrightarrow>
    (\<forall>i r. i \<noteq> [] \<longrightarrow> latest i (au_records s) = Some r \<longrightarrow> latest i (logged len (au_log s)) = Some r)"

text \<open>One operation either changes nothing in memory and adds no record to the file, or writes one record to both.\<close>

lemma persist_reported:
  assumes "persist w r s = (e, s')" "au_path s \<noteq> []" "faithful_write len w r"
  shows "au_records s' = au_records s" "au_path s' = au_path s"
    "logged len (au_log s') = logged len (au_log s) @ (if e = None then [r] else [])"
    "list_all (settled len) (au_log s) \<Longrightarrow> list_all (settled len) (au_log s')"
  using assms by (auto simp: persist_def faithful_write_def split: write_outcome.splits)

lemma persist_whole:
  assumes "persist w r s = (e, s')" "whole_write len w r" "list_all (line_ok len) (au_log s)"
  shows "list_all (line_ok len) (au_log s')"
  using assms by (auto simp: persist_def whole_write_def split: write_outcome.splits if_splits)

text \<open>The three operations in one form: what they write, if they write, and where memory takes it.\<close>

definition audit_write :: "audit_op \<Rightarrow> audit_store \<Rightarrow> (write_outcome \<times> audit_record \<times> audit_record list) option" where
  "audit_write x s =
    (case x of
       OpAppend w r \<Rightarrow> Some (w, r, keep_recent (au_records s @ [r]))
     | OpUpdate w r \<Rightarrow>
         if ar_RequestID r = [] then None
         else map_option (\<lambda>(us, x, vs). (w, r, us @ r # vs)) (split_latest (ar_RequestID r) (au_records s))
     | OpMutate w i f \<Rightarrow>
         if i = [] then None
         else (case split_latest i (au_records s) of
           None \<Rightarrow> None
         | Some (us, x, vs) \<Rightarrow> (case f x of Inl m \<Rightarrow> None | Inr r \<Rightarrow> Some (w, r, us @ r # vs))))"

lemma persist_records: "persist w r s = (e, s') \<Longrightarrow> au_records s' = au_records s"
  by (auto simp: persist_def split: write_outcome.splits if_splits)

lemma audit_step_write:
  "audit_step x s =
    (case audit_write x s of
       None \<Rightarrow> s
     | Some (w, r, rs) \<Rightarrow>
         (case persist w r s of (Some e, s') \<Rightarrow> s' | (None, s') \<Rightarrow> s'\<lparr>au_records := rs\<rparr>))"
proof (cases x)
  case (OpAppend w r)
  obtain e s' where p: "persist w r s = (e, s')" by (rule prod.exhaust)
  then show ?thesis using OpAppend persist_records [OF p]
    by (cases e) (simp_all add: audit_write_def Audit_Append_def)
next
  case (OpUpdate w r)
  obtain e s' where "persist w r s = (e, s')" by (rule prod.exhaust)
  then show ?thesis using OpUpdate
    by (cases "split_latest (ar_RequestID r) (au_records s)"; cases e) (auto simp: audit_write_def Audit_Update_def)
next
  case (OpMutate w i f)
  show ?thesis
  proof (cases "i = [] \<or> split_latest i (au_records s) = None")
    case True
    then show ?thesis using OpMutate by (auto simp: audit_write_def Audit_Mutate_def)
  next
    case False
    then obtain us v vs where l: "split_latest i (au_records s) = Some (us, v, vs)" by (metis option.exhaust prod_cases3)
    show ?thesis
    proof (cases "f v")
      case (Inl m)
      then show ?thesis using OpMutate l False by (simp add: audit_write_def Audit_Mutate_def)
    next
      case (Inr r)
      obtain e s' where "persist w r s = (e, s')" by (rule prod.exhaust)
      then show ?thesis using OpMutate l False Inr by (cases e) (simp_all add: audit_write_def Audit_Mutate_def)
    qed
  qed
qed

lemma audit_write_latest:
  assumes "audit_write x s = Some (w, r, rs)" "honest len x" "latest i rs = Some y" "i \<noteq> []"
  shows "if ar_RequestID r = i then y = r else latest i (au_records s) = Some y"
proof (cases x)
  case (OpAppend w' r')
  have rs: "rs = keep_recent (au_records s @ [r])"
    using assms(1) unfolding audit_write_def OpAppend audit_op.case option.inject prod.inject by blast
  have "latest i (au_records s @ [r]) = Some y" using assms(3) unfolding rs by (rule latest_keep_recent)
  then show ?thesis by (simp split: if_splits)
next
  case (OpUpdate w' r')
  then obtain us v vs where l: "split_latest (ar_RequestID r) (au_records s) = Some (us, v, vs)" "rs = us @ r # vs"
    using assms(1) by (auto simp: audit_write_def split: if_splits)
  show ?thesis using latest_replace [OF l(1) refl, of i] l(2) assms(3) by (simp split: if_splits)
next
  case (OpMutate w' j f)
  obtain us v vs where l: "split_latest j (au_records s) = Some (us, v, vs)" "f v = Inr r" "rs = us @ r # vs"
    using assms(1) OpMutate by (auto simp: audit_write_def split: if_splits option.splits sum.splits)
  have j: "ar_RequestID r = j" using assms(2) OpMutate l split_latest_Some(2) [OF l(1)] by auto
  show ?thesis using latest_replace [OF l(1) j, of i] l(3) j assms(3) by (simp split: if_splits)
qed

lemma audit_write_reported: "audit_write x s = Some (w, r, rs) \<Longrightarrow> honest len x \<Longrightarrow> faithful_write len w r"
  by (cases x) (auto simp: audit_write_def split: if_splits option.splits sum.splits)

lemma audit_write_whole: "audit_write x s = Some (w, r, rs) \<Longrightarrow> writes_lines len x \<Longrightarrow> whole_write len w r"
  by (cases x) (auto simp: audit_write_def split: if_splits option.splits sum.splits)

lemma audit_step_link:
  assumes "log_link len s" "au_path s \<noteq> []" "honest len x"
  shows "log_link len (audit_step x s)" "au_path (audit_step x s) = au_path s"
    "list_all (settled len) (au_log s) \<Longrightarrow> list_all (settled len) (au_log (audit_step x s))"
    "\<exists>cs. au_log (audit_step x s) = au_log s @ cs"
proof -
  have "log_link len (audit_step x s) \<and> au_path (audit_step x s) = au_path s
    \<and> (list_all (settled len) (au_log s) \<longrightarrow> list_all (settled len) (au_log (audit_step x s)))
    \<and> (\<exists>cs. au_log (audit_step x s) = au_log s @ cs)"
  proof (cases "audit_write x s")
    case None
    then show ?thesis using assms(1) by (simp add: audit_step_write)
  next
    case (Some t)
    obtain w r rs where t: "audit_write x s = Some (w, r, rs)" using Some by (cases t) auto
    obtain e s' where p: "persist w r s = (e, s')" by (rule prod.exhaust)
    note q = persist_reported [OF p assms(2) audit_write_reported [OF t assms(3)]]
    have ext: "\<exists>cs. au_log s' = au_log s @ cs"
      using p by (auto simp: persist_def split: write_outcome.splits if_splits)
    show ?thesis
    proof (cases e)
      case None
      have "log_link len (s'\<lparr>au_records := rs\<rparr>)"
        using assms(1) q(3) audit_write_latest [OF t assms(3)] None
        by (fastforce simp: log_link_def split: if_splits)
      then show ?thesis using None t p q ext by (simp add: audit_step_write)
    next
      case (Some a)
      have "log_link len s'" using assms(1) q(1,3) Some by (simp add: log_link_def)
      then show ?thesis using Some t p q ext by (simp add: audit_step_write)
    qed
  qed
  then show "log_link len (audit_step x s)" "au_path (audit_step x s) = au_path s"
    "list_all (settled len) (au_log s) \<Longrightarrow> list_all (settled len) (au_log (audit_step x s))"
    "\<exists>cs. au_log (audit_step x s) = au_log s @ cs" by auto
qed

lemma audit_run_link:
  assumes "log_link len s" "au_path s \<noteq> []" "list_all (honest len) ops"
  shows "log_link len (fold audit_step ops s) \<and> au_path (fold audit_step ops s) = au_path s
    \<and> (list_all (settled len) (au_log s) \<longrightarrow> list_all (settled len) (au_log (fold audit_step ops s)))
    \<and> (\<exists>cs. au_log (fold audit_step ops s) = au_log s @ cs)"
  using assms
proof (induction ops arbitrary: s)
  case (Cons op ops)
  have h: "honest len op" "list_all (honest len) ops" using Cons.prems(3) by simp_all
  note one = audit_step_link [OF Cons.prems(1,2) h(1)]
  have "au_path (audit_step op s) \<noteq> []" using one(2) Cons.prems(2) by simp
  from Cons.IH [OF one(1) this h(2)] show ?case using one by fastforce
qed simp

lemma audit_step_lines:
  assumes "list_all (line_ok len) (au_log s)" "writes_lines len x"
  shows "list_all (line_ok len) (au_log (audit_step x s))"
proof (cases "audit_write x s")
  case None
  then show ?thesis using assms(1) by (simp add: audit_step_write)
next
  case (Some t)
  obtain w r rs where t: "audit_write x s = Some (w, r, rs)" using Some by (cases t) auto
  obtain e s' where p: "persist w r s = (e, s')" by (rule prod.exhaust)
  show ?thesis
    using persist_whole [OF p audit_write_whole [OF t assms(2)] assms(1)] t p
    by (auto simp: audit_step_write split: option.split)
qed

lemma audit_run_lines:
  "list_all (line_ok len) (au_log s) \<Longrightarrow> list_all (writes_lines len) ops \<Longrightarrow>
     list_all (line_ok len) (au_log (fold audit_step ops s))"
  by (induction ops arbitrary: s) (simp_all add: audit_step_lines)

section \<open>Restart\<close>

text \<open>The file a store leaves behind.\<close>

definition audit_left :: "audit_store \<Rightarrow> audit_file" where
  "audit_left s = (if au_log s = [] then AuditMissing else AuditContent (au_log s))"

lemma restart_store:
  assumes "path \<noteq> []" "NewStore len path (audit_left s) = Inr s'"
  shows "au_records s' = fold (\<lambda>r rs. load_line rs r) (logged len (au_log s)) []" "au_log s' = au_log s" "au_path s' = path"
  using assms by (auto simp: NewStore_def audit_left_def dest: load_file_logged split: if_splits sum.splits)

lemma opened_store:
  assumes "path \<noteq> []" "NewStore len path fl = Inr s"
  shows "log_link len s" "au_path s = path"
proof -
  have "log_link len s \<and> au_path s = path"
  proof (cases fl)
    case (AuditContent chunks)
    then obtain rs where rs: "load_file len chunks [] = Inr rs" "s = \<lparr>au_path = path, au_records = rs, au_log = chunks\<rparr>"
      using assms by (auto simp: NewStore_def split: sum.splits)
    show ?thesis using load_file_logged [OF rs(1)] rs(2) by (simp add: log_link_def latest_load split: option.split)
  qed (use assms in \<open>auto simp: NewStore_def log_link_def\<close>)
  then show "log_link len s" "au_path s = path" by simp_all
qed

lemma restart_answers:
  "path \<noteq> [] \<Longrightarrow> (\<exists>s'. NewStore len path (audit_left s) = Inr s') \<longleftrightarrow> (\<exists>rs. load_file len (au_log s) [] = Inr rs)"
  by (cases "load_file len (au_log s) []") (auto simp: NewStore_def audit_left_def)

lemma restart_runs:
  assumes "path \<noteq> []" "list_all (settled len) (au_log s)"
  shows "(\<exists>s'. NewStore len path (audit_left s) = Inr s') \<longleftrightarrow> list_all (line_ok len) (au_log s)"
  unfolding restart_answers [OF assms(1)] using load_file_ok load_file_settled [OF assms(2)] by blast

text \<open>
  A record of more than 65535 bytes that went to the file, or a line that was broken off, ends this: no
  later start can open the log again, whatever else is written.
\<close>

lemma long_record_blocks_restart:
  assumes "path \<noteq> []" "au_log s = cs @ c # ds" "settled len c" "\<not> line_ok len c"
  shows "\<not> (\<exists>s'. NewStore len path (audit_left s) = Inr s')"
  unfolding restart_answers [OF assms(1)] assms(2) using load_file_blocked assms(3,4) by blast

end
