(* ===== verification/Router_Request.thy ===== *)
theory Router_Request
  imports Policy Risk Config_Load Semantic_Action Intake Detection Observer Audit_Store
begin

text \<open>
  \<open>internal/router/router.go\<close>, the functions without state: the validation of a request, the
  action it stands for, the projections of a policy decision, the receipts and verdicts.

  Go ranges over the maps of names and values of \<open>Validate\<close> in no fixed order; which of several
  errors is answered is open there, the lists here fix one.
\<close>

datatype router_error =
    RouterInvalid message
  | RouterArguments json_error
  | TrustedContextRequired
  | StructuredExecutionContextRequired
  | RouterAction action_error
  | RouterPermit permit_error
  | RouterSemantic semantic_error
  | RouterAudit audit_error

section \<open>Labels\<close>

definition safeMetadataLabel :: "string \<Rightarrow> bool" where
  "safeMetadataLabel v \<longleftrightarrow> 1 \<le> length v \<and> length v \<le> 128 \<and> list_all label_rune (runes v)"

definition safeEvidence :: "string \<Rightarrow> string" where
  "safeEvidence v = (if safeMetadataLabel v then v else ''invalid_or_redacted'')"

definition optional_label :: "string \<Rightarrow> bool" where
  "optional_label v \<longleftrightarrow> v = [] \<or> safeMetadataLabel v"

text \<open>A test over named values: the name in the error is the one of the value that fails.\<close>

definition named_check :: "(string \<Rightarrow> bool) \<Rightarrow> string \<Rightarrow> string \<times> string \<Rightarrow> router_error option" where
  "named_check ok text entry =
    (if ok (snd entry) then None else Some (RouterInvalid (Message text [FormatString (fst entry)])))"

text \<open>A test over the items of a list; the error names the index.\<close>

fun indexed_check :: "('a \<Rightarrow> bool) \<Rightarrow> string \<Rightarrow> int \<Rightarrow> 'a list \<Rightarrow> router_error option" where
  "indexed_check ok text i [] = None"
| "indexed_check ok text i (x # xs) =
    (if ok x then indexed_check ok text (i + 1) xs else Some (RouterInvalid (Message text [FormatInt i])))"

definition require :: "bool \<Rightarrow> string \<Rightarrow> router_error option" where
  "require ok text = (if ok then None else Some (RouterInvalid (plain text)))"

section \<open>Validation\<close>

definition structured_labels ::
  "principal_context \<Rightarrow> agent_identity \<Rightarrow> delegated_authority \<Rightarrow> tool_context \<Rightarrow> action_request \<Rightarrow> (string \<times> string) list" where
  "structured_labels who agent authority tool a =
    [(''principal.principal_id'', pn_PrincipalID who), (''principal.principal_type'', pn_PrincipalType who),
     (''principal.tenant'', pn_Tenant who), (''principal.environment'', pn_Environment who),
     (''agent.agent_id'', ai_AgentID agent), (''agent.workload_id'', ai_WorkloadID agent), (''agent.owner'', ai_Owner agent),
     (''agent.environment'', ai_Environment agent), (''agent.framework'', ai_Framework agent), (''agent.version'', ai_Version agent),
     (''delegated_authority.issuer'', da_Issuer authority), (''delegated_authority.subject'', da_Subject authority),
     (''tool.tool_id'', tc_ToolID tool), (''tool.name'', tc_Name tool), (''tool.provider'', tc_Provider tool),
     (''action.capability'', aq_Capability a), (''action.operation'', aq_Operation a),
     (''action.target_resource'', aq_TargetResource a), (''action.side_effect'', aq_SideEffect a)]"

definition destination_labels_ok :: "destination option \<Rightarrow> bool" where
  "destination_labels_ok d \<longleftrightarrow>
    (case d of None \<Rightarrow> True | Some d \<Rightarrow> safeMetadataLabel (ds_Kind d) \<and> optional_label (ds_TrustBoundary d))"

definition validateStructuredLabels ::
  "principal_context \<Rightarrow> agent_identity \<Rightarrow> delegated_authority \<Rightarrow> tool_context \<Rightarrow> action_request \<Rightarrow> router_error option" where
  "validateStructuredLabels who agent authority tool a =
    first_error
      [first_of (named_check optional_label ''%s must be a short metadata label'') (structured_labels who agent authority tool a),
       indexed_check safeMetadataLabel ''delegated_authority.scopes[%d] must be a short metadata label'' 0 (da_Scopes authority),
       require (list_all (\<lambda>(k, v). safeMetadataLabel k \<and> safeMetadataLabel v) (pn_Metadata who))
         ''principal.metadata must contain metadata labels only'',
       first_of (named_check (\<lambda>d. d = [] \<or> hex64_pattern d) ''tool.%s must be a 64-character hex digest'')
         [(''schema_sha256'', tc_SchemaSHA256 tool), (''expected_schema_sha256'', tc_ExpectedSchemaSHA256 tool)],
       require (\<not> aq_Bytes a < 0) ''action.bytes cannot be negative'',
       require (destination_labels_ok (aq_Destination a)) ''action.destination must use class labels, not a raw address'']"

definition nonblank :: "string \<Rightarrow> bool" where
  "nonblank v \<longleftrightarrow> trim_space v \<noteq> []"

definition validate_structured :: "request \<Rightarrow> router_error option" where
  "validate_structured req =
    (let principal = EffectivePrincipal req; agent = EffectiveAgent req; authority = EffectiveAuthority req;
         tool = EffectiveTool req; a = EffectiveAction req
     in first_error
      [first_of (named_check nonblank ''%s is required'')
         [(''principal.principal_id'', pn_PrincipalID principal), (''principal.principal_type'', pn_PrincipalType principal),
          (''agent.agent_id'', ai_AgentID agent), (''agent.workload_id'', ai_WorkloadID agent),
          (''tool.name'', tc_Name tool), (''action.capability'', aq_Capability a),
          (''action.operation'', aq_Operation a), (''action.target_resource'', aq_TargetResource a)],
       require (pn_PrincipalType principal = ''human'' \<or> pn_PrincipalType principal = ''service'')
         ''principal.principal_type must be human or service'',
       require (hex64_pattern (da_CredentialFingerprint authority))
         ''delegated_authority.credential_fingerprint must be a 64-character hex digest'',
       validateStructuredLabels principal agent authority tool a])"

definition flat_check :: "string \<times> string \<Rightarrow> router_error option" where
  "flat_check entry =
    first_error [named_check nonblank ''%s is required'' entry,
                 named_check safeMetadataLabel ''%s must be a short metadata label'' entry]"

definition validate_flat :: "request \<Rightarrow> router_error option" where
  "validate_flat req =
    first_error
      [first_of flat_check
         [(''user_id'', rq_UserID req), (''agent_id'', rq_AgentID req),
          (''requested_capability'', rq_RequestedCapability req), (''target_resource'', rq_TargetResource req)],
       indexed_check safeMetadataLabel ''token_scopes[%d] must be a short metadata label'' 0 (rq_TokenScopes req)]"

fun input_sources_check :: "int \<Rightarrow> input_source list \<Rightarrow> router_error option" where
  "input_sources_check i [] = None"
| "input_sources_check i (s # rest) =
    (if \<not> safeMetadataLabel (in_Kind s) \<or> \<not> safeMetadataLabel (in_Trust s)
     then Some (RouterInvalid (Message ''input_sources[%d] kind and trust must be metadata labels'' [FormatInt i]))
     else if \<not> optional_label (in_URIClass s)
     then Some (RouterInvalid (Message ''input_sources[%d].uri_class must be a class label, not a URL or path'' [FormatInt i]))
     else if in_ContentSHA256 s \<noteq> [] \<and> \<not> hex64_pattern (in_ContentSHA256 s)
     then Some (RouterInvalid (Message ''input_sources[%d].content_sha256 must be a 64-character hex digest'' [FormatInt i]))
     else input_sources_check (i + 1) rest)"

definition data_access_check :: "data_access option \<Rightarrow> router_error option" where
  "data_access_check d =
    (case d of
       None \<Rightarrow> None
     | Some d \<Rightarrow>
         first_error
           [require (safeMetadataLabel (dx_Operation d) \<and> optional_label (dx_PathClass d))
              ''data_access operation and path_class must be metadata labels, not raw paths'',
            require (\<not> dx_Bytes d < 0) ''data_access.bytes cannot be negative''])"

definition arguments_check :: "string \<Rightarrow> router_error option" where
  "arguments_check arguments =
    (if arguments = [] then None
     else case CanonicalizeJSON arguments of Inl e \<Rightarrow> Some (RouterArguments e) | Inr c \<Rightarrow> None)"

definition Validate :: "request \<Rightarrow> router_error option" where
  "Validate req =
    first_error
      [(if UsesStructuredContext req then validate_structured req else validate_flat req),
       require (optional_label (rq_ClaimedIntent req)) ''claimed_intent must be a short metadata label, not prompt content'',
       require (list_all safeMetadataLabel (rq_PlannedActions req)) ''planned_actions must contain metadata labels'',
       first_of (named_check optional_label ''%s must be a short metadata identifier'')
         [(''request_id'', rq_RequestID req), (''session_id'', rq_SessionID req), (''parent_event_id'', rq_ParentEventID req)],
       input_sources_check 0 (rq_InputSources req),
       data_access_check (rq_DataAccess req),
       arguments_check (aq_Arguments (EffectiveAction req))]"

definition validateRuntimeMetadata :: "runtime_event \<Rightarrow> violation option" where
  "validateRuntimeMetadata e =
    (if \<not> list_all optional_label
        [re_EventID e, re_PermitID e, re_RequestID e, re_AgentID e, re_WorkloadID e, re_Capability e, re_Tool e,
         re_Operation e, re_Resource e, re_ResourceClass e, re_DestinationClass e, re_SideEffect e]
     then Some \<lparr>av_Rule = ''runtime.metadata_invalid'',
                av_Summary = ''runtime event contains a raw or invalid metadata value'',
                av_Expected = plain ''short class labels'', av_Actual = plain ''invalid_or_sensitive_value''\<rparr>
     else if re_Bytes e < 0
     then Some \<lparr>av_Rule = ''runtime.bytes_invalid'', av_Summary = ''runtime event byte count cannot be negative'',
                av_Expected = plain ''>=0'', av_Actual = Message ''%d'' [FormatInt (re_Bytes e)]\<rparr>
     else None)"

section \<open>The action of a request\<close>

definition executionAction :: "crypto \<Rightarrow> request \<Rightarrow> action" where
  "executionAction cr req =
    (let principal = EffectivePrincipal req; agent = EffectiveAgent req; authority = EffectiveAuthority req;
         tool = EffectiveTool req; a = EffectiveAction req;
         toolName = (if tc_Name tool = [] then tc_ToolID tool else tc_Name tool);
         delegationBinding =
           (case BindDelegatedAuthorityFingerprint cr (da_CredentialFingerprint authority) of
              Inl e \<Rightarrow> da_CredentialFingerprint authority | Inr bound \<Rightarrow> bound)
     in \<lparr>ac_PrincipalID = pn_PrincipalID principal, ac_AgentID = ai_AgentID agent, ac_WorkloadID = ai_WorkloadID agent,
         ac_DelegatedAuthorityFingerprint = delegationBinding, ac_Tool = toolName, ac_Capability = aq_Capability a,
         ac_Resource = aq_TargetResource a, ac_Operation = aq_Operation a, ac_ProfileID = aq_ProfileID a,
         ac_Audience = aq_Audience a, ac_ExecutionBinding = [], ac_Arguments = aq_Arguments a\<rparr>)"

definition canonicalAction :: "crypto \<Rightarrow> request \<Rightarrow> matched_grant \<Rightarrow> action" where
  "canonicalAction cr req grant =
    (let result = executionAction cr req; a = EffectiveAction req;
         operation = (if aq_Operation a = [] then (case mg_AllowedOperations grant of [] \<Rightarrow> [] | p # ps \<Rightarrow> p) else aq_Operation a)
     in result\<lparr>ac_Tool := (if ac_Tool result = [] then mg_Tool grant else ac_Tool result),
               ac_Capability := mg_Capability grant, ac_Resource := mg_Resource grant, ac_Operation := operation\<rparr>)"

definition resolvedActionOrDefault :: "crypto \<Rightarrow> action option \<Rightarrow> request \<Rightarrow> matched_grant \<Rightarrow> action" where
  "resolvedActionOrDefault cr resolved req grant =
    (case resolved of Some a \<Rightarrow> a | None \<Rightarrow> canonicalAction cr req grant)"

definition prepareSemanticAction :: "crypto \<Rightarrow> registry option \<Rightarrow> request \<Rightarrow> semantic_error + prepared" where
  "prepareSemanticAction cr reg req =
    (let base = executionAction cr req
     in Prepare reg
          \<lparr>si_PrincipalID = ac_PrincipalID base, si_AgentID = ac_AgentID base, si_WorkloadID = ac_WorkloadID base,
           si_DelegatedAuthorityFingerprint = ac_DelegatedAuthorityFingerprint base, si_Tool = ac_Tool base,
           si_Capability = ac_Capability base, si_Resource = ac_Resource base, si_Operation = ac_Operation base,
           si_ProfileID = ac_ProfileID base, si_Audience = ac_Audience base, si_Arguments = ac_Arguments base\<rparr>)"

definition resolveAuthorizedAction ::
  "crypto \<Rightarrow> registry option \<Rightarrow> request \<Rightarrow> matched_grant \<Rightarrow> permit_class \<Rightarrow> semantic_error + (action \<times> policy_facts)" where
  "resolveAuthorizedAction cr reg req grant permitClass =
    (if permitClass \<noteq> ClassExecution
     then Inr (canonicalAction cr req grant, \<lparr>sf_SideEffect = [], sf_Bytes = 0\<rparr>)
     else case prepareSemanticAction cr reg req of
       Inl e \<Rightarrow> Inl e
     | Inr p \<Rightarrow> Inr (pe_action p, pe_policyFacts p))"

definition privacySafeRequest :: "crypto \<Rightarrow> request \<Rightarrow> request" where
  "privacySafeRequest cr req =
    req\<lparr>rq_RequestedAction := [],
        rq_Action := (rq_Action req)\<lparr>aq_Arguments := [], aq_ProfileID := [], aq_Audience := []\<rparr>,
        rq_Authority := (rq_Authority req)\<lparr>da_CredentialFingerprint :=
          (case BindDelegatedAuthorityFingerprint cr (da_CredentialFingerprint (rq_Authority req)) of
             Inl e \<Rightarrow> [] | Inr bound \<Rightarrow> bound)\<rparr>\<rparr>"

section \<open>Projections of a decision\<close>

definition policyObligations :: "policy_decision \<Rightarrow> obligations" where
  "policyObligations d =
    (let c = (case pd_Grant d of None \<Rightarrow> zero_constraints | Some g \<Rightarrow> mg_Constraints g)
     in \<lparr>ob_IsolationRequired = (pd_Route d = RouteSandbox),
         ob_NetworkEgressDenied = (co_NetworkEgress c \<noteq> ''allow''),
         ob_ReadOnly = (co_WriteAccess c \<noteq> ''allow''),
         ob_HumanApprovalRequired = (pd_Status d = StatusRequiresApproval),
         ob_EnhancedAuditRequired = (pd_Route d = RouteRestrict \<or> pd_Route d = RouteSandbox)\<rparr>)"

definition make_dispatch :: "route \<Rightarrow> string \<Rightarrow> string \<Rightarrow> message list \<Rightarrow> string list \<Rightarrow> dispatch_decision" where
  "make_dispatch r profile isolation reasons rules =
    \<lparr>dd_Route = r, dd_Reasons = reasons, dd_Rules = rules, dd_ExecutorProfile = profile,
     dd_IsolationBackend = isolation, dd_ExecutorInvoked = False, dd_LegacyCompatibilityOnly = True\<rparr>"

fun routeProfile :: "route \<Rightarrow> string \<times> string" where
  "routeProfile RouteAllow = (''standard-route'', ''not_applicable'')"
| "routeProfile RouteRestrict = (''restricted-route'', ''policy_constraints_only'')"
| "routeProfile RouteSandbox = (''isolation-required'', ''obligation_only_not_provided'')"
| "routeProfile RouteEscalate = (''approval-queue'', ''not_applicable'')"
| "routeProfile r = (''none'', ''not_applicable'')"

definition compatibilityDispatchFor :: "policy_decision \<Rightarrow> dispatch_decision" where
  "compatibilityDispatchFor d =
    (if \<not> pd_Authorized d \<or> pd_Route d = RouteDeny
     then make_dispatch RouteDeny ''none'' ''not_applicable'' (pd_Reasons d) (pd_Rules d)
     else
       let r = (if pd_Route d = RouteNone then RouteAllow else pd_Route d);
           (profile, isolation) = routeProfile r
       in make_dispatch r profile isolation
            (pd_Reasons d @ [plain ''legacy dispatch projection only; deterministic policy status controls Permit issuance''])
            (pd_Rules d))"

definition authorizationVerdict :: "auth_status \<Rightarrow> string" where
  "authorizationVerdict s =
    (case s of StatusDenied \<Rightarrow> ''BLOCKED_BEFORE_EXECUTION'' | StatusRequiresApproval \<Rightarrow> ''APPROVAL_REQUIRED''
     | StatusAuthorized \<Rightarrow> ''AUTHORIZED'')"

definition action_mismatches :: "outcome list" where
  "action_mismatches =
    [OutcomeActionMismatch, OutcomeWrongPrincipal, OutcomeWrongAgent, OutcomeWrongWorkload, OutcomeWrongDelegation,
     OutcomeWrongTool, OutcomeWrongCapability, OutcomeWrongResource, OutcomeWrongOperation, OutcomeWrongProfile,
     OutcomeWrongAudience, OutcomeWrongExecutionBinding]"

definition permitVerdict :: "outcome \<Rightarrow> string" where
  "permitVerdict out =
    (if out = OutcomeVerified then ''PERMIT_VERIFIED''
     else if out \<in> set action_mismatches then ''PERMIT_ACTION_MISMATCH''
     else if out = OutcomeExpired then ''PERMIT_EXPIRED''
     else if out = OutcomeReplayed then ''PERMIT_REPLAY''
     else if out = OutcomeRevoked then ''PERMIT_REVOKED''
     else if out = OutcomeInvalidSignature then ''PERMIT_INVALID_SIGNATURE''
     else if out = OutcomeWrongPermitClass then ''PERMIT_CLASS_MISMATCH''
     else if out = OutcomeWrongExecutor then ''PERMIT_WRONG_EXECUTOR''
     else if out = OutcomeUnsatisfiedObligation then ''EXECUTION_OBLIGATION_UNSATISFIED''
     else ''PERMIT_REJECTED'')"

definition verificationOutcomePriority :: "outcome option \<Rightarrow> nat" where
  "verificationOutcomePriority out =
    (case out of None \<Rightarrow> 0 | Some x \<Rightarrow> if x = OutcomeVerified then 1 else 2)"

definition elapsedMilliseconds :: "time \<Rightarrow> time \<Rightarrow> int" where
  "elapsedMilliseconds start finish = (if finish < start then 0 else dur_milliseconds (time_sub finish start))"

definition coverageFor :: "runtime_event \<Rightarrow> string" where
  "coverageFor e =
    (case re_Source e of
       SourceGatewayEnforced \<Rightarrow> ''gateway_enforced''
     | SourceInstrumentedAdapter \<Rightarrow> ''adapter_reported''
     | SourceAgentSelfReported \<Rightarrow> ''self_reported''
     | SourceOSSensor \<Rightarrow> ''os_sensor''
     | SourceNetworkSensor \<Rightarrow> ''network_sensor''
     | SourceSimulatedDemo \<Rightarrow> ''simulated_demo''
     | SourceOther s \<Rightarrow> ''unknown'')"

definition RuntimeCoverage :: runtime_coverage where
  "RuntimeCoverage =
    \<lparr>rc_GatewayRequests = ''instrumented'', rc_ToolEvents = ''not_reported'', rc_Filesystem = ''not_instrumented'',
     rc_Network = ''not_instrumented'', rc_OSSyscalls = ''not_instrumented'', rc_IsolationBackend = ''not_connected''\<rparr>"

definition rejectedEvaluation :: "runtime_event \<Rightarrow> violation \<Rightarrow> runtime_evaluation" where
  "rejectedEvaluation e item =
    \<lparr>rv_EventID = re_EventID e, rv_PermitID = re_PermitID e, rv_Accepted = False, rv_WithinEnvelope = False,
     rv_Terminated = True, rv_Verdict = ''RUNTIME_EVENT_REJECTED'', rv_Violations = [item]\<rparr>"

definition mergeAdvisoryRisk :: "risk_assessment \<Rightarrow> detection_result \<Rightarrow> risk_assessment" where
  "mergeAdvisoryRisk a d =
    (let a1 = (if dt_RiskDelta d > 0
               then let score = ra_Score a + dt_RiskDelta d; score = (if score > 100 then 100 else score)
                    in a\<lparr>ra_Signals := (if ra_Signals a = [''no elevated risk signals''] then [] else ra_Signals a),
                         ra_Score := score, ra_Level := riskLevel score\<rparr>
               else a)
     in a1\<lparr>ra_AdvisoryOnly := True, ra_Signals := ra_Signals a1 @ map fi_Summary (dt_Findings d)\<rparr>)"

text \<open>\<open>newIdentifier\<close>: twelve random bytes, or the nanoseconds of the clock when there is no randomness.\<close>

datatype entropy = RandomBytes string | NoRandom int

definition newIdentifier :: "string \<Rightarrow> entropy \<Rightarrow> string" where
  "newIdentifier prefix e =
    prefix @ ''-'' @ (case e of RandomBytes bytes \<Rightarrow> hex_encode bytes | NoRandom nanos \<Rightarrow> show_int nanos)"

section \<open>Envelopes and receipts\<close>

definition envelopeFor :: "issued_permit \<Rightarrow> string \<Rightarrow> constraints \<Rightarrow> route \<Rightarrow> authorization_envelope" where
  "envelopeFor issued sessionID c r =
    (let cl = ip_Claims issued
     in \<lparr>en_AuthorityEpoch = cl_AuthorityEpoch cl, en_ExecutionBinding = cl_ExecutionBinding cl,
         en_PermitID = cl_PermitID cl, en_SigningKeyID = cl_SigningKeyID cl, en_PermitClass = cl_PermitClass cl,
         en_ProfileID = cl_ProfileID cl, en_Audience = cl_Audience cl, en_RequestID = cl_RequestID cl,
         en_SessionID = sessionID, en_PrincipalID = cl_PrincipalID cl, en_AgentID = cl_AgentID cl,
         en_WorkloadID = cl_WorkloadID cl, en_ExecutorKeyID = cl_ExecutorKeyID cl,
         en_ExecutorKeyThumbprint = cl_ExecutorKeyThumbprint cl,
         en_DelegatedCredentialFingerprint = cl_DelegatedAuthorityFingerprint cl,
         en_AllowedCapability = cl_Capability cl, en_AllowedTool = cl_Tool cl, en_AllowedResource = cl_Resource cl,
         en_AllowedOperation = cl_Operation cl, en_AllowedOperations = [cl_Operation cl],
         en_ActionDigest = cl_ActionDigest cl, en_PolicyVersion = cl_PolicyVersion cl, en_Issuer = cl_Issuer cl,
         en_SingleUse = cl_SingleUse cl, en_State = StateIssued, en_Obligations = cl_Obligations cl, en_Constraints = c,
         en_IssuedAt = IssuedTime cl, en_ExpiresAt = ExpiresTime cl, en_Route = r\<rparr>)"

definition credentialFor :: "issued_permit \<Rightarrow> permit_credential" where
  "credentialFor issued =
    (let cl = ip_Claims issued
     in \<lparr>pk_AuthorityEpoch = cl_AuthorityEpoch cl, pk_ExecutionBinding = cl_ExecutionBinding cl,
         pk_PermitID = ip_PermitID issued, pk_SigningKeyID = cl_SigningKeyID cl, pk_PermitClass = cl_PermitClass cl,
         pk_ProfileID = cl_ProfileID cl, pk_Audience = cl_Audience cl, pk_PermitToken = IssuedPermit_Token issued,
         pk_IssuedAt = IssuedTime cl, pk_ExpiresAt = ExpiresTime cl, pk_SingleUse = cl_SingleUse cl\<rparr>)"

definition authorizationReceipt ::
  "string \<Rightarrow> request \<Rightarrow> auth_status \<Rightarrow> authorization_envelope option \<Rightarrow> string \<Rightarrow> string \<Rightarrow> time \<Rightarrow> execution_receipt" where
  "authorizationReceipt decisionID req status envelope digest policyVersion when =
    (let agent = EffectiveAgent req; a = EffectiveAction req;
         base = \<lparr>rt_AuthorityEpoch = 0, rt_ExecutionBinding = [], rt_RequestID = rq_RequestID req, rt_DecisionID = decisionID,
           rt_PermitID = [], rt_PermitClass = None, rt_ProfileID = [], rt_Audience = [],
           rt_PrincipalID = pn_PrincipalID (EffectivePrincipal req), rt_AgentID = ai_AgentID agent,
           rt_WorkloadID = ai_WorkloadID agent, rt_Tool = tc_Name (EffectiveTool req), rt_Capability = aq_Capability a,
           rt_Resource = aq_TargetResource a, rt_Operation = aq_Operation a, rt_ActionDigest = digest,
           rt_PolicyVersion = policyVersion, rt_AuthorizationDecision = status, rt_PermitState = StateEmpty,
           rt_VerificationOutcome = None, rt_ConstraintChecks = [], rt_UpstreamAttempted = False, rt_ExecutionOutcome = [],
           rt_Timestamp = when, rt_EvidenceSource = SourceGatewayEnforced\<rparr>
     in case envelope of
          None \<Rightarrow> base
        | Some e \<Rightarrow>
            base\<lparr>rt_PermitID := en_PermitID e, rt_PermitState := en_State e, rt_PermitClass := Some (en_PermitClass e),
                 rt_ProfileID := en_ProfileID e, rt_Audience := en_Audience e, rt_ExecutionBinding := en_ExecutionBinding e,
                 rt_AuthorityEpoch := en_AuthorityEpoch e, rt_Tool := en_AllowedTool e,
                 rt_Capability := en_AllowedCapability e, rt_Resource := en_AllowedResource e,
                 rt_Operation := en_AllowedOperation e\<rparr>)"

definition permitVerification :: "verify_result \<Rightarrow> runtime_source \<Rightarrow> permit_verification" where
  "permitVerification result source =
    (let base = \<lparr>pv_AuthorityEpoch = 0, pv_ExecutionBinding = [], pv_PermitID = vr_PermitID result,
           pv_RequestID = vr_RequestID result, pv_PermitClass = None, pv_ProfileID = [], pv_Audience = [],
           pv_Outcome = vr_Outcome result, pv_Verified = Result_Allowed result, pv_State = vr_State result,
           pv_Obligations = no_obligations, pv_ConstraintChecks = vr_ConstraintChecks result,
           pv_VerifiedAt = vr_VerifiedAt result, pv_EvidenceSource = source_text source\<rparr>
     in case vr_Claims result of
          None \<Rightarrow> base
        | Some c \<Rightarrow>
            base\<lparr>pv_PermitClass := Some (cl_PermitClass c), pv_ProfileID := cl_ProfileID c, pv_Audience := cl_Audience c,
                 pv_ExecutionBinding := cl_ExecutionBinding c, pv_AuthorityEpoch := cl_AuthorityEpoch c,
                 pv_Obligations := cl_Obligations c\<rparr>)"

end
