(* ===== verification/Router.thy ===== *)
theory Router
  imports Router_Request
begin

text \<open>
  \<open>internal/router/router.go\<close>: the control plane. A router is its configuration and a state: the
  permit store and the nonces (shared with its verifier), the envelopes of the permits it issued,
  the audit store and the detection engine. A call takes the readings of the clock, the random
  bytes and the outcomes of the writes to the audit file it meets as arguments.
\<close>

record router =
  ro_policy :: policy_config
  ro_risk :: "policy_config option"
  ro_permitTTL :: duration
  ro_policyVersion :: string
  ro_issuer :: issuer
  ro_registry :: "registry option"

record router_state =
  rw_verifier :: verifier
  rw_guard :: guard_state
  rw_permits :: "(string, authorization_envelope) gomap"
  rw_audit :: audit_store
  rw_detection :: "detection_engine option"

abbreviation rw_store :: "router_state \<Rightarrow> memory_store" where
  "rw_store st \<equiv> gs_store (rw_guard st)"

definition set_store :: "memory_store \<Rightarrow> router_state \<Rightarrow> router_state" where
  "set_store s st = st\<lparr>rw_guard := (rw_guard st)\<lparr>gs_store := s\<rparr>\<rparr>"

text \<open>\<open>NewWithClockAndKeyProvider\<close>; a panic is an error here.\<close>

definition configured_ttl :: "policy_config \<Rightarrow> duration" where
  "configured_ttl cfg =
    (let ttl = wrap64 (pp_TTLSeconds (cf_Permits cfg) * second);
         ttl = (if ttl \<le> 0 then DefaultTTL else ttl)
     in if ttl > MaxTTL then MaxTTL else ttl)"

definition NewRouter ::
  "go_library \<Rightarrow> crypto \<Rightarrow> policy_config \<Rightarrow> audit_store \<Rightarrow> signing_key option \<Rightarrow> router_error + (router \<times> router_state)" where
  "NewRouter lib cr cfg store provider =
    (let issuerName = (if trim_space (pp_Issuer (cf_Permits cfg)) = [] then ''aegis-router'' else trim_space (pp_Issuer (cf_Permits cfg)));
         policyVersion = (if trim_space (cf_Version cfg) = [] then ''policy-v1'' else trim_space (cf_Version cfg))
     in if provider = None then Inl (RouterInvalid (plain ''initialize execution-permit signing key: key provider is required''))
        else case NewIssuer issuerName provider True of
          Inl e \<Rightarrow> Inl (RouterPermit e)
        | Inr i \<Rightarrow>
            (case NewVerifier provider issuerName (Some NewMemoryStore) of
               Inl (ErrInvalidConfiguration m) \<Rightarrow> Inl (RouterInvalid (plain m))
             | Inr (v, g) \<Rightarrow>
                 (case NewRegistryFromConfig lib cr (cf_SemanticActions cfg) of
                    Inl e \<Rightarrow> Inl (RouterSemantic e)
                  | Inr reg \<Rightarrow>
                      Inr (\<lparr>ro_policy = cfg, ro_risk = Some cfg, ro_permitTTL = configured_ttl cfg,
                            ro_policyVersion = policyVersion, ro_issuer = i, ro_registry = Some reg\<rparr>,
                           \<lparr>rw_verifier = v, rw_guard = g, rw_permits = [], rw_audit = store,
                            rw_detection = Some (NewDetection (cf_SessionControls cfg))\<rparr>))))"

section \<open>The decision\<close>

text \<open>What a call of \<open>authorizeResolvedAction\<close> reads from outside, in its order.\<close>

record authorize_inputs =
  xi_started :: time
  xi_request_id :: entropy
  xi_policy_now :: time
  xi_decision_id :: entropy
  xi_recheck_now :: time
  xi_permit_random :: string
  xi_issue_now :: time
  xi_finished :: time
  xi_write :: write_outcome
  xi_revoke_now :: time

definition request_authority_key :: "request \<Rightarrow> authority_key" where
  "request_authority_key req =
    \<lparr>ak_PrincipalID = pn_PrincipalID (EffectivePrincipal req), ak_AgentID = ai_AgentID (EffectiveAgent req),
     ak_WorkloadID = ai_WorkloadID (EffectiveAgent req)\<rparr>"

definition captured_authority :: "memory_store \<Rightarrow> request \<Rightarrow> permit_class \<Rightarrow> authority_state" where
  "captured_authority s req permitClass =
    (if permitClass = ClassExecution then MemoryStore_Authority s (request_authority_key req) else zero_authority)"

definition with_authority :: "permit_class \<Rightarrow> authority_state \<Rightarrow> policy_decision \<Rightarrow> policy_decision" where
  "with_authority permitClass authority d =
    (if permitClass = ClassExecution \<and> \<not> as_Enabled authority
     then d\<lparr>pd_Authorized := False, pd_Status := StatusDenied, pd_Route := RouteDeny, pd_Grant := None,
            pd_Reasons := pd_Reasons d @ [plain ''AUTHORITY_REVOKED''], pd_Rules := pd_Rules d @ [''authority.disabled'']\<rparr>
     else d)"

text \<open>The grant under which a permit is issued.\<close>

definition granted :: "policy_decision \<Rightarrow> matched_grant option" where
  "granted d = (if pd_Status d = StatusAuthorized \<and> pd_Authorized d then pd_Grant d else None)"

text \<open>The request of the second policy check: the operation that was prepared.\<close>

definition checked_request :: "request \<Rightarrow> action \<Rightarrow> policy_facts \<Rightarrow> request" where
  "checked_request req candidate facts =
    (let a = EffectiveAction req
     in req\<lparr>rq_Action := a\<lparr>aq_Arguments := ac_Arguments candidate, aq_SideEffect := sf_SideEffect facts,
                           aq_Bytes := max (aq_Bytes a) (sf_Bytes facts)\<rparr>\<rparr>)"

definition semantic_denial :: "semantic_error \<Rightarrow> policy_decision \<Rightarrow> policy_decision" where
  "semantic_denial e d =
    (let code = rejection_code e
     in d\<lparr>pd_Authorized := False, pd_Status := StatusDenied, pd_Route := RouteDeny,
          pd_Reasons := pd_Reasons d @ [plain code],
          pd_Rules := pd_Rules d @ [''semantic_action.'' @ to_lower code], pd_Grant := None\<rparr>)"

text \<open>Policy, authority and semantic resolution: the decision, its obligations, the resolved action.\<close>

definition decide ::
  "crypto \<Rightarrow> router \<Rightarrow> authority_state \<Rightarrow> request \<Rightarrow> permit_class \<Rightarrow> time \<Rightarrow> time
    \<Rightarrow> policy_decision \<times> obligations \<times> action option" where
  "decide cr r authority req permitClass now recheck =
    (let d = with_authority permitClass authority (Policy_Evaluate (ro_policy r) req now)
     in case granted d of
          None \<Rightarrow> (d, policyObligations d, None)
        | Some grant \<Rightarrow>
            (case resolveAuthorizedAction cr (ro_registry r) req grant permitClass of
               Inl e \<Rightarrow> (semantic_denial e d, no_obligations, None)
             | Inr (candidate, facts) \<Rightarrow>
                 if permitClass = ClassExecution
                 then let d' = Policy_Evaluate (ro_policy r) (checked_request req candidate facts) recheck
                      in (d', policyObligations d', Some candidate)
                 else (d, policyObligations d, Some candidate)))"

definition decision_digest :: "crypto \<Rightarrow> request \<Rightarrow> policy_decision \<Rightarrow> action option \<Rightarrow> action_error + string" where
  "decision_digest cr req d resolved =
    (case pd_Grant d of
       None \<Rightarrow> Inr []
     | Some grant \<Rightarrow> action_Digest cr (resolvedActionOrDefault cr resolved req grant))"

section \<open>The permit\<close>

text \<open>
  The lifetime: the configured one, cut by the override, the grant's duration (converted with the
  64-bit product of the code) and the time the delegation still has, in whole seconds.
\<close>

definition permit_lifetime :: "duration \<Rightarrow> duration \<Rightarrow> constraints \<Rightarrow> time option \<Rightarrow> time \<Rightarrow> duration" where
  "permit_lifetime permitTTL ttlOverride c expires issuedAt =
    (let ttl = (if ttlOverride > 0 \<and> ttlOverride < permitTTL then ttlOverride else permitTTL);
         maximum = wrap64 (co_MaxDurationMS c * millisecond);
         ttl = (if co_MaxDurationMS c > 0 \<and> maximum < ttl then maximum else ttl);
         ttl = (case expires of None \<Rightarrow> ttl
                | Some t \<Rightarrow> if time_sub t issuedAt < ttl then time_sub t issuedAt else ttl)
     in dur_truncate_second ttl)"

definition permit_request ::
  "router \<Rightarrow> request \<Rightarrow> obligations \<Rightarrow> action \<Rightarrow> string \<Rightarrow> workload_binding \<Rightarrow> permit_class \<Rightarrow> duration \<Rightarrow> uint64 \<Rightarrow> issue_request" where
  "permit_request r req obligations a digest binding permitClass ttl epoch =
    \<lparr>ir_PermitID = [], ir_PermitClass = permitClass, ir_RequestID = rq_RequestID req,
     ir_PrincipalID = ac_PrincipalID a, ir_AgentID = ac_AgentID a, ir_WorkloadID = ac_WorkloadID a,
     ir_ExecutorKeyID = wb_KeyID binding, ir_ExecutorKeyThumbprint = wb_PublicKeyThumbprint binding,
     ir_DelegatedAuthorityFingerprint = ac_DelegatedAuthorityFingerprint a, ir_Tool = ac_Tool a,
     ir_Capability = ac_Capability a, ir_Resource = ac_Resource a, ir_Operation = ac_Operation a,
     ir_ProfileID = ac_ProfileID a, ir_Audience = ac_Audience a, ir_ActionDigest = digest,
     ir_ExecutionBinding = ac_ExecutionBinding a, ir_AuthorityEpoch = epoch, ir_PolicyVersion = ro_policyVersion r,
     ir_Obligations = obligations, ir_TTL = ttl\<rparr>"

definition issuePermit ::
  "crypto \<Rightarrow> router \<Rightarrow> memory_store \<Rightarrow> request \<Rightarrow> matched_grant \<Rightarrow> obligations \<Rightarrow> action \<Rightarrow> string \<Rightarrow> time
    \<Rightarrow> workload_binding \<Rightarrow> permit_class \<Rightarrow> duration \<Rightarrow> uint64 \<Rightarrow> string \<Rightarrow> time
    \<Rightarrow> (router_error + issued_permit) \<times> memory_store" where
  "issuePermit cr r s req grant obligations a digest issuedAt binding permitClass ttlOverride epoch random now =
    (let ttl = permit_lifetime (ro_permitTTL r) ttlOverride (mg_Constraints grant) (da_ExpiresAt (EffectiveAuthority req)) issuedAt
     in if ttl < second
        then (Inl (RouterInvalid (plain ''execution permit lifetime is shorter than one second'')), s)
        else case Issuer_Issue cr (ro_issuer r) (permit_request r req obligations a digest binding permitClass ttl epoch) random now s of
          (Inl e, s') \<Rightarrow> (Inl (RouterPermit e), s')
        | (Inr issued, s') \<Rightarrow> (Inr issued, s'))"

section \<open>Advisory signals and the record\<close>

definition unevaluated_risk :: "string \<Rightarrow> risk_assessment" where
  "unevaluated_risk signal = \<lparr>ra_Score = 0, ra_Level = ''not_evaluated'', ra_Signals = [signal], ra_AdvisoryOnly = True\<rparr>"

definition evaluateAdvisorySignals ::
  "router \<Rightarrow> detection_engine option \<Rightarrow> request \<Rightarrow> advisory_signals \<times> detection_engine option" where
  "evaluateAdvisorySignals r detection req =
    (let signals = (\<lambda>risk findings context.
           \<lparr>ad_RiskAssessment = risk, ad_DetectionFindings = findings, ad_CausalContext = context\<rparr>)
     in case ro_risk r of
          None \<Rightarrow> (signals (unevaluated_risk ''advisory risk analysis is disabled'') [] zero_causal_context, detection)
        | Some cfg \<Rightarrow>
            let assessment = (Assess cfg req)\<lparr>ra_AdvisoryOnly := True\<rparr>
            in (case detection of
                  None \<Rightarrow> (signals assessment [] zero_causal_context, None)
                | Some e \<Rightarrow>
                    let (detected, e') = Detection_Evaluate e req (ra_Score assessment)
                    in (signals (mergeAdvisoryRisk assessment detected) (dt_Findings detected) (dt_Context detected), Some e')))"

definition initial_observation :: "string list \<Rightarrow> runtime_observation" where
  "initial_observation planned =
    \<lparr>bs_Events = [], bs_EventEvaluations = [], bs_AuthorizationViolations = [], bs_Coverage = RuntimeCoverage,
     bs_PlannedActions = planned, bs_ActualActions = [], bs_UnexpectedActions = [], bs_SuspiciousActions = [],
     bs_DriftDetected = False\<rparr>"

definition decision_record ::
  "crypto \<Rightarrow> router \<Rightarrow> request \<Rightarrow> provenance \<Rightarrow> policy_decision \<Rightarrow> obligations \<Rightarrow> string \<Rightarrow> authorization_envelope option
    \<Rightarrow> advisory_signals \<Rightarrow> authorize_inputs \<Rightarrow> audit_record" where
  "decision_record cr r req prov d obligations digest envelope advisory x =
    (let decisionID = newIdentifier ''decision'' (xi_decision_id x); dispatch = compatibilityDispatchFor d
     in \<lparr>ar_RequestID = rq_RequestID req, ar_DecisionID = decisionID, ar_AuthorizationStatus = pd_Status d,
         ar_CreatedAt = xi_started x, ar_CompletedAt = None, ar_AuthorizationContext = Some prov,
         ar_Request = privacySafeRequest cr req, ar_PolicyDecision = d, ar_Obligations = obligations,
         ar_AuthorizationEnvelope = envelope,
         ar_ExecutionReceipt =
           Some (authorizationReceipt decisionID req (pd_Status d) envelope digest (ro_policyVersion r) (xi_started x)),
         ar_RuntimeObservation = initial_observation (rq_PlannedActions req), ar_SecurityFindings = [],
         ar_AdvisorySignals = advisory, ar_RiskAssessment = ad_RiskAssessment advisory, ar_DispatchDecision = dispatch,
         ar_SelectedExecutor = dd_ExecutorProfile dispatch, ar_CausalContext = ad_CausalContext advisory,
         ar_FinalVerdict = authorizationVerdict (pd_Status d),
         ar_DurationMS = elapsedMilliseconds (xi_started x) (xi_finished x)\<rparr>)"

text \<open>The end of the call: advisory signals, the audit record, and the withdrawal of the permit when it cannot be recorded.\<close>

definition withdraw_permit :: "issued_permit option \<Rightarrow> time \<Rightarrow> router_state \<Rightarrow> router_state" where
  "withdraw_permit issued now st =
    (case issued of
       None \<Rightarrow> st
     | Some p \<Rightarrow>
         let permitID = cl_PermitID (ip_Claims p); (rec, e, s') = MemoryStore_Revoke (rw_store st) permitID now
         in (set_store s' st)\<lparr>rw_permits := mdel permitID (rw_permits st)\<rparr>)"

text \<open>The envelope of an issued permit, and the envelopes with it.\<close>

definition kept_envelope :: "request \<Rightarrow> policy_decision \<Rightarrow> issued_permit option \<Rightarrow> authorization_envelope option" where
  "kept_envelope req d issued =
    (case issued of
       None \<Rightarrow> None
     | Some p \<Rightarrow>
         map_option (\<lambda>grant. envelopeFor p (rq_SessionID req) (mg_Constraints grant) (dd_Route (compatibilityDispatchFor d)))
           (pd_Grant d))"

definition kept_permits :: "authorization_envelope option \<Rightarrow> router_state \<Rightarrow> (string, authorization_envelope) gomap" where
  "kept_permits envelope st =
    (case envelope of None \<Rightarrow> rw_permits st | Some e \<Rightarrow> mput (en_PermitID e) e (rw_permits st))"

definition record_decision ::
  "crypto \<Rightarrow> router \<Rightarrow> router_state \<Rightarrow> request \<Rightarrow> provenance \<Rightarrow> policy_decision \<Rightarrow> obligations \<Rightarrow> string
    \<Rightarrow> issued_permit option \<Rightarrow> authorize_inputs \<Rightarrow> (router_error + authorization_response) \<times> router_state" where
  "record_decision cr r st req prov d obligations digest issued x =
    (let envelope = kept_envelope req d issued;
         st1 = st\<lparr>rw_permits := kept_permits envelope st\<rparr>;
         (advisory, detection') = evaluateAdvisorySignals r (rw_detection st1) req;
         record = decision_record cr r req prov d obligations digest envelope advisory x;
         (failed, audit') = Audit_Append (xi_write x) record (rw_audit st1);
         st2 = st1\<lparr>rw_detection := detection', rw_audit := audit'\<rparr>
     in case failed of
          Some e \<Rightarrow> (Inl (RouterAudit e), withdraw_permit issued (xi_revoke_now x) st2)
        | None \<Rightarrow> (Inr \<lparr>aa_Decision = record, aa_Permit = map_option credentialFor issued\<rparr>, st2))"

section \<open>Authorization\<close>

definition identified :: "request \<Rightarrow> entropy \<Rightarrow> request" where
  "identified req e = (if rq_RequestID req = [] then req\<lparr>rq_RequestID := newIdentifier ''req'' e\<rparr> else req)"

definition authorizeResolvedAction ::
  "crypto \<Rightarrow> router \<Rightarrow> router_state \<Rightarrow> request \<Rightarrow> provenance \<Rightarrow> workload_binding \<Rightarrow> permit_class \<Rightarrow> duration
    \<Rightarrow> authorize_inputs \<Rightarrow> (router_error + authorization_response) \<times> router_state" where
  "authorizeResolvedAction cr r st req prov binding permitClass ttlOverride x =
    (case Validate req of
       Some e \<Rightarrow> (Inl e, st)
     | None \<Rightarrow>
         let prov' = (if vn_EstablishedAt prov = zero_time then prov\<lparr>vn_EstablishedAt := xi_started x\<rparr> else prov);
             req' = identified req (xi_request_id x);
             authority = captured_authority (rw_store st) req' permitClass;
             (d, obligations, resolved) = decide cr r authority req' permitClass (xi_policy_now x) (xi_recheck_now x)
         in case decision_digest cr req' d resolved of
              Inl e \<Rightarrow> (Inl (RouterAction e), st)
            | Inr digest \<Rightarrow>
                (case granted d of
                   None \<Rightarrow> record_decision cr r st req' prov' d obligations digest None x
                 | Some grant \<Rightarrow>
                     (case issuePermit cr r (rw_store st) req' grant obligations (resolvedActionOrDefault cr resolved req' grant)
                         digest (xi_started x) binding permitClass ttlOverride (as_Epoch authority)
                         (xi_permit_random x) (xi_issue_now x) of
                        (Inl e, s') \<Rightarrow> (Inl e, set_store s' st)
                      | (Inr issued, s') \<Rightarrow>
                          record_decision cr r (set_store s' st) req' prov' d obligations digest (Some issued) x)))"

definition AuthorizeTrustedAction ::
  "crypto \<Rightarrow> router \<Rightarrow> router_state \<Rightarrow> authorization \<Rightarrow> authorize_inputs \<Rightarrow> (router_error + authorization_response) \<times> router_state" where
  "AuthorizeTrustedAction cr r st authorization x =
    (if \<not> az_resolved authorization then (Inl TrustedContextRequired, st)
     else if \<not> UsesStructuredContext (az_request authorization) then (Inl StructuredExecutionContextRequired, st)
     else authorizeResolvedAction cr r st (az_request authorization) (az_provenance authorization)
            (az_workloadBinding authorization) ClassExecution 0 x)"

definition AuthorizeSyntheticDemoAction ::
  "crypto \<Rightarrow> router \<Rightarrow> router_state \<Rightarrow> request \<Rightarrow> duration \<Rightarrow> authorize_inputs \<Rightarrow> (router_error + authorization_response) \<times> router_state" where
  "AuthorizeSyntheticDemoAction cr r st req ttl x =
    authorizeResolvedAction cr r st req
      \<lparr>vn_Source = ''server_owned_fixture'', vn_ProviderID = ''aegis-demo-lab'', vn_Assurance = ''simulated_demo'',
       vn_EstablishedAt = zero_time\<rparr>
      \<lparr>wb_KeyID = [], wb_PublicKeyThumbprint = []\<rparr> ClassSimulation ttl x"

end
