(* ===== verification/Router_Lifecycle.thy ===== *)
theory Router_Lifecycle
  imports Router
begin

text \<open>
  \<open>internal/router/router.go\<close>, after a permit was issued: verification, revocation, runtime events
  and completion, each with the audit record it updates.
\<close>

definition put_audit :: "audit_store \<Rightarrow> router_state \<Rightarrow> router_state" where
  "put_audit s st = st\<lparr>rw_audit := s\<rparr>"

text \<open>A call of \<open>Mutate\<close> whose record is not used: the error, if there is one.\<close>

definition mutate_audit :: "write_outcome \<Rightarrow> string \<Rightarrow> (audit_record \<Rightarrow> audit_record) \<Rightarrow> router_state \<Rightarrow> router_error option \<times> router_state" where
  "mutate_audit w requestID f st =
    (case Audit_Mutate w requestID (\<lambda>r. Inr (f r)) (rw_audit st) of
       (Inl e, s') \<Rightarrow> (Some (RouterAudit e), put_audit s' st)
     | (Inr r, s') \<Rightarrow> (None, put_audit s' st))"

section \<open>Verification\<close>

definition RegisterWorkload :: "router_state \<Rightarrow> string \<Rightarrow> string \<Rightarrow> proof_error option \<times> router_state" where
  "RegisterWorkload st keyID publicKey =
    (let (e, v) = RegisterWorkloadPublicKey (rw_verifier st) keyID publicKey in (e, st\<lparr>rw_verifier := v\<rparr>))"

definition verification_record :: "verify_result \<Rightarrow> runtime_source \<Rightarrow> string \<Rightarrow> string \<Rightarrow> audit_record" where
  "verification_record result source attemptID decisionID =
    (let risk = unevaluated_risk ''verification failed before trusted claims were available''
     in \<lparr>ar_RequestID = attemptID, ar_DecisionID = decisionID, ar_AuthorizationStatus = StatusDenied,
         ar_CreatedAt = vr_VerifiedAt result, ar_CompletedAt = None, ar_AuthorizationContext = None,
         ar_Request = zero_request,
         ar_PolicyDecision = deny ''permit.untrusted_credential''
           (plain ''the execution credential could not be authenticated; token claims were not trusted''),
         ar_Obligations = no_obligations, ar_AuthorizationEnvelope = None,
         ar_ExecutionReceipt = Some
           \<lparr>rt_AuthorityEpoch = 0, rt_ExecutionBinding = [], rt_RequestID = attemptID, rt_DecisionID = decisionID,
            rt_PermitID = [], rt_PermitClass = None, rt_ProfileID = [], rt_Audience = [], rt_PrincipalID = [],
            rt_AgentID = [], rt_WorkloadID = [], rt_Tool = [], rt_Capability = [], rt_Resource = [], rt_Operation = [],
            rt_ActionDigest = [], rt_PolicyVersion = [], rt_AuthorizationDecision = StatusDenied,
            rt_PermitState = StateEmpty, rt_VerificationOutcome = Some (vr_Outcome result), rt_ConstraintChecks = [],
            rt_UpstreamAttempted = False, rt_ExecutionOutcome = [], rt_Timestamp = vr_VerifiedAt result,
            rt_EvidenceSource = source\<rparr>,
         ar_RuntimeObservation = initial_observation [], ar_SecurityFindings = [],
         ar_AdvisorySignals = \<lparr>ad_RiskAssessment = risk, ad_DetectionFindings = [], ad_CausalContext = zero_causal_context\<rparr>,
         ar_RiskAssessment = risk,
         ar_DispatchDecision = make_dispatch RouteDeny ''none'' ''not_applicable''
           [plain ''execution blocked at the permit boundary''] [''permit.untrusted_credential''],
         ar_SelectedExecutor = [], ar_CausalContext = zero_causal_context,
         ar_FinalVerdict = permitVerdict (vr_Outcome result), ar_DurationMS = 0\<rparr>)"

definition auditUnboundVerificationFailure ::
  "verify_result \<Rightarrow> runtime_source \<Rightarrow> entropy \<Rightarrow> entropy \<Rightarrow> write_outcome \<Rightarrow> router_state
    \<Rightarrow> (string \<times> router_error option) \<times> router_state" where
  "auditUnboundVerificationFailure result source attempt decision w st =
    (let attemptID = newIdentifier ''verify'' attempt; decisionID = newIdentifier ''decision'' decision;
         (e, s') = Audit_Append w (verification_record result source attemptID decisionID) (rw_audit st)
     in ((attemptID, map_option RouterAudit e), put_audit s' st))"

text \<open>The mutation of a verified permit's record: a failure is never overwritten by a later success.\<close>

definition record_verification :: "verify_result \<Rightarrow> runtime_source \<Rightarrow> audit_record \<Rightarrow> audit_record" where
  "record_verification result source record =
    (let r1 = (case ar_AuthorizationEnvelope record of
           Some e \<Rightarrow> if en_PermitID e = vr_PermitID result
                     then record\<lparr>ar_AuthorizationEnvelope := Some (e\<lparr>en_State := vr_State result\<rparr>)\<rparr> else record
         | None \<Rightarrow> record);
         existing = (case ar_ExecutionReceipt record of None \<Rightarrow> None | Some t \<Rightarrow> rt_VerificationOutcome t);
         newer = verificationOutcomePriority (Some (vr_Outcome result)) \<ge> verificationOutcomePriority existing;
         r2 = (case ar_ExecutionReceipt r1 of
           None \<Rightarrow> r1
         | Some t \<Rightarrow>
             let t1 = t\<lparr>rt_PermitState := vr_State result\<rparr>
             in r1\<lparr>ar_ExecutionReceipt := Some
                  (if newer
                   then t1\<lparr>rt_VerificationOutcome := Some (vr_Outcome result), rt_ConstraintChecks := vr_ConstraintChecks result,
                           rt_Timestamp := vr_VerifiedAt result, rt_EvidenceSource := source\<rparr>
                   else t1)\<rparr>);
         r3 = (if newer then r2\<lparr>ar_FinalVerdict := permitVerdict (vr_Outcome result)\<rparr> else r2)
     in r3\<lparr>ar_DurationMS := elapsedMilliseconds (ar_CreatedAt r3) (vr_VerifiedAt result)\<rparr>)"

definition auditPermitVerification ::
  "verify_result \<Rightarrow> runtime_source \<Rightarrow> permit_verification \<Rightarrow> entropy \<Rightarrow> entropy \<Rightarrow> write_outcome \<Rightarrow> router_state
    \<Rightarrow> (permit_verification \<times> router_error option) \<times> router_state" where
  "auditPermitVerification result source verification attempt decision w st =
    (if vr_RequestID result = []
     then let ((attemptID, e), st') = auditUnboundVerificationFailure result source attempt decision w st
          in ((verification\<lparr>pv_RequestID := attemptID\<rparr>, e), st')
     else let (e, st') = mutate_audit w (vr_RequestID result) (record_verification result source) st
          in ((verification, e), st'))"

definition Router_VerifyExecutionAndConsume ::
  "crypto \<Rightarrow> router_state \<Rightarrow> string \<Rightarrow> string \<Rightarrow> action \<Rightarrow> string \<Rightarrow> string \<Rightarrow> time \<Rightarrow> time \<Rightarrow> entropy \<Rightarrow> entropy
    \<Rightarrow> write_outcome \<Rightarrow> (permit_verification \<times> router_error option) \<times> router_state" where
  "Router_VerifyExecutionAndConsume cr st permitToken proofToken a httpMethod httpPath now later attempt decision w =
    (let (result, g') = VerifyExecutionAndConsume cr (rw_verifier st) (rw_guard st) permitToken proofToken a httpMethod httpPath now later
     in auditPermitVerification result SourceGatewayEnforced (permitVerification result SourceGatewayEnforced)
          attempt decision w (st\<lparr>rw_guard := g'\<rparr>))"

definition VerifySyntheticDemo ::
  "crypto \<Rightarrow> router_state \<Rightarrow> string \<Rightarrow> action \<Rightarrow> time \<Rightarrow> time \<Rightarrow> entropy \<Rightarrow> entropy \<Rightarrow> write_outcome
    \<Rightarrow> (permit_verification \<times> router_error option) \<times> router_state" where
  "VerifySyntheticDemo cr st permitToken a now later attempt decision w =
    (let (result, s') = VerifySimulationAndConsume cr (rw_verifier st) (rw_store st) permitToken a now later
     in auditPermitVerification result SourceSimulatedDemo (permitVerification result SourceSimulatedDemo)
          attempt decision w (set_store s' st))"

definition CheckExecutionRequest ::
  "crypto \<Rightarrow> router \<Rightarrow> router_state \<Rightarrow> string \<Rightarrow> request \<Rightarrow> time \<Rightarrow> (router_error + permit_verification) \<times> router_state" where
  "CheckExecutionRequest cr r st permitToken req now =
    (if trim_space permitToken = [] then (Inl (RouterInvalid (plain ''permit_token is required'')), st)
     else case Validate req of
       Some e \<Rightarrow> (Inl e, st)
     | None \<Rightarrow>
         (case prepareSemanticAction cr (ro_registry r) req of
            Inl e \<Rightarrow> (Inl (RouterSemantic e), st)
          | Inr p \<Rightarrow>
              let (result, s') = CheckExecution cr (rw_verifier st) (rw_store st) permitToken (pe_action p) now
              in (Inr (permitVerification result (SourceOther ''permit_check_only'')), set_store s' st)))"

definition VerifySyntheticDemoRequest ::
  "crypto \<Rightarrow> router_state \<Rightarrow> string \<Rightarrow> request \<Rightarrow> time \<Rightarrow> time \<Rightarrow> entropy \<Rightarrow> entropy \<Rightarrow> write_outcome
    \<Rightarrow> (router_error + permit_verification \<times> router_error option) \<times> router_state" where
  "VerifySyntheticDemoRequest cr st permitToken req now later attempt decision w =
    (if trim_space permitToken = [] then (Inl (RouterInvalid (plain ''permit_token is required'')), st)
     else case Validate req of
       Some e \<Rightarrow> (Inl e, st)
     | None \<Rightarrow>
         let (answer, st') = VerifySyntheticDemo cr st permitToken (executionAction cr req) now later attempt decision w
         in (Inr answer, st'))"

section \<open>Permits and authorities\<close>

definition ListPermits :: "router_state \<Rightarrow> time \<Rightarrow> permit_record list \<times> router_state" where
  "ListPermits st now = (let (rs, s') = MemoryStore_List (rw_store st) now in (rs, set_store s' st))"

definition GetPermit :: "router_state \<Rightarrow> string \<Rightarrow> time \<Rightarrow> permit_record option \<times> router_state" where
  "GetPermit st permitID now = (let (r, s') = MemoryStore_Get (rw_store st) permitID now in (r, set_store s' st))"

definition revoke_record :: "permit_record \<Rightarrow> time \<Rightarrow> audit_record \<Rightarrow> audit_record" where
  "revoke_record p now record =
    (let r1 = record\<lparr>ar_AuthorizationEnvelope := map_option (\<lambda>e. e\<lparr>en_State := pr_State p\<rparr>) (ar_AuthorizationEnvelope record),
                     ar_ExecutionReceipt := map_option (\<lambda>t. t\<lparr>rt_PermitState := pr_State p,
                       rt_VerificationOutcome := Some OutcomeRevoked, rt_Timestamp := now\<rparr>) (ar_ExecutionReceipt record)\<rparr>
     in r1\<lparr>ar_FinalVerdict := ''PERMIT_REVOKED'', ar_DurationMS := elapsedMilliseconds (ar_CreatedAt r1) now\<rparr>)"

definition recordPermitRevocation :: "permit_record \<Rightarrow> time \<Rightarrow> write_outcome \<Rightarrow> router_state \<Rightarrow> router_error option \<times> router_state" where
  "recordPermitRevocation p now w st =
    (let when = (case pr_RevokedAt p of None \<Rightarrow> now | Some t \<Rightarrow> t);
         requestID = cl_RequestID (pr_Claims p);
         st1 = st\<lparr>rw_permits := mdel (cl_PermitID (pr_Claims p)) (rw_permits st)\<rparr>
     in if Audit_Get (rw_audit st1) requestID = None then (None, st1)
        else mutate_audit w requestID (revoke_record p when) st1)"

text \<open>The record is absent from the answer of an unknown permit.\<close>

definition RevokePermit ::
  "router_state \<Rightarrow> string \<Rightarrow> time \<Rightarrow> write_outcome \<Rightarrow> (permit_record option \<times> router_error option) \<times> router_state" where
  "RevokePermit st permitID now w =
    (let (rec, e, s') = MemoryStore_Revoke (rw_store st) permitID now; st1 = set_store s' st
     in case e of
          Some err \<Rightarrow> ((rec, Some (RouterPermit err)), st1)
        | None \<Rightarrow>
            (case rec of
               None \<Rightarrow> ((rec, None), st1)
             | Some p \<Rightarrow> let (e', st2) = recordPermitRevocation p now w st1 in ((rec, e'), st2)))"

text \<open>The loop over the store after an authority was switched; the errors are joined. One write outcome per record.\<close>

fun record_revocations ::
  "authority_key \<Rightarrow> uint64 \<Rightarrow> time \<Rightarrow> permit_record list \<Rightarrow> write_outcome list \<Rightarrow> router_error list \<Rightarrow> router_state
    \<Rightarrow> router_error list \<times> router_state" where
  "record_revocations key epoch now [] ws errors st = (errors, st)"
| "record_revocations key epoch now (p # ps) ws errors st =
    (if Claims_AuthorityKey (pr_Claims p) = key \<and> cl_AuthorityEpoch (pr_Claims p) < epoch \<and> pr_State p = StateRevoked
     then let (e, st') = recordPermitRevocation p now (case ws of [] \<Rightarrow> WriteOk | w # _ \<Rightarrow> w) st
          in record_revocations key epoch now ps (drop 1 ws) (errors @ (case e of None \<Rightarrow> [] | Some x \<Rightarrow> [x])) st'
     else record_revocations key epoch now ps ws errors st)"

definition Router_SetAuthorityEnabled ::
  "router_state \<Rightarrow> authority_key \<Rightarrow> bool \<Rightarrow> time \<Rightarrow> write_outcome list
    \<Rightarrow> (authority_state \<times> router_error list) \<times> router_state" where
  "Router_SetAuthorityEnabled st key enabled now ws =
    (let (state, e, s') = SetAuthorityEnabled (rw_store st) key enabled now; st1 = set_store s' st
     in case e of
          Some err \<Rightarrow> ((state, [RouterPermit err]), st1)
        | None \<Rightarrow>
            let (records, st2) = ListPermits st1 now;
                (errors, st3) = record_revocations key (as_Epoch state) now records ws [] st2
            in ((state, errors), st3))"

section \<open>Runtime events\<close>

definition event_finding :: "runtime_event \<Rightarrow> string \<Rightarrow> string \<Rightarrow> string \<Rightarrow> violation \<Rightarrow> security_finding" where
  "event_finding e eventID category severity item =
    \<lparr>fi_ID = eventID @ '':'' @ av_Rule item, fi_Category = category, fi_Severity = severity, fi_Rule = av_Rule item,
     fi_Summary = av_Summary item,
     fi_Evidence = [''event_id='' @ safeEvidence (re_EventID e), ''source='' @ source_text (re_Source e),
                    ''trust_level='' @ trust_text (re_TrustLevel e)]\<rparr>"

definition record_rejection :: "runtime_event \<Rightarrow> runtime_evaluation \<Rightarrow> bool \<Rightarrow> time \<Rightarrow> audit_record \<Rightarrow> audit_record" where
  "record_rejection e evaluation includeEvent now record =
    (let o0 = ar_RuntimeObservation record;
         o1 = o0\<lparr>bs_Events := bs_Events o0 @ (if includeEvent then [e] else []),
                 bs_EventEvaluations := bs_EventEvaluations o0 @ [evaluation],
                 bs_AuthorizationViolations := bs_AuthorizationViolations o0 @ rv_Violations evaluation\<rparr>
     in record\<lparr>ar_RuntimeObservation := o1,
               ar_SecurityFindings := ar_SecurityFindings record
                 @ map (event_finding e (safeEvidence (re_EventID e)) ''runtime_event_rejection'' ''high'') (rv_Violations evaluation),
               ar_FinalVerdict := (if ar_FinalVerdict record \<noteq> ''AUTHORIZATION_BOUNDARY_VIOLATION''
                                   then ''RUNTIME_EVENT_REJECTED'' else ar_FinalVerdict record),
               ar_DurationMS := elapsedMilliseconds (ar_CreatedAt record) now\<rparr>)"

definition auditRejectedEvent ::
  "runtime_event \<Rightarrow> runtime_evaluation \<Rightarrow> bool \<Rightarrow> time \<Rightarrow> write_outcome \<Rightarrow> router_state \<Rightarrow> router_error option \<times> router_state" where
  "auditRejectedEvent e evaluation includeEvent now w st =
    (if \<not> safeMetadataLabel (re_RequestID e) then (None, st)
     else if Audit_Get (rw_audit st) (re_RequestID e) = None then (None, st)
     else mutate_audit w (re_RequestID e) (record_rejection e evaluation includeEvent now) st)"

definition record_event :: "runtime_event \<Rightarrow> runtime_evaluation \<Rightarrow> time \<Rightarrow> audit_record \<Rightarrow> audit_record" where
  "record_event e evaluation now record =
    (let o0 = ar_RuntimeObservation record;
         o1 = o0\<lparr>bs_Events := bs_Events o0 @ [e], bs_EventEvaluations := bs_EventEvaluations o0 @ [evaluation],
                 bs_AuthorizationViolations := bs_AuthorizationViolations o0 @ rv_Violations evaluation,
                 bs_ActualActions := bs_ActualActions o0 @ [re_Operation e],
                 bs_Coverage := (bs_Coverage o0)\<lparr>rc_ToolEvents := coverageFor e\<rparr>\<rparr>;
         verdict0 = (if \<not> rv_Accepted evaluation then ''RUNTIME_EVENT_REJECTED'' else ar_FinalVerdict record);
         verdict = (if rv_Accepted evaluation \<and> \<not> rv_WithinEnvelope evaluation
                    then ''AUTHORIZATION_BOUNDARY_VIOLATION'' else verdict0)
     in record\<lparr>ar_RuntimeObservation := o1,
               ar_SecurityFindings := ar_SecurityFindings record
                 @ map (event_finding e (re_EventID e) ''authorization_boundary'' ''critical'') (rv_Violations evaluation),
               ar_FinalVerdict := verdict,
               ar_CompletedAt := (if rv_Terminated evaluation then Some now else ar_CompletedAt record),
               ar_DurationMS := elapsedMilliseconds (ar_CreatedAt record) now\<rparr>)"

definition unknown_permit :: "runtime_event \<Rightarrow> violation" where
  "unknown_permit e =
    \<lparr>av_Rule = ''runtime.permit_unknown'', av_Summary = ''runtime event references an unknown execution permit'',
     av_Expected = plain ''active permit'', av_Actual = plain (re_PermitID e)\<rparr>"

text \<open>A terminated execution: its envelope is dropped and its permit revoked.\<close>

definition terminate_permit :: "string \<Rightarrow> time \<Rightarrow> router_state \<Rightarrow> router_state" where
  "terminate_permit permitID now st =
    (let (rec, e, s') = MemoryStore_Revoke (rw_store st) permitID now
     in (set_store s' st)\<lparr>rw_permits := mdel permitID (rw_permits st)\<rparr>)"

definition IngestRuntimeEvent ::
  "router_state \<Rightarrow> runtime_event \<Rightarrow> time \<Rightarrow> write_outcome \<Rightarrow> (runtime_evaluation \<times> router_error option) \<times> router_state" where
  "IngestRuntimeEvent st event now w =
    (let e = (if re_Timestamp event = zero_time then event\<lparr>re_Timestamp := now\<rparr> else event)
     in case validateRuntimeMetadata e of
          Some v \<Rightarrow>
            let evaluation = rejectedEvaluation e v; (err, st') = auditRejectedEvent e evaluation False now w st
            in ((evaluation, err), st')
        | None \<Rightarrow>
            (case mget (rw_permits st) (re_PermitID e) of
               None \<Rightarrow>
                 let evaluation = rejectedEvaluation e (unknown_permit e); (err, st') = auditRejectedEvent e evaluation True now w st
                 in ((evaluation, err), st')
             | Some permit \<Rightarrow>
                 let evaluation = Observer_Evaluate permit e now;
                     st1 = (if rv_Terminated evaluation then terminate_permit (en_PermitID permit) now st else st);
                     (err, st') = mutate_audit w (en_RequestID permit) (record_event e evaluation now) st1
                 in ((evaluation, err), st')))"

section \<open>Completion\<close>

definition trusted_source :: "runtime_source \<Rightarrow> bool" where
  "trusted_source source \<longleftrightarrow> source = SourceGatewayEnforced \<or> source = SourceSimulatedDemo"

definition completion_check :: "execution_completion \<Rightarrow> runtime_source \<Rightarrow> router_error option" where
  "completion_check c source =
    first_error
      [require (safeMetadataLabel (ec_RequestID c) \<and> safeMetadataLabel (ec_PermitID c))
         ''request_id and permit_id must be short metadata identifiers'',
       require (ec_Status c = ''completed'' \<or> ec_Status c = ''failed'' \<or> ec_Status c = ''terminated'')
         ''status must be completed, failed, or terminated'',
       require (ec_BoundaryOutcome c = [] \<or> trusted_source source)
         ''boundary_outcome is reserved for a trusted execution adapter'',
       require (ec_BoundaryOutcome c = [] \<or> ec_BoundaryOutcome c = ''UNSATISFIED_OBLIGATION''
           \<or> ec_BoundaryOutcome c = ''UPSTREAM_REDIRECT_BLOCKED'')
         ''unsupported boundary_outcome'',
       require (\<not> ec_UpstreamAttempted c \<or> trusted_source source)
         ''upstream_attempted is reserved for a trusted execution adapter'']"

definition expired_completion ::
  "execution_completion \<Rightarrow> runtime_source \<Rightarrow> authorization_envelope \<Rightarrow> permit_state \<Rightarrow> time \<Rightarrow> audit_record \<Rightarrow> audit_record" where
  "expired_completion c source permit state receivedAt record =
    (let v = \<lparr>av_Rule = ''execution.permit_expired'',
             av_Summary = ''execution completion was reported after the authorization permit expired'',
             av_Expected = Message ''completion before RFC3339Nano'' [FormatTime (en_ExpiresAt permit)],
             av_Actual = Message ''RFC3339Nano'' [FormatTime receivedAt]\<rparr>;
         f = \<lparr>fi_ID = safeEvidence (ec_RequestID c) @ '':execution.permit_expired'', fi_Category = ''execution_completion'',
             fi_Severity = ''high'', fi_Rule = av_Rule v, fi_Summary = av_Summary v,
             fi_Evidence = [''request_id='' @ safeEvidence (ec_RequestID c), ''permit_id='' @ safeEvidence (ec_PermitID c)]\<rparr>;
         o0 = ar_RuntimeObservation record
     in record\<lparr>ar_RuntimeObservation := o0\<lparr>bs_AuthorizationViolations := bs_AuthorizationViolations o0 @ [v]\<rparr>,
               ar_SecurityFindings := ar_SecurityFindings record @ [f],
               ar_CompletedAt := Some receivedAt,
               ar_AuthorizationEnvelope := map_option (\<lambda>e. e\<lparr>en_State := state\<rparr>) (ar_AuthorizationEnvelope record),
               ar_ExecutionReceipt := map_option (\<lambda>t. t\<lparr>rt_PermitState := state, rt_VerificationOutcome := Some OutcomeExpired,
                 rt_Timestamp := receivedAt, rt_EvidenceSource := source\<rparr>) (ar_ExecutionReceipt record),
               ar_FinalVerdict := ''PERMIT_EXPIRED'',
               ar_DurationMS := elapsedMilliseconds (ar_CreatedAt record) receivedAt\<rparr>)"

definition completed_verdict :: "execution_completion \<Rightarrow> runtime_source \<Rightarrow> audit_record \<Rightarrow> string" where
  "completed_verdict c source record =
    (let verdict = ar_FinalVerdict record;
         verified = (case ar_ExecutionReceipt record of None \<Rightarrow> False | Some t \<Rightarrow> rt_VerificationOutcome t = Some OutcomeVerified)
     in if ec_BoundaryOutcome c = ''UNSATISFIED_OBLIGATION'' then ''EXECUTION_OBLIGATION_UNSATISFIED''
        else if ec_BoundaryOutcome c = ''UPSTREAM_REDIRECT_BLOCKED'' then ''EXECUTION_REDIRECT_BLOCKED''
        else if verdict \<noteq> ''AUTHORIZATION_BOUNDARY_VIOLATION'' \<and> verdict \<noteq> ''RUNTIME_EVENT_REJECTED''
          \<and> \<not> (has_prefix verdict ''PERMIT_'' \<and> verdict \<noteq> ''PERMIT_VERIFIED'')
        then if ec_Status c = ''completed''
             then if verified \<and> source = SourceGatewayEnforced then ''EXECUTED_WITH_VALID_PERMIT''
                  else if verified \<and> source = SourceSimulatedDemo then ''SIMULATED_EXECUTION_WITH_VALID_PERMIT''
                  else ''COMPLETED_WITHOUT_BOUNDARY_VERIFICATION''
             else if ec_Status c = ''failed'' then ''EXECUTION_FAILED''
             else if ec_Status c = ''terminated'' then ''EXECUTION_TERMINATED'' else verdict
        else verdict)"

definition record_completion ::
  "execution_completion \<Rightarrow> runtime_source \<Rightarrow> permit_state \<Rightarrow> time \<Rightarrow> audit_record \<Rightarrow> audit_record" where
  "record_completion c source state receivedAt record =
    (let r1 = record\<lparr>ar_CompletedAt := Some receivedAt,
           ar_AuthorizationEnvelope := map_option (\<lambda>e. e\<lparr>en_State := state\<rparr>) (ar_AuthorizationEnvelope record),
           ar_ExecutionReceipt := map_option (\<lambda>t. t\<lparr>rt_PermitState := state, rt_Timestamp := receivedAt,
             rt_EvidenceSource := source, rt_UpstreamAttempted := ec_UpstreamAttempted c,
             rt_ExecutionOutcome := (if ec_BoundaryOutcome c \<noteq> [] then ec_BoundaryOutcome c else ec_Status c)\<rparr>)
             (ar_ExecutionReceipt record)\<rparr>
     in r1\<lparr>ar_FinalVerdict := completed_verdict c source r1,
           ar_DurationMS := elapsedMilliseconds (ar_CreatedAt r1) receivedAt\<rparr>)"

text \<open>The state of a permit as \<open>Get\<close> answers it; the zero record has no state.\<close>

definition permit_state_at :: "memory_store \<Rightarrow> string \<Rightarrow> time \<Rightarrow> permit_state \<times> memory_store" where
  "permit_state_at s permitID now =
    (let (r, s') = MemoryStore_Get s permitID now in (case r of None \<Rightarrow> StateEmpty | Some p \<Rightarrow> pr_State p, s'))"

definition completeExecution ::
  "router_state \<Rightarrow> execution_completion \<Rightarrow> runtime_source \<Rightarrow> time \<Rightarrow> write_outcome
    \<Rightarrow> (router_error + audit_record) \<times> router_state" where
  "completeExecution st c source receivedAt w =
    (case completion_check c source of
       Some e \<Rightarrow> (Inl e, st)
     | None \<Rightarrow>
         let (state, s1) = permit_state_at (rw_store st) (ec_PermitID c) receivedAt;
             st1 = (if trusted_source source then set_store s1 st else st)
         in if trusted_source source \<and> state \<noteq> StateConsumed
            then (Inl (RouterInvalid (plain ''trusted execution completion requires a consumed permit'')), st1)
            else case mget (rw_permits st1) (ec_PermitID c) of
              None \<Rightarrow> (Inl (RouterInvalid (plain ''execution permit is unknown or bound to another request'')), st1)
            | Some permit \<Rightarrow>
                if en_RequestID permit \<noteq> ec_RequestID c
                then (Inl (RouterInvalid (plain ''execution permit is unknown or bound to another request'')), st1)
                else
                  let (state', s2) = permit_state_at (rw_store st1) (ec_PermitID c) receivedAt;
                      st2 = (set_store s2 st1)\<lparr>rw_permits := mdel (ec_PermitID c) (rw_permits st1)\<rparr>;
                      expired = (\<not> receivedAt < en_ExpiresAt permit
                        \<or> (ec_CompletedAt c \<noteq> zero_time \<and> \<not> ec_CompletedAt c < en_ExpiresAt permit));
                      f = (if expired then expired_completion c source permit state' receivedAt
                           else record_completion c source state' receivedAt)
                  in case Audit_Mutate w (ec_RequestID c) (\<lambda>r. Inr (f r)) (rw_audit st2) of
                       (Inl e, a) \<Rightarrow> (Inl (RouterAudit e), put_audit a st2)
                     | (Inr r, a) \<Rightarrow> (Inr r, put_audit a st2))"

definition CompleteExecution where
  "CompleteExecution st c receivedAt w = completeExecution st c SourceAgentSelfReported receivedAt w"

definition CompleteVerifiedExecution where
  "CompleteVerifiedExecution st c receivedAt w = completeExecution st c SourceGatewayEnforced receivedAt w"

definition CompleteSyntheticDemoExecution where
  "CompleteSyntheticDemoExecution st c receivedAt w = completeExecution st c SourceSimulatedDemo receivedAt w"

end
