(* ===== verification/Router_Facts.thy ===== *)
theory Router_Facts
  imports Router_Lifecycle Verifier_Facts Policy_Facts
begin

text \<open>
  What the calls of the router do to its state and what an issued permit stands for.
\<close>

section \<open>The end of an authorization\<close>

lemma set_store_simps [simp]:
  "rw_store (set_store s st) = s" "rw_permits (set_store s st) = rw_permits st" "rw_audit (set_store s st) = rw_audit st"
  "rw_detection (set_store s st) = rw_detection st" "rw_verifier (set_store s st) = rw_verifier st"
  "gs_nonces (rw_guard (set_store s st)) = gs_nonces (rw_guard st)"
  by (simp_all add: set_store_def)

lemma put_audit_simps [simp]:
  "rw_guard (put_audit a st) = rw_guard st" "rw_permits (put_audit a st) = rw_permits st" "rw_audit (put_audit a st) = a"
  by (simp_all add: put_audit_def)

lemma kept_permits_set_store [simp]: "kept_permits envelope (set_store s st) = kept_permits envelope st"
  unfolding kept_permits_def set_store_simps ..

lemma record_decision_cases:
  obtains (recorded) detection' audit' entry where
      "record_decision cr r st req prov d ob digest issued x =
        (Inr \<lparr>aa_Decision = entry, aa_Permit = map_option credentialFor issued\<rparr>,
         st\<lparr>rw_permits := kept_permits (kept_envelope req d issued) st, rw_detection := detection', rw_audit := audit'\<rparr>)"
      "ar_PolicyDecision entry = d" "ar_AuthorizationStatus entry = pd_Status d" "ar_Obligations entry = ob"
      "Audit_Append (xi_write x) entry (rw_audit st) = (None, audit')"
  | (unrecorded) detection' audit' e entry where
      "record_decision cr r st req prov d ob digest issued x =
        (Inl (RouterAudit e), withdraw_permit issued (xi_revoke_now x)
          (st\<lparr>rw_permits := kept_permits (kept_envelope req d issued) st, rw_detection := detection', rw_audit := audit'\<rparr>))"
      "Audit_Append (xi_write x) entry (rw_audit st) = (Some e, audit')"
proof -
  define env where "env = kept_envelope req d issued"
  define st1 where "st1 = st\<lparr>rw_permits := kept_permits env st\<rparr>"
  obtain advisory detection' where a: "evaluateAdvisorySignals r (rw_detection st1) req = (advisory, detection')"
    by (rule prod.exhaust)
  define entry where "entry = decision_record cr r req prov d ob digest env advisory x"
  obtain failed audit' where f: "Audit_Append (xi_write x) entry (rw_audit st1) = (failed, audit')" by (rule prod.exhaust)
  have e: "record_decision cr r st req prov d ob digest issued x =
    (case failed of
       Some e \<Rightarrow> (Inl (RouterAudit e), withdraw_permit issued (xi_revoke_now x) (st1\<lparr>rw_detection := detection', rw_audit := audit'\<rparr>))
     | None \<Rightarrow> (Inr \<lparr>aa_Decision = entry, aa_Permit = map_option credentialFor issued\<rparr>,
                st1\<lparr>rw_detection := detection', rw_audit := audit'\<rparr>))"
    unfolding record_decision_def Let_def env_def [symmetric] st1_def [symmetric]
      a prod.case entry_def [symmetric] f ..
  have f': "Audit_Append (xi_write x) entry (rw_audit st) = (failed, audit')" using f by (simp add: st1_def)
  show thesis
  proof (cases failed)
    case None
    show thesis
      by (rule recorded [where entry = entry and detection' = detection' and audit' = audit'])
        (use e f' None in \<open>simp_all add: st1_def env_def entry_def decision_record_def Let_def\<close>)
  next
    case (Some err)
    show thesis
      by (rule unrecorded [where e = err and entry = entry and detection' = detection' and audit' = audit']) (use e f' Some in \<open>simp_all add: st1_def env_def\<close>)
  qed
qed

section \<open>An authorization that answers\<close>

text \<open>The parts of a successful call, with the permit it issued, if any.\<close>

lemma authorize_success:
  assumes "authorizeResolvedAction cr r st req prov binding permitClass ttl x = (Inr resp, st')"
  obtains d ob resolved digest issued s' where
    "Validate req = None"
    "decide cr r (captured_authority (rw_store st) (identified req (xi_request_id x)) permitClass)
       (identified req (xi_request_id x)) permitClass (xi_policy_now x) (xi_recheck_now x) = (d, ob, resolved)"
    "decision_digest cr (identified req (xi_request_id x)) d resolved = Inr digest"
    "aa_Permit resp = map_option credentialFor issued" "rw_store st' = s'"
    "ar_PolicyDecision (aa_Decision resp) = d" "ar_Obligations (aa_Decision resp) = ob"
    "rw_permits st' = kept_permits (kept_envelope (identified req (xi_request_id x)) d issued) st"
    "case granted d of
       None \<Rightarrow> issued = None \<and> s' = rw_store st
     | Some grant \<Rightarrow> \<exists>p. issued = Some p \<and>
         issuePermit cr r (rw_store st) (identified req (xi_request_id x)) grant ob
           (resolvedActionOrDefault cr resolved (identified req (xi_request_id x)) grant) digest (xi_started x) binding permitClass ttl
           (as_Epoch (captured_authority (rw_store st) (identified req (xi_request_id x)) permitClass))
           (xi_permit_random x) (xi_issue_now x) = (Inr p, s')"
proof -
  define q where "q = identified req (xi_request_id x)"
  define a where "a = captured_authority (rw_store st) q permitClass"
  define prov' where "prov' = (if vn_EstablishedAt prov = zero_time then prov\<lparr>vn_EstablishedAt := xi_started x\<rparr> else prov)"
  have v: "Validate req = None" using assms by (auto simp: authorizeResolvedAction_def split: option.splits)
  obtain d ob resolved where d: "decide cr r a q permitClass (xi_policy_now x) (xi_recheck_now x) = (d, ob, resolved)"
    by (rule prod_cases3)
  obtain digest where g: "decision_digest cr q d resolved = Inr digest"
    using assms v d by (auto simp: authorizeResolvedAction_def Let_def q_def [symmetric] a_def [symmetric] split: sum.splits)
  note run = assms [unfolded authorizeResolvedAction_def Let_def q_def [symmetric] a_def [symmetric] prov'_def [symmetric] v d g
    option.case sum.case prod.case]
  show thesis
  proof (cases "granted d")
    case None
    have e: "record_decision cr r st q prov' d ob digest None x = (Inr resp, st')" using run None by simp
    show thesis
    proof (cases rule: record_decision_cases [of cr r st q prov' d ob digest None x])
      case (recorded detection' audit' entry)
      show thesis
        by (rule that [OF v d [unfolded a_def q_def] g [unfolded q_def], of None "rw_store st'"])
          (use recorded e None in \<open>auto simp: kept_permits_def kept_envelope_def\<close>)
    qed (use e in simp)
  next
    case (Some grant)
    define act where "act = resolvedActionOrDefault cr resolved q grant"
    obtain out s' where i: "issuePermit cr r (rw_store st) q grant ob act digest (xi_started x) binding permitClass ttl
        (as_Epoch a) (xi_permit_random x) (xi_issue_now x) = (out, s')" by (rule prod.exhaust)
    note run2 = run [unfolded Some option.case act_def [symmetric] i prod.case]
    then obtain p where p: "out = Inr p" by (cases out) auto
    have e: "record_decision cr r (set_store s' st) q prov' d ob digest (Some p) x = (Inr resp, st')" using run2 p by simp
    show thesis
    proof (cases rule: record_decision_cases [of cr r "set_store s' st" q prov' d ob digest "Some p" x])
      case (recorded detection' audit' entry)
      show thesis
        by (rule that [OF v d [unfolded a_def q_def] g [unfolded q_def], of "Some p" s'])
          (use recorded e Some i p in \<open>auto simp: q_def [symmetric] a_def [symmetric] act_def [symmetric]\<close>)
    qed (use e in simp)
  qed
qed

section \<open>What a decision does not depend on\<close>

text \<open>The fields of a request that only the advisory side reads.\<close>

definition advisory_fields :: "input_source list \<Rightarrow> string \<Rightarrow> string \<Rightarrow> string list \<Rightarrow> request \<Rightarrow> request" where
  "advisory_fields sources parent intent planned q =
    q\<lparr>rq_InputSources := sources, rq_ParentEventID := parent, rq_ClaimedIntent := intent, rq_PlannedActions := planned\<rparr>"

lemma advisory_select:
  "rq_RequestID (advisory_fields s p i l q) = rq_RequestID q" "rq_SessionID (advisory_fields s p i l q) = rq_SessionID q"
  "rq_Principal (advisory_fields s p i l q) = rq_Principal q" "rq_Agent (advisory_fields s p i l q) = rq_Agent q"
  "rq_Authority (advisory_fields s p i l q) = rq_Authority q" "rq_Tool (advisory_fields s p i l q) = rq_Tool q"
  "rq_Action (advisory_fields s p i l q) = rq_Action q" "rq_DataAccess (advisory_fields s p i l q) = rq_DataAccess q"
  "rq_UserID (advisory_fields s p i l q) = rq_UserID q" "rq_AgentID (advisory_fields s p i l q) = rq_AgentID q"
  "rq_TokenScopes (advisory_fields s p i l q) = rq_TokenScopes q"
  "rq_RequestedCapability (advisory_fields s p i l q) = rq_RequestedCapability q"
  "rq_TargetResource (advisory_fields s p i l q) = rq_TargetResource q"
  "rq_ToolIdentity (advisory_fields s p i l q) = rq_ToolIdentity q"
  "rq_Destination (advisory_fields s p i l q) = rq_Destination q"
  by (simp_all add: advisory_fields_def)

lemma advisory_simps [simp]:
  "UsesStructuredContext (advisory_fields s p i l q) = UsesStructuredContext q"
  "EffectivePrincipal (advisory_fields s p i l q) = EffectivePrincipal q"
  "EffectiveAgent (advisory_fields s p i l q) = EffectiveAgent q"
  "EffectiveAuthority (advisory_fields s p i l q) = EffectiveAuthority q"
  "EffectiveTool (advisory_fields s p i l q) = EffectiveTool q"
  "EffectiveAction (advisory_fields s p i l q) = EffectiveAction q"
  "rq_RequestID (advisory_fields s p i l q) = rq_RequestID q" "rq_SessionID (advisory_fields s p i l q) = rq_SessionID q"
  unfolding UsesStructuredContext_def EffectivePrincipal_def EffectiveAgent_def EffectiveAuthority_def
    EffectiveTool_def EffectiveAction_def advisory_select by (rule refl)+

lemma advisory_identified [simp]:
  "identified (advisory_fields s p i l q) e = advisory_fields s p i l (identified q e)"
  by (simp add: identified_def advisory_fields_def)

lemma advisory_checked [simp]:
  "checked_request (advisory_fields s p i l q) a f = advisory_fields s p i l (checked_request q a f)"
  by (simp add: checked_request_def Let_def) (simp add: advisory_fields_def)

lemma advisory_policy [simp]: "Policy_Evaluate cfg (advisory_fields s p i l q) now = Policy_Evaluate cfg q now"
  unfolding Policy_Evaluate_def check_identity_def match_tool_def match_operation_def advisory_simps ..

lemma advisory_action [simp]: "executionAction cr (advisory_fields s p i l q) = executionAction cr q"
  unfolding executionAction_def advisory_simps ..

lemma advisory_canonical [simp]: "canonicalAction cr (advisory_fields s p i l q) grant = canonicalAction cr q grant"
  unfolding canonicalAction_def advisory_simps advisory_action ..

lemma advisory_resolve [simp]:
  "resolveAuthorizedAction cr reg (advisory_fields s p i l q) grant c = resolveAuthorizedAction cr reg q grant c"
  "resolvedActionOrDefault cr a (advisory_fields s p i l q) grant = resolvedActionOrDefault cr a q grant"
  unfolding resolveAuthorizedAction_def prepareSemanticAction_def resolvedActionOrDefault_def advisory_canonical
    advisory_action by simp_all

lemma advisory_decide [simp]: "decide cr r a (advisory_fields s p i l q) c now recheck = decide cr r a q c now recheck"
  unfolding decide_def advisory_policy advisory_resolve advisory_checked ..

lemma advisory_digest [simp]: "decision_digest cr (advisory_fields s p i l q) d a = decision_digest cr q d a"
  unfolding decision_digest_def advisory_resolve ..

lemma advisory_authority [simp]: "captured_authority st (advisory_fields s p i l q) c = captured_authority st q c"
  unfolding captured_authority_def request_authority_key_def advisory_simps ..

lemma advisory_issue [simp]:
  "issuePermit cr r st (advisory_fields s p i l q) grant ob a digest t binding c ttl epoch random now
    = issuePermit cr r st q grant ob a digest t binding c ttl epoch random now"
  unfolding issuePermit_def permit_request_def advisory_simps ..

lemma advisory_envelope [simp]: "kept_envelope (advisory_fields s p i l q) d issued = kept_envelope q d issued"
  unfolding kept_envelope_def advisory_simps ..

text \<open>The risk configuration of the router is not read either.\<close>

lemma risk_select:
  "ro_policy (r\<lparr>ro_risk := k\<rparr>) = ro_policy r" "ro_registry (r\<lparr>ro_risk := k\<rparr>) = ro_registry r"
  "ro_permitTTL (r\<lparr>ro_risk := k\<rparr>) = ro_permitTTL r" "ro_issuer (r\<lparr>ro_risk := k\<rparr>) = ro_issuer r"
  "ro_policyVersion (r\<lparr>ro_risk := k\<rparr>) = ro_policyVersion r"
  by simp_all

lemma risk_decide [simp]: "decide cr (r\<lparr>ro_risk := k\<rparr>) a q c now recheck = decide cr r a q c now recheck"
  unfolding decide_def risk_select ..

lemma risk_issue [simp]:
  "issuePermit cr (r\<lparr>ro_risk := k\<rparr>) st q grant ob a digest t binding c ttl epoch random now
    = issuePermit cr r st q grant ob a digest t binding c ttl epoch random now"
  unfolding issuePermit_def permit_request_def risk_select ..

section \<open>Two runs that differ in the advisory side only\<close>

text \<open>The states agree on permits and nonces, and their audit stores both write to a file or both do not.\<close>

definition same_authority_state :: "router_state \<Rightarrow> router_state \<Rightarrow> bool" where
  "same_authority_state st1 st2 \<longleftrightarrow>
    rw_guard st1 = rw_guard st2 \<and> rw_permits st1 = rw_permits st2
    \<and> (au_path (rw_audit st1) = [] \<longleftrightarrow> au_path (rw_audit st2) = [])"

text \<open>The part of an answer that decides what may be executed.\<close>

definition permit_part :: "router_error + authorization_response \<Rightarrow>
    router_error + (permit_credential option \<times> policy_decision \<times> obligations)" where
  "permit_part out =
    map_sum (\<lambda>e. e) (\<lambda>resp. (aa_Permit resp, ar_PolicyDecision (aa_Decision resp), ar_Obligations (aa_Decision resp))) out"

lemma Append_outcome:
  "fst (Audit_Append w e s) = (if au_path s = [] \<or> w = WriteOk then None else Some AuditIO)"
  by (simp add: Audit_Append_def persist_def split: write_outcome.split)

lemma withdraw_agree:
  assumes "rw_guard st1 = rw_guard st2" "rw_permits st1 = rw_permits st2"
  shows "rw_guard (withdraw_permit issued now st1) = rw_guard (withdraw_permit issued now st2)
    \<and> rw_permits (withdraw_permit issued now st1) = rw_permits (withdraw_permit issued now st2)"
proof (cases issued)
  case (Some p)
  obtain rec e s' where v: "MemoryStore_Revoke (rw_store st2) (cl_PermitID (ip_Claims p)) now = (rec, e, s')" by (rule prod_cases3)
  show ?thesis using assms v by (simp add: withdraw_permit_def Some Let_def set_store_def)
qed (use assms in \<open>simp add: withdraw_permit_def\<close>)

lemma record_decision_agree:
  assumes "same_authority_state st1 st2" "kept_envelope q1 d issued = kept_envelope q2 d issued"
    "record_decision cr r1 st1 q1 prov1 d ob digest issued x = (out1, t1)"
    "record_decision cr r2 st2 q2 prov2 d ob digest issued x = (out2, t2)"
  shows "permit_part out1 = permit_part out2 \<and> rw_guard t1 = rw_guard t2 \<and> rw_permits t1 = rw_permits t2"
proof -
  have same: "rw_guard st1 = rw_guard st2" "rw_permits st1 = rw_permits st2"
    "au_path (rw_audit st1) = [] \<longleftrightarrow> au_path (rw_audit st2) = []"
    using assms(1) by (simp_all add: same_authority_state_def)
  have keep: "kept_permits e st1 = kept_permits e st2" for e
    unfolding kept_permits_def same ..
  have fails: "fst (Audit_Append (xi_write x) e1 (rw_audit st1)) = fst (Audit_Append (xi_write x) e2 (rw_audit st2))" for e1 e2
    unfolding Append_outcome same(3) ..
  show ?thesis
  proof (cases rule: record_decision_cases [of cr r1 st1 q1 prov1 d ob digest issued x])
    case (recorded det1 audit1 entry1)
    note one = this
    show ?thesis
    proof (cases rule: record_decision_cases [of cr r2 st2 q2 prov2 d ob digest issued x])
      case (recorded det2 audit2 entry2)
      show ?thesis using one recorded assms(2-4) same keep by (auto simp: permit_part_def)
    next
      case (unrecorded det2 audit2 e entry2)
      show ?thesis using fails [of entry1 entry2] one(5) unrecorded(2) by simp
    qed
  next
    case (unrecorded det1 audit1 e1 entry1)
    note one = this
    show ?thesis
    proof (cases rule: record_decision_cases [of cr r2 st2 q2 prov2 d ob digest issued x])
      case (recorded det2 audit2 entry2)
      show ?thesis using fails [of entry1 entry2] one(2) recorded(5) by simp
    next
      case (unrecorded det2 audit2 e2 entry2)
      have "e1 = e2" using fails [of entry1 entry2] one(2) unrecorded(2) by simp
      moreover have "rw_guard t1 = rw_guard t2 \<and> rw_permits t1 = rw_permits t2"
      proof -
        have t: "t1 = withdraw_permit issued (xi_revoke_now x)
            (st1\<lparr>rw_permits := kept_permits (kept_envelope q1 d issued) st1, rw_detection := det1, rw_audit := audit1\<rparr>)"
          "t2 = withdraw_permit issued (xi_revoke_now x)
            (st2\<lparr>rw_permits := kept_permits (kept_envelope q2 d issued) st2, rw_detection := det2, rw_audit := audit2\<rparr>)"
          using one(1) unrecorded(1) assms(3,4) by simp_all
        show ?thesis unfolding t by (rule withdraw_agree) (simp_all add: same keep assms(2))
      qed
      ultimately show ?thesis using one(1) unrecorded(1) assms(3,4) by (auto simp: permit_part_def)
    qed
  qed
qed

lemma authorize_agree:
  assumes "same_authority_state st1 st2" "Validate q = None" "Validate (advisory_fields s p i l q) = None"
    "authorizeResolvedAction cr r st1 q prov binding c ttl x = (out1, t1)"
    "authorizeResolvedAction cr (r\<lparr>ro_risk := k\<rparr>) st2 (advisory_fields s p i l q) prov binding c ttl x = (out2, t2)"
  shows "permit_part out1 = permit_part out2 \<and> rw_guard t1 = rw_guard t2 \<and> rw_permits t1 = rw_permits t2"
proof -
  have same: "rw_guard st1 = rw_guard st2" "rw_permits st1 = rw_permits st2"
    using assms(1) by (simp_all add: same_authority_state_def)
  define u where "u = identified q (xi_request_id x)"
  define a where "a = captured_authority (rw_store st2) u c"
  define prov' where "prov' = (if vn_EstablishedAt prov = zero_time then prov\<lparr>vn_EstablishedAt := xi_started x\<rparr> else prov)"
  obtain d ob resolved where d: "decide cr r a u c (xi_policy_now x) (xi_recheck_now x) = (d, ob, resolved)"
    by (rule prod_cases3)
  note run1 = assms(4) [unfolded authorizeResolvedAction_def Let_def assms(2) same u_def [symmetric] a_def [symmetric]
    prov'_def [symmetric] d option.case prod.case]
  note run2 = assms(5) [unfolded authorizeResolvedAction_def Let_def assms(3) advisory_identified u_def [symmetric]
    advisory_authority a_def [symmetric] prov'_def [symmetric] advisory_decide risk_decide d advisory_digest advisory_resolve
    advisory_issue risk_issue option.case prod.case router.simps]
  show ?thesis
  proof (cases "decision_digest cr u d resolved")
    case (Inl e)
    then show ?thesis using run1 run2 same by (auto simp: permit_part_def)
  next
    case (Inr digest)
    show ?thesis
    proof (cases "granted d")
      case None
      show ?thesis
        by (rule record_decision_agree [OF assms(1), where ?q1.0 = u and ?q2.0 = "advisory_fields s p i l u" and issued = None])
          (use run1 run2 Inr None in \<open>simp_all\<close>)
    next
      case (Some grant)
      obtain out s' where iss: "issuePermit cr r (rw_store st2) u grant ob (resolvedActionOrDefault cr resolved u grant)
          digest (xi_started x) binding c ttl (as_Epoch a) (xi_permit_random x) (xi_issue_now x) = (out, s')" by (rule prod.exhaust)
      show ?thesis
      proof (cases out)
        case (Inl e)
        then show ?thesis using run1 run2 Inr Some iss same by (auto simp: permit_part_def set_store_def)
      next
        case (Inr issued)
        have "same_authority_state (set_store s' st1) (set_store s' st2)"
          using assms(1) by (simp add: same_authority_state_def set_store_def)
        then show ?thesis
          by (rule record_decision_agree [where ?q1.0 = u and ?q2.0 = "advisory_fields s p i l u" and issued = "Some issued"])
            (use run1 run2 \<open>decision_digest cr u d resolved = Inr digest\<close> Some iss Inr in simp_all)
      qed
    qed
  qed
qed

end
