(* ===== verification/Router_Evidence.thy ===== *)
theory Router_Evidence
  imports Router_Facts
begin

text \<open>
  What stands behind a permit that the router answers: the prepared action, both policy decisions,
  the authority and the lifetime.
\<close>

section \<open>The decision\<close>

lemma granted_Some: "granted d = Some grant \<Longrightarrow> pd_Authorized d \<and> pd_Status d = StatusAuthorized \<and> pd_Grant d = Some grant"
  by (simp add: granted_def split: if_splits)

lemma granted_denied [simp]: "granted (semantic_denial e d) = None"
  by (simp add: granted_def semantic_denial_def Let_def)

lemma with_authority_granted:
  "granted (with_authority ClassExecution authority d) = Some grant \<Longrightarrow> as_Enabled authority \<and> granted d = Some grant"
  by (auto simp: with_authority_def granted_def split: if_splits)

lemma decide_granted:
  assumes "decide cr r authority q ClassExecution now recheck = (d, ob, resolved)" "granted d = Some grant"
  obtains p where "prepareSemanticAction cr (ro_registry r) q = Inr p" "resolved = Some (pe_action p)"
    "as_Enabled authority" "pd_Authorized (Policy_Evaluate (ro_policy r) q now)"
    "d = Policy_Evaluate (ro_policy r) (checked_request q (pe_action p) (pe_policyFacts p)) recheck"
    "ob = policyObligations d"
proof -
  define d0 where "d0 = with_authority ClassExecution authority (Policy_Evaluate (ro_policy r) q now)"
  note run = assms(1) [unfolded decide_def Let_def d0_def [symmetric]]
  have "granted d0 \<noteq> None" using run assms(2) by (cases "granted d0") auto
  then obtain g0 where g0: "granted d0 = Some g0" by blast
  note run1 = run [unfolded g0 option.case]
  show thesis
  proof (cases "prepareSemanticAction cr (ro_registry r) q")
    case (Inl e)
    have rs: "resolveAuthorizedAction cr (ro_registry r) q g0 ClassExecution = Inl e"
      by (simp add: resolveAuthorizedAction_def Inl)
    have "d = semantic_denial e d0" using run1 unfolding rs by simp
    then show thesis using assms(2) by simp
  next
    case (Inr p)
    have "as_Enabled authority \<and> granted (Policy_Evaluate (ro_policy r) q now) = Some g0"
      by (rule with_authority_granted [OF g0 [unfolded d0_def]])
    then have auth: "as_Enabled authority" "pd_Authorized (Policy_Evaluate (ro_policy r) q now)"
      using granted_Some by blast+
    have rs: "resolveAuthorizedAction cr (ro_registry r) q g0 ClassExecution = Inr (pe_action p, pe_policyFacts p)"
      by (simp add: resolveAuthorizedAction_def Inr)
    note e = run1 [unfolded rs sum.case prod.case if_P [OF refl]]
    have e1: "d = Policy_Evaluate (ro_policy r) (checked_request q (pe_action p) (pe_policyFacts p)) recheck"
      "resolved = Some (pe_action p)" using e unfolding prod.inject by blast+
    moreover have "ob = policyObligations d"
      using e unfolding prod.inject e1(1) by (elim conjE) (rule sym)
    ultimately show thesis using that [OF Inr _ auth] by blast
  qed
qed

section \<open>The prepared action\<close>

lemma Prepare_facts:
  assumes "Prepare reg i = Inr p"
  obtains res profile where "Registry_Resolve reg i = Inr res" "mget (rs_byTool (the reg)) (si_Tool i) = Some profile"
    "profile_Resolve profile i = Inr res" "reg \<noteq> None"
    "pe_action p = (sr_Action res)\<lparr>ac_Arguments := sr_NormalizedArguments res, ac_ExecutionBinding := profile_BindingDigest profile\<rparr>"
    "profile_BindingDigest profile \<noteq> []" "action_Validate (pe_action p) = None"
    "pe_arguments p = sr_NormalizedArguments res" "pe_upstreamURL p = profile_UpstreamURL profile"
    "pe_policyFacts p = sr_PolicyFacts res" "sf_SideEffect (pe_policyFacts p) \<noteq> []" "0 \<le> sf_Bytes (pe_policyFacts p)"
    "ac_PrincipalID (pe_action p) = si_PrincipalID i" "ac_AgentID (pe_action p) = si_AgentID i"
    "ac_WorkloadID (pe_action p) = si_WorkloadID i"
    "ac_DelegatedAuthorityFingerprint (pe_action p) = si_DelegatedAuthorityFingerprint i"
    "ac_Capability (pe_action p) = si_Capability i" "ac_Resource (pe_action p) = si_Resource i"
    "ac_Operation (pe_action p) = si_Operation i"
    "ac_Tool (pe_action p) = profile_Tool profile" "ac_ProfileID (pe_action p) = profile_ID profile"
proof -
  obtain res where res: "Registry_Resolve reg i = Inr res"
    using assms by (auto simp: Prepare_def split: sum.splits)
  obtain rg where rg: "reg = Some rg" using res by (cases reg) (auto simp: Registry_Resolve_def)
  obtain profile where pr: "mget (rs_byTool rg) (si_Tool i) = Some profile" "profile_Resolve profile i = Inr res"
    using res rg by (auto simp: Registry_Resolve_def split: option.splits)
  note run = assms [unfolded Prepare_def res sum.case Let_def rg option.sel pr(1)]
  show thesis
    by (rule that [OF res, of profile])
      (use run rg pr res in \<open>auto split: if_splits sum.splits option.splits\<close>)
qed

section \<open>The lifetime\<close>

lemma truncate_le: "second \<le> dur_truncate_second d \<Longrightarrow> dur_truncate_second d \<le> d \<and> second \<le> d"
proof -
  assume a: "second \<le> dur_truncate_second d"
  have "0 < d"
  proof (rule ccontr)
    assume "\<not> 0 < d"
    then have "sgn d \<le> 0" by (auto simp: sgn_if)
    then have "dur_truncate_second d \<le> 0"
      by (simp add: dur_truncate_second_def quot_def mult_nonpos_nonneg)
    with a show False by simp
  qed
  then have "dur_truncate_second d = d div second * second" by (simp add: dur_truncate_second_def quot_def)
  then have "dur_truncate_second d \<le> d" by simp
  with a show ?thesis by simp
qed

lemma lifetime_bounds:
  assumes "second \<le> permit_lifetime T ov c e t"
  shows "permit_lifetime T ov c e t \<le> T" "0 < ov \<Longrightarrow> permit_lifetime T ov c e t \<le> ov"
    "0 < co_MaxDurationMS c \<Longrightarrow> co_MaxDurationMS c \<le> 9223372036854 \<Longrightarrow>
       permit_lifetime T ov c e t \<le> co_MaxDurationMS c * millisecond"
    "e = Some u \<Longrightarrow> permit_lifetime T ov c e t \<le> u - t"
proof -
  define a where "a = (if ov > 0 \<and> ov < T then ov else T)"
  define m where "m = wrap64 (co_MaxDurationMS c * millisecond)"
  define b where "b = (if co_MaxDurationMS c > 0 \<and> m < a then m else a)"
  define d where "d = (case e of None \<Rightarrow> b | Some u \<Rightarrow> if time_sub u t < b then time_sub u t else b)"
  have l: "permit_lifetime T ov c e t = dur_truncate_second d"
    unfolding permit_lifetime_def Let_def a_def [symmetric] m_def [symmetric] b_def [symmetric] d_def [symmetric] ..
  have d: "permit_lifetime T ov c e t \<le> d" "second \<le> d" using truncate_le [of d] assms l by simp_all
  have "d \<le> b" by (auto simp: d_def split: option.split)
  moreover have "b \<le> a" by (simp add: b_def)
  moreover have "a \<le> T" by (simp add: a_def)
  ultimately show "permit_lifetime T ov c e t \<le> T" using d by linarith
  show "permit_lifetime T ov c e t \<le> ov" if "0 < ov"
    using that d \<open>d \<le> b\<close> \<open>b \<le> a\<close> by (simp add: a_def split: if_splits)
  show "permit_lifetime T ov c e t \<le> co_MaxDurationMS c * millisecond"
    if "0 < co_MaxDurationMS c" "co_MaxDurationMS c \<le> 9223372036854"
  proof -
    have "m = co_MaxDurationMS c * millisecond" unfolding m_def
      by (rule wrap64_id) (use that in \<open>simp_all add: min_int64_def max_int64_def\<close>)
    then have "b \<le> co_MaxDurationMS c * millisecond" using that(1) by (simp add: b_def)
    then show ?thesis using d \<open>d \<le> b\<close> by linarith
  qed
  show "permit_lifetime T ov c e t \<le> u - t" if "e = Some u"
  proof -
    have "d \<le> time_sub u t" using that by (simp add: d_def)
    moreover from this have "second \<le> time_sub u t" using d(2) by linarith
    then have "time_sub u t \<le> u - t" by (auto simp: time_sub_def min_int64_def max_int64_def split: if_splits)
    ultimately show ?thesis using d(1) by linarith
  qed
qed

section \<open>The issued permit\<close>

lemma issuePermit_parts:
  assumes "issuePermit cr r s q grant ob a digest issuedAt binding c ttl epoch random now = (Inr p, s')"
  obtains key life where
    "life = permit_lifetime (ro_permitTTL r) ttl (mg_Constraints grant) (da_ExpiresAt (EffectiveAuthority q)) issuedAt"
    "second \<le> life" "ip_PermitID p = newPermitID random"
    "ip_Claims p = issue_claims (ro_issuer r) key (permit_request r q ob a digest binding c life epoch) (ip_PermitID p)
      (time_truncate_second now)"
    "Static_CurrentSigningKey (is_keyProvider (ro_issuer r)) = Inr key"
    "SignToken cr (sk_PrivateKey key) (sk_KeyID key) (ip_Claims p) = Inr (ip_token p)"
    "Claims_Validate (ip_Claims p) = None" "record_at s (ip_PermitID p) = None"
    "s' = put_record (ip_PermitID p) (issued_record (ip_Claims p)) s"
    "cl_ExpiresAt (ip_Claims p) = cl_IssuedAt (ip_Claims p) + life div second" "ttl_ok life"
    "\<not> authority_changed s (ip_Claims p)"
proof -
  define life where
    "life = permit_lifetime (ro_permitTTL r) ttl (mg_Constraints grant) (da_ExpiresAt (EffectiveAuthority q)) issuedAt"
  define req where "req = permit_request r q ob a digest binding c life epoch"
  have l: "second \<le> life" using assms by (auto simp: issuePermit_def Let_def life_def [symmetric] split: if_splits)
  have i: "Issuer_Issue cr (ro_issuer r) req random now s = (Inr p, s')"
    using assms l by (auto simp: issuePermit_def Let_def life_def [symmetric] req_def [symmetric] split: prod.splits sum.splits)
  have e: "effective_ttl req = life" "ir_PermitID req = []" using l by (simp_all add: effective_ttl_def req_def permit_request_def)
  obtain key where k: "Static_CurrentSigningKey (is_keyProvider (ro_issuer r)) = Inr key" "ttl_ok (effective_ttl req)"
    "ip_PermitID p = (if ir_PermitID req = [] then newPermitID random else ir_PermitID req)"
    "ip_Claims p = issue_claims (ro_issuer r) key req (ip_PermitID p) (time_truncate_second now)"
    "SignToken cr (sk_PrivateKey key) (sk_KeyID key) (ip_Claims p) = Inr (ip_token p)"
    "MemoryStore_Register s (ip_Claims p) = (None, s')" by (rule Issue_parts [OF i])
  have reg: "Claims_Validate (ip_Claims p) = None" "record_at s (cl_PermitID (ip_Claims p)) = None"
    "s' = put_record (cl_PermitID (ip_Claims p)) (issued_record (ip_Claims p)) s" "\<not> authority_changed s (ip_Claims p)" using Register_ok [OF k(6)] by simp_all
  have id: "cl_PermitID (ip_Claims p) = ip_PermitID p" by (subst k(4)) (simp add: issue_claims_def)
  have w: "cl_ExpiresAt (ip_Claims p) = cl_IssuedAt (ip_Claims p) + life div second"
    unfolding k(4) issue_claims_def claims.simps e(1)
    using issue_window(1) [of life now] k(2) e(1) by (simp add: unix_of_def time_truncate_second_def)
  show thesis
    by (rule that [OF life_def l _ k(4) [unfolded req_def] k(1) k(5) reg(1) reg(2) [unfolded id] reg(3) [unfolded id] w])
      (use k(2,3) e reg(4) in simp_all)
qed

text \<open>The claims bind the action they were issued for.\<close>

lemma issued_binding:
  assumes "action_Validate a = None" "action_Digest cr a = Inr digest"
  shows "actionBindingOutcome cr a (issue_claims i key (permit_request r q ob a digest binding c life epoch) permitID now) = OutcomeVerified"
  using assms by (simp add: actionBindingOutcome_def issue_claims_def permit_request_def)

section \<open>A permit for a trusted authorization\<close>

text \<open>Everything a permit answered by \<open>AuthorizeTrustedAction\<close> went through.\<close>

lemma trusted_permit:
  assumes "AuthorizeTrustedAction cr r st az x = (Inr resp, st')" "aa_Permit resp = Some cred"
  obtains q p d grant i key life where "q = identified (az_request az) (xi_request_id x)"
    "az_resolved az" "UsesStructuredContext (az_request az)" "Validate (az_request az) = None"
    "prepareSemanticAction cr (ro_registry r) q = Inr p"
    "pd_Authorized (Policy_Evaluate (ro_policy r) q (xi_policy_now x))"
    "d = Policy_Evaluate (ro_policy r) (checked_request q (pe_action p) (pe_policyFacts p)) (xi_recheck_now x)"
    "granted d = Some grant" "ar_PolicyDecision (aa_Decision resp) = d"
    "as_Enabled (MemoryStore_Authority (rw_store st) (request_authority_key q))"
    "life = permit_lifetime (ro_permitTTL r) 0 (mg_Constraints grant) (da_ExpiresAt (EffectiveAuthority q)) (xi_started x)"
    "second \<le> life" "ttl_ok life" "action_Validate (pe_action p) = None" "ac_ExecutionBinding (pe_action p) \<noteq> []"
    "action_Digest cr (pe_action p) = Inr (cl_ActionDigest (ip_Claims i))"
    "ip_Claims i = issue_claims (ro_issuer r) key (permit_request r q (policyObligations d) (pe_action p)
       (cl_ActionDigest (ip_Claims i)) (az_workloadBinding az) ClassExecution life
       (as_Epoch (MemoryStore_Authority (rw_store st) (request_authority_key q))))
       (ip_PermitID i) (time_truncate_second (xi_issue_now x))"
    "Static_CurrentSigningKey (is_keyProvider (ro_issuer r)) = Inr key"
    "SignToken cr (sk_PrivateKey key) (sk_KeyID key) (ip_Claims i) = Inr (ip_token i)"
    "record_at (rw_store st) (ip_PermitID i) = None"
    "rw_store st' = put_record (ip_PermitID i) (issued_record (ip_Claims i)) (rw_store st)"
    "cl_ExpiresAt (ip_Claims i) = cl_IssuedAt (ip_Claims i) + life div second" "cred = credentialFor i"
    "ip_PermitID i = newPermitID (xi_permit_random x)" "\<not> authority_changed (rw_store st) (ip_Claims i)"
proof -
  have az: "az_resolved az" "UsesStructuredContext (az_request az)"
    "authorizeResolvedAction cr r st (az_request az) (az_provenance az) (az_workloadBinding az) ClassExecution 0 x = (Inr resp, st')"
    using assms(1) by (auto simp: AuthorizeTrustedAction_def split: if_splits)
  define q where "q = identified (az_request az) (xi_request_id x)"
  obtain d ob resolved digest issued s' where run: "Validate (az_request az) = None"
    "decide cr r (captured_authority (rw_store st) q ClassExecution) q ClassExecution (xi_policy_now x) (xi_recheck_now x) = (d, ob, resolved)"
    "decision_digest cr q d resolved = Inr digest" "aa_Permit resp = map_option credentialFor issued" "rw_store st' = s'"
    "ar_PolicyDecision (aa_Decision resp) = d"
    "case granted d of None \<Rightarrow> issued = None \<and> s' = rw_store st
     | Some grant \<Rightarrow> \<exists>p. issued = Some p \<and> issuePermit cr r (rw_store st) q grant ob (resolvedActionOrDefault cr resolved q grant)
         digest (xi_started x) (az_workloadBinding az) ClassExecution 0
         (as_Epoch (captured_authority (rw_store st) q ClassExecution)) (xi_permit_random x) (xi_issue_now x) = (Inr p, s')"
    by (rule authorize_success [OF az(3), folded q_def]) blast
  obtain grant where g: "granted d = Some grant" using run(4,7) assms(2) by (cases "granted d") auto
  obtain i where i: "issued = Some i" "issuePermit cr r (rw_store st) q grant ob (resolvedActionOrDefault cr resolved q grant)
      digest (xi_started x) (az_workloadBinding az) ClassExecution 0
      (as_Epoch (captured_authority (rw_store st) q ClassExecution)) (xi_permit_random x) (xi_issue_now x) = (Inr i, s')"
    using run(7) g by auto
  obtain p where p: "prepareSemanticAction cr (ro_registry r) q = Inr p" "resolved = Some (pe_action p)"
    "as_Enabled (captured_authority (rw_store st) q ClassExecution)" "pd_Authorized (Policy_Evaluate (ro_policy r) q (xi_policy_now x))"
    "d = Policy_Evaluate (ro_policy r) (checked_request q (pe_action p) (pe_policyFacts p)) (xi_recheck_now x)"
    "ob = policyObligations d" by (rule decide_granted [OF run(2) g])
  have au: "captured_authority (rw_store st) q ClassExecution = MemoryStore_Authority (rw_store st) (request_authority_key q)"
    by (simp add: captured_authority_def)
  obtain key life where k:
    "life = permit_lifetime (ro_permitTTL r) 0 (mg_Constraints grant) (da_ExpiresAt (EffectiveAuthority q)) (xi_started x)"
    "second \<le> life" "ttl_ok life"
    "ip_Claims i = issue_claims (ro_issuer r) key (permit_request r q ob (pe_action p) digest
       (az_workloadBinding az) ClassExecution life (as_Epoch (captured_authority (rw_store st) q ClassExecution)))
       (ip_PermitID i) (time_truncate_second (xi_issue_now x))"
    "Static_CurrentSigningKey (is_keyProvider (ro_issuer r)) = Inr key"
    "SignToken cr (sk_PrivateKey key) (sk_KeyID key) (ip_Claims i) = Inr (ip_token i)"
    "record_at (rw_store st) (ip_PermitID i) = None" "s' = put_record (ip_PermitID i) (issued_record (ip_Claims i)) (rw_store st)"
    "cl_ExpiresAt (ip_Claims i) = cl_IssuedAt (ip_Claims i) + life div second"
    "ip_PermitID i = newPermitID (xi_permit_random x)" "\<not> authority_changed (rw_store st) (ip_Claims i)"
    by (rule issuePermit_parts [OF i(2)]) (simp add: p(2) resolvedActionOrDefault_def)
  have dig: "digest = cl_ActionDigest (ip_Claims i)"
    unfolding k(4) by (simp add: issue_claims_def permit_request_def)
  have dg: "action_Digest cr (pe_action p) = Inr digest"
    using run(3) granted_Some [OF g] by (simp add: decision_digest_def p(2) resolvedActionOrDefault_def)
  have act: "action_Validate (pe_action p) = None" "ac_ExecutionBinding (pe_action p) \<noteq> []"
    by (rule Prepare_facts [OF p(1) [unfolded prepareSemanticAction_def Let_def]], simp)+
  show thesis
    by (rule that [OF q_def az(1,2) run(1) p(1,4,5) g run(6) p(3) [unfolded au] k(1-3) act dg [unfolded dig]
        k(4) [unfolded au p(6) dig] k(5-7) run(5) [unfolded k(8)] k(9) _ k(10,11)])
      (use assms(2) run(4) i(1) in simp)
qed

section \<open>A call that fails\<close>

text \<open>No permit and no envelope of the second state is new.\<close>

definition nothing_new :: "router_state \<Rightarrow> router_state \<Rightarrow> bool" where
  "nothing_new st st' \<longleftrightarrow>
    (\<forall>i p. record_at (rw_store st') i = Some p \<and> pr_State p = StateIssued \<longrightarrow> record_at (rw_store st) i = Some p)
    \<and> (\<forall>i e. mget (rw_permits st') i = Some e \<longrightarrow> mget (rw_permits st) i = Some e)"

lemma nothing_new_same: "rw_store st' = rw_store st \<Longrightarrow> rw_permits st' = rw_permits st \<Longrightarrow> nothing_new st st'"
  by (simp add: nothing_new_def)

text \<open>The withdrawal of a permit that was registered a moment before.\<close>

lemma withdraw_nothing_new:
  assumes "rw_store u = put_record (ip_PermitID p) (issued_record (ip_Claims p)) (rw_store st)"
    "cl_PermitID (ip_Claims p) = ip_PermitID p"
    "\<And>i. i \<noteq> ip_PermitID p \<Longrightarrow> mget (rw_permits u) i = mget (rw_permits st) i"
  shows "nothing_new st (withdraw_permit (Some p) now u)"
proof -
  obtain rec err s' where v: "MemoryStore_Revoke (rw_store u) (ip_PermitID p) now = (rec, err, s')" by (rule prod_cases3)
  have closed: "\<exists>q. s' = put_record (ip_PermitID p) q (rw_store u) \<and> pr_State q \<noteq> StateIssued"
    using v by (auto simp: MemoryStore_Revoke_def assms(1) Let_def put_record_def split: option.splits if_splits)
  have w: "withdraw_permit (Some p) now u = (set_store s' u)\<lparr>rw_permits := mdel (ip_PermitID p) (rw_permits u)\<rparr>"
    by (simp add: withdraw_permit_def assms(2) v Let_def)
  obtain q where q: "s' = put_record (ip_PermitID p) q (rw_store u)" "pr_State q \<noteq> StateIssued" using closed by blast
  show ?thesis using q assms(3)
    by (auto simp: nothing_new_def w assms(1) split: if_splits)
qed

lemma record_decision_failure:
  assumes "record_decision cr r u q prov d ob digest issued x = (Inl e, st')"
    "issued = None \<Longrightarrow> rw_store u = rw_store st"
    "\<And>p. issued = Some p \<Longrightarrow> rw_store u = put_record (ip_PermitID p) (issued_record (ip_Claims p)) (rw_store st)
      \<and> cl_PermitID (ip_Claims p) = ip_PermitID p"
    "rw_permits u = rw_permits st"
  shows "nothing_new st st'"
proof (cases rule: record_decision_cases [of cr r u q prov d ob digest issued x])
  case (recorded detection' audit' entry)
  then show ?thesis using assms(1) by simp
next
  case (unrecorded detection' audit' e' entry)
  define t where "t = u\<lparr>rw_permits := kept_permits (kept_envelope q d issued) u, rw_detection := detection', rw_audit := audit'\<rparr>"
  have st': "st' = withdraw_permit issued (xi_revoke_now x) t" using unrecorded(1) assms(1) by (simp add: t_def)
  show ?thesis
  proof (cases issued)
    case None
    show ?thesis unfolding st' None
      by (rule nothing_new_same)
        (simp_all add: withdraw_permit_def t_def None kept_envelope_def kept_permits_def assms(2) [OF None] assms(4))
  next
    case (Some p)
    note i = assms(3) [OF Some]
    have "mget (rw_permits t) k = mget (rw_permits st) k" if "k \<noteq> ip_PermitID p" for k
      using that i by (auto simp: t_def kept_permits_def kept_envelope_def Some assms(4) envelopeFor_def Let_def
        split: option.split)
    then show ?thesis unfolding st' Some by (intro withdraw_nothing_new) (use i in \<open>simp_all add: t_def\<close>)
  qed
qed

lemma trusted_failure:
  assumes "AuthorizeTrustedAction cr r st az x = (Inl e, st')"
  shows "nothing_new st st'"
proof (cases "az_resolved az \<and> UsesStructuredContext (az_request az) \<and> Validate (az_request az) = None")
  case False
  then have "st' = st"
    using assms by (auto simp: AuthorizeTrustedAction_def authorizeResolvedAction_def split: if_splits option.splits)
  then show ?thesis by (simp add: nothing_new_same)
next
  case True
  define q where "q = identified (az_request az) (xi_request_id x)"
  define a where "a = captured_authority (rw_store st) q ClassExecution"
  define prov where "prov = (if vn_EstablishedAt (az_provenance az) = zero_time
    then (az_provenance az)\<lparr>vn_EstablishedAt := xi_started x\<rparr> else az_provenance az)"
  obtain d ob resolved where d: "decide cr r a q ClassExecution (xi_policy_now x) (xi_recheck_now x) = (d, ob, resolved)"
    by (rule prod_cases3)
  have v: "Validate (az_request az) = None" using True by blast
  have az: "authorizeResolvedAction cr r st (az_request az) (az_provenance az) (az_workloadBinding az) ClassExecution 0 x = (Inl e, st')"
    using assms True by (simp add: AuthorizeTrustedAction_def)
  note run = az [unfolded authorizeResolvedAction_def Let_def q_def [symmetric] a_def [symmetric] prov_def [symmetric] v d
    option.case prod.case]
  show ?thesis
  proof (cases "decision_digest cr q d resolved")
    case (Inl err)
    then show ?thesis using run by (simp add: nothing_new_same)
  next
    case (Inr digest)
    note run1 = run [unfolded Inr sum.case]
    show ?thesis
    proof (cases "granted d")
      case None
      show ?thesis by (rule record_decision_failure) (use run1 None in auto)
    next
      case (Some grant)
      obtain out s' where i: "issuePermit cr r (rw_store st) q grant ob (resolvedActionOrDefault cr resolved q grant) digest
          (xi_started x) (az_workloadBinding az) ClassExecution 0 (as_Epoch a) (xi_permit_random x) (xi_issue_now x) = (out, s')"
        by (rule prod.exhaust)
      note run2 = run1 [unfolded Some option.case i prod.case]
      show ?thesis
      proof (cases out)
        case (Inl err)
        have "s' = rw_store st"
          using i Inl by (auto simp: issuePermit_def Let_def split: if_splits prod.splits sum.splits dest!: Issue_error_keeps)
        then show ?thesis using run2 Inl by (auto intro: nothing_new_same)
      next
        case (Inr p)
        have p: "s' = put_record (ip_PermitID p) (issued_record (ip_Claims p)) (rw_store st)" "cl_PermitID (ip_Claims p) = ip_PermitID p"
          by (rule issuePermit_parts [OF i [unfolded Inr]], simp add: issue_claims_def)+
        show ?thesis
          by (rule record_decision_failure [where u = "set_store s' st" and issued = "Some p"]) (use run2 Inr p in auto)
      qed
    qed
  qed
qed

end
