(* ===== verification/Router_Samples.thy ===== *)
theory Router_Samples
  imports Router_Evidence Policy_Properties Samples
begin

text \<open>
  A router for the witnesses: the policy of \<open>Policy_Properties\<close>, one payment profile, the signing key
  and the executor key of \<open>Samples\<close>.
\<close>

definition sample_payment :: payment_config where
  "sample_payment =
    \<lparr>py_ProfileID = PaymentSendV1ID, py_MCPTool = ''payment.send'', py_Capability = ''pay.send'', py_Resource = ''acct'',
     py_Operation = ''create'', py_Audience = ''bank'', py_UpstreamURL = ''http://bank'',
     py_AllowedCurrencies = [''EUR''], py_MaxAmountMinorByCurrency = [(''EUR'', 500)], py_AllowedRecipients = [''bob'']\<rparr>"

definition sample_profile :: payment_profile where
  "sample_profile =
    \<lparr>pf_binding = ''sha256:'' @ replicate 64 (CHR ''b''), pf_config = sample_payment, pf_currencies = [(''EUR'', 500)],
     pf_recipients = [''bob''],
     pf_upstream = \<lparr>ur_Scheme = ''http'', ur_Host = ''bank'', ur_HasUser = False, ur_Fragment = [], ur_RawQuery = [],
                    ur_ForceQuery = False, ur_String = ''http://bank''\<rparr>\<rparr>"

definition sample_registry :: registry where
  "sample_registry =
    \<lparr>rs_byTool = [(''payment.send'', PaymentSendV1 sample_profile)],
     rs_byProfileID = [(PaymentSendV1ID, PaymentSendV1 sample_profile)]\<rparr>"

definition sample_router :: router where
  "sample_router =
    \<lparr>ro_policy = sample_policy, ro_risk = Some sample_policy, ro_permitTTL = 30 * second, ro_policyVersion = ''v1'',
     ro_issuer = sample_issuer, ro_registry = Some sample_registry\<rparr>"

definition sample_state :: router_state where
  "sample_state =
    \<lparr>rw_verifier = sample_verifier, rw_guard = \<lparr>gs_store = NewMemoryStore, gs_nonces = Some NewNonceStore\<rparr>,
     rw_permits = [], rw_audit = \<lparr>au_path = [], au_records = [], au_log = []\<rparr>,
     rw_detection = Some (NewDetection (cf_SessionControls sample_policy))\<rparr>"

definition sample_payment_request :: request where
  "sample_payment_request =
    sample_pay_request\<lparr>rq_Action := (rq_Action sample_pay_request)
      \<lparr>aq_Arguments := ''{\"amount_minor\":5,\"currency\":\"EUR\",\"recipient\":\"bob\"}''\<rparr>\<rparr>"

definition sample_inputs :: authorize_inputs where
  "sample_inputs =
    \<lparr>xi_started = sample_now, xi_request_id = NoRandom 0, xi_policy_now = sample_now, xi_decision_id = NoRandom 0,
     xi_recheck_now = sample_now, xi_permit_random = replicate 16 (CHR ''r''), xi_issue_now = sample_now,
     xi_finished = sample_now, xi_write = WriteOk, xi_revoke_now = sample_now\<rparr>"

definition sample_authorization :: authorization where
  "sample_authorization =
    \<lparr>az_request = sample_payment_request,
     az_provenance = \<lparr>vn_Source = ''static'', vn_ProviderID = ''p'', vn_Assurance = ''configured'', vn_EstablishedAt = sample_now\<rparr>,
     az_workloadBinding = \<lparr>wb_KeyID = ''x1'', wb_PublicKeyThumbprint = sha256_text sample_crypto (replicate 32 (CHR ''e''))\<rparr>,
     az_resolved = True\<rparr>"

section \<open>What it decides\<close>


definition sample_payment_action :: action where
  "sample_payment_action =
    \<lparr>ac_PrincipalID = ''alice'', ac_AgentID = ''agent'', ac_WorkloadID = ''w'',
     ac_DelegatedAuthorityFingerprint = ''sha256:6161616161616161616161616161616161616161616161616161616161616161'',
     ac_Tool = ''payment.send'', ac_Capability = ''pay.send'', ac_Resource = ''acct'', ac_Operation = ''create'',
     ac_ProfileID = PaymentSendV1ID, ac_Audience = ''bank'', ac_ExecutionBinding = pf_binding sample_profile,
     ac_Arguments = aq_Arguments (rq_Action sample_payment_request)\<rparr>"

definition sample_prepared :: prepared where
  "sample_prepared =
    \<lparr>pe_action = sample_payment_action, pe_arguments = ac_Arguments sample_payment_action,
     pe_upstreamURL = ''http://bank'',
     pe_policyFacts = \<lparr>sf_SideEffect = ''financial_transaction'', sf_Bytes = 53\<rparr>\<rparr>"

definition sample_payment_authority :: authority_state where
  "sample_payment_authority = captured_authority (rw_store sample_state) sample_payment_request ClassExecution"

definition sample_payment_digest :: string where
  "sample_payment_digest = ''sha256:7b226167656e745f6964223a226167656e74222c22617267756d656e7473223a''"

definition sample_payment_permit :: issue_request where
  "sample_payment_permit =
    permit_request sample_router sample_payment_request no_obligations sample_payment_action sample_payment_digest
      (az_workloadBinding sample_authorization) ClassExecution (30 * second) 1"

definition sample_payment_id :: string where "sample_payment_id = ''p_cnJycnJycnJycnJycnJycg''"

definition sample_payment_claims :: claims where
  "sample_payment_claims = issue_claims sample_issuer sample_provider sample_payment_permit sample_payment_id sample_now"

definition sample_payment_token :: string where
  "sample_payment_token =
    (case SignToken sample_crypto (sk_PrivateKey sample_provider) (sk_KeyID sample_provider) sample_payment_claims of
       Inl _ \<Rightarrow> [] | Inr t \<Rightarrow> t)"

definition sample_payment_issued :: issued_permit where
  "sample_payment_issued =
    \<lparr>ip_PermitID = sample_payment_id, ip_Claims = sample_payment_claims, ip_token = sample_payment_token\<rparr>"

definition sample_decided :: "policy_decision \<times> obligations \<times> action option" where
  "sample_decided = decide sample_crypto sample_router sample_payment_authority sample_payment_request ClassExecution
     sample_now sample_now"

definition sample_granted :: matched_grant where "sample_granted = the (granted (fst sample_decided))"

section \<open>What it decides\<close>

lemma sample_payment_valid: "Validate sample_payment_request = None"
  by code_simp

lemma sample_prepares: "prepareSemanticAction sample_crypto (Some sample_registry) sample_payment_request = Inr sample_prepared"
  by code_simp

lemma sample_decides: "sample_decided = (fst sample_decided, no_obligations, Some sample_payment_action)"
proof -
  have "snd sample_decided = (no_obligations, Some sample_payment_action)" by code_simp
  then show ?thesis by (simp add: prod_eq_iff)
qed

lemma sample_grants: "granted (fst sample_decided) = Some sample_granted"
proof -
  have "granted (fst sample_decided) \<noteq> None" by code_simp
  then show ?thesis by (auto simp: sample_granted_def)
qed

lemma sample_payment_digests: "action_Digest sample_crypto sample_payment_action = Inr sample_payment_digest"
  by code_simp

lemma sample_payment_claims_valid: "Claims_Validate sample_payment_claims = None"
  by code_simp

lemma sample_payment_signs:
  "SignToken sample_crypto (sk_PrivateKey sample_provider) ''k1'' sample_payment_claims = Inr sample_payment_token"
proof -
  have "ValidateKeyID ''k1'' = None" by code_simp
  then show ?thesis
    using sample_payment_claims_valid unfolding sample_payment_token_def
    by (simp add: SignToken_def sample_provider_def PrivateKeySize_def Let_def sample_payment_claims_def issue_claims_def)
qed

lemma sample_payment_issues:
  "issuePermit sample_crypto sample_router NewMemoryStore sample_payment_request sample_granted no_obligations
     sample_payment_action sample_payment_digest sample_now (az_workloadBinding sample_authorization) ClassExecution 0 1
     (replicate 16 (CHR ''r'')) sample_now
   = (Inr sample_payment_issued, put_record sample_payment_id (issued_record sample_payment_claims) NewMemoryStore)"
proof -
  have life: "permit_lifetime (ro_permitTTL sample_router) 0 (mg_Constraints sample_granted)
      (da_ExpiresAt (EffectiveAuthority sample_payment_request)) sample_now = 30 * second" by code_simp
  have "Static_CurrentSigningKey (is_keyProvider sample_issuer) = Inr sample_provider"
    "newPermitID (replicate 16 (CHR ''r'')) = sample_payment_id"
    "ttl_ok (effective_ttl sample_payment_permit)" "ir_PermitID sample_payment_permit = []"
    "time_truncate_second sample_now = sample_now" "sk_KeyID sample_provider = ''k1''" "\<not> 30 * second < second"
    "ro_issuer sample_router = sample_issuer" by code_simp+
  moreover have "MemoryStore_Register NewMemoryStore sample_payment_claims
      = (None, put_record sample_payment_id (issued_record sample_payment_claims) NewMemoryStore)"
  proof -
    have "cl_PermitID sample_payment_claims = sample_payment_id" "\<not> authority_changed NewMemoryStore sample_payment_claims"
      by code_simp+
    then show ?thesis using sample_payment_claims_valid
      by (simp add: MemoryStore_Register_def NewMemoryStore_def mget_def)
  qed
  ultimately show ?thesis using sample_payment_claims_valid sample_payment_signs
    unfolding issuePermit_def life Let_def sample_payment_permit_def [symmetric] sample_payment_issued_def
    by (simp add: Issuer_Issue_def Let_def sample_payment_claims_def)
qed

text \<open>The call over any audit store and outcome of its write.\<close>

definition sample_run :: "audit_store \<Rightarrow> write_outcome \<Rightarrow> (router_error + authorization_response) \<times> router_state" where
  "sample_run audit w = AuthorizeTrustedAction sample_crypto sample_router (sample_state\<lparr>rw_audit := audit\<rparr>)
     sample_authorization (sample_inputs\<lparr>xi_write := w\<rparr>)"

definition sample_registered :: "audit_store \<Rightarrow> router_state" where
  "sample_registered audit =
    set_store (put_record sample_payment_id (issued_record sample_payment_claims) NewMemoryStore) (sample_state\<lparr>rw_audit := audit\<rparr>)"

lemma sample_run_records:
  "sample_run audit w = record_decision sample_crypto sample_router (sample_registered audit) sample_payment_request
     (az_provenance sample_authorization) (fst sample_decided) no_obligations sample_payment_digest
     (Some sample_payment_issued) (sample_inputs\<lparr>xi_write := w\<rparr>)"
proof -
  define prov where "prov = az_provenance sample_authorization"
  define d where "d = fst sample_decided"
  define x where "x = sample_inputs\<lparr>xi_write := w\<rparr>"
  have ev: "az_resolved sample_authorization" "UsesStructuredContext sample_payment_request"
    "az_request sample_authorization = sample_payment_request" "vn_EstablishedAt prov \<noteq> zero_time"
    "as_Epoch sample_payment_authority = 1" unfolding prov_def by code_simp+
  have "rq_RequestID sample_payment_request \<noteq> []" by code_simp
  then have id: "identified sample_payment_request e = sample_payment_request" for e by (simp add: identified_def)
  have inp: "xi_started x = sample_now" "xi_policy_now x = sample_now" "xi_recheck_now x = sample_now"
    "xi_issue_now x = sample_now" "xi_permit_random x = replicate 16 (CHR ''r'')"
    "rw_store (sample_state\<lparr>rw_audit := audit\<rparr>) = NewMemoryStore"
    by (simp_all add: x_def sample_inputs_def sample_state_def)
  have au: "captured_authority NewMemoryStore sample_payment_request ClassExecution = sample_payment_authority"
    by (simp add: sample_payment_authority_def sample_state_def)
  have dec: "decide sample_crypto sample_router sample_payment_authority sample_payment_request ClassExecution sample_now sample_now
      = (d, no_obligations, Some sample_payment_action)"
    using sample_decides unfolding d_def sample_decided_def [symmetric] .
  have g: "granted d = Some sample_granted" using sample_grants by (simp add: d_def)
  have dig: "decision_digest sample_crypto sample_payment_request d (Some sample_payment_action) = Inr sample_payment_digest"
    using granted_Some [OF g] sample_payment_digests by (simp add: decision_digest_def resolvedActionOrDefault_def)
  have act: "resolvedActionOrDefault sample_crypto (Some sample_payment_action) sample_payment_request sample_granted = sample_payment_action"
    by (simp add: resolvedActionOrDefault_def)
  show ?thesis
    unfolding sample_run_def x_def [symmetric] prov_def [symmetric] d_def [symmetric] sample_registered_def
      AuthorizeTrustedAction_def authorizeResolvedAction_def Let_def ev(3)
      sample_payment_valid option.case id inp au ev(5) dec prod.case dig sum.case g
      act sample_payment_issues using ev(1,2,4) by simp
qed

definition sample_answer :: "(router_error + authorization_response) \<times> router_state" where
  "sample_answer = AuthorizeTrustedAction sample_crypto sample_router sample_state sample_authorization sample_inputs"

lemma sample_answer_run: "sample_answer = sample_run (rw_audit sample_state) WriteOk"
proof -
  have "sample_inputs\<lparr>xi_write := WriteOk\<rparr> = sample_inputs" by (simp add: sample_inputs_def)
  then show ?thesis by (simp add: sample_answer_def sample_run_def)
qed

lemma sample_authorizes:
  obtains resp where "sample_answer = (Inr resp, snd sample_answer)" "aa_Permit resp = Some (credentialFor sample_payment_issued)"
    "ar_PolicyDecision (aa_Decision resp) = fst sample_decided"
    "rw_store (snd sample_answer) = put_record sample_payment_id (issued_record sample_payment_claims) NewMemoryStore"
    "gs_nonces (rw_guard (snd sample_answer)) = Some NewNonceStore"
    "rw_permits (snd sample_answer) = kept_permits (kept_envelope sample_payment_request (fst sample_decided) (Some sample_payment_issued)) sample_state"
proof -
  define x where "x = sample_inputs\<lparr>xi_write := WriteOk\<rparr>"
  define st1 where "st1 = sample_registered (rw_audit sample_state)"
  define d where "d = fst sample_decided"
  note run = sample_run_records [of "rw_audit sample_state" WriteOk, folded sample_answer_run x_def st1_def d_def]
  show thesis
  proof (cases rule: record_decision_cases [of sample_crypto sample_router st1 sample_payment_request "az_provenance sample_authorization"
      d no_obligations sample_payment_digest "Some sample_payment_issued" x])
    case (recorded detection' audit' entry)
    have a: "fst sample_answer = Inr \<lparr>aa_Decision = entry, aa_Permit = Some (credentialFor sample_payment_issued)\<rparr>"
      "rw_guard (snd sample_answer) = rw_guard st1"
      "rw_permits (snd sample_answer) = kept_permits (kept_envelope sample_payment_request d (Some sample_payment_issued)) st1"
      unfolding run recorded(1) by simp_all
    show thesis
      by (rule that [of "\<lparr>aa_Decision = entry, aa_Permit = Some (credentialFor sample_payment_issued)\<rparr>"])
        (use a recorded(2) in \<open>simp_all add: d_def st1_def sample_registered_def prod_eq_iff sample_state_def\<close>)
  next
    case (unrecorded detection' audit' e entry)
    have "fst (Audit_Append (xi_write x) entry (rw_audit st1)) = None" by (simp add: Append_outcome x_def)
    then show thesis using unrecorded(2) by simp
  qed
qed

text \<open>With a log that cannot be written the call fails.\<close>

definition sample_log :: audit_store where
  "sample_log = \<lparr>au_path = ''audit.jsonl'', au_records = [], au_log = []\<rparr>"

lemma sample_unrecorded: "\<exists>e. fst (sample_run sample_log WriteFailed) = Inl e"
proof -
  define x where "x = sample_inputs\<lparr>xi_write := WriteFailed\<rparr>"
  note run = sample_run_records [of sample_log WriteFailed, folded x_def]
  show ?thesis
  proof (cases rule: record_decision_cases [of sample_crypto sample_router "sample_registered sample_log" sample_payment_request
      "az_provenance sample_authorization" "fst sample_decided" no_obligations sample_payment_digest "Some sample_payment_issued" x])
    case (recorded detection' audit' entry)
    have "fst (Audit_Append (xi_write x) entry (rw_audit (sample_registered sample_log))) \<noteq> None"
      by (simp add: Append_outcome x_def sample_registered_def sample_log_def)
    then show ?thesis using recorded(5) by simp
  next
    case (unrecorded detection' audit' e entry)
    then show ?thesis unfolding run by simp
  qed
qed

section \<open>An execution of its permit\<close>

definition sample_payment_proof_claims :: proof_claims where
  "sample_payment_proof_claims =
    \<lparr>pc_PermitID = sample_payment_id, pc_ActionDigest = sample_payment_digest, pc_HTTPMethod = ''POST'', pc_HTTPPath = ''/mcp'',
     pc_IssuedAt = 1000, pc_Nonce = ''n1''\<rparr>"

definition sample_payment_proof :: string where
  "sample_payment_proof =
    (case Proof_Sign sample_crypto sample_executor ''x1'' sample_payment_proof_claims of Inl _ \<Rightarrow> [] | Inr t \<Rightarrow> t)"

lemma sample_payment_trusted: "token_trusted sample_crypto sample_verifier sample_payment_token sample_payment_claims"
proof -
  have ev: "int64 (cl_IssuedAt sample_payment_claims)" "int64 (cl_ExpiresAt sample_payment_claims)"
    "cr_public sample_crypto (sk_PrivateKey sample_provider) = replicate 32 (CHR ''s'')"
    "Static_VerificationKey sample_crypto (vf_keyProvider sample_verifier) (cl_SigningKeyID sample_payment_claims) =
      Inr (replicate 32 (CHR ''s''))" by code_simp+
  then show ?thesis
    using SignToken_VerifyToken [OF sample_payment_signs sample_signature_ok] by (simp add: token_trusted_def)
qed

lemma sample_payment_signs_proof: "Proof_Sign sample_crypto sample_executor ''x1'' sample_payment_proof_claims = Inr sample_payment_proof"
proof -
  have "ValidateKeyID ''x1'' = None" "ProofClaims_Validate sample_payment_proof_claims = None"
    "length sample_executor = PrivateKeySize" by code_simp+
  then show ?thesis unfolding sample_payment_proof_def by (simp add: Proof_Sign_def Let_def)
qed

lemma sample_payment_proof_checks:
  "check_proof sample_crypto sample_verifier sample_payment_claims sample_payment_proof ''POST'' ''/mcp'' sample_now =
     Some (''x1'', sample_payment_proof_claims)"
proof -
  have "utf8_valid (pc_PermitID sample_payment_proof_claims)" "int64 (pc_IssuedAt sample_payment_proof_claims)"
    "Registry_VerificationKey (vf_workloadKeys sample_verifier) ''x1'' = Inr (cr_public sample_crypto sample_executor)"
    "''x1'' = cl_ExecutorKeyID sample_payment_claims"
    "sha256_text sample_crypto (cr_public sample_crypto sample_executor) = cl_ExecutorKeyThumbprint sample_payment_claims"
    "pc_PermitID sample_payment_proof_claims = cl_PermitID sample_payment_claims"
    "pc_ActionDigest sample_payment_proof_claims = cl_ActionDigest sample_payment_claims"
    "\<not> proof_stale sample_verifier sample_payment_proof_claims sample_now" by code_simp+
  from check_proof_accepts [OF sample_payment_signs_proof sample_signature_ok this]
  show ?thesis by (simp add: sample_payment_proof_claims_def)
qed

lemma sample_payment_binding: "actionBindingOutcome sample_crypto sample_payment_action sample_payment_claims = OutcomeVerified"
proof -
  have "action_Validate sample_payment_action = None" by code_simp
  then show ?thesis unfolding sample_payment_claims_def sample_payment_permit_def
    by (rule issued_binding [OF _ sample_payment_digests])
qed

lemma sample_payment_admissible:
  "admissible sample_crypto sample_verifier (rw_guard (snd sample_answer)) sample_payment_token sample_payment_proof
     sample_payment_action ''POST'' ''/mcp'' sample_now sample_now sample_payment_claims"
proof -
  obtain resp where s: "gs_store (rw_guard (snd sample_answer)) = put_record sample_payment_id (issued_record sample_payment_claims) NewMemoryStore"
    "gs_nonces (rw_guard (snd sample_answer)) = Some NewNonceStore"
    by (rule sample_authorizes)
  have id: "cl_PermitID sample_payment_claims = sample_payment_id" by (simp add: sample_payment_claims_def issue_claims_def)
  have rec: "\<exists>r. record_at (gs_store (rw_guard (snd sample_answer))) (cl_PermitID sample_payment_claims) = Some r
      \<and> pr_Claims r = sample_payment_claims \<and> pr_State r = StateIssued" by (simp add: s(1) id issued_record_def)
  have au: "\<not> authority_changed (gs_store (rw_guard (snd sample_answer))) sample_payment_claims"
    unfolding s(1) by code_simp
  have nonce: "fst (NonceStore_Use (gs_nonces (rw_guard (snd sample_answer))) ''x1'' (pc_Nonce sample_payment_proof_claims)
      (unix_of sample_now) (proof_expiry sample_verifier sample_payment_proof_claims))"
    unfolding s(2) by code_simp
  have "cl_PermitClass sample_payment_claims = ClassExecution" "cl_Issuer sample_payment_claims = vf_expectedIssuer sample_verifier"
    "IssuedTime sample_payment_claims \<le> sample_now" "sample_now < ExpiresTime sample_payment_claims"
    "cl_Obligations sample_payment_claims = no_obligations" by code_simp+
  then show ?thesis
    using rec au nonce sample_payment_trusted sample_payment_proof_checks sample_payment_binding
    unfolding admissible_def by (simp add: admissible_def)
qed

end
