(* ===== verification/Router_Properties.thy ===== *)
theory Router_Properties
  imports Router_Samples
begin

text \<open>
  The properties of the router (\<open>internal/router/router.go\<close>), each with a concrete instance.
\<close>

section \<open>Authorization\<close>

text \<open>C10: a permit answered by \<open>AuthorizeTrustedAction\<close> carries all of its evidence. The authorization was resolved
  and structured and the request valid; the semantic profile prepared the action; the policy authorised the request
  and, after preparation, the prepared operation; the authority was enabled and its epoch is in the claims. The
  claims are fresh and registered, of the execution class, bind exactly the prepared action, a non-empty
  configuration digest and the executor key of the intake, and carry the obligations of the decision. The lifetime
  is at least one second and within the configured one and the time the delegation had left.\<close>

theorem trusted_permit_evidence:
  assumes "AuthorizeTrustedAction cr r st az x = (Inr resp, st')" "aa_Permit resp = Some cred"
  shows "\<exists>q p d grant c. q = identified (az_request az) (xi_request_id x)
    \<and> az_resolved az \<and> UsesStructuredContext (az_request az) \<and> Validate (az_request az) = None
    \<and> prepareSemanticAction cr (ro_registry r) q = Inr p
    \<and> pd_Authorized (Policy_Evaluate (ro_policy r) q (xi_policy_now x))
    \<and> d = Policy_Evaluate (ro_policy r) (checked_request q (pe_action p) (pe_policyFacts p)) (xi_recheck_now x)
    \<and> pd_Authorized d \<and> pd_Grant d = Some grant \<and> ar_PolicyDecision (aa_Decision resp) = d
    \<and> as_Enabled (MemoryStore_Authority (rw_store st) (request_authority_key q))
    \<and> cl_AuthorityEpoch c = as_Epoch (MemoryStore_Authority (rw_store st) (request_authority_key q))
    \<and> record_at (rw_store st) (pk_PermitID cred) = None
    \<and> record_at (rw_store st') (pk_PermitID cred) = Some (issued_record c)
    \<and> cl_PermitClass c = ClassExecution \<and> cl_SingleUse c
    \<and> actionBindingOutcome cr (pe_action p) c = OutcomeVerified \<and> cl_ExecutionBinding c \<noteq> []
    \<and> cl_ExecutorKeyID c = wb_KeyID (az_workloadBinding az)
    \<and> cl_ExecutorKeyThumbprint c = wb_PublicKeyThumbprint (az_workloadBinding az)
    \<and> cl_Obligations c = policyObligations d
    \<and> 1 \<le> cl_ExpiresAt c - cl_IssuedAt c \<and> (cl_ExpiresAt c - cl_IssuedAt c) * second \<le> ro_permitTTL r
    \<and> (\<forall>t. da_ExpiresAt (EffectiveAuthority q) = Some t \<longrightarrow>
         (cl_ExpiresAt c - cl_IssuedAt c) * second \<le> t - xi_started x)"
proof -
  obtain q p d grant i key life where t: "q = identified (az_request az) (xi_request_id x)"
    "az_resolved az" "UsesStructuredContext (az_request az)" "Validate (az_request az) = None"
    "prepareSemanticAction cr (ro_registry r) q = Inr p"
    "pd_Authorized (Policy_Evaluate (ro_policy r) q (xi_policy_now x))"
    "d = Policy_Evaluate (ro_policy r) (checked_request q (pe_action p) (pe_policyFacts p)) (xi_recheck_now x)"
    "granted d = Some grant" "ar_PolicyDecision (aa_Decision resp) = d"
    "as_Enabled (MemoryStore_Authority (rw_store st) (request_authority_key q))"
    and l: "life = permit_lifetime (ro_permitTTL r) 0 (mg_Constraints grant) (da_ExpiresAt (EffectiveAuthority q)) (xi_started x)"
    "second \<le> life" "ttl_ok life"
    and a: "action_Validate (pe_action p) = None" "ac_ExecutionBinding (pe_action p) \<noteq> []"
    "action_Digest cr (pe_action p) = Inr (cl_ActionDigest (ip_Claims i))"
    and c: "ip_Claims i = issue_claims (ro_issuer r) key (permit_request r q (policyObligations d) (pe_action p)
       (cl_ActionDigest (ip_Claims i)) (az_workloadBinding az) ClassExecution life
       (as_Epoch (MemoryStore_Authority (rw_store st) (request_authority_key q))))
       (ip_PermitID i) (time_truncate_second (xi_issue_now x))"
    and s: "record_at (rw_store st) (ip_PermitID i) = None"
    "rw_store st' = put_record (ip_PermitID i) (issued_record (ip_Claims i)) (rw_store st)"
    "cl_ExpiresAt (ip_Claims i) = cl_IssuedAt (ip_Claims i) + life div second" "cred = credentialFor i"
    by (rule trusted_permit [OF assms]) blast
  have bind: "actionBindingOutcome cr (pe_action p) (ip_Claims i) = OutcomeVerified"
    by (subst c) (rule issued_binding [OF a(1,3)])
  have claims: "cl_AuthorityEpoch (ip_Claims i) = as_Epoch (MemoryStore_Authority (rw_store st) (request_authority_key q))"
    "cl_PermitClass (ip_Claims i) = ClassExecution" "cl_SingleUse (ip_Claims i)" "cl_ExecutionBinding (ip_Claims i) \<noteq> []"
    "cl_ExecutorKeyID (ip_Claims i) = wb_KeyID (az_workloadBinding az)"
    "cl_ExecutorKeyThumbprint (ip_Claims i) = wb_PublicKeyThumbprint (az_workloadBinding az)"
    "cl_Obligations (ip_Claims i) = policyObligations d"
    by (subst c, simp add: issue_claims_def permit_request_def a(2))+
  have cut: "second * (life div second) \<le> life" "1 \<le> life div second" using l(2) by simp_all
  note bounds = lifetime_bounds [OF l(2) [unfolded l(1)], folded l(1)]
  have life: "1 \<le> cl_ExpiresAt (ip_Claims i) - cl_IssuedAt (ip_Claims i)"
    "(cl_ExpiresAt (ip_Claims i) - cl_IssuedAt (ip_Claims i)) * second \<le> ro_permitTTL r"
    "da_ExpiresAt (EffectiveAuthority q) = Some t \<Longrightarrow> (cl_ExpiresAt (ip_Claims i) - cl_IssuedAt (ip_Claims i)) * second \<le> t - xi_started x" for t
    using s(3) cut bounds(1) bounds(4) [of t] by (simp_all add: mult.commute)
  have cred: "pk_PermitID cred = ip_PermitID i" using s(4) by (simp add: credentialFor_def Let_def)
  show ?thesis
    by (intro exI [of _ q] exI [of _ p] exI [of _ d] exI [of _ grant] exI [of _ "ip_Claims i"])
      (use t granted_Some [OF t(8)] claims bind life cred s(1,2) in simp)
qed

theorem trusted_permit_evidence_witness:
  "\<exists>c. record_at (rw_store (snd sample_answer)) sample_payment_id = Some (issued_record c)
    \<and> actionBindingOutcome sample_crypto sample_payment_action c = OutcomeVerified \<and> cl_AuthorityEpoch c = 1"
proof -
  obtain resp where resp: "sample_answer = (Inr resp, snd sample_answer)" "aa_Permit resp = Some (credentialFor sample_payment_issued)"
    by (rule sample_authorizes)
  obtain q p c where t: "q = identified (az_request sample_authorization) (xi_request_id sample_inputs)"
    "prepareSemanticAction sample_crypto (ro_registry sample_router) q = Inr p"
    "record_at (rw_store (snd sample_answer)) (pk_PermitID (credentialFor sample_payment_issued)) = Some (issued_record c)"
    "actionBindingOutcome sample_crypto (pe_action p) c = OutcomeVerified"
    "cl_AuthorityEpoch c = as_Epoch (MemoryStore_Authority (rw_store sample_state) (request_authority_key q))"
    using trusted_permit_evidence [OF resp(1) [unfolded sample_answer_def] resp(2), folded sample_answer_def] by blast
  have q: "q = sample_payment_request" unfolding t(1) by code_simp
  have "ro_registry sample_router = Some sample_registry" by (simp add: sample_router_def)
  then have "p = sample_prepared" using t(2) sample_prepares by (simp add: q)
  moreover have "pk_PermitID (credentialFor sample_payment_issued) = sample_payment_id"
    by (simp add: credentialFor_def Let_def sample_payment_issued_def)
  moreover have "as_Epoch (MemoryStore_Authority (rw_store sample_state) (request_authority_key sample_payment_request)) = 1"
    by code_simp
  ultimately show ?thesis using t(3-5) by (auto simp: q sample_prepared_def)
qed

text \<open>C9: what an agent was permitted is what can be executed. When the router's permit is presented to a verifier
  with the router's signing key and an execution is allowed, in whatever state and for whatever request, the action
  equals the one the semantic profile prepared (unless the hash collides), the policy authorised exactly that
  operation without any obligation, the proof is by the executor key of the intake, and the time is within the
  delegation, counted from the reading at the start of the call. In particular a permit with obligations never
  executes.\<close>

theorem executed_action_was_prepared:
  assumes "AuthorizeTrustedAction cr r st az x = (Inr resp, st')" "aa_Permit resp = Some cred"
    and "signature_ok cr" "- 62135596800 \<le> unix_of (xi_issue_now x)"
    and "unix_of (xi_issue_now x) + 900 \<le> 9223371974719179007"
    and "vf_keyProvider v = is_keyProvider (ro_issuer r)"
    and "Result_Allowed (fst (VerifyExecutionAndConsume cr v g (pk_PermitToken cred) proofToken a m path now later))"
  shows "\<exists>q p d pk. q = identified (az_request az) (xi_request_id x) \<and> prepareSemanticAction cr (ro_registry r) q = Inr p
    \<and> d = Policy_Evaluate (ro_policy r) (checked_request q (pe_action p) (pe_policyFacts p)) (xi_recheck_now x)
    \<and> pd_Authorized d \<and> policyObligations d = no_obligations
    \<and> (collision cr \<or> (same_binding (pe_action p) a \<and> (\<exists>y z. arguments_value (pe_action p) = Inr y
         \<and> arguments_value a = Inr z \<and> sort_json y = sort_json z)))
    \<and> Registry_VerificationKey (vf_workloadKeys v) (wb_KeyID (az_workloadBinding az)) = Inr pk
    \<and> sha256_text cr pk = wb_PublicKeyThumbprint (az_workloadBinding az)
    \<and> (\<forall>t. da_ExpiresAt (EffectiveAuthority q) = Some t \<and> now \<noteq> zero_time \<longrightarrow>
         now < t + (xi_issue_now x - xi_started x))"
proof -
  obtain q p d grant i key life where t: "q = identified (az_request az) (xi_request_id x)"
    "prepareSemanticAction cr (ro_registry r) q = Inr p"
    "d = Policy_Evaluate (ro_policy r) (checked_request q (pe_action p) (pe_policyFacts p)) (xi_recheck_now x)"
    "granted d = Some grant"
    and l: "life = permit_lifetime (ro_permitTTL r) 0 (mg_Constraints grant) (da_ExpiresAt (EffectiveAuthority q)) (xi_started x)"
    "second \<le> life" "ttl_ok life"
    and act: "action_Validate (pe_action p) = None" "action_Digest cr (pe_action p) = Inr (cl_ActionDigest (ip_Claims i))"
    and c: "ip_Claims i = issue_claims (ro_issuer r) key (permit_request r q (policyObligations d) (pe_action p)
       (cl_ActionDigest (ip_Claims i)) (az_workloadBinding az) ClassExecution life
       (as_Epoch (MemoryStore_Authority (rw_store st) (request_authority_key q))))
       (ip_PermitID i) (time_truncate_second (xi_issue_now x))"
    and k: "Static_CurrentSigningKey (is_keyProvider (ro_issuer r)) = Inr key"
    "SignToken cr (sk_PrivateKey key) (sk_KeyID key) (ip_Claims i) = Inr (ip_token i)"
    and e: "cl_ExpiresAt (ip_Claims i) = cl_IssuedAt (ip_Claims i) + life div second" "cred = credentialFor i"
    by (rule trusted_permit [OF assms(1,2)]) blast
  have token: "pk_PermitToken cred = ip_token i" by (simp add: e(2) credentialFor_def Let_def IssuedPermit_Token_def)
  have issued: "cl_IssuedAt (ip_Claims i) = unix_of (xi_issue_now x)"
    by (subst c) (simp add: issue_claims_def unix_of_def time_truncate_second_def)
  have "int64 (cl_IssuedAt (ip_Claims i))" "int64 (cl_ExpiresAt (ip_Claims i))"
    using assms(4,5) e(1) issue_window(2,3) [OF l(3)] by (simp_all add: issued int64_def min_int64_def max_int64_def)
  then have verifies: "VerifyToken cr (cr_public cr (sk_PrivateKey key)) (ip_token i) = Inr (ip_Claims i)"
    "TokenKeyID (ip_token i) = Inr (sk_KeyID key)" using SignToken_VerifyToken [OF k(2) assms(3)] by blast+
  have "cl_SigningKeyID (ip_Claims i) = sk_KeyID key" by (subst c) (simp add: issue_claims_def)
  then have trusted: "token_trusted cr v (ip_token i) (ip_Claims i)"
    using static_keys.resolves [OF k(1)] verifies(1) assms(6) by (simp add: token_trusted_def)
  obtain c' keyID pc where adm: "token_trusted cr v (ip_token i) c'" "actionBindingOutcome cr a c' = OutcomeVerified"
    "cl_Obligations c' = no_obligations" "check_proof cr v c' proofToken m path now = Some (keyID, pc)"
    "now = zero_time \<or> now < ExpiresTime c'"
    using allowed_admissible [OF assms(7)] unfolding token by (auto simp: admissible_def)
  have same: "c' = ip_Claims i" by (rule token_trusted_unique [OF adm(1) trusted])
  have bind: "actionBindingOutcome cr (pe_action p) (ip_Claims i) = OutcomeVerified"
    by (subst c) (rule issued_binding [OF act])
  obtain pk where pk: "Registry_VerificationKey (vf_workloadKeys v) keyID = Inr pk" "keyID = cl_ExecutorKeyID c'"
    "sha256_text cr pk = cl_ExecutorKeyThumbprint c'" by (rule check_proof_some [OF adm(4)])
  have claims: "cl_ExecutorKeyID (ip_Claims i) = wb_KeyID (az_workloadBinding az)"
    "cl_ExecutorKeyThumbprint (ip_Claims i) = wb_PublicKeyThumbprint (az_workloadBinding az)"
    "cl_Obligations (ip_Claims i) = policyObligations d"
    by (subst c, simp add: issue_claims_def permit_request_def)+
  have alive: "now < u + (xi_issue_now x - xi_started x)"
    if "da_ExpiresAt (EffectiveAuthority q) = Some u" "now \<noteq> zero_time" for u
  proof -
    have "life \<le> u - xi_started x"
      using lifetime_bounds(4) [OF l(2) [unfolded l(1)] that(1)] l(1) by simp
    moreover have "now < (unix_of (xi_issue_now x) + life div second) * second"
      using adm(5) that(2) e(1) assms(4,5) issue_window(2,3) [OF l(3)]
      by (simp add: same issued ExpiresTime_def time_unix_small)
    moreover have "unix_of (xi_issue_now x) * second \<le> xi_issue_now x" by (simp add: unix_of_def)
    ultimately show ?thesis by (simp add: algebra_simps)
  qed
  show ?thesis
    by (intro exI [of _ q] exI [of _ p] exI [of _ d] exI [of _ pk])
      (use t granted_Some [OF t(4)] binding_same_action [OF bind adm(2) [unfolded same]] pk adm(3) claims alive same in auto)
qed

theorem executed_action_was_prepared_witness:
  "\<exists>pk. Registry_VerificationKey (vf_workloadKeys sample_verifier) (wb_KeyID (az_workloadBinding sample_authorization)) = Inr pk
    \<and> sha256_text sample_crypto pk = wb_PublicKeyThumbprint (az_workloadBinding sample_authorization)"
proof -
  obtain resp where resp: "sample_answer = (Inr resp, snd sample_answer)" "aa_Permit resp = Some (credentialFor sample_payment_issued)"
    by (rule sample_authorizes)
  have ev: "- 62135596800 \<le> unix_of (xi_issue_now sample_inputs)"
    "unix_of (xi_issue_now sample_inputs) + 900 \<le> 9223371974719179007"
    "vf_keyProvider sample_verifier = is_keyProvider (ro_issuer sample_router)" by code_simp+
  have "pk_PermitToken (credentialFor sample_payment_issued) = sample_payment_token"
    by (simp add: credentialFor_def Let_def IssuedPermit_Token_def sample_payment_issued_def)
  then have "Result_Allowed (fst (VerifyExecutionAndConsume sample_crypto sample_verifier (rw_guard (snd sample_answer))
      (pk_PermitToken (credentialFor sample_payment_issued)) sample_payment_proof sample_payment_action ''POST'' ''/mcp''
      sample_now sample_now))"
    using admissible_executes(1) [OF sample_payment_admissible] by simp
  from executed_action_was_prepared [OF resp(1) [unfolded sample_answer_def] resp(2) sample_signature_ok ev this]
  show ?thesis by blast
qed

text \<open>C13: advice never decides. Two runs of \<open>AuthorizeTrustedAction\<close> that differ only in the risk configuration, the
  detection history, the contents of the audit log and the advisory fields of the request (input sources, parent
  event, claimed intent, planned actions) answer the same permit, decision, obligations or error, and leave the
  same permits, nonces and envelopes.\<close>

theorem advisory_never_decides:
  assumes "same_authority_state st1 st2"
    and "Validate (az_request az) = None" "Validate (advisory_fields s p i l (az_request az)) = None"
    and "AuthorizeTrustedAction cr r st1 az x = (out1, t1)"
    and "AuthorizeTrustedAction cr (r\<lparr>ro_risk := k\<rparr>) st2 (az\<lparr>az_request := advisory_fields s p i l (az_request az)\<rparr>) x = (out2, t2)"
  shows "permit_part out1 = permit_part out2 \<and> rw_guard t1 = rw_guard t2 \<and> rw_permits t1 = rw_permits t2"
proof (cases "az_resolved az \<and> UsesStructuredContext (az_request az)")
  case True
  show ?thesis
    by (rule authorize_agree [OF assms(1-3)])
      (use True assms(4,5) in \<open>simp_all add: AuthorizeTrustedAction_def\<close>)
next
  case False
  then show ?thesis using assms(1,4,5)
    by (auto simp: AuthorizeTrustedAction_def same_authority_state_def permit_part_def split: if_splits)
qed

definition advised_answer :: "(router_error + authorization_response) \<times> router_state" where
  "advised_answer = AuthorizeTrustedAction sample_crypto (sample_router\<lparr>ro_risk := None\<rparr>) (sample_state\<lparr>rw_detection := None\<rparr>)
     (sample_authorization\<lparr>az_request := advisory_fields [] ''event-1'' ''intent'' [''plan''] sample_payment_request\<rparr>) sample_inputs"

theorem advisory_never_decides_witness:
  "\<exists>resp. fst advised_answer = Inr resp \<and> aa_Permit resp = Some (credentialFor sample_payment_issued)"
proof -
  obtain resp where resp: "sample_answer = (Inr resp, snd sample_answer)" "aa_Permit resp = Some (credentialFor sample_payment_issued)"
    by (rule sample_authorizes)
  have az: "az_request sample_authorization = sample_payment_request" by (simp add: sample_authorization_def)
  have v: "Validate (advisory_fields [] ''event-1'' ''intent'' [''plan''] sample_payment_request) = None" by code_simp
  have st: "same_authority_state sample_state (sample_state\<lparr>rw_detection := None\<rparr>)" by (simp add: same_authority_state_def)
  have "permit_part (Inr resp) = permit_part (fst advised_answer)"
    using advisory_never_decides [where k = None, OF st _ _ resp(1) [unfolded sample_answer_def], unfolded az, OF sample_payment_valid v
        prod.collapse [symmetric], folded advised_answer_def] by blast
  then show ?thesis using resp(2) by (cases "fst advised_answer") (auto simp: permit_part_def)
qed

text \<open>C14: a call that fails leaves nothing to execute: whatever the error, a permit that is issued in the new state
  was issued before with the same record, and no envelope is new. In particular a permit whose audit record could
  not be written is revoked and its envelope dropped.\<close>

theorem failed_authorization_leaves_no_permit:
  assumes "AuthorizeTrustedAction cr r st az x = (Inl e, st')"
  shows "(\<forall>i p. record_at (rw_store st') i = Some p \<and> pr_State p = StateIssued \<longrightarrow> record_at (rw_store st) i = Some p)
    \<and> (\<forall>i envelope. mget (rw_permits st') i = Some envelope \<longrightarrow> mget (rw_permits st) i = Some envelope)"
  using trusted_failure [OF assms] unfolding nothing_new_def .

theorem failed_authorization_leaves_no_permit_witness:
  "\<not> (\<exists>p. record_at (rw_store (snd (sample_run sample_log WriteFailed))) sample_payment_id = Some p \<and> pr_State p = StateIssued)"
proof -
  obtain e where e: "fst (sample_run sample_log WriteFailed) = Inl e" using sample_unrecorded by blast
  have run: "AuthorizeTrustedAction sample_crypto sample_router (sample_state\<lparr>rw_audit := sample_log\<rparr>) sample_authorization
      (sample_inputs\<lparr>xi_write := WriteFailed\<rparr>) = (Inl e, snd (sample_run sample_log WriteFailed))"
    using e by (simp add: sample_run_def prod_eq_iff)
  have "record_at (rw_store (sample_state\<lparr>rw_audit := sample_log\<rparr>)) sample_payment_id = None"
    by (simp add: sample_state_def NewMemoryStore_def)
  then show ?thesis using failed_authorization_leaves_no_permit [OF run] by auto
qed

end
