(* ===== verification/Component_Properties.thy ===== *)
theory Component_Properties
  imports Router_Samples
begin

text \<open>
  The properties of the components around the router: the observer of runtime events, the detection
  engine, the audit log and the trusted intakes.
\<close>

section \<open>Observer\<close>

text \<open>C17: \<open>Evaluate\<close> of the observer accepts exactly the events that are bound to the envelope, permits exactly the
  bound ones that stay within it, and terminates the execution in every other case.\<close>

theorem observer_permits_iff:
  "(rv_Accepted (Observer_Evaluate p e now) \<longleftrightarrow> event_bound p e now)
   \<and> (rv_WithinEnvelope (Observer_Evaluate p e now) \<longleftrightarrow> event_bound p e now \<and> event_within p e)
   \<and> (rv_Terminated (Observer_Evaluate p e now) \<longleftrightarrow> \<not> (event_bound p e now \<and> event_within p e))
   \<and> (rv_Violations (Observer_Evaluate p e now) = [] \<longleftrightarrow> event_bound p e now \<and> event_within p e)"
  by (simp add: observer_simps)

section \<open>Audit log\<close>

text \<open>C18: the audit log recovers, with the limits of its reader. Let the log be opened and used by any appends,
  updates and mutations whose failed writes leave no complete record. If a restart from the file succeeds, it answers
  every record that memory answers. It does succeed when the file had only whole lines of at most 65535 bytes and no
  write was broken off or longer than that; and once the file holds a longer record or a broken line, no restart
  succeeds.\<close>

theorem audit_log_recovers:
  assumes "path \<noteq> []" "NewStore len path fl = Inr s0" "list_all (honest len) ops" "s1 = fold audit_step ops s0"
  shows "(\<forall>i r s2. i \<noteq> [] \<longrightarrow> Audit_Get s1 i = Some r \<longrightarrow> NewStore len path (audit_left s1) = Inr s2 \<longrightarrow> Audit_Get s2 i = Some r)
    \<and> (list_all (line_ok len) (au_log s0) \<longrightarrow> list_all (writes_lines len) ops \<longrightarrow>
        (\<exists>s2. NewStore len path (audit_left s1) = Inr s2))
    \<and> ((\<exists>r. WholeLine r \<in> set (au_log s1) \<and> 65535 < len r) \<or> (\<exists>r n. TornLine r n \<in> set (au_log s1) \<and> n < len r) \<longrightarrow>
        \<not> (\<exists>s2. NewStore len path (audit_left s1) = Inr s2))"
proof (intro conjI allI impI)
  have s0: "au_path s0 \<noteq> []" using opened_store(2) [OF assms(1,2)] assms(1) by simp
  note link = audit_run_link [OF opened_store(1) [OF assms(1,2)] s0 assms(3), folded assms(4)]
  show "Audit_Get s2 i = Some r"
    if "i \<noteq> []" "Audit_Get s1 i = Some r" "NewStore len path (audit_left s1) = Inr s2" for i r s2
    using link that(1,2) restart_store(1) [OF assms(1) that(3)] by (simp add: log_link_def latest_load)
  show "\<exists>s2. NewStore len path (audit_left s1) = Inr s2"
    if "list_all (line_ok len) (au_log s0)" "list_all (writes_lines len) ops"
    using load_file_ok [OF audit_run_lines [OF that, folded assms(4)]] restart_answers [OF assms(1)] by blast
  show "\<not> (\<exists>s2. NewStore len path (audit_left s1) = Inr s2)"
    if "(\<exists>r. WholeLine r \<in> set (au_log s1) \<and> 65535 < len r) \<or> (\<exists>r n. TornLine r n \<in> set (au_log s1) \<and> n < len r)"
  proof -
    have "\<exists>c \<in> set (au_log s1). settled len c \<and> \<not> line_ok len c"
      using that by (elim disjE exE conjE; force simp: max_line_def)
    then obtain c where c: "c \<in> set (au_log s1)" "settled len c" "\<not> line_ok len c" by blast
    obtain cs ds where "au_log s1 = cs @ c # ds" using split_list [OF c(1)] by blast
    then show ?thesis using long_record_blocks_restart [OF assms(1)] c(2,3) by blast
  qed
qed

definition sample_entry :: audit_record where
  "sample_entry = verification_record (initial_result sample_now) SourceGatewayEnforced ''verify-1'' ''decision-1''"

definition sample_audit :: audit_store where
  "sample_audit = fold audit_step [OpAppend WriteOk sample_entry, OpAppend WriteFailed sample_entry]
     \<lparr>au_path = ''audit.jsonl'', au_records = [], au_log = []\<rparr>"

text \<open>A log with one record of 400 bytes opens again and answers it; a record of 70000 bytes keeps it shut.\<close>

theorem audit_log_recovers_witness:
  "(\<exists>s2. NewStore (\<lambda>r. 400) ''audit.jsonl'' (audit_left sample_audit) = Inr s2 \<and> Audit_Get s2 ''verify-1'' = Some sample_entry)
   \<and> \<not> (\<exists>s2. NewStore (\<lambda>r. 70000) ''audit.jsonl'' (audit_left sample_audit) = Inr s2)"
proof -
  have id: "ar_RequestID sample_entry = ''verify-1''" by (simp add: sample_entry_def verification_record_def Let_def)
  have new: "NewStore len ''audit.jsonl'' AuditMissing = Inr \<lparr>au_path = ''audit.jsonl'', au_records = [], au_log = []\<rparr>" for len
    by (simp add: NewStore_def)
  have log: "au_log sample_audit = [WholeLine sample_entry]"
    by (simp add: sample_audit_def Audit_Append_def persist_def)
  have got: "Audit_Get sample_audit ''verify-1'' = Some sample_entry"
    by (simp add: sample_audit_def Audit_Append_def persist_def keep_recent_def id latest_def)
  have honest: "list_all (honest len) [OpAppend WriteOk sample_entry, OpAppend WriteFailed sample_entry]" for len
    by (simp add: faithful_write_def id)
  have path: "''audit.jsonl'' \<noteq> []" by simp
  note use = audit_log_recovers [OF path new honest sample_audit_def]
  have one: "\<exists>s2. NewStore (\<lambda>r. 400) ''audit.jsonl'' (audit_left sample_audit) = Inr s2"
    using use [of "\<lambda>r. 400", THEN conjunct2, THEN conjunct1] by (simp add: whole_write_def max_line_def)
  then obtain s2 where s2: "NewStore (\<lambda>r. 400) ''audit.jsonl'' (audit_left sample_audit) = Inr s2" ..
  have "Audit_Get s2 ''verify-1'' = Some sample_entry"
    using use [of "\<lambda>r. 400", THEN conjunct1, rule_format, OF _ got s2] by simp
  moreover have "\<not> (\<exists>s2. NewStore (\<lambda>r. 70000) ''audit.jsonl'' (audit_left sample_audit) = Inr s2)"
    using use [of "\<lambda>r. 70000", THEN conjunct2, THEN conjunct2] unfolding log by simp
  ultimately show ?thesis using s2 by blast
qed

section \<open>Detection\<close>

text \<open>After any sequence of requests, with any base scores, every session of the detection engine keeps its
  cumulative risk between zero and one hundred, remembers at most 128 events, all of them in its order, and counts
  protected reads from zero.\<close>

theorem detection_sessions_bounded:
  "detection_ok (fold (\<lambda>(req, baseRisk) e. snd (Detection_Evaluate e req baseRisk)) requests (NewDetection controls))"
  by (rule detection_run_ok) (simp add: detection_ok_def NewDetection_def)

section \<open>Intake\<close>

text \<open>C19: the static and the proxy intake take no identity from the caller. Two proposals that differ in their claimed
  principal, agent, authority and flat identity fields only resolve to the same authorization, and a resolved one
  keeps the proposed action and tool and carries a valid executor key.\<close>

theorem intake_identity_not_from_caller:
  assumes "identity_free r = identity_free q" "UsesStructuredContext r = UsesStructuredContext q"
  shows "Static_Resolve p h r now = Static_Resolve p h q now \<and> Proxy_Resolve nl pr h r now = Proxy_Resolve nl pr h q now
    \<and> (\<forall>a. Static_Resolve p h r now = Inr a \<or> Proxy_Resolve nl pr h r now = Inr a \<longrightarrow>
         EffectiveAction (az_request a) = EffectiveAction r \<and> EffectiveTool (az_request a) = EffectiveTool r
         \<and> safeProviderID (wb_KeyID (az_workloadBinding a)) \<and> isSHA256Thumbprint (wb_PublicKeyThumbprint (az_workloadBinding a)))"
proof (intro conjI allI impI)
  show "Static_Resolve p h r now = Static_Resolve p h q now" by (rule static_intakes.identity_ignored [OF assms])
  show "Proxy_Resolve nl pr h r now = Proxy_Resolve nl pr h q now" by (rule proxies.identity_ignored [OF assms])
qed (auto dest: static_intakes.resolve_keeps_action [OF TrueI] static_intakes.resolve_binds_workload [OF TrueI]
  proxies.resolve_keeps_action [OF TrueI] proxies.resolve_binds_workload [OF TrueI])

definition sample_identity :: identity_context where
  "sample_identity =
    \<lparr>id_Principal = rq_Principal sample_pay_request, id_Agent = rq_Agent sample_pay_request,
     id_DelegatedAuthority = rq_Authority sample_pay_request, id_WorkloadBinding = az_workloadBinding sample_authorization\<rparr>"

definition forged_request :: request where
  "forged_request = sample_pay_request\<lparr>rq_Principal := (rq_Principal sample_pay_request)\<lparr>pn_PrincipalID := ''mallory''\<rparr>\<rparr>"

theorem intake_identity_not_from_caller_witness:
  "Static_Resolve (Some \<lparr>sn_identity = sample_identity, sn_providerID = ''p''\<rparr>) None forged_request sample_now
    = Static_Resolve (Some \<lparr>sn_identity = sample_identity, sn_providerID = ''p''\<rparr>) None sample_pay_request sample_now"
proof -
  have "identity_free forged_request = identity_free sample_pay_request"
    "UsesStructuredContext forged_request = UsesStructuredContext sample_pay_request" by code_simp+
  then show ?thesis using intake_identity_not_from_caller by blast
qed

end
