(* ===== verification/Lifecycle_Properties.thy ===== *)
theory Lifecycle_Properties
  imports Router_Samples
begin

text \<open>
  The properties of a permit after it was issued: runtime events that terminate it and the
  completion of its execution (\<open>internal/router/router.go\<close>).
\<close>

section \<open>What the audit does not touch\<close>

lemma mutate_audit_keeps [simp]:
  "rw_guard (snd (mutate_audit w i f st)) = rw_guard st" "rw_permits (snd (mutate_audit w i f st)) = rw_permits st"
  by (auto simp: mutate_audit_def split: prod.split sum.split)

lemma revoke_closes:
  assumes "MemoryStore_Revoke s i now = (rec, e, s')"
  shows "\<not> (\<exists>p. record_at s' i = Some p \<and> pr_State p = StateIssued)"
  using assms by (auto simp: MemoryStore_Revoke_def Let_def split: option.splits if_splits)

lemma terminate_closes:
  "mget (rw_permits (terminate_permit i now st)) i = None"
  "\<not> (\<exists>p. record_at (rw_store (terminate_permit i now st)) i = Some p \<and> pr_State p = StateIssued)"
proof -
  obtain rec e s' where v: "MemoryStore_Revoke (rw_store st) i now = (rec, e, s')" by (rule prod_cases3)
  show "mget (rw_permits (terminate_permit i now st)) i = None" by (simp add: terminate_permit_def v)
  show "\<not> (\<exists>p. record_at (rw_store (terminate_permit i now st)) i = Some p \<and> pr_State p = StateIssued)"
    using revoke_closes [OF v] by (simp add: terminate_permit_def v)
qed

section \<open>Runtime events\<close>

text \<open>The event as the router evaluates it: without a time of its own it gets the reading of the clock.\<close>

definition stamped :: "runtime_event \<Rightarrow> time \<Rightarrow> runtime_event" where
  "stamped event now = (if re_Timestamp event = zero_time then event\<lparr>re_Timestamp := now\<rparr> else event)"

lemma stamped_simps [simp]:
  "validateRuntimeMetadata (stamped event now) = validateRuntimeMetadata event"
  "re_PermitID (stamped event now) = re_PermitID event"
  by (simp_all add: stamped_def validateRuntimeMetadata_def)

text \<open>C15: a runtime event of a known permit that is not bound to its envelope or exceeds it ends the permit: the answer
  is terminated, the envelope is dropped and the permit is no longer issued in the store. An event within the
  envelope changes neither permits nor envelopes.\<close>

theorem runtime_violation_revokes:
  assumes "IngestRuntimeEvent st event now w = ((evaluation, err), st')"
    and "validateRuntimeMetadata event = None" "mget (rw_permits st) (re_PermitID event) = Some permit"
  shows "if event_bound permit (stamped event now) now \<and> event_within permit (stamped event now)
    then \<not> rv_Terminated evaluation \<and> rw_guard st' = rw_guard st \<and> rw_permits st' = rw_permits st
    else rv_Terminated evaluation \<and> mget (rw_permits st') (en_PermitID permit) = None
      \<and> \<not> (\<exists>p. record_at (rw_store st') (en_PermitID permit) = Some p \<and> pr_State p = StateIssued)"
proof -
  define e where "e = stamped event now"
  define ev where "ev = Observer_Evaluate permit e now"
  define st1 where "st1 = (if rv_Terminated ev then terminate_permit (en_PermitID permit) now st else st)"
  have v: "validateRuntimeMetadata e = None" "mget (rw_permits st) (re_PermitID e) = Some permit"
    using assms(2,3) by (simp_all add: e_def)
  have run: "evaluation = ev" "st' = snd (mutate_audit w (en_RequestID permit) (record_event e ev now) st1)"
    using assms(1) unfolding IngestRuntimeEvent_def Let_def stamped_def [symmetric] e_def [symmetric] v option.case
      ev_def [symmetric] st1_def [symmetric] by (auto split: prod.splits)
  have t: "rv_Terminated ev \<longleftrightarrow> \<not> (event_bound permit e now \<and> event_within permit e)"
    by (simp add: ev_def observer_simps)
  show ?thesis
  proof (cases "rv_Terminated ev")
    case True
    then show ?thesis using t run terminate_closes [of "en_PermitID permit" now st] by (simp add: st1_def e_def [symmetric])
  next
    case False
    then show ?thesis using t run by (simp add: st1_def e_def [symmetric])
  qed
qed

definition sample_envelope :: authorization_envelope where
  "sample_envelope =
    envelopeFor \<lparr>ip_PermitID = ''p_1'', ip_Claims = sample_claims, ip_token = sample_token\<rparr> ''s1'' open_constraints RouteAllow"

definition executing_state :: "permit_state \<Rightarrow> router_state" where
  "executing_state state =
    sample_state\<lparr>rw_guard := \<lparr>gs_store = put_record ''p_1'' ((issued_record sample_claims)\<lparr>pr_State := state\<rparr>) NewMemoryStore,
                             gs_nonces = Some NewNonceStore\<rparr>,
                 rw_permits := [(''p_1'', sample_envelope)],
                 rw_audit := \<lparr>au_path = [],
                   au_records = [verification_record (initial_result sample_now) SourceGatewayEnforced ''r1'' ''decision-1''],
                   au_log = []\<rparr>\<rparr>"

definition stray_event :: runtime_event where
  "stray_event =
    \<lparr>re_EventID = ''e1'', re_PermitID = ''p_1'', re_RequestID = ''r1'', re_SessionID = [], re_AgentID = ''agent'',
     re_WorkloadID = ''w'', re_Source = SourceGatewayEnforced, re_TrustLevel = TrustEnforced, re_Capability = ''pay.send'',
     re_Tool = ''shell'', re_Operation = ''send'', re_Resource = ''acct'', re_ResourceClass = [], re_DestinationClass = [],
     re_External = False, re_SecretAccess = False, re_SideEffect = [], re_Bytes = 0, re_Timestamp = sample_now\<rparr>"

theorem runtime_violation_revokes_witness:
  "\<not> (\<exists>p. record_at (rw_store (snd (IngestRuntimeEvent (executing_state StateIssued) stray_event sample_now WriteOk))) ''p_1'' = Some p
     \<and> pr_State p = StateIssued)"
proof -
  obtain ev err st' where run: "IngestRuntimeEvent (executing_state StateIssued) stray_event sample_now WriteOk = ((ev, err), st')"
    by (metis prod.exhaust)
  have "validateRuntimeMetadata stray_event = None" by code_simp
  moreover have "mget (rw_permits (executing_state StateIssued)) (re_PermitID stray_event) = Some sample_envelope"
    by (simp add: executing_state_def stray_event_def mget_def)
  moreover have "en_PermitID sample_envelope = ''p_1''" "en_AllowedTool sample_envelope = ''pay''" by code_simp+
  moreover have "re_Tool (stamped stray_event sample_now) = ''shell''" by (simp add: stamped_def stray_event_def)
  ultimately show ?thesis using runtime_violation_revokes [OF run] run by (simp add: event_within_def)
qed

section \<open>Completion\<close>

lemma permit_state_consumed:
  assumes "permit_state_at s i now = (StateConsumed, s')"
  shows "\<exists>p. record_at s i = Some p \<and> pr_State p = StateConsumed"
  using assms by (auto simp: permit_state_at_def MemoryStore_Get_def expireIfNeeded_def Let_def split: option.splits prod.splits if_splits)

lemma completion_parts:
  assumes "completeExecution st c source receivedAt w = (Inr record, st')"
  obtains permit where "mget (rw_permits st) (ec_PermitID c) = Some permit" "en_RequestID permit = ec_RequestID c"
    "trusted_source source \<Longrightarrow> \<exists>p. record_at (rw_store st) (ec_PermitID c) = Some p \<and> pr_State p = StateConsumed"
    "mget (rw_permits st') (ec_PermitID c) = None"
proof -
  have ok: "completion_check c source = None" using assms by (auto simp: completeExecution_def split: option.splits)
  obtain state s1 where s: "permit_state_at (rw_store st) (ec_PermitID c) receivedAt = (state, s1)" by (rule prod.exhaust)
  define st1 where "st1 = (if trusted_source source then set_store s1 st else st)"
  note run = assms [unfolded completeExecution_def ok option.case Let_def s prod.case st1_def [symmetric]]
  have t: "\<not> (trusted_source source \<and> state \<noteq> StateConsumed)" using run by (auto split: if_splits)
  note run1 = run [unfolded if_not_P [OF t]]
  obtain permit where p: "mget (rw_permits st1) (ec_PermitID c) = Some permit" using run1 by (auto split: option.splits)
  note run2 = run1 [unfolded p option.case]
  have r: "en_RequestID permit = ec_RequestID c" using run2 by (auto split: if_splits)
  obtain state' s2 where s2: "permit_state_at (rw_store st1) (ec_PermitID c) receivedAt = (state', s2)" by (rule prod.exhaust)
  have gone: "mget (rw_permits st') (ec_PermitID c) = None"
    using run2 [unfolded s2 prod.case] r by (auto split: if_splits prod.splits sum.splits)
  show thesis
  proof (rule that [OF _ r _ gone])
    show "mget (rw_permits st) (ec_PermitID c) = Some permit" using p by (simp add: st1_def split: if_splits)
  next
    assume "trusted_source source"
    then show "\<exists>p. record_at (rw_store st) (ec_PermitID c) = Some p \<and> pr_State p = StateConsumed"
      using t permit_state_consumed [of "rw_store st" "ec_PermitID c" receivedAt s1] s by auto
  qed
qed

lemma completion_unknown:
  assumes "mget (rw_permits st) (ec_PermitID c) = None"
  shows "\<not> (\<exists>r. fst (completeExecution st c source receivedAt w) = Inr r)"
  by (metis assms completion_parts option.discI prod.collapse)

text \<open>C16: an execution is completed at most once, and a gateway completes only what was executed: a successful
  completion found the envelope of the permit under the same request and removed it, a trusted one found the permit
  consumed, and afterwards no completion of that permit succeeds, whatever its source, time and content.\<close>

theorem completion_once:
  assumes "completeExecution st c source receivedAt w = (Inr record, st')"
  shows "(\<exists>permit. mget (rw_permits st) (ec_PermitID c) = Some permit \<and> en_RequestID permit = ec_RequestID c)
    \<and> (trusted_source source \<longrightarrow> (\<exists>p. record_at (rw_store st) (ec_PermitID c) = Some p \<and> pr_State p = StateConsumed))
    \<and> (ec_PermitID c' = ec_PermitID c \<longrightarrow> \<not> (\<exists>r. fst (completeExecution st' c' source' receivedAt' w') = Inr r))"
  using completion_parts [OF assms] completion_unknown by metis

definition sample_completion :: execution_completion where
  "sample_completion =
    \<lparr>ec_RequestID = ''r1'', ec_PermitID = ''p_1'', ec_Status = ''completed'', ec_BoundaryOutcome = [],
     ec_UpstreamAttempted = True, ec_CompletedAt = sample_now\<rparr>"

definition sample_completed :: "(router_error + audit_record) \<times> router_state" where
  "sample_completed =
    completeExecution (executing_state StateConsumed) sample_completion SourceGatewayEnforced sample_now WriteOk"

theorem completion_once_witness:
  "\<not> (\<exists>r. fst (completeExecution (snd sample_completed) sample_completion SourceGatewayEnforced sample_now WriteOk) = Inr r)"
proof -
  have "\<not> isl (fst sample_completed)" by code_simp
  then obtain r where "sample_completed = (Inr r, snd sample_completed)" by (cases "fst sample_completed") (auto simp: prod_eq_iff)
  from completion_once [OF this [unfolded sample_completed_def], of sample_completion]
  show ?thesis unfolding sample_completed_def by blast
qed

section \<open>A permit can be used\<close>

lemma ascii_permit_id: "utf8_valid (newPermitID random)"
proof -
  have "byte (b64_char n) < 128" if "n < 64" for n using that by (auto simp: b64_char_def)
  then have "ascii (b64_encode s)" for s
    by (induction s rule: b64_encode.induct) (simp_all add: ascii_def)
  then show ?thesis by (intro utf8_valid_ascii) (simp add: newPermitID_def ascii_def)
qed

text \<open>C12: a permit that was answered without obligations can be used. An execution of the prepared action right after
  the call is allowed when the verifier has the issuer's name and key, the executor proves possession of the key the
  intake bound, over the identifier of the permit and the digest of the action, freshly and with a new nonce, and
  the clock is between the issue and the expiry of the credential.\<close>

theorem permit_can_be_used:
  assumes "AuthorizeTrustedAction cr r st az x = (Inr resp, st')" "aa_Permit resp = Some cred"
    and "policyObligations (ar_PolicyDecision (aa_Decision resp)) = no_obligations"
    and "prepareSemanticAction cr (ro_registry r) (identified (az_request az) (xi_request_id x)) = Inr p"
    and "signature_ok cr" "- 62135596800 \<le> unix_of (xi_issue_now x)" "unix_of (xi_issue_now x) + 900 \<le> 9223371974719179007"
    and "vf_keyProvider v = is_keyProvider (ro_issuer r)" "vf_expectedIssuer v = is_name (ro_issuer r)"
    and "Registry_VerificationKey (vf_workloadKeys v) (wb_KeyID (az_workloadBinding az)) = Inr (cr_public cr executor)"
    and "sha256_text cr (cr_public cr executor) = wb_PublicKeyThumbprint (az_workloadBinding az)"
    and "Proof_Sign cr executor (wb_KeyID (az_workloadBinding az)) pc = Inr proofToken" "int64 (pc_IssuedAt pc)"
    and "pc_PermitID pc = pk_PermitID cred" "action_Digest cr (pe_action p) = Inr (pc_ActionDigest pc)"
    and "\<not> proof_stale v pc now"
    and "fst (NonceStore_Use (gs_nonces (rw_guard st')) (wb_KeyID (az_workloadBinding az)) (pc_Nonce pc) (unix_of now) (proof_expiry v pc))"
    and "pk_IssuedAt cred \<le> now" "max now later < pk_ExpiresAt cred"
  shows "Result_Allowed (fst (VerifyExecutionAndConsume cr v (rw_guard st') (pk_PermitToken cred) proofToken (pe_action p)
    (pc_HTTPMethod pc) (pc_HTTPPath pc) now later))"
proof -
  obtain q p' d i key life where t: "q = identified (az_request az) (xi_request_id x)"
    "prepareSemanticAction cr (ro_registry r) q = Inr p'"
    "ar_PolicyDecision (aa_Decision resp) = d"
    and l: "ttl_ok life"
    and act: "action_Validate (pe_action p') = None" "action_Digest cr (pe_action p') = Inr (cl_ActionDigest (ip_Claims i))"
    and c: "ip_Claims i = issue_claims (ro_issuer r) key (permit_request r q (policyObligations d) (pe_action p')
       (cl_ActionDigest (ip_Claims i)) (az_workloadBinding az) ClassExecution life
       (as_Epoch (MemoryStore_Authority (rw_store st) (request_authority_key q))))
       (ip_PermitID i) (time_truncate_second (xi_issue_now x))"
    and k: "Static_CurrentSigningKey (is_keyProvider (ro_issuer r)) = Inr key"
    "SignToken cr (sk_PrivateKey key) (sk_KeyID key) (ip_Claims i) = Inr (ip_token i)"
    and s: "rw_store st' = put_record (ip_PermitID i) (issued_record (ip_Claims i)) (rw_store st)"
    and e: "cl_ExpiresAt (ip_Claims i) = cl_IssuedAt (ip_Claims i) + life div second" "cred = credentialFor i"
    and n: "ip_PermitID i = newPermitID (xi_permit_random x)" "\<not> authority_changed (rw_store st) (ip_Claims i)"
    by (rule trusted_permit [OF assms(1,2)]) blast
  have p: "p' = p" using t(2) assms(4) by (simp add: t(1))
  have cred: "pk_PermitToken cred = ip_token i" "pk_PermitID cred = ip_PermitID i" "pk_IssuedAt cred = IssuedTime (ip_Claims i)"
    "pk_ExpiresAt cred = ExpiresTime (ip_Claims i)"
    by (simp_all add: e(2) credentialFor_def Let_def IssuedPermit_Token_def)
  have issued: "cl_IssuedAt (ip_Claims i) = unix_of (xi_issue_now x)"
    by (subst c) (simp add: issue_claims_def unix_of_def time_truncate_second_def)
  have "int64 (cl_IssuedAt (ip_Claims i))" "int64 (cl_ExpiresAt (ip_Claims i))"
    using assms(6,7) e(1) issue_window(2,3) [OF l] by (simp_all add: issued int64_def min_int64_def max_int64_def)
  then have "VerifyToken cr (cr_public cr (sk_PrivateKey key)) (ip_token i) = Inr (ip_Claims i)"
    using SignToken_VerifyToken [OF k(2) assms(5)] by blast
  moreover have "cl_SigningKeyID (ip_Claims i) = sk_KeyID key" by (subst c) (simp add: issue_claims_def)
  ultimately have trusted: "token_trusted cr v (ip_token i) (ip_Claims i)"
    using static_keys.resolves [OF k(1)] assms(8) by (simp add: token_trusted_def)
  have bind: "actionBindingOutcome cr (pe_action p') (ip_Claims i) = OutcomeVerified"
    by (subst c) (rule issued_binding [OF act])
  have claims: "cl_PermitID (ip_Claims i) = ip_PermitID i" "cl_PermitClass (ip_Claims i) = ClassExecution"
    "cl_Issuer (ip_Claims i) = is_name (ro_issuer r)"
    "cl_ExecutorKeyID (ip_Claims i) = wb_KeyID (az_workloadBinding az)"
    "cl_ExecutorKeyThumbprint (ip_Claims i) = wb_PublicKeyThumbprint (az_workloadBinding az)"
    "cl_Obligations (ip_Claims i) = no_obligations"
    by (subst c, simp add: issue_claims_def permit_request_def assms(3) t(3) [symmetric])+
  have possession: "check_proof cr v (ip_Claims i) proofToken (pc_HTTPMethod pc) (pc_HTTPPath pc) now
      = Some (wb_KeyID (az_workloadBinding az), pc)"
    by (rule check_proof_accepts [OF assms(12,5)])
      (use assms(10,11,13-16) claims cred(2) n(1) ascii_permit_id act(2) p in \<open>simp_all\<close>)
  have "\<exists>rec. record_at (gs_store (rw_guard st')) (cl_PermitID (ip_Claims i)) = Some rec \<and> pr_Claims rec = ip_Claims i
      \<and> pr_State rec = StateIssued" by (simp add: s claims(1) issued_record_def)
  moreover have "\<not> authority_changed (gs_store (rw_guard st')) (ip_Claims i)"
    using n(2) by (simp add: s authority_changed_def authorityLocked_def put_record_def)
  ultimately have "admissible cr v (rw_guard st') (ip_token i) proofToken (pe_action p) (pc_HTTPMethod pc) (pc_HTTPPath pc)
      now later (ip_Claims i)"
    unfolding admissible_def using trusted claims assms(9,17-19) bind [unfolded p] possession cred(3,4) by auto
  then show ?thesis unfolding cred(1) by (rule admissible_executes(1))
qed

theorem permit_can_be_used_witness:
  "Result_Allowed (fst (VerifyExecutionAndConsume sample_crypto sample_verifier (rw_guard (snd sample_answer))
     (pk_PermitToken (credentialFor sample_payment_issued)) sample_payment_proof sample_payment_action ''POST'' ''/mcp''
     sample_now sample_now))"
proof -
  obtain resp where resp: "sample_answer = (Inr resp, snd sample_answer)" "aa_Permit resp = Some (credentialFor sample_payment_issued)"
    "ar_PolicyDecision (aa_Decision resp) = fst sample_decided" "gs_nonces (rw_guard (snd sample_answer)) = Some NewNonceStore"
    by (rule sample_authorizes)
  have ob: "policyObligations (fst sample_decided) = no_obligations" by code_simp
  have reg: "ro_registry sample_router = Some sample_registry" by (simp add: sample_router_def)
  have az: "identified (az_request sample_authorization) (xi_request_id sample_inputs) = sample_payment_request" by code_simp
  have wb: "az_workloadBinding sample_authorization = \<lparr>wb_KeyID = ''x1'', wb_PublicKeyThumbprint = sha256_text sample_crypto (replicate 32 (CHR ''e''))\<rparr>"
    by (simp add: sample_authorization_def)
  have ev: "- 62135596800 \<le> unix_of (xi_issue_now sample_inputs)" "unix_of (xi_issue_now sample_inputs) + 900 \<le> 9223371974719179007"
    "vf_keyProvider sample_verifier = is_keyProvider (ro_issuer sample_router)"
    "vf_expectedIssuer sample_verifier = is_name (ro_issuer sample_router)"
    "Registry_VerificationKey (vf_workloadKeys sample_verifier) ''x1'' = Inr (cr_public sample_crypto sample_executor)"
    "sha256_text sample_crypto (cr_public sample_crypto sample_executor) = sha256_text sample_crypto (replicate 32 (CHR ''e''))"
    "int64 (pc_IssuedAt sample_payment_proof_claims)" "\<not> proof_stale sample_verifier sample_payment_proof_claims sample_now"
    "fst (NonceStore_Use (Some NewNonceStore) ''x1'' (pc_Nonce sample_payment_proof_claims) (unix_of sample_now)
       (proof_expiry sample_verifier sample_payment_proof_claims))"
    "IssuedTime sample_payment_claims \<le> sample_now" "sample_now < ExpiresTime sample_payment_claims" by code_simp+
  have pc: "pc_PermitID sample_payment_proof_claims = sample_payment_id" "pc_ActionDigest sample_payment_proof_claims = sample_payment_digest"
    "pc_HTTPMethod sample_payment_proof_claims = ''POST''" "pc_HTTPPath sample_payment_proof_claims = ''/mcp''"
    by (simp_all add: sample_payment_proof_claims_def)
  show ?thesis
    using permit_can_be_used [OF resp(1) [unfolded sample_answer_def] resp(2), folded sample_answer_def, of sample_prepared
        sample_verifier sample_executor sample_payment_proof_claims sample_payment_proof sample_now sample_now]
    by (simp add: resp(3,4) ob reg az sample_prepares wb ev sample_signature_ok sample_payment_signs_proof sample_prepared_def
      sample_payment_digests pc credentialFor_def Let_def sample_payment_issued_def)
qed

end
