(* ===== verification/Mcp_Proxy.thy ===== *)
theory Mcp_Proxy
  imports Router_Lifecycle
begin

text \<open>
  \<open>internal/adapters/mcp/proxy.go\<close>: the enforcement boundary in front of MCP tools. A
  \<open>tools/call\<close> goes upstream only after the gate verified and consumed its permit; the protocol
  requests of a fixed list pass through.

  A \<open>json.RawMessage\<close> is the text of a value without the white space around it, empty when the
  member is absent. The answer of the upstream is a parameter, a function of the request that was
  sent; the requests that were sent are part of the result. Headers are a Go map with canonical keys,
  as \<open>net/http\<close> gives them. Where the code ranges over a map, the error names one of several keys;
  here it is the first.
\<close>

section \<open>Raw JSON\<close>

text \<open>
  \<open>json.Unmarshal\<close> into \<open>map[string]json.RawMessage\<close>, from after the opening brace: the members in
  the order of the text. One unit of fuel per member, so the length of the text is enough.
\<close>

fun raw_members :: "nat \<Rightarrow> bool \<Rightarrow> (string \<times> string) list \<Rightarrow> string \<Rightarrow> (string \<times> string) list option" where
  "raw_members 0 first acc s = None"
| "raw_members (Suc fuel) first acc s =
    (case next_member first s of
       Inl e \<Rightarrow> None
     | Inr (None, r) \<Rightarrow> if skip_ws r = [] then Some acc else None
     | Inr (Some key, r) \<Rightarrow>
         (case skip_colon r of
            None \<Rightarrow> None
          | Some ks \<Rightarrow>
              let text = skip_ws ks
              in case read_value False (reader_fuel text) 0 text of
                   Inl e \<Rightarrow> None
                 | Inr (v, r2) \<Rightarrow>
                     raw_members fuel False (acc @ [(key, take (length text - length r2) text)]) r2))"

text \<open>The outcome of \<open>Unmarshal\<close> into such a map: an error, a nil map for \<open>null\<close>, or the members.\<close>

datatype raw_map = RawError | RawNil | RawMembers "(string \<times> string) list"

definition unmarshal_raw_map :: "string \<Rightarrow> raw_map" where
  "unmarshal_raw_map raw =
    (case skip_ws raw of
       c # cs \<Rightarrow>
         if c = CHR ''{''
         then (case raw_members (length cs + 1) True [] cs of None \<Rightarrow> RawError | Some ms \<Rightarrow> RawMembers ms)
         else if read_document False raw = Inr JNull then RawNil else RawError
     | [] \<Rightarrow> RawError)"

text \<open>The lookup in the map: the last member of a name wins.\<close>

definition raw_get :: "(string \<times> string) list \<Rightarrow> string \<Rightarrow> string option" where
  "raw_get ms k = map_of (rev ms) k"

text \<open>\<open>json.Unmarshal\<close> into a string that holds \<open>old\<close>.\<close>

definition unmarshal_string :: "string \<Rightarrow> string \<Rightarrow> string option" where
  "unmarshal_string old raw =
    (case read_document False raw of Inr (JStr s) \<Rightarrow> Some s | Inr JNull \<Rightarrow> Some old | _ \<Rightarrow> None)"

text \<open>
  A \<open>RawMessage\<close> inside a marshalled value: \<open>compact\<close> drops the white space outside strings and
  escapes the characters of HTML and the two line separators.
\<close>

fun compact :: "bool \<Rightarrow> string \<Rightarrow> string" where
  "compact inside [] = []"
| "compact False (c # cs) =
    (if json_ws c then compact False cs
     else c # compact (c = quote_char) cs)"
| "compact True (c # cs) =
    (if c = quote_char then c # compact False cs
     else if c = backslash then (case cs of [] \<Rightarrow> [c] | e # es \<Rightarrow> c # e # compact True es)
     else if c = CHR ''<'' \<or> c = CHR ''>'' \<or> c = CHR ''&''
     then [backslash, CHR ''u'', CHR ''0'', CHR ''0'', hex_digit (byte c div 16), hex_digit (byte c mod 16)] @ compact True cs
     else if c = CHR 0xE2 \<and> length cs \<ge> 2 \<and> hd cs = CHR 0x80 \<and> (cs ! 1 = CHR 0xA8 \<or> cs ! 1 = CHR 0xA9)
     then (backslash # ''u202'') @ [hex_digit (byte (cs ! 1) mod 16)] @ compact True (drop 2 cs)
     else c # compact True cs)"

section \<open>The envelope\<close>

record rpc_request =
  rp_JSONRPC :: string
  rp_ID :: string
  rp_Method :: string
  rp_Params :: string

definition zero_rpc :: rpc_request where
  "zero_rpc = \<lparr>rp_JSONRPC = [], rp_ID = [], rp_Method = [], rp_Params = []\<rparr>"

text \<open>The decoding of the members into the struct, once their names are known to be exact.\<close>

fun decode_rpc :: "rpc_request \<Rightarrow> (string \<times> string) list \<Rightarrow> rpc_request option" where
  "decode_rpc r [] = Some r"
| "decode_rpc r ((k, raw) # ms) =
    (if k = ''jsonrpc'' then
       (case unmarshal_string (rp_JSONRPC r) raw of None \<Rightarrow> None | Some s \<Rightarrow> decode_rpc (r\<lparr>rp_JSONRPC := s\<rparr>) ms)
     else if k = ''method'' then
       (case unmarshal_string (rp_Method r) raw of None \<Rightarrow> None | Some s \<Rightarrow> decode_rpc (r\<lparr>rp_Method := s\<rparr>) ms)
     else if k = ''id'' then decode_rpc (r\<lparr>rp_ID := raw\<rparr>) ms
     else if k = ''params'' then decode_rpc (r\<lparr>rp_Params := raw\<rparr>) ms
     else decode_rpc r ms)"

definition parseRPCEnvelope :: "string \<Rightarrow> message + rpc_request" where
  "parseRPCEnvelope body =
    (case unmarshal_raw_map body of
       RawMembers members \<Rightarrow>
         if list_ex (\<lambda>(k, raw). \<not> contains [''jsonrpc'', ''id'', ''method'', ''params''] k) members
         then Inl (plain ''unsupported JSON-RPC envelope member'')
         else (case decode_rpc zero_rpc members of
             None \<Rightarrow> Inl (plain ''invalid JSON-RPC envelope'')
           | Some rpc \<Rightarrow>
               if rp_JSONRPC rpc \<noteq> ''2.0'' \<or> trim_space (rp_Method rpc) = []
               then Inl (plain ''invalid JSON-RPC envelope'') else Inr rpc)
     | _ \<Rightarrow> Inl (plain ''JSON-RPC envelope must be an object''))"

definition raw_member :: "string \<Rightarrow> string \<Rightarrow> string" where
  "raw_member k raw = marshal_string k @ '':'' @ compact False raw"

definition opt_raw :: "string \<Rightarrow> string \<Rightarrow> string list" where
  "opt_raw k raw = (if raw = [] then [] else [raw_member k raw])"

text \<open>\<open>json.Marshal\<close> of the envelope.\<close>

definition marshal_rpc :: "rpc_request \<Rightarrow> string" where
  "marshal_rpc r =
    ''{'' @ join '','' ([marshal_string ''jsonrpc'' @ '':'' @ marshal_string (rp_JSONRPC r)] @ opt_raw ''id'' (rp_ID r)
      @ [marshal_string ''method'' @ '':'' @ marshal_string (rp_Method r)] @ opt_raw ''params'' (rp_Params r)) @ ''}''"

record tool_call_params =
  tl_Name :: string
  tl_Arguments :: string
  tl_Meta :: "(string \<times> string) list"

definition zero_params :: tool_call_params where
  "zero_params = \<lparr>tl_Name = [], tl_Arguments = [], tl_Meta = []\<rparr>"

fun decode_params :: "tool_call_params \<Rightarrow> (string \<times> string) list \<Rightarrow> tool_call_params option" where
  "decode_params r [] = Some r"
| "decode_params r ((k, raw) # ms) =
    (if k = ''name'' then
       (case unmarshal_string (tl_Name r) raw of None \<Rightarrow> None | Some s \<Rightarrow> decode_params (r\<lparr>tl_Name := s\<rparr>) ms)
     else if k = ''arguments'' then decode_params (r\<lparr>tl_Arguments := raw\<rparr>) ms
     else if k = ''_meta'' then
       (case unmarshal_raw_map raw of
          RawError \<Rightarrow> None
        | RawNil \<Rightarrow> decode_params (r\<lparr>tl_Meta := []\<rparr>) ms
        | RawMembers es \<Rightarrow> decode_params (r\<lparr>tl_Meta := tl_Meta r @ es\<rparr>) ms)
     else decode_params r ms)"

definition parseToolCallParams :: "string \<Rightarrow> message + tool_call_params" where
  "parseToolCallParams raw =
    (let required = Inl (plain ''tools/call params.name is required'');
         decoded = (\<lambda>members. case decode_params zero_params members of
             None \<Rightarrow> required
           | Some params \<Rightarrow>
               if trim_space (tl_Name params) = [] then required
               else if trim_space (tl_Arguments params) \<noteq> [] \<and> \<not> has_prefix (trim_space (tl_Arguments params)) ''{''
               then Inl (plain ''tools/call params.arguments must be a JSON object'')
               else Inr params)
     in if trim_space raw = [] then Inl (plain ''tools/call params must be a JSON object'')
        else case unmarshal_raw_map raw of
          RawError \<Rightarrow> Inl (plain ''tools/call params must be a JSON object'')
        | RawNil \<Rightarrow> decoded []
        | RawMembers members \<Rightarrow>
            (case find (\<lambda>(k, v). \<not> contains [''name'', ''arguments'', ''_meta''] k) members of
               Some (k, v) \<Rightarrow>
                 Inl (Message ''tools/call params.%s is not supported by the focused action binding'' [FormatString k])
             | None \<Rightarrow> decoded members))"

definition ProtocolVersionKey :: string where
  "ProtocolVersionKey = ''io.modelcontextprotocol/protocolVersion''"

fun validateBoundToolMeta :: "(string \<times> string) list \<Rightarrow> string \<Rightarrow> message option" where
  "validateBoundToolMeta [] protocolVersion = None"
| "validateBoundToolMeta ((k, raw) # rest) protocolVersion =
    (if k \<noteq> ProtocolVersionKey
     then Some (Message ''tools/call params._meta.%s is not part of the focused action binding'' [FormatString k])
     else case unmarshal_string [] raw of
       Some version \<Rightarrow>
         if version = [] \<or> version \<noteq> protocolVersion
         then Some (plain ''tools/call protocolVersion metadata is not bound to the validated transport version'')
         else validateBoundToolMeta rest protocolVersion
     | None \<Rightarrow> Some (plain ''tools/call protocolVersion metadata is not bound to the validated transport version''))"

definition requestMetaProtocolVersion :: "(string \<times> string) list \<Rightarrow> string option" where
  "requestMetaProtocolVersion params =
    (case raw_get params ''_meta'' of
       None \<Rightarrow> None
     | Some rawMeta \<Rightarrow>
         (case unmarshal_raw_map rawMeta of
            RawMembers meta \<Rightarrow>
              (case raw_get meta ProtocolVersionKey of
                 None \<Rightarrow> None
               | Some rawVersion \<Rightarrow>
                   (case unmarshal_string [] rawVersion of
                      Some version \<Rightarrow> if version = [] then None else Some version
                    | None \<Rightarrow> None))
          | _ \<Rightarrow> None))"

definition marshal_params :: "tool_call_params \<Rightarrow> string" where
  "marshal_params p =
    ''{'' @ join '','' ([marshal_string ''name'' @ '':'' @ marshal_string (tl_Name p), raw_member ''arguments'' (tl_Arguments p)]
      @ (if tl_Meta p = [] then []
         else [marshal_string ''_meta'' @ '':{'' @ join '','' (map (\<lambda>(k, raw). raw_member k raw) (sort_key fst (tl_Meta p))) @ ''}''])) @ ''}''"

definition normalizedToolCallBody :: "rpc_request \<Rightarrow> tool_call_params \<Rightarrow> string \<Rightarrow> string" where
  "normalizedToolCallBody rpc params normalizedArguments =
    marshal_rpc (rpc\<lparr>rp_Params := marshal_params (params\<lparr>tl_Arguments := normalizedArguments\<rparr>)\<rparr>)"

section \<open>Headers\<close>

type_synonym headers = "(string, string list) gomap"

text \<open>\<open>textproto.CanonicalMIMEHeaderKey\<close> on a name of token characters.\<close>

fun canonical_from :: "bool \<Rightarrow> string \<Rightarrow> string" where
  "canonical_from upper [] = []"
| "canonical_from upper (c # cs) = (if upper then upper_byte c else lower_byte c) # canonical_from (c = CHR ''-'') cs"

abbreviation canonical_key :: "string \<Rightarrow> string" where
  "canonical_key name \<equiv> canonical_from True name"

definition header_values :: "headers \<Rightarrow> string \<Rightarrow> string list" where
  "header_values h name = (case mget h (canonical_key name) of None \<Rightarrow> [] | Some vs \<Rightarrow> vs)"

definition header_get :: "headers \<Rightarrow> string \<Rightarrow> string" where
  "header_get h name = (case header_values h name of [] \<Rightarrow> [] | v # vs \<Rightarrow> v)"

definition header_set :: "string \<Rightarrow> string \<Rightarrow> headers \<Rightarrow> headers" where
  "header_set name v h = mput (canonical_key name) [v] h"

definition HeaderProtocolVersion :: string where "HeaderProtocolVersion = ''MCP-Protocol-Version''"
definition HeaderMethod :: string where "HeaderMethod = ''Mcp-Method''"
definition HeaderName :: string where "HeaderName = ''Mcp-Name''"
definition ProtocolVersion20260728 :: string where "ProtocolVersion20260728 = ''2026-07-28''"

definition mcp_singleHeader :: "headers \<Rightarrow> string \<Rightarrow> message + string" where
  "mcp_singleHeader h name =
    (case header_values h name of
       [] \<Rightarrow> Inr []
     | [v] \<Rightarrow> Inr (trim_space v)
     | _ \<Rightarrow> Inl (Message ''%s must appear at most once'' [FormatString name]))"

text \<open>\<open>strings.Fields\<close>, and \<open>strings.EqualFold\<close> against an ASCII text.\<close>

fun split_spaces :: "(nat \<times> string) list \<Rightarrow> string list" where
  "split_spaces [] = [[]]"
| "split_spaces (ch # chs) =
    (if is_space (fst ch) then [] # split_spaces chs
     else case split_spaces chs of [] \<Rightarrow> [snd ch] | w # ws \<Rightarrow> (snd ch @ w) # ws)"

definition str_fields :: "string \<Rightarrow> string list" where
  "str_fields s = filter (\<lambda>w. w \<noteq> []) (split_spaces (rune_chunks s))"

definition permitToken :: "string \<Rightarrow> string option" where
  "permitToken v =
    (case str_fields v of
       [scheme, token] \<Rightarrow> if fold_name scheme = fold_name ''AegisPermit'' \<and> token \<noteq> [] then Some token else None
     | _ \<Rightarrow> None)"

definition safeProtocolMethod :: "string \<Rightarrow> bool \<Rightarrow> bool" where
  "safeProtocolMethod method modern \<longleftrightarrow>
    (if modern then method = ''server/discover'' \<or> method = ''tools/list''
     else method = ''initialize'' \<or> method = ''notifications/initialized'' \<or> method = ''ping'' \<or> method = ''tools/list'')"

section \<open>Routing metadata\<close>

record routing_metadata =
  rm_ProtocolVersion :: string
  rm_Method :: string
  rm_Name :: string
  rm_Modern :: bool

datatype routing_error = UnsupportedVersion string | RoutingMismatch message

abbreviation mismatch :: "string \<Rightarrow> routing_error + routing_metadata" where
  "mismatch text \<equiv> Inl (RoutingMismatch (plain text))"

text \<open>The parameters of the body as far as routing reads them: an error, or the members (none for \<open>null\<close>).\<close>

definition routing_params :: "string \<Rightarrow> message + (string \<times> string) list" where
  "routing_params raw =
    (if trim_space raw = [] then Inr []
     else case unmarshal_raw_map raw of
       RawError \<Rightarrow> Inl (plain ''params must be a JSON object'')
     | RawNil \<Rightarrow> Inr []
     | RawMembers ms \<Rightarrow> Inr ms)"

definition routing_name :: "(string \<times> string) list \<Rightarrow> message + string" where
  "routing_name params =
    (case raw_get params ''name'' of
       None \<Rightarrow> Inr []
     | Some raw \<Rightarrow> (case unmarshal_string [] raw of None \<Rightarrow> Inl (plain ''params.name must be a string'') | Some s \<Rightarrow> Inr s))"

text \<open>The comparison of the headers with the body, in the order of the code.\<close>

definition routing_agrees ::
  "bool \<Rightarrow> string \<Rightarrow> string \<Rightarrow> string \<Rightarrow> string \<Rightarrow> string \<Rightarrow> (string \<times> string) list \<Rightarrow> string option" where
  "routing_agrees modern version methodHeader nameHeader method name params =
    (if modern then
       if methodHeader = [] \<or> methodHeader \<noteq> method then Some ''Mcp-Method must exactly match JSON-RPC method''
       else if method = ''tools/call'' \<and> (nameHeader = [] \<or> nameHeader \<noteq> name)
       then Some ''Mcp-Name must exactly match tools/call params.name''
       else if method \<noteq> ''tools/call'' \<and> nameHeader \<noteq> [] \<and> nameHeader \<noteq> name
       then Some ''Mcp-Name does not match the JSON-RPC body''
       else if requestMetaProtocolVersion params \<noteq> Some version
       then Some ''MCP-Protocol-Version must match params._meta protocolVersion''
       else None
     else
       if methodHeader \<noteq> [] \<and> methodHeader \<noteq> method then Some ''Mcp-Method does not match the JSON-RPC body''
       else if nameHeader \<noteq> [] \<and> nameHeader \<noteq> name then Some ''Mcp-Name does not match the JSON-RPC body''
       else None)"

definition mcp_param_key :: "string \<Rightarrow> bool" where
  "mcp_param_key k \<longleftrightarrow> has_prefix (to_lower k) ''mcp-param-''"

definition validateRoutingMetadata :: "headers \<Rightarrow> rpc_request \<Rightarrow> routing_error + routing_metadata" where
  "validateRoutingMetadata h rpc =
    (case mcp_singleHeader h HeaderProtocolVersion of
       Inl m \<Rightarrow> Inl (RoutingMismatch m)
     | Inr version \<Rightarrow>
         let modern = (version = ProtocolVersion20260728)
         in if version \<noteq> [] \<and> \<not> modern \<and> version > ProtocolVersion20260728 then Inl (UnsupportedVersion version)
            else case mcp_singleHeader h HeaderMethod of
              Inl m \<Rightarrow> Inl (RoutingMismatch m)
            | Inr methodHeader \<Rightarrow>
            (case mcp_singleHeader h HeaderName of
              Inl m \<Rightarrow> Inl (RoutingMismatch m)
            | Inr nameHeader \<Rightarrow>
            (case find mcp_param_key (map fst h) of
              Some k \<Rightarrow> Inl (RoutingMismatch
                (Message ''%s is unsupported because this focused proxy has no schema-aware Mcp-Param validation'' [FormatString k]))
            | None \<Rightarrow>
            (case routing_params (rp_Params rpc) of
              Inl m \<Rightarrow> Inl (RoutingMismatch m)
            | Inr params \<Rightarrow>
            (case routing_name params of
              Inl m \<Rightarrow> Inl (RoutingMismatch m)
            | Inr name \<Rightarrow>
            (case routing_agrees modern version methodHeader nameHeader (rp_Method rpc) name params of
              Some text \<Rightarrow> mismatch text
            | None \<Rightarrow> Inr \<lparr>rm_ProtocolVersion = version, rm_Method = rp_Method rpc, rm_Name = name, rm_Modern = modern\<rparr>))))))"

definition routing_message :: "routing_error \<Rightarrow> message" where
  "routing_message e =
    (case e of
       RoutingMismatch m \<Rightarrow> m
     | UnsupportedVersion v \<Rightarrow>
         Message ''unsupported MCP protocol version %q; supported modern version is %s''
           [FormatString v, FormatString ProtocolVersion20260728])"

section \<open>The gate\<close>

text \<open>
  The interface \<open>Gate\<close>, over the state of whoever implements it: the verification with the error
  of its recording, the runtime event (the proxy ignores what it answers), and the completion with
  whether it failed.
\<close>

record 's gate =
  gt_verify :: "string \<Rightarrow> string \<Rightarrow> action \<Rightarrow> string \<Rightarrow> string \<Rightarrow> 's \<Rightarrow> (permit_verification \<times> router_error option) \<times> 's"
  gt_ingest :: "runtime_event \<Rightarrow> 's \<Rightarrow> 's"
  gt_complete :: "execution_completion \<Rightarrow> 's \<Rightarrow> bool \<times> 's"

text \<open>What the router reads from outside in the three calls.\<close>

record gate_inputs =
  gi_now :: time
  gi_later :: time
  gi_attempt :: entropy
  gi_decision :: entropy
  gi_verify_write :: write_outcome
  gi_event_now :: time
  gi_event_write :: write_outcome
  gi_receivedAt :: time
  gi_complete_write :: write_outcome

definition router_gate :: "crypto \<Rightarrow> gate_inputs \<Rightarrow> router_state gate" where
  "router_gate cr x =
    \<lparr>gt_verify = (\<lambda>token proof a m p st. Router_VerifyExecutionAndConsume cr st token proof a m p (gi_now x) (gi_later x)
       (gi_attempt x) (gi_decision x) (gi_verify_write x)),
     gt_ingest = (\<lambda>event st. snd (IngestRuntimeEvent st event (gi_event_now x) (gi_event_write x))),
     gt_complete = (\<lambda>c st. let (out, st') = CompleteVerifiedExecution st c (gi_receivedAt x) (gi_complete_write x)
       in (isl out, st'))\<rparr>"

section \<open>The proxy\<close>

text \<open>What \<open>New\<close> looks at in the client it is given.\<close>

record http_client =
  hc_HasJar :: bool
  hc_HasTransport :: bool

record proxy =
  pr_registry :: registry
  pr_controlUpstream :: url

definition NewProxy :: "go_library \<Rightarrow> bool \<Rightarrow> registry option \<Rightarrow> string \<Rightarrow> http_client option \<Rightarrow> message + proxy" where
  "NewProxy lib gatePresent reg controlUpstreamURL client =
    (if \<not> gatePresent then Inl (plain ''MCP proxy requires an execution-permit gate'')
     else case reg of
       None \<Rightarrow> Inl (plain ''MCP proxy requires at least one server-owned semantic profile'')
     | Some r \<Rightarrow>
         if Registry_Len reg = 0 then Inl (plain ''MCP proxy requires at least one server-owned semantic profile'')
         else case gl_parse_url lib (trim_space controlUpstreamURL) of
           None \<Rightarrow> Inl (plain ''MCP control upstream must be an absolute HTTP(S) URL'')
         | Some target \<Rightarrow>
             if ur_Scheme target = [] \<or> ur_Host target = []
             then Inl (plain ''MCP control upstream must be an absolute HTTP(S) URL'')
             else if ur_Scheme target \<noteq> ''http'' \<and> ur_Scheme target \<noteq> ''https''
             then Inl (plain ''MCP control upstream scheme must be http or https'')
             else if \<not> OwnsUpstreamURL reg (ur_String target)
             then Inl (plain ''MCP control upstream must match a server-owned semantic profile upstream'')
             else if (case client of None \<Rightarrow> False | Some c \<Rightarrow> hc_HasJar c \<or> hc_HasTransport c)
             then Inl (plain ''MCP anonymous execution binding does not support cookie jars or custom transports'')
             else Inr \<lparr>pr_registry = r, pr_controlUpstream = target\<rparr>)"

text \<open>A request: the body is absent when reading it failed.\<close>

record mcp_request =
  mr_Method :: string
  mr_Path :: string
  mr_Header :: headers
  mr_Body :: "string option"

record outbound =
  ou_URL :: string
  ou_Header :: headers
  ou_Body :: string

datatype upstream_outcome = UpstreamUnavailable | UpstreamAnswer int headers string

datatype rpc_data =
    NoData
  | SupportedVersions string string
  | MissingPermit
  | SemanticResult string
  | VerificationResult outcome string "constraint_check list"
  | ExecutionOutcome string

text \<open>
  The answers: a JSON-RPC error with HTTP status, identifier, code, message and data, or the answer
  of the upstream; with whether the header says that the completion was not recorded.
\<close>

datatype proxy_reply =
    RPCError int string int message rpc_data bool
  | Relayed int headers string bool

text \<open>\<open>writeRPCError\<close>: an absent identifier is written as \<open>null\<close>.\<close>

definition writeRPCError :: "int \<Rightarrow> string \<Rightarrow> int \<Rightarrow> message \<Rightarrow> rpc_data \<Rightarrow> bool \<Rightarrow> proxy_reply" where
  "writeRPCError status i code m d unrecorded = RPCError status (if i = [] then ''null'' else i) code m d unrecorded"

abbreviation reject_rpc :: "int \<Rightarrow> string \<Rightarrow> int \<Rightarrow> string \<Rightarrow> rpc_data \<Rightarrow> proxy_reply" where
  "reject_rpc status i code text d \<equiv> writeRPCError status i code (plain text) d False"

definition copySafeHeaders :: "headers \<Rightarrow> headers \<Rightarrow> headers" where
  "copySafeHeaders destination source =
    (let h0 = header_set ''Content-Type'' ''application/json'' destination;
         accept = trim_space (header_get source ''Accept'')
     in if accept \<noteq> [] then header_set ''Accept'' accept h0 else h0)"

text \<open>The headers of the outbound request: the safe ones and the validated routing headers.\<close>

definition outbound_headers :: "headers \<Rightarrow> routing_metadata \<Rightarrow> headers" where
  "outbound_headers inbound routing =
    (let h1 = copySafeHeaders [] inbound;
         h2 = (if rm_ProtocolVersion routing \<noteq> [] then header_set HeaderProtocolVersion (rm_ProtocolVersion routing) h1 else h1);
         h3 = (if rm_Modern routing then header_set HeaderMethod (rm_Method routing) h2 else h2)
     in if rm_Modern routing \<and> rm_Name routing \<noteq> [] then header_set HeaderName (rm_Name routing) h3 else h3)"

text \<open>The zero value; its outcome, an empty text in the code, is never read.\<close>

definition zero_verification :: permit_verification where
  "zero_verification =
    \<lparr>pv_AuthorityEpoch = 0, pv_ExecutionBinding = [], pv_PermitID = [], pv_RequestID = [], pv_PermitClass = None,
     pv_ProfileID = [], pv_Audience = [], pv_Outcome = OutcomeInvalidPermit, pv_Verified = False, pv_State = StateEmpty,
     pv_Obligations = no_obligations, pv_ConstraintChecks = [], pv_VerifiedAt = zero_time, pv_EvidenceSource = []\<rparr>"

definition completion_of :: "permit_verification \<Rightarrow> string \<Rightarrow> bool \<Rightarrow> string \<Rightarrow> time \<Rightarrow> execution_completion" where
  "completion_of v status attempted boundary completedAt =
    \<lparr>ec_RequestID = pv_RequestID v, ec_PermitID = pv_PermitID v, ec_Status = status, ec_BoundaryOutcome = boundary,
     ec_UpstreamAttempted = attempted, ec_CompletedAt = completedAt\<rparr>"

text \<open>A completion is sent for a verified call only; the answer is whether it failed.\<close>

definition complete_if_verified :: "'s gate \<Rightarrow> permit_verification \<Rightarrow> execution_completion \<Rightarrow> 's \<Rightarrow> bool \<times> 's" where
  "complete_if_verified g v c st = (if pv_Verified v then gt_complete g c st else (False, st))"

definition dispatch_event :: "permit_verification \<Rightarrow> action \<Rightarrow> time \<Rightarrow> runtime_event" where
  "dispatch_event v a now =
    \<lparr>re_EventID = ''mcp-'' @ (if has_prefix (pv_PermitID v) ''p_'' then drop 2 (pv_PermitID v) else pv_PermitID v),
     re_PermitID = pv_PermitID v, re_RequestID = pv_RequestID v, re_SessionID = [], re_AgentID = ac_AgentID a,
     re_WorkloadID = ac_WorkloadID a, re_Source = SourceGatewayEnforced, re_TrustLevel = TrustEnforced,
     re_Capability = ac_Capability a, re_Tool = ac_Tool a, re_Operation = ac_Operation a, re_Resource = ac_Resource a,
     re_ResourceClass = [], re_DestinationClass = [], re_External = False, re_SecretAccess = False, re_SideEffect = [],
     re_Bytes = 0, re_Timestamp = now\<rparr>"

text \<open>\<open>forward\<close>, with the requests it sent. \<open>http.NewRequest\<close> fails when the URL does not parse again.\<close>

definition forward ::
  "go_library \<Rightarrow> 's gate \<Rightarrow> (outbound \<Rightarrow> upstream_outcome) \<Rightarrow> time \<Rightarrow> mcp_request \<Rightarrow> string \<Rightarrow> routing_metadata
    \<Rightarrow> permit_verification \<Rightarrow> action option \<Rightarrow> url \<Rightarrow> 's \<Rightarrow> (proxy_reply \<times> outbound list) \<times> 's" where
  "forward lib g client now inbound body routing v a upstream st =
    (if gl_parse_url lib (ur_String upstream) = None
     then let (e, st') = complete_if_verified g v (completion_of v ''failed'' False [] zero_time) st
          in ((reject_rpc 502 [] (- 32603) ''MCP upstream request could not be created'' NoData, []), st')
     else
       let o1 = \<lparr>ou_URL = ur_String upstream, ou_Header = outbound_headers (mr_Header inbound) routing, ou_Body = body\<rparr>
       in case client o1 of
            UpstreamUnavailable \<Rightarrow>
              let (e, st') = complete_if_verified g v (completion_of v ''failed'' True [] zero_time) st
              in ((reject_rpc 502 [] (- 32002) ''MCP upstream is unavailable'' NoData, [o1]), st')
          | UpstreamAnswer status h text \<Rightarrow>
              if 300 \<le> status \<and> status < 400
              then let (e, st') = complete_if_verified g v (completion_of v ''failed'' True ''UPSTREAM_REDIRECT_BLOCKED'' zero_time) st
                   in ((writeRPCError 502 [] (- 32002) (plain ''MCP upstream redirect rejected'')
                          (ExecutionOutcome ''UPSTREAM_REDIRECT_BLOCKED'') e, [o1]), st')
              else
                let st1 = (if pv_Verified v then (case a of None \<Rightarrow> st | Some act \<Rightarrow> gt_ingest g (dispatch_event v act now) st) else st);
                    outcome = (if status < 200 \<or> status \<ge> 300 then ''failed'' else ''completed'');
                    (e, st') = complete_if_verified g v (completion_of v outcome True [] now) st1
                in ((Relayed status h text e, [o1]), st'))"

text \<open>The input of the semantic profile: the identity headers and the arguments of the body.\<close>

definition call_arguments :: "tool_call_params \<Rightarrow> string" where
  "call_arguments params = (if trim_space (tl_Arguments params) = [] then ''{}'' else tl_Arguments params)"

definition call_input :: "crypto \<Rightarrow> headers \<Rightarrow> tool_call_params \<Rightarrow> semantic_input" where
  "call_input cr h params =
    (let fingerprint = header_get h ''X-Aegis-Delegation-Fingerprint''
     in \<lparr>si_PrincipalID = header_get h ''X-Aegis-Principal-Id'', si_AgentID = header_get h ''X-Aegis-Agent-Id'',
         si_WorkloadID = header_get h ''X-Aegis-Workload-Id'',
         si_DelegatedAuthorityFingerprint =
           (case BindDelegatedAuthorityFingerprint cr fingerprint of Inl e \<Rightarrow> fingerprint | Inr bound \<Rightarrow> bound),
         si_Tool = tl_Name params, si_Capability = header_get h ''X-Aegis-Capability'',
         si_Resource = header_get h ''X-Aegis-Resource'', si_Operation = header_get h ''X-Aegis-Operation'',
         si_ProfileID = header_get h ''X-Aegis-Profile-Id'', si_Audience = header_get h ''X-Aegis-Audience'',
         si_Arguments = call_arguments params\<rparr>)"

definition single_proof :: "headers \<Rightarrow> string" where
  "single_proof h = (case header_values h ''X-Aegis-Execution-Proof'' of [v] \<Rightarrow> v | _ \<Rightarrow> [])"

definition upstream_of :: "go_library \<Rightarrow> registry \<Rightarrow> string \<Rightarrow> url option" where
  "upstream_of lib reg text =
    (case gl_parse_url lib text of
       None \<Rightarrow> None
     | Some u \<Rightarrow> if absolute_url u \<and> OwnsUpstreamURL (Some reg) (ur_String u) then Some u else None)"

text \<open>What a tool call needs before the gate is asked: its token, the prepared action, the route and the body.\<close>

record prepared_call =
  ca_Token :: string
  ca_Prepared :: prepared
  ca_Upstream :: url
  ca_Body :: string

definition prepare_call ::
  "go_library \<Rightarrow> crypto \<Rightarrow> proxy \<Rightarrow> headers \<Rightarrow> rpc_request \<Rightarrow> routing_metadata \<Rightarrow> proxy_reply + prepared_call" where
  "prepare_call lib cr p h rpc routing =
    (case parseToolCallParams (rp_Params rpc) of
       Inl m \<Rightarrow> Inl (writeRPCError 400 (rp_ID rpc) (- 32602) m NoData False)
     | Inr params \<Rightarrow>
         (case validateBoundToolMeta (tl_Meta params) (rm_ProtocolVersion routing) of
            Some m \<Rightarrow> Inl (writeRPCError 400 (rp_ID rpc) (- 32602) m NoData False)
          | None \<Rightarrow>
              (case permitToken (header_get h ''Authorization'') of
                 None \<Rightarrow> Inl (reject_rpc 401 (rp_ID rpc) (- 32001) ''A signed Aegis execution permit is required'' MissingPermit)
               | Some token \<Rightarrow>
                   (case Prepare (Some (pr_registry p)) (call_input cr h params) of
                      Inl e \<Rightarrow> Inl (reject_rpc 403 (rp_ID rpc) (- 32005)
                        ''MCP action rejected by the server-owned semantic profile'' (SemanticResult (rejection_code e)))
                    | Inr prepared \<Rightarrow>
                        (case upstream_of lib (pr_registry p) (pe_upstreamURL prepared) of
                           None \<Rightarrow> Inl (reject_rpc 500 (rp_ID rpc) (- 32603)
                             ''Aegis semantic profile has an invalid upstream binding'' NoData)
                         | Some upstream \<Rightarrow>
                             Inr \<lparr>ca_Token = token, ca_Prepared = prepared, ca_Upstream = upstream,
                                  ca_Body = normalizedToolCallBody rpc params (pe_arguments prepared)\<rparr>)))))"

text \<open>The commit point: one call of the gate, and nothing goes upstream unless it verified.\<close>

definition verify_call :: "'s gate \<Rightarrow> mcp_request \<Rightarrow> prepared_call \<Rightarrow> 's \<Rightarrow> (permit_verification \<times> router_error option) \<times> 's" where
  "verify_call g req c st =
    gt_verify g (ca_Token c) (single_proof (mr_Header req)) (pe_action (ca_Prepared c)) (mr_Method req) (mr_Path req) st"

definition serve_tool_call ::
  "go_library \<Rightarrow> crypto \<Rightarrow> 's gate \<Rightarrow> proxy \<Rightarrow> (outbound \<Rightarrow> upstream_outcome) \<Rightarrow> time \<Rightarrow> mcp_request \<Rightarrow> rpc_request
    \<Rightarrow> routing_metadata \<Rightarrow> 's \<Rightarrow> (proxy_reply \<times> outbound list) \<times> 's" where
  "serve_tool_call lib cr g p client now req rpc routing st =
    (case prepare_call lib cr p (mr_Header req) rpc routing of
       Inl reply \<Rightarrow> ((reply, []), st)
     | Inr c \<Rightarrow>
         let ((v, e), st1) = verify_call g req c st
         in if e \<noteq> None
            then ((reject_rpc 500 (rp_ID rpc) (- 32603) ''Aegis could not record execution verification'' NoData, []), st1)
            else if \<not> pv_Verified v \<or> pv_Outcome v \<noteq> OutcomeVerified
            then ((reject_rpc 403 (rp_ID rpc) (- 32006) ''Aegis execution authorization rejected''
              (VerificationResult (pv_Outcome v) (pv_PermitID v) (pv_ConstraintChecks v)), []), st1)
            else forward lib g client now req (ca_Body c) routing v (Some (pe_action (ca_Prepared c))) (ca_Upstream c) st1)"

definition maxRequestBytes :: nat where "maxRequestBytes = MaxArgumentsBytes + 65536"

text \<open>The checks of the envelope and of the routing headers.\<close>

definition admit_request :: "mcp_request \<Rightarrow> proxy_reply + (rpc_request \<times> routing_metadata)" where
  "admit_request req =
    (if mr_Method req \<noteq> ''POST'' then Inl (reject_rpc 405 [] (- 32600) ''POST required'' NoData)
     else case mr_Body req of
       None \<Rightarrow> Inl (reject_rpc 413 [] (- 32600) ''MCP request is too large'' NoData)
     | Some body \<Rightarrow>
         if length body > maxRequestBytes then Inl (reject_rpc 413 [] (- 32600) ''MCP request is too large'' NoData)
         else case CanonicalizeJSON body of
           Inl e \<Rightarrow> Inl (reject_rpc 400 [] (- 32700) ''Invalid or ambiguous JSON-RPC request'' NoData)
         | Inr canonical \<Rightarrow>
             (case parseRPCEnvelope body of
                Inl m \<Rightarrow> Inl (reject_rpc 400 [] (- 32600) ''Invalid or unsupported JSON-RPC envelope'' NoData)
              | Inr rpc \<Rightarrow>
                  (case validateRoutingMetadata (mr_Header req) rpc of
                     Inl e \<Rightarrow>
                       Inl (case e of
                           UnsupportedVersion v \<Rightarrow> writeRPCError 400 (rp_ID rpc) (- 32022) (routing_message e)
                             (SupportedVersions ProtocolVersion20260728 (header_get (mr_Header req) HeaderProtocolVersion)) False
                         | RoutingMismatch m \<Rightarrow> writeRPCError 400 (rp_ID rpc) (- 32020) m NoData False)
                   | Inr routing \<Rightarrow> Inr (rpc, routing))))"

definition Proxy_ServeHTTP ::
  "go_library \<Rightarrow> crypto \<Rightarrow> 's gate \<Rightarrow> proxy \<Rightarrow> (outbound \<Rightarrow> upstream_outcome) \<Rightarrow> time \<Rightarrow> mcp_request \<Rightarrow> 's
    \<Rightarrow> (proxy_reply \<times> outbound list) \<times> 's" where
  "Proxy_ServeHTTP lib cr g p client now req st =
    (case admit_request req of
       Inl reply \<Rightarrow> ((reply, []), st)
     | Inr (rpc, routing) \<Rightarrow>
         if rp_Method rpc = ''tools/call'' then serve_tool_call lib cr g p client now req rpc routing st
         else if \<not> safeProtocolMethod (rp_Method rpc) (rm_Modern routing)
         then ((reject_rpc 403 (rp_ID rpc) (- 32601)
           ''Only MCP protocol setup, tools/list, and permit-gated tools/call are supported'' NoData, []), st)
         else forward lib g client now req (marshal_rpc rpc) routing zero_verification None (pr_controlUpstream p) st)"

end
