(* ===== verification/Gateway_Facts.thy ===== *)
theory Gateway_Facts
  imports Mcp_Proxy Router_Evidence
begin

text \<open>
  What every call of the router and every request of the proxy does to the permit store: it is a
  sequence of calls of the store, so permits only move along their lifecycle. The locale
  \<open>execution_gate\<close> is the contract the proxy relies on in its gate; the router provides it. The
  operations of the whole control plane, with the proxy in front, are then single use.
\<close>

section \<open>The router's calls on the store\<close>

named_theorems store_calls \<open>a call of the router is a sequence of calls of the store\<close>

lemma by_calls_revoke: "MemoryStore_Revoke s i t = (r, e, s') \<Longrightarrow> by_calls Q s s'"
  using by_calls_step [of Q "OpRevoke i t" s] by (simp add: registers_def)

lemma by_calls_list: "MemoryStore_List s t = (rs, s') \<Longrightarrow> by_calls Q s s'"
  using by_calls_step [of Q "OpList t" s] by (simp add: registers_def)

lemma by_calls_register: "MemoryStore_Register s c = (e, s') \<Longrightarrow> Q c \<Longrightarrow> by_calls Q s s'"
  using by_calls_step [of Q "OpRegister c" s] by (simp add: registers_def)

lemma by_calls_authority: "SetAuthorityEnabled s k b t = (a, e, s') \<Longrightarrow> by_calls Q s s'"
  using by_calls_step [of Q "OpSetAuthority k b t" s] by (simp add: registers_def)

lemma by_calls_got: "MemoryStore_Get s i t = (r, s') \<Longrightarrow> by_calls Q s s'"
  using by_calls_get [of Q s i t] by simp

text \<open>The permits that a call may register, by their class.\<close>

abbreviation of_class :: "permit_class \<Rightarrow> claims \<Rightarrow> bool" where
  "of_class cls c \<equiv> cl_PermitClass c = cls"

lemma Issue_calls:
  "Issuer_Issue cr i request random clock s = (out, s') \<Longrightarrow> by_calls (of_class (ir_PermitClass request)) s s'"
  by (auto simp: Issuer_Issue_def issue_claims_def Let_def intro: by_calls_register split: if_splits option.splits sum.splits prod.splits)

lemma issuePermit_calls:
  "issuePermit cr r s q grant ob a digest started binding cls ttl epoch random now = (out, s') \<Longrightarrow> by_calls (of_class cls) s s'"
  by (auto simp: issuePermit_def permit_request_def Let_def dest!: Issue_calls split: if_splits sum.splits prod.splits)

lemma withdraw_calls: "by_calls Q (rw_store st) (rw_store (withdraw_permit issued now st))"
  by (auto simp: withdraw_permit_def Let_def dest: by_calls_revoke split: option.split prod.split)

lemma record_decision_calls:
  assumes "record_decision cr r st req prov d ob digest issued x = (out, st')"
  shows "by_calls Q (rw_store st) (rw_store st')"
proof (cases rule: record_decision_cases [of cr r st req prov d ob digest issued x])
  case (recorded detection' audit' entry)
  then show ?thesis using assms by auto
next
  case (unrecorded detection' audit' e entry)
  define t where "t = st\<lparr>rw_permits := kept_permits (kept_envelope req d issued) st, rw_detection := detection', rw_audit := audit'\<rparr>"
  have "st' = withdraw_permit issued (xi_revoke_now x) t" using unrecorded(1) assms by (simp add: t_def)
  moreover have "rw_store t = rw_store st" by (simp add: t_def)
  ultimately show ?thesis using withdraw_calls [of Q t issued "xi_revoke_now x"] by simp
qed

lemma resolved_calls:
  assumes "authorizeResolvedAction cr r st req prov binding cls ttl x = (out, st')"
  shows "by_calls (of_class cls) (rw_store st) (rw_store st')"
proof (cases "Validate req")
  case (Some e)
  then show ?thesis using assms by (simp add: authorizeResolvedAction_def)
next
  case None
  define q where "q = identified req (xi_request_id x)"
  define a where "a = captured_authority (rw_store st) q cls"
  define prov' where "prov' = (if vn_EstablishedAt prov = zero_time then prov\<lparr>vn_EstablishedAt := xi_started x\<rparr> else prov)"
  obtain d ob resolved where d: "decide cr r a q cls (xi_policy_now x) (xi_recheck_now x) = (d, ob, resolved)"
    by (rule prod_cases3)
  note run = assms [unfolded authorizeResolvedAction_def Let_def q_def [symmetric] a_def [symmetric] prov'_def [symmetric] None d
    option.case prod.case]
  show ?thesis
  proof (cases "decision_digest cr q d resolved")
    case (Inl err)
    then show ?thesis using run by simp
  next
    case (Inr digest)
    show ?thesis
    proof (cases "granted d")
      case None
      then show ?thesis using run [unfolded Inr sum.case] by (auto intro: record_decision_calls)
    next
      case (Some grant)
      obtain res s' where i: "issuePermit cr r (rw_store st) q grant ob (resolvedActionOrDefault cr resolved q grant) digest
          (xi_started x) binding cls ttl (as_Epoch a) (xi_permit_random x) (xi_issue_now x) = (res, s')"
        by (rule prod.exhaust)
      note run2 = run [unfolded Inr sum.case Some option.case i prod.case]
      have reg: "by_calls (of_class cls) (rw_store st) s'" by (rule issuePermit_calls [OF i])
      show ?thesis
      proof (cases res)
        case (Inl err)
        then show ?thesis using run2 reg by auto
      next
        case (Inr p)
        then have "by_calls (of_class cls) (rw_store (set_store s' st)) (rw_store st')"
          using run2 by (intro record_decision_calls) simp
        then show ?thesis using by_calls_trans [OF reg] by simp
      qed
    qed
  qed
qed

lemma trusted_calls [store_calls]: "by_calls (of_class ClassExecution) (rw_store st) (rw_store (snd (AuthorizeTrustedAction cr r st az x)))"
  by (cases "AuthorizeTrustedAction cr r st az x") (auto simp: AuthorizeTrustedAction_def dest: resolved_calls split: if_splits)

lemma demo_calls [store_calls]: "by_calls (of_class ClassSimulation) (rw_store st) (rw_store (snd (AuthorizeSyntheticDemoAction cr r st req ttl x)))"
  by (cases "AuthorizeSyntheticDemoAction cr r st req ttl x") (auto simp: AuthorizeSyntheticDemoAction_def dest: resolved_calls)

text \<open>Verification, permits, authorities, events and completion.\<close>

lemma mutate_audit_guard [simp]: "rw_guard (snd (mutate_audit w i f st)) = rw_guard st"
  by (auto simp: mutate_audit_def put_audit_def split: prod.split sum.split)

lemma audit_verification_guard [simp]:
  "rw_guard (snd (auditPermitVerification result source v attempt decision w st)) = rw_guard st"
  by (simp add: auditPermitVerification_def auditUnboundVerificationFailure_def Let_def put_audit_def case_prod_unfold)

lemma audit_verification_answer:
  "pv_Verified (fst (fst (auditPermitVerification result source v attempt decision w st))) = pv_Verified v"
  "pv_PermitID (fst (fst (auditPermitVerification result source v attempt decision w st))) = pv_PermitID v"
  "pv_Outcome (fst (fst (auditPermitVerification result source v attempt decision w st))) = pv_Outcome v"
  by (simp_all add: auditPermitVerification_def Let_def case_prod_unfold)

lemma permitVerification_simps [simp]:
  "pv_Verified (permitVerification result source) = Result_Allowed result"
  "pv_PermitID (permitVerification result source) = vr_PermitID result"
  "pv_Outcome (permitVerification result source) = vr_Outcome result"
  by (simp_all add: permitVerification_def Let_def split: option.split)

lemma router_execute_guard:
  "rw_guard (snd (Router_VerifyExecutionAndConsume cr st token proof a m p now later attempt decision w)) =
     snd (VerifyExecutionAndConsume cr (rw_verifier st) (rw_guard st) token proof a m p now later)"
  by (simp add: Router_VerifyExecutionAndConsume_def Let_def case_prod_unfold)

lemma router_execute_calls [store_calls]:
  "by_calls Q (rw_store st) (rw_store (snd (Router_VerifyExecutionAndConsume cr st token proof a m p now later attempt decision w)))"
  using execute_calls [OF prod.collapse [symmetric]] by (simp add: router_execute_guard)

lemma router_simulate_calls: "by_calls Q (rw_store st) (rw_store (snd (VerifySyntheticDemo cr st token a now later attempt decision w)))"
proof -
  obtain result s' where v: "VerifySimulationAndConsume cr (rw_verifier st) (rw_store st) token a now later = (result, s')"
    by (rule prod.exhaust)
  then show ?thesis using simulate_calls [OF v] by (simp add: VerifySyntheticDemo_def)
qed

lemma router_demo_calls [store_calls]:
  "by_calls Q (rw_store st) (rw_store (snd (VerifySyntheticDemoRequest cr st token req now later attempt decision w)))"
  by (simp add: VerifySyntheticDemoRequest_def Let_def case_prod_unfold router_simulate_calls split: option.split)

lemma router_check_calls [store_calls]: "by_calls Q (rw_store st) (rw_store (snd (CheckExecutionRequest cr r st token req now)))"
  by (auto simp: CheckExecutionRequest_def dest: check_calls split: option.split sum.split prod.split)

lemma router_list_calls [store_calls]: "by_calls Q (rw_store st) (rw_store (snd (ListPermits st now)))"
  by (auto simp: ListPermits_def dest: by_calls_list split: prod.split)

lemma router_get_calls [store_calls]: "by_calls Q (rw_store st) (rw_store (snd (GetPermit st i now)))"
  by (auto simp: GetPermit_def dest: by_calls_got split: prod.split)

lemma record_revocation_guard [simp]: "rw_guard (snd (recordPermitRevocation p now w st)) = rw_guard st"
  by (simp add: recordPermitRevocation_def Let_def)

lemma record_revocations_guard: "rw_guard (snd (record_revocations key epoch now ps ws errors st)) = rw_guard st"
  by (induction key epoch now ps ws errors st rule: record_revocations.induct) (auto split: prod.splits dest: arg_cong [where f = "\<lambda>x. rw_guard (snd x)"])

lemma router_revoke_calls [store_calls]: "by_calls Q (rw_store st) (rw_store (snd (RevokePermit st i now w)))"
proof -
  obtain rec e s' where v: "MemoryStore_Revoke (rw_store st) i now = (rec, e, s')" by (rule prod_cases3)
  show ?thesis using by_calls_revoke [OF v] by (simp add: RevokePermit_def v Let_def case_prod_unfold split: option.split)
qed

lemma router_authority_calls [store_calls]: "by_calls Q (rw_store st) (rw_store (snd (Router_SetAuthorityEnabled st key enabled now ws)))"
proof -
  obtain a e s1 where v: "SetAuthorityEnabled (rw_store st) key enabled now = (a, e, s1)" by (rule prod_cases3)
  have "by_calls Q s1 (rw_store (snd (ListPermits (set_store s1 st) now)))"
    using router_list_calls [of Q "set_store s1 st" now] by simp
  then have "by_calls Q (rw_store st) (rw_store (snd (ListPermits (set_store s1 st) now)))"
    by (rule by_calls_trans [OF by_calls_authority [OF v]])
  then show ?thesis using by_calls_authority [OF v]
    by (simp add: Router_SetAuthorityEnabled_def v Let_def case_prod_unfold record_revocations_guard split: option.split)
qed

lemma terminate_calls: "by_calls Q (rw_store st) (rw_store (terminate_permit i now st))"
  by (auto simp: terminate_permit_def dest: by_calls_revoke split: prod.split)

lemma rejected_guard [simp]: "rw_guard (snd (auditRejectedEvent e evaluation b now w st)) = rw_guard st"
  by (simp add: auditRejectedEvent_def)

lemma router_ingest_calls [store_calls]: "by_calls Q (rw_store st) (rw_store (snd (IngestRuntimeEvent st event now w)))"
  by (simp add: IngestRuntimeEvent_def Let_def case_prod_unfold terminate_calls split: option.split)

lemma permit_state_calls: "permit_state_at s i now = (state, s') \<Longrightarrow> by_calls Q s s'"
  by (auto simp: permit_state_at_def dest: by_calls_got split: prod.splits)

lemma completion_calls: "by_calls Q (rw_store st) (rw_store (snd (completeExecution st c source receivedAt w)))"
proof (cases "completion_check c source")
  case (Some e)
  then show ?thesis by (simp add: completeExecution_def)
next
  case None
  obtain state s1 where s: "permit_state_at (rw_store st) (ec_PermitID c) receivedAt = (state, s1)" by (rule prod.exhaust)
  define st1 where "st1 = (if trusted_source source then set_store s1 st else st)"
  obtain state' s2 where s2: "permit_state_at (rw_store st1) (ec_PermitID c) receivedAt = (state', s2)" by (rule prod.exhaust)
  have c1: "by_calls Q (rw_store st) (rw_store st1)" using permit_state_calls [OF s] by (simp add: st1_def)
  have c2: "by_calls Q (rw_store st) s2" by (rule by_calls_trans [OF c1 permit_state_calls [OF s2]])
  show ?thesis
    unfolding completeExecution_def None option.case Let_def s prod.case st1_def [symmetric] s2
    using c1 c2 by (simp add: put_audit_def split: option.split sum.split prod.split)
qed

lemma router_complete_calls [store_calls]:
  "by_calls Q (rw_store st) (rw_store (snd (CompleteExecution st c receivedAt w)))"
  "by_calls Q (rw_store st) (rw_store (snd (CompleteVerifiedExecution st c receivedAt w)))"
  "by_calls Q (rw_store st) (rw_store (snd (CompleteSyntheticDemoExecution st c receivedAt w)))"
  by (simp_all add: CompleteExecution_def CompleteVerifiedExecution_def CompleteSyntheticDemoExecution_def completion_calls)

section \<open>The gate\<close>

text \<open>Every record of one state is in the other, moved along its lifecycle.\<close>

lemma moves_trans: "moves r r1 \<Longrightarrow> moves r1 r2 \<Longrightarrow> moves r r2"
  by (auto simp: moves_def)

definition follows :: "('s \<Rightarrow> string \<Rightarrow> permit_record option) \<Rightarrow> 's \<Rightarrow> 's \<Rightarrow> bool" where
  "follows record_of st st' \<longleftrightarrow> (\<forall>i r. record_of st i = Some r \<longrightarrow> (\<exists>r'. record_of st' i = Some r' \<and> moves r r'))"

lemma follows_refl [simp]: "follows record_of st st"
  by (simp add: follows_def)

lemma follows_trans: "follows record_of st st1 \<Longrightarrow> follows record_of st1 st2 \<Longrightarrow> follows record_of st st2"
  unfolding follows_def by (metis moves_trans)

text \<open>
  A relation that every call of a gate keeps, from the state before to the state after, is kept by every request
  of the proxy: the proxy changes the state through its gate only.
\<close>

locale gate_steps =
  fixes g :: "'s gate"
    and R :: "'s \<Rightarrow> 's \<Rightarrow> bool"
  assumes step_refl: "R st st"
    and step_trans: "R st st1 \<Longrightarrow> R st1 st2 \<Longrightarrow> R st st2"
    and verify_step: "R st (snd (gt_verify g token proof a m p st))"
    and ingest_step: "R st (gt_ingest g event st)"
    and gate_complete_step: "R st (snd (gt_complete g c st))"
begin

lemma complete_step: "R st (snd (complete_if_verified g v c st))"
  by (simp add: complete_if_verified_def gate_complete_step step_refl)

lemma forward_step: "R st (snd (forward lib g client now inbound body routing v a upstream st))"
  using step_trans [OF ingest_step complete_step]
  by (auto simp: forward_def Let_def complete_step case_prod_unfold split: upstream_outcome.split option.split)

lemma verify_call_step: "verify_call g req c st = ((v, e), st1) \<Longrightarrow> R st st1"
  using verify_step unfolding verify_call_def by (metis snd_conv)

lemma serve_step: "R st (snd (serve_tool_call lib cr g p client now req rpc routing st))"
proof (cases "prepare_call lib cr p (mr_Header req) rpc routing")
  case (Inl reply)
  then show ?thesis by (simp add: serve_tool_call_def step_refl)
next
  case (Inr c)
  obtain v e st1 where v: "verify_call g req c st = ((v, e), st1)" by (metis prod.exhaust)
  show ?thesis using verify_call_step [OF v] step_trans [OF verify_call_step [OF v] forward_step]
    by (simp add: serve_tool_call_def Inr v)
qed

lemma http_step: "R st (snd (Proxy_ServeHTTP lib cr g p client now req st))"
  by (simp add: Proxy_ServeHTTP_def serve_step forward_step step_refl split: sum.split prod.split)

end

text \<open>
  What the proxy relies on in a gate that keeps permit records: no call brings a record back or changes its
  claims, and an answer \<open>Verified\<close> takes the permit it names from issued to consumed.
\<close>

locale execution_gate =
  fixes g :: "'s gate"
    and record_of :: "'s \<Rightarrow> string \<Rightarrow> permit_record option"
  assumes verify_follows: "follows record_of st (snd (gt_verify g token proof a m p st))"
    and ingest_follows: "follows record_of st (gt_ingest g event st)"
    and gate_complete_follows: "follows record_of st (snd (gt_complete g c st))"
    and verify_consumes: "gt_verify g token proof a m p st = ((v, e), st') \<Longrightarrow> pv_Verified v \<Longrightarrow>
      (\<exists>r. record_of st (pv_PermitID v) = Some r \<and> pr_State r = StateIssued)
      \<and> (\<exists>r'. record_of st' (pv_PermitID v) = Some r' \<and> pr_State r' = StateConsumed)"

sublocale execution_gate \<subseteq> records: gate_steps g "follows record_of"
  by unfold_locales (auto intro: verify_follows ingest_follows gate_complete_follows follows_trans)

lemma forward_sent:
  "forward lib g client now inbound body routing v a upstream st = ((reply, sent), st') \<Longrightarrow>
     sent = [] \<or> sent = [\<lparr>ou_URL = ur_String upstream, ou_Header = outbound_headers (mr_Header inbound) routing, ou_Body = body\<rparr>]"
  by (auto simp: forward_def Let_def split: if_splits prod.splits upstream_outcome.splits)

text \<open>A tool call that went upstream: it was prepared, the gate verified it, and the prepared request is what was sent.\<close>

lemma serve_sent:
  assumes "serve_tool_call lib cr g p client now req rpc routing st = ((reply, sent), st')" "sent \<noteq> []"
  obtains c v st1 where "prepare_call lib cr p (mr_Header req) rpc routing = Inr c"
    "verify_call g req c st = ((v, None), st1)" "pv_Verified v" "pv_Outcome v = OutcomeVerified"
    "sent = [\<lparr>ou_URL = ur_String (ca_Upstream c), ou_Header = outbound_headers (mr_Header req) routing, ou_Body = ca_Body c\<rparr>]"
    "forward lib g client now req (ca_Body c) routing v (Some (pe_action (ca_Prepared c))) (ca_Upstream c) st1 = ((reply, sent), st')"
proof (cases "prepare_call lib cr p (mr_Header req) rpc routing")
  case (Inl x)
  then show ?thesis using assms by (simp add: serve_tool_call_def)
next
  case (Inr c)
  obtain v e st1 where v: "verify_call g req c st = ((v, e), st1)" by (metis prod.exhaust)
  have run: "e = None" "pv_Verified v" "pv_Outcome v = OutcomeVerified"
    "forward lib g client now req (ca_Body c) routing v (Some (pe_action (ca_Prepared c))) (ca_Upstream c) st1 = ((reply, sent), st')"
    using assms by (auto simp: serve_tool_call_def Inr v split: if_splits)
  show ?thesis
    by (rule that [OF Inr v [unfolded run(1)] run(2,3) _ run(4)]) (use forward_sent [OF run(4)] assms(2) in blast)
qed

section \<open>The router is such a gate\<close>

lemma inspect_names:
  "inspectPermit cr v s token cls now = (result, s') \<Longrightarrow> vr_Claims result = Some c \<Longrightarrow>
     vr_PermitID result = cl_PermitID c \<and> vr_RequestID result = cl_RequestID c"
  by (auto simp: inspectPermit_def initial_result_def Let_def split: sum.splits if_splits option.splits prod.splits)

lemma proof_names:
  "verifyExecutionProof cr v g token proofToken a m p now = (result, g') \<Longrightarrow> vr_Claims result = Some c \<Longrightarrow>
     vr_PermitID result = cl_PermitID c \<and> vr_RequestID result = cl_RequestID c"
  by (auto simp: verifyExecutionProof_unfold Let_def dest: inspect_names split: prod.splits if_splits option.splits)

lemma execute_names:
  "VerifyExecutionAndConsume cr v g token proofToken a m p now later = (result, g') \<Longrightarrow> vr_Claims result = Some c \<Longrightarrow>
     vr_PermitID result = cl_PermitID c \<and> vr_RequestID result = cl_RequestID c"
  by (auto simp: VerifyExecutionAndConsume_def consumeInspected_def Let_def dest: proof_names split: prod.splits if_splits)

lemma follows_calls: "by_calls Q (rw_store st) (rw_store st') \<Longrightarrow> follows (\<lambda>st i. record_at (rw_store st) i) st st'"
  by (auto simp: follows_def intro: by_calls_moves)

text \<open>Nothing that comes through the proxy registers a permit.\<close>

interpretation router_steps: gate_steps "router_gate cr x" "\<lambda>st st'. by_calls Q (rw_store st) (rw_store st')" for cr x Q
  by unfold_locales (auto simp: router_gate_def case_prod_unfold Let_def store_calls intro: by_calls_trans)

text \<open>What the gate of the router answers as verified is an allowed execution of the verifier.\<close>

lemma router_gate_verified:
  assumes "gt_verify (router_gate cr x) token proof a m p st = ((v, e), st')" "pv_Verified v"
  obtains result g' c where
    "VerifyExecutionAndConsume cr (rw_verifier st) (rw_guard st) token proof a m p (gi_now x) (gi_later x) = (result, g')"
    "Result_Allowed result" "rw_guard st' = g'" "vr_Claims result = Some c" "pv_PermitID v = cl_PermitID c"
    "permit_evidence cr (rw_verifier st) (rw_store st) token ClassExecution c (max (gi_now x) (gi_later x))"
    "\<exists>r. record_at (gs_store g') (cl_PermitID c) = Some r \<and> pr_State r = StateConsumed"
proof -
  obtain result g' where run: "VerifyExecutionAndConsume cr (rw_verifier st) (rw_guard st) token proof a m p (gi_now x) (gi_later x)
    = (result, g')" by (rule prod.exhaust)
  define aud where "aud = auditPermitVerification result SourceGatewayEnforced (permitVerification result SourceGatewayEnforced)
    (gi_attempt x) (gi_decision x) (gi_verify_write x) (st\<lparr>rw_guard := g'\<rparr>)"
  have aud: "aud = ((v, e), st')"
    using assms(1) by (simp add: router_gate_def Router_VerifyExecutionAndConsume_def run aud_def)
  have "pv_Verified (fst (fst aud)) = Result_Allowed result" "pv_PermitID (fst (fst aud)) = vr_PermitID result"
    "rw_guard (snd aud) = g'" by (simp_all add: aud_def audit_verification_answer)
  then have v: "pv_Verified v = Result_Allowed result" "pv_PermitID v = vr_PermitID result" "rw_guard st' = g'"
    by (simp_all add: aud)
  have al: "Result_Allowed result" using assms(2) v(1) by simp
  obtain c where c: "vr_Claims result = Some c"
    "permit_evidence cr (rw_verifier st) (gs_store (rw_guard st)) token ClassExecution c (max (gi_now x) (gi_later x))"
    "\<exists>r. record_at (gs_store g') (cl_PermitID c) = Some r \<and> pr_State r = StateConsumed"
    by (rule execute_allowed [OF run al])
  show ?thesis
    by (rule that [OF run al v(3) c(1) _ _ c(3)]) (use v(2) execute_names [OF run c(1)] c(2) in auto)
qed

interpretation router_gates: execution_gate "router_gate cr x" "\<lambda>st i. record_at (rw_store st) i" for cr x
proof
  show "follows (\<lambda>st i. record_at (rw_store st) i) st (snd (gt_verify (router_gate cr x) token pr a m p st))"
    for st token pr a m p by (simp add: router_gate_def follows_calls store_calls)
  show "follows (\<lambda>st i. record_at (rw_store st) i) st (gt_ingest (router_gate cr x) event st)" for st event
    by (simp add: router_gate_def follows_calls store_calls)
  show "follows (\<lambda>st i. record_at (rw_store st) i) st (snd (gt_complete (router_gate cr x) c st))" for st c
    by (simp add: router_gate_def case_prod_unfold Let_def follows_calls store_calls)
next
  fix st token pr a m p v e st'
  assume v: "gt_verify (router_gate cr x) token pr a m p st = ((v, e), st')" "pv_Verified v"
  obtain result g' c where c: "rw_guard st' = g'" "pv_PermitID v = cl_PermitID c"
    "permit_evidence cr (rw_verifier st) (rw_store st) token ClassExecution c (max (gi_now x) (gi_later x))"
    "\<exists>r. record_at (gs_store g') (cl_PermitID c) = Some r \<and> pr_State r = StateConsumed"
    by (rule router_gate_verified [OF v]) blast
  then show "(\<exists>r. record_at (rw_store st) (pv_PermitID v) = Some r \<and> pr_State r = StateIssued)
      \<and> (\<exists>r'. record_at (rw_store st') (pv_PermitID v) = Some r' \<and> pr_State r' = StateConsumed)"
    by (auto simp: permit_evidence_def)
qed

end
