(* ===== verification/Control_Plane.thy ===== *)
theory Control_Plane
  imports Gateway_Facts
begin

text \<open>
  The whole control plane at run time: the router with the proxy in front, and everything a client, an
  operator or an executor can ask of them, in any order. \<open>single_use\<close> holds of it for the tool calls
  that leave the proxy.
\<close>

datatype plane_op =
    PlaneAuthorize authorization authorize_inputs
  | PlaneDemo request duration authorize_inputs
  | PlaneHTTP mcp_request "outbound \<Rightarrow> upstream_outcome" time gate_inputs
  | PlaneDemoVerify string request time time entropy entropy write_outcome
  | PlaneCheck string request time
  | PlaneEvent runtime_event time write_outcome
  | PlaneComplete execution_completion time write_outcome
  | PlaneDemoComplete execution_completion time write_outcome
  | PlaneRevoke string time write_outcome
  | PlaneAuthority authority_key bool time "write_outcome list"
  | PlaneList time
  | PlaneGet string time
  | PlaneKey string string

text \<open>Only the answer of the proxy, and what it sent upstream, matter here.\<close>

datatype plane_reply = PlaneDone | PlaneAnswer proxy_reply "outbound list"

fun plane_step :: "go_library \<Rightarrow> crypto \<Rightarrow> router \<Rightarrow> proxy \<Rightarrow> plane_op \<Rightarrow> router_state \<Rightarrow> plane_reply \<times> router_state" where
  "plane_step lib cr r p (PlaneAuthorize az x) st = (PlaneDone, snd (AuthorizeTrustedAction cr r st az x))"
| "plane_step lib cr r p (PlaneDemo req ttl x) st = (PlaneDone, snd (AuthorizeSyntheticDemoAction cr r st req ttl x))"
| "plane_step lib cr r p (PlaneHTTP req client now x) st =
    (let ((reply, sent), st') = Proxy_ServeHTTP lib cr (router_gate cr x) p client now req st in (PlaneAnswer reply sent, st'))"
| "plane_step lib cr r p (PlaneDemoVerify token req now later attempt decision w) st =
    (PlaneDone, snd (VerifySyntheticDemoRequest cr st token req now later attempt decision w))"
| "plane_step lib cr r p (PlaneCheck token req now) st = (PlaneDone, snd (CheckExecutionRequest cr r st token req now))"
| "plane_step lib cr r p (PlaneEvent event now w) st = (PlaneDone, snd (IngestRuntimeEvent st event now w))"
| "plane_step lib cr r p (PlaneComplete c now w) st = (PlaneDone, snd (CompleteExecution st c now w))"
| "plane_step lib cr r p (PlaneDemoComplete c now w) st = (PlaneDone, snd (CompleteSyntheticDemoExecution st c now w))"
| "plane_step lib cr r p (PlaneRevoke i now w) st = (PlaneDone, snd (RevokePermit st i now w))"
| "plane_step lib cr r p (PlaneAuthority key enabled now ws) st = (PlaneDone, snd (Router_SetAuthorityEnabled st key enabled now ws))"
| "plane_step lib cr r p (PlaneList now) st = (PlaneDone, snd (ListPermits st now))"
| "plane_step lib cr r p (PlaneGet i now) st = (PlaneDone, snd (GetPermit st i now))"
| "plane_step lib cr r p (PlaneKey keyID publicKey) st = (PlaneDone, snd (RegisterWorkload st keyID publicKey))"

text \<open>A request for a tool, the token it carries, and the answer that it was sent upstream.\<close>

definition is_tool_call :: "mcp_request \<Rightarrow> bool" where
  "is_tool_call req \<longleftrightarrow>
    (case admit_request req of Inl reply \<Rightarrow> False | Inr (rpc, routing) \<Rightarrow> rp_Method rpc = ''tools/call'')"

definition request_token :: "mcp_request \<Rightarrow> string option" where
  "request_token req = permitToken (header_get (mr_Header req) ''Authorization'')"

fun tool_called_with :: "string \<Rightarrow> plane_op \<times> plane_reply \<Rightarrow> bool" where
  "tool_called_with token (PlaneHTTP req client now x, PlaneAnswer reply sent) \<longleftrightarrow>
    sent \<noteq> [] \<and> is_tool_call req \<and> request_token req = Some token"
| "tool_called_with token _ \<longleftrightarrow> False"

text \<open>The permit a signed token names, whatever the key.\<close>

definition token_names :: "crypto \<Rightarrow> string \<Rightarrow> string \<Rightarrow> bool" where
  "token_names cr token i \<longleftrightarrow> (\<exists>key c. VerifyToken cr key token = Inr c \<and> cl_PermitID c = i)"

definition tool_called_for :: "crypto \<Rightarrow> string \<Rightarrow> plane_op \<times> plane_reply \<Rightarrow> bool" where
  "tool_called_for cr i xr \<longleftrightarrow> (\<exists>token. tool_called_with token xr \<and> token_names cr token i)"

lemma token_names_unique:
  assumes "token_names cr token i" "token_names cr token j"
  shows "i = j"
proof -
  have "c = c'" if "VerifyToken cr k token = Inr c" "VerifyToken cr k' token = Inr c'" for k k' c c'
    using that by (auto simp: VerifyToken_def split: if_splits sum.splits prod.splits option.splits)
  then show ?thesis using assms by (auto simp: token_names_def)
qed

lemma prepare_token:
  "prepare_call lib cr p h rpc routing = Inr c \<Longrightarrow> permitToken (header_get h ''Authorization'') = Some (ca_Token c)"
  by (auto simp: prepare_call_def split: sum.splits option.splits)

text \<open>A tool call that was sent: the request was admitted and the gate verified what it prepared.\<close>

lemma tool_call_sent:
  assumes "Proxy_ServeHTTP lib cr g p client now req st = ((reply, sent), st')" "is_tool_call req" "sent \<noteq> []"
  obtains rpc routing c v st1 where "admit_request req = Inr (rpc, routing)" "rp_Method rpc = ''tools/call''"
    "prepare_call lib cr p (mr_Header req) rpc routing = Inr c" "request_token req = Some (ca_Token c)"
    "gt_verify g (ca_Token c) (single_proof (mr_Header req)) (pe_action (ca_Prepared c)) (mr_Method req) (mr_Path req) st = ((v, None), st1)"
    "pv_Verified v"
    "sent = [\<lparr>ou_URL = ur_String (ca_Upstream c), ou_Header = outbound_headers (mr_Header req) routing, ou_Body = ca_Body c\<rparr>]"
    "forward lib g client now req (ca_Body c) routing v (Some (pe_action (ca_Prepared c))) (ca_Upstream c) st1 = ((reply, sent), st')"
proof -
  obtain rpc routing where a: "admit_request req = Inr (rpc, routing)" "rp_Method rpc = ''tools/call''"
    using assms(2) by (auto simp: is_tool_call_def split: sum.splits prod.splits)
  then have run: "serve_tool_call lib cr g p client now req rpc routing st = ((reply, sent), st')"
    using assms(1) by (simp add: Proxy_ServeHTTP_def)
  obtain c v st1 where s: "prepare_call lib cr p (mr_Header req) rpc routing = Inr c"
    "verify_call g req c st = ((v, None), st1)" "pv_Verified v"
    "sent = [\<lparr>ou_URL = ur_String (ca_Upstream c), ou_Header = outbound_headers (mr_Header req) routing, ou_Body = ca_Body c\<rparr>]"
    "forward lib g client now req (ca_Body c) routing v (Some (pe_action (ca_Prepared c))) (ca_Upstream c) st1 = ((reply, sent), st')"
    by (rule serve_sent [OF run assms(3)])
  show ?thesis
    by (rule that [OF a s(1) _ _ s(3-5)]) (use s(1,2) prepare_token in \<open>auto simp: request_token_def verify_call_def\<close>)
qed

text \<open>Under the router, such a call consumed the permit its token names.\<close>

lemma plane_called:
  assumes "plane_step lib cr r p y st = (reply, st')" "tool_called_with token (y, reply)"
  obtains i where "token_names cr token i" "\<exists>q. record_at (rw_store st) i = Some q \<and> pr_State q = StateIssued"
    "\<exists>q. record_at (rw_store st') i = Some q \<and> pr_State q = StateConsumed"
proof -
  obtain req client now x answer sent where y: "y = PlaneHTTP req client now x" "reply = PlaneAnswer answer sent"
    "sent \<noteq> []" "is_tool_call req" "request_token req = Some token"
    using assms(2) by (cases y; cases reply) auto
  have run: "Proxy_ServeHTTP lib cr (router_gate cr x) p client now req st = ((answer, sent), st')"
    using assms(1) y(1,2) by (auto split: prod.splits)
  obtain c :: prepared_call and v st1 routing where c: "request_token req = Some (ca_Token c)"
    "gt_verify (router_gate cr x) (ca_Token c) (single_proof (mr_Header req)) (pe_action (ca_Prepared c)) (mr_Method req)
       (mr_Path req) st = ((v, None), st1)" "pv_Verified v"
    "forward lib (router_gate cr x) client now req (ca_Body c) routing v (Some (pe_action (ca_Prepared c))) (ca_Upstream c) st1
       = ((answer, sent), st')"
    by (rule tool_call_sent [OF run y(4,3)]) blast
  obtain cl where cl: "pv_PermitID v = cl_PermitID cl"
    "permit_evidence cr (rw_verifier st) (rw_store st) (ca_Token c) ClassExecution cl (max (gi_now x) (gi_later x))"
    by (rule router_gate_verified [OF c(2,3)]) blast
  have names: "token_names cr token (pv_PermitID v)"
    using cl c(1) y(5) by (auto simp: permit_evidence_def token_trusted_def token_names_def)
  have moved: "(\<exists>q. record_at (rw_store st) (pv_PermitID v) = Some q \<and> pr_State q = StateIssued)
    \<and> (\<exists>q. record_at (rw_store st1) (pv_PermitID v) = Some q \<and> pr_State q = StateConsumed)"
    by (rule router_gates.verify_consumes [OF c(2,3)])
  have "follows (\<lambda>st i. record_at (rw_store st) i) st1 (snd (forward lib (router_gate cr x) client now req (ca_Body c) routing v
      (Some (pe_action (ca_Prepared c))) (ca_Upstream c) st1))" by (rule router_gates.records.forward_step)
  then have "\<exists>q. record_at (rw_store st') (pv_PermitID v) = Some q \<and> pr_State q = StateConsumed"
    using moved c(4) by (fastforce simp: follows_def moves_def)
  then show thesis using that [OF names] moved by blast
qed

lemma plane_consumes:
  assumes "plane_step lib cr r p y st = (reply, st')" "tool_called_for cr i (y, reply)"
  shows "(\<exists>q. record_at (rw_store st) i = Some q \<and> pr_State q = StateIssued)
    \<and> (\<exists>q'. record_at (rw_store st') i = Some q' \<and> pr_State q' = StateConsumed)"
  using assms token_names_unique unfolding tool_called_for_def by (metis plane_called)

lemma plane_keeps:
  assumes "plane_step lib cr r p y st = (reply, st')" "record_at (rw_store st) i = Some q"
  shows "\<exists>q'. record_at (rw_store st') i = Some q' \<and> pr_Claims q' = pr_Claims q \<and> (pr_State q \<noteq> StateIssued \<longrightarrow> q' = q)"
proof -
  have "follows (\<lambda>st i. record_at (rw_store st) i) st st'"
  proof (cases y)
    case (PlaneHTTP req client now x)
    have "follows (\<lambda>st i. record_at (rw_store st) i) st (snd (Proxy_ServeHTTP lib cr (router_gate cr x) p client now req st))"
      by (rule router_gates.records.http_step)
    then show ?thesis using assms(1) PlaneHTTP by (auto split: prod.splits)
  next
    case (PlaneKey keyID publicKey)
    then show ?thesis using assms(1) by (auto simp: RegisterWorkload_def intro!: follows_calls split: prod.splits)
  qed (use assms(1) in \<open>auto intro!: follows_calls store_calls\<close>)
  then show ?thesis using assms(2) unfolding follows_def moves_def by blast
qed

lemma filter_mono_length: "(\<And>x. x \<in> set xs \<Longrightarrow> P x \<Longrightarrow> Q x) \<Longrightarrow> length (filter P xs) \<le> length (filter Q xs)"
  by (induction xs) (auto simp: le_SucI)

lemma run_ops_steps:
  "(x, reply) \<in> set (zip ops (fst (run_ops step ops s))) \<Longrightarrow> \<exists>s1 s2. step x s1 = (reply, s2)"
  by (induction ops arbitrary: s) (auto simp: Let_def case_prod_unfold prod_eq_iff)

text \<open>What grants the use of a permit that it names, and of no other, is granted at most once, whichever permit that is.\<close>

context single_use begin

lemma granted_once_by_name:
  assumes "\<And>x s reply s'. step x s = (reply, s') \<Longrightarrow> P (x, reply) \<Longrightarrow> \<exists>i. names i \<and> grants i (x, reply)"
    and "\<And>i j. names i \<Longrightarrow> names j \<Longrightarrow> i = j"
  shows "count_replies P xs (fst (run_ops step xs s)) \<le> 1"
proof (cases "\<exists>i. names i")
  case True
  then obtain i where i: "names i" ..
  have "grants i y" if "y \<in> set (zip xs (fst (run_ops step xs s)))" "P y" for y
    using run_ops_steps [of "fst y" "snd y" xs step s] that assms(1) assms(2) [OF i] by fastforce
  then have "count_replies P xs (fst (run_ops step xs s)) \<le> count_replies (grants i) xs (fst (run_ops step xs s))"
    unfolding count_replies_def by (rule filter_mono_length)
  also have "\<dots> \<le> 1" by (rule granted_once [OF prod.collapse [symmetric]])
  finally show ?thesis .
next
  case False
  have "\<not> P y" if "y \<in> set (zip xs (fst (run_ops step xs s)))" for y
    using run_ops_steps [of "fst y" "snd y" xs step s] that assms(1) False by fastforce
  then show ?thesis by (simp add: count_replies_def filter_empty_conv)
qed

end

interpretation plane: single_use "plane_step lib cr r p" "\<lambda>st i. record_at (rw_store st) i" "tool_called_for cr" for lib cr r p
  by unfold_locales (rule plane_keeps, assumption+, rule plane_consumes)

end
