(* ===== verification/Gateway_Samples.thy ===== *)
theory Gateway_Samples
  imports Control_Plane Router_Samples
begin

text \<open>
  A proxy in front of the router of \<open>Router_Samples\<close>, and the request that uses the permit issued there.
\<close>

section \<open>A token in a header\<close>

definition printable :: "string \<Rightarrow> bool" where
  "printable s \<longleftrightarrow> list_all (\<lambda>c. 33 \<le> byte c \<and> byte c < 127) s"

lemma printable_append [simp]: "printable (s @ t) \<longleftrightarrow> printable s \<and> printable t"
  by (simp add: printable_def)

lemma printable_char [simp]: "n < 64 \<Longrightarrow> 33 \<le> byte (b64_char n) \<and> byte (b64_char n) < 127"
  by (auto simp: b64_char_def)

lemma printable_b64 [simp]: "printable (b64_encode s)"
  by (induction s rule: b64_encode.induct) (simp_all add: printable_def)

lemma printable_spaceless: "printable s \<Longrightarrow> c \<in> set s \<Longrightarrow> \<not> is_space (byte c)"
  by (auto simp: printable_def is_space_def list_all_iff)

lemma printable_ascii: "printable s \<Longrightarrow> ascii s"
  by (auto simp: printable_def ascii_def list_all_iff)

lemma split_spaces_nonempty [simp]: "split_spaces chs \<noteq> []"
  by (cases chs) (auto split: list.split)

lemma split_word:
  "\<forall>c \<in> set w. \<not> is_space (byte c) \<Longrightarrow>
     split_spaces (map (\<lambda>c. (byte c, [c])) w @ rest) =
       (case split_spaces rest of [] \<Rightarrow> [w] | v # vs \<Rightarrow> (w @ v) # vs)"
  by (induction w) (auto split: list.split)

lemma permit_header:
  assumes "printable token" "token \<noteq> []"
  shows "permitToken (''AegisPermit '' @ token) = Some token"
proof -
  let ?f = "\<lambda>c. (byte c, [c])"
  have w: "printable ''AegisPermit''" by (simp add: printable_def)
  have "ascii (''AegisPermit '' @ token)" using printable_ascii [OF assms(1)] by (simp add: ascii_def)
  then have "rune_chunks (''AegisPermit '' @ token) = map ?f ''AegisPermit'' @ ?f (CHR '' '') # map ?f token @ []"
    by (simp add: chunks_ascii)
  moreover have "is_space (byte (CHR '' ''))" by (simp add: is_space_def)
  moreover have "split_spaces (map ?f token @ []) = [token]"
    using split_word [of token "[]"] printable_spaceless [OF assms(1)] by simp
  ultimately have "str_fields (''AegisPermit '' @ token) = [''AegisPermit'', token]"
    using split_word [of "''AegisPermit''"] printable_spaceless [OF w] assms(2) by (simp add: str_fields_def)
  then show ?thesis using assms(2) by (simp add: permitToken_def)
qed

text \<open>A signed token goes through the header as it is.\<close>

lemma signed_token_in_header:
  assumes "SignToken cr privateKey keyID c = Inr token"
  shows "permitToken (''AegisPermit '' @ token) = Some token"
proof (rule permit_header)
  have dot: "printable (CHR ''.'' # s) \<longleftrightarrow> printable s" for s by (simp add: printable_def)
  show "printable token" "token \<noteq> []"
    using assms by (auto simp: SignToken_def Let_def dot split: if_splits option.splits)
qed

section \<open>The deployment\<close>

definition sample_library :: go_library where
  "sample_library =
    \<lparr>gl_parse_url = (\<lambda>s. if s = ''http://bank'' then Some (pf_upstream sample_profile) else None), gl_upper = (\<lambda>s. True)\<rparr>"

definition sample_proxy :: proxy where
  "sample_proxy = \<lparr>pr_registry = sample_registry, pr_controlUpstream = pf_upstream sample_profile\<rparr>"

lemma sample_proxy_made: "NewProxy sample_library True (Some sample_registry) ''http://bank'' None = Inr sample_proxy"
  by code_simp

text \<open>The state after the permit was issued and recorded.\<close>

definition sample_gateway :: router_state where
  "sample_gateway =
    sample_state\<lparr>rw_guard := rw_guard (snd sample_answer),
      rw_audit := \<lparr>au_path = [],
        au_records = [verification_record (initial_result sample_now) SourceGatewayEnforced
          (cl_RequestID sample_payment_claims) ''decision-1''], au_log = []\<rparr>\<rparr>"

definition sample_identity_headers :: headers where
  "sample_identity_headers =
    [(''X-Aegis-Principal-Id'', [''alice'']), (''X-Aegis-Agent-Id'', [''agent'']), (''X-Aegis-Workload-Id'', [''w'']),
     (''X-Aegis-Delegation-Fingerprint'', [replicate 64 (CHR ''a'')]), (''X-Aegis-Capability'', [''pay.send'']),
     (''X-Aegis-Resource'', [''acct'']), (''X-Aegis-Operation'', [''create'']), (''X-Aegis-Profile-Id'', [PaymentSendV1ID]),
     (''X-Aegis-Audience'', [''bank''])]"

definition sample_headers :: headers where
  "sample_headers =
    (''Authorization'', [''AegisPermit '' @ sample_payment_token]) # (''X-Aegis-Execution-Proof'', [sample_payment_proof])
      # sample_identity_headers"

definition sample_body :: string where
  "sample_body =
    ''{\"jsonrpc\":\"2.0\",\"id\":1,\"method\":\"tools/call\",\"params\":{\"name\":\"payment.send\",\"arguments\":''
      @ aq_Arguments (rq_Action sample_payment_request) @ ''}}''"

definition sample_http :: mcp_request where
  "sample_http = \<lparr>mr_Method = ''POST'', mr_Path = ''/mcp'', mr_Header = sample_headers, mr_Body = Some sample_body\<rparr>"

definition sample_rpc :: rpc_request where
  "sample_rpc =
    \<lparr>rp_JSONRPC = ''2.0'', rp_ID = ''1'', rp_Method = ''tools/call'',
     rp_Params = ''{\"name\":\"payment.send\",\"arguments\":'' @ aq_Arguments (rq_Action sample_payment_request) @ ''}''\<rparr>"

definition sample_routing :: routing_metadata where
  "sample_routing = \<lparr>rm_ProtocolVersion = [], rm_Method = ''tools/call'', rm_Name = ''payment.send'', rm_Modern = False\<rparr>"

definition sample_params :: tool_call_params where
  "sample_params = \<lparr>tl_Name = ''payment.send'', tl_Arguments = aq_Arguments (rq_Action sample_payment_request), tl_Meta = []\<rparr>"

definition sample_call :: prepared_call where
  "sample_call =
    \<lparr>ca_Token = sample_payment_token, ca_Prepared = sample_prepared, ca_Upstream = pf_upstream sample_profile,
     ca_Body = normalizedToolCallBody sample_rpc sample_params (pe_arguments sample_prepared)\<rparr>"

abbreviation sample_header :: "string list \<Rightarrow> string list \<Rightarrow> headers" where
  "sample_header v w \<equiv> (''Authorization'', v) # (''X-Aegis-Execution-Proof'', w) # sample_identity_headers"

lemma sample_admits: "admit_request sample_http = Inr (sample_rpc, sample_routing)"
proof -
  have "\<not> isl (CanonicalizeJSON sample_body)" "parseRPCEnvelope sample_body = Inr sample_rpc" "length sample_body \<le> maxRequestBytes"
    by code_simp+
  moreover have "validateRoutingMetadata (sample_header v w) sample_rpc = Inr sample_routing" for v w by code_simp
  ultimately show ?thesis
    by (cases "CanonicalizeJSON sample_body") (simp_all add: admit_request_def sample_http_def sample_headers_def)
qed

lemma sample_call_prepared:
  "prepare_call sample_library sample_crypto sample_proxy (mr_Header sample_http) sample_rpc sample_routing = Inr sample_call"
proof -
  have token: "header_get (sample_header (t # v) w) ''Authorization'' = t" for t v w by code_simp
  have "permitToken (''AegisPermit '' @ sample_payment_token) = Some sample_payment_token"
    by (rule signed_token_in_header [OF sample_payment_signs])
  moreover have "parseToolCallParams (rp_Params sample_rpc) = Inr sample_params"
    "validateBoundToolMeta (tl_Meta sample_params) (rm_ProtocolVersion sample_routing) = None"
    "pr_registry sample_proxy = sample_registry" "upstream_of sample_library sample_registry (pe_upstreamURL sample_prepared)
       = Some (pf_upstream sample_profile)" by code_simp+
  moreover have "Prepare (Some sample_registry) (call_input sample_crypto (sample_header v w) sample_params) = Inr sample_prepared"
    for v w by code_simp
  ultimately show ?thesis
    by (simp add: prepare_call_def sample_http_def sample_headers_def token sample_call_def)
qed

definition sample_gate_inputs :: gate_inputs where
  "sample_gate_inputs =
    \<lparr>gi_now = sample_now, gi_later = sample_now, gi_attempt = NoRandom 0, gi_decision = NoRandom 0, gi_verify_write = WriteOk,
     gi_event_now = sample_now, gi_event_write = WriteOk, gi_receivedAt = sample_now, gi_complete_write = WriteOk\<rparr>"

text \<open>The gate verifies the call, and the request goes upstream.\<close>

lemma sample_gate_verifies:
  obtains v st1 where "verify_call (router_gate sample_crypto sample_gate_inputs) sample_http sample_call sample_gateway = ((v, None), st1)"
    "pv_Verified v" "pv_Outcome v = OutcomeVerified"
proof -
  obtain result g' where run: "VerifyExecutionAndConsume sample_crypto sample_verifier (rw_guard (snd sample_answer)) sample_payment_token
      sample_payment_proof sample_payment_action ''POST'' ''/mcp'' sample_now sample_now = (result, g')" by (rule prod.exhaust)
  have r: "Result_Allowed result" "vr_Claims result = Some sample_payment_claims"
    using admissible_executes [OF sample_payment_admissible] by (simp_all add: run)
  have id: "vr_RequestID result = cl_RequestID sample_payment_claims" using execute_names [OF run r(2)] by blast
  have "cl_RequestID sample_payment_claims \<noteq> []" by code_simp
  moreover have "ar_RequestID (verification_record (initial_result sample_now) SourceGatewayEnforced (cl_RequestID sample_payment_claims) d)
      = cl_RequestID sample_payment_claims" for d by (simp add: verification_record_def Let_def)
  ultimately have "fst (mutate_audit WriteOk (vr_RequestID result) f (sample_gateway\<lparr>rw_guard := g'\<rparr>)) = None" for f
    unfolding id by (simp add: mutate_audit_def Audit_Mutate_def sample_gateway_def persist_def)
  then have audit: "fst (auditPermitVerification result source v a d WriteOk (sample_gateway\<lparr>rw_guard := g'\<rparr>)) = (v, None)" for source v a d
    using \<open>cl_RequestID sample_payment_claims \<noteq> []\<close> id
    by (simp add: auditPermitVerification_def Let_def case_prod_unfold)
  have single: "single_proof (sample_header v [w]) = w" for v w by code_simp
  show thesis
    by (rule that [of "permitVerification result SourceGatewayEnforced" "snd (verify_call (router_gate sample_crypto sample_gate_inputs) sample_http sample_call sample_gateway)"])
      (use r(1) audit in \<open>simp_all add: prod_eq_iff verify_call_def router_gate_def sample_call_def sample_http_def sample_headers_def single
        sample_prepared_def sample_gate_inputs_def Router_VerifyExecutionAndConsume_def sample_gateway_def sample_state_def run
        Result_Allowed_def\<close>)
qed

end
