(* ===== verification/Gateway_Properties.thy ===== *)
theory Gateway_Properties
  imports Gateway_Samples
begin

text \<open>
  The properties of the enforcement boundary (\<open>internal/adapters/mcp/proxy.go\<close>) and of the control plane
  with it in front.
\<close>

section \<open>A tool call goes upstream with its evidence only\<close>

text \<open>C1: nothing is sent for a \<open>tools/call\<close> unless its permit was verified and consumed. If a request for a tool was
  sent upstream, then it was prepared by a profile of the registry, every condition of admission held for the prepared
  action with the token and the single proof of the request, the permit was issued before and is consumed after the
  request, and exactly one request went out: to the upstream of the profile, with the normalized arguments of the
  prepared action in its body.\<close>

theorem tool_call_evidence:
  assumes "Proxy_ServeHTTP lib cr (router_gate cr x) p client now req st = ((reply, sent), st')"
    and "is_tool_call req" "sent \<noteq> []"
  shows "\<exists>rpc routing params prepared upstream token c q.
    admit_request req = Inr (rpc, routing) \<and> parseToolCallParams (rp_Params rpc) = Inr params
    \<and> Prepare (Some (pr_registry p)) (call_input cr (mr_Header req) params) = Inr prepared
    \<and> upstream_of lib (pr_registry p) (pe_upstreamURL prepared) = Some upstream
    \<and> request_token req = Some token
    \<and> admissible cr (rw_verifier st) (rw_guard st) token (single_proof (mr_Header req)) (pe_action prepared)
         (mr_Method req) (mr_Path req) (gi_now x) (gi_later x) c
    \<and> record_at (rw_store st') (cl_PermitID c) = Some q \<and> pr_State q = StateConsumed
    \<and> sent = [\<lparr>ou_URL = ur_String upstream, ou_Header = outbound_headers (mr_Header req) routing,
               ou_Body = normalizedToolCallBody rpc params (pe_arguments prepared)\<rparr>]"
proof -
  obtain rpc routing c v st1 where t: "admit_request req = Inr (rpc, routing)"
    "prepare_call lib cr p (mr_Header req) rpc routing = Inr c" "request_token req = Some (ca_Token c)"
    "gt_verify (router_gate cr x) (ca_Token c) (single_proof (mr_Header req)) (pe_action (ca_Prepared c)) (mr_Method req)
       (mr_Path req) st = ((v, None), st1)" "pv_Verified v"
    "sent = [\<lparr>ou_URL = ur_String (ca_Upstream c), ou_Header = outbound_headers (mr_Header req) routing, ou_Body = ca_Body c\<rparr>]"
    "forward lib (router_gate cr x) client now req (ca_Body c) routing v (Some (pe_action (ca_Prepared c))) (ca_Upstream c) st1
       = ((reply, sent), st')"
    by (rule tool_call_sent [OF assms]) blast
  obtain params where p: "parseToolCallParams (rp_Params rpc) = Inr params"
    "Prepare (Some (pr_registry p)) (call_input cr (mr_Header req) params) = Inr (ca_Prepared c)"
    "upstream_of lib (pr_registry p) (pe_upstreamURL (ca_Prepared c)) = Some (ca_Upstream c)"
    "ca_Body c = normalizedToolCallBody rpc params (pe_arguments (ca_Prepared c))"
    using t(2) by (auto simp: prepare_call_def split: sum.splits option.splits)
  obtain result g' cl where g: "VerifyExecutionAndConsume cr (rw_verifier st) (rw_guard st) (ca_Token c)
      (single_proof (mr_Header req)) (pe_action (ca_Prepared c)) (mr_Method req) (mr_Path req) (gi_now x) (gi_later x) = (result, g')"
    "Result_Allowed result" "rw_guard st1 = g'" "vr_Claims result = Some cl"
    "permit_evidence cr (rw_verifier st) (rw_store st) (ca_Token c) ClassExecution cl (max (gi_now x) (gi_later x))"
    "\<exists>r. record_at (gs_store g') (cl_PermitID cl) = Some r \<and> pr_State r = StateConsumed"
    by (rule router_gate_verified [OF t(4,5)]) blast
  obtain c' where adm: "admissible cr (rw_verifier st) (rw_guard st) (ca_Token c) (single_proof (mr_Header req))
      (pe_action (ca_Prepared c)) (mr_Method req) (mr_Path req) (gi_now x) (gi_later x) c'"
    using allowed_admissible g(1,2) by (metis fst_conv)
  have "c' = cl" using adm g(5) token_trusted_unique unfolding admissible_def permit_evidence_def by blast
  moreover obtain q where q: "record_at (rw_store st1) (cl_PermitID cl) = Some q" "pr_State q = StateConsumed"
    using g(3,6) by auto
  moreover have "follows (\<lambda>st i. record_at (rw_store st) i) st1 st'"
    using router_gates.records.forward_step t(7) by (metis snd_conv)
  ultimately have "record_at (rw_store st') (cl_PermitID c') = Some q"
    unfolding follows_def moves_def by (metis permit_state.distinct(1))
  then show ?thesis using t(1,3,6) p q(2) adm by blast
qed

definition sample_exchange :: "(proxy_reply \<times> outbound list) \<times> router_state" where
  "sample_exchange = Proxy_ServeHTTP sample_library sample_crypto (router_gate sample_crypto sample_gate_inputs) sample_proxy
     (\<lambda>o1. UpstreamUnavailable) sample_now sample_http sample_gateway"

lemma sample_sent: "is_tool_call sample_http" "snd (fst sample_exchange) \<noteq> []"
proof -
  have m: "rp_Method sample_rpc = ''tools/call''" by (simp add: sample_rpc_def)
  show "is_tool_call sample_http" by (simp add: is_tool_call_def sample_admits m)
  obtain v st1 where v: "verify_call (router_gate sample_crypto sample_gate_inputs) sample_http sample_call sample_gateway = ((v, None), st1)"
    "pv_Verified v" "pv_Outcome v = OutcomeVerified" by (rule sample_gate_verifies)
  have "gl_parse_url sample_library (ur_String (ca_Upstream sample_call)) \<noteq> None" by code_simp
  then show "snd (fst sample_exchange) \<noteq> []"
    unfolding sample_exchange_def
    by (simp add: Proxy_ServeHTTP_def sample_admits m serve_tool_call_def sample_call_prepared v forward_def Let_def case_prod_unfold)
qed

theorem tool_call_evidence_witness:
  "\<exists>q. record_at (rw_store (snd sample_exchange)) (cl_PermitID sample_payment_claims) = Some q \<and> pr_State q = StateConsumed"
proof -
  obtain reply sent st' where run: "sample_exchange = ((reply, sent), st')" by (metis prod.exhaust)
  have "sent \<noteq> []" using sample_sent(2) by (simp add: run)
  obtain prepared :: prepared and token c q where t: "request_token sample_http = Some token"
    "admissible sample_crypto (rw_verifier sample_gateway) (rw_guard sample_gateway) token (single_proof (mr_Header sample_http))
       (pe_action prepared) (mr_Method sample_http) (mr_Path sample_http) (gi_now sample_gate_inputs) (gi_later sample_gate_inputs) c"
    "record_at (rw_store st') (cl_PermitID c) = Some q" "pr_State q = StateConsumed"
    using tool_call_evidence [OF run [unfolded sample_exchange_def] sample_sent(1) \<open>sent \<noteq> []\<close>] by blast
  have "token = sample_payment_token"
    using t(1) prepare_token [OF sample_call_prepared] by (simp add: request_token_def sample_call_def)
  moreover have "rw_verifier sample_gateway = sample_verifier" by (simp add: sample_gateway_def sample_state_def)
  ultimately have "c = sample_payment_claims"
    using t(2) sample_payment_trusted token_trusted_unique unfolding admissible_def by metis
  then show ?thesis using t(3,4) by (auto simp: run)
qed

section \<open>One token, one tool call\<close>

text \<open>C2: over every sequence, in any order, of authorizations, requests, checks, events, completions, revocations and changes of
  authority, one token lets at most one tool call through the proxy.\<close>

theorem one_tool_call_per_token:
  "count_replies (tool_called_with token) ops (fst (run_ops (plane_step lib cr r p) ops st)) \<le> 1"
proof (rule plane.granted_once_by_name [where names = "token_names cr token" and cr = cr])
  fix y s reply s'
  assume step: "plane_step lib cr r p y s = (reply, s')" and called: "tool_called_with token (y, reply)"
  obtain i where "token_names cr token i" by (rule plane_called [OF step called])
  then show "\<exists>i. token_names cr token i \<and> tool_called_for cr i (y, reply)"
    using called by (auto simp: tool_called_for_def)
qed (rule token_names_unique)

section \<open>Nothing else leaves the proxy\<close>

definition routing_keys :: "string list" where
  "routing_keys = [''Content-Type'', ''Accept'', ''Mcp-Protocol-Version'', ''Mcp-Method'', ''Mcp-Name'']"

lemma outbound_keys: "set (map fst (outbound_headers inbound routing)) \<subseteq> set routing_keys"
proof -
  have k: "canonical_key ''Content-Type'' = ''Content-Type''" "canonical_key ''Accept'' = ''Accept''"
    "canonical_key HeaderProtocolVersion = ''Mcp-Protocol-Version''" "canonical_key HeaderMethod = ''Mcp-Method''"
    "canonical_key HeaderName = ''Mcp-Name''" by code_simp+
  have set: "set (map fst (header_set name v h)) \<subseteq> insert (canonical_key name) (set (map fst h))" for name v h
    by (auto simp: header_set_def mput_def AList.update_keys dom_update)
  have mem: "''Content-Type'' \<in> set routing_keys" "''Accept'' \<in> set routing_keys" "''Mcp-Protocol-Version'' \<in> set routing_keys"
    "''Mcp-Method'' \<in> set routing_keys" "''Mcp-Name'' \<in> set routing_keys" by (simp_all add: routing_keys_def)
  define ok where "ok h \<longleftrightarrow> set (map fst h) \<subseteq> set routing_keys" for h :: headers
  have step: "ok (header_set name v h)" if "ok h" "canonical_key name \<in> set routing_keys" for name v h
    using set [of name v h] that unfolding ok_def by blast
  have steps: "ok h \<Longrightarrow> ok (header_set ''Content-Type'' v h)" "ok h \<Longrightarrow> ok (header_set ''Accept'' v h)"
    "ok h \<Longrightarrow> ok (header_set HeaderProtocolVersion v h)" "ok h \<Longrightarrow> ok (header_set HeaderMethod v h)"
    "ok h \<Longrightarrow> ok (header_set HeaderName v h)" for v h by (erule step, unfold k, rule mem)+
  have "ok []" by (simp add: ok_def)
  then have "ok (outbound_headers inbound routing)"
    unfolding outbound_headers_def copySafeHeaders_def Let_def by (simp add: steps)
  then show ?thesis by (simp add: ok_def)
qed

text \<open>C11: whatever the gate, a proxy that \<open>New\<close> made sends at most one request, to an upstream that one of its profiles owns,
  with routing headers only: neither the permit, the proof nor any other header of the caller leaves it. A request that
  is not a tool call leaves the gate alone, and is forwarded only as the envelope of a listed protocol method.\<close>

theorem nothing_else_leaves:
  assumes "NewProxy lib present reg controlURL options = Inr p"
    and "Proxy_ServeHTTP lib cr g p client now req st = ((reply, sent), st')"
  shows "length sent \<le> 1
    \<and> (\<forall>o1 \<in> set sent. OwnsUpstreamURL reg (ou_URL o1) \<and> set (map fst (ou_Header o1)) \<subseteq> set routing_keys)
    \<and> (is_tool_call req \<or> st' = st \<and> (sent = [] \<or> (\<exists>rpc routing. admit_request req = Inr (rpc, routing)
         \<and> safeProtocolMethod (rp_Method rpc) (rm_Modern routing) \<and> map ou_Body sent = [marshal_rpc rpc])))"
proof -
  have p: "reg = Some (pr_registry p)" "OwnsUpstreamURL reg (ur_String (pr_controlUpstream p))"
    using assms(1) by (auto simp: NewProxy_def Let_def split: if_splits option.splits)
  show ?thesis
  proof (cases "is_tool_call req")
    case True
    show ?thesis
    proof (cases "sent = []")
      case False
      obtain c :: prepared_call and rpc routing where c: "prepare_call lib cr p (mr_Header req) rpc routing = Inr c"
        "sent = [\<lparr>ou_URL = ur_String (ca_Upstream c), ou_Header = outbound_headers (mr_Header req) routing, ou_Body = ca_Body c\<rparr>]"
        by (rule tool_call_sent [OF assms(2) True False]) blast
      have "OwnsUpstreamURL reg (ur_String (ca_Upstream c))"
        using c(1) p(1) by (auto simp: prepare_call_def upstream_of_def split: sum.splits option.splits if_splits)
      then show ?thesis using c(2) True outbound_keys by simp
    qed (simp add: True)
  next
    case False
    show ?thesis
    proof (cases "admit_request req")
      case (Inl r)
      then show ?thesis using assms(2) False by (simp add: Proxy_ServeHTTP_def)
    next
      case (Inr ar)
      obtain rpc routing where ar: "ar = (rpc, routing)" by (rule prod.exhaust)
      have m: "rp_Method rpc \<noteq> ''tools/call''" using False Inr ar by (simp add: is_tool_call_def)
      show ?thesis
      proof (cases "safeProtocolMethod (rp_Method rpc) (rm_Modern routing)")
        case False
        then show ?thesis using assms(2) m Inr ar by (auto simp: Proxy_ServeHTTP_def)
      next
        case True
        then have run: "forward lib g client now req (marshal_rpc rpc) routing zero_verification None (pr_controlUpstream p) st
          = ((reply, sent), st')" using assms(2) m Inr ar by (simp add: Proxy_ServeHTTP_def)
        have "st' = st" using run by (auto simp: forward_def complete_if_verified_def zero_verification_def Let_def
          split: if_splits upstream_outcome.splits)
        with forward_sent [OF run] show ?thesis
          by (elim disjE) (use p(2) outbound_keys [of "mr_Header req" routing] True Inr ar in simp_all)
      qed
    qed
  qed
qed

theorem nothing_else_leaves_witness:
  "length (snd (fst sample_exchange)) = 1 \<and> set (map fst (ou_Header (hd (snd (fst sample_exchange))))) \<subseteq> set routing_keys"
proof -
  obtain reply sent st' where run: "sample_exchange = ((reply, sent), st')" by (metis prod.exhaust)
  have "sent \<noteq> []" using sample_sent(2) by (simp add: run)
  moreover have "length sent \<le> 1" "\<forall>o1 \<in> set sent. set (map fst (ou_Header o1)) \<subseteq> set routing_keys"
    using nothing_else_leaves [OF sample_proxy_made run [unfolded sample_exchange_def]] by blast+
  ultimately show ?thesis by (cases sent) (auto simp: run)
qed

end
