(* ===== verification/Discovery.thy ===== *)
theory Discovery
  imports Json Models Crypto
begin

text \<open>
  \<open>internal/discovery\<close>: the experimental inventory of agent configurations. The scanner walks directory trees,
  collects evidence per project and agent type and reconciles it with the registry of approved agents; the
  manager keeps the registry and the last report.

  The file system is a parameter: a root is a tree of entries, each with the error or the content a read of it
  gives. Paths are those of a Unix system. The Unicode case mappings are a parameter. A confidence is an integer,
  in hundredths: the code only compares two constants. Where the code ranges over a map, the error names the
  first of several fields.
\<close>

section \<open>Paths\<close>

definition is_abs :: "string \<Rightarrow> bool" where
  "is_abs p \<longleftrightarrow> has_prefix p ''/''"

definition path_segments :: "string \<Rightarrow> string list" where
  "path_segments p = filter (\<lambda>s. s \<noteq> [] \<and> s \<noteq> ''.'') (split_at (CHR ''/'') p)"

text \<open>The segments of \<open>filepath.Clean\<close>: the stack is reversed.\<close>

fun clean_segments :: "bool \<Rightarrow> string list \<Rightarrow> string list \<Rightarrow> string list" where
  "clean_segments rooted acc [] = rev acc"
| "clean_segments rooted acc (s # ss) =
    (if s \<noteq> ''..'' then clean_segments rooted (s # acc) ss
     else case acc of
       [] \<Rightarrow> if rooted then clean_segments rooted [] ss else clean_segments rooted [s] ss
     | d # ds \<Rightarrow> if d = ''..'' then clean_segments rooted (s # d # ds) ss else clean_segments rooted ds ss)"

definition clean_parts :: "string \<Rightarrow> string list" where
  "clean_parts p = clean_segments (is_abs p) [] (path_segments p)"

definition path_clean :: "string \<Rightarrow> string" where
  "path_clean p =
    (if is_abs p then CHR ''/'' # join ''/'' (clean_parts p)
     else if clean_parts p = [] then ''.'' else join ''/'' (clean_parts p))"

definition path_join :: "string list \<Rightarrow> string" where
  "path_join parts =
    (case filter (\<lambda>p. p \<noteq> []) parts of [] \<Rightarrow> [] | ps \<Rightarrow> path_clean (join ''/'' ps))"

text \<open>\<open>filepath.Dir\<close> cleans everything up to the last slash, \<open>filepath.Base\<close> is what follows it.\<close>

definition path_dir :: "string \<Rightarrow> string" where
  "path_dir p = path_clean (rev (dropWhile (\<lambda>c. c \<noteq> CHR ''/'') (rev p)))"

definition path_base :: "string \<Rightarrow> string" where
  "path_base p =
    (let q = rev (dropWhile (\<lambda>c. c = CHR ''/'') (rev p))
     in if p = [] then ''.'' else if q = [] then ''/'' else rev (takeWhile (\<lambda>c. c \<noteq> CHR ''/'') (rev q)))"

fun strip_common :: "string list \<Rightarrow> string list \<Rightarrow> string list \<times> string list" where
  "strip_common (x # xs) (y # ys) = (if x = y then strip_common xs ys else (x # xs, y # ys))"
| "strip_common xs ys = (xs, ys)"

text \<open>\<open>filepath.Rel\<close>, without a result when there is none.\<close>

definition path_rel :: "string \<Rightarrow> string \<Rightarrow> string option" where
  "path_rel base target =
    (if path_clean target = path_clean base then Some ''.''
     else if is_abs base \<noteq> is_abs target then None
     else let (bs, ts) = strip_common (clean_parts base) (clean_parts target)
       in case bs of
            [] \<Rightarrow> Some (join ''/'' ts)
          | b # _ \<Rightarrow> if ts \<noteq> [] \<and> b = ''..'' then None else Some (join ''/'' (replicate (length bs) ''..'' @ ts)))"

section \<open>Dates\<close>

definition decimal :: "string \<Rightarrow> int" where
  "decimal s = foldl (\<lambda>n c. 10 * n + int (byte c - 48)) 0 s"

definition all_digits :: "string \<Rightarrow> bool" where
  "all_digits s \<longleftrightarrow> list_all (in_range 48 57) s"

definition leap_year :: "int \<Rightarrow> bool" where
  "leap_year y \<longleftrightarrow> y mod 4 = 0 \<and> (y mod 100 \<noteq> 0 \<or> y mod 400 = 0)"

definition month_days :: "int \<Rightarrow> int \<Rightarrow> int" where
  "month_days y m =
    (if m = 2 then (if leap_year y then 29 else 28) else if m = 4 \<or> m = 6 \<or> m = 9 \<or> m = 11 then 30 else 31)"

definition leaps_before :: "int \<Rightarrow> int" where
  "leaps_before y = (y - 1) div 4 - (y - 1) div 100 + (y - 1) div 400"

text \<open>The days from the start of 1970 to a date.\<close>

definition days_to :: "int \<Rightarrow> int \<Rightarrow> int \<Rightarrow> int" where
  "days_to y m d =
    365 * (y - 1970) + (leaps_before y - leaps_before 1970) + sum_list (map (month_days y) [1..m - 1]) + (d - 1)"

abbreviation day :: duration where "day \<equiv> 86400 * second"

text \<open>\<open>time.Parse("2006-01-02", s)\<close>.\<close>

definition parse_date :: "string \<Rightarrow> time option" where
  "parse_date s =
    (if length s = 10 \<and> s ! 4 = CHR ''-'' \<and> s ! 7 = CHR ''-''
        \<and> all_digits (take 4 s) \<and> all_digits (take 2 (drop 5 s)) \<and> all_digits (drop 8 s)
     then let y = decimal (take 4 s); m = decimal (take 2 (drop 5 s)); d = decimal (drop 8 s)
          in if 1 \<le> m \<and> m \<le> 12 \<and> 1 \<le> d \<and> d \<le> month_days y m then Some (days_to y m d * day) else None
     else None)"

definition truncate_day :: "time \<Rightarrow> time" where
  "truncate_day t = t div day * day"

section \<open>Data\<close>

datatype agent_status = StatusApproved | StatusShadow | StatusUnassessed

datatype deployment = DeploymentAvailable | DeploymentInstalled | DeploymentConfigured | DeploymentObserved

record evidence =
  ed_Scanner :: string
  ed_Basis :: string
  ed_Source :: string
  ed_Indicator :: string
  ed_Confidence :: int

record exposure =
  ex_Classification :: string
  ex_PotentialCapabilities :: "string list"
  ex_Factors :: "string list"

record discovered_agent =
  dg_Fingerprint :: string
  dg_Name :: string
  dg_AgentType :: string
  dg_DeploymentState :: deployment
  dg_Status :: agent_status
  dg_ApprovalID :: string
  dg_Owner :: string
  dg_Confidence :: int
  dg_Evidence :: "evidence list"
  dg_Exposure :: exposure

record coverage_gap =
  cg_Source :: string
  cg_Reason :: string

record scan_summary =
  sy_Total :: int
  sy_Approved :: int
  sy_Shadow :: int
  sy_Available :: int
  sy_CoverageGaps :: int
  sy_Truncated :: bool

record scan_report =
  sp_ScannedAt :: time
  sp_Roots :: "string list"
  sp_Agents :: "discovered_agent list"
  sp_Gaps :: "coverage_gap list"
  sp_Summary :: scan_summary

record signature =
  sg_AgentType :: string
  sg_DisplayName :: string
  sg_FileNames :: "string list"
  sg_ContentFiles :: "string list"
  sg_ContentIndicators :: "string list"

record registry_entry =
  rg_ID :: string
  rg_AgentID :: string
  rg_WorkloadID :: string
  rg_DisplayName :: string
  rg_Name :: string
  rg_AgentType :: string
  rg_Environment :: string
  rg_Framework :: string
  rg_PolicyProfile :: string
  rg_Fingerprint :: string
  rg_PathContains :: string
  rg_Owner :: string
  rg_ApprovalRef :: string
  rg_ExpiresOn :: string
  rg_State :: string

record discovery_config =
  dc_Signatures :: "signature list"
  dc_ApprovedAgents :: "registry_entry list"
  dc_SkipDirectories :: "string list"
  dc_MaxFileBytes :: int
  dc_MaxFindings :: int

text \<open>\<open>strings.ToLower\<close> and \<open>strings.EqualFold\<close>.\<close>

record text_library =
  tx_lower :: "string \<Rightarrow> string"
  tx_equal_fold :: "string \<Rightarrow> string \<Rightarrow> bool"

definition containsFold :: "text_library \<Rightarrow> string list \<Rightarrow> string \<Rightarrow> bool" where
  "containsFold tx items target \<longleftrightarrow> list_ex (\<lambda>item. tx_equal_fold tx item target) items"

section \<open>Configuration\<close>

text \<open>What reading the file gives: the configuration and the older list \<open>registered_agents\<close>.\<close>

datatype config_file = ConfigUnreadable | ConfigUnparsable | ConfigContent discovery_config "registry_entry list"

datatype discovery_error =
    ConfigError message
  | RegistryError message
  | EntryError message
  | ScanError message
  | ApprovalNotFound string

definition LoadConfig :: "config_file \<Rightarrow> discovery_error + discovery_config" where
  "LoadConfig file =
    (case file of
       ConfigUnreadable \<Rightarrow> Inl (ConfigError (plain ''read discovery config''))
     | ConfigUnparsable \<Rightarrow> Inl (ConfigError (plain ''parse discovery config''))
     | ConfigContent raw registered \<Rightarrow>
         let cfg1 = (if dc_ApprovedAgents raw = [] \<and> registered \<noteq> [] then raw\<lparr>dc_ApprovedAgents := registered\<rparr> else raw)
         in if dc_Signatures cfg1 = []
            then Inl (ConfigError (plain ''discovery config must contain at least one signature''))
            else
              let cfg2 = (if dc_MaxFileBytes cfg1 \<le> 0 then cfg1\<lparr>dc_MaxFileBytes := 2097152\<rparr> else cfg1)
              in Inr (if dc_MaxFindings cfg2 \<le> 0 then cfg2\<lparr>dc_MaxFindings := 500\<rparr> else cfg2))"

section \<open>The registry of approved agents\<close>

definition fingerprint :: "text_library \<Rightarrow> crypto \<Rightarrow> string \<Rightarrow> string" where
  "fingerprint tx cr v = ''sha256:'' @ hex_encode (take 12 (cr_sha256 cr (tx_lower tx (path_clean v))))"

definition nul :: string where "nul = [CHR 0x00]"

definition normalizeEntry :: "text_library \<Rightarrow> crypto \<Rightarrow> registry_entry \<Rightarrow> registry_entry" where
  "normalizeEntry tx cr e =
    (let displayName = (if trim_space (rg_DisplayName e) = [] then trim_space (rg_Name e) else trim_space (rg_DisplayName e));
         state = tx_lower tx (trim_space (rg_State e));
         e1 = e\<lparr>rg_AgentID := trim_space (rg_AgentID e), rg_WorkloadID := trim_space (rg_WorkloadID e),
                rg_DisplayName := displayName,
                rg_Name := (if trim_space (rg_Name e) = [] then displayName else trim_space (rg_Name e)),
                rg_AgentType := trim_space (rg_AgentType e), rg_Environment := trim_space (rg_Environment e),
                rg_Framework := trim_space (rg_Framework e), rg_PolicyProfile := trim_space (rg_PolicyProfile e),
                rg_Fingerprint := tx_lower tx (trim_space (rg_Fingerprint e)),
                rg_PathContains := trim_space (rg_PathContains e), rg_Owner := trim_space (rg_Owner e),
                rg_ApprovalRef := trim_space (rg_ApprovalRef e), rg_ExpiresOn := trim_space (rg_ExpiresOn e),
                rg_State := (if state = [] then ''active'' else state)\<rparr>
     in if rg_ID e1 = []
        then e1\<lparr>rg_ID := ''approval-'' @ drop 7 (fingerprint tx cr
               (join nul [rg_AgentID e1, rg_WorkloadID e1, rg_Name e1, rg_AgentType e1, rg_Fingerprint e1, rg_PathContains e1]))\<rparr>
        else e1)"

definition normalizeRegistry :: "text_library \<Rightarrow> crypto \<Rightarrow> registry_entry list \<Rightarrow> registry_entry list" where
  "normalizeRegistry tx cr entries = map (normalizeEntry tx cr) entries"

datatype registry_file = RegistryMissing | RegistryUnreadable | RegistryUnparsable | RegistryContent "registry_entry list"

definition LoadRegistry ::
  "text_library \<Rightarrow> crypto \<Rightarrow> string \<Rightarrow> registry_file \<Rightarrow> registry_entry list \<Rightarrow> discovery_error + registry_entry list" where
  "LoadRegistry tx cr path file fallback =
    (if path = [] then Inr (normalizeRegistry tx cr fallback)
     else case file of
       RegistryMissing \<Rightarrow> Inr (normalizeRegistry tx cr fallback)
     | RegistryUnreadable \<Rightarrow> Inl (RegistryError (plain ''read approval registry''))
     | RegistryUnparsable \<Rightarrow> Inl (RegistryError (plain ''parse approval registry''))
     | RegistryContent entries \<Rightarrow> Inr (normalizeRegistry tx cr entries))"

text \<open>
  How the replacement of the file went. \<open>RegistryWriteFailed\<close> is an error of \<open>MkdirAll\<close>,
  \<open>CreateTemp\<close>, \<open>Close\<close> or \<open>Rename\<close>: it is answered, and the file stays as it was. \<open>RegistryCut\<close>
  is an error of \<open>Chmod\<close> or \<open>Write\<close>: the code assigns it to an \<open>err\<close> that is local to its \<open>if\<close>, so it is
  dropped, and the empty or cut off text in the temporary file is renamed over the registry. That text is
  a proper prefix of a JSON object and never parses (when only the newline at the end is missing, the
  file is as good as written).
\<close>

datatype registry_write = RegistryWritten | RegistryWriteFailed | RegistryCut

definition SaveRegistry ::
  "text_library \<Rightarrow> crypto \<Rightarrow> string \<Rightarrow> registry_entry list \<Rightarrow> registry_write \<Rightarrow> registry_file
    \<Rightarrow> discovery_error option \<times> registry_file" where
  "SaveRegistry tx cr path entries written file =
    (if path = []
     then (Some (RegistryError (plain ''approval registry is read-only because no storage path is configured'')), file)
     else case written of
       RegistryWriteFailed \<Rightarrow> (Some (RegistryError (plain ''write approval registry'')), file)
     | RegistryCut \<Rightarrow> (None, RegistryUnparsable)
     | RegistryWritten \<Rightarrow> (None, RegistryContent (normalizeRegistry tx cr entries)))"

definition long_field :: "string \<times> string \<Rightarrow> bool" where
  "long_field f \<longleftrightarrow> length (snd f) > 160"

definition entry_field_error :: "string \<times> string \<Rightarrow> discovery_error option" where
  "entry_field_error f =
    (if trim_space (snd f) = [] then Some (EntryError (Message ''%s is required'' [FormatString (fst f)]))
     else if long_field f then Some (EntryError (Message ''%s must be 160 characters or fewer'' [FormatString (fst f)]))
     else None)"

fun first_field_error :: "(string \<times> string) list \<Rightarrow> discovery_error option" where
  "first_field_error [] = None"
| "first_field_error (f # fs) = (case entry_field_error f of Some e \<Rightarrow> Some e | None \<Rightarrow> first_field_error fs)"

definition entry_error :: "string \<Rightarrow> discovery_error option" where
  "entry_error text = Some (EntryError (plain text))"

definition ValidateRegistryEntry :: "text_library \<Rightarrow> registry_entry \<Rightarrow> string list \<Rightarrow> discovery_error option" where
  "ValidateRegistryEntry tx e knownTypes =
    (let displayName = (if trim_space (rg_DisplayName e) = [] then trim_space (rg_Name e) else trim_space (rg_DisplayName e))
     in case first_field_error
              [(''display_name'', displayName), (''agent_type'', rg_AgentType e), (''path_contains'', rg_PathContains e), (''owner'', rg_Owner e)] of
          Some err \<Rightarrow> Some err
        | None \<Rightarrow>
            if is_abs (rg_PathContains e) \<or> trim_space (rg_PathContains e) = ''.''
            then entry_error ''path_contains must be a relative evidence-path fragment''
            else if rg_Fingerprint e \<noteq> [] \<and> (\<not> has_prefix (rg_Fingerprint e) ''sha256:'' \<or> length (rg_Fingerprint e) \<noteq> 31)
            then entry_error ''fingerprint must be a scanner sha256 fingerprint''
            else if \<not> containsFold tx knownTypes (rg_AgentType e)
            then Some (EntryError (Message ''agent_type %q is not configured as a discovery signature'' [FormatString (rg_AgentType e)]))
            else if rg_State e \<noteq> [] \<and> \<not> tx_equal_fold tx (rg_State e) ''active'' \<and> \<not> tx_equal_fold tx (rg_State e) ''suspended''
            then entry_error ''state must be active or suspended''
            else if rg_ExpiresOn e \<noteq> [] \<and> parse_date (rg_ExpiresOn e) = None
            then entry_error ''expires_on must use YYYY-MM-DD''
            else if length (rg_ApprovalRef e) > 160 then entry_error ''approval_ref must be 160 characters or fewer''
            else (case find long_field
                [(''agent_id'', rg_AgentID e), (''workload_identity'', rg_WorkloadID e), (''environment'', rg_Environment e),
                 (''framework'', rg_Framework e), (''policy_profile'', rg_PolicyProfile e)] of
                Some f \<Rightarrow> Some (EntryError (Message ''%s must be 160 characters or fewer'' [FormatString (fst f)]))
              | None \<Rightarrow> None))"

end
