(* ===== verification/Discovery_Scan.thy ===== *)
theory Discovery_Scan
  imports Discovery
begin

text \<open>
  The scanner and the manager of \<open>internal/discovery\<close> (\<open>scanner.go\<close>, \<open>manager.go\<close>). A root is a tree of
  entries; an error of the file system is its text, which the code only classifies.
\<close>

section \<open>The scanner\<close>

datatype fs_entry =
    FsFile string "string + int" "string + string"
  | FsDirectory string "string option" "fs_entry list"

fun entry_name :: "fs_entry \<Rightarrow> string" where
  "entry_name (FsFile name info content) = name"
| "entry_name (FsDirectory name err children) = name"

record scan_state =
  ss_findings :: "(string, discovered_agent) gomap"
  ss_gaps :: "coverage_gap list"
  ss_gapCount :: int
  ss_truncated :: bool

definition compactError :: "text_library \<Rightarrow> string \<Rightarrow> string" where
  "compactError tx err =
    (let lower = tx_lower tx err
     in if str_contains lower ''cannot find'' \<or> str_contains lower ''no such file'' \<or> str_contains lower ''not exist''
        then ''not_found''
        else if str_contains lower ''access is denied'' \<or> str_contains lower ''permission denied''
        then ''permission_denied'' else ''unreadable'')"

definition addCoverageGap :: "text_library \<Rightarrow> string \<Rightarrow> string \<Rightarrow> string \<Rightarrow> scan_state \<Rightarrow> scan_state" where
  "addCoverageGap tx root path err st =
    (let st1 = st\<lparr>ss_gapCount := ss_gapCount st + 1\<rparr>;
         relative = (case path_rel root path of None \<Rightarrow> path_base path | Some r \<Rightarrow> if r = ''.'' then path_base path else r)
     in if length (ss_gaps st1) \<ge> 50 then st1
        else st1\<lparr>ss_gaps := ss_gaps st1 @ [\<lparr>cg_Source = relative, cg_Reason = compactError tx err\<rparr>]\<rparr>)"

definition trim_dots :: "string \<Rightarrow> string" where
  "trim_dots s =
    (let out = (\<lambda>c. c = CHR ''.'' \<or> c = CHR '' '') in rev (dropWhile out (rev (dropWhile out s))))"

definition catalog_segment :: "string \<Rightarrow> bool" where
  "catalog_segment s \<longleftrightarrow>
    (let t = trim_dots s in str_contains t ''marketplace'' \<or> t = ''catalog'' \<or> t = ''cache'' \<or> t = ''temp'')"

definition deploymentState :: "text_library \<Rightarrow> string \<Rightarrow> string \<Rightarrow> string \<Rightarrow> deployment" where
  "deploymentState tx root relative basis =
    (if basis = ''dependency_or_config_indicator'' then DeploymentAvailable
     else if list_ex catalog_segment (split_at (CHR ''/'') (tx_lower tx (path_join [path_base root, relative])))
     then DeploymentAvailable
     else if basis = ''configuration_file'' then DeploymentConfigured else DeploymentInstalled)"

fun deploymentRank :: "deployment \<Rightarrow> nat" where
  "deploymentRank DeploymentAvailable = 1"
| "deploymentRank DeploymentInstalled = 2"
| "deploymentRank DeploymentConfigured = 3"
| "deploymentRank DeploymentObserved = 4"

definition governanceStatus :: "deployment \<Rightarrow> agent_status" where
  "governanceStatus state = (if state = DeploymentAvailable then StatusUnassessed else StatusShadow)"

definition no_exposure :: exposure where
  "no_exposure = \<lparr>ex_Classification = [], ex_PotentialCapabilities = [], ex_Factors = []\<rparr>"

definition new_agent :: "text_library \<Rightarrow> crypto \<Rightarrow> string \<Rightarrow> string \<Rightarrow> signature \<Rightarrow> deployment \<Rightarrow> discovered_agent" where
  "new_agent tx cr key projectRoot signature state =
    \<lparr>dg_Fingerprint = fingerprint tx cr key, dg_Name = path_base projectRoot @ '' / '' @ sg_DisplayName signature,
     dg_AgentType = sg_AgentType signature, dg_DeploymentState = state, dg_Status = governanceStatus state,
     dg_ApprovalID = [], dg_Owner = [], dg_Confidence = 0, dg_Evidence = [], dg_Exposure = no_exposure\<rparr>"

definition with_evidence :: "evidence \<Rightarrow> discovered_agent \<Rightarrow> discovered_agent" where
  "with_evidence ev agent =
    agent\<lparr>dg_Evidence := dg_Evidence agent @ [ev],
          dg_Confidence := (if ed_Confidence ev > dg_Confidence agent then ed_Confidence ev else dg_Confidence agent)\<rparr>"

definition addEvidence ::
  "text_library \<Rightarrow> crypto \<Rightarrow> discovery_config \<Rightarrow> string \<Rightarrow> string \<Rightarrow> signature \<Rightarrow> string \<Rightarrow> string \<Rightarrow> int \<Rightarrow> scan_state \<Rightarrow> scan_state" where
  "addEvidence tx cr cfg root path signature basis indicator confidence st =
    (let relative = (case path_rel root path of None \<Rightarrow> path | Some r \<Rightarrow> r);
         projectRoot = path_dir path;
         key = projectRoot @ nul @ sg_AgentType signature;
         state = deploymentState tx root relative basis;
         ev = \<lparr>ed_Scanner = ''config'', ed_Basis = basis, ed_Source = relative, ed_Indicator = indicator, ed_Confidence = confidence\<rparr>
     in case mget (ss_findings st) key of
          None \<Rightarrow>
            if int (length (ss_findings st)) \<ge> dc_MaxFindings cfg then st\<lparr>ss_truncated := True\<rparr>
            else st\<lparr>ss_findings := mput key (with_evidence ev (new_agent tx cr key projectRoot signature state)) (ss_findings st)\<rparr>
        | Some agent \<Rightarrow>
            let agent1 = (if deploymentRank state > deploymentRank (dg_DeploymentState agent)
                          then agent\<lparr>dg_DeploymentState := state, dg_Status := governanceStatus state\<rparr> else agent)
            in st\<lparr>ss_findings := mput key (with_evidence ev agent1) (ss_findings st)\<rparr>)"

text \<open>One file against one signature.\<close>

definition scan_signature ::
  "text_library \<Rightarrow> crypto \<Rightarrow> discovery_config \<Rightarrow> string \<Rightarrow> string \<Rightarrow> string \<Rightarrow> int \<Rightarrow> string + string \<Rightarrow> signature \<Rightarrow> scan_state \<Rightarrow> scan_state" where
  "scan_signature tx cr cfg root path name bytes content signature st =
    (let st1 = (if containsFold tx (sg_FileNames signature) name
                then addEvidence tx cr cfg root path signature ''configuration_file'' name 95 st else st)
     in if bytes \<le> dc_MaxFileBytes cfg \<and> containsFold tx (sg_ContentFiles signature) name
        then (case content of
            Inl err \<Rightarrow> addCoverageGap tx root path err st1
          | Inr text \<Rightarrow>
              fold (\<lambda>indicator s.
                  if str_contains (tx_lower tx text) (tx_lower tx indicator)
                  then addEvidence tx cr cfg root path signature ''dependency_or_config_indicator'' indicator 85 s else s)
                (sg_ContentIndicators signature) st1)
        else st1)"

text \<open>\<open>scanRoot\<close> over \<open>filepath.WalkDir\<close>: a directory is visited, then read, then its entries.\<close>

fun scan_entry :: "text_library \<Rightarrow> crypto \<Rightarrow> discovery_config \<Rightarrow> string \<Rightarrow> string \<Rightarrow> fs_entry \<Rightarrow> scan_state \<Rightarrow> scan_state" where
  "scan_entry tx cr cfg root path (FsFile name info content) st =
    (case info of
       Inl err \<Rightarrow> addCoverageGap tx root path err st
     | Inr bytes \<Rightarrow> fold (scan_signature tx cr cfg root path name bytes content) (dc_Signatures cfg) st)"
| "scan_entry tx cr cfg root path (FsDirectory name err children) st =
    (if path \<noteq> root \<and> containsFold tx (dc_SkipDirectories cfg) name then st
     else
       let st1 = (case err of None \<Rightarrow> st | Some text \<Rightarrow> addCoverageGap tx root path text st)
       in fold (\<lambda>c s. scan_entry tx cr cfg root (path_join [path, entry_name c]) c s) children st1)"

text \<open>What a root is: the error of finding it as a directory, or its absolute path and tree.\<close>

datatype root_state = RootFails string | RootVanished string string | RootTree string fs_entry

definition approvalIsActive :: "text_library \<Rightarrow> registry_entry \<Rightarrow> time \<Rightarrow> bool" where
  "approvalIsActive tx e now \<longleftrightarrow>
    (if rg_State e \<noteq> [] \<and> \<not> tx_equal_fold tx (rg_State e) ''active'' then False
     else if rg_ExpiresOn e = [] then True
     else case parse_date (rg_ExpiresOn e) of None \<Rightarrow> False | Some t \<Rightarrow> truncate_day now \<le> t)"

definition entry_matches :: "text_library \<Rightarrow> time \<Rightarrow> discovered_agent \<Rightarrow> registry_entry \<Rightarrow> bool" where
  "entry_matches tx now agent e \<longleftrightarrow>
    approvalIsActive tx e now \<and> tx_equal_fold tx (rg_AgentType e) (dg_AgentType agent)
    \<and> (rg_Fingerprint e = [] \<or> tx_equal_fold tx (rg_Fingerprint e) (dg_Fingerprint agent))
    \<and> (rg_PathContains e = [] \<or>
        list_ex (\<lambda>ev. str_contains (tx_lower tx (ed_Source ev)) (tx_lower tx (rg_PathContains e))) (dg_Evidence agent))"

text \<open>
  The clock is read for every entry that is looked at; \<open>now\<close> gives the reading for an agent, by its
  fingerprint, and the position of the entry in the registry.
\<close>

type_synonym clock_readings = "string \<Rightarrow> nat \<Rightarrow> time"

definition matching_entry ::
  "text_library \<Rightarrow> clock_readings \<Rightarrow> discovered_agent \<Rightarrow> registry_entry list \<Rightarrow> (nat \<times> registry_entry) option" where
  "matching_entry tx now agent entries =
    find (\<lambda>(n, e). entry_matches tx (now (dg_Fingerprint agent) n) agent e) (enumerate 0 entries)"

definition reconcile :: "text_library \<Rightarrow> discovery_config \<Rightarrow> clock_readings \<Rightarrow> discovered_agent \<Rightarrow> discovered_agent" where
  "reconcile tx cfg now agent =
    (if dg_DeploymentState agent = DeploymentAvailable then agent\<lparr>dg_Status := StatusUnassessed\<rparr>
     else case matching_entry tx now agent (dc_ApprovedAgents cfg) of
       None \<Rightarrow> agent
     | Some (n, e) \<Rightarrow> agent\<lparr>dg_Status := StatusApproved, dg_ApprovalID := rg_ID e, dg_Name := rg_Name e, dg_Owner := rg_Owner e\<rparr>)"

definition assessExposure :: "discovered_agent \<Rightarrow> exposure" where
  "assessExposure agent =
    (let capabilities =
           (if dg_AgentType agent = ''mcp'' then [''tool_integration'']
            else if dg_AgentType agent = ''langchain'' \<or> dg_AgentType agent = ''crewai'' \<or> dg_AgentType agent = ''autogen''
              \<or> dg_AgentType agent = ''openai-agents'' then [''agent_workflow''] else []);
         factors =
           (if dg_AgentType agent = ''mcp'' then [''MCP configuration may expose tool capabilities''] else [])
           @ (if dg_Status agent = StatusShadow then [''workload evidence is not matched to the asset registry'']
              else if dg_Status agent = StatusApproved
              then [''workload evidence is matched to an active asset registration''] else [])
     in if dg_DeploymentState agent = DeploymentAvailable
        then \<lparr>ex_Classification = ''discovery_evidence_only'', ex_PotentialCapabilities = capabilities,
              ex_Factors = [''dependency, catalog, marketplace, cache, or temporary evidence only; not counted as a deployed Agent'']\<rparr>
        else \<lparr>ex_Classification = ''configured_or_observed_workload'', ex_PotentialCapabilities = capabilities,
              ex_Factors = (if factors = [] then [''configuration evidence requires operator assessment''] else factors)\<rparr>)"

text \<open>An agent as it is reported. The order of evidence with one source is not fixed by the code.\<close>

definition reported :: "text_library \<Rightarrow> discovery_config \<Rightarrow> clock_readings \<Rightarrow> discovered_agent \<Rightarrow> discovered_agent" where
  "reported tx cfg now agent =
    (let agent1 = reconcile tx cfg now agent
     in agent1\<lparr>dg_Exposure := assessExposure agent1, dg_Evidence := sort_key ed_Source (dg_Evidence agent1)\<rparr>)"

definition count_status :: "agent_status \<Rightarrow> discovered_agent list \<Rightarrow> int" where
  "count_status s agents = int (length (filter (\<lambda>a. dg_Status a = s) agents))"

fun scan_roots ::
  "text_library \<Rightarrow> crypto \<Rightarrow> discovery_config \<Rightarrow> (string \<Rightarrow> root_state) \<Rightarrow> string list \<Rightarrow> string list \<Rightarrow> scan_state
    \<Rightarrow> string + (string list \<times> scan_state)" where
  "scan_roots tx cr cfg root_of acc [] st = Inr (acc, st)"
| "scan_roots tx cr cfg root_of acc (r # rs) st =
    (case root_of r of
       RootFails err \<Rightarrow> Inl err
     | RootVanished absolute err \<Rightarrow>
         scan_roots tx cr cfg root_of (acc @ [absolute]) rs (addCoverageGap tx absolute absolute err st)
     | RootTree absolute tree \<Rightarrow>
         scan_roots tx cr cfg root_of (acc @ [absolute]) rs (scan_entry tx cr cfg absolute absolute tree st))"

definition empty_scan :: scan_state where
  "empty_scan = \<lparr>ss_findings = [], ss_gaps = [], ss_gapCount = 0, ss_truncated = False\<rparr>"

definition NewScanner :: "discovery_config \<Rightarrow> discovery_config" where
  "NewScanner cfg =
    (let cfg1 = (if dc_MaxFileBytes cfg \<le> 0 then cfg\<lparr>dc_MaxFileBytes := 2097152\<rparr> else cfg)
     in if dc_MaxFindings cfg1 \<le> 0 then cfg1\<lparr>dc_MaxFindings := 500\<rparr> else cfg1)"

definition Scan ::
  "text_library \<Rightarrow> crypto \<Rightarrow> discovery_config \<Rightarrow> (string \<Rightarrow> root_state) \<Rightarrow> time \<Rightarrow> clock_readings \<Rightarrow> string list \<Rightarrow> string + scan_report" where
  "Scan tx cr cfg root_of started now roots =
    (if roots = [] then Inl ''at least one scan root is required''
     else case scan_roots tx cr cfg root_of [] roots empty_scan of
       Inl err \<Rightarrow> Inl err
     | Inr (absolutes, st) \<Rightarrow>
         let agents = map (\<lambda>(k, a). reported tx cfg now a) (sort_key fst (ss_findings st))
         in Inr \<lparr>sp_ScannedAt = started, sp_Roots = absolutes, sp_Agents = agents, sp_Gaps = ss_gaps st,
                 sp_Summary = \<lparr>sy_Total = int (length agents), sy_Approved = count_status StatusApproved agents,
                               sy_Shadow = count_status StatusShadow agents, sy_Available = count_status StatusUnassessed agents,
                               sy_CoverageGaps = ss_gapCount st, sy_Truncated = ss_truncated st\<rparr>\<rparr>)"

section \<open>The manager\<close>

text \<open>The file of the registry is part of the state: the manager writes it and reads it back.\<close>

record discovery_manager =
  dm_registryPath :: string
  dm_roots :: "string list"
  dm_config :: discovery_config
  dm_registry :: "registry_entry list"
  dm_report :: scan_report
  dm_file :: registry_file

text \<open>What a scan reads from outside.\<close>

record scan_inputs =
  sn_root_of :: "string \<Rightarrow> root_state"
  sn_started :: time
  sn_readings :: clock_readings
  sn_now :: time

definition no_summary :: scan_summary where
  "no_summary = \<lparr>sy_Total = 0, sy_Approved = 0, sy_Shadow = 0, sy_Available = 0, sy_CoverageGaps = 0, sy_Truncated = False\<rparr>"

definition scanLocked :: "text_library \<Rightarrow> crypto \<Rightarrow> scan_inputs \<Rightarrow> discovery_manager \<Rightarrow> discovery_manager" where
  "scanLocked tx cr x m =
    (if dm_roots m = []
     then m\<lparr>dm_report := \<lparr>sp_ScannedAt = zero_time, sp_Roots = [], sp_Agents = [], sp_Gaps = [], sp_Summary = no_summary\<rparr>\<rparr>
     else case Scan tx cr (NewScanner (dm_config m)) (sn_root_of x) (sn_started x) (sn_readings x) (dm_roots m) of
       Inl err \<Rightarrow>
         m\<lparr>dm_report := \<lparr>sp_ScannedAt = sn_now x, sp_Roots = dm_roots m, sp_Agents = [],
             sp_Gaps = [\<lparr>cg_Source = hd (dm_roots m), cg_Reason = compactError tx err\<rparr>],
             sp_Summary = no_summary\<lparr>sy_CoverageGaps := 1\<rparr>\<rparr>\<rparr>
     | Inr report \<Rightarrow> m\<lparr>dm_report := report\<rparr>)"

definition rescanLocked ::
  "text_library \<Rightarrow> crypto \<Rightarrow> config_file \<Rightarrow> scan_inputs \<Rightarrow> discovery_manager \<Rightarrow> discovery_error + discovery_manager" where
  "rescanLocked tx cr file x m =
    (case LoadConfig file of
       Inl e \<Rightarrow> Inl e
     | Inr cfg \<Rightarrow>
         (case LoadRegistry tx cr (dm_registryPath m) (dm_file m) (dc_ApprovedAgents cfg) of
            Inl e \<Rightarrow> Inl e
          | Inr registry \<Rightarrow>
              Inr (scanLocked tx cr x (m\<lparr>dm_config := cfg\<lparr>dc_ApprovedAgents := registry\<rparr>, dm_registry := registry\<rparr>))))"

definition empty_config :: discovery_config where
  "empty_config = \<lparr>dc_Signatures = [], dc_ApprovedAgents = [], dc_SkipDirectories = [], dc_MaxFileBytes = 0, dc_MaxFindings = 0\<rparr>"

definition NewManager ::
  "text_library \<Rightarrow> crypto \<Rightarrow> config_file \<Rightarrow> scan_inputs \<Rightarrow> string \<Rightarrow> registry_file \<Rightarrow> string list \<Rightarrow> discovery_error + discovery_manager" where
  "NewManager tx cr file x registryPath registryFile roots =
    rescanLocked tx cr file x
      \<lparr>dm_registryPath = registryPath, dm_roots = roots, dm_config = empty_config, dm_registry = [],
       dm_report = \<lparr>sp_ScannedAt = zero_time, sp_Roots = [], sp_Agents = [], sp_Gaps = [], sp_Summary = no_summary\<rparr>,
       dm_file = registryFile\<rparr>"

definition AgentTypes :: "discovery_manager \<Rightarrow> string list" where
  "AgentTypes m = map sg_AgentType (dc_Signatures (dm_config m))"

definition Rescan ::
  "text_library \<Rightarrow> crypto \<Rightarrow> config_file \<Rightarrow> scan_inputs \<Rightarrow> discovery_manager \<Rightarrow> (discovery_error + scan_report) \<times> discovery_manager" where
  "Rescan tx cr file x m =
    (case rescanLocked tx cr file x m of Inl e \<Rightarrow> (Inl e, m) | Inr m' \<Rightarrow> (Inr (dm_report m'), m'))"

fun replace_entry :: "registry_entry \<Rightarrow> registry_entry list \<Rightarrow> registry_entry list" where
  "replace_entry e [] = [e]"
| "replace_entry e (x # xs) = (if rg_ID x = rg_ID e then e # xs else x # replace_entry e xs)"

definition with_registry :: "registry_entry list \<Rightarrow> registry_file \<Rightarrow> discovery_manager \<Rightarrow> discovery_manager" where
  "with_registry updated file m =
    m\<lparr>dm_registry := updated, dm_config := (dm_config m)\<lparr>dc_ApprovedAgents := updated\<rparr>, dm_file := file\<rparr>"

definition SaveApproval ::
  "text_library \<Rightarrow> crypto \<Rightarrow> registry_entry \<Rightarrow> registry_write \<Rightarrow> scan_inputs \<Rightarrow> discovery_manager
    \<Rightarrow> (discovery_error + (registry_entry \<times> scan_report)) \<times> discovery_manager" where
  "SaveApproval tx cr entry written x m =
    (case ValidateRegistryEntry tx entry (AgentTypes m) of
       Some e \<Rightarrow> (Inl e, m)
     | None \<Rightarrow>
         let entry' = normalizeEntry tx cr entry;
             updated = replace_entry entry' (dm_registry m)
         in case SaveRegistry tx cr (dm_registryPath m) updated written (dm_file m) of
              (Some e, file) \<Rightarrow> (Inl e, m\<lparr>dm_file := file\<rparr>)
            | (None, file) \<Rightarrow>
                let m' = scanLocked tx cr x (with_registry updated file m) in (Inr (entry', dm_report m'), m'))"

definition DeleteApproval ::
  "text_library \<Rightarrow> crypto \<Rightarrow> string \<Rightarrow> registry_write \<Rightarrow> scan_inputs \<Rightarrow> discovery_manager \<Rightarrow> (discovery_error + scan_report) \<times> discovery_manager" where
  "DeleteApproval tx cr i written x m =
    (let updated = filter (\<lambda>e. rg_ID e \<noteq> i) (dm_registry m)
     in if \<not> list_ex (\<lambda>e. rg_ID e = i) (dm_registry m) then (Inl (ApprovalNotFound i), m)
        else case SaveRegistry tx cr (dm_registryPath m) updated written (dm_file m) of
          (Some e, file) \<Rightarrow> (Inl e, m\<lparr>dm_file := file\<rparr>)
        | (None, file) \<Rightarrow> let m' = scanLocked tx cr x (with_registry updated file m) in (Inr (dm_report m'), m'))"

end
