(* ===== verification/Discovery_Facts.thy ===== *)
theory Discovery_Facts
  imports Discovery_Scan Utf8
begin

text \<open>
  What a scan keeps of its findings, for every tree; the normal form of registry entries; the invariant of the
  manager.
\<close>

section \<open>Findings\<close>

definition deployed :: "discovered_agent \<Rightarrow> bool" where
  "deployed a \<longleftrightarrow> dg_DeploymentState a \<noteq> DeploymentAvailable"

text \<open>An agent under construction: nothing is deployed on the strength of a dependency alone.\<close>

definition finding_ok :: "discovered_agent \<Rightarrow> bool" where
  "finding_ok a \<longleftrightarrow>
    dg_Status a = governanceStatus (dg_DeploymentState a) \<and> dg_Evidence a \<noteq> []
    \<and> (deployed a \<longrightarrow> (\<exists>ev \<in> set (dg_Evidence a). ed_Basis ev = ''configuration_file''))
    \<and> dg_Confidence a = Max (set (map ed_Confidence (dg_Evidence a)))"

definition scan_ok :: "discovery_config \<Rightarrow> scan_state \<Rightarrow> bool" where
  "scan_ok cfg st \<longleftrightarrow>
    (\<forall>(k, a) \<in> set (ss_findings st). finding_ok a) \<and> int (length (ss_findings st)) \<le> dc_MaxFindings cfg
    \<and> int (length (ss_gaps st)) = min 50 (ss_gapCount st)"

lemma basis_of_state:
  "deploymentState tx root relative basis \<noteq> DeploymentAvailable \<Longrightarrow> basis \<noteq> ''dependency_or_config_indicator''"
  by (auto simp: deploymentState_def)

lemma max_snoc: "xs \<noteq> [] \<Longrightarrow> Max (set (xs @ [x])) = max x (Max (set xs :: int set))"
  by simp

lemma with_evidence_ok:
  assumes a: "finding_ok a" and b: "dg_Evidence b = dg_Evidence a" "dg_Confidence b = dg_Confidence a"
    "dg_Status b = governanceStatus (dg_DeploymentState b)"
    and deployed: "deployed b \<Longrightarrow> deployed a \<or> ed_Basis ev = ''configuration_file''"
  shows "finding_ok (with_evidence ev b)"
proof -
  have "Max (set (map ed_Confidence (dg_Evidence b @ [ev]))) = max (ed_Confidence ev) (dg_Confidence b)"
    using a b(1,2) max_snoc [of "map ed_Confidence (dg_Evidence a)" "ed_Confidence ev"] by (auto simp: finding_ok_def)
  moreover have "dg_Confidence (with_evidence ev b) = max (ed_Confidence ev) (dg_Confidence b)"
    by (simp add: with_evidence_def)
  moreover have "deployed b \<Longrightarrow> \<exists>x \<in> set (dg_Evidence b @ [ev]). ed_Basis x = ''configuration_file''"
    using a b(1) deployed by (auto simp: finding_ok_def)
  ultimately show ?thesis using b(3) by (simp add: finding_ok_def with_evidence_def deployed_def)
qed

lemma new_agent_ok:
  assumes "0 < ed_Confidence ev" "state \<noteq> DeploymentAvailable \<Longrightarrow> ed_Basis ev = ''configuration_file''"
  shows "finding_ok (with_evidence ev (new_agent tx cr key projectRoot signature state))"
  using assms by (auto simp: finding_ok_def with_evidence_def new_agent_def deployed_def)

lemma set_mput: "set (mput k v m) \<subseteq> insert (k, v) (set m)"
  by (induction m) (auto simp: mput_def)

lemma length_mput: "length (mput k v m) = (if mget m k = None then Suc (length m) else length m)"
  by (induction m) (auto simp: mput_def mget_def)

lemma findings_mput:
  assumes "\<forall>(k, a) \<in> set m. finding_ok a" "finding_ok a'"
  shows "\<forall>(k, a) \<in> set (mput key a' m). finding_ok a"
  using assms set_mput [of key a' m] by blast

lemma addEvidence_ok:
  assumes "scan_ok cfg st" "0 < confidence" "basis \<in> {''configuration_file'', ''dependency_or_config_indicator''}"
  shows "scan_ok cfg (addEvidence tx cr cfg root path signature basis indicator confidence st)"
proof -
  let ?rel = "case path_rel root path of None \<Rightarrow> path | Some r \<Rightarrow> r"
  let ?key = "path_dir path @ nul @ sg_AgentType signature"
  let ?state = "deploymentState tx root ?rel basis"
  let ?ev = "\<lparr>ed_Scanner = ''config'', ed_Basis = basis, ed_Source = ?rel, ed_Indicator = indicator, ed_Confidence = confidence\<rparr>"
  have b: "?state \<noteq> DeploymentAvailable \<Longrightarrow> ed_Basis ?ev = ''configuration_file''"
    using assms(3) basis_of_state by fastforce
  show ?thesis
  proof (cases "mget (ss_findings st) ?key")
    case None
    let ?new = "with_evidence ?ev (new_agent tx cr ?key (path_dir path) signature ?state)"
    have "finding_ok ?new" using assms(2) b by (intro new_agent_ok) simp_all
    then have "\<forall>(k, a) \<in> set (mput ?key ?new (ss_findings st)). finding_ok a"
      using assms(1) by (intro findings_mput) (simp_all add: scan_ok_def)
    moreover have "addEvidence tx cr cfg root path signature basis indicator confidence st
      = (if int (length (ss_findings st)) \<ge> dc_MaxFindings cfg then st\<lparr>ss_truncated := True\<rparr>
         else st\<lparr>ss_findings := mput ?key ?new (ss_findings st)\<rparr>)"
      using None by (simp add: addEvidence_def Let_def)
    ultimately show ?thesis using assms(1) None by (simp add: scan_ok_def length_mput)
  next
    case (Some a)
    define c where "c = (if deploymentRank ?state > deploymentRank (dg_DeploymentState a)
                          then a\<lparr>dg_DeploymentState := ?state, dg_Status := governanceStatus ?state\<rparr> else a)"
    have a: "finding_ok a" using assms(1) Some by (auto simp: scan_ok_def mget_def dest: map_of_SomeD)
    have "finding_ok (with_evidence ?ev c)"
    proof (rule with_evidence_ok [OF a])
      show "dg_Evidence c = dg_Evidence a" "dg_Confidence c = dg_Confidence a" by (simp_all add: c_def)
      show "dg_Status c = governanceStatus (dg_DeploymentState c)" using a by (simp add: c_def finding_ok_def)
      have "dg_DeploymentState c = ?state \<or> dg_DeploymentState c = dg_DeploymentState a" by (simp add: c_def)
      then show "deployed c \<Longrightarrow> deployed a \<or> ed_Basis ?ev = ''configuration_file''"
        using b unfolding deployed_def by metis
    qed
    then have "\<forall>(k, a) \<in> set (mput ?key (with_evidence ?ev c) (ss_findings st)). finding_ok a"
      using assms(1) by (intro findings_mput) (simp_all add: scan_ok_def)
    moreover have "addEvidence tx cr cfg root path signature basis indicator confidence st
      = st\<lparr>ss_findings := mput ?key (with_evidence ?ev c) (ss_findings st)\<rparr>"
      using Some by (simp add: addEvidence_def c_def Let_def)
    ultimately show ?thesis using assms(1) Some by (simp add: scan_ok_def length_mput)
  qed
qed

lemma addCoverageGap_ok:
  assumes "scan_ok cfg st"
  shows "scan_ok cfg (addCoverageGap tx root path err st)"
  using assms by (auto simp: scan_ok_def addCoverageGap_def Let_def)

lemma fold_ok: "(\<And>x s. x \<in> set xs \<Longrightarrow> ok s \<Longrightarrow> ok (f x s)) \<Longrightarrow> ok s \<Longrightarrow> ok (fold f xs s)"
  by (induction xs arbitrary: s) auto

lemma scan_signature_ok:
  assumes "scan_ok cfg st"
  shows "scan_ok cfg (scan_signature tx cr cfg root path name bytes content signature st)"
proof -
  define st1 where "st1 = (if containsFold tx (sg_FileNames signature) name
    then addEvidence tx cr cfg root path signature ''configuration_file'' name 95 st else st)"
  have 1: "scan_ok cfg st1" using addEvidence_ok [OF assms] assms by (simp add: st1_def)
  define indicate where "indicate = (\<lambda>contents indicator s.
    if str_contains (tx_lower tx contents) (tx_lower tx indicator)
    then addEvidence tx cr cfg root path signature ''dependency_or_config_indicator'' indicator 85 s else s)"
  have 2: "scan_ok cfg s \<Longrightarrow> scan_ok cfg (indicate contents x s)" for contents x s
    using addEvidence_ok [of cfg s] by (simp add: indicate_def)
  have "scan_ok cfg (fold (indicate contents) xs st1)" for contents xs
    using 2 1 by (rule fold_ok)
  moreover have "scan_signature tx cr cfg root path name bytes content signature st =
    (if bytes \<le> dc_MaxFileBytes cfg \<and> containsFold tx (sg_ContentFiles signature) name
     then (case content of Inl err \<Rightarrow> addCoverageGap tx root path err st1
       | Inr contents \<Rightarrow> fold (indicate contents) (sg_ContentIndicators signature) st1)
     else st1)"
    unfolding scan_signature_def st1_def indicate_def Let_def by (rule refl)
  ultimately show ?thesis using 1 addCoverageGap_ok [OF 1] by (simp split: sum.split)
qed

lemma scan_entry_ok: "scan_ok cfg st \<Longrightarrow> scan_ok cfg (scan_entry tx cr cfg root path e st)"
proof (induction tx cr cfg root path e st rule: scan_entry.induct)
  case (1 tx cr cfg root path name info content st)
  show ?case
  proof (cases info)
    case (Inl err)
    then show ?thesis using addCoverageGap_ok [OF 1] by simp
  next
    case (Inr bytes)
    have "scan_ok cfg (fold (scan_signature tx cr cfg root path name bytes content) (dc_Signatures cfg) st)"
      using scan_signature_ok 1 by (rule fold_ok)
    then show ?thesis using Inr by simp
  qed
next
  case (2 tx cr cfg root path name err children st)
  show ?case
  proof (cases "path \<noteq> root \<and> containsFold tx (dc_SkipDirectories cfg) name")
    case False
    define st1 where "st1 = (case err of None \<Rightarrow> st | Some text \<Rightarrow> addCoverageGap tx root path text st)"
    have 1: "scan_ok cfg st1"
      using 2(2) addCoverageGap_ok [OF 2(2)] by (simp add: st1_def split: option.split)
    have "scan_ok cfg (fold (\<lambda>c s. scan_entry tx cr cfg root (path_join [path, entry_name c]) c s) children st1)"
      using 2(1) [OF False st1_def] 1 by (rule fold_ok)
    then show ?thesis using False 2(2) by (simp add: st1_def)
  next
    case True
    then show ?thesis using 2(2) by simp
  qed
qed

lemma scan_roots_ok:
  "scan_ok cfg st \<Longrightarrow> scan_roots tx cr cfg root_of acc rs st = Inr (acc', st') \<Longrightarrow> scan_ok cfg st'"
  by (induction rs arbitrary: acc st) (auto split: root_state.splits intro: scan_entry_ok addCoverageGap_ok)


section \<open>The report\<close>

lemma reported_simps [simp]:
  "dg_DeploymentState (reported tx cfg now a) = dg_DeploymentState a"
  "dg_AgentType (reported tx cfg now a) = dg_AgentType a"
  "dg_Fingerprint (reported tx cfg now a) = dg_Fingerprint a"
  "dg_Confidence (reported tx cfg now a) = dg_Confidence a"
  "set (dg_Evidence (reported tx cfg now a)) = set (dg_Evidence a)"
  by (simp_all add: reported_def reconcile_def Let_def split: option.split)

lemma entry_matches_reported [simp]: "entry_matches tx t (reported tx cfg now a) e = entry_matches tx t a e"
  by (simp add: entry_matches_def list_ex_iff)

lemma matching_entry_reported [simp]: "matching_entry tx now' (reported tx cfg now a) es = matching_entry tx now' a es"
  by (simp add: matching_entry_def)

text \<open>The entry of the registry that a scan goes by.\<close>

definition covering ::
  "text_library \<Rightarrow> discovery_config \<Rightarrow> clock_readings \<Rightarrow> discovered_agent \<Rightarrow> (nat \<times> registry_entry) option" where
  "covering tx cfg now a = (if deployed a then matching_entry tx now a (dc_ApprovedAgents cfg) else None)"

lemma reported_status:
  assumes "finding_ok a"
  shows "dg_Status (reported tx cfg now a) =
    (if \<not> deployed a then StatusUnassessed
     else if covering tx cfg now a = None then StatusShadow else StatusApproved)"
  using assms
  by (auto simp: reported_def reconcile_def Let_def covering_def deployed_def finding_ok_def governanceStatus_def split: option.split)

lemma reported_approval:
  "covering tx cfg now a = Some (n, e) \<Longrightarrow>
    dg_ApprovalID (reported tx cfg now a) = rg_ID e \<and> dg_Owner (reported tx cfg now a) = rg_Owner e"
  by (auto simp: reported_def reconcile_def Let_def covering_def deployed_def split: if_splits)

lemma find_matching: "find p xs = Some x \<Longrightarrow> p x \<and> x \<in> set xs"
  by (auto simp: find_Some_iff)

lemma matching_entry_some:
  "matching_entry tx now a es = Some (n, e) \<Longrightarrow> entry_matches tx (now (dg_Fingerprint a) n) a e \<and> e \<in> set es"
  using find_matching [of _ "enumerate 0 es" "(n, e)"]
  by (fastforce simp: matching_entry_def in_set_enumerate_eq)

lemma status_counts:
  "count_status StatusApproved agents + count_status StatusShadow agents + count_status StatusUnassessed agents = int (length agents)"
proof (induction agents)
  case (Cons a agents)
  then show ?case by (cases "dg_Status a") (auto simp: count_status_def)
qed (simp add: count_status_def)

text \<open>What a report is made of.\<close>

lemma scan_report:
  assumes "Scan tx cr cfg root_of started now roots = Inr report" "0 \<le> dc_MaxFindings cfg"
  obtains st :: scan_state where "scan_ok cfg st"
    "sp_Agents report = map (\<lambda>(k, a). reported tx cfg now a) (sort_key fst (ss_findings st))"
    "sp_Gaps report = ss_gaps st" "sy_CoverageGaps (sp_Summary report) = ss_gapCount st"
    "sy_Total (sp_Summary report) = int (length (sp_Agents report))"
    "sy_Approved (sp_Summary report) = count_status StatusApproved (sp_Agents report)"
    "sy_Shadow (sp_Summary report) = count_status StatusShadow (sp_Agents report)"
    "sy_Available (sp_Summary report) = count_status StatusUnassessed (sp_Agents report)"
proof -
  obtain absolutes and st :: scan_state where st: "scan_roots tx cr cfg root_of [] roots empty_scan = Inr (absolutes, st)"
    using assms(1) by (auto simp: Scan_def split: if_splits sum.splits)
  have "scan_ok cfg empty_scan" using assms(2) by (simp add: scan_ok_def empty_scan_def)
  then have "scan_ok cfg st" using st by (rule scan_roots_ok)
  then show thesis using that assms(1) st by (auto simp: Scan_def Let_def split: if_splits)
qed

lemma scanner_limits: "0 < dc_MaxFindings (NewScanner cfg)" "0 < dc_MaxFileBytes (NewScanner cfg)"
  "dc_ApprovedAgents (NewScanner cfg) = dc_ApprovedAgents cfg"
  by (auto simp: NewScanner_def Let_def)


section \<open>Trimmed text\<close>

text \<open>Cutting a string between two of its chunks leaves the chunks on both sides as they were.\<close>

lemma decode_rune_cut:
  assumes "xs \<noteq> []" "decode_rune (xs @ ys) = (r, n)" "n \<le> length xs"
  shows "decode_rune xs = (r, n)"
proof -
  obtain r' n' where d: "decode_rune xs = (r', n')" by (cases "decode_rune xs")
  show ?thesis
  proof (cases "r' = rune_error \<and> n' = 1")
    case False
    then have "decode_rune (take n' xs @ drop n' xs @ ys) = (r', n')" by (intro decode_rune_local [OF assms(1) d])
    then show ?thesis using assms(2) d by (simp flip: append_assoc)
  next
    case True
    show ?thesis
    proof (cases "r = rune_error \<and> n = 1")
      case False
      then have "decode_rune (take n (xs @ ys) @ drop n xs) = (r, n)"
        using assms by (intro decode_rune_local) simp_all
      then show ?thesis using assms(3) d by simp
    qed (use True d in simp)
  qed
qed

lemma chunks_split:
  "rune_chunks s = xs @ ys \<Longrightarrow>
    rune_chunks (concat (map snd xs)) = xs \<and> rune_chunks (concat (map snd ys)) = ys"
proof (induction xs arbitrary: s)
  case Nil
  then show ?case using concat_chunks [of s] by simp
next
  case (Cons ch xs)
  then obtain c cs where s: "s = c # cs" by (cases s) auto
  obtain r n where d: "decode_rune s = (r, n)" by (rule prod.exhaust)
  have "s \<noteq> []" using s by simp
  then have n: "1 \<le> n" "n \<le> length s" using decode_rune_width d by (metis snd_conv)+
  define bs where "bs = take n s"
  have cut: "rune_chunks (c # t) = (r, take n (c # t)) # rune_chunks (drop n (c # t))" if "decode_rune (c # t) = (r, n)" for t
    using n(1) that by (cases n) (simp_all add: rune_chunks.simps(2) del: decode_rune.simps)
  have ch: "ch = (r, bs)" and rest: "rune_chunks (drop n s) = xs @ ys"
    using Cons.prems cut [of cs] d unfolding bs_def s by (simp_all del: decode_rune.simps)
  note IH = Cons.IH [OF rest]
  have "drop n s = concat (map snd xs) @ concat (map snd ys)" using concat_chunks [of "drop n s"] rest by simp
  then have split: "s = (bs @ concat (map snd xs)) @ concat (map snd ys)" using append_take_drop_id [of n s] by (simp add: bs_def)
  have bs: "bs = c # tl bs" "length bs = n" using n s by (cases n; simp add: bs_def)+
  have "decode_rune (bs @ concat (map snd xs)) = (r, n)"
  proof (rule decode_rune_cut)
    show "bs @ concat (map snd xs) \<noteq> []" using bs(1) by (metis append_is_Nil_conv list.discI)
    show "decode_rune ((bs @ concat (map snd xs)) @ concat (map snd ys)) = (r, n)" using d split by simp
    show "n \<le> length (bs @ concat (map snd xs))" using bs(2) by simp
  qed
  then have "rune_chunks (bs @ concat (map snd xs)) = (r, bs) # rune_chunks (concat (map snd xs))"
    using cut [of "tl bs @ concat (map snd xs)"] bs by (metis append_Cons append_eq_conv_conj)
  then show ?case using IH ch by simp
qed

lemma trim_idem [simp]: "trim_space (trim_space s) = trim_space s"
proof -
  let ?sp = "\<lambda>ch :: nat \<times> string. is_space (fst ch)"
  define xs where "xs = dropWhile ?sp (rune_chunks s)"
  define ys where "ys = rev (dropWhile ?sp (rev xs))"
  have t: "trim_space s = concat (map snd ys)" by (simp add: trim_space_def xs_def ys_def)
  have "rune_chunks (concat (map snd xs)) = xs"
    using chunks_split [of s "takeWhile ?sp (rune_chunks s)" xs] by (simp add: xs_def)
  moreover have cut: "xs = ys @ rev (takeWhile ?sp (rev xs))"
    using takeWhile_dropWhile_id [of ?sp "rev xs"] arg_cong [of _ _ rev] unfolding ys_def by (metis rev_append rev_rev_ident)
  ultimately have ys: "rune_chunks (concat (map snd ys)) = ys"
    using chunks_split [of "concat (map snd xs)" ys "rev (takeWhile ?sp (rev xs))"] by simp
  have "dropWhile ?sp (rev ys) = rev ys" by (simp add: ys_def dropWhile_idem)
  moreover have "dropWhile ?sp ys = ys"
  proof (cases ys)
    case (Cons y zs)
    then have "dropWhile ?sp (rune_chunks s) = y # zs @ rev (takeWhile ?sp (rev xs))"
      using cut by (simp add: xs_def)
    then have "\<not> ?sp y" using hd_dropWhile [of ?sp "rune_chunks s"] by simp
    then show ?thesis by (simp add: Cons)
  qed simp
  ultimately show ?thesis unfolding t by (simp add: trim_space_def ys)
qed

section \<open>The registry\<close>

text \<open>What \<open>strings.ToLower\<close> is documented to do, as far as the registry relies on it.\<close>

definition lower_ok :: "text_library \<Rightarrow> bool" where
  "lower_ok tx \<longleftrightarrow>
    (\<forall>s. tx_lower tx (tx_lower tx s) = tx_lower tx s
       \<and> trim_space (tx_lower tx (trim_space s)) = tx_lower tx (trim_space s))
    \<and> tx_lower tx ''active'' = ''active'' \<and> tx_lower tx [] = []"

definition normal_entry :: "text_library \<Rightarrow> crypto \<Rightarrow> registry_entry \<Rightarrow> bool" where
  "normal_entry tx cr e \<longleftrightarrow> normalizeEntry tx cr e = e"

lemma normal_entryI:
  assumes "trim_space (rg_AgentID e) = rg_AgentID e" "trim_space (rg_WorkloadID e) = rg_WorkloadID e"
    "trim_space (rg_DisplayName e) = rg_DisplayName e" "trim_space (rg_Name e) = rg_Name e"
    "trim_space (rg_AgentType e) = rg_AgentType e" "trim_space (rg_Environment e) = rg_Environment e"
    "trim_space (rg_Framework e) = rg_Framework e" "trim_space (rg_PolicyProfile e) = rg_PolicyProfile e"
    "tx_lower tx (trim_space (rg_Fingerprint e)) = rg_Fingerprint e" "trim_space (rg_PathContains e) = rg_PathContains e"
    "trim_space (rg_Owner e) = rg_Owner e" "trim_space (rg_ApprovalRef e) = rg_ApprovalRef e"
    "trim_space (rg_ExpiresOn e) = rg_ExpiresOn e" "tx_lower tx (trim_space (rg_State e)) = rg_State e"
    "rg_DisplayName e = [] \<longleftrightarrow> rg_Name e = []" "rg_State e \<noteq> []" "rg_ID e \<noteq> []"
  shows "normal_entry tx cr e"
  using assms by (cases "rg_Name e = []") (simp_all add: normal_entry_def normalizeEntry_def)

lemma normalizeEntry_simps:
  "rg_AgentID (normalizeEntry tx cr e) = trim_space (rg_AgentID e)"
  "rg_WorkloadID (normalizeEntry tx cr e) = trim_space (rg_WorkloadID e)"
  "rg_DisplayName (normalizeEntry tx cr e) =
    (if trim_space (rg_DisplayName e) = [] then trim_space (rg_Name e) else trim_space (rg_DisplayName e))"
  "rg_Name (normalizeEntry tx cr e) =
    (if trim_space (rg_Name e) = [] then rg_DisplayName (normalizeEntry tx cr e) else trim_space (rg_Name e))"
  "rg_AgentType (normalizeEntry tx cr e) = trim_space (rg_AgentType e)"
  "rg_Environment (normalizeEntry tx cr e) = trim_space (rg_Environment e)"
  "rg_Framework (normalizeEntry tx cr e) = trim_space (rg_Framework e)"
  "rg_PolicyProfile (normalizeEntry tx cr e) = trim_space (rg_PolicyProfile e)"
  "rg_Fingerprint (normalizeEntry tx cr e) = tx_lower tx (trim_space (rg_Fingerprint e))"
  "rg_PathContains (normalizeEntry tx cr e) = trim_space (rg_PathContains e)"
  "rg_Owner (normalizeEntry tx cr e) = trim_space (rg_Owner e)"
  "rg_ApprovalRef (normalizeEntry tx cr e) = trim_space (rg_ApprovalRef e)"
  "rg_ExpiresOn (normalizeEntry tx cr e) = trim_space (rg_ExpiresOn e)"
  "rg_State (normalizeEntry tx cr e) =
    (if tx_lower tx (trim_space (rg_State e)) = [] then ''active'' else tx_lower tx (trim_space (rg_State e)))"
  "rg_ID (normalizeEntry tx cr e) \<noteq> []"
  by (simp_all add: normalizeEntry_def Let_def)

lemma normalizeEntry_normal:
  assumes "lower_ok tx"
  shows "normal_entry tx cr (normalizeEntry tx cr e)"
proof -
  have a: "trim_space ''active'' = ''active''" "trim_space [] = []" by code_simp+
  have l: "tx_lower tx (tx_lower tx s) = tx_lower tx s" "trim_space (tx_lower tx (trim_space s)) = tx_lower tx (trim_space s)"
    "tx_lower tx ''active'' = ''active''" for s
    using assms by (simp_all add: lower_ok_def)
  show ?thesis by (rule normal_entryI) (auto simp: normalizeEntry_simps a l)
qed

lemma normalizeRegistry_normal:
  "list_all (normal_entry tx cr) es \<Longrightarrow> normalizeRegistry tx cr es = es"
  by (induction es) (simp_all add: normalizeRegistry_def normal_entry_def)

lemma normalizeRegistry_ok: "lower_ok tx \<Longrightarrow> list_all (normal_entry tx cr) (normalizeRegistry tx cr es)"
  by (simp add: normalizeRegistry_def list_all_iff normalizeEntry_normal)

section \<open>The manager\<close>

text \<open>The registry is in normal form and the scanner goes by it.\<close>

definition manager_ok :: "text_library \<Rightarrow> crypto \<Rightarrow> discovery_manager \<Rightarrow> bool" where
  "manager_ok tx cr m \<longleftrightarrow>
    list_all (normal_entry tx cr) (dm_registry m) \<and> dc_ApprovedAgents (dm_config m) = dm_registry m"

lemma scanLocked_simps [simp]:
  "dm_registry (scanLocked tx cr x m) = dm_registry m" "dm_config (scanLocked tx cr x m) = dm_config m"
  "dm_file (scanLocked tx cr x m) = dm_file m" "dm_registryPath (scanLocked tx cr x m) = dm_registryPath m"
  "dm_roots (scanLocked tx cr x m) = dm_roots m"
  by (simp_all add: scanLocked_def split: sum.split)

lemma manager_ok_scan [simp]: "manager_ok tx cr (scanLocked tx cr x m) = manager_ok tx cr m"
  by (simp add: manager_ok_def)

lemma LoadRegistry_ok:
  "lower_ok tx \<Longrightarrow> LoadRegistry tx cr path file fallback = Inr es \<Longrightarrow> list_all (normal_entry tx cr) es"
  by (auto simp: LoadRegistry_def normalizeRegistry_ok split: if_splits registry_file.splits)

lemma rescan_ok:
  "lower_ok tx \<Longrightarrow> rescanLocked tx cr file x m = Inr m' \<Longrightarrow> manager_ok tx cr m'"
  by (auto simp: rescanLocked_def manager_ok_def LoadRegistry_ok split: sum.splits)

lemma replace_entry_all: "p e \<Longrightarrow> list_all p es \<Longrightarrow> list_all p (replace_entry e es)"
  by (induction es) auto

lemma manager_ok_with:
  "list_all (normal_entry tx cr) es \<Longrightarrow> manager_ok tx cr (with_registry es file m)"
  by (simp add: manager_ok_def with_registry_def)

lemma SaveApproval_ok:
  assumes "lower_ok tx" "manager_ok tx cr m"
  shows "manager_ok tx cr (snd (SaveApproval tx cr entry written x m))"
proof -
  have "list_all (normal_entry tx cr) (replace_entry (normalizeEntry tx cr entry) (dm_registry m))"
    using assms by (intro replace_entry_all) (simp_all add: normalizeEntry_normal manager_ok_def)
  then show ?thesis using assms(2)
    by (auto simp: SaveApproval_def Let_def manager_ok_with manager_ok_def [of tx cr "m\<lparr>dm_file := f\<rparr>" for f]
        split: option.split prod.split) (auto simp: manager_ok_def)
qed


lemma DeleteApproval_ok:
  assumes "manager_ok tx cr m"
  shows "manager_ok tx cr (snd (DeleteApproval tx cr i written x m))"
proof -
  have "list_all (normal_entry tx cr) (filter (\<lambda>e. rg_ID e \<noteq> i) (dm_registry m))"
    using assms by (auto simp: manager_ok_def list_all_iff)
  then show ?thesis using assms
    by (auto simp: DeleteApproval_def Let_def manager_ok_with split: option.split prod.split) (auto simp: manager_ok_def)
qed

text \<open>A call of the manager after it was set up.\<close>

datatype manager_op =
    OpRescan config_file scan_inputs
  | OpSaveApproval registry_entry registry_write scan_inputs
  | OpDeleteApproval string registry_write scan_inputs

fun manager_step :: "text_library \<Rightarrow> crypto \<Rightarrow> manager_op \<Rightarrow> discovery_manager \<Rightarrow> discovery_manager" where
  "manager_step tx cr (OpRescan file x) m = snd (Rescan tx cr file x m)"
| "manager_step tx cr (OpSaveApproval entry written x) m = snd (SaveApproval tx cr entry written x m)"
| "manager_step tx cr (OpDeleteApproval i written x) m = snd (DeleteApproval tx cr i written x m)"

lemma manager_step_ok: "lower_ok tx \<Longrightarrow> manager_ok tx cr m \<Longrightarrow> manager_ok tx cr (manager_step tx cr c m)"
  by (cases c) (auto simp: SaveApproval_ok DeleteApproval_ok Rescan_def rescan_ok split: sum.split)

lemma manager_run_ok: "lower_ok tx \<Longrightarrow> manager_ok tx cr m \<Longrightarrow> manager_ok tx cr (fold (manager_step tx cr) cs m)"
  by (induction cs arbitrary: m) (simp_all add: manager_step_ok)

text \<open>A saved approval, and what the file then holds.\<close>

lemma SaveApproval_saved:
  assumes "SaveApproval tx cr entry written x m = (Inr (entry', report), m')" "lower_ok tx" "manager_ok tx cr m"
  shows "entry' = normalizeEntry tx cr entry" "entry' \<in> set (dm_registry m')"
    "dm_registry m' = replace_entry entry' (dm_registry m)" "dm_registryPath m' \<noteq> []"
    "dm_registryPath m' = dm_registryPath m" "written \<noteq> RegistryWriteFailed"
    "dm_file m' = (if written = RegistryCut then RegistryUnparsable else RegistryContent (dm_registry m'))"
proof -
  have in_replaced: "e \<in> set (replace_entry e es)" for e es by (induction es) auto
  have "list_all (normal_entry tx cr) (replace_entry (normalizeEntry tx cr entry) (dm_registry m))"
    using assms(2,3) by (intro replace_entry_all) (simp_all add: normalizeEntry_normal manager_ok_def)
  then have n: "normalizeRegistry tx cr (replace_entry (normalizeEntry tx cr entry) (dm_registry m))
      = replace_entry (normalizeEntry tx cr entry) (dm_registry m)"
    by (rule normalizeRegistry_normal)
  show "entry' = normalizeEntry tx cr entry" "entry' \<in> set (dm_registry m')"
    "dm_registry m' = replace_entry entry' (dm_registry m)" "dm_registryPath m' \<noteq> []"
    "dm_registryPath m' = dm_registryPath m" "written \<noteq> RegistryWriteFailed"
    "dm_file m' = (if written = RegistryCut then RegistryUnparsable else RegistryContent (dm_registry m'))"
    using assms(1) in_replaced n
    by (auto simp: SaveApproval_def SaveRegistry_def Let_def with_registry_def
        split: option.splits if_splits registry_write.splits)
qed

lemma NewManager_registry:
  assumes "LoadConfig file = Inr cfg" "path \<noteq> []" "list_all (normal_entry tx cr) es"
  shows "\<exists>m. NewManager tx cr file x path (RegistryContent es) roots = Inr m \<and> dm_registry m = es"
  using assms by (simp add: NewManager_def rescanLocked_def LoadRegistry_def normalizeRegistry_normal)

text \<open>A registry that was cut off keeps every manager from starting.\<close>

lemma NewManager_unparsable:
  "LoadConfig file = Inr cfg \<Longrightarrow> path \<noteq> [] \<Longrightarrow>
     NewManager tx cr file x path RegistryUnparsable roots = Inl (RegistryError (plain ''parse approval registry''))"
  by (simp add: NewManager_def rescanLocked_def LoadRegistry_def)

end
