(* ===== verification/Session_Audit.thy ===== *)
theory Session_Audit
  imports Json_Struct Crypto Audit_Store
begin

text \<open>
  \<open>internal/sessionaudit/recorder.go\<close>: the recorder of a local agent session. What the agent emits is
  hashed, and only a fixed set of metadata is kept of it.

  The file is the list of its lines, each the event it encodes, a line that does not decode, or one longer than
  the buffer of the reader. The outcome of a write is an argument: a failed one may leave a part of the line, and
  the buffered writer stays failed after it, as \<open>bufio.Writer\<close> does. A string that is not UTF-8 is written with
  the replacement rune, which the list does not show.
\<close>

section \<open>Events\<close>

record session_event =
  se_SchemaVersion :: string
  se_SessionID :: string
  se_Sequence :: int
  se_ObservedAt :: time
  se_Source :: string
  se_Trust :: string
  se_EventType :: string
  se_ActionClass :: string
  se_ObjectType :: string
  se_SourceEventID :: string
  se_Status :: string
  se_ExitCode :: "int option"
  se_PayloadSHA256 :: string
  se_Details :: "string list"

definition SourceAgentJSONL :: string where "SourceAgentJSONL = ''agent-jsonl''"
definition TrustSelfReported :: string where "TrustSelfReported = ''self_reported''"
definition TrustObserver :: string where "TrustObserver = ''observer_recorded''"

definition zero_session_event :: session_event where
  "zero_session_event =
    \<lparr>se_SchemaVersion = [], se_SessionID = [], se_Sequence = 0, se_ObservedAt = zero_time, se_Source = [], se_Trust = [],
     se_EventType = [], se_ActionClass = [], se_ObjectType = [], se_SourceEventID = [], se_Status = [], se_ExitCode = None,
     se_PayloadSHA256 = [], se_Details = []\<rparr>"

section \<open>What is kept of an emitted line\<close>

record incoming_item =
  ii_ID :: string
  ii_Type :: string
  ii_Status :: string
  ii_ExitCode :: "int option"

record incoming_event =
  ie_Type :: string
  ie_ThreadID :: string
  ie_Item :: incoming_item

definition set_int_pointer :: "(int option \<Rightarrow> 'r \<Rightarrow> 'r) \<Rightarrow> 'r \<Rightarrow> json \<Rightarrow> 'r option" where
  "set_int_pointer upd r v =
    (case v of JNum n \<Rightarrow> map_option (\<lambda>i. upd (Some i) r) (parse_int64 n) | JNull \<Rightarrow> Some (upd None r) | _ \<Rightarrow> None)"

definition item_fields :: "incoming_item field list" where
  "item_fields =
    [(''id'', set_string (\<lambda>x r. r\<lparr>ii_ID := x\<rparr>)), (''type'', set_string (\<lambda>x r. r\<lparr>ii_Type := x\<rparr>)),
     (''status'', set_string (\<lambda>x r. r\<lparr>ii_Status := x\<rparr>)), (''exit_code'', set_int_pointer (\<lambda>x r. r\<lparr>ii_ExitCode := x\<rparr>))]"

definition incoming_fields :: "incoming_event field list" where
  "incoming_fields =
    [(''type'', set_string (\<lambda>x r. r\<lparr>ie_Type := x\<rparr>)), (''thread_id'', set_string (\<lambda>x r. r\<lparr>ie_ThreadID := x\<rparr>)),
     (''item'', set_struct False item_fields ie_Item (\<lambda>x r. r\<lparr>ie_Item := x\<rparr>))]"

definition empty_incoming :: incoming_event where
  "empty_incoming =
    \<lparr>ie_Type = [], ie_ThreadID = [], ie_Item = \<lparr>ii_ID = [], ii_Type = [], ii_Status = [], ii_ExitCode = None\<rparr>\<rparr>"

definition classify :: "string \<Rightarrow> string \<Rightarrow> string" where
  "classify eventType itemType =
    (if itemType = ''command_execution'' then ''process.exec''
     else if itemType = ''mcp_tool_call'' \<or> itemType = ''tool_call'' then ''tool.call''
     else if itemType = ''file_change'' then ''file.change''
     else if itemType = ''web_search'' \<or> itemType = ''web_search_call'' then ''network.search''
     else if itemType = ''agent_message'' \<or> itemType = ''reasoning'' then ''agent.output''
     else if has_prefix eventType ''thread.'' \<or> has_prefix eventType ''turn.'' then ''agent.lifecycle''
     else if eventType = ''error'' then ''agent.error'' else ''agent.event'')"

definition decode_incoming :: "string \<Rightarrow> incoming_event option" where
  "decode_incoming line =
    (case read_document False line of Inl e \<Rightarrow> None | Inr v \<Rightarrow> decode_struct False incoming_fields empty_incoming v)"

definition normalizeJSONLine :: "crypto \<Rightarrow> string \<Rightarrow> session_event" where
  "normalizeJSONLine cr line =
    (let e = zero_session_event
           \<lparr>se_Source := SourceAgentJSONL, se_Trust := TrustSelfReported, se_EventType := ''unparsed'',
            se_ActionClass := ''agent.event'', se_PayloadSHA256 := hex_encode (cr_sha256 cr line)\<rparr>
     in case decode_incoming line of
          None \<Rightarrow> e\<lparr>se_Status := ''invalid_json''\<rparr>
        | Some i \<Rightarrow>
            e\<lparr>se_EventType := (if ie_Type i \<noteq> [] then ie_Type i else se_EventType e),
              se_ObjectType := ii_Type (ie_Item i), se_SourceEventID := ii_ID (ie_Item i), se_Status := ii_Status (ie_Item i),
              se_ExitCode := ii_ExitCode (ie_Item i),
              se_Details := (if ie_ThreadID i \<noteq> [] then [''source_thread_id='' @ ie_ThreadID i] else []),
              se_ActionClass := classify (ie_Type i) (ii_Type (ie_Item i))\<rparr>)"

definition HashArguments :: "crypto \<Rightarrow> string list \<Rightarrow> string" where
  "HashArguments cr args = hex_encode (cr_sha256 cr (join [CHR 0x00] args))"

section \<open>The recorder\<close>

datatype session_line = SessionLine session_event | BadLine | LongLine

datatype line_write = LineWritten | LineFailed "session_line option"

record recorder =
  rr_file :: "session_line list"
  rr_failed :: bool
  rr_sessionID :: string
  rr_sequence :: int

datatype session_error = SessionPathRequired | SessionIDRequired | SessionIO | SessionDecode | SessionRead

text \<open>\<open>New\<close>, with whether the file could be opened and what it holds.\<close>

definition NewRecorder :: "string \<Rightarrow> string \<Rightarrow> session_line list option \<Rightarrow> session_error + recorder" where
  "NewRecorder path sessionID file =
    (if trim_space path = [] then Inl SessionPathRequired
     else if trim_space sessionID = [] then Inl SessionIDRequired
     else case file of
       None \<Rightarrow> Inl SessionIO
     | Some ls \<Rightarrow> Inr \<lparr>rr_file = ls, rr_failed = False, rr_sessionID = sessionID, rr_sequence = 0\<rparr>)"

definition option_list :: "'a option \<Rightarrow> 'a list" where
  "option_list x = (case x of None \<Rightarrow> [] | Some y \<Rightarrow> [y])"

definition Recorder_append :: "session_event \<Rightarrow> time \<Rightarrow> line_write \<Rightarrow> recorder \<Rightarrow> (session_error + session_event) \<times> recorder" where
  "Recorder_append event now written r =
    (let n = wrap64 (rr_sequence r + 1);
         e = event\<lparr>se_SchemaVersion := ''aegis-router.session-event.v1'', se_SessionID := rr_sessionID r,
                   se_Sequence := n, se_ObservedAt := now\<rparr>;
         r1 = r\<lparr>rr_sequence := n\<rparr>
     in if rr_failed r then (Inl SessionIO, r1)
        else case written of
          LineWritten \<Rightarrow> (Inr e, r1\<lparr>rr_file := rr_file r @ [SessionLine e]\<rparr>)
        | LineFailed part \<Rightarrow> (Inl SessionIO, r1\<lparr>rr_failed := True, rr_file := rr_file r @ option_list part\<rparr>))"

definition RecordLifecycle ::
  "string \<Rightarrow> string \<Rightarrow> string list \<Rightarrow> time \<Rightarrow> line_write \<Rightarrow> recorder \<Rightarrow> (session_error + session_event) \<times> recorder" where
  "RecordLifecycle eventType status details now written r =
    Recorder_append (zero_session_event\<lparr>se_Source := ''aegis-router-observer'', se_Trust := TrustObserver,
      se_EventType := eventType, se_ActionClass := ''process.lifecycle'', se_Status := status, se_Details := details\<rparr>)
      now written r"

definition RecordJSONLine :: "crypto \<Rightarrow> string \<Rightarrow> time \<Rightarrow> line_write \<Rightarrow> recorder \<Rightarrow> (session_error + session_event) \<times> recorder" where
  "RecordJSONLine cr line now written r = Recorder_append (normalizeJSONLine cr line) now written r"

section \<open>Reading the recent events\<close>

datatype session_file = NoSessionFile | UnreadableFile | SessionFile "session_line list"

fun recent_window :: "nat \<Rightarrow> session_event list \<Rightarrow> session_line list \<Rightarrow> session_error + session_event list" where
  "recent_window limit events [] = Inr (rev events)"
| "recent_window limit events (BadLine # ls) = Inl SessionDecode"
| "recent_window limit events (LongLine # ls) = Inl SessionRead"
| "recent_window limit events (SessionLine e # ls) =
    recent_window limit ((if length events = limit then tl events else events) @ [e]) ls"

definition Recent_Sessions :: "string \<Rightarrow> int \<Rightarrow> session_file \<Rightarrow> session_error + session_event list" where
  "Recent_Sessions path limit file =
    (if trim_space path = [] \<or> limit < 1 then Inr []
     else case file of
       NoSessionFile \<Rightarrow> Inr []
     | UnreadableFile \<Rightarrow> Inl SessionIO
     | SessionFile ls \<Rightarrow> recent_window (nat limit) [] ls)"

section \<open>Facts\<close>

lemma take_rev_snoc: "length xs \<ge> n \<Longrightarrow> take n (rev (x # xs)) = take n (rev xs)"
  by simp

lemma recent_window_run:
  "length events \<le> limit \<Longrightarrow> 0 < limit \<Longrightarrow>
     recent_window limit events (map SessionLine es) = Inr (take limit (rev (events @ es)))"
proof (induction es arbitrary: events)
  case (Cons e es)
  show ?case
  proof (cases "length events = limit")
    case True
    then obtain x xs where ev: "events = x # xs" using Cons.prems by (cases events) auto
    then have "take limit (rev (x # (xs @ e # es))) = take limit (rev (xs @ e # es))"
      using True by (intro take_rev_snoc) simp
    then show ?thesis using Cons.IH [of "tl events @ [e]"] True ev Cons.prems by simp
  next
    case False
    then show ?thesis using Cons.IH [of "events @ [e]"] Cons.prems by simp
  qed
qed simp

text \<open>One call of the recorder.\<close>

datatype recorder_op = OpLifecycle string string "string list" time line_write | OpLine string time line_write

fun recorder_step :: "crypto \<Rightarrow> recorder_op \<Rightarrow> recorder \<Rightarrow> recorder" where
  "recorder_step cr (OpLifecycle t s ds now written) r = snd (RecordLifecycle t s ds now written r)"
| "recorder_step cr (OpLine line now written) r = snd (RecordJSONLine cr line now written r)"

lemma recorder_step_append: "\<exists>e now written. recorder_step cr x r = snd (Recorder_append e now written r)"
  by (cases x) (auto simp: RecordLifecycle_def RecordJSONLine_def)

text \<open>
  The lines of a recorder after the ones the file had: numbered from one without a gap, all of its
  session, and after them at most what a failed write left. While no write has failed, the counter is
  their number.
\<close>

definition recorder_ok :: "session_line list \<Rightarrow> nat \<Rightarrow> recorder \<Rightarrow> bool" where
  "recorder_ok ls n r \<longleftrightarrow>
    (\<exists>es rest. rr_file r = ls @ map SessionLine es @ option_list rest
      \<and> map se_Sequence es = map int [1..<Suc (length es)]
      \<and> (\<forall>e \<in> set es. se_SessionID e = rr_sessionID r) \<and> length es \<le> n
      \<and> (\<not> rr_failed r \<longrightarrow> rest = None \<and> rr_sequence r = int (length es)))"

lemma recorder_append_ok:
  assumes "recorder_ok ls n r" "n < 2 ^ 62"
  shows "recorder_ok ls (Suc n) (snd (Recorder_append e now written r))"
    "rr_sessionID (snd (Recorder_append e now written r)) = rr_sessionID r"
proof -
  show "rr_sessionID (snd (Recorder_append e now written r)) = rr_sessionID r"
    by (simp add: Recorder_append_def Let_def split: line_write.split)
  obtain es rest where es: "rr_file r = ls @ map SessionLine es @ option_list rest"
    "map se_Sequence es = map int [1..<Suc (length es)]" "\<forall>e \<in> set es. se_SessionID e = rr_sessionID r"
    "length es \<le> n" "\<not> rr_failed r \<longrightarrow> rest = None \<and> rr_sequence r = int (length es)"
    using assms(1) by (auto simp: recorder_ok_def)
  show "recorder_ok ls (Suc n) (snd (Recorder_append e now written r))"
  proof (cases "rr_failed r")
    case True
    then show ?thesis using es by (auto simp: recorder_ok_def Recorder_append_def Let_def)
  next
    case False
    show ?thesis
    proof (cases written)
      case (LineFailed part)
      then show ?thesis using es False
        by (auto simp: recorder_ok_def Recorder_append_def Let_def option_list_def)
    next
      case LineWritten
      define e' where "e' = e\<lparr>se_SchemaVersion := ''aegis-router.session-event.v1'', se_SessionID := rr_sessionID r,
        se_Sequence := int (Suc (length es)), se_ObservedAt := now\<rparr>"
      have "length es < 2 ^ 62" using es(4) assms(2) by (rule le_less_trans)
      then have "int (length es) < 2 ^ 62" by simp
      then have "wrap64 (rr_sequence r + 1) = int (Suc (length es))" using es(5) False by (simp add: wrap64_def)
      then have "rr_file (snd (Recorder_append e now written r)) = ls @ map SessionLine (es @ [e']) @ option_list None"
        "rr_sequence (snd (Recorder_append e now written r)) = int (length (es @ [e']))"
        using False es(1,5) LineWritten by (simp_all add: Recorder_append_def Let_def e'_def option_list_def)
      moreover have "map se_Sequence (es @ [e']) = map int [1..<Suc (length (es @ [e']))]"
        using es(2) by (simp add: e'_def)
      moreover have "\<forall>y \<in> set (es @ [e']). se_SessionID y = rr_sessionID (snd (Recorder_append e now written r))"
        using es(3) False LineWritten by (auto simp: e'_def Recorder_append_def Let_def)
      ultimately show ?thesis using es(4)
        unfolding recorder_ok_def by (intro exI [of _ "es @ [e']"] exI [of _ None] conjI) (simp_all del: upt_Suc)
    qed
  qed
qed

lemma recorder_run_ok:
  "recorder_ok ls n r \<Longrightarrow> n + length ops < 2 ^ 62 \<Longrightarrow>
     recorder_ok ls (n + length ops) (fold (recorder_step cr) ops r)
     \<and> rr_sessionID (fold (recorder_step cr) ops r) = rr_sessionID r"
proof (induction ops arbitrary: n r)
  case (Cons x ops)
  obtain e now written where x: "recorder_step cr x r = snd (Recorder_append e now written r)"
    using recorder_step_append by blast
  have "recorder_ok ls (Suc n) (recorder_step cr x r)" "rr_sessionID (recorder_step cr x r) = rr_sessionID r"
    using recorder_append_ok [OF Cons.prems(1)] Cons.prems(2) by (simp_all add: x)
  then show ?case using Cons.IH [of "Suc n" "recorder_step cr x r"] Cons.prems(2) by simp
qed simp

section \<open>What a line leaves behind\<close>

definition known_field :: "'r field list \<Rightarrow> string \<Rightarrow> bool" where
  "known_field fs k \<longleftrightarrow> find_field fs k \<noteq> None"

text \<open>
  The metadata of an emitted object, by name: its type, its thread and, of its item, the id, the type, the
  status and the exit code; names are taken in any letter case, as \<open>encoding/json\<close> does. Nothing else of it is
  metadata: no command, no argument, no output, no text.
\<close>

definition named :: "string list \<Rightarrow> string \<Rightarrow> bool" where
  "named names k \<longleftrightarrow> fold_name k \<in> set (map fold_name names)"

definition item_metadata :: "json \<Rightarrow> json" where
  "item_metadata v =
    (case v of JObj ms \<Rightarrow> JObj (filter (\<lambda>(k, x). named [''id'', ''type'', ''status'', ''exit_code''] k) ms) | _ \<Rightarrow> v)"

definition session_metadata :: "json \<Rightarrow> json" where
  "session_metadata v =
    (case v of
       JObj ms \<Rightarrow> JObj (map (\<lambda>(k, x). (k, if named [''item''] k then item_metadata x else x))
         (filter (\<lambda>(k, x). named [''type'', ''thread_id'', ''item''] k) ms))
     | _ \<Rightarrow> v)"

text \<open>These are the members that the decoder of the recorder knows.\<close>

lemma known_named: "known_field fs k \<longleftrightarrow> named (map fst fs) k"
proof -
  have "find (\<lambda>f. fold_name (fst f) = fold_name k) fs \<noteq> None \<longleftrightarrow> named (map fst fs) k"
    by (auto simp: find_None_iff named_def) (metis fst_conv image_eqI)+
  moreover have "named (map fst fs) k" if "map_of fs k = Some a" for a
    using map_of_SomeD [OF that] by (force simp: named_def)
  ultimately show ?thesis by (auto simp: known_field_def find_field_def split: option.split)
qed

lemma known_item: "known_field item_fields k \<longleftrightarrow> named [''id'', ''type'', ''status'', ''exit_code''] k"
  by (simp add: known_named item_fields_def)

lemma known_incoming: "known_field incoming_fields k \<longleftrightarrow> named [''type'', ''thread_id'', ''item''] k"
  by (simp add: known_named incoming_fields_def)

lemma decode_known:
  "decode_members False fs r (filter (\<lambda>(k, x). known_field fs k) ms) = decode_members False fs r ms"
  by (induction "False" fs r ms rule: decode_members.induct) (auto simp: known_field_def split: option.split)

lemma decode_item_metadata: "decode_struct False item_fields r (item_metadata v) = decode_struct False item_fields r v"
  by (cases v) (simp_all add: decode_struct_def item_metadata_def decode_known flip: known_item)

lemma item_member: "named [''item''] k \<longleftrightarrow> fold_name k = fold_name ''item''"
  by (simp add: named_def)

lemma find_item:
  assumes "fold_name k = fold_name ''item''" "find_field incoming_fields k = Some assign"
  shows "assign r (item_metadata v) = assign r v"
proof -
  have f: "fold_name ''type'' \<noteq> fold_name ''item''" "fold_name ''thread_id'' \<noteq> fold_name ''item''" by code_simp+
  have "k \<noteq> ''type''" "k \<noteq> ''thread_id''" using assms(1) f by auto
  then have "assign = set_struct False item_fields ie_Item (\<lambda>x r. r\<lparr>ie_Item := x\<rparr>)"
    using assms f by (auto simp: find_field_def incoming_fields_def split: if_splits)
  then show ?thesis by (simp add: set_struct_def decode_item_metadata)
qed

lemma decode_incoming_metadata:
  "decode_members False incoming_fields r
     (map (\<lambda>(k, x). (k, if fold_name k = fold_name ''item'' then item_metadata x else x)) ms) =
   decode_members False incoming_fields r ms"
proof (induction ms arbitrary: r)
  case (Cons m ms)
  obtain k v where m: "m = (k, v)" by (rule prod.exhaust)
  show ?case
  proof (cases "find_field incoming_fields k")
    case None
    then show ?thesis using Cons.IH by (simp add: m)
  next
    case (Some assign)
    then show ?thesis using Cons.IH find_item [OF _ Some, of r v] by (auto simp: m split: option.split)
  qed
qed simp

lemma decode_session_metadata:
  "decode_struct False incoming_fields r (session_metadata v) = decode_struct False incoming_fields r v"
  by (cases v) (simp_all add: decode_struct_def session_metadata_def item_member decode_incoming_metadata decode_known flip: known_incoming)

end
