(* ===== verification/Commands.thy ===== *)
theory Commands
  imports Session_Audit Discovery_Scan
begin

text \<open>
  \<open>cmd/observe/main.go\<close> and \<open>cmd/discover/main.go\<close>: the command that runs an agent under the session recorder, and the
  command that scans directories for agents. Both are modelled from their parsed flags on.

  The child process is an argument: whether it started, the lines the scanner delivers of its output, how it ended.
  What goes to the standard streams is not modelled, except that writing a line there can fail.
\<close>

section \<open>Observing a command\<close>

datatype child_start = ChildPipeFailed | ChildNotStarted string | ChildStarted int

datatype child_exit = ChildDone | ChildExited int | ChildWaitFailed

record output_line =
  ol_Line :: string
  ol_Echoed :: bool
  ol_Now :: time
  ol_Written :: line_write

record observe_inputs =
  ob_file :: "session_line list option"
  ob_child :: child_start
  ob_output :: "output_line list"
  ob_unreadable :: bool
  ob_exit :: child_exit
  ob_starting :: "time \<times> line_write"
  ob_started :: "time \<times> line_write"
  ob_exited :: "time \<times> line_write"

text \<open>\<open>stream\<close>: whether it failed. A line of more than two megabytes, or an error of the reader, ends the scan.\<close>

fun stream :: "crypto \<Rightarrow> bool \<Rightarrow> output_line list \<Rightarrow> recorder \<Rightarrow> bool \<times> recorder" where
  "stream cr unreadable [] r = (unreadable, r)"
| "stream cr unreadable (l # ls) r =
    (if \<not> ol_Echoed l then (True, r)
     else case RecordJSONLine cr (ol_Line l) (ol_Now l) (ol_Written l) r of
       (Inl e, r') \<Rightarrow> (True, r') | (Inr e, r') \<Rightarrow> stream cr unreadable ls r')"

definition observer_event :: "string \<Rightarrow> string \<Rightarrow> string list \<Rightarrow> time \<times> line_write \<Rightarrow> recorder \<Rightarrow> (session_error + session_event) \<times> recorder" where
  "observer_event eventType status details w r = RecordLifecycle eventType status details (fst w) (snd w) r"

definition exit_status :: "child_exit \<Rightarrow> string \<times> int" where
  "exit_status e = (case e of ChildDone \<Rightarrow> (''completed'', 0) | ChildExited c \<Rightarrow> (''failed'', c) | ChildWaitFailed \<Rightarrow> (''failed'', 1))"

definition observe_child :: "crypto \<Rightarrow> int \<Rightarrow> observe_inputs \<Rightarrow> recorder \<Rightarrow> int \<times> recorder" where
  "observe_child cr pid x r =
    (let r1 = snd (observer_event ''process.started'' ''running'' [''pid='' @ show_int pid] (ob_started x) r);
         (scan_failed, r2) = stream cr (ob_unreadable x) (ob_output x) r1;
         (status, exitCode) = exit_status (ob_exit x);
         (recorded, r3) = observer_event ''process.exited'' status [''exit_code='' @ show_int exitCode] (ob_exited x) r2
     in (if scan_failed \<or> isl recorded then 1 else exitCode, r3))"

text \<open>\<open>run\<close>: the exit code, and the recorder when there was one.\<close>

definition observe :: "crypto \<Rightarrow> string \<Rightarrow> string \<Rightarrow> string list \<Rightarrow> observe_inputs \<Rightarrow> int \<times> recorder option" where
  "observe cr auditPath sessionID command x =
    (case command of
       [] \<Rightarrow> (2, None)
     | program # arguments \<Rightarrow>
         (case NewRecorder auditPath sessionID (ob_file x) of
            Inl e \<Rightarrow> (1, None)
          | Inr r \<Rightarrow>
              (case observer_event ''process.starting'' ''starting''
                  [''executable='' @ path_base program, ''arguments_sha256='' @ HashArguments cr arguments] (ob_starting x) r of
                 (Inl e, r1) \<Rightarrow> (1, Some r1)
               | (Inr e, r1) \<Rightarrow>
                   (case ob_child x of
                      ChildPipeFailed \<Rightarrow> (1, Some r1)
                    | ChildNotStarted err \<Rightarrow>
                        (1, Some (snd (observer_event ''process.start_failed'' ''failed'' [''error='' @ err] (ob_started x) r1)))
                    | ChildStarted pid \<Rightarrow> map_prod id Some (observe_child cr pid x r1)))))"

section \<open>Scanning directories\<close>

record table_row =
  tr_Status :: agent_status
  tr_Deployment :: deployment
  tr_Exposure :: string
  tr_Confidence :: int
  tr_Type :: string
  tr_Name :: string
  tr_Evidence :: int

datatype discover_output =
    DiscoverJSON scan_report
  | DiscoverTable "table_row list" scan_summary
  | DiscoverScanFailed string
  | DiscoverFailed discovery_error
  | DiscoverFormat string

definition table_row_of :: "discovered_agent \<Rightarrow> table_row" where
  "table_row_of agent =
    \<lparr>tr_Status = dg_Status agent, tr_Deployment = dg_DeploymentState agent,
     tr_Exposure = ex_Classification (dg_Exposure agent)
       @ (if ex_PotentialCapabilities (dg_Exposure agent) \<noteq> [] then '':'' @ join '','' (ex_PotentialCapabilities (dg_Exposure agent)) else []),
     tr_Confidence = dg_Confidence agent, tr_Type = dg_AgentType agent, tr_Name = dg_Name agent,
     tr_Evidence = int (length (dg_Evidence agent))\<rparr>"

definition discover ::
  "text_library \<Rightarrow> crypto \<Rightarrow> config_file \<Rightarrow> string \<Rightarrow> registry_file \<Rightarrow> scan_inputs \<Rightarrow> string \<Rightarrow> string list \<Rightarrow> discover_output" where
  "discover tx cr config registryPath registry x format paths =
    (case LoadConfig config of
       Inl e \<Rightarrow> DiscoverFailed e
     | Inr cfg \<Rightarrow>
         (case LoadRegistry tx cr registryPath registry (dc_ApprovedAgents cfg) of
            Inl e \<Rightarrow> DiscoverFailed e
          | Inr approved \<Rightarrow>
              (case Scan tx cr (NewScanner (cfg\<lparr>dc_ApprovedAgents := approved\<rparr>)) (sn_root_of x) (sn_started x) (sn_readings x)
                  (if paths = [] then [''.''] else paths) of
                 Inl err \<Rightarrow> DiscoverScanFailed err
               | Inr report \<Rightarrow>
                   if format = ''json'' then DiscoverJSON report
                   else if format = ''table'' then DiscoverTable (map table_row_of (sp_Agents report)) (sp_Summary report)
                   else DiscoverFormat format)))"

section \<open>Facts\<close>

text \<open>What the observer adds to a log that had the lines \<open>ls\<close>, while no write failed.\<close>

definition wrote :: "session_event list \<Rightarrow> recorder \<Rightarrow> recorder \<Rightarrow> bool" where
  "wrote es r r' \<longleftrightarrow> rr_sessionID r' = rr_sessionID r \<and> (rr_failed r \<longrightarrow> rr_failed r')
    \<and> (\<not> rr_failed r' \<longrightarrow> rr_file r' = rr_file r @ map SessionLine es)"

lemma wrote_trans: "wrote es r r1 \<Longrightarrow> wrote es' r1 r2 \<Longrightarrow> wrote (es @ es') r r2"
  by (auto simp: wrote_def)

definition kind_of :: "session_event \<Rightarrow> string \<times> string \<times> string list" where
  "kind_of e = (se_Trust e, se_EventType e, se_Details e)"

lemma append_wrote:
  assumes "Recorder_append e now w r = (res, r')"
  obtains e' where "wrote [e'] r r'" "kind_of e' = kind_of e"
proof (rule that)
  let ?e = "e\<lparr>se_SchemaVersion := ''aegis-router.session-event.v1'', se_SessionID := rr_sessionID r,
      se_Sequence := wrap64 (rr_sequence r + 1), se_ObservedAt := now\<rparr>"
  show "wrote [?e] r r'" using assms by (auto simp: wrote_def Recorder_append_def Let_def split: if_splits line_write.splits)
  show "kind_of ?e = kind_of e" by (simp add: kind_of_def)
qed

lemma append_failed: "Recorder_append e now w r = (Inl x, r') \<Longrightarrow> rr_failed r'"
  by (auto simp: Recorder_append_def Let_def split: if_splits line_write.splits)

lemma observer_event_wrote:
  assumes "observer_event t s ds w r = (res, r')"
  obtains e where "wrote [e] r r'" "kind_of e = (TrustObserver, t, ds)"
proof -
  obtain e where "wrote [e] r r'"
    "kind_of e = kind_of (zero_session_event\<lparr>se_Source := ''aegis-router-observer'', se_Trust := TrustObserver,
      se_EventType := t, se_ActionClass := ''process.lifecycle'', se_Status := s, se_Details := ds\<rparr>)"
    by (rule append_wrote [OF assms [unfolded observer_event_def RecordLifecycle_def]])
  then show thesis by (intro that) (simp_all add: kind_of_def)
qed

lemma line_trust: "se_Trust (normalizeJSONLine cr line) = TrustSelfReported"
  by (simp add: normalizeJSONLine_def Let_def split: option.split)

lemma stream_wrote:
  assumes "stream cr u ls r = (failed, r')"
  obtains es where "wrote es r r'" "\<forall>e \<in> set es. se_Trust e = TrustSelfReported" "\<not> failed \<longrightarrow> length es = length ls"
proof -
  have "\<exists>es. wrote es r r' \<and> (\<forall>e \<in> set es. se_Trust e = TrustSelfReported) \<and> (\<not> failed \<longrightarrow> length es = length ls)"
    using assms
  proof (induction ls arbitrary: r)
    case Nil
    then show ?case by (intro exI [of _ "[]"]) (simp add: wrote_def)
  next
    case (Cons l ls)
    show ?case
    proof (cases "ol_Echoed l")
      case False
      then show ?thesis using Cons.prems by (intro exI [of _ "[]"]) (simp add: wrote_def)
    next
      case True
      obtain res r1 where a: "Recorder_append (normalizeJSONLine cr (ol_Line l)) (ol_Now l) (ol_Written l) r = (res, r1)"
        by (rule prod.exhaust)
      obtain e where e: "wrote [e] r r1" "kind_of e = kind_of (normalizeJSONLine cr (ol_Line l))"
        by (rule append_wrote [OF a])
      then have t: "se_Trust e = TrustSelfReported" by (simp add: kind_of_def line_trust)
      show ?thesis
      proof (cases res)
        case (Inl x)
        then show ?thesis using Cons.prems a True e t by (intro exI [of _ "[e]"]) (auto simp: RecordJSONLine_def)
      next
        case (Inr x)
        then obtain es where "wrote es r1 r'" "\<forall>e \<in> set es. se_Trust e = TrustSelfReported" "\<not> failed \<longrightarrow> length es = length ls"
          using Cons.IH [of r1] Cons.prems a True by (auto simp: RecordJSONLine_def)
        then show ?thesis using wrote_trans [OF e(1)] t by (intro exI [of _ "e # es"]) auto
      qed
    qed
  qed
  then show thesis using that by blast
qed

end
