(* ===== verification/Inventory_Properties.thy ===== *)
theory Inventory_Properties
  imports Discovery_Facts Commands
begin

text \<open>
  The properties of the inventory (\<open>internal/discovery\<close>), of the session recorder
  (\<open>internal/sessionaudit\<close>) and of the observed command (\<open>cmd/observe\<close>).
\<close>

section \<open>Sample inputs\<close>

text \<open>A lower case for ASCII text.\<close>

definition ascii_lower :: "string \<Rightarrow> string" where
  "ascii_lower s = (if ascii s then map lower_byte s else s)"

definition sample_text :: text_library where
  "sample_text = \<lparr>tx_lower = ascii_lower, tx_equal_fold = (\<lambda>a b. ascii_lower a = ascii_lower b)\<rparr>"

lemma lower_byte_keeps: "is_space (byte (lower_byte c)) = is_space (byte c)"
  "byte (lower_byte c) < 128 \<longleftrightarrow> byte c < 128" "lower_byte (lower_byte c) = lower_byte c"
proof -
  have b: "in_range 65 90 c \<Longrightarrow> byte (lower_byte c) = byte c + 32"
    by (simp add: lower_byte_def in_range_def)
  show "is_space (byte (lower_byte c)) = is_space (byte c)"
    using b by (cases "in_range 65 90 c") (auto simp: is_space_def in_range_def lower_byte_def)
  show "byte (lower_byte c) < 128 \<longleftrightarrow> byte c < 128"
    using b by (cases "in_range 65 90 c") (auto simp: in_range_def lower_byte_def)
  show "lower_byte (lower_byte c) = lower_byte c"
    using b by (cases "in_range 65 90 c") (auto simp: in_range_def lower_byte_def)
qed

lemma ascii_lower_ascii: "ascii (map lower_byte s) = ascii s"
  by (simp add: ascii_def list_all_iff lower_byte_keeps)

lemma trim_ascii:
  assumes "ascii s"
  shows "trim_space s = rev (dropWhile (\<lambda>c. is_space (byte c)) (rev (dropWhile (\<lambda>c. is_space (byte c)) s)))"
  by (simp add: trim_space_def chunks_ascii [OF assms] dropWhile_map rev_map o_def)

lemma trim_lower_byte: "ascii s \<Longrightarrow> trim_space (map lower_byte s) = map lower_byte (trim_space s)"
  by (simp add: trim_ascii ascii_lower_ascii dropWhile_map rev_map o_def lower_byte_keeps)

lemma sample_text_ok: "lower_ok sample_text"
proof -
  have "ascii_lower (ascii_lower s) = ascii_lower s" for s
    by (simp add: ascii_lower_def ascii_lower_ascii o_def lower_byte_keeps)
  moreover have "trim_space (ascii_lower (trim_space s)) = ascii_lower (trim_space s)" for s
    by (simp add: ascii_lower_def trim_lower_byte)
  moreover have "ascii_lower ''active'' = ''active''" "ascii_lower [] = []" by code_simp+
  ultimately show ?thesis by (simp add: lower_ok_def sample_text_def)
qed

text \<open>A configuration of two signatures, and a root with a configured, a registered and an available agent.\<close>

definition mcp_signature :: signature where
  "mcp_signature =
    \<lparr>sg_AgentType = ''mcp'', sg_DisplayName = ''MCP'', sg_FileNames = [''mcp.json''], sg_ContentFiles = [],
     sg_ContentIndicators = []\<rparr>"

definition crew_signature :: signature where
  "crew_signature =
    \<lparr>sg_AgentType = ''crewai'', sg_DisplayName = ''CrewAI'', sg_FileNames = [], sg_ContentFiles = [''go.mod''],
     sg_ContentIndicators = [''crewai'']\<rparr>"

definition sample_entry :: registry_entry where
  "sample_entry =
    \<lparr>rg_ID = ''a1'', rg_AgentID = [], rg_WorkloadID = [], rg_DisplayName = ''desk'', rg_Name = [], rg_AgentType = ''mcp'',
     rg_Environment = [], rg_Framework = [], rg_PolicyProfile = [], rg_Fingerprint = [], rg_PathContains = ''desk'',
     rg_Owner = '' ops'', rg_ApprovalRef = [], rg_ExpiresOn = ''2030-01-01'', rg_State = ''Active''\<rparr>"

definition sample_discovery :: discovery_config where
  "sample_discovery =
    \<lparr>dc_Signatures = [mcp_signature, crew_signature], dc_ApprovedAgents = [normalizeEntry sample_text sample_crypto sample_entry],
     dc_SkipDirectories = [''.git''], dc_MaxFileBytes = 0, dc_MaxFindings = 0\<rparr>"

definition sample_tree :: fs_entry where
  "sample_tree =
    FsDirectory ''home'' None
      [FsDirectory ''.git'' None [FsFile ''mcp.json'' (Inr 10) (Inr [])],
       FsDirectory ''desk'' None [FsFile ''mcp.json'' (Inr 10) (Inr [])],
       FsDirectory ''lab'' (Some ''permission denied'') [FsFile ''mcp.json'' (Inr 10) (Inr [])],
       FsFile ''go.mod'' (Inr 10) (Inr ''uses CrewAI'')]"

definition sample_scan :: "string + scan_report" where
  "sample_scan =
    Scan sample_text sample_crypto (NewScanner sample_discovery) (\<lambda>r. RootTree r sample_tree) 0 (\<lambda>k n. day) [''/home'']"

lemma sample_scan_value: "map_sum (\<lambda>e. e) (\<lambda>r. map (\<lambda>a. (dg_AgentType a, dg_Status a, dg_ApprovalID a)) (sp_Agents r)) sample_scan
  = Inr [(''crewai'', StatusUnassessed, []), (''mcp'', StatusApproved, ''a1''), (''mcp'', StatusShadow, [])]"
  by code_simp

definition sample_report :: scan_report where
  "sample_report = (case sample_scan of Inl e \<Rightarrow> undefined | Inr r \<Rightarrow> r)"

lemma sample_scan_report: "sample_scan = Inr sample_report"
proof (cases sample_scan)
  case (Inl e)
  then show ?thesis using sample_scan_value unfolding Inl by simp
next
  case (Inr r)
  show ?thesis unfolding sample_report_def Inr by (simp only: sum.case)
qed

section \<open>The report of a scan\<close>

text \<open>C34: a report states of an agent exactly what its evidence and the registry support. Every agent has evidence, its confidence
  is the strongest of it, and one whose evidence is only a dependency is available and unassessed, never approved or
  shadow. A deployed agent was seen in a configuration file; it is approved if and only if an entry of the registry
  matches it that is active at the time the clock gave when that entry was looked at, and then carries that entry's
  approval, and it is a shadow agent otherwise.\<close>

theorem scan_report_sound:
  assumes "Scan tx cr (NewScanner cfg) root_of started now roots = Inr report" "a \<in> set (sp_Agents report)"
  shows "dg_Evidence a \<noteq> [] \<and> dg_Confidence a = Max (set (map ed_Confidence (dg_Evidence a)))
    \<and> (dg_DeploymentState a \<noteq> DeploymentAvailable \<longrightarrow> (\<exists>ev \<in> set (dg_Evidence a). ed_Basis ev = ''configuration_file''))
    \<and> (case find (\<lambda>(n, e). entry_matches tx (now (dg_Fingerprint a) n) a e) (enumerate 0 (dc_ApprovedAgents cfg)) of
         Some (n, e) \<Rightarrow>
           if dg_DeploymentState a = DeploymentAvailable then dg_Status a = StatusUnassessed
           else dg_Status a = StatusApproved \<and> dg_ApprovalID a = rg_ID e \<and> dg_Owner a = rg_Owner e
             \<and> approvalIsActive tx e (now (dg_Fingerprint a) n)
       | None \<Rightarrow>
           dg_Status a = (if dg_DeploymentState a = DeploymentAvailable then StatusUnassessed else StatusShadow))"
proof -
  let ?cfg = "NewScanner cfg"
  obtain st :: scan_state where st: "scan_ok ?cfg st"
    "sp_Agents report = map (\<lambda>(k, a). reported tx ?cfg now a) (sort_key fst (ss_findings st))"
    using assms(1) less_imp_le [OF scanner_limits(1)] by (rule scan_report)
  then obtain b where b: "a = reported tx ?cfg now b" "finding_ok b"
    using assms(2) by (auto simp: scan_ok_def)
  have match: "find (\<lambda>(n, e). entry_matches tx (now (dg_Fingerprint a) n) a e) (enumerate 0 (dc_ApprovedAgents cfg))
      = matching_entry tx now b (dc_ApprovedAgents cfg)"
    using matching_entry_reported [of tx now ?cfg now b "dc_ApprovedAgents cfg"]
    unfolding b(1) by (simp add: matching_entry_def)
  have cover: "covering tx ?cfg now b = (if deployed b then matching_entry tx now b (dc_ApprovedAgents cfg) else None)"
    by (simp add: covering_def scanner_limits(3))
  have "dg_Evidence a \<noteq> []" "dg_Confidence a = Max (set (map ed_Confidence (dg_Evidence a)))"
    using b reported_simps(5) [of tx ?cfg now b] by (auto simp: finding_ok_def simp flip: set_empty)
  moreover have "dg_DeploymentState a \<noteq> DeploymentAvailable \<longrightarrow> (\<exists>ev \<in> set (dg_Evidence a). ed_Basis ev = ''configuration_file'')"
    using b by (simp add: finding_ok_def deployed_def)
  moreover have "dg_DeploymentState a = dg_DeploymentState b" "dg_Fingerprint a = dg_Fingerprint b" by (simp_all add: b(1))
  moreover have "dg_Status a = (if dg_DeploymentState b = DeploymentAvailable then StatusUnassessed
      else if covering tx ?cfg now b = None then StatusShadow else StatusApproved)"
    unfolding b(1) using reported_status [OF b(2), of tx ?cfg now] by (simp add: deployed_def)
  moreover have "dg_ApprovalID a = rg_ID e \<and> dg_Owner a = rg_Owner e" if "covering tx ?cfg now b = Some (n, e)" for n e
    unfolding b(1) using that by (rule reported_approval)
  moreover have "approvalIsActive tx e (now (dg_Fingerprint b) n)"
    if "matching_entry tx now b (dc_ApprovedAgents cfg) = Some (n, e)" for n e
    using matching_entry_some [OF that] by (simp add: entry_matches_def)
  ultimately show ?thesis unfolding match cover by (auto simp: deployed_def split: option.split)
qed

theorem scan_report_sound_witness:
  "sp_Agents sample_report \<noteq> [] \<and> dg_Evidence (hd (sp_Agents sample_report)) \<noteq> []"
proof -
  have "map (\<lambda>a. (dg_AgentType a, dg_Status a, dg_ApprovalID a)) (sp_Agents sample_report) \<noteq> []"
    using sample_scan_value unfolding sample_scan_report by (simp del: Nil_is_map_conv)
  then have some: "sp_Agents sample_report \<noteq> []" by fastforce
  then have "hd (sp_Agents sample_report) \<in> set (sp_Agents sample_report)" by (rule hd_in_set)
  from scan_report_sound [OF sample_scan_report [unfolded sample_scan_def] this] some show ?thesis by blast
qed

text \<open>The summary of a report adds up and the report stays within its limits: every agent is approved, shadow or available,
  their numbers are those of the listed agents and sum to the total, the total does not exceed the limit on
  findings, and the gaps listed are all there are, up to fifty.\<close>

theorem scan_summary_adds_up:
  assumes "Scan tx cr (NewScanner cfg) root_of started now roots = Inr report"
  defines "s \<equiv> sp_Summary report"
  shows "sy_Total s = int (length (sp_Agents report)) \<and> sy_Total s = sy_Approved s + sy_Shadow s + sy_Available s
    \<and> sy_Shadow s = int (length (filter (\<lambda>a. dg_Status a = StatusShadow) (sp_Agents report)))
    \<and> sy_Total s \<le> dc_MaxFindings (NewScanner cfg)
    \<and> int (length (sp_Gaps report)) = min 50 (sy_CoverageGaps s)"
proof -
  obtain st :: scan_state where st: "scan_ok (NewScanner cfg) st"
    "sp_Agents report = map (\<lambda>(k, a). reported tx (NewScanner cfg) now a) (sort_key fst (ss_findings st))"
    "sp_Gaps report = ss_gaps st" "sy_CoverageGaps s = ss_gapCount st"
    "sy_Total s = int (length (sp_Agents report))" "sy_Approved s = count_status StatusApproved (sp_Agents report)"
    "sy_Shadow s = count_status StatusShadow (sp_Agents report)"
    "sy_Available s = count_status StatusUnassessed (sp_Agents report)"
    unfolding s_def using assms(1) less_imp_le [OF scanner_limits(1)] by (rule scan_report)
  have "length (sp_Agents report) = length (ss_findings st)" by (simp add: st(2))
  then show ?thesis using st(1,3-8) status_counts [of "sp_Agents report"] by (simp add: scan_ok_def count_status_def)
qed

theorem scan_summary_adds_up_witness:
  "sy_Total (sp_Summary sample_report) =
     sy_Approved (sp_Summary sample_report) + sy_Shadow (sp_Summary sample_report) + sy_Available (sp_Summary sample_report)"
  using scan_summary_adds_up [OF sample_scan_report [unfolded sample_scan_def]] by simp

section \<open>The registry\<close>

text \<open>C35: what a reported success of \<open>SaveApproval\<close> is worth after a restart, whatever calls the manager served before. The
  entry was valid and is in the registry in memory. When the file was written as a whole, a manager started on the same
  files later, with any readable configuration, has exactly that registry. When the write was cut off, which the code
  drops and answers with the same success, no manager starts on these files any more.\<close>

theorem approval_survives_restart:
  assumes "lower_ok tx" "NewManager tx cr config x path fl roots = Inr m0"
    and "SaveApproval tx cr entry written y (fold (manager_step tx cr) calls m0) = (Inr (saved, report), m)"
    and "LoadConfig config' = Inr cfg"
  shows "ValidateRegistryEntry tx entry (AgentTypes (fold (manager_step tx cr) calls m0)) = None
    \<and> saved \<in> set (dm_registry m)
    \<and> (written = RegistryWritten \<and>
         (\<exists>m'. NewManager tx cr config' x' (dm_registryPath m) (dm_file m) roots' = Inr m' \<and> dm_registry m' = dm_registry m)
       \<or> written = RegistryCut \<and>
         NewManager tx cr config' x' (dm_registryPath m) (dm_file m) roots' =
           Inl (RegistryError (plain ''parse approval registry'')))"
proof -
  let ?m = "fold (manager_step tx cr) calls m0"
  have ok: "manager_ok tx cr ?m"
    using assms(2) by (intro manager_run_ok [OF assms(1)] rescan_ok [OF assms(1)]) (auto simp: NewManager_def)
  note saved = SaveApproval_saved [OF assms(3) assms(1) ok]
  have "manager_ok tx cr m" using SaveApproval_ok [OF assms(1) ok, of entry written y] assms(3) by simp
  then have normal: "list_all (normal_entry tx cr) (dm_registry m)" by (simp add: manager_ok_def)
  have "ValidateRegistryEntry tx entry (AgentTypes ?m) = None"
    using assms(3) by (auto simp: SaveApproval_def split: option.splits)
  then show ?thesis
    using saved(2,6,7) NewManager_registry [OF assms(4) saved(4) normal] NewManager_unparsable [OF assms(4) saved(4)]
    by (cases written) simp_all
qed

definition sample_scan_inputs :: scan_inputs where
  "sample_scan_inputs = \<lparr>sn_root_of = (\<lambda>r. RootTree r sample_tree), sn_started = 0, sn_readings = (\<lambda>k n. day), sn_now = day\<rparr>"

definition sample_manager :: discovery_manager where
  "sample_manager = (case NewManager sample_text sample_crypto (ConfigContent sample_discovery []) sample_scan_inputs
     ''registry.json'' RegistryMissing [] of Inl e \<Rightarrow> undefined | Inr m \<Rightarrow> m)"

lemma sample_approval_saved:
  assumes "w \<noteq> RegistryWriteFailed"
  obtains saved report m where
    "SaveApproval sample_text sample_crypto sample_entry w sample_scan_inputs sample_manager = (Inr (saved, report), m)"
proof -
  have "\<not> isl (fst (SaveApproval sample_text sample_crypto sample_entry RegistryWritten sample_scan_inputs sample_manager))"
    "\<not> isl (fst (SaveApproval sample_text sample_crypto sample_entry RegistryCut sample_scan_inputs sample_manager))"
    by code_simp+
  then have "\<not> isl (fst (SaveApproval sample_text sample_crypto sample_entry w sample_scan_inputs sample_manager))"
    using assms by (cases w) simp_all
  then show thesis using that
    by (cases "SaveApproval sample_text sample_crypto sample_entry w sample_scan_inputs sample_manager";
        cases "fst (SaveApproval sample_text sample_crypto sample_entry w sample_scan_inputs sample_manager)") auto
qed

text \<open>The same success with the file written as a whole and with it cut off.\<close>

theorem approval_survives_restart_witness:
  "(\<exists>saved report m m'. SaveApproval sample_text sample_crypto sample_entry RegistryWritten sample_scan_inputs sample_manager
       = (Inr (saved, report), m)
     \<and> NewManager sample_text sample_crypto (ConfigContent sample_discovery []) sample_scan_inputs (dm_registryPath m) (dm_file m) []
       = Inr m' \<and> saved \<in> set (dm_registry m'))
   \<and> (\<exists>saved report m. SaveApproval sample_text sample_crypto sample_entry RegistryCut sample_scan_inputs sample_manager
       = (Inr (saved, report), m)
     \<and> NewManager sample_text sample_crypto (ConfigContent sample_discovery []) sample_scan_inputs (dm_registryPath m) (dm_file m) []
       = Inl (RegistryError (plain ''parse approval registry'')))"
proof -
  have new: "NewManager sample_text sample_crypto (ConfigContent sample_discovery []) sample_scan_inputs
     ''registry.json'' RegistryMissing [] = Inr sample_manager"
    unfolding sample_manager_def by code_simp
  have "\<exists>cfg. LoadConfig (ConfigContent sample_discovery []) = Inr cfg"
    by (simp add: LoadConfig_def sample_discovery_def Let_def)
  then obtain cfg where load: "LoadConfig (ConfigContent sample_discovery []) = Inr cfg" by blast
  obtain saved report m where w:
    "SaveApproval sample_text sample_crypto sample_entry RegistryWritten sample_scan_inputs sample_manager = (Inr (saved, report), m)"
    by (rule sample_approval_saved [of RegistryWritten]) simp_all
  obtain saved' report' m' where c:
    "SaveApproval sample_text sample_crypto sample_entry RegistryCut sample_scan_inputs sample_manager = (Inr (saved', report'), m')"
    by (rule sample_approval_saved [of RegistryCut]) simp_all
  note survives = approval_survives_restart [OF sample_text_ok new _ load, of _ _ sample_scan_inputs "[]", unfolded fold_simps(1) id_apply]
  show ?thesis
  proof
    show "\<exists>saved report m m'. SaveApproval sample_text sample_crypto sample_entry RegistryWritten sample_scan_inputs sample_manager
         = (Inr (saved, report), m)
       \<and> NewManager sample_text sample_crypto (ConfigContent sample_discovery []) sample_scan_inputs (dm_registryPath m) (dm_file m) []
         = Inr m' \<and> saved \<in> set (dm_registry m')"
      using w survives [OF w, of sample_scan_inputs "[]"] by fastforce
    show "\<exists>saved report m. SaveApproval sample_text sample_crypto sample_entry RegistryCut sample_scan_inputs sample_manager
         = (Inr (saved, report), m)
       \<and> NewManager sample_text sample_crypto (ConfigContent sample_discovery []) sample_scan_inputs (dm_registryPath m) (dm_file m) []
         = Inl (RegistryError (plain ''parse approval registry''))"
      using c survives [OF c, of sample_scan_inputs "[]"] by fastforce
  qed
qed

text \<open>
  The check that a path fragment is relative looks at the text before it is trimmed: an entry whose fragment has a
  space in front of an absolute path is accepted, and stored and answered with the absolute path.
\<close>

lemma padded_absolute_path_accepted:
  "ValidateRegistryEntry sample_text (sample_entry\<lparr>rg_PathContains := '' /home/ops''\<rparr>) [''mcp''] = None
   \<and> ValidateRegistryEntry sample_text (sample_entry\<lparr>rg_PathContains := ''/home/ops''\<rparr>) [''mcp''] \<noteq> None
   \<and> rg_PathContains (normalizeEntry sample_text sample_crypto (sample_entry\<lparr>rg_PathContains := '' /home/ops''\<rparr>)) = ''/home/ops''"
  by code_simp

section \<open>The session recorder\<close>

text \<open>C37: the log of a session has no gap: after any calls of a new recorder, the file holds the lines it had before, and after
  them the events of this session numbered from one without a gap. A failed write can leave one damaged line, which is
  the last one: nothing is written after it.\<close>

theorem session_log_numbered:
  assumes "NewRecorder path session (Some ls) = Inr r0" "length calls < 2 ^ 62"
    and "r = fold (recorder_step cr) calls r0"
  shows "\<exists>es rest. rr_file r = ls @ map SessionLine es @ option_list rest
    \<and> map se_Sequence es = map int [1..<Suc (length es)]
    \<and> (\<forall>e \<in> set es. se_SessionID e = session) \<and> length es \<le> length calls
    \<and> (\<not> rr_failed r \<longrightarrow> rest = None \<and> rr_sequence r = int (length es))"
proof -
  have r0: "recorder_ok ls 0 r0" "rr_sessionID r0 = session"
    using assms(1) by (auto simp: NewRecorder_def recorder_ok_def option_list_def split: if_splits intro: exI [of _ None])
  have "recorder_ok ls (length calls) r" "rr_sessionID r = session"
    using recorder_run_ok [OF r0(1), of calls cr] r0(2) assms(2,3) by simp_all
  then show ?thesis unfolding recorder_ok_def by metis
qed

theorem session_log_numbered_witness:
  "\<exists>es rest. rr_file (fold (recorder_step sample_crypto)
        [OpLifecycle ''started'' ''ok'' [] 1 LineWritten, OpLine ''{\"type\":\"error\"}'' 2 LineWritten, OpLine ''x'' 3 (LineFailed None),
         OpLine ''y'' 4 LineWritten]
        \<lparr>rr_file = [BadLine], rr_failed = False, rr_sessionID = ''s'', rr_sequence = 0\<rparr>)
      = [BadLine] @ map SessionLine es @ option_list rest \<and> map se_Sequence es = map int [1..<Suc (length es)]"
proof -
  have "NewRecorder ''log'' ''s'' (Some [BadLine])
      = Inr \<lparr>rr_file = [BadLine], rr_failed = False, rr_sessionID = ''s'', rr_sequence = 0\<rparr>"
    by code_simp
  from session_log_numbered [OF this, of
      "[OpLifecycle ''started'' ''ok'' [] 1 LineWritten, OpLine ''{\"type\":\"error\"}'' 2 LineWritten, OpLine ''x'' 3 (LineFailed None),
         OpLine ''y'' 4 LineWritten]",
      OF _ refl, of sample_crypto]
  show ?thesis by auto
qed

text \<open>C38: what an agent emits leaves only its metadata: two lines that agree on the members named \<open>type\<close> and \<open>thread_id\<close>
  and, of their \<open>item\<close>, on \<open>id\<close>, \<open>type\<close>, \<open>status\<close> and \<open>exit_code\<close> leave the same event up to the digest of the line, whatever
  commands, arguments or output they carry in other members. The event is marked as reported by the agent itself.\<close>

theorem session_payload_private:
  assumes "read_document False line = Inr v" "read_document False line' = Inr v'"
    and "session_metadata v = session_metadata v'"
  shows "normalizeJSONLine cr line' = (normalizeJSONLine cr line)\<lparr>se_PayloadSHA256 := hex_encode (cr_sha256 cr line')\<rparr>
    \<and> se_Trust (normalizeJSONLine cr line) = TrustSelfReported"
proof -
  have "decode_incoming line = decode_incoming line'"
    using assms decode_session_metadata [of empty_incoming v] decode_session_metadata [of empty_incoming v']
    by (simp add: decode_incoming_def)
  then show ?thesis by (simp add: normalizeJSONLine_def zero_session_event_def Let_def split: option.split)
qed

theorem session_payload_private_witness:
  "normalizeJSONLine sample_crypto ''{\"type\":\"x\",\"item\":{\"id\":\"1\",\"command\":\"rm -r\"},\"y\":2}''
   = (normalizeJSONLine sample_crypto ''{\"type\":\"x\",\"item\":{\"id\":\"1\",\"command\":\"ls\"}}'')
      \<lparr>se_PayloadSHA256 := hex_encode (cr_sha256 sample_crypto ''{\"type\":\"x\",\"item\":{\"id\":\"1\",\"command\":\"rm -r\"},\"y\":2}'')\<rparr>"
proof -
  let ?a = "JObj [(''type'', JStr ''x''), (''item'', JObj [(''id'', JStr ''1''), (''command'', JStr ''ls'')])]"
  let ?b = "JObj [(''type'', JStr ''x''), (''item'', JObj [(''id'', JStr ''1''), (''command'', JStr ''rm -r'')]), (''y'', JNum ''2'')]"
  have "read_document False ''{\"type\":\"x\",\"item\":{\"id\":\"1\",\"command\":\"ls\"}}'' = Inr ?a"
    "read_document False ''{\"type\":\"x\",\"item\":{\"id\":\"1\",\"command\":\"rm -r\"},\"y\":2}'' = Inr ?b"
    "session_metadata ?a = session_metadata ?b" by code_simp+
  then show ?thesis by (rule session_payload_private [THEN conjunct1])
qed

text \<open>The recent events are the last ones of the log, newest first, as many as asked for: the window over the lines is a
  plain suffix. A line that cannot be read fails the whole call.\<close>

theorem recent_sessions_suffix:
  "Recent_Sessions path limit (SessionFile (map SessionLine es)) =
     Inr (if trim_space path = [] \<or> limit < 1 then [] else take (nat limit) (rev es))"
  using recent_window_run [of "[]" "nat limit" es] by (simp add: Recent_Sessions_def)

section \<open>The observed command\<close>

text \<open>What the observer itself has to say of a command, from how its process went.\<close>

definition lifecycle_kinds :: "crypto \<Rightarrow> string \<Rightarrow> string list \<Rightarrow> observe_inputs \<Rightarrow> (string \<times> string \<times> string list) list" where
  "lifecycle_kinds cr program arguments x =
    (TrustObserver, ''process.starting'', [''executable='' @ path_base program, ''arguments_sha256='' @ HashArguments cr arguments])
    # (case ob_child x of
         ChildPipeFailed \<Rightarrow> []
       | ChildNotStarted err \<Rightarrow> [(TrustObserver, ''process.start_failed'', [''error='' @ err])]
       | ChildStarted pid \<Rightarrow>
           [(TrustObserver, ''process.started'', [''pid='' @ show_int pid]),
            (TrustObserver, ''process.exited'', [''exit_code='' @ show_int (snd (exit_status (ob_exit x)))])])"

definition observed :: "session_event \<Rightarrow> bool" where
  "observed e \<longleftrightarrow> se_Trust e = TrustObserver"

lemma not_observed: "\<forall>e \<in> set es. se_Trust e = TrustSelfReported \<Longrightarrow> filter observed es = [] \<and> filter (\<lambda>e. \<not> observed e) es = es"
  by (induction es) (auto simp: observed_def TrustObserver_def TrustSelfReported_def)

lemma kind_observed: "kind_of e = (TrustObserver, t, ds) \<Longrightarrow> observed e"
  by (simp add: kind_of_def observed_def)

lemma observe_child_wrote:
  assumes "observe_child cr pid x r = (code, r')"
  obtains es where "wrote es r r'"
    "map kind_of (filter observed es) = [(TrustObserver, ''process.started'', [''pid='' @ show_int pid]),
       (TrustObserver, ''process.exited'', [''exit_code='' @ show_int (snd (exit_status (ob_exit x)))])]"
    "code = 0 \<longrightarrow> length (filter (\<lambda>e. \<not> observed e) es) = length (ob_output x)"
proof -
  obtain status exitCode where st: "exit_status (ob_exit x) = (status, exitCode)" by (rule prod.exhaust)
  obtain res1 r1 where l1: "observer_event ''process.started'' ''running'' [''pid='' @ show_int pid] (ob_started x) r = (res1, r1)"
    by (rule prod.exhaust)
  obtain failed r2 where l2: "stream cr (ob_unreadable x) (ob_output x) r1 = (failed, r2)" by (rule prod.exhaust)
  obtain res3 r3 where l3: "observer_event ''process.exited'' status [''exit_code='' @ show_int exitCode] (ob_exited x) r2 = (res3, r3)"
    by (rule prod.exhaust)
  have out: "r' = r3" "code = (if failed \<or> isl res3 then 1 else exitCode)"
    using assms [unfolded observe_child_def Let_def l1 snd_conv l2 prod.case st l3] by auto
  obtain e1 where e1: "wrote [e1] r r1" "kind_of e1 = (TrustObserver, ''process.started'', [''pid='' @ show_int pid])"
    by (rule observer_event_wrote [OF l1])
  obtain es where es: "wrote es r1 r2" "\<forall>e \<in> set es. se_Trust e = TrustSelfReported"
    "\<not> failed \<longrightarrow> length es = length (ob_output x)" by (rule stream_wrote [OF l2])
  obtain e3 where e3: "wrote [e3] r2 r3" "kind_of e3 = (TrustObserver, ''process.exited'', [''exit_code='' @ show_int exitCode])"
    by (rule observer_event_wrote [OF l3])
  have w: "wrote ([e1] @ es @ [e3]) r r'"
    unfolding out(1) by (rule wrote_trans [OF e1(1) wrote_trans [OF es(1) e3(1)]])
  show thesis
    by (rule that [OF w]) (use e1(2) e3(2) es(2,3) kind_observed [OF e1(2)] kind_observed [OF e3(2)] not_observed [OF es(2)] in
      \<open>auto simp: st out(2)\<close>)
qed

text \<open>C36: the mark of the observer in a session log is the observer's own. While no write fails, a run appends to the log exactly
  one event of the observer for each step of the process, with the digest of the arguments, the process number and the
  exit code, and everything the command itself emits is marked as its own report. When the answer is zero, the process
  was started and every line of its output is in the log.\<close>

theorem observer_mark_is_own:
  assumes "observe cr path session (program # arguments) x = (code, Some r)" "ob_file x = Some ls" "\<not> rr_failed r"
  shows "\<exists>es. rr_file r = ls @ map SessionLine es
    \<and> map kind_of (filter observed es) = lifecycle_kinds cr program arguments x
    \<and> (code = 0 \<longrightarrow> (\<exists>pid. ob_child x = ChildStarted pid)
         \<and> length (filter (\<lambda>e. \<not> observed e) es) = length (ob_output x))"
proof -
  obtain r0 where r0: "NewRecorder path session (Some ls) = Inr r0" "rr_file r0 = ls"
    using assms(1,2) by (auto simp: observe_def NewRecorder_def split: if_splits)
  define ds where "ds = [''executable='' @ path_base program, ''arguments_sha256='' @ HashArguments cr arguments]"
  obtain res r1 where l1: "observer_event ''process.starting'' ''starting'' ds (ob_starting x) r0 = (res, r1)" by (rule prod.exhaust)
  obtain e1 where e1: "wrote [e1] r0 r1" "kind_of e1 = (TrustObserver, ''process.starting'', ds)" by (rule observer_event_wrote [OF l1])
  note start = assms(1) [unfolded observe_def list.case assms(2) r0(1) sum.case ds_def [symmetric] l1 prod.case]
  obtain ev where res: "res = Inr ev"
  proof (cases res)
    case (Inl e)
    have "rr_failed r1" by (rule append_failed [OF l1 [unfolded observer_event_def RecordLifecycle_def Inl]])
    then show thesis using start assms(3) Inl by simp
  qed
  note run = start [unfolded res sum.case]
  obtain es where es: "wrote es r1 r" "map kind_of (filter observed es) = tl (lifecycle_kinds cr program arguments x)"
    "code = 0 \<longrightarrow> (\<exists>pid. ob_child x = ChildStarted pid) \<and> length (filter (\<lambda>e. \<not> observed e) es) = length (ob_output x)"
  proof (cases "ob_child x")
    case ChildPipeFailed
    then show thesis using that [of "[]"] run by (simp add: wrote_def lifecycle_kinds_def)
  next
    case (ChildNotStarted err)
    obtain res2 r2 where l2: "observer_event ''process.start_failed'' ''failed'' [''error='' @ err] (ob_started x) r1 = (res2, r2)"
      by (rule prod.exhaust)
    obtain e2 where e2: "wrote [e2] r1 r2" "kind_of e2 = (TrustObserver, ''process.start_failed'', [''error='' @ err])"
      by (rule observer_event_wrote [OF l2])
    show thesis using that [of "[e2]"] run e2 kind_observed [OF e2(2)] l2
      by (simp add: ChildNotStarted lifecycle_kinds_def)
  next
    case (ChildStarted pid)
    then have "observe_child cr pid x r1 = (code, r)" using run by (auto simp: map_prod_def split: prod.splits)
    then obtain es where "wrote es r1 r"
      "map kind_of (filter observed es) = [(TrustObserver, ''process.started'', [''pid='' @ show_int pid]),
         (TrustObserver, ''process.exited'', [''exit_code='' @ show_int (snd (exit_status (ob_exit x)))])]"
      "code = 0 \<longrightarrow> length (filter (\<lambda>e. \<not> observed e) es) = length (ob_output x)"
      by (rule observe_child_wrote)
    then show thesis using that [of es] by (simp add: ChildStarted lifecycle_kinds_def)
  qed
  have "rr_file r = ls @ map SessionLine (e1 # es)"
    using wrote_trans [OF e1(1) es(1)] assms(3) r0(2) by (simp add: wrote_def)
  moreover have "map kind_of (filter observed (e1 # es)) = lifecycle_kinds cr program arguments x"
    using e1(2) kind_observed [OF e1(2)] es(2) by (simp add: lifecycle_kinds_def ds_def)
  ultimately show ?thesis using es(3) kind_observed [OF e1(2)] by (intro exI [of _ "e1 # es"]) simp
qed

definition sample_observation :: observe_inputs where
  "sample_observation =
    \<lparr>ob_file = Some [], ob_child = ChildStarted 42,
     ob_output = [\<lparr>ol_Line = ''{\"trust\":\"local_observer\",\"type\":\"process.exited\"}'', ol_Echoed = True, ol_Now = 2, ol_Written = LineWritten\<rparr>],
     ob_unreadable = False, ob_exit = ChildDone, ob_starting = (0, LineWritten), ob_started = (1, LineWritten),
     ob_exited = (3, LineWritten)\<rparr>"

theorem observer_mark_is_own_witness:
  "\<exists>es r. observe sample_crypto ''log'' ''s'' [''/bin/agent'', ''run''] sample_observation = (0, Some r)
     \<and> rr_file r = map SessionLine es \<and> length (filter observed es) = 3"
proof -
  let ?run = "observe sample_crypto ''log'' ''s'' [''/bin/agent'', ''run''] sample_observation"
  have v: "map_prod id (map_option rr_failed) ?run = (0, Some False)" by code_simp
  obtain code out where "?run = (code, out)" by (rule prod.exhaust)
  then obtain r where r: "?run = (0, Some r)" "\<not> rr_failed r" using v by auto
  have "ob_file sample_observation = Some []" by (simp add: sample_observation_def)
  from observer_mark_is_own [OF r(1) this r(2)] obtain es where es: "rr_file r = map SessionLine es"
    "map kind_of (filter observed es) = lifecycle_kinds sample_crypto ''/bin/agent'' [''run''] sample_observation" by auto
  have "length (filter observed es) = length (map kind_of (filter observed es))" by simp
  also have "\<dots> = 3" unfolding es(2) by (simp add: lifecycle_kinds_def sample_observation_def)
  finally show ?thesis using r(1) es(1) by blast
qed

end
