(* ===== verification/Api_Wire.thy ===== *)
theory Api_Wire
  imports Mcp_Proxy Discovery
begin

text \<open>
  The bodies of the HTTP requests (\<open>decodeJSON\<close> of \<open>internal/httpapi/server.go\<close>) and of the scenario files: the JSON tags of
  \<open>internal/models/models.go\<close> and the decoding of \<open>encoding/json\<close> into these structs.

  The decoder works on the text of each member, because the arguments of an action are kept as text. How
  \<open>time.Time\<close> reads its text is a parameter. A repeated array member replaces the earlier one.
\<close>

section \<open>Decoding from the text\<close>

type_synonym 'r raw_field = "string \<times> ('r \<Rightarrow> string \<Rightarrow> 'r option)"

record wire_library =
  wl_parse_time :: "string \<Rightarrow> time option"

definition find_raw :: "'r raw_field list \<Rightarrow> string \<Rightarrow> ('r \<Rightarrow> string \<Rightarrow> 'r option) option" where
  "find_raw fs k =
    (case map_of fs k of
       Some assign \<Rightarrow> Some assign
     | None \<Rightarrow> map_option snd (find (\<lambda>f. fold_name (fst f) = fold_name k) fs))"

fun decode_raw :: "bool \<Rightarrow> 'r raw_field list \<Rightarrow> 'r \<Rightarrow> (string \<times> string) list \<Rightarrow> 'r option" where
  "decode_raw disallow fs r [] = Some r"
| "decode_raw disallow fs r ((k, raw) # ms) =
    (case find_raw fs k of
       None \<Rightarrow> if disallow then None else decode_raw disallow fs r ms
     | Some assign \<Rightarrow>
         (case assign r raw of None \<Rightarrow> None | Some r' \<Rightarrow> decode_raw disallow fs r' ms))"

definition raw_struct :: "bool \<Rightarrow> 'r raw_field list \<Rightarrow> 'r \<Rightarrow> string \<Rightarrow> 'r option" where
  "raw_struct disallow fs r raw =
    (case unmarshal_raw_map raw of
       RawError \<Rightarrow> None | RawNil \<Rightarrow> Some r | RawMembers ms \<Rightarrow> decode_raw disallow fs r ms)"

definition of_value :: "('r \<Rightarrow> json \<Rightarrow> 'r option) \<Rightarrow> 'r \<Rightarrow> string \<Rightarrow> 'r option" where
  "of_value assign r raw = (case read_document False raw of Inl e \<Rightarrow> None | Inr v \<Rightarrow> assign r v)"

definition is_null :: "string \<Rightarrow> bool" where
  "is_null raw \<longleftrightarrow> read_document False raw = Inr JNull"

abbreviation raw_string :: "(string \<Rightarrow> 'r \<Rightarrow> 'r) \<Rightarrow> 'r \<Rightarrow> string \<Rightarrow> 'r option" where
  "raw_string upd \<equiv> of_value (set_string upd)"

text \<open>A slice of strings, where \<open>null\<close> is an empty text, and a map of strings.\<close>

definition string_element :: "json \<Rightarrow> string option" where
  "string_element v = (case v of JStr s \<Rightarrow> Some s | JNull \<Rightarrow> Some [] | _ \<Rightarrow> None)"

definition set_strings :: "(string list \<Rightarrow> 'r \<Rightarrow> 'r) \<Rightarrow> 'r \<Rightarrow> json \<Rightarrow> 'r option" where
  "set_strings upd r v =
    (case v of
       JArr xs \<Rightarrow> if list_all (\<lambda>x. string_element x \<noteq> None) xs then Some (upd (map (the \<circ> string_element) xs) r) else None
     | JNull \<Rightarrow> Some (upd [] r) | _ \<Rightarrow> None)"

definition set_string_map ::
  "('r \<Rightarrow> (string, string) gomap) \<Rightarrow> ((string, string) gomap \<Rightarrow> 'r \<Rightarrow> 'r) \<Rightarrow> 'r \<Rightarrow> json \<Rightarrow> 'r option" where
  "set_string_map get upd r v =
    (case v of
       JObj ms \<Rightarrow>
         if list_all (\<lambda>(k, x). string_element x \<noteq> None) ms
         then Some (upd (fold (\<lambda>(k, x). mput k (the (string_element x))) ms (get r)) r) else None
     | JNull \<Rightarrow> Some (upd [] r) | _ \<Rightarrow> None)"

definition set_route :: "(route \<Rightarrow> 'r \<Rightarrow> 'r) \<Rightarrow> 'r \<Rightarrow> json \<Rightarrow> 'r option" where
  "set_route upd = set_string (\<lambda>s.
     upd (if s = [] then RouteNone else if s = ''allow'' then RouteAllow else if s = ''restrict'' then RouteRestrict
          else if s = ''sandbox'' then RouteSandbox else if s = ''deny'' then RouteDeny
          else if s = ''escalate'' then RouteEscalate else RouteOther s))"

definition set_source :: "(runtime_source \<Rightarrow> 'r \<Rightarrow> 'r) \<Rightarrow> 'r \<Rightarrow> json \<Rightarrow> 'r option" where
  "set_source upd = set_string (\<lambda>s.
     upd (case find (\<lambda>x. source_text x = s)
            [SourceGatewayEnforced, SourceInstrumentedAdapter, SourceAgentSelfReported, SourceOSSensor, SourceNetworkSensor,
             SourceSimulatedDemo] of Some x \<Rightarrow> x | None \<Rightarrow> SourceOther s))"

definition set_trust :: "(runtime_trust \<Rightarrow> 'r \<Rightarrow> 'r) \<Rightarrow> 'r \<Rightarrow> json \<Rightarrow> 'r option" where
  "set_trust upd = set_string (\<lambda>s.
     upd (case find (\<lambda>x. trust_text x = s)
            [TrustEnforced, TrustAdapterReported, TrustSelfReported, TrustIndependentSensor, TrustSimulated]
          of Some x \<Rightarrow> x | None \<Rightarrow> TrustOther s))"

definition raw_message :: "(string \<Rightarrow> 'r \<Rightarrow> 'r) \<Rightarrow> 'r \<Rightarrow> string \<Rightarrow> 'r option" where
  "raw_message upd r raw = Some (upd raw r)"

definition raw_time :: "wire_library \<Rightarrow> (time \<Rightarrow> 'r \<Rightarrow> 'r) \<Rightarrow> 'r \<Rightarrow> string \<Rightarrow> 'r option" where
  "raw_time wl upd r raw = (if is_null raw then Some r else map_option (\<lambda>t. upd t r) (wl_parse_time wl raw))"

definition raw_time_pointer :: "wire_library \<Rightarrow> (time option \<Rightarrow> 'r \<Rightarrow> 'r) \<Rightarrow> 'r \<Rightarrow> string \<Rightarrow> 'r option" where
  "raw_time_pointer wl upd r raw =
    (if is_null raw then Some (upd None r) else map_option (\<lambda>t. upd (Some t) r) (wl_parse_time wl raw))"

text \<open>A nested struct, a pointer to one, and a slice of them.\<close>

definition raw_nested :: "bool \<Rightarrow> 's raw_field list \<Rightarrow> ('r \<Rightarrow> 's) \<Rightarrow> ('s \<Rightarrow> 'r \<Rightarrow> 'r) \<Rightarrow> 'r \<Rightarrow> string \<Rightarrow> 'r option" where
  "raw_nested disallow fs get upd r raw = map_option (\<lambda>s. upd s r) (raw_struct disallow fs (get r) raw)"

definition raw_pointer ::
  "bool \<Rightarrow> 's raw_field list \<Rightarrow> 's \<Rightarrow> ('r \<Rightarrow> 's option) \<Rightarrow> ('s option \<Rightarrow> 'r \<Rightarrow> 'r) \<Rightarrow> 'r \<Rightarrow> string \<Rightarrow> 'r option" where
  "raw_pointer disallow fs zero get upd r raw =
    (if is_null raw then Some (upd None r)
     else map_option (\<lambda>s. upd (Some s) r) (raw_struct disallow fs (case get r of None \<Rightarrow> zero | Some s \<Rightarrow> s) raw))"

fun raw_elements :: "nat \<Rightarrow> bool \<Rightarrow> string list \<Rightarrow> string \<Rightarrow> string list option" where
  "raw_elements 0 first acc s = None"
| "raw_elements (Suc fuel) first acc s =
    (case next_element first s of
       Inl e \<Rightarrow> None
     | Inr (another, r) \<Rightarrow>
         if \<not> another then (if skip_ws r = [] then Some acc else None)
         else let text = skip_ws r
           in case read_value False (reader_fuel text) 0 text of
                Inl e \<Rightarrow> None
              | Inr (v, r2) \<Rightarrow> raw_elements fuel False (acc @ [take (length text - length r2) text]) r2)"

definition raw_structs :: "bool \<Rightarrow> 's raw_field list \<Rightarrow> 's \<Rightarrow> ('s list \<Rightarrow> 'r \<Rightarrow> 'r) \<Rightarrow> 'r \<Rightarrow> string \<Rightarrow> 'r option" where
  "raw_structs disallow fs zero upd r raw =
    (if is_null raw then Some (upd [] r)
     else case skip_ws raw of
       c # cs \<Rightarrow>
         if c = CHR ''['' then
           (case raw_elements (length cs + 1) True [] cs of
              None \<Rightarrow> None
            | Some xs \<Rightarrow>
                let decoded = map (raw_struct disallow fs zero) xs
                in if list_all (\<lambda>d. d \<noteq> None) decoded then Some (upd (map the decoded) r) else None)
         else None
     | [] \<Rightarrow> None)"

section \<open>The structs\<close>

definition principal_fields :: "principal_context raw_field list" where
  "principal_fields =
    [(''principal_id'', raw_string (\<lambda>s r. r\<lparr>pn_PrincipalID := s\<rparr>)),
     (''principal_type'', raw_string (\<lambda>s r. r\<lparr>pn_PrincipalType := s\<rparr>)),
     (''tenant'', raw_string (\<lambda>s r. r\<lparr>pn_Tenant := s\<rparr>)), (''environment'', raw_string (\<lambda>s r. r\<lparr>pn_Environment := s\<rparr>)),
     (''metadata'', of_value (set_string_map pn_Metadata (\<lambda>m r. r\<lparr>pn_Metadata := m\<rparr>)))]"

definition agent_fields :: "agent_identity raw_field list" where
  "agent_fields =
    [(''agent_id'', raw_string (\<lambda>s r. r\<lparr>ai_AgentID := s\<rparr>)), (''workload_id'', raw_string (\<lambda>s r. r\<lparr>ai_WorkloadID := s\<rparr>)),
     (''owner'', raw_string (\<lambda>s r. r\<lparr>ai_Owner := s\<rparr>)), (''environment'', raw_string (\<lambda>s r. r\<lparr>ai_Environment := s\<rparr>)),
     (''framework'', raw_string (\<lambda>s r. r\<lparr>ai_Framework := s\<rparr>)), (''version'', raw_string (\<lambda>s r. r\<lparr>ai_Version := s\<rparr>))]"

definition authority_fields :: "wire_library \<Rightarrow> delegated_authority raw_field list" where
  "authority_fields wl =
    [(''credential_fingerprint'', raw_string (\<lambda>s r. r\<lparr>da_CredentialFingerprint := s\<rparr>)),
     (''issuer'', raw_string (\<lambda>s r. r\<lparr>da_Issuer := s\<rparr>)), (''scopes'', of_value (set_strings (\<lambda>x r. r\<lparr>da_Scopes := x\<rparr>))),
     (''subject'', raw_string (\<lambda>s r. r\<lparr>da_Subject := s\<rparr>)),
     (''expires_at'', raw_time_pointer wl (\<lambda>t r. r\<lparr>da_ExpiresAt := t\<rparr>))]"

definition tool_fields :: "tool_context raw_field list" where
  "tool_fields =
    [(''tool_id'', raw_string (\<lambda>s r. r\<lparr>tc_ToolID := s\<rparr>)), (''name'', raw_string (\<lambda>s r. r\<lparr>tc_Name := s\<rparr>)),
     (''provider'', raw_string (\<lambda>s r. r\<lparr>tc_Provider := s\<rparr>)), (''schema_sha256'', raw_string (\<lambda>s r. r\<lparr>tc_SchemaSHA256 := s\<rparr>)),
     (''expected_schema_sha256'', raw_string (\<lambda>s r. r\<lparr>tc_ExpectedSchemaSHA256 := s\<rparr>))]"

definition destination_fields :: "destination raw_field list" where
  "destination_fields =
    [(''kind'', raw_string (\<lambda>s r. r\<lparr>ds_Kind := s\<rparr>)), (''trust_boundary'', raw_string (\<lambda>s r. r\<lparr>ds_TrustBoundary := s\<rparr>)),
     (''external'', of_value (set_bool (\<lambda>b r. r\<lparr>ds_External := b\<rparr>)))]"

definition zero_destination :: destination where
  "zero_destination = \<lparr>ds_Kind = [], ds_TrustBoundary = [], ds_External = False\<rparr>"

definition action_request_fields :: "bool \<Rightarrow> action_request raw_field list" where
  "action_request_fields disallow =
    [(''capability'', raw_string (\<lambda>s r. r\<lparr>aq_Capability := s\<rparr>)), (''operation'', raw_string (\<lambda>s r. r\<lparr>aq_Operation := s\<rparr>)),
     (''target_resource'', raw_string (\<lambda>s r. r\<lparr>aq_TargetResource := s\<rparr>)),
     (''profile_id'', raw_string (\<lambda>s r. r\<lparr>aq_ProfileID := s\<rparr>)), (''audience'', raw_string (\<lambda>s r. r\<lparr>aq_Audience := s\<rparr>)),
     (''arguments'', raw_message (\<lambda>s r. r\<lparr>aq_Arguments := s\<rparr>)), (''side_effect'', raw_string (\<lambda>s r. r\<lparr>aq_SideEffect := s\<rparr>)),
     (''destination'', raw_pointer disallow destination_fields zero_destination aq_Destination (\<lambda>d r. r\<lparr>aq_Destination := d\<rparr>)),
     (''bytes'', of_value (set_int64 (\<lambda>n r. r\<lparr>aq_Bytes := n\<rparr>)))]"

definition input_source_fields :: "input_source raw_field list" where
  "input_source_fields =
    [(''event_id'', raw_string (\<lambda>s r. r\<lparr>in_EventID := s\<rparr>)), (''kind'', raw_string (\<lambda>s r. r\<lparr>in_Kind := s\<rparr>)),
     (''trust'', raw_string (\<lambda>s r. r\<lparr>in_Trust := s\<rparr>)), (''uri_class'', raw_string (\<lambda>s r. r\<lparr>in_URIClass := s\<rparr>)),
     (''content_sha256'', raw_string (\<lambda>s r. r\<lparr>in_ContentSHA256 := s\<rparr>)),
     (''risk_signals'', of_value (set_strings (\<lambda>x r. r\<lparr>in_RiskSignals := x\<rparr>)))]"

definition zero_source :: input_source where
  "zero_source =
    \<lparr>in_EventID = [], in_Kind = [], in_Trust = [], in_URIClass = [], in_ContentSHA256 = [], in_RiskSignals = []\<rparr>"

definition data_access_fields :: "data_access raw_field list" where
  "data_access_fields =
    [(''operation'', raw_string (\<lambda>s r. r\<lparr>dx_Operation := s\<rparr>)), (''path_class'', raw_string (\<lambda>s r. r\<lparr>dx_PathClass := s\<rparr>)),
     (''protected'', of_value (set_bool (\<lambda>b r. r\<lparr>dx_Protected := b\<rparr>))),
     (''sensitivity'', raw_string (\<lambda>s r. r\<lparr>dx_Sensitivity := s\<rparr>)), (''bytes'', of_value (set_int64 (\<lambda>n r. r\<lparr>dx_Bytes := n\<rparr>)))]"

definition zero_data_access :: data_access where
  "zero_data_access = \<lparr>dx_Operation = [], dx_PathClass = [], dx_Protected = False, dx_Sensitivity = [], dx_Bytes = 0\<rparr>"

definition request_fields :: "wire_library \<Rightarrow> bool \<Rightarrow> request raw_field list" where
  "request_fields wl disallow =
    [(''request_id'', raw_string (\<lambda>s r. r\<lparr>rq_RequestID := s\<rparr>)), (''session_id'', raw_string (\<lambda>s r. r\<lparr>rq_SessionID := s\<rparr>)),
     (''parent_event_id'', raw_string (\<lambda>s r. r\<lparr>rq_ParentEventID := s\<rparr>)),
     (''principal'', raw_nested disallow principal_fields rq_Principal (\<lambda>x r. r\<lparr>rq_Principal := x\<rparr>)),
     (''agent'', raw_nested disallow agent_fields rq_Agent (\<lambda>x r. r\<lparr>rq_Agent := x\<rparr>)),
     (''delegated_authority'', raw_nested disallow (authority_fields wl) rq_Authority (\<lambda>x r. r\<lparr>rq_Authority := x\<rparr>)),
     (''tool'', raw_nested disallow tool_fields rq_Tool (\<lambda>x r. r\<lparr>rq_Tool := x\<rparr>)),
     (''action'', raw_nested disallow (action_request_fields disallow) rq_Action (\<lambda>x r. r\<lparr>rq_Action := x\<rparr>)),
     (''claimed_intent'', raw_string (\<lambda>s r. r\<lparr>rq_ClaimedIntent := s\<rparr>)),
     (''planned_actions'', of_value (set_strings (\<lambda>x r. r\<lparr>rq_PlannedActions := x\<rparr>))),
     (''input_sources'', raw_structs disallow input_source_fields zero_source (\<lambda>x r. r\<lparr>rq_InputSources := x\<rparr>)),
     (''data_access'', raw_pointer disallow data_access_fields zero_data_access rq_DataAccess (\<lambda>x r. r\<lparr>rq_DataAccess := x\<rparr>)),
     (''user_id'', raw_string (\<lambda>s r. r\<lparr>rq_UserID := s\<rparr>)), (''agent_id'', raw_string (\<lambda>s r. r\<lparr>rq_AgentID := s\<rparr>)),
     (''token_scopes'', of_value (set_strings (\<lambda>x r. r\<lparr>rq_TokenScopes := x\<rparr>))),
     (''requested_action'', raw_string (\<lambda>s r. r\<lparr>rq_RequestedAction := s\<rparr>)),
     (''requested_capability'', raw_string (\<lambda>s r. r\<lparr>rq_RequestedCapability := s\<rparr>)),
     (''target_resource'', raw_string (\<lambda>s r. r\<lparr>rq_TargetResource := s\<rparr>)),
     (''tool_identity'', raw_pointer disallow tool_fields zero_tool rq_ToolIdentity (\<lambda>x r. r\<lparr>rq_ToolIdentity := x\<rparr>)),
     (''destination'', raw_pointer disallow destination_fields zero_destination rq_Destination (\<lambda>x r. r\<lparr>rq_Destination := x\<rparr>))]"

definition event_fields :: "wire_library \<Rightarrow> runtime_event raw_field list" where
  "event_fields wl =
    [(''event_id'', raw_string (\<lambda>s r. r\<lparr>re_EventID := s\<rparr>)), (''permit_id'', raw_string (\<lambda>s r. r\<lparr>re_PermitID := s\<rparr>)),
     (''request_id'', raw_string (\<lambda>s r. r\<lparr>re_RequestID := s\<rparr>)), (''session_id'', raw_string (\<lambda>s r. r\<lparr>re_SessionID := s\<rparr>)),
     (''agent_id'', raw_string (\<lambda>s r. r\<lparr>re_AgentID := s\<rparr>)), (''workload_id'', raw_string (\<lambda>s r. r\<lparr>re_WorkloadID := s\<rparr>)),
     (''source'', of_value (set_source (\<lambda>x r. r\<lparr>re_Source := x\<rparr>))),
     (''trust_level'', of_value (set_trust (\<lambda>x r. r\<lparr>re_TrustLevel := x\<rparr>))),
     (''capability'', raw_string (\<lambda>s r. r\<lparr>re_Capability := s\<rparr>)), (''tool'', raw_string (\<lambda>s r. r\<lparr>re_Tool := s\<rparr>)),
     (''operation'', raw_string (\<lambda>s r. r\<lparr>re_Operation := s\<rparr>)), (''resource'', raw_string (\<lambda>s r. r\<lparr>re_Resource := s\<rparr>)),
     (''resource_class'', raw_string (\<lambda>s r. r\<lparr>re_ResourceClass := s\<rparr>)),
     (''destination_class'', raw_string (\<lambda>s r. r\<lparr>re_DestinationClass := s\<rparr>)),
     (''external'', of_value (set_bool (\<lambda>b r. r\<lparr>re_External := b\<rparr>))),
     (''secret_access'', of_value (set_bool (\<lambda>b r. r\<lparr>re_SecretAccess := b\<rparr>))),
     (''side_effect'', raw_string (\<lambda>s r. r\<lparr>re_SideEffect := s\<rparr>)),
     (''bytes'', of_value (set_int64 (\<lambda>n r. r\<lparr>re_Bytes := n\<rparr>))),
     (''timestamp'', raw_time wl (\<lambda>t r. r\<lparr>re_Timestamp := t\<rparr>))]"

definition zero_event :: runtime_event where
  "zero_event =
    \<lparr>re_EventID = [], re_PermitID = [], re_RequestID = [], re_SessionID = [], re_AgentID = [], re_WorkloadID = [],
     re_Source = SourceOther [], re_TrustLevel = TrustOther [], re_Capability = [], re_Tool = [], re_Operation = [],
     re_Resource = [], re_ResourceClass = [], re_DestinationClass = [], re_External = False, re_SecretAccess = False,
     re_SideEffect = [], re_Bytes = 0, re_Timestamp = zero_time\<rparr>"

definition completion_fields :: "wire_library \<Rightarrow> execution_completion raw_field list" where
  "completion_fields wl =
    [(''request_id'', raw_string (\<lambda>s r. r\<lparr>ec_RequestID := s\<rparr>)), (''permit_id'', raw_string (\<lambda>s r. r\<lparr>ec_PermitID := s\<rparr>)),
     (''status'', raw_string (\<lambda>s r. r\<lparr>ec_Status := s\<rparr>)), (''boundary_outcome'', raw_string (\<lambda>s r. r\<lparr>ec_BoundaryOutcome := s\<rparr>)),
     (''upstream_attempted'', of_value (set_bool (\<lambda>b r. r\<lparr>ec_UpstreamAttempted := b\<rparr>))),
     (''completed_at'', raw_time wl (\<lambda>t r. r\<lparr>ec_CompletedAt := t\<rparr>))]"

definition zero_completion :: execution_completion where
  "zero_completion =
    \<lparr>ec_RequestID = [], ec_PermitID = [], ec_Status = [], ec_BoundaryOutcome = [], ec_UpstreamAttempted = False,
     ec_CompletedAt = zero_time\<rparr>"

definition registry_fields :: "registry_entry raw_field list" where
  "registry_fields =
    [(''id'', raw_string (\<lambda>s r. r\<lparr>rg_ID := s\<rparr>)), (''agent_id'', raw_string (\<lambda>s r. r\<lparr>rg_AgentID := s\<rparr>)),
     (''workload_identity'', raw_string (\<lambda>s r. r\<lparr>rg_WorkloadID := s\<rparr>)),
     (''display_name'', raw_string (\<lambda>s r. r\<lparr>rg_DisplayName := s\<rparr>)), (''name'', raw_string (\<lambda>s r. r\<lparr>rg_Name := s\<rparr>)),
     (''agent_type'', raw_string (\<lambda>s r. r\<lparr>rg_AgentType := s\<rparr>)), (''environment'', raw_string (\<lambda>s r. r\<lparr>rg_Environment := s\<rparr>)),
     (''framework'', raw_string (\<lambda>s r. r\<lparr>rg_Framework := s\<rparr>)), (''policy_profile'', raw_string (\<lambda>s r. r\<lparr>rg_PolicyProfile := s\<rparr>)),
     (''fingerprint'', raw_string (\<lambda>s r. r\<lparr>rg_Fingerprint := s\<rparr>)), (''path_contains'', raw_string (\<lambda>s r. r\<lparr>rg_PathContains := s\<rparr>)),
     (''owner'', raw_string (\<lambda>s r. r\<lparr>rg_Owner := s\<rparr>)), (''approval_ref'', raw_string (\<lambda>s r. r\<lparr>rg_ApprovalRef := s\<rparr>)),
     (''expires_on'', raw_string (\<lambda>s r. r\<lparr>rg_ExpiresOn := s\<rparr>)), (''state'', raw_string (\<lambda>s r. r\<lparr>rg_State := s\<rparr>))]"

definition zero_entry :: registry_entry where
  "zero_entry =
    \<lparr>rg_ID = [], rg_AgentID = [], rg_WorkloadID = [], rg_DisplayName = [], rg_Name = [], rg_AgentType = [],
     rg_Environment = [], rg_Framework = [], rg_PolicyProfile = [], rg_Fingerprint = [], rg_PathContains = [],
     rg_Owner = [], rg_ApprovalRef = [], rg_ExpiresOn = [], rg_State = []\<rparr>"

section \<open>Request bodies\<close>

text \<open>\<open>decodeJSON\<close>: at most one mebibyte is read, unknown fields are refused, and nothing may follow the value.\<close>

definition decodeJSON :: "'r raw_field list \<Rightarrow> 'r \<Rightarrow> string option \<Rightarrow> 'r option" where
  "decodeJSON fs zero body =
    (case body of None \<Rightarrow> None | Some text \<Rightarrow> raw_struct True fs zero (take 1048576 text))"

record verification_request =
  vq_PermitToken :: string
  vq_Action :: request

definition verification_fields :: "wire_library \<Rightarrow> verification_request raw_field list" where
  "verification_fields wl =
    [(''permit_token'', raw_string (\<lambda>s r. r\<lparr>vq_PermitToken := s\<rparr>)),
     (''action'', raw_nested True (request_fields wl True) vq_Action (\<lambda>x r. r\<lparr>vq_Action := x\<rparr>))]"

section \<open>Scenario files\<close>

record scenario =
  so_ID :: string
  so_Title :: string
  so_Description :: string
  so_Expected :: route
  so_Request :: request
  so_SimulatedDemo :: "runtime_event list"

definition zero_scenario :: scenario where
  "zero_scenario =
    \<lparr>so_ID = [], so_Title = [], so_Description = [], so_Expected = RouteNone, so_Request = zero_request, so_SimulatedDemo = []\<rparr>"

definition scenario_fields :: "wire_library \<Rightarrow> scenario raw_field list" where
  "scenario_fields wl =
    [(''id'', raw_string (\<lambda>s r. r\<lparr>so_ID := s\<rparr>)), (''title'', raw_string (\<lambda>s r. r\<lparr>so_Title := s\<rparr>)),
     (''description'', raw_string (\<lambda>s r. r\<lparr>so_Description := s\<rparr>)),
     (''expected_route'', of_value (set_route (\<lambda>x r. r\<lparr>so_Expected := x\<rparr>))),
     (''request'', raw_nested False (request_fields wl False) so_Request (\<lambda>x r. r\<lparr>so_Request := x\<rparr>)),
     (''simulated_demo'', raw_structs False (event_fields wl) zero_event (\<lambda>x r. r\<lparr>so_SimulatedDemo := x\<rparr>))]"

text \<open>A directory: an error, or its entries, each a directory or a file with its content or the failure to read it.\<close>

datatype directory_entry = DirectoryEntry string bool "string option"

datatype scenario_error =
    ScenarioDirectory | ScenarioUnreadable string | ScenarioUnparsable string | NoScenarioFiles

definition scenario_file :: "directory_entry \<Rightarrow> (string \<times> string option) option" where
  "scenario_file e =
    (case e of DirectoryEntry name is_dir content \<Rightarrow>
       if \<not> is_dir \<and> has_prefix (rev name) (rev ''.json'') then Some (name, content) else None)"

fun load_scenarios :: "wire_library \<Rightarrow> (string \<times> string option) list \<Rightarrow> scenario list \<Rightarrow> scenario_error + scenario list" where
  "load_scenarios wl [] acc = Inr acc"
| "load_scenarios wl ((name, content) # files) acc =
    (case content of
       None \<Rightarrow> Inl (ScenarioUnreadable name)
     | Some text \<Rightarrow>
         (case raw_struct False (scenario_fields wl) zero_scenario text of
            None \<Rightarrow> Inl (ScenarioUnparsable name)
          | Some item \<Rightarrow> load_scenarios wl files (acc @ [item])))"

definition LoadDirectory :: "wire_library \<Rightarrow> directory_entry list option \<Rightarrow> scenario_error + scenario list" where
  "LoadDirectory wl entries =
    (case entries of
       None \<Rightarrow> Inl ScenarioDirectory
     | Some es \<Rightarrow>
         (case load_scenarios wl (sort_key fst (List.map_filter scenario_file es)) [] of
            Inl e \<Rightarrow> Inl e
          | Inr scenarios \<Rightarrow> if scenarios = [] then Inl NoScenarioFiles else Inr scenarios))"

end
