(* ===== verification/Http_Api.thy ===== *)
theory Http_Api
  imports Api_Wire Intake Discovery_Scan Session_Audit
begin

text \<open>
  \<open>internal/httpapi/server.go\<close>: the data of the HTTP server, the views it answers with, and its handlers; the
  demo lab, the routes and the start-up are in \<open>Http_Server\<close>.

  An answer is its status, the headers the handler set, and the value that is then written as JSON. A request
  has the segments of its path and the first value of the parameter \<open>limit\<close> as \<open>net/http\<close> and \<open>net/url\<close> give them.
  The audit store of the server is the one of its router, as \<open>cmd/server\<close> sets it up.
\<close>

section \<open>The server\<close>

record api_library =
  ly_go :: go_library
  ly_crypto :: crypto
  ly_text :: text_library
  ly_wire :: wire_library

type_synonym resolve_intake = "http_request option \<Rightarrow> request \<Rightarrow> time \<Rightarrow> intake_error + authorization"

record api_server =
  sv_router :: router
  sv_policy :: policy_config
  sv_scenarios :: "scenario list"
  sv_sessionAuditPath :: string
  sv_experimentalInventory :: bool
  sv_mcpHandler :: "proxy option"
  sv_authorizationIntake :: resolve_intake

record api_state =
  sx_router :: router_state
  sx_discovery :: "discovery_manager option"

record api_options =
  op_ExperimentalInventory :: bool
  op_MCPHandler :: "proxy option"
  op_AuthorizationIntake :: "resolve_intake option"

definition NewWithOptions ::
  "router \<Rightarrow> policy_config \<Rightarrow> scenario list \<Rightarrow> discovery_manager option \<Rightarrow> string \<Rightarrow> api_options \<Rightarrow> api_server" where
  "NewWithOptions r policy scenarios manager sessionAuditPath options =
    \<lparr>sv_router = r, sv_policy = policy, sv_scenarios = scenarios, sv_sessionAuditPath = sessionAuditPath,
     sv_experimentalInventory = (op_ExperimentalInventory options \<and> manager \<noteq> None),
     sv_mcpHandler = op_MCPHandler options,
     sv_authorizationIntake =
       (case op_AuthorizationIntake options of None \<Rightarrow> RejectAll_Resolve () | Some resolve \<Rightarrow> resolve)\<rparr>"

definition new_server :: "router \<Rightarrow> policy_config \<Rightarrow> scenario list \<Rightarrow> discovery_manager option \<Rightarrow> string \<Rightarrow> api_server" where
  "new_server r policy scenarios manager sessionAuditPath =
    NewWithOptions r policy scenarios manager sessionAuditPath
      \<lparr>op_ExperimentalInventory = False, op_MCPHandler = None, op_AuthorizationIntake = None\<rparr>"

section \<open>Requests and answers\<close>

record api_request =
  hr_Method :: string
  hr_Path :: string
  hr_Segments :: "string list"
  hr_Limit :: string
  hr_RemoteAddr :: string
  hr_Header :: headers
  hr_Body :: "string option"

definition intake_request :: "api_request \<Rightarrow> http_request" where
  "intake_request req = \<lparr>hq_RemoteAddr = hr_RemoteAddr req, hq_Header = hr_Header req\<rparr>"

definition proxy_request :: "api_request \<Rightarrow> mcp_request" where
  "proxy_request req = \<lparr>mr_Method = hr_Method req, mr_Path = hr_Path req, mr_Header = hr_Header req, mr_Body = hr_Body req\<rparr>"

text \<open>What a request reads from outside, one value per reading. The readings of the demo lab are numbered; \<open>iy_static\<close> is
  the status that the file server of the user interface answers with.\<close>

record demo_inputs =
  dy_now :: time
  dy_later :: time
  dy_attempt :: entropy
  dy_decision :: entropy
  dy_write :: write_outcome

record api_inputs =
  iy_now :: time
  iy_intake_now :: time
  iy_authorize :: authorize_inputs
  iy_write :: write_outcome
  iy_mcp_client :: "outbound \<Rightarrow> upstream_outcome"
  iy_mcp_now :: time
  iy_mcp_gate :: gate_inputs
  iy_session :: session_file
  iy_config :: config_file
  iy_scan :: scan_inputs
  iy_written :: registry_write
  iy_fixture :: "nat \<Rightarrow> time \<times> write_outcome"
  iy_verify :: "nat \<Rightarrow> demo_inputs"
  iy_complete :: "time \<times> write_outcome"
  iy_static :: int

record permit_view =
  vw_PermitID :: string
  vw_SigningKeyID :: string
  vw_PermitClass :: permit_class
  vw_ProfileID :: string
  vw_Audience :: string
  vw_State :: permit_state
  vw_RequestID :: string
  vw_PrincipalID :: string
  vw_AgentID :: string
  vw_WorkloadID :: string
  vw_ExecutorKeyID :: string
  vw_ExecutorKeyThumbprint :: string
  vw_Tool :: string
  vw_Capability :: string
  vw_Resource :: string
  vw_Operation :: string
  vw_ActionDigest :: string
  vw_PolicyVersion :: string
  vw_Issuer :: string
  vw_SingleUse :: bool
  vw_Obligations :: obligations
  vw_IssuedAt :: time
  vw_ExpiresAt :: time
  vw_ConsumedAt :: "time option"
  vw_ExpiredAt :: "time option"
  vw_RevokedAt :: "time option"
  vw_VerificationResult :: "outcome option"

record api_overview =
  oy_Authorized :: int
  oy_Denied :: int
  oy_PermitViolations :: int
  oy_ReplayBlocks :: int
  oy_Recent :: "audit_record list"
  oy_ExperimentalInventory :: bool

record session_summary =
  su_Total :: int
  su_Observer :: int
  su_SelfReported :: int
  su_Coverage :: string

datatype api_message =
    ApiText string
  | ApiMalformed
  | ApiIntake intake_error
  | ApiRouter router_error
  | ApiSession session_error
  | ApiDiscovery discovery_error

datatype demo_result =
    DemoDenied string audit_record
  | DemoRun string outcome "permit_record option" "permit_verification list" bool audit_record

datatype api_body =
    BodyError string api_message
  | BodyHealth bool bool
  | BodyOverview api_overview
  | BodyRecords "audit_record list"
  | BodyRecord audit_record
  | BodyAuthorization authorization_response
  | BodyPermits "permit_view list"
  | BodyPermit permit_view
  | BodyVerification permit_verification
  | BodyEvaluation runtime_evaluation
  | BodyCoverage runtime_coverage
  | BodyPolicy policy_config
  | BodyScenarios "scenario list"
  | BodyDemos "string list" "scenario list"
  | BodyDemo demo_result
  | BodyAgents "(string \<times> string list \<times> int) list" "registry_entry list" "string list" scan_report
  | BodyDiscovery scan_report
  | BodyRegistry "registry_entry list" "string list"
  | BodySaved registry_entry scan_report
  | BodyDeleted scan_report
  | BodySessions "session_event list" session_summary
  | BodyMcp proxy_reply "outbound list"
  | BodyStatic
  | BodyPanic

record api_reply =
  ry_Status :: int
  ry_Header :: "(string, string) gomap"
  ry_Body :: api_body

definition writeJSON :: "int \<Rightarrow> api_body \<Rightarrow> api_reply" where
  "writeJSON status body =
    \<lparr>ry_Status = status, ry_Header = [(''Content-Type'', ''application/json; charset=utf-8'')], ry_Body = body\<rparr>"

definition writeError :: "int \<Rightarrow> string \<Rightarrow> api_message \<Rightarrow> api_reply" where
  "writeError status code text = writeJSON status (BodyError code text)"

definition add_headers :: "(string \<times> string) list \<Rightarrow> api_reply \<Rightarrow> api_reply" where
  "add_headers hs reply = reply\<lparr>ry_Header := fold (\<lambda>(k, v). mput k v) hs (ry_Header reply)\<rparr>"

definition no_store :: "api_reply \<Rightarrow> api_reply" where
  "no_store = add_headers [(''Cache-Control'', ''no-store'')]"

definition markCompatibilityEndpoint :: "string \<Rightarrow> api_reply \<Rightarrow> api_reply" where
  "markCompatibilityEndpoint successor =
    add_headers [(''Deprecation'', ''true''), (''X-Aegis-Compatibility-Endpoint'', ''true''),
      (''Warning'', ''299 - \"Compatibility endpoint; use '' @ successor @ ''\"'')]"

text \<open>\<open>strconv.Atoi\<close>. A number out of the range of \<open>int\<close> is an error there; here it is out of every limit.\<close>

definition atoi :: "string \<Rightarrow> int option" where
  "atoi s =
    (let digits = (if has_prefix s ''-'' \<or> has_prefix s ''+'' then tl s else s)
     in if digits = [] \<or> \<not> all_digits digits then None
        else Some (if has_prefix s ''-'' then - decimal digits else decimal digits))"

definition parseLimit :: "api_request \<Rightarrow> int \<Rightarrow> api_reply + int" where
  "parseLimit req defaultLimit =
    (if hr_Limit req = [] then Inr defaultLimit
     else case atoi (hr_Limit req) of
       None \<Rightarrow> Inl (writeError 400 ''invalid_limit'' (ApiText ''limit must be between 1 and 100''))
     | Some n \<Rightarrow>
         if n < 1 \<or> n > 100 then Inl (writeError 400 ''invalid_limit'' (ApiText ''limit must be between 1 and 100''))
         else Inr n)"

definition requireLocalAdmin :: "api_request \<Rightarrow> api_reply option" where
  "requireLocalAdmin req =
    (if header_get (hr_Header req) ''X-Aegis-Admin'' \<noteq> ''local-ui''
     then Some (writeError 403 ''local_admin_header_required''
       (ApiText ''local registry changes require the Aegis_Router admin header''))
     else None)"

section \<open>Privacy of the inventory\<close>

definition classifyLocalPath :: "text_library \<Rightarrow> string \<Rightarrow> string" where
  "classifyLocalPath tx path =
    (let normalized = tx_lower tx (path_clean path)
     in if str_contains normalized ''/examples/shadow-agent-sample'' then ''DEMO_FIXTURE''
        else if str_contains normalized ''/.workbuddy'' \<or> str_contains normalized ''/workbuddy''
        then ''USER_PROFILE / AGENT_CONFIG''
        else if str_contains normalized ''/users/'' then ''USER_PROFILE''
        else if is_abs path then ''LOCAL_SCAN_ROOT'' else path)"

text \<open>The loop over the parts of a source, with what is left of them.\<close>

fun safe_parts :: "text_library \<Rightarrow> string list \<Rightarrow> string list option" where
  "safe_parts tx [] = None"
| "safe_parts tx (part # rest) =
    (let lower = tx_lower tx part
     in if lower = ''.workbuddy'' \<or> lower = ''workbuddy'' \<or> lower = ''.codex'' \<or> lower = ''.claude'' then Some (part # rest)
        else if lower = ''users'' \<and> length rest > 1 then Some (tl rest)
        else safe_parts tx rest)"

definition privacySafeEvidenceSource :: "text_library \<Rightarrow> string \<Rightarrow> string" where
  "privacySafeEvidenceSource tx source =
    (if is_abs source then classifyLocalPath tx source
     else let normalized = path_clean source
       in case safe_parts tx (split_at (CHR ''/'') normalized) of
            None \<Rightarrow> normalized | Some parts \<Rightarrow> join ''/'' parts)"

definition privacy_safe_agent :: "text_library \<Rightarrow> discovered_agent \<Rightarrow> discovered_agent" where
  "privacy_safe_agent tx agent =
    agent\<lparr>dg_Name := (case dg_Status agent of
              StatusShadow \<Rightarrow> ''Unregistered '' @ dg_AgentType agent @ '' workload candidate''
            | StatusUnassessed \<Rightarrow> ''Available '' @ dg_AgentType agent @ '' integration evidence''
            | StatusApproved \<Rightarrow> dg_Name agent),
          dg_Evidence := map (\<lambda>ev. ev\<lparr>ed_Source := privacySafeEvidenceSource tx (ed_Source ev)\<rparr>) (dg_Evidence agent)\<rparr>"

definition privacySafeDiscovery :: "text_library \<Rightarrow> scan_report \<Rightarrow> scan_report" where
  "privacySafeDiscovery tx report =
    report\<lparr>sp_Roots := map (classifyLocalPath tx) (sp_Roots report),
           sp_Gaps := map (\<lambda>g. if is_abs (cg_Source g) then g\<lparr>cg_Source := classifyLocalPath tx (cg_Source g)\<rparr> else g) (sp_Gaps report),
           sp_Agents := map (privacy_safe_agent tx) (sp_Agents report)\<rparr>"

section \<open>Reading\<close>

definition count_records :: "(audit_record \<Rightarrow> bool) \<Rightarrow> audit_record list \<Rightarrow> int" where
  "count_records p records = int (length (filter p records))"

definition health :: "api_server \<Rightarrow> api_reply" where
  "health sv = writeJSON 200 (BodyHealth (sv_mcpHandler sv \<noteq> None) (sv_experimentalInventory sv))"

definition overview :: "api_server \<Rightarrow> api_state \<Rightarrow> api_reply" where
  "overview sv st =
    (let records = Audit_Recent (rw_audit (sx_router st)) 100
     in writeJSON 200 (BodyOverview
       \<lparr>oy_Authorized = count_records (\<lambda>r. ar_AuthorizationStatus r = StatusAuthorized) records,
        oy_Denied = count_records (\<lambda>r. ar_AuthorizationStatus r = StatusDenied
          \<or> ar_AuthorizationStatus r = StatusRequiresApproval) records,
        oy_PermitViolations = count_records (\<lambda>r.
          (has_prefix (ar_FinalVerdict r) ''PERMIT_'' \<and> ar_FinalVerdict r \<noteq> ''PERMIT_VERIFIED'')
          \<or> ar_FinalVerdict r = ''EXECUTION_OBLIGATION_UNSATISFIED'') records,
        oy_ReplayBlocks = count_records (\<lambda>r. ar_FinalVerdict r = ''PERMIT_REPLAY'') records,
        oy_Recent = take 8 records, oy_ExperimentalInventory = sv_experimentalInventory sv\<rparr>))"

text \<open>\<open>listDecisions\<close> and \<open>listAudits\<close> differ in their default limit.\<close>

definition list_records :: "int \<Rightarrow> api_request \<Rightarrow> api_state \<Rightarrow> api_reply" where
  "list_records defaultLimit req st =
    (case parseLimit req defaultLimit of
       Inl reply \<Rightarrow> reply | Inr limit \<Rightarrow> writeJSON 200 (BodyRecords (Audit_Recent (rw_audit (sx_router st)) limit)))"

definition viewPermit :: "permit_record \<Rightarrow> permit_view" where
  "viewPermit record =
    (let c = pr_Claims record
     in \<lparr>vw_PermitID = cl_PermitID c, vw_SigningKeyID = cl_SigningKeyID c, vw_PermitClass = cl_PermitClass c,
         vw_ProfileID = cl_ProfileID c, vw_Audience = cl_Audience c, vw_State = pr_State record,
         vw_RequestID = cl_RequestID c, vw_PrincipalID = cl_PrincipalID c, vw_AgentID = cl_AgentID c,
         vw_WorkloadID = cl_WorkloadID c, vw_ExecutorKeyID = cl_ExecutorKeyID c,
         vw_ExecutorKeyThumbprint = cl_ExecutorKeyThumbprint c, vw_Tool = cl_Tool c, vw_Capability = cl_Capability c,
         vw_Resource = cl_Resource c, vw_Operation = cl_Operation c, vw_ActionDigest = cl_ActionDigest c,
         vw_PolicyVersion = cl_PolicyVersion c, vw_Issuer = cl_Issuer c, vw_SingleUse = cl_SingleUse c,
         vw_Obligations = cl_Obligations c, vw_IssuedAt = IssuedTime c, vw_ExpiresAt = ExpiresTime c,
         vw_ConsumedAt = pr_ConsumedAt record, vw_ExpiredAt = pr_ExpiredAt record, vw_RevokedAt = pr_RevokedAt record,
         vw_VerificationResult = None\<rparr>)"

definition audited_view :: "audit_store \<Rightarrow> permit_record \<Rightarrow> permit_view" where
  "audited_view audits record =
    (case Audit_Get audits (cl_RequestID (pr_Claims record)) of
       None \<Rightarrow> viewPermit record
     | Some a \<Rightarrow>
         (case ar_ExecutionReceipt a of
            None \<Rightarrow> viewPermit record
          | Some t \<Rightarrow> (viewPermit record)\<lparr>vw_VerificationResult := rt_VerificationOutcome t\<rparr>))"

definition listPermits :: "api_request \<Rightarrow> api_inputs \<Rightarrow> api_state \<Rightarrow> api_reply \<times> api_state" where
  "listPermits req x st =
    (case parseLimit req 50 of
       Inl reply \<Rightarrow> (reply, st)
     | Inr limit \<Rightarrow>
         let (records, rs) = ListPermits (sx_router st) (iy_now x)
         in (writeJSON 200 (BodyPermits (map (audited_view (rw_audit rs)) (take (nat limit) records))), st\<lparr>sx_router := rs\<rparr>))"

definition getPermit :: "string \<Rightarrow> api_inputs \<Rightarrow> api_state \<Rightarrow> api_reply \<times> api_state" where
  "getPermit i x st =
    (let (record, rs) = GetPermit (sx_router st) i (iy_now x)
     in (case record of
           None \<Rightarrow> writeError 404 ''permit_not_found'' (ApiText ''execution permit was not found'')
         | Some p \<Rightarrow> writeJSON 200 (BodyPermit (audited_view (rw_audit rs) p)), st\<lparr>sx_router := rs\<rparr>))"

definition listPolicies :: "api_server \<Rightarrow> api_reply" where
  "listPolicies sv = writeJSON 200 (BodyPolicy (sv_policy sv))"

definition listScenarios :: "api_server \<Rightarrow> api_reply" where
  "listScenarios sv = writeJSON 200 (BodyScenarios (sv_scenarios sv))"

definition runtimeCoverage :: "api_reply" where
  "runtimeCoverage = writeJSON 200 (BodyCoverage RuntimeCoverage)"

definition listSessionEvents :: "api_server \<Rightarrow> api_request \<Rightarrow> api_inputs \<Rightarrow> api_reply" where
  "listSessionEvents sv req x =
    (case parseLimit req 30 of
       Inl reply \<Rightarrow> reply
     | Inr limit \<Rightarrow>
         (case Recent_Sessions (sv_sessionAuditPath sv) limit (iy_session x) of
            Inl e \<Rightarrow> writeError 500 ''session_audit_unavailable'' (ApiSession e)
          | Inr events \<Rightarrow>
              let observer = int (length (filter (\<lambda>e. se_Trust e = TrustObserver) events));
                  selfReported = int (length (filter (\<lambda>e. se_Trust e = Session_Audit.TrustSelfReported) events))
              in writeJSON 200 (BodySessions events
                \<lparr>su_Total = int (length events), su_Observer = observer, su_SelfReported = selfReported,
                 su_Coverage = (if observer > 0 \<or> selfReported > 0 then ''wrapper_and_self_reported_only''
                   else ''no_session_data'')\<rparr>)))"

section \<open>Authorization and verification\<close>

text \<open>The two authorization endpoints differ in what they answer.\<close>

definition authorize_with ::
  "api_library \<Rightarrow> api_server \<Rightarrow> string \<Rightarrow> (authorization_response \<Rightarrow> api_reply) \<Rightarrow> api_request \<Rightarrow> api_inputs \<Rightarrow> api_state
    \<Rightarrow> api_reply \<times> api_state" where
  "authorize_with lb sv malformed answer req x st =
    (case decodeJSON (request_fields (ly_wire lb) True) zero_request (hr_Body req) of
       None \<Rightarrow> (writeError 400 malformed ApiMalformed, st)
     | Some input \<Rightarrow>
         (case sv_authorizationIntake sv (Some (intake_request req)) input (iy_intake_now x) of
            Inl e \<Rightarrow> (writeError 401 ''trusted_authorization_context_required'' (ApiIntake e), st)
          | Inr authorization \<Rightarrow>
              (case AuthorizeTrustedAction (ly_crypto lb) (sv_router sv) (sx_router st) authorization (iy_authorize x) of
                 (Inl e, rs) \<Rightarrow> (writeError 400 ''authorization_failed'' (ApiRouter e), st\<lparr>sx_router := rs\<rparr>)
               | (Inr result, rs) \<Rightarrow> (answer result, st\<lparr>sx_router := rs\<rparr>))))"

definition authorizeAction :: "api_library \<Rightarrow> api_server \<Rightarrow> api_request \<Rightarrow> api_inputs \<Rightarrow> api_state \<Rightarrow> api_reply \<times> api_state" where
  "authorizeAction lb sv =
    authorize_with lb sv ''invalid_action'' (\<lambda>result. no_store (writeJSON 200 (BodyAuthorization result)))"

definition api_authorize :: "api_library \<Rightarrow> api_server \<Rightarrow> api_request \<Rightarrow> api_inputs \<Rightarrow> api_state \<Rightarrow> api_reply \<times> api_state" where
  "api_authorize lb sv req x st =
    map_prod (markCompatibilityEndpoint ''/api/actions/authorize'') id
      (authorize_with lb sv ''invalid_request'' (\<lambda>result. writeJSON 200 (BodyRecord (aa_Decision result))) req x st)"

definition revokePermit :: "string \<Rightarrow> api_request \<Rightarrow> api_inputs \<Rightarrow> api_state \<Rightarrow> api_reply \<times> api_state" where
  "revokePermit i req x st =
    (case requireLocalAdmin req of
       Some reply \<Rightarrow> (reply, st)
     | None \<Rightarrow>
         (case RevokePermit (sx_router st) i (iy_now x) (iy_write x) of
            ((record, Some e), rs) \<Rightarrow>
              (writeError (if e = RouterPermit ErrPermitNotFound then 404 else 409) ''permit_not_revoked'' (ApiRouter e),
               st\<lparr>sx_router := rs\<rparr>)
          | ((Some p, None), rs) \<Rightarrow> (writeJSON 200 (BodyPermit (viewPermit p)), st\<lparr>sx_router := rs\<rparr>)
          | ((None, None), rs) \<Rightarrow> (writeJSON 200 BodyPanic, st\<lparr>sx_router := rs\<rparr>)))"

definition verifyPermit :: "api_library \<Rightarrow> api_server \<Rightarrow> api_request \<Rightarrow> api_inputs \<Rightarrow> api_state \<Rightarrow> api_reply \<times> api_state" where
  "verifyPermit lb sv req x st =
    (case decodeJSON (verification_fields (ly_wire lb)) \<lparr>vq_PermitToken = [], vq_Action = zero_request\<rparr> (hr_Body req) of
       None \<Rightarrow> (writeError 400 ''invalid_verification_request'' ApiMalformed, st)
     | Some input \<Rightarrow>
         (case CheckExecutionRequest (ly_crypto lb) (sv_router sv) (sx_router st) (vq_PermitToken input) (vq_Action input) (iy_now x) of
            (Inl e, rs) \<Rightarrow> (writeError 400 ''permit_verification_failed'' (ApiRouter e), st\<lparr>sx_router := rs\<rparr>)
          | (Inr result, rs) \<Rightarrow> (no_store (writeJSON 200 (BodyVerification result)), st\<lparr>sx_router := rs\<rparr>)))"

section \<open>Runtime evidence\<close>

text \<open>The sources that this endpoint can substantiate.\<close>

definition ingestRuntimeEvent :: "api_library \<Rightarrow> api_request \<Rightarrow> api_inputs \<Rightarrow> api_state \<Rightarrow> api_reply \<times> api_state" where
  "ingestRuntimeEvent lb req x st =
    map_prod (markCompatibilityEndpoint ''pre-execution MCP permit verification'') id
     (case decodeJSON (event_fields (ly_wire lb)) zero_event (hr_Body req) of
        None \<Rightarrow> (writeError 400 ''invalid_runtime_event'' ApiMalformed, st)
      | Some event \<Rightarrow>
          if re_Source event \<noteq> SourceInstrumentedAdapter \<and> re_Source event \<noteq> SourceAgentSelfReported
          then (writeError 400 ''reserved_runtime_source''
            (ApiText ''this endpoint accepts instrumented_adapter or agent_self_reported evidence only''), st)
          else (case IngestRuntimeEvent (sx_router st) event (iy_now x) (iy_write x) of
              ((evaluation, Some e), rs) \<Rightarrow> (writeError 500 ''runtime_event_failed'' (ApiRouter e), st\<lparr>sx_router := rs\<rparr>)
            | ((evaluation, None), rs) \<Rightarrow> (writeJSON 200 (BodyEvaluation evaluation), st\<lparr>sx_router := rs\<rparr>)))"

definition api_complete :: "api_library \<Rightarrow> string \<Rightarrow> api_request \<Rightarrow> api_inputs \<Rightarrow> api_state \<Rightarrow> api_reply \<times> api_state" where
  "api_complete lb i req x st =
    map_prod (markCompatibilityEndpoint ''MCP enforcement adapter completion'') id
     (case decodeJSON (completion_fields (ly_wire lb)) zero_completion (hr_Body req) of
        None \<Rightarrow> (writeError 400 ''invalid_execution_completion'' ApiMalformed, st)
      | Some c \<Rightarrow>
          if ec_RequestID c \<noteq> [] \<and> ec_RequestID c \<noteq> i
          then (writeError 400 ''execution_binding_mismatch'' (ApiText ''path id must match request_id''), st)
          else (case CompleteExecution (sx_router st) (c\<lparr>ec_RequestID := i\<rparr>) (iy_now x) (iy_write x) of
              (Inl e, rs) \<Rightarrow> (writeError 400 ''execution_completion_failed'' (ApiRouter e), st\<lparr>sx_router := rs\<rparr>)
            | (Inr record, rs) \<Rightarrow> (writeJSON 200 (BodyRecord record), st\<lparr>sx_router := rs\<rparr>)))"

section \<open>The inventory\<close>

text \<open>A call on a nil manager panics; the routes of the inventory exist only when there is one.\<close>

definition with_manager :: "api_state \<Rightarrow> (discovery_manager \<Rightarrow> api_reply \<times> discovery_manager) \<Rightarrow> api_reply \<times> api_state" where
  "with_manager st f =
    (case sx_discovery st of
       None \<Rightarrow> (writeJSON 500 BodyPanic, st)
     | Some m \<Rightarrow> let (reply, m') = f m in (reply, st\<lparr>sx_discovery := Some m'\<rparr>))"

definition listAgents :: "api_library \<Rightarrow> api_server \<Rightarrow> api_state \<Rightarrow> api_reply \<times> api_state" where
  "listAgents lb sv st = with_manager st (\<lambda>m.
    (writeJSON 200 (BodyAgents
       (map (\<lambda>(i, a). (i, ap_WorkloadIDs a, int (length (ap_Capabilities a)))) (sort_key fst (cf_Agents (sv_policy sv))))
       (dm_registry m) (AgentTypes m) (privacySafeDiscovery (ly_text lb) (dm_report m))), m))"

definition listDiscoveries :: "api_library \<Rightarrow> api_state \<Rightarrow> api_reply \<times> api_state" where
  "listDiscoveries lb st = with_manager st (\<lambda>m.
    (writeJSON 200 (BodyDiscovery (privacySafeDiscovery (ly_text lb) (dm_report m))), m))"

definition rescanDiscoveries :: "api_library \<Rightarrow> api_request \<Rightarrow> api_inputs \<Rightarrow> api_state \<Rightarrow> api_reply \<times> api_state" where
  "rescanDiscoveries lb req x st =
    (case requireLocalAdmin req of
       Some reply \<Rightarrow> (reply, st)
     | None \<Rightarrow> with_manager st (\<lambda>m.
         case Rescan (ly_text lb) (ly_crypto lb) (iy_config x) (iy_scan x) m of
           (Inl e, m') \<Rightarrow> (writeError 500 ''discovery_rescan_failed'' (ApiDiscovery e), m')
         | (Inr report, m') \<Rightarrow> (writeJSON 200 (BodyDiscovery (privacySafeDiscovery (ly_text lb) report)), m')))"

definition listApprovedAgents :: "api_state \<Rightarrow> api_reply \<times> api_state" where
  "listApprovedAgents st = with_manager st (\<lambda>m. (writeJSON 200 (BodyRegistry (dm_registry m) (AgentTypes m)), m))"

definition saveApprovedAgent :: "api_library \<Rightarrow> api_request \<Rightarrow> api_inputs \<Rightarrow> api_state \<Rightarrow> api_reply \<times> api_state" where
  "saveApprovedAgent lb req x st =
    (case requireLocalAdmin req of
       Some reply \<Rightarrow> (reply, st)
     | None \<Rightarrow>
         (case decodeJSON registry_fields zero_entry (hr_Body req) of
            None \<Rightarrow> (writeError 400 ''invalid_approval'' ApiMalformed, st)
          | Some entry \<Rightarrow> with_manager st (\<lambda>m.
              case SaveApproval (ly_text lb) (ly_crypto lb) entry (iy_written x) (iy_scan x) m of
                (Inl e, m') \<Rightarrow> (writeError 400 ''approval_not_saved'' (ApiDiscovery e), m')
              | (Inr (saved, report), m') \<Rightarrow>
                  (writeJSON 200 (BodySaved saved (privacySafeDiscovery (ly_text lb) report)), m'))))"

definition deleteApprovedAgent :: "api_library \<Rightarrow> string \<Rightarrow> api_request \<Rightarrow> api_inputs \<Rightarrow> api_state \<Rightarrow> api_reply \<times> api_state" where
  "deleteApprovedAgent lb i req x st =
    (case requireLocalAdmin req of
       Some reply \<Rightarrow> (reply, st)
     | None \<Rightarrow> with_manager st (\<lambda>m.
         case DeleteApproval (ly_text lb) (ly_crypto lb) i (iy_written x) (iy_scan x) m of
           (Inl e, m') \<Rightarrow> (writeError 404 ''approval_not_found'' (ApiDiscovery e), m')
         | (Inr report, m') \<Rightarrow> (writeJSON 200 (BodyDeleted (privacySafeDiscovery (ly_text lb) report)), m')))"

end
