(* ===== verification/Http_Server.thy ===== *)
theory Http_Server
  imports Http_Api
begin

text \<open>
  \<open>internal/httpapi/server.go\<close>: the demo lab, the routes and the server as one step on its state. How
  \<open>cmd/server/main.go\<close> puts it together from its flags is in \<open>Server_Start\<close>.
\<close>

section \<open>The demo lab\<close>

definition api_firstNonEmpty :: "string list \<Rightarrow> string" where
  "api_firstNonEmpty values = (case find (\<lambda>v. v \<noteq> []) values of None \<Rightarrow> [] | Some v \<Rightarrow> v)"

text \<open>A fixture as it is sent: bound to the permit, and labelled as simulated whatever the file says.\<close>

definition bound_fixture :: "string \<Rightarrow> nat \<Rightarrow> string \<Rightarrow> authorization_envelope \<Rightarrow> runtime_event \<Rightarrow> runtime_event" where
  "bound_fixture scenarioID index requestID permit fixture =
    fixture\<lparr>re_EventID := api_firstNonEmpty [re_EventID fixture, ''demo-'' @ scenarioID @ ''-'' @ show_nat (index + 1)],
            re_PermitID := en_PermitID permit, re_RequestID := requestID, re_SessionID := en_SessionID permit,
            re_AgentID := en_AgentID permit, re_WorkloadID := en_WorkloadID permit,
            re_Source := SourceSimulatedDemo, re_TrustLevel := TrustSimulated\<rparr>"

text \<open>The loop over the fixtures: an error, or whether one of them ended the execution.\<close>

fun run_fixtures ::
  "string \<Rightarrow> string \<Rightarrow> authorization_envelope \<Rightarrow> (nat \<Rightarrow> time \<times> write_outcome) \<Rightarrow> nat \<Rightarrow> runtime_event list \<Rightarrow> router_state
    \<Rightarrow> (router_error + bool) \<times> router_state" where
  "run_fixtures scenarioID requestID permit readings index [] st = (Inr False, st)"
| "run_fixtures scenarioID requestID permit readings index (fixture # rest) st =
    (case IngestRuntimeEvent st (bound_fixture scenarioID index requestID permit fixture)
        (fst (readings index)) (snd (readings index)) of
       ((evaluation, Some e), st') \<Rightarrow> (Inl e, st')
     | ((evaluation, None), st') \<Rightarrow>
         if rv_Terminated evaluation then (Inr True, st')
         else run_fixtures scenarioID requestID permit readings (index + 1) rest st')"

definition run_scenario :: "api_library \<Rightarrow> api_server \<Rightarrow> scenario \<Rightarrow> api_inputs \<Rightarrow> router_state \<Rightarrow> api_reply \<times> router_state" where
  "run_scenario lb sv scenario x st =
    (case AuthorizeSyntheticDemoAction (ly_crypto lb) (sv_router sv) st (so_Request scenario) 0 (iy_authorize x) of
       (Inl e, st1) \<Rightarrow> (writeError 400 ''demo_authorization_failed'' (ApiRouter e), st1)
     | (Inr authorized, st1) \<Rightarrow>
         let record = aa_Decision authorized
         in case ar_AuthorizationEnvelope record of
              None \<Rightarrow> (writeJSON 200 (BodyRecord record), st1)
            | Some permit \<Rightarrow>
                (case run_fixtures (so_ID scenario) (ar_RequestID record) permit (iy_fixture x) 0 (so_SimulatedDemo scenario) st1 of
                   (Inl e, st2) \<Rightarrow> (writeError 500 ''demo_runtime_event_failed'' (ApiRouter e), st2)
                 | (Inr terminated, st2) \<Rightarrow>
                     if \<not> terminated
                     then (case CompleteExecution st2
                           (zero_completion\<lparr>ec_RequestID := ar_RequestID record, ec_PermitID := en_PermitID permit,
                              ec_Status := ''completed''\<rparr>) (fst (iy_complete x)) (snd (iy_complete x)) of
                         (Inl e, st3) \<Rightarrow> (writeError 500 ''demo_completion_failed'' (ApiRouter e), st3)
                       | (Inr done_record, st3) \<Rightarrow> (writeJSON 200 (BodyRecord done_record), st3))
                     else (writeJSON 200 (BodyRecord
                         (case Audit_Get (rw_audit st2) (ar_RequestID record) of None \<Rightarrow> record | Some r \<Rightarrow> r)), st2)))"

definition permit_demos :: "string list" where
  "permit_demos = [''valid-permit'', ''action-mutation'', ''permit-replay'', ''expired-permit'']"

definition isPermitDemo :: "string \<Rightarrow> bool" where
  "isPermitDemo i \<longleftrightarrow> contains permit_demos i"

definition payment_demo_request :: "request \<Rightarrow> request" where
  "payment_demo_request request =
    request\<lparr>rq_Agent := zero_agent\<lparr>ai_AgentID := ''finance-agent'', ai_WorkloadID := ''finance-workload-v1'',
               ai_Environment := ''synthetic''\<rparr>,
            rq_Authority := (rq_Authority request)\<lparr>da_Scopes := [''payment.transfer'']\<rparr>,
            rq_Tool := zero_tool\<lparr>tc_Name := ''payment.send'', tc_Provider := ''simulated-demo''\<rparr>,
            rq_Action := zero_action_request\<lparr>aq_Capability := ''payment_transfer'', aq_Operation := ''transfer'',
               aq_TargetResource := ''account-123'',
               aq_Arguments := ''{\"amount\":100,\"currency\":\"USD\",\"recipient\":\"merchant-456\"}'',
               aq_SideEffect := ''financial_transaction''\<rparr>\<rparr>"

definition permitDemoRequest :: "string \<Rightarrow> request" where
  "permitDemoRequest i =
    (let request = zero_request
           \<lparr>rq_Principal := zero_principal\<lparr>pn_PrincipalID := ''demo-user'', pn_PrincipalType := ''human'', pn_Environment := ''synthetic''\<rparr>,
            rq_Agent := zero_agent\<lparr>ai_AgentID := ''coder-agent'', ai_WorkloadID := ''coder-workload-v1'', ai_Environment := ''synthetic''\<rparr>,
            rq_Authority := zero_delegation\<lparr>da_CredentialFingerprint := replicate 64 (CHR ''d''), da_Scopes := [''code.read''],
              da_Subject := ''demo-user''\<rparr>,
            rq_Tool := zero_tool\<lparr>tc_Name := ''coder'', tc_Provider := ''simulated-demo''\<rparr>,
            rq_Action := zero_action_request\<lparr>aq_Capability := ''generate_code'', aq_Operation := ''generate'',
              aq_TargetResource := ''public_workspace'', aq_Arguments := ''{\"language\":\"go\",\"task\":\"permit-demo\"}'',
              aq_SideEffect := ''none''\<rparr>\<rparr>
     in if i = ''action-mutation'' then payment_demo_request request else request)"

definition mutated_demo_request :: "request \<Rightarrow> request" where
  "mutated_demo_request action =
    action\<lparr>rq_Action := (rq_Action action)\<lparr>aq_Arguments :=
      ''{\"amount\":10000,\"currency\":\"USD\",\"recipient\":\"merchant-456\"}''\<rparr>\<rparr>"

text \<open>The closure \<open>verify\<close>, and the completion of a verified attempt, whose own error is dropped.\<close>

definition demo_verify ::
  "api_library \<Rightarrow> string \<Rightarrow> request \<Rightarrow> demo_inputs \<Rightarrow> router_state \<Rightarrow> (router_error + permit_verification) \<times> router_state" where
  "demo_verify lb token actual d st =
    (case VerifySyntheticDemoRequest (ly_crypto lb) st token actual (dy_now d) (dy_later d) (dy_attempt d) (dy_decision d) (dy_write d) of
       (Inl e, st') \<Rightarrow> (Inl e, st')
     | (Inr (v, Some e), st') \<Rightarrow> (Inl e, st')
     | (Inr (v, None), st') \<Rightarrow> (Inr v, st'))"

definition demo_invoke :: "permit_verification \<Rightarrow> api_inputs \<Rightarrow> router_state \<Rightarrow> bool \<times> router_state" where
  "demo_invoke v x st =
    (if pv_Verified v
     then (True, snd (CompleteSyntheticDemoExecution st
       (zero_completion\<lparr>ec_RequestID := pv_RequestID v, ec_PermitID := pv_PermitID v, ec_Status := ''completed'',
          ec_UpstreamAttempted := True\<rparr>) (fst (iy_complete x)) (snd (iy_complete x))))
     else (False, st))"

text \<open>The attempts of a demo; the one about expiry sleeps before its attempt, which is a matter of the clock.\<close>

definition demo_attempts ::
  "api_library \<Rightarrow> string \<Rightarrow> string \<Rightarrow> request \<Rightarrow> api_inputs \<Rightarrow> router_state
    \<Rightarrow> (router_error + permit_verification list \<times> bool) \<times> router_state" where
  "demo_attempts lb i token action x st =
    (case demo_verify lb token (if i = ''action-mutation'' then mutated_demo_request action else action) (iy_verify x 0) st of
       (Inl e, st1) \<Rightarrow> (Inl e, st1)
     | (Inr v, st1) \<Rightarrow>
         if i = ''action-mutation'' \<or> i = ''expired-permit'' then (Inr ([v], False), st1)
         else let (invoked, st2) = demo_invoke v x st1
           in if i \<noteq> ''permit-replay'' then (Inr ([v], invoked), st2)
              else case demo_verify lb token action (iy_verify x 1) st2 of
                (Inl e, st3) \<Rightarrow> (Inl e, st3) | (Inr v', st3) \<Rightarrow> (Inr ([v, v'], invoked), st3))"

definition runPermitDemo ::
  "api_library \<Rightarrow> api_server \<Rightarrow> string \<Rightarrow> api_inputs \<Rightarrow> router_state \<Rightarrow> (router_error + demo_result) \<times> router_state" where
  "runPermitDemo lb sv i x st =
    (let action = permitDemoRequest i
     in case AuthorizeSyntheticDemoAction (ly_crypto lb) (sv_router sv) st action
            (if i = ''expired-permit'' then second else 30 * second) (iy_authorize x) of
          (Inl e, st1) \<Rightarrow> (Inl e, st1)
        | (Inr authorized, st1) \<Rightarrow>
            (case aa_Permit authorized of
               None \<Rightarrow> (Inr (DemoDenied i (aa_Decision authorized)), st1)
             | Some permit \<Rightarrow>
                 (case demo_attempts lb i (pk_PermitToken permit) action x st1 of
                    (Inl e, st2) \<Rightarrow> (Inl e, st2)
                  | (Inr (attempts, invoked), st2) \<Rightarrow>
                      let (record, st3) = GetPermit st2 (pk_PermitID permit) (iy_now x)
                      in (Inr (DemoRun i (pv_Outcome (last attempts)) record attempts invoked (aa_Decision authorized)), st3))))"

definition runDemoScenario :: "api_library \<Rightarrow> api_server \<Rightarrow> string \<Rightarrow> api_inputs \<Rightarrow> api_state \<Rightarrow> api_reply \<times> api_state" where
  "runDemoScenario lb sv i x st =
    (if isPermitDemo i
     then (case runPermitDemo lb sv i x (sx_router st) of
         (Inl e, rs) \<Rightarrow> (writeError 500 ''permit_demo_failed'' (ApiRouter e), st\<lparr>sx_router := rs\<rparr>)
       | (Inr result, rs) \<Rightarrow> (writeJSON 200 (BodyDemo result), st\<lparr>sx_router := rs\<rparr>))
     else case find (\<lambda>s. so_ID s = i) (sv_scenarios sv) of
       None \<Rightarrow> (writeError 404 ''demo_scenario_not_found'' (ApiText ''demo scenario was not found''), st)
     | Some scenario \<Rightarrow>
         let (reply, rs) = run_scenario lb sv scenario x (sx_router st) in (reply, st\<lparr>sx_router := rs\<rparr>))"

definition listPermitDemos :: "api_server \<Rightarrow> api_reply" where
  "listPermitDemos sv = writeJSON 200 (BodyDemos permit_demos (sv_scenarios sv))"

section \<open>The routes\<close>

datatype endpoint =
    EpHealth | EpOverview | EpListDecisions | EpAuthorizeAction | EpListPermits | EpGetPermit string | EpRevokePermit string | EpVerifyPermit
  | EpListPermitDemos | EpRuntimeCoverage | EpListPolicies | EpListScenarios | EpListAgents | EpListDiscoveries | EpRescanDiscoveries
  | EpListApprovedAgents | EpSaveApprovedAgent | EpDeleteApprovedAgent string | EpListSessionEvents | EpRoute | EpAuthorize
  | EpIngestRuntimeEvent | EpCompleteExecution string | EpRunDemoScenario string | EpListAudits | EpMcp | EpStatic

datatype path_part = Lit string | Wild

type_synonym api_route = "string \<times> path_part list \<times> (string \<Rightarrow> endpoint)"

definition api :: "string list \<Rightarrow> path_part list" where
  "api parts = map Lit (''api'' # parts)"

definition inventory_routes :: "api_route list" where
  "inventory_routes =
    [(''GET'', api [''agents''], \<lambda>i. EpListAgents), (''GET'', api [''discoveries''], \<lambda>i. EpListDiscoveries),
     (''POST'', api [''discoveries'', ''rescan''], \<lambda>i. EpRescanDiscoveries),
     (''GET'', api [''approved-agents''], \<lambda>i. EpListApprovedAgents), (''POST'', api [''approved-agents''], \<lambda>i. EpSaveApprovedAgent),
     (''DELETE'', api [''approved-agents''] @ [Wild], EpDeleteApprovedAgent)]"

definition routes :: "bool \<Rightarrow> bool \<Rightarrow> api_route list" where
  "routes inventory mcp =
    [(''GET'', api [''health''], \<lambda>i. EpHealth), (''GET'', api [''overview''], \<lambda>i. EpOverview),
     (''GET'', api [''decisions''], \<lambda>i. EpListDecisions), (''POST'', api [''actions'', ''authorize''], \<lambda>i. EpAuthorizeAction),
     (''GET'', api [''permits''], \<lambda>i. EpListPermits), (''GET'', api [''permits''] @ [Wild], EpGetPermit),
     (''POST'', api [''permits''] @ [Wild, Lit ''revoke''], EpRevokePermit),
     (''POST'', api [''permits'', ''verify''], \<lambda>i. EpVerifyPermit), (''GET'', api [''demo-lab''], \<lambda>i. EpListPermitDemos),
     (''GET'', api [''runtime-coverage''], \<lambda>i. EpRuntimeCoverage), (''GET'', api [''policies''], \<lambda>i. EpListPolicies),
     (''GET'', api [''scenarios''], \<lambda>i. EpListScenarios)]
    @ (if inventory then inventory_routes else [])
    @ [(''GET'', api [''session-events''], \<lambda>i. EpListSessionEvents), (''POST'', api [''route''], \<lambda>i. EpRoute),
       (''POST'', api [''authorize''], \<lambda>i. EpAuthorize), (''POST'', api [''runtime-events''], \<lambda>i. EpIngestRuntimeEvent),
       (''POST'', api [''executions''] @ [Wild, Lit ''complete''], EpCompleteExecution),
       (''POST'', api [''demo-lab''] @ [Wild, Lit ''run''], EpRunDemoScenario), (''GET'', api [''audits''], \<lambda>i. EpListAudits)]
    @ (if mcp then [(''POST'', [Lit ''mcp''], \<lambda>i. EpMcp)] else [])"

text \<open>The value of the wildcard when a path matches. No two patterns of a method match the same path.\<close>

fun match_path :: "path_part list \<Rightarrow> string list \<Rightarrow> string option" where
  "match_path [] [] = Some []"
| "match_path (Lit l # ps) (s # ss) = (if s = l then match_path ps ss else None)"
| "match_path (Wild # ps) (s # ss) = (if s \<noteq> [] \<and> match_path ps ss \<noteq> None then Some s else None)"
| "match_path ps ss = None"

definition match_route :: "string \<Rightarrow> string list \<Rightarrow> api_route \<Rightarrow> endpoint option" where
  "match_route m p r =
    (case r of (pattern_method, parts, endpoint) \<Rightarrow>
       if m = pattern_method \<or> (m = ''HEAD'' \<and> pattern_method = ''GET'') then map_option endpoint (match_path parts p) else None)"

definition endpoint_of :: "api_server \<Rightarrow> api_request \<Rightarrow> endpoint" where
  "endpoint_of sv req =
    (case List.map_filter (match_route (hr_Method req) (hr_Segments req))
        (routes (sv_experimentalInventory sv) (sv_mcpHandler sv \<noteq> None)) of
       [] \<Rightarrow> EpStatic | e # es \<Rightarrow> e)"

fun serve :: "api_library \<Rightarrow> api_server \<Rightarrow> endpoint \<Rightarrow> api_request \<Rightarrow> api_inputs \<Rightarrow> api_state \<Rightarrow> api_reply \<times> api_state" where
  "serve lb sv EpHealth req x st = (health sv, st)"
| "serve lb sv EpOverview req x st = (overview sv st, st)"
| "serve lb sv EpListDecisions req x st = (list_records 30 req st, st)"
| "serve lb sv EpAuthorizeAction req x st = authorizeAction lb sv req x st"
| "serve lb sv EpListPermits req x st = listPermits req x st"
| "serve lb sv (EpGetPermit i) req x st = getPermit i x st"
| "serve lb sv (EpRevokePermit i) req x st = revokePermit i req x st"
| "serve lb sv EpVerifyPermit req x st = verifyPermit lb sv req x st"
| "serve lb sv EpListPermitDemos req x st = (listPermitDemos sv, st)"
| "serve lb sv EpRuntimeCoverage req x st = (runtimeCoverage, st)"
| "serve lb sv EpListPolicies req x st = (listPolicies sv, st)"
| "serve lb sv EpListScenarios req x st = (listScenarios sv, st)"
| "serve lb sv EpListAgents req x st = listAgents lb sv st"
| "serve lb sv EpListDiscoveries req x st = listDiscoveries lb st"
| "serve lb sv EpRescanDiscoveries req x st = rescanDiscoveries lb req x st"
| "serve lb sv EpListApprovedAgents req x st = listApprovedAgents st"
| "serve lb sv EpSaveApprovedAgent req x st = saveApprovedAgent lb req x st"
| "serve lb sv (EpDeleteApprovedAgent i) req x st = deleteApprovedAgent lb i req x st"
| "serve lb sv EpListSessionEvents req x st = (listSessionEvents sv req x, st)"
| "serve lb sv EpRoute req x st = map_prod (markCompatibilityEndpoint ''/api/actions/authorize'') id (api_authorize lb sv req x st)"
| "serve lb sv EpAuthorize req x st = api_authorize lb sv req x st"
| "serve lb sv EpIngestRuntimeEvent req x st = ingestRuntimeEvent lb req x st"
| "serve lb sv (EpCompleteExecution i) req x st = api_complete lb i req x st"
| "serve lb sv (EpRunDemoScenario i) req x st = runDemoScenario lb sv i x st"
| "serve lb sv EpListAudits req x st = (list_records 20 req st, st)"
| "serve lb sv EpMcp req x st =
    (case sv_mcpHandler sv of
       None \<Rightarrow> (writeJSON 500 BodyPanic, st)
     | Some p \<Rightarrow>
         let ((reply, sent), rs) = Proxy_ServeHTTP (ly_go lb) (ly_crypto lb) (router_gate (ly_crypto lb) (iy_mcp_gate x)) p
               (iy_mcp_client x) (iy_mcp_now x) (proxy_request req) (sx_router st)
         in (\<lparr>ry_Status = (case reply of RPCError status i code m d b \<Rightarrow> status | Relayed status h text b \<Rightarrow> status),
              ry_Header = [], ry_Body = BodyMcp reply sent\<rparr>, st\<lparr>sx_router := rs\<rparr>))"
| "serve lb sv EpStatic req x st = (\<lparr>ry_Status = iy_static x, ry_Header = [], ry_Body = BodyStatic\<rparr>, st)"

definition security_headers :: "(string \<times> string) list" where
  "security_headers =
    [(''X-Content-Type-Options'', ''nosniff''), (''X-Frame-Options'', ''DENY''), (''Referrer-Policy'', ''no-referrer''),
     (''Content-Security-Policy'',
      ''default-src 'self'; style-src 'self'; script-src 'self'; img-src 'self' data:; connect-src 'self'' @ [CHR 0x27])]"

text \<open>\<open>Handler\<close> with its middleware.\<close>

definition Handler :: "api_library \<Rightarrow> api_server \<Rightarrow> api_request \<Rightarrow> api_inputs \<Rightarrow> api_state \<Rightarrow> api_reply \<times> api_state" where
  "Handler lb sv req x st = map_prod (add_headers security_headers) id (serve lb sv (endpoint_of sv req) req x st)"

end
