(* ===== verification/Server_Start.thy ===== *)
theory Server_Start
  imports Http_Server Config_Load
begin

text \<open>
  \<open>cmd/server/main.go\<close>: the server that a set of flags starts. Reading the files is an argument; an exit or a
  panic is an error.
\<close>

section \<open>Flags\<close>

definition stringList_Set :: "string list \<Rightarrow> string \<Rightarrow> string list" where
  "stringList_Set values v = (let value = trim_space v in if value \<noteq> [] then values @ [value] else values)"

definition strictStringList_Set :: "string list \<Rightarrow> string \<Rightarrow> message + string list" where
  "strictStringList_Set values v =
    (if v = [] \<or> v \<noteq> trim_space v
     then Inl (plain ''value must be non-empty and contain no surrounding whitespace'') else Inr (values @ [v]))"

record server_flags =
  fl_auditPath :: string
  fl_sessionAuditPath :: string
  fl_approvalRegistry :: string
  fl_enableExperimentalInventory :: bool
  fl_mcpUpstream :: string
  fl_allowDevelopmentIntake :: bool
  fl_discoveryRoots :: "string list"
  fl_trustedProxyCIDRs :: "string list"
  fl_workloadPublicKeys :: "string list"
  fl_trustedProxyProviderID :: string

definition default_flags :: server_flags where
  "default_flags =
    \<lparr>fl_auditPath = ''data/audit.jsonl'', fl_sessionAuditPath = ''data/session-audit.jsonl'',
     fl_approvalRegistry = ''data/approved-agents.json'', fl_enableExperimentalInventory = False, fl_mcpUpstream = [],
     fl_allowDevelopmentIntake = False, fl_discoveryRoots = [], fl_trustedProxyCIDRs = [], fl_workloadPublicKeys = [],
     fl_trustedProxyProviderID = []\<rparr>"

text \<open>
  What is read at the start; the private key is what \<open>ed25519.GenerateKey\<close> draws, the record length how
  many bytes the JSON text of an audit record has.
\<close>

record startup_inputs =
  sq_policy :: "policy_config option"
  sq_scenarios :: "directory_entry list option"
  sq_audit :: audit_file
  sq_recordLength :: "audit_record \<Rightarrow> nat"
  sq_discovery :: config_file
  sq_registry :: registry_file
  sq_scan :: scan_inputs
  sq_privateKey :: string

datatype start_error =
    StartPolicy "config_error option"
  | StartScenarios scenario_error
  | StartAudit audit_error
  | StartDiscovery discovery_error
  | StartSigningKey key_error
  | StartRouter router_error
  | StartWorkloadKey message
  | StartWorkloadKeyRejected proof_error
  | StartIntake message
  | StartIntakeRejected intake_error
  | StartProxy message

section \<open>Executor keys and identity\<close>

text \<open>\<open>key-id=base64url\<close>: the two parts around the first equals sign.\<close>

definition workload_key :: "string \<Rightarrow> message + (string \<times> string)" where
  "workload_key value =
    (let keyID = takeWhile (\<lambda>c. c \<noteq> CHR ''='') value; encoded = drop (length keyID + 1) value
     in if CHR ''='' \<notin> set value \<or> keyID = [] \<or> encoded = []
        then Inl (plain ''workload public key must use key-id=base64url format'')
        else case b64_decode True encoded of
          Some decoded \<Rightarrow> if length decoded = PublicKeySize then Inr (keyID, decoded)
            else Inl (Message ''workload public key %q must contain exactly %d Ed25519 bytes encoded as unpadded base64url''
              [FormatString keyID, FormatInt (int PublicKeySize)])
        | None \<Rightarrow> Inl (Message ''workload public key %q must contain exactly %d Ed25519 bytes encoded as unpadded base64url''
              [FormatString keyID, FormatInt (int PublicKeySize)]))"

fun registerWorkloadPublicKeys ::
  "crypto \<Rightarrow> string list \<Rightarrow> workload_binding list \<Rightarrow> router_state \<Rightarrow> (start_error + workload_binding list) \<times> router_state" where
  "registerWorkloadPublicKeys cr [] bindings st = (Inr bindings, st)"
| "registerWorkloadPublicKeys cr (value # rest) bindings st =
    (case workload_key value of
       Inl m \<Rightarrow> (Inl (StartWorkloadKey m), st)
     | Inr (keyID, publicKey) \<Rightarrow>
         (case RegisterWorkload st keyID publicKey of
            (Some e, st') \<Rightarrow> (Inl (StartWorkloadKeyRejected e), st')
          | (None, st') \<Rightarrow>
              (case Thumbprint cr publicKey of
                 Inl e \<Rightarrow> (Inl (StartWorkloadKeyRejected e), st')
               | Inr thumbprint \<Rightarrow>
                   registerWorkloadPublicKeys cr rest
                     (bindings @ [\<lparr>wb_KeyID = keyID, wb_PublicKeyThumbprint = thumbprint\<rparr>]) st')))"

definition configureAuthorizationIntake ::
  "net_library \<Rightarrow> bool \<Rightarrow> string list \<Rightarrow> string \<Rightarrow> workload_binding list \<Rightarrow> start_error + (resolve_intake \<times> string)" where
  "configureAuthorizationIntake nl allowDevelopment trustedProxyCIDRs trustedProxyProviderID developmentBinding =
    (let trustedProxyConfigured = (trustedProxyCIDRs \<noteq> [] \<or> trustedProxyProviderID \<noteq> [])
     in if allowDevelopment \<and> trustedProxyConfigured
        then Inl (StartIntake (plain ''--allow-development-intake cannot be combined with trusted-proxy configuration''))
        else if allowDevelopment
        then (if length developmentBinding \<noteq> 1
          then Inl (StartIntake (plain ''--allow-development-intake requires exactly one workload binding''))
          else case NewLoopbackDevelopment ''server-loopback-development'' developmentBinding of
            Inl e \<Rightarrow> Inl (StartIntakeRejected e)
          | Inr provider \<Rightarrow> Inr (Loopback_Resolve nl (Some provider), ''loopback_development''))
        else if trustedProxyConfigured
        then (case NewTrustedProxy nl trustedProxyCIDRs trustedProxyProviderID of
            Inl e \<Rightarrow> Inl (StartIntakeRejected e)
          | Inr provider \<Rightarrow> Inr (Proxy_Resolve nl (Some provider), ''trusted_proxy''))
        else Inr (RejectAll_Resolve (), ''reject_all''))"

section \<open>The start\<close>

text \<open>The parts of \<open>main\<close>: the inventory, the router with its executor keys, the intake, the enforcement adapter.\<close>

definition start_discovery ::
  "api_library \<Rightarrow> server_flags \<Rightarrow> startup_inputs \<Rightarrow> start_error + discovery_manager option" where
  "start_discovery lb fl x =
    (if \<not> fl_enableExperimentalInventory fl then Inr None
     else case NewManager (ly_text lb) (ly_crypto lb) (sq_discovery x) (sq_scan x) (fl_approvalRegistry fl) (sq_registry x)
         (fl_discoveryRoots fl) of
       Inl e \<Rightarrow> Inl (StartDiscovery e) | Inr m \<Rightarrow> Inr (Some m))"

definition start_router ::
  "api_library \<Rightarrow> policy_config \<Rightarrow> audit_store \<Rightarrow> startup_inputs \<Rightarrow> start_error + (router \<times> router_state)" where
  "start_router lb cfg store x =
    (case NewEphemeral (ly_crypto lb) (sq_privateKey x) of
       Inl e \<Rightarrow> Inl (StartSigningKey e)
     | Inr provider \<Rightarrow>
         (case NewRouter (ly_go lb) (ly_crypto lb) cfg store (Some provider) of
            Inl e \<Rightarrow> Inl (StartRouter e) | Inr rt \<Rightarrow> Inr rt))"

definition start_intake ::
  "net_library \<Rightarrow> server_flags \<Rightarrow> workload_binding list \<Rightarrow> start_error + (resolve_intake \<times> string)" where
  "start_intake nl fl bindings =
    (if fl_allowDevelopmentIntake fl \<and> length bindings \<noteq> 1
     then Inl (StartIntake (plain ''--allow-development-intake requires exactly one --workload-public-key''))
     else configureAuthorizationIntake nl (fl_allowDevelopmentIntake fl) (fl_trustedProxyCIDRs fl)
       (fl_trustedProxyProviderID fl) (if fl_allowDevelopmentIntake fl then bindings else []))"

definition start_proxy ::
  "api_library \<Rightarrow> server_flags \<Rightarrow> workload_binding list \<Rightarrow> router \<Rightarrow> start_error + proxy option" where
  "start_proxy lb fl bindings r =
    (if trim_space (fl_mcpUpstream fl) = [] then Inr None
     else if bindings = [] then Inl (StartProxy (plain ''--mcp-upstream requires at least one --workload-public-key''))
     else case NewProxy (ly_go lb) True (ro_registry r) (trim_space (fl_mcpUpstream fl)) None of
       Inl m \<Rightarrow> Inl (StartProxy m) | Inr p \<Rightarrow> Inr (Some p))"

definition load_files :: "api_library \<Rightarrow> server_flags \<Rightarrow> startup_inputs \<Rightarrow> start_error + (policy_config \<times> scenario list \<times> audit_store)" where
  "load_files lb fl x =
    (case sq_policy x of
       None \<Rightarrow> Inl (StartPolicy None)
     | Some raw \<Rightarrow>
         (case Load_config raw of
            Inl e \<Rightarrow> Inl (StartPolicy (Some e))
          | Inr cfg \<Rightarrow>
              (case LoadDirectory (ly_wire lb) (sq_scenarios x) of
                 Inl e \<Rightarrow> Inl (StartScenarios e)
               | Inr scenarios \<Rightarrow>
                   (case NewStore (sq_recordLength x) (fl_auditPath fl) (sq_audit x) of
                      Inl e \<Rightarrow> Inl (StartAudit e)
                    | Inr store \<Rightarrow> Inr (cfg, scenarios, store)))))"

definition start_server ::
  "api_library \<Rightarrow> net_library \<Rightarrow> server_flags \<Rightarrow> startup_inputs \<Rightarrow> start_error + (api_server \<times> api_state)" where
  "start_server lb nl fl x =
    (case load_files lb fl x of Inl e \<Rightarrow> Inl e | Inr (cfg, scenarios, store) \<Rightarrow>
     (case start_discovery lb fl x of Inl e \<Rightarrow> Inl e | Inr manager \<Rightarrow>
     (case start_router lb cfg store x of Inl e \<Rightarrow> Inl e | Inr (r, st0) \<Rightarrow>
     (case registerWorkloadPublicKeys (ly_crypto lb) (fl_workloadPublicKeys fl) [] st0 of
        (Inl e, st) \<Rightarrow> Inl e
      | (Inr bindings, st) \<Rightarrow>
     (case start_intake nl fl bindings of Inl e \<Rightarrow> Inl e | Inr (resolve, mode) \<Rightarrow>
     (case start_proxy lb fl bindings r of Inl e \<Rightarrow> Inl e | Inr handler \<Rightarrow>
       Inr (NewWithOptions r cfg scenarios manager (fl_sessionAuditPath fl)
              \<lparr>op_ExperimentalInventory = fl_enableExperimentalInventory fl, op_MCPHandler = handler,
               op_AuthorizationIntake = Some resolve\<rparr>,
            \<lparr>sx_router = st, sx_discovery = manager\<rparr>)))))))"

end
