(* ===== verification/Http_Facts.thy ===== *)
theory Http_Facts
  imports Server_Start Control_Plane
begin

text \<open>
  What one request to the HTTP server (\<open>internal/httpapi/server.go\<close>) does to the permit store: every endpoint is a sequence of
  calls of the store, only the two authorization endpoints register execution permits, and only through the
  intake of the server. The whole server is then single use, as the control plane is.
  What the bodies of the answers can hold: what was sent upstream only from the proxy, and a report only as the report
  of the manager with its paths hidden.
\<close>

section \<open>The calls of an endpoint on the store\<close>

lemma by_calls_mono:
  assumes "by_calls P s s'" "\<And>c. P c \<Longrightarrow> Q c"
  shows "by_calls Q s s'"
proof -
  obtain ops where ops: "list_all (registers P) ops" "snd (run_ops store_step ops s) = s'"
    using assms(1) unfolding by_calls_def by blast
  have "registers Q x" if "registers P x" for x
    using that assms(2) by (cases x) (simp_all add: registers_def)
  then have "list_all (registers Q) ops" using ops(1) by (simp add: list_all_iff)
  then show ?thesis using ops(2) unfolding by_calls_def by blast
qed

abbreviation api_store :: "api_state \<Rightarrow> memory_store" where
  "api_store st \<equiv> rw_store (sx_router st)"

text \<open>A server may register the execution permits in \<open>Q\<close> only, or its intake refuses every request.\<close>

definition intake_within :: "(claims \<Rightarrow> bool) \<Rightarrow> api_server \<Rightarrow> bool" where
  "intake_within Q sv \<longleftrightarrow>
    (\<forall>q i now. isl (sv_authorizationIntake sv q i now)) \<or> (\<forall>c. of_class ClassExecution c \<longrightarrow> Q c)"

lemma with_manager_router [simp]: "sx_router (snd (with_manager st f)) = sx_router st"
  by (simp add: with_manager_def case_prod_unfold Let_def split: option.split)

text \<open>The store after a call, from the outcome and the state of the call.\<close>

lemma calls_of: "f = (out, st') \<Longrightarrow> by_calls Q s (rw_store (snd f)) \<Longrightarrow> by_calls Q s (rw_store st')"
  by simp

lemma authorize_with_calls:
  assumes "intake_within Q sv"
  shows "by_calls Q (api_store st) (api_store (snd (authorize_with lb sv m answer req x st)))"
proof (cases "decodeJSON (request_fields (ly_wire lb) True) zero_request (hr_Body req)")
  case None
  then show ?thesis by (simp add: authorize_with_def)
next
  case (Some input)
  show ?thesis
  proof (cases "sv_authorizationIntake sv (Some (intake_request req)) input (iy_intake_now x)")
    case (Inl e)
    then show ?thesis using Some by (simp add: authorize_with_def)
  next
    case (Inr az)
    then have "\<not> isl (sv_authorizationIntake sv (Some (intake_request req)) input (iy_intake_now x))" by simp
    then have q: "\<And>c. of_class ClassExecution c \<Longrightarrow> Q c" using assms unfolding intake_within_def by blast
    obtain out rs where a: "AuthorizeTrustedAction (ly_crypto lb) (sv_router sv) (sx_router st) az (iy_authorize x) = (out, rs)"
      by (rule prod.exhaust)
    have "by_calls Q (api_store st) (rw_store rs)"
      by (rule by_calls_mono [OF calls_of [OF a trusted_calls] q])
    then show ?thesis using Some Inr a by (auto simp: authorize_with_def split: sum.split)
  qed
qed

section \<open>The demo lab\<close>

lemma run_fixtures_calls: "by_calls Q (rw_store st) (rw_store (snd (run_fixtures i q p readings n fixtures st)))"
proof (induction fixtures arbitrary: n st)
  case (Cons fixture rest)
  obtain v e st1 where a: "IngestRuntimeEvent st (bound_fixture i n q p fixture) (fst (readings n)) (snd (readings n)) = ((v, e), st1)"
    by (metis prod.exhaust)
  have "by_calls Q (rw_store st) (rw_store st1)" by (rule calls_of [OF a router_ingest_calls])
  then show ?case using Cons.IH by (auto simp: a split: option.split intro: by_calls_trans)
qed simp

lemma run_scenario_calls:
  assumes "\<And>c. of_class ClassSimulation c \<Longrightarrow> Q c"
  shows "by_calls Q (rw_store st) (rw_store (snd (run_scenario lb sv scenario x st)))"
proof -
  obtain out st1 where a: "AuthorizeSyntheticDemoAction (ly_crypto lb) (sv_router sv) st (so_Request scenario) 0 (iy_authorize x) = (out, st1)"
    by (rule prod.exhaust)
  have c1: "by_calls Q (rw_store st) (rw_store st1)" by (rule by_calls_mono [OF calls_of [OF a demo_calls] assms])
  have c2: "by_calls Q (rw_store st) (rw_store (snd (run_fixtures i q p readings n fixtures st1)))" for i q p readings n fixtures
    by (rule by_calls_trans [OF c1 run_fixtures_calls])
  have c3: "by_calls Q (rw_store st) (rw_store st3)"
    if "run_fixtures i q p readings n fixtures st1 = (o2, st2)" "CompleteExecution st2 c now w = (o3, st3)"
    for i q p readings n fixtures o2 st2 c now w o3 st3
    using by_calls_trans [OF calls_of [OF that(1) c2] calls_of [OF that(2) router_complete_calls(1)]] .
  show ?thesis
    using c1 calls_of [OF _ c2] c3
    by (auto simp: run_scenario_def a Let_def split: sum.split option.split prod.split)
qed

lemma demo_verify_calls: "by_calls Q (rw_store st) (rw_store (snd (demo_verify lb token actual d st)))"
proof -
  obtain out st1 where a: "VerifySyntheticDemoRequest (ly_crypto lb) st token actual (dy_now d) (dy_later d) (dy_attempt d) (dy_decision d)
    (dy_write d) = (out, st1)" by (rule prod.exhaust)
  have "by_calls Q (rw_store st) (rw_store st1)" by (rule calls_of [OF a router_demo_calls])
  then show ?thesis by (auto simp: demo_verify_def a split: sum.split option.split prod.split)
qed

lemma demo_invoke_calls: "by_calls Q (rw_store st) (rw_store (snd (demo_invoke v x st)))"
  by (simp add: demo_invoke_def router_complete_calls)

lemma demo_attempts_calls: "by_calls Q (rw_store st) (rw_store (snd (demo_attempts lb i token action x st)))"
proof -
  define d0 where "d0 = (if i = ''action-mutation'' then mutated_demo_request action else action)"
  obtain o1 st1 where a1: "demo_verify lb token d0 (iy_verify x 0) st = (o1, st1)" by (rule prod.exhaust)
  have c1: "by_calls Q (rw_store st) (rw_store st1)" by (rule calls_of [OF a1 demo_verify_calls])
  show ?thesis
  proof (cases o1)
    case (Inl e)
    then show ?thesis using a1 c1 by (simp add: demo_attempts_def d0_def)
  next
    case (Inr v)
    obtain invoked st2 where a2: "demo_invoke v x st1 = (invoked, st2)" by (rule prod.exhaust)
    have c2: "by_calls Q (rw_store st) (rw_store st2)"
      by (rule by_calls_trans [OF c1 calls_of [OF a2 demo_invoke_calls]])
    obtain o3 st3 where a3: "demo_verify lb token action (iy_verify x 1) st2 = (o3, st3)" by (rule prod.exhaust)
    have "by_calls Q (rw_store st) (rw_store st3)"
      by (rule by_calls_trans [OF c2 calls_of [OF a3 demo_verify_calls]])
    then show ?thesis using a1 Inr a2 a3 c1 c2 by (auto simp: demo_attempts_def d0_def split: sum.split)
  qed
qed

lemma permit_demo_calls:
  assumes "\<And>c. of_class ClassSimulation c \<Longrightarrow> Q c"
  shows "by_calls Q (rw_store st) (rw_store (snd (runPermitDemo lb sv i x st)))"
proof -
  define ttl where "ttl = (if i = ''expired-permit'' then second else 30 * second)"
  obtain out st1 where a: "AuthorizeSyntheticDemoAction (ly_crypto lb) (sv_router sv) st (permitDemoRequest i) ttl (iy_authorize x) = (out, st1)"
    by (rule prod.exhaust)
  have c1: "by_calls Q (rw_store st) (rw_store st1)" by (rule by_calls_mono [OF calls_of [OF a demo_calls] assms])
  have c2: "by_calls Q (rw_store st) (rw_store st2)"
    if "demo_attempts lb i token action x st1 = (o2, st2)" for token action o2 st2
    by (rule by_calls_trans [OF c1 calls_of [OF that demo_attempts_calls]])
  have c3: "by_calls Q (rw_store st) (rw_store st3)"
    if "demo_attempts lb i token action x st1 = (o2, st2)" "GetPermit st2 p now = (o3, st3)" for token action o2 st2 p now o3 st3
    by (rule by_calls_trans [OF c2 [OF that(1)] calls_of [OF that(2) router_get_calls]])
  show ?thesis
    using c1 c2 c3 by (auto simp: runPermitDemo_def ttl_def [symmetric] a Let_def split: sum.split option.split prod.split)
qed

section \<open>The endpoints\<close>

lemma demo_endpoint_calls:
  assumes "\<And>c. of_class ClassSimulation c \<Longrightarrow> Q c"
  shows "by_calls Q (api_store st) (api_store (snd (runDemoScenario lb sv i x st)))"
  using calls_of [OF _ permit_demo_calls [OF assms]] calls_of [OF _ run_scenario_calls [OF assms]]
  by (auto simp: runDemoScenario_def Let_def split: sum.split option.split prod.split)

lemma endpoint_calls:
  "by_calls Q (api_store st) (api_store (snd (listPermits req x st)))"
  "by_calls Q (api_store st) (api_store (snd (getPermit i x st)))"
  "by_calls Q (api_store st) (api_store (snd (revokePermit i req x st)))"
  "by_calls Q (api_store st) (api_store (snd (verifyPermit lb sv req x st)))"
  "by_calls Q (api_store st) (api_store (snd (ingestRuntimeEvent lb req x st)))"
  "by_calls Q (api_store st) (api_store (snd (api_complete lb i req x st)))"
proof -
  show "by_calls Q (api_store st) (api_store (snd (listPermits req x st)))"
    using calls_of [OF _ router_list_calls] by (auto simp: listPermits_def split: sum.split prod.split)
  show "by_calls Q (api_store st) (api_store (snd (getPermit i x st)))"
    using calls_of [OF _ router_get_calls] by (auto simp: getPermit_def split: prod.split)
  show "by_calls Q (api_store st) (api_store (snd (revokePermit i req x st)))"
    using calls_of [OF _ router_revoke_calls] by (auto simp: revokePermit_def split: option.split prod.split)
  show "by_calls Q (api_store st) (api_store (snd (verifyPermit lb sv req x st)))"
    using calls_of [OF _ router_check_calls] by (auto simp: verifyPermit_def split: option.split sum.split prod.split)
  show "by_calls Q (api_store st) (api_store (snd (ingestRuntimeEvent lb req x st)))"
    using calls_of [OF _ router_ingest_calls] by (auto simp: ingestRuntimeEvent_def split: option.split prod.split)
  show "by_calls Q (api_store st) (api_store (snd (api_complete lb i req x st)))"
    using calls_of [OF _ router_complete_calls(1)] by (auto simp: api_complete_def split: option.split sum.split prod.split)
qed

lemma inventory_router:
  "sx_router (snd (listAgents lb sv st)) = sx_router st" "sx_router (snd (listDiscoveries lb st)) = sx_router st"
  "sx_router (snd (rescanDiscoveries lb req x st)) = sx_router st" "sx_router (snd (listApprovedAgents st)) = sx_router st"
  "sx_router (snd (saveApprovedAgent lb req x st)) = sx_router st" "sx_router (snd (deleteApprovedAgent lb i req x st)) = sx_router st"
  by (simp_all add: listAgents_def listDiscoveries_def rescanDiscoveries_def listApprovedAgents_def saveApprovedAgent_def
    deleteApprovedAgent_def split: option.split)

lemma mcp_router:
  "sv_mcpHandler sv = Some p \<Longrightarrow> sx_router (snd (serve lb sv EpMcp req x st)) =
     snd (Proxy_ServeHTTP (ly_go lb) (ly_crypto lb) (router_gate (ly_crypto lb) (iy_mcp_gate x)) p (iy_mcp_client x) (iy_mcp_now x)
       (proxy_request req) (sx_router st))"
  by (simp add: case_prod_unfold Let_def)

lemma serve_calls:
  assumes "intake_within Q sv" "\<And>c. of_class ClassSimulation c \<Longrightarrow> Q c"
  shows "by_calls Q (api_store st) (api_store (snd (serve lb sv ep req x st)))"
proof (cases ep)
  case EpMcp
  show ?thesis
  proof (cases "sv_mcpHandler sv")
    case None
    then show ?thesis by (simp add: EpMcp)
  next
    case (Some p)
    show ?thesis unfolding EpMcp mcp_router [OF Some] by (rule router_steps.http_step)
  qed
next
  case (EpRunDemoScenario i)
  then show ?thesis using demo_endpoint_calls [OF assms(2)] by simp
qed (simp_all add: authorize_with_calls [OF assms(1)] endpoint_calls inventory_router authorizeAction_def api_authorize_def)

lemma handler_state: "snd (Handler lb sv req x st) = snd (serve lb sv (endpoint_of sv req) req x st)"
  by (simp add: Handler_def)

lemma add_headers_simps [simp]:
  "ry_Body (add_headers hs reply) = ry_Body reply" "ry_Status (add_headers hs reply) = ry_Status reply"
  by (simp_all add: add_headers_def)

lemma handled_by:
  assumes "Handler lb sv req x st = (reply, st')"
  shows "st' = snd (serve lb sv (endpoint_of sv req) req x st)"
    "ry_Status reply = ry_Status (fst (serve lb sv (endpoint_of sv req) req x st))"
    "ry_Body reply = ry_Body (fst (serve lb sv (endpoint_of sv req) req x st))"
proof -
  have "reply = add_headers security_headers (fst (serve lb sv (endpoint_of sv req) req x st))"
    "st' = snd (serve lb sv (endpoint_of sv req) req x st)"
    using arg_cong [OF assms, of fst] arg_cong [OF assms, of snd] by (simp_all add: Handler_def)
  then show "st' = snd (serve lb sv (endpoint_of sv req) req x st)"
    "ry_Status reply = ry_Status (fst (serve lb sv (endpoint_of sv req) req x st))"
    "ry_Body reply = ry_Body (fst (serve lb sv (endpoint_of sv req) req x st))" by simp_all
qed

section \<open>The server as a sequence of requests\<close>

definition http_step :: "api_library \<Rightarrow> api_server \<Rightarrow> api_request \<times> api_inputs \<Rightarrow> api_state \<Rightarrow> api_reply \<times> api_state" where
  "http_step lb sv rx st = Handler lb sv (fst rx) (snd rx) st"

text \<open>A request for a tool that was sent upstream with this token.\<close>

definition http_called_with :: "string \<Rightarrow> (api_request \<times> api_inputs) \<times> api_reply \<Rightarrow> bool" where
  "http_called_with token rr \<longleftrightarrow>
    (case ry_Body (snd rr) of
       BodyMcp reply sent \<Rightarrow> sent \<noteq> [] \<and> is_tool_call (proxy_request (fst (fst rr)))
         \<and> request_token (proxy_request (fst (fst rr))) = Some token
     | _ \<Rightarrow> False)"

definition http_called_for :: "crypto \<Rightarrow> string \<Rightarrow> (api_request \<times> api_inputs) \<times> api_reply \<Rightarrow> bool" where
  "http_called_for cr i rr \<longleftrightarrow> (\<exists>token. http_called_with token rr \<and> token_names cr token i)"

lemma run_calls:
  assumes "intake_within Q sv" "\<And>c. of_class ClassSimulation c \<Longrightarrow> Q c"
  shows "by_calls Q (api_store st) (api_store (snd (run_ops (http_step lb sv) ops st)))"
proof (induction ops arbitrary: st)
  case (Cons x ops)
  have "by_calls Q (api_store st) (api_store (snd (http_step lb sv x st)))"
    unfolding http_step_def handler_state by (rule serve_calls [OF assms])
  then show ?case using by_calls_trans Cons.IH by (simp add: Let_def case_prod_unfold)
qed simp

section \<open>What an answer shows of the host\<close>

definition path_classes :: "string list" where
  "path_classes = [''DEMO_FIXTURE'', ''USER_PROFILE / AGENT_CONFIG'', ''USER_PROFILE'', ''LOCAL_SCAN_ROOT'']"

text \<open>An absolute path is shown as one of four classes; a path that is not absolute is not shown as one that is.\<close>

definition path_hidden :: "string \<Rightarrow> string \<Rightarrow> bool" where
  "path_hidden p shown \<longleftrightarrow> (if is_abs p then shown \<in> set path_classes else \<not> is_abs shown)"

text \<open>How a report that is shown relates to the report of the scan, entry by entry.\<close>

definition agent_hidden :: "discovered_agent \<Rightarrow> discovered_agent \<Rightarrow> bool" where
  "agent_hidden a shown \<longleftrightarrow>
    dg_Status shown = dg_Status a
    \<and> dg_Name shown =
        (case dg_Status a of
           StatusApproved \<Rightarrow> dg_Name a
         | StatusShadow \<Rightarrow> ''Unregistered '' @ dg_AgentType a @ '' workload candidate''
         | StatusUnassessed \<Rightarrow> ''Available '' @ dg_AgentType a @ '' integration evidence'')
    \<and> list_all2 (\<lambda>ev ev'. path_hidden (ed_Source ev) (ed_Source ev')) (dg_Evidence a) (dg_Evidence shown)"

definition host_hidden :: "scan_report \<Rightarrow> scan_report \<Rightarrow> bool" where
  "host_hidden report shown \<longleftrightarrow>
    list_all2 path_hidden (sp_Roots report) (sp_Roots shown)
    \<and> list_all2 (\<lambda>g g'. path_hidden (cg_Source g) (cg_Source g')) (sp_Gaps report) (sp_Gaps shown)
    \<and> list_all2 agent_hidden (sp_Agents report) (sp_Agents shown)"

fun answered_reports :: "api_body \<Rightarrow> scan_report list" where
  "answered_reports (BodyAgents identities registry types report) = [report]"
| "answered_reports (BodyDiscovery report) = [report]"
| "answered_reports (BodySaved entry report) = [report]"
| "answered_reports (BodyDeleted report) = [report]"
| "answered_reports body = []"

definition plain_segment :: "string \<Rightarrow> bool" where
  "plain_segment s \<longleftrightarrow> s \<noteq> [] \<and> CHR ''/'' \<notin> set s"

lemma joined_not_abs: "list_all plain_segment ps \<Longrightarrow> \<not> is_abs (join ''/'' ps)"
proof (induction "''/''" ps rule: join.induct)
  case (2 w)
  then show ?case by (cases w) (auto simp: plain_segment_def is_abs_def)
next
  case (3 w v ws)
  then show ?case by (cases w) (auto simp: plain_segment_def is_abs_def)
qed (simp add: is_abs_def)

lemma split_joined: "list_all plain_segment ps \<Longrightarrow> ps \<noteq> [] \<Longrightarrow> split_at (CHR ''/'') (join ''/'' ps) = ps"
proof (induction ps)
  case (Cons p ps)
  show ?case
  proof (cases ps)
    case Nil
    then show ?thesis using Cons.prems by (simp add: plain_segment_def split_at_none)
  next
    case (Cons q qs)
    then show ?thesis using Cons.IH Cons.prems by (simp add: plain_segment_def split_at_append)
  qed
qed simp

lemma clean_segments_plain:
  "list_all plain_segment ss \<Longrightarrow> list_all plain_segment acc \<Longrightarrow> list_all plain_segment (clean_segments rooted acc ss)"
proof (induction ss arbitrary: acc)
  case Nil
  then show ?case by (simp add: list_all_iff)
next
  case (Cons s ss)
  then show ?case by (cases acc) (auto simp: plain_segment_def)
qed

lemma path_segments_plain: "list_all plain_segment (path_segments p)"
  using split_at_parts [of "CHR ''/''" p] by (auto simp: path_segments_def list_all_iff plain_segment_def)

lemma relative_path:
  assumes "\<not> is_abs p"
  obtains ps where "path_clean p = join ''/'' ps" "list_all plain_segment ps" "ps \<noteq> []"
proof (cases "clean_parts p = []")
  case True
  have "plain_segment ''.''" by (simp add: plain_segment_def)
  then show thesis using that [of "[''.'']"] True assms by (simp add: path_clean_def)
next
  case False
  have "list_all plain_segment (clean_parts p)"
    unfolding clean_parts_def by (rule clean_segments_plain [OF path_segments_plain]) simp
  then show thesis using that [of "clean_parts p"] False assms by (simp add: path_clean_def)
qed

lemma list_all_tl: "list_all P xs \<Longrightarrow> list_all P (tl xs)"
  by (cases xs) simp_all

lemma safe_parts_plain:
  "safe_parts tx ps = Some qs \<Longrightarrow> list_all plain_segment ps \<Longrightarrow> list_all plain_segment qs"
  by (induction tx ps rule: safe_parts.induct) (auto simp: Let_def list_all_tl split: if_splits)

lemma classified_not_abs: "\<not> is_abs (classifyLocalPath tx path)"
  by (simp add: classifyLocalPath_def Let_def is_abs_def)

lemma evidence_source_not_abs: "\<not> is_abs (privacySafeEvidenceSource tx source)"
proof (cases "is_abs source")
  case True
  then show ?thesis by (simp add: privacySafeEvidenceSource_def classified_not_abs)
next
  case False
  obtain ps where ps: "path_clean source = join ''/'' ps" "list_all plain_segment ps" "ps \<noteq> []"
    by (rule relative_path [OF False])
  show ?thesis
    using False ps split_joined [OF ps(2,3)] joined_not_abs [OF ps(2)] joined_not_abs safe_parts_plain [OF _ ps(2)]
    by (auto simp: privacySafeEvidenceSource_def split: option.split)
qed

lemma classified_hidden: "path_hidden p (classifyLocalPath tx p)"
  using classified_not_abs [of tx p]
  by (auto simp: path_hidden_def path_classes_def classifyLocalPath_def Let_def)

lemma source_hidden: "path_hidden p (privacySafeEvidenceSource tx p)"
  using classified_hidden [of p tx] evidence_source_not_abs [of tx p]
  by (auto simp: path_hidden_def privacySafeEvidenceSource_def)

lemma list_all2_own_map: "list_all2 P xs (map f xs) \<longleftrightarrow> (\<forall>x \<in> set xs. P x (f x))"
  by (induction xs) auto

lemma safe_agent_hidden: "agent_hidden a (privacy_safe_agent tx a)"
  by (simp add: agent_hidden_def privacy_safe_agent_def list_all2_own_map source_hidden split: agent_status.split)

lemma safe_report_hidden: "host_hidden report (privacySafeDiscovery tx report)"
  using classified_hidden
  by (simp add: host_hidden_def privacySafeDiscovery_def list_all2_own_map safe_agent_hidden) (simp add: path_hidden_def)

section \<open>The bodies of the answers\<close>

text \<open>
  Only the proxy answers with what was sent upstream, and only the endpoints of the inventory with a report,
  which is the report of the manager after the request, gone through \<open>privacySafeDiscovery\<close>.
\<close>

fun upstream_body :: "api_body \<Rightarrow> bool" where
  "upstream_body (BodyMcp reply sent) \<longleftrightarrow> True"
| "upstream_body body \<longleftrightarrow> False"

definition own_body :: "api_body \<Rightarrow> bool" where
  "own_body body \<longleftrightarrow> \<not> upstream_body body \<and> answered_reports body = []"

lemma own_body_simps [simp]:
  "own_body (BodyError code text)" "own_body BodyPanic"
  "answered_reports body = [] \<Longrightarrow> \<not> upstream_body body \<Longrightarrow> own_body body"
  by (simp_all add: own_body_def)

definition shows_manager :: "api_library \<Rightarrow> api_reply \<times> api_state \<Rightarrow> bool" where
  "shows_manager lb answer \<longleftrightarrow>
    \<not> upstream_body (ry_Body (fst answer))
    \<and> (\<forall>report \<in> set (answered_reports (ry_Body (fst answer))).
         \<exists>m. sx_discovery (snd answer) = Some m \<and> report = privacySafeDiscovery (ly_text lb) (dm_report m))"

lemma own_shows: "own_body (ry_Body (fst answer)) \<Longrightarrow> shows_manager lb answer"
  by (simp add: own_body_def shows_manager_def)

lemma json_body [simp]: "ry_Body (writeJSON status body) = body" "ry_Body (no_store reply) = ry_Body reply"
  "ry_Body (markCompatibilityEndpoint s reply) = ry_Body reply" "ry_Body (writeError status code text) = BodyError code text"
  by (simp_all add: writeJSON_def writeError_def no_store_def markCompatibilityEndpoint_def)

lemma limit_own: "parseLimit req n = Inl reply \<Longrightarrow> own_body (ry_Body reply)"
  by (auto simp: parseLimit_def split: if_splits option.splits)

lemma admin_own: "requireLocalAdmin req = Some reply \<Longrightarrow> own_body (ry_Body reply)"
  by (auto simp: requireLocalAdmin_def split: if_splits)

lemma manager_own: "(\<And>m. own_body (ry_Body (fst (f m)))) \<Longrightarrow> own_body (ry_Body (fst (with_manager st f)))"
  by (simp add: with_manager_def case_prod_unfold Let_def split: option.split)

lemma authorize_own:
  "(\<And>result. own_body (ry_Body (answer result))) \<Longrightarrow> own_body (ry_Body (fst (authorize_with lb sv m answer req x st)))"
  by (auto simp: authorize_with_def split: option.split sum.split prod.split)

text \<open>The endpoints of the inventory.\<close>

lemma manager_shows:
  assumes "\<And>m. own_body (ry_Body (fst (f m)))
      \<or> (\<not> upstream_body (ry_Body (fst (f m)))
         \<and> answered_reports (ry_Body (fst (f m))) = [privacySafeDiscovery (ly_text lb) (dm_report (snd (f m)))])"
  shows "shows_manager lb (with_manager st f)"
proof (cases "sx_discovery st")
  case None
  then show ?thesis by (simp add: with_manager_def shows_manager_def)
next
  case (Some m)
  then show ?thesis using assms [of m]
    by (auto simp: with_manager_def shows_manager_def own_body_def case_prod_unfold Let_def)
qed

lemma agents_shows: "shows_manager lb (listAgents lb sv st)" "shows_manager lb (listDiscoveries lb st)"
  unfolding listAgents_def listDiscoveries_def by (rule manager_shows; simp)+

lemma rescan_shows: "shows_manager lb (rescanDiscoveries lb req x st)"
proof (cases "requireLocalAdmin req")
  case None
  have "shows_manager lb (with_manager st (\<lambda>m.
         case Rescan (ly_text lb) (ly_crypto lb) (iy_config x) (iy_scan x) m of
           (Inl e, m') \<Rightarrow> (writeError 500 ''discovery_rescan_failed'' (ApiDiscovery e), m')
         | (Inr report, m') \<Rightarrow> (writeJSON 200 (BodyDiscovery (privacySafeDiscovery (ly_text lb) report)), m')))"
    by (rule manager_shows) (auto simp: Rescan_def split: sum.split)
  then show ?thesis by (simp add: rescanDiscoveries_def None)
next
  case (Some reply)
  then show ?thesis using admin_own by (intro own_shows) (simp add: rescanDiscoveries_def)
qed

lemma SaveApproval_report: "SaveApproval tx cr entry w x m = (Inr (saved, report), m') \<Longrightarrow> dm_report m' = report"
  by (auto simp: SaveApproval_def Let_def split: option.splits prod.splits)

lemma DeleteApproval_report: "DeleteApproval tx cr i w x m = (Inr report, m') \<Longrightarrow> dm_report m' = report"
  by (auto simp: DeleteApproval_def Let_def split: option.splits prod.splits if_splits)

lemma save_shows: "shows_manager lb (saveApprovedAgent lb req x st)"
proof (cases "requireLocalAdmin req")
  case None
  show ?thesis
  proof (cases "decodeJSON registry_fields zero_entry (hr_Body req)")
    case None
    then show ?thesis using \<open>requireLocalAdmin req = None\<close> by (intro own_shows) (simp add: saveApprovedAgent_def)
  next
    case (Some entry)
    have "shows_manager lb (with_manager st (\<lambda>m.
              case SaveApproval (ly_text lb) (ly_crypto lb) entry (iy_written x) (iy_scan x) m of
                (Inl e, m') \<Rightarrow> (writeError 400 ''approval_not_saved'' (ApiDiscovery e), m')
              | (Inr (saved, report), m') \<Rightarrow>
                  (writeJSON 200 (BodySaved saved (privacySafeDiscovery (ly_text lb) report)), m')))"
      by (rule manager_shows) (auto dest: SaveApproval_report split: prod.split sum.split)
    then show ?thesis using None by (simp add: saveApprovedAgent_def Some)
  qed
next
  case (Some reply)
  then show ?thesis using admin_own by (intro own_shows) (simp add: saveApprovedAgent_def)
qed

lemma delete_shows: "shows_manager lb (deleteApprovedAgent lb i req x st)"
proof (cases "requireLocalAdmin req")
  case None
  have "shows_manager lb (with_manager st (\<lambda>m.
         case DeleteApproval (ly_text lb) (ly_crypto lb) i (iy_written x) (iy_scan x) m of
           (Inl e, m') \<Rightarrow> (writeError 404 ''approval_not_found'' (ApiDiscovery e), m')
         | (Inr report, m') \<Rightarrow> (writeJSON 200 (BodyDeleted (privacySafeDiscovery (ly_text lb) report)), m')))"
    by (rule manager_shows) (auto dest: DeleteApproval_report split: prod.split sum.split)
  then show ?thesis by (simp add: deleteApprovedAgent_def None)
next
  case (Some reply)
  then show ?thesis using admin_own by (intro own_shows) (simp add: deleteApprovedAgent_def)
qed

text \<open>Every endpoint but the proxy.\<close>

lemma serve_shows:
  assumes "ep \<noteq> EpMcp"
  shows "shows_manager lb (serve lb sv ep req x st)"
proof (cases ep)
  case EpListPermits
  then show ?thesis using limit_own by (intro own_shows) (simp add: listPermits_def Let_def case_prod_unfold split: sum.split)
next
  case (EpGetPermit i)
  then show ?thesis by (intro own_shows) (simp add: getPermit_def case_prod_unfold Let_def split: option.split)
next
  case (EpRevokePermit i)
  then show ?thesis using admin_own by (intro own_shows) (auto simp: revokePermit_def split: option.split prod.split)
next
  case EpVerifyPermit
  then show ?thesis by (intro own_shows) (simp add: verifyPermit_def split: option.split sum.split prod.split)
next
  case EpIngestRuntimeEvent
  then show ?thesis by (intro own_shows) (simp add: ingestRuntimeEvent_def split: option.split prod.split)
next
  case (EpCompleteExecution i)
  then show ?thesis by (intro own_shows) (simp add: api_complete_def split: option.split sum.split prod.split)
next
  case (EpRunDemoScenario i)
  then show ?thesis
    by (intro own_shows) (auto simp: runDemoScenario_def run_scenario_def Let_def split: option.split sum.split prod.split)
next
  case EpListSessionEvents
  then show ?thesis using limit_own by (intro own_shows) (simp add: listSessionEvents_def Let_def split: sum.split)
next
  case EpListAgents
  then show ?thesis by (simp add: agents_shows)
next
  case EpListDiscoveries
  then show ?thesis by (simp add: agents_shows)
next
  case EpRescanDiscoveries
  then show ?thesis by (simp add: rescan_shows)
next
  case EpSaveApprovedAgent
  then show ?thesis by (simp add: save_shows)
next
  case (EpDeleteApprovedAgent i)
  then show ?thesis by (simp add: delete_shows)
qed (rule own_shows, insert assms limit_own, simp add: manager_own authorize_own list_records_def health_def overview_def Let_def
  listPermitDemos_def runtimeCoverage_def listPolicies_def listScenarios_def
  listApprovedAgents_def authorizeAction_def api_authorize_def split: sum.split)+

lemma serve_upstream: "ep \<noteq> EpMcp \<Longrightarrow> \<not> upstream_body (ry_Body (fst (serve lb sv ep req x st)))"
  using serve_shows by (simp add: shows_manager_def)

lemma serve_hidden:
  assumes "serve lb sv ep req x st = (reply, st')" "report \<in> set (answered_reports (ry_Body reply))"
  shows "\<exists>m. sx_discovery st' = Some m \<and> host_hidden (dm_report m) report"
proof (cases "ep = EpMcp")
  case True
  then show ?thesis using assms by (auto simp: case_prod_unfold Let_def split: option.splits)
next
  case False
  have "shows_manager lb (reply, st')" using serve_shows [OF False, of lb sv req x st] assms(1) by simp
  then obtain m where "sx_discovery st' = Some m" "report = privacySafeDiscovery (ly_text lb) (dm_report m)"
    using assms(2) by (auto simp: shows_manager_def)
  then show ?thesis using safe_report_hidden by blast
qed

text \<open>A request that sent something upstream went through the proxy of the server.\<close>

lemma http_upstream:
  assumes "http_step lb sv rx st = (reply, st')" "ry_Body reply = BodyMcp answer sent"
  obtains p where "sv_mcpHandler sv = Some p"
    "Proxy_ServeHTTP (ly_go lb) (ly_crypto lb) (router_gate (ly_crypto lb) (iy_mcp_gate (snd rx))) p (iy_mcp_client (snd rx))
       (iy_mcp_now (snd rx)) (proxy_request (fst rx)) (sx_router st) = ((answer, sent), sx_router st')"
proof -
  have body: "ry_Body (fst (serve lb sv (endpoint_of sv (fst rx)) (fst rx) (snd rx) st)) = BodyMcp answer sent"
    "st' = snd (serve lb sv (endpoint_of sv (fst rx)) (fst rx) (snd rx) st)"
    using handled_by [OF assms(1) [unfolded http_step_def]] assms(2) by simp_all
  then have ep: "endpoint_of sv (fst rx) = EpMcp" using serve_upstream by (metis upstream_body.simps(1))
  show thesis
  proof (cases "sv_mcpHandler sv")
    case None
    then show thesis using body(1) unfolding ep by simp
  next
    case (Some p)
    show thesis by (rule that [OF Some]) (use body Some in \<open>simp add: ep case_prod_unfold Let_def prod_eq_iff\<close>)
  qed
qed

lemma http_called:
  assumes "http_step lb sv rx st = (reply, st')" "http_called_with token (rx, reply)"
  obtains i where "token_names (ly_crypto lb) token i"
    "\<exists>q. record_at (api_store st) i = Some q \<and> pr_State q = StateIssued"
    "\<exists>q. record_at (api_store st') i = Some q \<and> pr_State q = StateConsumed"
proof -
  obtain answer sent where b: "ry_Body reply = BodyMcp answer sent" "sent \<noteq> []" "is_tool_call (proxy_request (fst rx))"
    "request_token (proxy_request (fst rx)) = Some token"
    using assms(2) by (auto simp: http_called_with_def split: api_body.splits)
  obtain p where p: "Proxy_ServeHTTP (ly_go lb) (ly_crypto lb) (router_gate (ly_crypto lb) (iy_mcp_gate (snd rx))) p
      (iy_mcp_client (snd rx)) (iy_mcp_now (snd rx)) (proxy_request (fst rx)) (sx_router st) = ((answer, sent), sx_router st')"
    by (rule http_upstream [OF assms(1) b(1)])
  define y where "y = PlaneHTTP (proxy_request (fst rx)) (iy_mcp_client (snd rx)) (iy_mcp_now (snd rx)) (iy_mcp_gate (snd rx))"
  have step: "plane_step (ly_go lb) (ly_crypto lb) (sv_router sv) p y (sx_router st) = (PlaneAnswer answer sent, sx_router st')"
    by (simp add: y_def p)
  have "tool_called_with token (y, PlaneAnswer answer sent)" using b(2-) by (simp add: y_def)
  with step obtain i where "token_names (ly_crypto lb) token i"
    "\<exists>q. record_at (api_store st) i = Some q \<and> pr_State q = StateIssued"
    "\<exists>q. record_at (api_store st') i = Some q \<and> pr_State q = StateConsumed"
    by (rule plane_called)
  then show thesis by (rule that)
qed

lemma http_consumes:
  assumes "http_step lb sv rx st = (reply, st')" "http_called_for (ly_crypto lb) i (rx, reply)"
  shows "(\<exists>q. record_at (api_store st) i = Some q \<and> pr_State q = StateIssued)
    \<and> (\<exists>q'. record_at (api_store st') i = Some q' \<and> pr_State q' = StateConsumed)"
  using assms token_names_unique unfolding http_called_for_def by (metis http_called)

lemma http_keeps:
  assumes "http_step lb sv rx st = (reply, st')" "record_at (api_store st) i = Some q"
  shows "\<exists>q'. record_at (api_store st') i = Some q' \<and> pr_Claims q' = pr_Claims q \<and> (pr_State q \<noteq> StateIssued \<longrightarrow> q' = q)"
proof -
  have "by_calls (\<lambda>c. True) (api_store st) (api_store (snd (http_step lb sv rx st)))"
    unfolding http_step_def handler_state by (rule serve_calls) (simp_all add: intake_within_def)
  then show ?thesis using by_calls_moves [of "\<lambda>c. True" "api_store st" "api_store st'" i q] assms by (simp add: moves_def)
qed

interpretation http: single_use "http_step lb sv" "\<lambda>st i. record_at (api_store st) i" "http_called_for (ly_crypto lb)" for lb sv
  by unfold_locales (rule http_keeps, assumption+, rule http_consumes)

section \<open>The inventory\<close>

lemma manager_read_only [simp]: "sx_discovery (snd (with_manager st (\<lambda>m. (f m, m)))) = sx_discovery st"
  by (simp add: with_manager_def split: option.split)

lemma not_admin:
  assumes "requireLocalAdmin req = Some refusal"
  shows "sx_discovery (snd (serve lb sv ep req x st)) = sx_discovery st"
proof (cases ep)
  case EpListPermits
  then show ?thesis by (simp add: listPermits_def case_prod_unfold Let_def split: sum.split)
next
  case (EpGetPermit i)
  then show ?thesis by (simp add: getPermit_def case_prod_unfold Let_def)
next
  case EpVerifyPermit
  then show ?thesis by (simp add: verifyPermit_def split: option.split sum.split prod.split)
next
  case EpIngestRuntimeEvent
  then show ?thesis by (simp add: ingestRuntimeEvent_def split: option.split prod.split)
next
  case (EpCompleteExecution i)
  then show ?thesis by (simp add: api_complete_def split: option.split sum.split prod.split)
next
  case (EpRunDemoScenario i)
  then show ?thesis by (simp add: runDemoScenario_def Let_def split: option.split sum.split prod.split)
next
  case EpMcp
  then show ?thesis by (simp add: case_prod_unfold Let_def split: option.split)
qed (simp_all add: assms revokePermit_def rescanDiscoveries_def saveApprovedAgent_def deleteApprovedAgent_def listAgents_def
  listDiscoveries_def listApprovedAgents_def authorizeAction_def api_authorize_def authorize_with_def
  split: option.split sum.split prod.split)

fun admin_endpoint :: "endpoint \<Rightarrow> bool" where
  "admin_endpoint (EpRevokePermit i) = True"
| "admin_endpoint EpRescanDiscoveries = True"
| "admin_endpoint EpSaveApprovedAgent = True"
| "admin_endpoint (EpDeleteApprovedAgent i) = True"
| "admin_endpoint ep = False"

lemma admin_refused:
  "requireLocalAdmin req = Some refusal \<Longrightarrow> admin_endpoint ep \<Longrightarrow> serve lb sv ep req x st = (refusal, st)"
  by (cases ep) (simp_all add: revokePermit_def rescanDiscoveries_def saveApprovedAgent_def deleteApprovedAgent_def)

section \<open>A server without a source of identity\<close>

text \<open>No record of the store is of an execution permit.\<close>

definition only_simulations :: "memory_store \<Rightarrow> bool" where
  "only_simulations s \<longleftrightarrow> (\<forall>i r. record_at s i = Some r \<longrightarrow> of_class ClassSimulation (pr_Claims r))"

lemma only_simulations_calls:
  assumes "by_calls (of_class ClassSimulation) s s'" "only_simulations s"
  shows "only_simulations s'"
  unfolding only_simulations_def
proof (intro allI impI)
  fix i r
  assume "record_at s' i = Some r"
  from by_calls_origin [OF assms(1) this] assms(2) show "of_class ClassSimulation (pr_Claims r)"
    by (fastforce simp: only_simulations_def)
qed

definition without_identity :: "api_server \<Rightarrow> bool" where
  "without_identity sv \<longleftrightarrow> (\<forall>q i now. isl (sv_authorizationIntake sv q i now))"

lemma unidentified_step:
  assumes "without_identity sv" "only_simulations (api_store st)" "http_step lb sv rx st = (reply, st')"
  shows "only_simulations (api_store st')"
    "ry_Body reply = BodyMcp answer sent \<Longrightarrow> is_tool_call (proxy_request (fst rx)) \<Longrightarrow> sent = []"
proof -
  have "by_calls (of_class ClassSimulation) (api_store st) (api_store (snd (http_step lb sv rx st)))"
    unfolding http_step_def handler_state
    by (rule serve_calls) (use assms(1) in \<open>simp_all add: intake_within_def without_identity_def\<close>)
  then show "only_simulations (api_store st')" using only_simulations_calls assms(2,3) by simp
  assume body: "ry_Body reply = BodyMcp answer sent" and call: "is_tool_call (proxy_request (fst rx))"
  obtain p where p: "Proxy_ServeHTTP (ly_go lb) (ly_crypto lb) (router_gate (ly_crypto lb) (iy_mcp_gate (snd rx))) p
      (iy_mcp_client (snd rx)) (iy_mcp_now (snd rx)) (proxy_request (fst rx)) (sx_router st) = ((answer, sent), sx_router st')"
    by (rule http_upstream [OF assms(3) body])
  show "sent = []"
  proof (rule ccontr)
    assume "sent \<noteq> []"
    obtain c :: prepared_call and v st1 where v: "gt_verify (router_gate (ly_crypto lb) (iy_mcp_gate (snd rx))) (ca_Token c)
        (single_proof (mr_Header (proxy_request (fst rx)))) (pe_action (ca_Prepared c)) (mr_Method (proxy_request (fst rx)))
        (mr_Path (proxy_request (fst rx))) (sx_router st) = ((v, None), st1)" "pv_Verified v"
      by (rule tool_call_sent [OF p call \<open>sent \<noteq> []\<close>]) blast
    obtain cl where "permit_evidence (ly_crypto lb) (rw_verifier (sx_router st)) (api_store st) (ca_Token c) ClassExecution cl
        (max (gi_now (iy_mcp_gate (snd rx))) (gi_later (iy_mcp_gate (snd rx))))"
      by (rule router_gate_verified [OF v]) blast
    then show False using assms(2) unfolding permit_evidence_def only_simulations_def by (metis permit_class.distinct(1))
  qed
qed

lemma unidentified_run:
  assumes "without_identity sv" "only_simulations (api_store st)"
  shows "only_simulations (api_store (snd (run_ops (http_step lb sv) ops st)))
    \<and> (\<forall>(rx, reply) \<in> set (zip ops (fst (run_ops (http_step lb sv) ops st))). \<forall>answer sent.
         ry_Body reply = BodyMcp answer sent \<longrightarrow> is_tool_call (proxy_request (fst rx)) \<longrightarrow> sent = [])"
  using assms(2)
proof (induction ops arbitrary: st)
  case (Cons rx ops)
  obtain reply st1 where x: "http_step lb sv rx st = (reply, st1)" by (rule prod.exhaust)
  note step = unidentified_step [OF assms(1) Cons.prems x]
  show ?case using Cons.IH [OF step(1)] step(2) by (auto simp: x Let_def case_prod_unfold)
qed simp

text \<open>A server starts with an empty store.\<close>

lemma register_keeps_store:
  "registerWorkloadPublicKeys cr keys bindings st = (out, st') \<Longrightarrow> rw_store st' = rw_store st"
  by (induction cr keys bindings st rule: registerWorkloadPublicKeys.induct)
    (auto simp: RegisterWorkload_def split: sum.splits option.splits prod.splits)

lemma start_server_store:
  assumes "start_server lb nl fl x = Inr (sv, st)"
  shows "record_at (api_store st) i = None"
proof -
  obtain cfg store r st0 bindings st1 where r: "start_router lb cfg store x = Inr (r, st0)"
    "registerWorkloadPublicKeys (ly_crypto lb) (fl_workloadPublicKeys fl) [] st0 = (Inr bindings, st1)" "sx_router st = st1"
    using assms by (auto simp: start_server_def split: sum.splits prod.splits)
  then have "rw_store st0 = NewMemoryStore"
    by (auto simp: start_router_def NewRouter_def NewVerifier_def Let_def split: sum.splits if_splits option.splits permit_error.splits prod.splits)
  then show ?thesis using r(3) register_keeps_store [OF r(2)] by (simp add: NewMemoryStore_def)
qed

lemma start_server_intake:
  assumes "start_server lb nl fl x = Inr (sv, st)"
  obtains resolve mode bindings where "start_intake nl fl bindings = Inr (resolve, mode)" "sv_authorizationIntake sv = resolve"
  using assms by (auto simp: start_server_def NewWithOptions_def split: sum.splits prod.splits)

end
