(* ===== verification/Http_Properties.thy ===== *)
theory Http_Properties
  imports Http_Facts Gateway_Samples Inventory_Properties
begin

text \<open>
  The properties of the HTTP server (\<open>internal/httpapi/server.go\<close>) and of the server that \<open>cmd/server/main.go\<close> starts.
\<close>

section \<open>A server for the witnesses\<close>

definition sample_wire :: wire_library where
  "sample_wire = \<lparr>wl_parse_time = (\<lambda>s. None)\<rparr>"

definition sample_api_library :: api_library where
  "sample_api_library =
    \<lparr>ly_go = sample_library, ly_crypto = sample_crypto, ly_text = sample_text, ly_wire = sample_wire\<rparr>"

definition sample_net :: net_library where
  "sample_net =
    \<lparr>nl_parse_addr_port = (\<lambda>s. None), nl_parse_prefix = (\<lambda>s. None), nl_prefix_text = (\<lambda>p. []), nl_split_host = (\<lambda>s. None),
     nl_parse_ip = (\<lambda>s. None)\<rparr>"

text \<open>The flags of a deployment with one executor key and one upstream, and without a source of identity.\<close>

definition sample_flags :: server_flags where
  "sample_flags = default_flags
    \<lparr>fl_enableExperimentalInventory := True, fl_mcpUpstream := ''http://bank'',
     fl_workloadPublicKeys := [''x1='' @ b64_encode (replicate 32 (CHR ''e''))]\<rparr>"

definition small_payment :: payment_config where
  "small_payment = sample_payment\<lparr>py_MaxAmountMinorByCurrency := [(''EUR'', 5)]\<rparr>"

definition small_profile :: payment_profile where
  "small_profile = sample_profile\<lparr>pf_config := small_payment, pf_currencies := [(''EUR'', 5)]\<rparr>"

definition sample_semantics :: semantic_config where
  "sample_semantics = \<lparr>sm_PaymentSendV1 = small_payment, sm_WorkspaceWriteV1 = zero_workspace\<rparr>"

definition sample_startup :: startup_inputs where
  "sample_startup =
    \<lparr>sq_policy = Some (sample_policy\<lparr>cf_SemanticActions := sample_semantics\<rparr>),
     sq_scenarios = Some [DirectoryEntry ''one.json'' False (Some ''{}'')], sq_audit = AuditMissing, sq_recordLength = (\<lambda>r. 400),
     sq_discovery = ConfigContent sample_discovery [], sq_registry = RegistryMissing,
     sq_scan = sample_scan_inputs, sq_privateKey = replicate 64 (CHR ''k'')\<rparr>"

definition sample_start :: "start_error + (api_server \<times> api_state)" where
  "sample_start = start_server sample_api_library sample_net sample_flags sample_startup"

text \<open>The profile that the configuration gives, up to its binding.\<close>

definition bound_registry :: "string \<Rightarrow> registry" where
  "bound_registry b =
    \<lparr>rs_byTool = [(''payment.send'', PaymentSendV1 (small_profile\<lparr>pf_binding := b\<rparr>))],
     rs_byProfileID = [(PaymentSendV1ID, PaymentSendV1 (small_profile\<lparr>pf_binding := b\<rparr>))]\<rparr>"

lemma sample_registry_made:
  obtains b where "NewRegistryFromConfig sample_library sample_crypto sample_semantics = Inr (bound_registry b)"
proof -
  let ?json = "JObj [(''credential_mode'', JStr ''anonymous''), (''profile_config'', payment_config_json small_payment),
    (''schema'', JStr ''aegis.prepared-execution/v2''), (''upstream_url'', JStr ''http://bank'')]"
  have "json_ok True 0 ?json" "length (marshal_json ?json) \<le> MaxArgumentsBytes" by code_simp+
  then have "CanonicalizeJSON (marshal_json ?json) = Inr (write_canonical ?json)" by (rule Canonicalize_marshal)
  then obtain b where b: "executionBinding sample_crypto (payment_config_json small_payment) ''http://bank'' = Inr b"
    by (simp add: executionBinding_def)
  have url: "small_payment\<lparr>py_UpstreamURL := ''http://bank''\<rparr> = small_payment" by (simp add: small_payment_def sample_payment_def)
  have payment: "NewPaymentSendV1 sample_library sample_crypto small_payment =
      map_sum id (\<lambda>b. small_profile\<lparr>pf_binding := b\<rparr>)
        (executionBinding sample_crypto (payment_config_json (small_payment\<lparr>py_UpstreamURL := ''http://bank''\<rparr>)) ''http://bank'')"
  proof -
    have checks: "py_ProfileID small_payment = PaymentSendV1ID" "py_MCPTool small_payment = ''payment.send''"
      "trim_space (py_Capability small_payment) \<noteq> []" "trim_space (py_Resource small_payment) \<noteq> []"
      "trim_space (py_Operation small_payment) \<noteq> []" "trim_space (py_Audience small_payment) \<noteq> []"
      "trim_space (py_UpstreamURL small_payment) = ''http://bank''"
      "payment_currencies sample_library small_payment (py_AllowedCurrencies small_payment) [] = Inr [(''EUR'', 5)]"
      "length (py_MaxAmountMinorByCurrency small_payment) = 1"
      "payment_recipients (py_AllowedRecipients small_payment) [] = Inr [''bob'']" by code_simp+
    have "gl_parse_url sample_library ''http://bank'' = Some (pf_upstream small_profile)" by (simp add: sample_library_def small_profile_def)
    moreover have "absolute_url (pf_upstream small_profile)" "plain_url (pf_upstream small_profile)"
      "ur_String (pf_upstream sample_profile) = ''http://bank''" by code_simp+
    ultimately show ?thesis
      by (simp add: NewPaymentSendV1_def checks small_profile_def sample_profile_def split: sum.split)
  qed
  have "NewSemanticRegistry [Some (PaymentSendV1 (small_profile\<lparr>pf_binding := b\<rparr>))] = Inr (bound_registry b)"
    by code_simp
  moreover have "paymentConfigPresent small_payment" "\<not> workspaceConfigPresent zero_workspace" by code_simp+
  ultimately show thesis
    using that [of b] by (simp add: NewRegistryFromConfig_def sample_semantics_def payment url b)
qed

text \<open>The parts of the start.\<close>

lemma not_isl: "\<not> isl y \<Longrightarrow> \<exists>z. y = Inr z"
  by (cases y) auto

lemma sample_files:
  obtains cfg scenarios store where "load_files sample_api_library sample_flags sample_startup = Inr (cfg, scenarios, store)"
    "cf_SemanticActions cfg = sample_semantics" "trim_space (pp_Issuer (cf_Permits cfg)) = ''aegis''"
proof -
  have "map_sum (\<lambda>e. ()) (\<lambda>(c, s, a). (cf_SemanticActions c = sample_semantics, trim_space (pp_Issuer (cf_Permits c))))
      (load_files sample_api_library sample_flags sample_startup) = Inr (True, ''aegis'')" by code_simp
  then show thesis using that by (auto simp: map_sum_def split: sum.splits)
qed

lemma sample_manager_made:
  obtains m where "start_discovery sample_api_library sample_flags sample_startup = Inr (Some m)"
proof -
  have "map_sum (\<lambda>e. ()) (\<lambda>m. m = None) (start_discovery sample_api_library sample_flags sample_startup) = Inr False" by code_simp
  then show thesis using that by (auto simp: map_sum_def split: sum.splits)
qed

lemma sample_router_made:
  assumes "cf_SemanticActions cfg = sample_semantics" "trim_space (pp_Issuer (cf_Permits cfg)) = ''aegis''"
  obtains r st0 b where "start_router sample_api_library cfg store sample_startup = Inr (r, st0)"
    "ro_registry r = Some (bound_registry b)" "vf_workloadKeys (rw_verifier st0) = Some NewRegistry"
proof -
  obtain b where b: "NewRegistryFromConfig sample_library sample_crypto sample_semantics = Inr (bound_registry b)"
    by (rule sample_registry_made)
  have "map_sum (\<lambda>e. ()) (\<lambda>p. isl (NewIssuer ''aegis'' (Some p) True)) (NewEphemeral sample_crypto (sq_privateKey sample_startup))
    = Inr False" by code_simp
  then obtain p where p: "NewEphemeral sample_crypto (sq_privateKey sample_startup) = Inr p" "\<not> isl (NewIssuer ''aegis'' (Some p) True)"
    by (auto simp: map_sum_def split: sum.splits)
  obtain i where "NewIssuer ''aegis'' (Some p) True = Inr i" using not_isl [OF p(2)] ..
  then show thesis using that assms b p(1)
    by (simp add: start_router_def NewRouter_def NewVerifier_def sample_api_library_def)
qed

lemma sample_keys_registered:
  assumes "vf_workloadKeys (rw_verifier st0) = Some NewRegistry"
  obtains bindings st1 where
    "registerWorkloadPublicKeys sample_crypto (fl_workloadPublicKeys sample_flags) [] st0 = (Inr bindings, st1)" "bindings \<noteq> []"
proof -
  have "map (workload_key) (fl_workloadPublicKeys sample_flags) = [Inr (''x1'', replicate 32 (CHR ''e''))]" by code_simp
  then obtain key where v: "fl_workloadPublicKeys sample_flags = [key]" "workload_key key = Inr (''x1'', replicate 32 (CHR ''e''))"
    by auto
  have "fst (Registry_Register (Some NewRegistry) ''x1'' (replicate 32 (CHR ''e''))) = None" by code_simp
  then obtain reg where "Registry_Register (Some NewRegistry) ''x1'' (replicate 32 (CHR ''e'')) = (None, reg)"
    by (metis prod.collapse)
  then show thesis
    using that by (simp add: v RegisterWorkload_def RegisterWorkloadPublicKey_def assms Thumbprint_def PublicKeySize_def)
qed

lemma sample_proxy_starts:
  assumes "ro_registry r = Some (bound_registry b)" "bindings \<noteq> []"
  obtains p where "start_proxy sample_api_library sample_flags bindings r = Inr (Some p)"
proof -
  have n: "\<not> isl (NewProxy sample_library True (Some (bound_registry b)) ''http://bank'' None)"
    and u: "trim_space (fl_mcpUpstream sample_flags) = ''http://bank''" by code_simp+
  obtain p where "NewProxy sample_library True (Some (bound_registry b)) ''http://bank'' None = Inr p" using not_isl [OF n] ..
  then show thesis using that assms by (simp add: start_proxy_def sample_api_library_def u)
qed

lemma sample_starts:
  obtains sv st where "sample_start = Inr (sv, st)" "sv_mcpHandler sv \<noteq> None" "sv_experimentalInventory sv" "sx_discovery st \<noteq> None"
proof -
  obtain cfg scenarios store where files: "load_files sample_api_library sample_flags sample_startup = Inr (cfg, scenarios, store)"
    "cf_SemanticActions cfg = sample_semantics" "trim_space (pp_Issuer (cf_Permits cfg)) = ''aegis''" by (rule sample_files)
  obtain m where m: "start_discovery sample_api_library sample_flags sample_startup = Inr (Some m)" by (rule sample_manager_made)
  obtain r st0 b where r: "start_router sample_api_library cfg store sample_startup = Inr (r, st0)"
    "ro_registry r = Some (bound_registry b)" "vf_workloadKeys (rw_verifier st0) = Some NewRegistry"
    by (rule sample_router_made [OF files(2,3)])
  obtain bindings st1 where k: "registerWorkloadPublicKeys sample_crypto (fl_workloadPublicKeys sample_flags) [] st0 = (Inr bindings, st1)"
    "bindings \<noteq> []" by (rule sample_keys_registered [OF r(3)])
  obtain p where p: "start_proxy sample_api_library sample_flags bindings r = Inr (Some p)"
    by (rule sample_proxy_starts [OF r(2) k(2)])
  have flags: "\<not> fl_allowDevelopmentIntake sample_flags" "fl_trustedProxyCIDRs sample_flags = []"
    "fl_trustedProxyProviderID sample_flags = []" "fl_enableExperimentalInventory sample_flags"
    by (simp_all add: sample_flags_def default_flags_def)
  have crypto: "ly_crypto sample_api_library = sample_crypto" by (simp add: sample_api_library_def)
  show thesis
    using that by (simp add: sample_start_def start_server_def files(1) m r(1) k(1) p flags crypto start_intake_def
      configureAuthorizationIntake_def NewWithOptions_def)
qed

section \<open>One token, one tool call\<close>

text \<open>C3: over every sequence of HTTP requests, to any endpoint, in any order and whatever they read from outside, one permit token
  lets at most one tool call through the server.\<close>

theorem http_one_tool_call_per_token:
  "count_replies (http_called_with token) requests (fst (run_ops (http_step lb sv) requests st)) \<le> 1"
proof (rule http.granted_once_by_name [where names = "token_names (ly_crypto lb) token" and lb = lb])
  fix rx s reply s'
  assume step: "http_step lb sv rx s = (reply, s')" and called: "http_called_with token (rx, reply)"
  obtain i where "token_names (ly_crypto lb) token i" by (rule http_called [OF step called])
  then show "\<exists>i. token_names (ly_crypto lb) token i \<and> http_called_for (ly_crypto lb) i (rx, reply)"
    using called by (auto simp: http_called_for_def)
qed (rule token_names_unique)

section \<open>Without a source of identity\<close>

text \<open>C4: a server that was started without a source of identity is closed: whatever requests it then serves, its store holds
  simulation permits only, and no tool call is ever sent upstream.\<close>

theorem no_identity_no_tool_call:
  assumes "start_server lb nl fl x = Inr (sv, st)"
    and "\<not> fl_allowDevelopmentIntake fl" "fl_trustedProxyCIDRs fl = []" "fl_trustedProxyProviderID fl = []"
    and "run_ops (http_step lb sv) requests st = (replies, st')"
  shows "(\<forall>i r. record_at (api_store st') i = Some r \<longrightarrow> cl_PermitClass (pr_Claims r) = ClassSimulation)
    \<and> (\<forall>(rx, reply) \<in> set (zip requests replies). \<forall>answer sent.
         ry_Body reply = BodyMcp answer sent \<longrightarrow> is_tool_call (proxy_request (fst rx)) \<longrightarrow> sent = [])"
proof -
  obtain resolve mode bindings where "start_intake nl fl bindings = Inr (resolve, mode)" "sv_authorizationIntake sv = resolve"
    by (rule start_server_intake [OF assms(1)])
  then have "sv_authorizationIntake sv = RejectAll_Resolve ()"
    using assms(2-4) by (simp add: start_intake_def configureAuthorizationIntake_def)
  then have "without_identity sv" by (simp add: without_identity_def RejectAll_Resolve_def)
  moreover have "only_simulations (api_store st)" using start_server_store [OF assms(1)] by (simp add: only_simulations_def)
  ultimately have "only_simulations (api_store (snd (run_ops (http_step lb sv) requests st)))
    \<and> (\<forall>(rx, reply) \<in> set (zip requests (fst (run_ops (http_step lb sv) requests st))). \<forall>answer sent.
         ry_Body reply = BodyMcp answer sent \<longrightarrow> is_tool_call (proxy_request (fst rx)) \<longrightarrow> sent = [])"
    by (rule unidentified_run)
  then show ?thesis unfolding assms(5) by (simp add: only_simulations_def)
qed

definition sample_api_request :: api_request where
  "sample_api_request =
    \<lparr>hr_Method = ''POST'', hr_Path = ''/mcp'', hr_Segments = [''mcp''], hr_Limit = [], hr_RemoteAddr = ''10.0.0.1:80'',
     hr_Header = mr_Header sample_http, hr_Body = mr_Body sample_http\<rparr>"

lemma sample_request_is_call: "is_tool_call (proxy_request sample_api_request)"
proof -
  have "proxy_request sample_api_request = sample_http"
    by (simp add: proxy_request_def sample_api_request_def sample_http_def)
  then show ?thesis using sample_admits by (simp add: is_tool_call_def sample_rpc_def)
qed

theorem no_identity_no_tool_call_witness:
  "\<exists>sv st. sample_start = Inr (sv, st) \<and> sv_mcpHandler sv \<noteq> None
     \<and> (\<forall>x answer sent. ry_Body (fst (http_step sample_api_library sv (sample_api_request, x) st)) = BodyMcp answer sent \<longrightarrow> sent = [])"
proof -
  obtain sv st where s: "sample_start = Inr (sv, st)" "sv_mcpHandler sv \<noteq> None" by (rule sample_starts)
  have flags: "\<not> fl_allowDevelopmentIntake sample_flags" "fl_trustedProxyCIDRs sample_flags = []"
    "fl_trustedProxyProviderID sample_flags = []" by (simp_all add: sample_flags_def default_flags_def)
  have "sent = []" if "ry_Body (fst (http_step sample_api_library sv (sample_api_request, x) st)) = BodyMcp answer sent"
    for x answer sent
    using no_identity_no_tool_call [OF s(1) [unfolded sample_start_def] flags prod.collapse [symmetric], of "[(sample_api_request, x)]"]
      that sample_request_is_call by (simp add: Let_def case_prod_unfold)
  then show ?thesis using s by blast
qed

section \<open>The local administrator\<close>

text \<open>C5: without the header of the local administrator no request changes the inventory: neither the registry in memory or on
  disk nor the last report. A request to scan, to save or delete an approval, or to revoke a permit is refused with 403
  and changes nothing at all.\<close>

theorem admin_header_required:
  assumes "header_get (hr_Header req) ''X-Aegis-Admin'' \<noteq> ''local-ui''" "Handler lb sv req x st = (reply, st')"
  shows "sx_discovery st' = sx_discovery st
    \<and> (admin_endpoint (endpoint_of sv req) \<longrightarrow> ry_Status reply = 403 \<and> st' = st)"
proof -
  obtain refusal where refused: "requireLocalAdmin req = Some refusal" "ry_Status refusal = 403"
    using assms(1) by (auto simp: requireLocalAdmin_def writeError_def writeJSON_def)
  have state: "st' = snd (serve lb sv (endpoint_of sv req) req x st)"
    and status: "ry_Status reply = ry_Status (fst (serve lb sv (endpoint_of sv req) req x st))"
    using handled_by [OF assms(2)] by simp_all
  have "sx_discovery st' = sx_discovery st" unfolding state by (rule not_admin [OF refused(1)])
  moreover have "ry_Status reply = 403 \<and> st' = st" if "admin_endpoint (endpoint_of sv req)"
    unfolding state status admin_refused [OF refused(1) that] using refused(2) by simp
  ultimately show ?thesis by blast
qed

theorem admin_header_required_witness:
  "\<exists>sv st m. sample_start = Inr (sv, st) \<and> sx_discovery st = Some m
     \<and> (\<forall>x. sx_discovery (snd (Handler sample_api_library sv
          (sample_api_request\<lparr>hr_Header := [], hr_Segments := [''api'', ''discoveries'', ''rescan'']\<rparr>) x st)) = Some m)"
proof -
  let ?req = "sample_api_request\<lparr>hr_Header := [], hr_Segments := [''api'', ''discoveries'', ''rescan'']\<rparr>"
  obtain sv st where s: "sample_start = Inr (sv, st)" "sx_discovery st \<noteq> None" by (rule sample_starts)
  have "header_get (hr_Header ?req) ''X-Aegis-Admin'' \<noteq> ''local-ui''" by (simp add: header_get_def header_values_def)
  from admin_header_required [OF this prod.collapse [symmetric]]
  have "sx_discovery (snd (Handler sample_api_library sv ?req x st)) = sx_discovery st" for x by blast
  then show ?thesis using s by (intro exI [of _ sv] exI [of _ st] exI [of _ "the (sx_discovery st)"]) simp
qed

section \<open>Listings\<close>

fun listed_items :: "api_body \<Rightarrow> nat" where
  "listed_items (BodyRecords records) = length records"
| "listed_items (BodyPermits views) = length views"
| "listed_items (BodySessions events summary) = length events"
| "listed_items (BodyOverview o1) = length (oy_Recent o1)"
| "listed_items body = 0"

text \<open>The endpoints that read the parameter \<open>limit\<close>.\<close>

fun limited_endpoint :: "endpoint \<Rightarrow> bool" where
  "limited_endpoint EpListDecisions = True"
| "limited_endpoint EpListAudits = True"
| "limited_endpoint EpListPermits = True"
| "limited_endpoint EpListSessionEvents = True"
| "limited_endpoint ep = False"

lemma parsed_limit: "parseLimit req d = Inr limit \<Longrightarrow> 1 \<le> d \<Longrightarrow> d \<le> 100 \<Longrightarrow> 1 \<le> limit \<and> limit \<le> 100"
  by (auto simp: parseLimit_def split: if_splits option.splits)

lemma recent_audits: "1 \<le> limit \<Longrightarrow> length (Audit_Recent s limit) \<le> nat limit"
  by (auto simp: Audit_Recent_def)

lemma recent_window_length:
  "recent_window limit events ls = Inr es \<Longrightarrow> length events \<le> limit \<Longrightarrow> 0 < limit \<Longrightarrow> length es \<le> limit"
  by (induction limit events ls rule: recent_window.induct) (auto split: if_splits)

lemma recent_sessions_length: "Recent_Sessions path limit file = Inr es \<Longrightarrow> length es \<le> nat limit"
  by (auto simp: Recent_Sessions_def split: if_splits session_file.splits dest: recent_window_length)

text \<open>C40: what an endpoint lists is bounded by the parameter \<open>limit\<close>: a listing never has more than a hundred items, and with a
  limit that is no number from 1 to 100 the request is refused with 400 and changes nothing.\<close>

theorem listings_bounded:
  assumes "Handler lb sv req x st = (reply, st')" "limited_endpoint (endpoint_of sv req)"
  shows "listed_items (ry_Body reply) \<le> 100
    \<and> (\<forall>n. hr_Limit req \<noteq> [] \<and> atoi (hr_Limit req) = Some n \<and> 1 \<le> n \<and> n \<le> 100 \<longrightarrow> listed_items (ry_Body reply) \<le> nat n)
    \<and> (hr_Limit req \<noteq> [] \<and> (\<forall>n. atoi (hr_Limit req) = Some n \<longrightarrow> n < 1 \<or> n > 100) \<longrightarrow> ry_Status reply = 400 \<and> st' = st)"
proof -
  obtain d :: int where d: "1 \<le> d" "d \<le> 100"
    "\<And>e. parseLimit req d = Inl e \<Longrightarrow> serve lb sv (endpoint_of sv req) req x st = (e, st)"
    "\<And>limit. parseLimit req d = Inr limit \<Longrightarrow> 1 \<le> limit \<Longrightarrow>
       listed_items (ry_Body (fst (serve lb sv (endpoint_of sv req) req x st))) \<le> nat limit"
  proof (cases "endpoint_of sv req")
    case EpListDecisions
    then show thesis using that [of 30] recent_audits by (simp add: list_records_def)
  next
    case EpListAudits
    then show thesis using that [of 20] recent_audits by (simp add: list_records_def)
  next
    case EpListPermits
    then show thesis using that [of 50] by (simp add: listPermits_def Let_def case_prod_unfold)
  next
    case EpListSessionEvents
    then show thesis using that [of 30] recent_sessions_length
      by (simp add: listSessionEvents_def writeError_def Let_def split: sum.split)
  qed (use assms(2) in simp_all)
  show ?thesis
  proof (cases "parseLimit req d")
    case (Inl e)
    then show ?thesis unfolding handled_by [OF assms(1)] d(3) [OF Inl]
      by (auto simp: parseLimit_def writeError_def writeJSON_def split: if_splits option.splits)
  next
    case (Inr limit)
    note limit = parsed_limit [OF Inr d(1,2)]
    have "listed_items (ry_Body reply) \<le> nat limit"
      unfolding handled_by(3) [OF assms(1)] using d(4) [OF Inr] limit by blast
    moreover have "limit = n" if "hr_Limit req \<noteq> []" "atoi (hr_Limit req) = Some n" for n
      using Inr that by (auto simp: parseLimit_def split: if_splits)
    moreover have "nat limit \<le> 100" using limit by arith
    ultimately show ?thesis using Inr by (auto simp: parseLimit_def split: if_splits option.splits)
  qed
qed

lemma full_routes:
  assumes "sv_mcpHandler sv \<noteq> None" "sv_experimentalInventory sv" "hr_Method req = m" "hr_Segments req = p"
  shows "endpoint_of sv req = (case List.map_filter (match_route m p) (routes True True) of [] \<Rightarrow> EpStatic | e # es \<Rightarrow> e)"
proof -
  have "(sv_mcpHandler sv \<noteq> None) = True" "sv_experimentalInventory sv = True" using assms(1,2) by simp_all
  then show ?thesis unfolding endpoint_of_def by (simp only: assms(3,4))
qed

theorem listings_bounded_witness:
  "\<exists>sv st. sample_start = Inr (sv, st)
     \<and> (\<forall>x. ry_Status (fst (Handler sample_api_library sv (sample_api_request
          \<lparr>hr_Method := ''GET'', hr_Segments := [''api'', ''permits''], hr_Limit := ''101''\<rparr>) x st)) = 400)"
proof -
  let ?req = "sample_api_request\<lparr>hr_Method := ''GET'', hr_Segments := [''api'', ''permits''], hr_Limit := ''101''\<rparr>"
  obtain sv st where s: "sample_start = Inr (sv, st)" "sv_mcpHandler sv \<noteq> None" "sv_experimentalInventory sv" by (rule sample_starts)
  have "endpoint_of sv ?req = (case List.map_filter (match_route ''GET'' [''api'', ''permits'']) (routes True True) of
      [] \<Rightarrow> EpStatic | e # es \<Rightarrow> e)" by (rule full_routes [OF s(2,3)]) simp_all
  also have "\<dots> = EpListPermits" by code_simp
  finally have limited: "limited_endpoint (endpoint_of sv ?req)" by simp
  have l: "hr_Limit ?req = ''101''" by simp
  have "atoi ''101'' = Some 101" by code_simp
  then have "ry_Status (fst (Handler sample_api_library sv ?req x st)) = 400" for x
    using listings_bounded [OF prod.collapse [symmetric] limited, of sample_api_library x st] unfolding l by simp
  then show ?thesis using s(1) by blast
qed

section \<open>What a report shows of the host\<close>

text \<open>C39: the report of the inventory inside an answer does not show where things lie on the host. Whichever endpoint answers
  with a report, it shows the report of the manager entry by entry: an absolute path as a root, the source of a gap or
  the source of evidence becomes one of four classes, a relative one stays relative, and an agent that is not approved
  goes by its type in place of the directory it was found in. The theorem is about that report only: the entries of the
  registry, which \<open>/api/agents\<close> and the registry endpoints answer as they are, the names of approved agents, which come
  from the registry, the parts of relative sources and the texts of errors are outside of it.\<close>

theorem inventory_report_hides_paths:
  assumes "Handler lb sv req x st = (reply, st')" "report \<in> set (answered_reports (ry_Body reply))"
  shows "\<exists>m. sx_discovery st' = Some m \<and> host_hidden (dm_report m) report"
proof -
  obtain reply0 where s: "serve lb sv (endpoint_of sv req) req x st = (reply0, st')" "ry_Body reply0 = ry_Body reply"
    using assms(1) by (cases "serve lb sv (endpoint_of sv req) req x st") (auto simp: Handler_def)
  show ?thesis by (rule serve_hidden [OF s(1)]) (simp add: s(2) assms(2))
qed

theorem inventory_report_hides_paths_witness:
  "\<exists>sv st m. sample_start = Inr (sv, st) \<and> sx_discovery st = Some m
     \<and> host_hidden (dm_report m) (privacySafeDiscovery (ly_text sample_api_library) (dm_report m))"
proof -
  let ?req = "sample_api_request\<lparr>hr_Method := ''GET'', hr_Segments := [''api'', ''discoveries'']\<rparr>"
  obtain sv st where s: "sample_start = Inr (sv, st)" "sv_mcpHandler sv \<noteq> None" "sv_experimentalInventory sv" "sx_discovery st \<noteq> None"
    by (rule sample_starts)
  obtain m where m: "sx_discovery st = Some m" using s(4) by blast
  have "endpoint_of sv ?req = (case List.map_filter (match_route ''GET'' [''api'', ''discoveries'']) (routes True True) of
      [] \<Rightarrow> EpStatic | e # es \<Rightarrow> e)" by (rule full_routes [OF s(2,3)]) simp_all
  also have "\<dots> = EpListDiscoveries" by code_simp
  finally have ep: "endpoint_of sv ?req = EpListDiscoveries" .
  have same: "st\<lparr>sx_discovery := Some m\<rparr> = st" using m by (cases st) simp
  obtain reply where r: "Handler sample_api_library sv ?req undefined st = (reply, st)"
    "answered_reports (ry_Body reply) = [privacySafeDiscovery (ly_text sample_api_library) (dm_report m)]"
    by (simp add: Handler_def ep listDiscoveries_def with_manager_def m same)
  from inventory_report_hides_paths [OF r(1), of "privacySafeDiscovery (ly_text sample_api_library) (dm_report m)"] r(2) m s(1)
  show ?thesis by auto
qed

end
