(* ===== verification/Spec2Isabelle.thy ===== *)
theory Spec2Isabelle
  imports Canonical_Properties Permit_Properties Proof_Properties Verifier_Properties
    Policy_Properties Router_Properties Component_Properties Lifecycle_Properties Gateway_Properties
    Inventory_Properties Http_Properties
begin

text \<open>
  Aegis Router: a control plane between agents and tools. An agent's request is scored, routed and
  decided; an execution is authorised by a signed, single-use \<^emph>\<open>permit\<close> bound to one canonical
  action, and a reference monitor in front of the tool lets exactly that action through once.

  The parts and where they are modelled (paths under \<open>src/internal\<close>):

  \<^item> \<open>canonicalaction/action.go\<close>: an action, its validation, canonical JSON and digest. Theories \<open>Json\<close>
    (reader, number normal form, writer; the parts of \<open>encoding/json\<close> and \<open>strconv\<close> they rest on),
    \<open>Canonical_Action\<close>; facts in \<open>Utf8\<close>, \<open>Json_Reader\<close> (the fuel of the reader, twice the length of the
    text and more, is always enough), \<open>Json_Round_Trip\<close>, \<open>Json_Numbers\<close>, \<open>Json_Canonical\<close>, \<open>Action_Facts\<close>;
    properties in \<open>Canonical_Properties\<close>.
  \<^item> \<open>keyprovider/keyprovider.go\<close>: signing and verification keys. \<open>Key_Provider\<close>, with the locale
    \<open>key_provider\<close> of the interface \<open>Provider\<close> and its interpretation on the static provider.
  \<^item> \<open>permit/{claims,token,issuer,store,authority}.go\<close>: \<open>Permit_Claims\<close>, \<open>Permit_Token\<close> (with \<open>Json_Struct\<close>
    for the decoding of JSON into structs and \<open>Base64\<close>), \<open>Permit_Issuer\<close>, \<open>Permit_Store\<close> (with the
    locale \<open>single_use\<close>, the contract that a grant is given at most once, interpreted on the store);
    facts in \<open>Permit_Token_Facts\<close>, properties in \<open>Permit_Properties\<close>.
  \<^item> \<open>executionproof/{proof,registry}.go\<close>: proofs of possession, executor keys, nonces. \<open>Execution_Proof\<close>;
    \<open>executionconstraints/evaluator.go\<close>: \<open>Execution_Constraints\<close>; properties in \<open>Proof_Properties\<close>.
  \<^item> \<open>verifier/verifier.go\<close>: the reference monitor. \<open>Verifier\<close>; \<open>Verifier_Facts\<close> (what an allowed answer
    means), \<open>Admission\<close> (that the conditions suffice), \<open>Verifier_Threads\<close> (concurrent calls: each is a thread
    whose steps end with one access to the store, the keys or the nonces, and anyone else may move between
    two of them; \<open>single_use\<close> again, on the steps of all threads; a thread that nobody interrupts is the function
    of the code); properties in \<open>Verifier_Properties\<close>.
  \<^item> \<open>models/models.go\<close>: \<open>Models\<close>, the request, its effective context, the policy and its decision;
    \<open>config/config.go\<close>: \<open>Config_Load\<close>, the checks of a parsed configuration.
  \<^item> \<open>policy/engine.go\<close>: \<open>Policy\<close>, the chain of denials that is the one authority on permits, and
    \<open>risk/scorer.go\<close>: \<open>Risk\<close>, the advisory score; \<open>Policy_Facts\<close> (what a matching grant is, and that
    \<open>Evaluate\<close> authorises exactly those), properties in \<open>Policy_Properties\<close>.
  \<^item> \<open>semanticaction/*.go\<close>: \<open>Semantic_Action\<close>, the payment and workspace profiles, their dispatcher and
    the preparation of an execution.
  \<^item> \<open>observer/observer.go\<close>: \<open>Observer\<close>, the judgement of a runtime event against its envelope;
    \<open>detection/engine.go\<close>: \<open>Detection\<close>, the session history and its advisory findings;
    \<open>audit/store.go\<close>: \<open>Audit_Records\<close> (the record), \<open>Audit_Store\<close> (memory, log file and restart; the file
    is what each write left in it, whole or torn, what a write does is an argument of the operation, and a restart
    fails on a torn line and on one above the limit of \<open>bufio.Scanner\<close>, where the length of a record's JSON text is a parameter); \<open>intake/*.go\<close>: \<open>Intake\<close>, the providers of trusted identity, with
    the locales \<open>authorization_intake\<close> and \<open>authenticated_intake\<close> of what a provider promises. Properties in \<open>Component_Properties\<close>.
  \<^item> \<open>router/router.go\<close>: \<open>Router_Request\<close> (validation and resolution of a request, identifiers, verdicts),
    \<open>Router\<close> (the state of the router, \<open>AuthorizeTrustedAction\<close> in the parts the code has), \<open>Router_Lifecycle\<close>
    (verification, revocation, authorities, runtime events, completion); facts in \<open>Router_Facts\<close>,
    \<open>Router_Evidence\<close>; properties in \<open>Router_Properties\<close> and \<open>Lifecycle_Properties\<close>. A call of the router is one
    step: the code takes its locks several times within a call, and what another call does between them is
    not modelled, nor is it in the proxy, the control plane and the HTTP server, which rest on the router. The
    calls of the verifier, which the permit guarantees rest on, are modelled at the grain of their locks
    (\<open>Verifier_Threads\<close>), with any other call of the store between two of them.
  \<^item> \<open>adapters/mcp/proxy.go\<close>: \<open>Mcp_Proxy\<close>, the enforcement boundary. URL parsing and the answer of the upstream
    are parameters, the requests sent upstream part of the result. \<open>Gateway_Facts\<close>: every call of the router is
    a sequence of calls of the store, and which permits it may register on the way; the locale \<open>gate_steps\<close>, that the
    proxy changes the state through its gate only, and \<open>execution_gate\<close>, what it relies on in its gate, with their
    interpretations on the router. \<open>Control_Plane\<close>: the operations of the whole control plane with the proxy in
    front, in any order, again an interpretation of \<open>single_use\<close>. Properties in \<open>Gateway_Properties\<close>.
  \<^item> \<open>sessionaudit/recorder.go\<close>: \<open>Session_Audit\<close>, the recorder of an agent session, its log with the outcome of every
    write, and the reading of recent events.
  \<^item> \<open>discovery/*.go\<close>: \<open>Discovery\<close> (paths, dates, configuration and registry), \<open>Discovery_Scan\<close> (the walk over a tree of
    directory entries, evidence, reconciliation, the manager; a write of the registry goes through, fails, or is cut off with the
    error dropped, as \<open>SaveRegistry\<close> drops it), \<open>Discovery_Facts\<close> (the invariant of a scan and of the
    manager, kept by every call).
  \<^item> \<open>cmd/observe\<close> and \<open>cmd/discover\<close>: \<open>Commands\<close>, from the parsed flags on, with the child process as an argument.
    Properties of the recorder, the inventory and the observer in \<open>Inventory_Properties\<close>.
  \<^item> \<open>httpapi/server.go\<close> and \<open>scenario/load.go\<close>: \<open>Api_Wire\<close> (the decoding of request bodies and scenario files),
    \<open>Http_Api\<close> (the server, its handlers and views), \<open>Http_Server\<close> (the demo lab, the routes and the dispatch: \<open>Handler\<close> is one
    step from a request, the state and the readings to an answer and the next state).
  \<^item> \<open>cmd/server/main.go\<close>: \<open>Server_Start\<close>, the server that a set of flags and files starts. \<open>Http_Facts\<close>: what each endpoint does
    to the permit store, \<open>single_use\<close> once more on the whole server, and the closure of a server without a source of
    identity; properties in \<open>Http_Properties\<close>.
  \<^item> \<open>Samples\<close>, \<open>Router_Samples\<close>, \<open>Gateway_Samples\<close>: a concrete deployment that the witnesses run.

  Conventions. A Go struct is a record, an enumeration a datatype, an error a value of a datatype of its
  own, a nil pointer \<open>None\<close>; a result with an error is a sum. A string is the list of its bytes; \<open>Prelude\<close>
  has UTF-8 decoding as Go does it. Integers are \<open>int\<close> with the 64-bit arithmetic of Go written out where
  it can wrap (\<open>wrap64\<close>, \<open>time_unix\<close>, \<open>time_sub\<close>), the authority epoch is a 64-bit word. A Go map is an
  association list with distinct keys (\<open>gomap\<close>). Clock readings and random bytes are arguments, one per
  reading. A method that holds a mutex from start to end is one atomic step; concurrent clients are
  sequences of steps, and a call of the verifier is several. SHA-256 and Ed25519 are a parameter \<open>crypto\<close>: \<open>hash_ok\<close> and \<open>signature_ok\<close> state
  their lengths and that a genuine signature verifies, a theorem that needs more says so (\<open>collision\<close>).

  Bounds and fuel: the JSON reader has fuel from the length of its text, which \<open>Json_Reader\<close> shows to be enough; every
  other recursion is on data (the entries of a directory tree, the lines of a log, the fixtures of a demo).

  Not modelled: the embedded user interface (\<open>web/assets.go\<close>), the transport of HTTP and the listening of the server,
  the writing of answers as JSON and their constant explanatory texts, the layout of the table of \<open>cmd/discover\<close>, flag
  parsing, logging, and the redacted formatting of values; the file system, the network and the child process are
  arguments of the operations that read them.
\<close>

end
